(* ===== verification/Prelude.thy ===== *)
theory Prelude
  imports Main "HOL-Library.Word" "HOL-Library.List_Lexorder" "HOL-Library.Char_ord"
begin

text \<open>
  The prelude: what the Python code uses of its language and standard library, as
  executable definitions with the lemmas the components share.

  \<^item> exceptions and the result type \<open>pyexn + 'a\<close> with its sequencing operator;
  \<^item> operations on \<open>str\<close> (\<open>startswith\<close>, \<open>replace\<close>, \<open>partition\<close>, \<open>rsplit\<close>, \<open>split\<close>,
    \<open>strip\<close>, \<open>join\<close>), polymorphic in the characters, so that they serve both the ASCII
    strings of types and identifiers (\<open>string\<close>) and decoded text (\<open>utext\<close>, code points);

  Numbers and bytes are in \<open>PyText\<close>, the insertion-ordered \<open>dict\<close> in \<open>PyDict\<close>.

  A \<open>string\<close> is a list of code points below 256 (\<open>char\<close>): solc's type strings and
  identifiers are ASCII. Text decoded from EVM bytes is a list of code points (\<open>utext\<close>).
\<close>

section \<open>Exceptions and results\<close>

datatype pyexn =
    ValueError | TypeError | KeyError | OverflowError | RecursionError | OSError
  | AttributeError | JSONDecodeError | RuntimeError | AssertionError

type_synonym 'a res = "pyexn + 'a"

named_theorems res_simps \<open>rewriting results of fallible code\<close>

definition bindR :: "'e + 'a \<Rightarrow> ('a \<Rightarrow> 'e + 'b) \<Rightarrow> 'e + 'b" where
  "bindR m f = (case m of Inl e \<Rightarrow> Inl e | Inr x \<Rightarrow> f x)"

lemma bindR_simps [simp, res_simps]:
  "bindR (Inl e) f = Inl e"
  "bindR (Inr x) f = f x"
  by (simp_all add: bindR_def)

lemma bindR_eq_Inr [res_simps]:
  "bindR m f = Inr y \<longleftrightarrow> (\<exists>x. m = Inr x \<and> f x = Inr y)"
  by (cases m) auto

lemma bindR_cong [fundef_cong]:
  "m = m' \<Longrightarrow> (\<And>x. m' = Inr x \<Longrightarrow> f x = g x) \<Longrightarrow> bindR m f = bindR m' g"
  by (cases m') auto

fun mapR :: "('a \<Rightarrow> 'e + 'b) \<Rightarrow> 'a list \<Rightarrow> 'e + 'b list" where
  "mapR f [] = Inr []"
| "mapR f (x # xs) = bindR (f x) (\<lambda>y. bindR (mapR f xs) (\<lambda>ys. Inr (y # ys)))"

lemma mapR_cong [fundef_cong]:
  "xs = ys \<Longrightarrow> (\<And>x. x \<in> set ys \<Longrightarrow> f x = g x) \<Longrightarrow> mapR f xs = mapR g ys"
proof (induction ys arbitrary: xs)
  case (Cons y ys)
  then have "mapR f ys = mapR g ys" by (intro Cons.IH) auto
  with Cons.prems show ?case by simp
qed simp

lemma mapR_Inr [res_simps]:
  "mapR f xs = Inr ys \<longleftrightarrow> list_all2 (\<lambda>x y. f x = Inr y) xs ys"
proof (induction xs arbitrary: ys)
  case Nil
  then show ?case by auto
next
  case (Cons x xs)
  then show ?case by (cases ys) (auto simp: bindR_eq_Inr)
qed

lemma mapR_total: "(\<And>x. x \<in> set xs \<Longrightarrow> f x = Inr (g x)) \<Longrightarrow> mapR f xs = Inr (map g xs)"
  by (induction xs) auto

text \<open>\<open>any(...)\<close>, \<open>all(...)\<close> and \<open>sum(...)\<close> over a generator whose elements may raise:
  \<open>any\<close> and \<open>all\<close> stop at the first deciding element.\<close>

fun anyR :: "('a \<Rightarrow> 'e + bool) \<Rightarrow> 'a list \<Rightarrow> 'e + bool" where
  "anyR f [] = Inr False"
| "anyR f (x # xs) = bindR (f x) (\<lambda>b. if b then Inr True else anyR f xs)"

fun allR :: "('a \<Rightarrow> 'e + bool) \<Rightarrow> 'a list \<Rightarrow> 'e + bool" where
  "allR f [] = Inr True"
| "allR f (x # xs) = bindR (f x) (\<lambda>b. if b then allR f xs else Inr False)"

fun sumR :: "('a \<Rightarrow> 'e + nat) \<Rightarrow> 'a list \<Rightarrow> 'e + nat" where
  "sumR f [] = Inr 0"
| "sumR f (x # xs) = bindR (f x) (\<lambda>n. bindR (sumR f xs) (\<lambda>m. Inr (n + m)))"

lemma anyR_total: "(\<And>x. x \<in> set xs \<Longrightarrow> f x = Inr (g x)) \<Longrightarrow> anyR f xs = Inr (list_ex g xs)"
  by (induction xs) auto

lemma allR_total: "(\<And>x. x \<in> set xs \<Longrightarrow> f x = Inr (g x)) \<Longrightarrow> allR f xs = Inr (list_all g xs)"
  by (induction xs) auto

lemma sumR_total:
  "(\<And>x. x \<in> set xs \<Longrightarrow> f x = Inr (g x)) \<Longrightarrow> sumR f xs = Inr (sum_list (map g xs))"
  by (induction xs) auto

section \<open>Strings\<close>

type_synonym utext = "nat list"

text \<open>\<open>s.startswith(p)\<close>, \<open>s.endswith(p)\<close>, \<open>p in s\<close>.\<close>

fun starts :: "'a list \<Rightarrow> 'a list \<Rightarrow> bool" where
  "starts [] s = True"
| "starts (p # ps) [] = False"
| "starts (p # ps) (c # cs) = (p = c \<and> starts ps cs)"

definition ends :: "'a list \<Rightarrow> 'a list \<Rightarrow> bool" where
  "ends p s = starts (rev p) (rev s)"

fun contains :: "'a list \<Rightarrow> 'a list \<Rightarrow> bool" where
  "contains p [] = (p = [])"
| "contains p (c # cs) = (starts p (c # cs) \<or> contains p cs)"

lemma starts_iff: "starts p s \<longleftrightarrow> (\<exists>r. s = p @ r)"
  by (induction p s rule: starts.induct) auto

lemma starts_append [simp]: "starts p (p @ r)"
  by (auto simp: starts_iff)

lemma starts_Nil_right [simp]: "starts p [] \<longleftrightarrow> p = []"
  by (cases p) auto

lemma ends_iff: "ends p s \<longleftrightarrow> (\<exists>r. s = r @ p)"
  unfolding ends_def starts_iff by (metis rev_append rev_rev_ident)

lemma contains_iff: "contains p s \<longleftrightarrow> (\<exists>a b. s = a @ p @ b)"
proof (induction s)
  case (Cons c cs)
  have "(\<exists>a b. c # cs = a @ p @ b) \<longleftrightarrow> (\<exists>b. c # cs = p @ b) \<or> (\<exists>a b. cs = a @ p @ b)"
    by (metis append_Cons append_Nil list.inject neq_Nil_conv)
  with Cons show ?case by (simp add: starts_iff)
qed auto

text \<open>\<open>s.partition(p)\<close> at the first and \<open>s.rsplit(p, 1)\<close> at the last occurrence:
  \<open>None\<close> when there is none.\<close>

fun part_at :: "'a list \<Rightarrow> 'a list \<Rightarrow> ('a list \<times> 'a list) option" where
  "part_at p [] = (if p = [] then Some ([], []) else None)"
| "part_at p (c # cs) =
     (if starts p (c # cs) then Some ([], drop (length p) (c # cs))
      else map_option (\<lambda>(a, b). (c # a, b)) (part_at p cs))"

fun rpart_at :: "'a list \<Rightarrow> 'a list \<Rightarrow> ('a list \<times> 'a list) option" where
  "rpart_at p [] = (if p = [] then Some ([], []) else None)"
| "rpart_at p (c # cs) =
     (case rpart_at p cs of
        Some (a, b) \<Rightarrow> Some (c # a, b)
      | None \<Rightarrow> if starts p (c # cs) then Some ([], drop (length p) (c # cs)) else None)"

lemma part_at_Some: "part_at p s = Some (a, b) \<Longrightarrow> s = a @ p @ b"
  by (induction s arbitrary: a) (auto simp: starts_iff split: if_splits)

lemma part_at_None: "part_at p s = None \<longleftrightarrow> \<not> contains p s"
  by (induction s) auto

lemma rpart_at_Some: "rpart_at p s = Some (a, b) \<Longrightarrow> s = a @ p @ b"
  by (induction s arbitrary: a) (auto simp: starts_iff split: if_splits option.splits)

lemma rpart_at_None: "rpart_at p s = None \<longleftrightarrow> \<not> contains p s"
  by (induction s) (auto split: option.splits)

lemma part_at_shorter: "part_at p s = Some (a, b) \<Longrightarrow> p \<noteq> [] \<Longrightarrow> length b < length s"
  by (drule part_at_Some) (cases p, auto)

text \<open>\<open>s.split(sep)\<close> with a separator, \<open>s.replace(old, new)\<close>, \<open>sep.join(xs)\<close>.\<close>

function split_on :: "'a list \<Rightarrow> 'a list \<Rightarrow> 'a list list" where
  "split_on sep s =
     (if sep = [] then [s]
      else case part_at sep s of None \<Rightarrow> [s] | Some (a, b) \<Rightarrow> a # split_on sep b)"
  by pat_completeness auto
termination
  by (relation "measure (\<lambda>(sep, s). length s)") (auto dest: part_at_shorter)

declare split_on.simps [simp del]

function replace_all :: "'a list \<Rightarrow> 'a list \<Rightarrow> 'a list \<Rightarrow> 'a list" where
  "replace_all old new [] = []"
| "replace_all old new (c # cs) =
     (if old \<noteq> [] \<and> starts old (c # cs) then new @ replace_all old new (drop (length old) (c # cs))
      else c # replace_all old new cs)"
  by pat_completeness auto
termination
  by (relation "measure (\<lambda>(old, new, s). length s)") auto

fun join :: "'a list \<Rightarrow> 'a list list \<Rightarrow> 'a list" where
  "join sep [] = []"
| "join sep [x] = x"
| "join sep (x # y # ys) = x @ sep @ join sep (y # ys)"

lemma replace_all_absent: "\<not> contains old s \<Longrightarrow> replace_all old new s = s"
  by (induction s) auto

text \<open>\<open>str.strip()\<close> removes the code points for which \<open>str.isspace()\<close> holds.\<close>

definition space_cp :: "nat \<Rightarrow> bool" where
  "space_cp n =
     (if n < 256 then (9 \<le> n \<and> n \<le> 13) \<or> (28 \<le> n \<and> n \<le> 32) \<or> n = 133 \<or> n = 160
      else n = 5760 \<or> (8192 \<le> n \<and> n \<le> 8202) \<or> n = 8232 \<or> n = 8233 \<or> n = 8239 \<or> n = 8287
        \<or> n = 12288)"

definition strip_by :: "('a \<Rightarrow> bool) \<Rightarrow> 'a list \<Rightarrow> 'a list" where
  "strip_by P s = rev (dropWhile P (rev (dropWhile P s)))"

definition cp :: "char \<Rightarrow> nat" where
  "cp c = of_char c"

definition ulit :: "string \<Rightarrow> utext" where
  "ulit s = map cp s"

definition strip :: "string \<Rightarrow> string" where
  "strip s = strip_by (\<lambda>c. space_cp (cp c)) s"

definition tstrip :: "utext \<Rightarrow> utext" where
  "tstrip s = strip_by space_cp s"

lemma cp_inj [simp]: "cp a = cp b \<longleftrightarrow> a = b"
  by (simp add: cp_def)

lemma cp_lt: "cp c < 256"
  by (simp add: cp_def)

lemma ulit_simps [simp]:
  "ulit [] = []" "ulit (c # s) = cp c # ulit s" "ulit (a @ b) = ulit a @ ulit b"
  by (simp_all add: ulit_def)

lemma ulit_inj [simp]: "ulit a = ulit b \<longleftrightarrow> a = b"
  unfolding ulit_def by (rule inj_map_eq_map) (simp add: inj_def)

lemma starts_ulit [simp]: "starts (ulit a) (ulit b) \<longleftrightarrow> starts a b"
  by (induction a b rule: starts.induct) auto

lemma strip_by_noop: "(\<And>c. c \<in> set s \<Longrightarrow> \<not> P c) \<Longrightarrow> strip_by P s = s"
proof -
  assume no: "\<And>c. c \<in> set s \<Longrightarrow> \<not> P c"
  then have "dropWhile P s = s" by (auto simp: dropWhile_eq_self_iff)
  moreover from no have "dropWhile P (rev s) = rev s"
    by (cases s rule: rev_cases) (auto simp: dropWhile_eq_self_iff)
  ultimately show ?thesis by (simp add: strip_by_def)
qed

lemma strip_noop: "(\<And>c. c \<in> set s \<Longrightarrow> \<not> space_cp (cp c)) \<Longrightarrow> strip s = s"
  unfolding strip_def by (rule strip_by_noop)

end
