(* ===== verification/PyText.thy ===== *)
theory PyText
  imports Prelude
begin

text \<open>
  Numbers, bytes and text as Python reads and prints them: \<open>int(s, base)\<close> with its
  whitespace, sign, prefix and underscore rules, \<open>str(n)\<close> and \<open>hex(n)\<close>, \<open>bytes.fromhex\<close> and
  \<open>.hex()\<close>, \<open>int.to_bytes\<close> / \<open>int.from_bytes\<close> (big endian), and UTF-8 with the
  \<open>errors="replace"\<close> rule of the decoder (one U+FFFD for each maximal ill-formed prefix).
  The lemmas are the round trips the codec proofs use.
\<close>

section \<open>Digits and integers\<close>

definition digit_val :: "nat \<Rightarrow> char \<Rightarrow> nat option" where
  "digit_val b c =
     (let n = cp c;
          d = if 48 \<le> n \<and> n \<le> 57 then n - 48 else if 97 \<le> n \<and> n \<le> 122 then n - 87
              else if 65 \<le> n \<and> n \<le> 90 then n - 55 else 99
      in if d < b then Some d else None)"

definition digit_char :: "nat \<Rightarrow> char" where
  "digit_char d = char_of (if d < 10 then 48 + d else 87 + d)"

lemma digit_chars [simp]:
  "digit_char 0 = CHR ''0''" "digit_char 1 = CHR ''1''" "digit_char 2 = CHR ''2''"
  "digit_char 3 = CHR ''3''" "digit_char 4 = CHR ''4''" "digit_char 5 = CHR ''5''"
  "digit_char 6 = CHR ''6''" "digit_char 7 = CHR ''7''" "digit_char 8 = CHR ''8''"
  "digit_char 9 = CHR ''9''" "digit_char 10 = CHR ''a''" "digit_char 11 = CHR ''b''"
  "digit_char 12 = CHR ''c''" "digit_char 13 = CHR ''d''" "digit_char 14 = CHR ''e''"
  "digit_char 15 = CHR ''f''" "digit_char (Suc 0) = CHR ''1''"
  by code_simp+

text \<open>Digits with single underscores between them; the flag says that the previous
  character was a digit.\<close>

fun digits_acc :: "nat \<Rightarrow> bool \<Rightarrow> nat \<Rightarrow> string \<Rightarrow> nat option" where
  "digits_acc b us acc [] = (if us then Some acc else None)"
| "digits_acc b us acc (c # cs) =
     (if c = CHR ''_'' then (if us then digits_acc b False acc cs else None)
      else case digit_val b c of None \<Rightarrow> None | Some d \<Rightarrow> digits_acc b True (acc * b + d) cs)"

definition py_int_str :: "nat \<Rightarrow> string \<Rightarrow> int res" where
  "py_int_str b s =
     (let s1 = strip s;
          neg = starts ''-'' s1;
          s2 = if neg \<or> starts ''+'' s1 then drop 1 s1 else s1;
          pre = b = 16 \<and> (starts ''0x'' s2 \<or> starts ''0X'' s2);
          s3 = if pre then drop 2 s2 else s2;
          s4 = if pre \<and> starts ''_'' s3 then drop 1 s3 else s3
      in case digits_acc b False 0 s4 of
           None \<Rightarrow> Inl ValueError
         | Some n \<Rightarrow>
             if b = 10 \<and> 4300 < length (filter (\<lambda>c. c \<noteq> CHR ''_'') s4) then Inl ValueError
             else Inr (if neg then - int n else int n))"

function show_base :: "nat \<Rightarrow> nat \<Rightarrow> string" where
  "show_base b n =
     (if b < 2 \<or> n < b then [digit_char n] else show_base b (n div b) @ [digit_char (n mod b)])"
  by pat_completeness auto
termination
  by (relation "measure (\<lambda>(b, n). n)") auto

declare show_base.simps [simp del]

definition show_nat :: "nat \<Rightarrow> string" where
  "show_nat n = show_base 10 n"

definition show_int :: "int \<Rightarrow> string" where
  "show_int i = (if i < 0 then ''-'' @ show_nat (nat (- i)) else show_nat (nat i))"

definition py_hex :: "int \<Rightarrow> string" where
  "py_hex i = (if i < 0 then ''-0x'' @ show_base 16 (nat (- i)) else ''0x'' @ show_base 16 (nat i))"

lemma digit_val_char:
  "d < b \<Longrightarrow> b \<le> 16 \<Longrightarrow> digit_val b (digit_char d) = Some d"
  by (auto simp: digit_val_def digit_char_def cp_def Let_def of_char_of)

lemma digit_char_not_us: "d < 16 \<Longrightarrow> digit_char d \<noteq> CHR ''_''"
proof
  assume d: "d < 16" and eq: "digit_char d = CHR ''_''"
  from d have "digit_val 16 (digit_char d) = Some d" by (rule digit_val_char) simp
  with eq show False by (simp add: digit_val_def cp_def)
qed

lemma digits_acc_append:
  "digits_acc b us acc s = Some n \<Longrightarrow> digits_acc b us acc (s @ t) = digits_acc b True n t
     \<or> s = []"
  by (induction b us acc s rule: digits_acc.induct) (auto split: if_splits option.splits)

lemma digits_acc_show:
  assumes "2 \<le> b" "b \<le> 16"
  shows "digits_acc b us 0 (show_base b n) = Some n"
  using assms
proof (induction b n arbitrary: us rule: show_base.induct)
  case (1 b n)
  show ?case
  proof (cases "n < b")
    case True
    with 1 show ?thesis
      by (subst show_base.simps) (simp add: digit_val_char digit_char_not_us)
  next
    case False
    have ne: "show_base b (n div b) \<noteq> []" by (subst show_base.simps) simp
    from False 1 have "digits_acc b us 0 (show_base b (n div b)) = Some (n div b)" by simp
    from digits_acc_append [OF this] ne
    have "digits_acc b us 0 (show_base b (n div b) @ [digit_char (n mod b)]) =
          digits_acc b True (n div b) [digit_char (n mod b)]" by blast
    moreover have "n mod b < b" "n mod b < 16" using 1 by (auto intro: less_le_trans [of _ b])
    ultimately show ?thesis using False 1
      by (subst show_base.simps) (simp add: digit_val_char digit_char_not_us)
  qed
qed

lemma show_base_chars:
  "2 \<le> b \<Longrightarrow> c \<in> set (show_base b n) \<Longrightarrow> \<exists>d<b. c = digit_char d"
proof (induction b n rule: show_base.induct)
  case (1 b n)
  have "n mod b < b" using 1 by simp
  then have "\<exists>d<b. digit_char (n mod b) = digit_char d" by blast
  with 1 show ?case
    by (subst (asm) (2) show_base.simps) (auto split: if_splits)
qed

lemma digit_char_cases: "d < 16 \<Longrightarrow> digit_char d \<in> set ''0123456789abcdef''"
proof -
  have "\<forall>d \<in> set [0..<16]. digit_char d \<in> set ''0123456789abcdef''" by code_simp
  moreover assume "d < 16"
  ultimately show ?thesis by simp
qed

lemma show_nat_chars:
  assumes "c \<in> set (show_nat n)" shows "c \<in> set ''0123456789abcdef''"
proof -
  from assms have "\<exists>d<10. c = digit_char d"
    unfolding show_nat_def by (rule show_base_chars [rotated]) simp
  then obtain d where d: "d < 10" and c: "c = digit_char d" by blast
  from d have "d < 16" by simp
  then show ?thesis unfolding c by (rule digit_char_cases)
qed

lemma show_int_chars: "set (show_int i) \<subseteq> set (''-'' @ ''0123456789abcdef'')"
proof
  fix c assume "c \<in> set (show_int i)"
  then have "c \<in> set ''-'' \<or> (\<exists>n. c \<in> set (show_nat n))"
    unfolding show_int_def by (cases "i < 0") auto
  then have "c \<in> set ''-'' \<or> c \<in> set ''0123456789abcdef''" using show_nat_chars by blast
  then show "c \<in> set (''-'' @ ''0123456789abcdef'')" unfolding set_append by blast
qed

lemma show_base_ne [simp]: "show_base b n \<noteq> []"
  by (subst show_base.simps) simp

text \<open>\<open>int(str(n)) = n\<close>, for the lengths \<open>int\<close> accepts.\<close>

lemma digit_char_plain:
  assumes "d < 16" shows "\<not> space_cp (cp (digit_char d))" "digit_char d \<noteq> CHR ''-''"
    "digit_char d \<noteq> CHR ''+''" "digit_char d \<noteq> CHR ''x''" "digit_char d \<noteq> CHR ''X''"
proof -
  have all: "\<forall>c \<in> set ''0123456789abcdef''. \<not> space_cp (cp c) \<and> c \<noteq> CHR ''-'' \<and> c \<noteq> CHR ''+''
      \<and> c \<noteq> CHR ''x'' \<and> c \<noteq> CHR ''X''"
    by (simp add: space_cp_def cp_def)
  from bspec [OF all digit_char_cases [OF assms]]
  show "\<not> space_cp (cp (digit_char d))" "digit_char d \<noteq> CHR ''-''"
    "digit_char d \<noteq> CHR ''+''" "digit_char d \<noteq> CHR ''x''" "digit_char d \<noteq> CHR ''X''"
    by blast+
qed

lemma show_base_plain:
  assumes "2 \<le> b" "b \<le> 16" "c \<in> set (show_base b n)"
  shows "\<not> space_cp (cp c)" "c \<noteq> CHR ''-''" "c \<noteq> CHR ''+''" "c \<noteq> CHR ''x''" "c \<noteq> CHR ''X''"
    "c \<noteq> CHR ''_''"
proof -
  from show_base_chars [OF assms(1,3)] obtain d where "d < b" and c: "c = digit_char d" by blast
  with assms(2) have d: "d < 16" by simp
  show "\<not> space_cp (cp c)" "c \<noteq> CHR ''-''" "c \<noteq> CHR ''+''" "c \<noteq> CHR ''x''" "c \<noteq> CHR ''X''"
    "c \<noteq> CHR ''_''"
    unfolding c by (rule digit_char_plain [OF d] digit_char_not_us [OF d])+
qed

lemma filter_us_show:
  "2 \<le> b \<Longrightarrow> b \<le> 16 \<Longrightarrow> filter (\<lambda>c. c \<noteq> CHR ''_'') (show_base b n) = show_base b n"
  by (rule filter_True) (auto dest: show_base_plain(6))

lemma starts_single: "starts [p] s \<longleftrightarrow> s \<noteq> [] \<and> hd s = p"
  by (cases s) auto

lemma starts_pair: "starts [p, q] s \<longleftrightarrow> (\<exists>r. s = p # q # r)"
  by (auto simp: starts_iff)

lemma starts_subset: "starts p s \<Longrightarrow> set p \<subseteq> set s"
  by (auto simp: starts_iff)

lemma show_base_mem:
  assumes "2 \<le> b" "b \<le> 16"
  shows "CHR ''-'' \<notin> set (show_base b n)" "CHR ''+'' \<notin> set (show_base b n)"
    "CHR ''x'' \<notin> set (show_base b n)" "CHR ''X'' \<notin> set (show_base b n)"
    "CHR ''_'' \<notin> set (show_base b n)"
  using show_base_plain [OF assms] by blast+

lemma show_base_no_sign:
  assumes "2 \<le> b" "b \<le> 16"
  shows "\<not> starts ''-'' (show_base b n)" "\<not> starts ''+'' (show_base b n)"
    "\<not> starts ''0x'' (show_base b n)" "\<not> starts ''0X'' (show_base b n)"
  using show_base_mem [OF assms] by (auto dest!: starts_subset)

lemma strip_show: "2 \<le> b \<Longrightarrow> b \<le> 16 \<Longrightarrow> strip (show_base b n) = show_base b n"
  by (rule strip_noop) (auto dest: show_base_plain(1))

lemma int_of_show_nat:
  "length (show_nat n) \<le> 4300 \<Longrightarrow> py_int_str 10 (show_nat n) = Inr (int n)"
  by (simp add: py_int_str_def show_nat_def strip_show show_base_no_sign digits_acc_show
      filter_us_show)

lemma int_of_show_hex: "py_int_str 16 (show_base 16 n) = Inr (int n)"
  by (simp add: py_int_str_def strip_show show_base_no_sign digits_acc_show)

lemma int_of_hex: "py_int_str 16 (py_hex (int n)) = Inr (int n)"
proof -
  have "strip (CHR ''0'' # CHR ''x'' # show_base 16 n) = CHR ''0'' # CHR ''x'' # show_base 16 n"
    by (rule strip_noop) (auto simp: cp_def space_cp_def dest!: show_base_plain(1) [rotated 2])
  moreover have "\<not> starts ''_'' (show_base 16 n)"
    using show_base_plain(6) [of 16 "hd (show_base 16 n)" n] by (auto simp: starts_single)
  ultimately show ?thesis by (simp add: py_int_str_def py_hex_def digits_acc_show)
qed

section \<open>Bytes\<close>

type_synonym byte = "8 word"

definition ascii_space :: "char \<Rightarrow> bool" where
  "ascii_space c \<longleftrightarrow> cp c = 32 \<or> (9 \<le> cp c \<and> cp c \<le> 13)"

text \<open>\<open>bytes.fromhex\<close>: ASCII whitespace is skipped between two bytes, never inside one;
  \<open>None\<close> is its \<open>ValueError\<close>.\<close>

fun from_hex :: "string \<Rightarrow> byte list option" where
  "from_hex [] = Some []"
| "from_hex [c] = (if ascii_space c then Some [] else None)"
| "from_hex (c # d # cs) =
     (if ascii_space c then from_hex (d # cs)
      else case (digit_val 16 c, digit_val 16 d) of
             (Some x, Some y) \<Rightarrow> map_option (\<lambda>bs. word_of_nat (16 * x + y) # bs) (from_hex cs)
           | _ \<Rightarrow> None)"

definition hex2 :: "byte \<Rightarrow> string" where
  "hex2 b = [digit_char (unat b div 16), digit_char (unat b mod 16)]"

definition to_hex :: "byte list \<Rightarrow> string" where
  "to_hex bs = concat (map hex2 bs)"

definition be_val :: "byte list \<Rightarrow> nat" where
  "be_val bs = foldl (\<lambda>acc b. acc * 256 + unat b) 0 bs"

fun be_bytes :: "nat \<Rightarrow> nat \<Rightarrow> byte list" where
  "be_bytes 0 n = []"
| "be_bytes (Suc k) n = be_bytes k (n div 256) @ [word_of_nat (n mod 256)]"

text \<open>\<open>n.to_bytes(k, "big")\<close>, unsigned.\<close>

definition to_bytes :: "nat \<Rightarrow> int \<Rightarrow> byte list res" where
  "to_bytes k n = (if n < 0 \<or> 256 ^ k \<le> n then Inl OverflowError else Inr (be_bytes k (nat n)))"

lemma length_be_bytes [simp]: "length (be_bytes k n) = k"
  by (induction k arbitrary: n) auto

lemma foldl_be: "foldl (\<lambda>acc b. acc * 256 + unat b) a bs = a * 256 ^ length bs + be_val bs"
proof (induction bs arbitrary: a)
  case (Cons b bs)
  show ?case
    unfolding be_val_def foldl_Cons Cons.IH [of "a * 256 + unat b"] Cons.IH [of "0 * 256 + unat b"]
    by (simp add: algebra_simps)
qed (simp add: be_val_def)

lemma be_val_append: "be_val (a @ b) = be_val a * 256 ^ length b + be_val b"
proof -
  have "be_val (a @ b) = foldl (\<lambda>acc b. acc * 256 + unat b) (be_val a) b"
    by (simp add: be_val_def)
  then show ?thesis by (simp only: foldl_be)
qed

lemma be_val_Nil [simp]: "be_val [] = 0"
  by (simp add: be_val_def)

lemma be_val_single: "be_val [b] = unat b"
  by (simp add: be_val_def)

lemma unat_byte_lt: "unat (b :: byte) < 256"
  using unsigned_less [of b] by simp

lemma be_val_lt: "be_val bs < 256 ^ length bs"
proof (induction bs rule: rev_induct)
  case (snoc b bs)
  have "be_val bs * 256 + unat b < (be_val bs + 1) * 256" using unat_byte_lt [of b] by simp
  also have "\<dots> \<le> 256 ^ length bs * 256" using snoc by (intro mult_right_mono) auto
  finally show ?case by (simp add: be_val_append be_val_single mult.commute)
qed simp

lemma unat_word_of_nat_byte: "n < 256 \<Longrightarrow> unat (word_of_nat n :: byte) = n"
  by (simp add: unat_of_nat)

lemma be_val_be_bytes: "n < 256 ^ k \<Longrightarrow> be_val (be_bytes k n) = n"
proof (induction k arbitrary: n)
  case (Suc k)
  then have "n div 256 < 256 ^ k" by (simp add: less_mult_imp_div_less mult.commute)
  with Suc.IH show ?case
    by (simp add: be_val_append be_val_single unat_word_of_nat_byte)
qed simp

lemma be_bytes_be_val: "be_bytes (length bs) (be_val bs) = bs"
proof (induction bs rule: rev_induct)
  case (snoc b bs)
  have "(be_val bs * 256 + unat b) div 256 = be_val bs"
    "(be_val bs * 256 + unat b) mod 256 = unat b"
    using unat_byte_lt [of b] by (simp_all)
  with snoc show ?case by (simp add: be_val_append be_val_single)
qed simp

lemma from_hex_to_hex: "from_hex (to_hex bs) = Some bs"
proof (induction bs)
  case (Cons b bs)
  have lt: "unat b div 16 < 16" "unat b mod 16 < 16" using unat_byte_lt [of b] by auto
  have "\<not> ascii_space (digit_char (unat b div 16))"
    using digit_char_plain(1) [OF lt(1)] by (auto simp: ascii_space_def space_cp_def)
  moreover have "16 * (unat b div 16) + unat b mod 16 = unat b" by simp
  ultimately show ?case
    using Cons lt by (simp add: to_hex_def hex2_def digit_val_char)
qed (simp add: to_hex_def)

section \<open>UTF-8\<close>

definition utf8_enc1 :: "nat \<Rightarrow> byte list" where
  "utf8_enc1 n = map word_of_nat
     (if n < 128 then [n]
      else if n < 2048 then [192 + n div 64, 128 + n mod 64]
      else if n < 65536 then [224 + n div 4096, 128 + n div 64 mod 64, 128 + n mod 64]
      else [240 + n div 262144, 128 + n div 4096 mod 64, 128 + n div 64 mod 64, 128 + n mod 64])"

definition utf8_encode :: "utext \<Rightarrow> byte list" where
  "utf8_encode s = concat (map utf8_enc1 s)"

text \<open>A scalar value: the code points UTF-8 encodes.\<close>

definition scalar_cp :: "nat \<Rightarrow> bool" where
  "scalar_cp n \<longleftrightarrow> n < 1114112 \<and> \<not> (55296 \<le> n \<and> n < 57344)"

definition is_cont :: "byte \<Rightarrow> bool" where
  "is_cont b \<longleftrightarrow> 128 \<le> unat b \<and> unat b < 192"

text \<open>The second byte a lead byte admits.\<close>

definition second_ok :: "nat \<Rightarrow> byte \<Rightarrow> bool" where
  "second_ok l b \<longleftrightarrow> is_cont b \<and> (l = 224 \<longrightarrow> 160 \<le> unat b) \<and> (l = 237 \<longrightarrow> unat b < 160)
     \<and> (l = 240 \<longrightarrow> 144 \<le> unat b) \<and> (l = 244 \<longrightarrow> unat b < 144)"

text \<open>\<open>bs.decode("utf-8", errors="replace")\<close>: the code point or U+FFFD, and how many bytes
  it consumed.\<close>

definition utf8_step :: "byte \<Rightarrow> byte list \<Rightarrow> nat \<times> nat" where
  "utf8_step b bs =
     (let l = unat b; c = (\<lambda>i. unat (bs ! i) - 128) in
      if l < 128 then (l, 0)
      else if 194 \<le> l \<and> l < 224 then
        (if 1 \<le> length bs \<and> is_cont (bs ! 0) then ((l - 192) * 64 + c 0, 1) else (65533, 0))
      else if 224 \<le> l \<and> l < 245 then
        (if \<not> (1 \<le> length bs \<and> second_ok l (bs ! 0)) then (65533, 0)
         else if \<not> (2 \<le> length bs \<and> is_cont (bs ! 1)) then (65533, 1)
         else if l < 240 then ((l - 224) * 4096 + c 0 * 64 + c 1, 2)
         else if \<not> (3 \<le> length bs \<and> is_cont (bs ! 2)) then (65533, 2)
         else ((l - 240) * 262144 + c 0 * 4096 + c 1 * 64 + c 2, 3))
      else (65533, 0))"

function utf8_decode :: "byte list \<Rightarrow> utext" where
  "utf8_decode [] = []"
| "utf8_decode (b # bs) = (case utf8_step b bs of (n, k) \<Rightarrow> n # utf8_decode (drop k bs))"
  by pat_completeness auto
termination
  by (relation "measure length") auto

declare utf8_decode.simps(2) [simp del]

lemma utf8_step_enc:
  assumes "scalar_cp n" "utf8_enc1 n = b # bs"
  shows "utf8_step b (bs @ rest) = (n, length bs)"
proof -
  from assms(1) have lim: "n < 1114112" "\<not> (55296 \<le> n \<and> n < 57344)"
    by (auto simp: scalar_cp_def)
  consider "n < 128" | "128 \<le> n" "n < 2048" | "2048 \<le> n" "n < 65536" | "65536 \<le> n" by linarith
  then show ?thesis
  proof cases
    case 1
    with assms(2) show ?thesis
      by (auto simp: utf8_enc1_def utf8_step_def unat_word_of_nat_byte)
  next
    case 2
    define x y where xy: "x = n div 64" "y = n mod 64"
    have r: "x < 32" "2 \<le> x" "y < 64" "x * 64 + y = n" using 2 by (auto simp: xy)
    have enc: "utf8_enc1 n = [word_of_nat (192 + x), word_of_nat (128 + y)]"
      using 2 by (simp add: utf8_enc1_def xy)
    have u: "unat (word_of_nat (192 + x) :: byte) = 192 + x"
      "unat (word_of_nat (128 + y) :: byte) = 128 + y"
      by (rule unat_word_of_nat_byte, use r in simp)+
    moreover have "is_cont (word_of_nat (128 + y))"
      using r u unfolding is_cont_def by auto
    moreover have "b = word_of_nat (192 + x)" "bs = [word_of_nat (128 + y)]"
      using assms(2) enc by simp_all
    ultimately show ?thesis using r by (simp add: utf8_step_def)
  next
    case 3
    then have lead: "224 + n div 4096 < 240" "224 + n div 4096 < 256" by auto
    have mid: "n div 64 mod 64 < 64" "n mod 64 < 64" by simp_all
    have n1: "n = n div 64 * 64 + n mod 64" by simp
    have n2: "n div 64 = n div 4096 * 64 + n div 64 mod 64"
      using div_mult_mod_eq [of "n div 64" 64] by (simp add: div_mult2_eq [symmetric])
    have e0: "32 \<le> n div 64 mod 64" if "n div 4096 = 0" using 3 that n1 n2 mid by linarith
    have ed: "n div 64 mod 64 < 32" if "n div 4096 = 13" using lim 3 that n1 n2 mid by linarith
    have val: "n div 4096 * 4096 + n div 64 mod 64 * 64 + n mod 64 = n" using n1 n2 by linarith
    define x y z where xyz: "x = n div 4096" "y = n div 64 mod 64" "z = n mod 64"
    have enc: "utf8_enc1 n = [word_of_nat (224 + x), word_of_nat (128 + y), word_of_nat (128 + z)]"
      using 3 by (simp add: utf8_enc1_def xyz)
    have u: "unat (word_of_nat (224 + x) :: byte) = 224 + x"
      "unat (word_of_nat (128 + y) :: byte) = 128 + y"
      "unat (word_of_nat (128 + z) :: byte) = 128 + z"
      unfolding xyz by (rule unat_word_of_nat_byte, use lead mid in linarith)+
    have "second_ok (224 + x) (word_of_nat (128 + y))"
      using lead mid e0 ed u unfolding second_ok_def is_cont_def xyz by auto
    moreover have "is_cont (word_of_nat (128 + z))"
      using mid u unfolding is_cont_def xyz by auto
    moreover have "b = word_of_nat (224 + x)" "bs = [word_of_nat (128 + y), word_of_nat (128 + z)]"
      using assms(2) enc by simp_all
    moreover have "x < 16" "x * 4096 + y * 64 + z = n" using lead val xyz by simp_all
    ultimately show ?thesis using u by (simp add: utf8_step_def)
  next
    case 4
    then have lead: "240 + n div 262144 < 245" "240 + n div 262144 < 256" using lim by auto
    have mid: "n div 4096 mod 64 < 64" "n div 64 mod 64 < 64" "n mod 64 < 64" by simp_all
    have n1: "n = n div 64 * 64 + n mod 64" by simp
    have n2: "n div 64 = n div 4096 * 64 + n div 64 mod 64"
      using div_mult_mod_eq [of "n div 64" 64] by (simp add: div_mult2_eq [symmetric])
    have n3: "n div 4096 = n div 262144 * 64 + n div 4096 mod 64"
      using div_mult_mod_eq [of "n div 4096" 64] by (simp add: div_mult2_eq [symmetric])
    have f0: "16 \<le> n div 4096 mod 64" if "n div 262144 = 0" using 4 that n1 n2 n3 mid by linarith
    have f4: "n div 4096 mod 64 < 16" if "n div 262144 = 4" using lim that n1 n2 n3 mid by linarith
    have val: "n div 262144 * 262144 + n div 4096 mod 64 * 4096 + n div 64 mod 64 * 64 + n mod 64 = n"
      using n1 n2 n3 by linarith
    define x y z t where xyz:
      "x = n div 262144" "y = n div 4096 mod 64" "z = n div 64 mod 64" "t = n mod 64"
    have enc: "utf8_enc1 n =
        [word_of_nat (240 + x), word_of_nat (128 + y), word_of_nat (128 + z), word_of_nat (128 + t)]"
      using 4 by (simp add: utf8_enc1_def xyz)
    have u: "unat (word_of_nat (240 + x) :: byte) = 240 + x"
      "unat (word_of_nat (128 + y) :: byte) = 128 + y"
      "unat (word_of_nat (128 + z) :: byte) = 128 + z"
      "unat (word_of_nat (128 + t) :: byte) = 128 + t"
      unfolding xyz by (rule unat_word_of_nat_byte, use lead mid in linarith)+
    have "second_ok (240 + x) (word_of_nat (128 + y))"
      using lead mid f0 f4 u unfolding second_ok_def is_cont_def xyz by auto
    moreover have "is_cont (word_of_nat (128 + z))" "is_cont (word_of_nat (128 + t))"
      using mid u unfolding is_cont_def xyz by auto
    moreover have "b = word_of_nat (240 + x)"
      "bs = [word_of_nat (128 + y), word_of_nat (128 + z), word_of_nat (128 + t)]"
      using assms(2) enc by simp_all
    moreover have "x < 5" "x * 262144 + y * 4096 + z * 64 + t = n" using lead val xyz by simp_all
    ultimately show ?thesis using u by (simp add: utf8_step_def)
  qed
qed

lemma utf8_enc1_ne: "utf8_enc1 n \<noteq> []"
  by (simp add: utf8_enc1_def)

lemma utf8_roundtrip:
  "(\<And>c. c \<in> set s \<Longrightarrow> scalar_cp c) \<Longrightarrow> utf8_decode (utf8_encode s) = s"
proof (induction s)
  case (Cons n s)
  obtain b bs where e: "utf8_enc1 n = b # bs" using utf8_enc1_ne by (cases "utf8_enc1 n") auto
  from Cons.prems have "utf8_step b (bs @ utf8_encode s) = (n, length bs)"
    by (intro utf8_step_enc [OF _ e]) simp
  with e Cons show ?case by (simp add: utf8_encode_def utf8_decode.simps(2))
qed (simp add: utf8_encode_def)

end
