(* ===== verification/PyDict.thy ===== *)
theory PyDict
  imports Prelude
begin

text \<open>
  The insertion-ordered \<open>dict\<close> of Python as an association list with distinct keys:
  assignment to a present key keeps its position, a new key goes to the end. The laws the
  components rely on are the locale \<open>ordered_dict\<close>; \<open>dget\<close>, \<open>dput\<close> and \<open>dkeys\<close> interpret it.
\<close>

fun dget :: "('k \<times> 'v) list \<Rightarrow> 'k \<Rightarrow> 'v option" where
  "dget [] k = None"
| "dget ((k', v) # d) k = (if k = k' then Some v else dget d k)"

fun dput :: "('k \<times> 'v) list \<Rightarrow> 'k \<Rightarrow> 'v \<Rightarrow> ('k \<times> 'v) list" where
  "dput [] k v = [(k, v)]"
| "dput ((k', v') # d) k v = (if k = k' then (k, v) # d else (k', v') # dput d k v)"

definition dkeys :: "('k \<times> 'v) list \<Rightarrow> 'k list" where
  "dkeys d = map fst d"

definition dhas :: "('k \<times> 'v) list \<Rightarrow> 'k \<Rightarrow> bool" where
  "dhas d k \<longleftrightarrow> dget d k \<noteq> None"

definition dget_or :: "('k \<times> 'v) list \<Rightarrow> 'k \<Rightarrow> 'v \<Rightarrow> 'v" where
  "dget_or d k v = (case dget d k of Some x \<Rightarrow> x | None \<Rightarrow> v)"

text \<open>\<open>dict(pairs)\<close>, and a loop of assignments \<open>for k, v in pairs: d[k] = v\<close>.\<close>

definition dput_all :: "('k \<times> 'v) list \<Rightarrow> ('k \<times> 'v) list \<Rightarrow> ('k \<times> 'v) list" where
  "dput_all d ps = fold (\<lambda>(k, v) d. dput d k v) ps d"

lemma dget_map_of: "dget d = map_of d"
  by (rule ext, induct_tac d) auto

lemma dget_put [simp]: "dget (dput d k v) k' = (if k = k' then Some v else dget d k')"
  by (induction d) auto

lemma dkeys_put [simp]:
  "dkeys (dput d k v) = (if k \<in> set (dkeys d) then dkeys d else dkeys d @ [k])"
proof (induction d)
  case (Cons p d)
  obtain k' v' where "p = (k', v')" by (cases p)
  with Cons show ?case by (cases "k = k'") (simp_all add: dkeys_def)
qed (simp add: dkeys_def)

lemma dget_None_keys: "dget d k = None \<longleftrightarrow> k \<notin> set (dkeys d)"
  by (simp add: dget_map_of dkeys_def map_of_eq_None_iff)

section \<open>The contract of a dictionary\<close>

locale ordered_dict =
  fixes get :: "'d \<Rightarrow> 'k \<Rightarrow> 'v option"
    and put :: "'d \<Rightarrow> 'k \<Rightarrow> 'v \<Rightarrow> 'd"
    and keys :: "'d \<Rightarrow> 'k list"
  assumes get_put: "get (put d k v) k' = (if k = k' then Some v else get d k')"
    and keys_put: "keys (put d k v) = (if k \<in> set (keys d) then keys d else keys d @ [k])"
    and get_None: "get d k = None \<longleftrightarrow> k \<notin> set (keys d)"
begin

lemma put_twice_get: "get (put (put d k v) k w) k' = get (put d k w) k'"
  by (simp add: get_put)

lemma put_swap_get: "k \<noteq> l \<Longrightarrow> get (put (put d k v) l w) m = get (put (put d l w) k v) m"
  by (auto simp: get_put)

lemma keys_put_distinct: "distinct (keys d) \<Longrightarrow> distinct (keys (put d k v))"
  by (simp add: keys_put)

text \<open>A loop of assignments: the last binding of a key wins, and the order of the keys is
  that of their first occurrences.\<close>

lemma fold_put_last_wins:
  "get (fold (\<lambda>(k, v) d. put d k v) ps d) x =
     (case map_of (rev ps) x of Some v \<Rightarrow> Some v | None \<Rightarrow> get d x)"
  by (induction ps arbitrary: d) (auto simp: get_put map_add_def split: option.splits)

lemma fold_put_distinct:
  "distinct (keys d) \<Longrightarrow> distinct (keys (fold (\<lambda>(k, v) d. put d k v) ps d))"
  by (induction ps arbitrary: d) (auto simp: keys_put_distinct)

lemma fold_put_keys:
  "set (keys (fold (\<lambda>(k, v) d. put d k v) ps d)) = set (keys d) \<union> fst ` set ps"
  by (induction ps arbitrary: d) (auto simp: keys_put split: if_splits)

lemma fold_put_keys_order:
  "\<exists>ks. keys (fold (\<lambda>(k, v) d. put d k v) ps d) = keys d @ ks"
proof (induction ps arbitrary: d)
  case (Cons p ps)
  obtain k v where p: "p = (k, v)" by (cases p)
  from Cons [of "put d k v"] show ?case by (auto simp: p keys_put split: if_splits)
qed simp

end

interpretation pd: ordered_dict dget dput dkeys
  by unfold_locales (simp_all add: dget_None_keys)

lemma dget_dput_all:
  "dget (dput_all d ps) x = (case map_of (rev ps) x of Some v \<Rightarrow> Some v | None \<Rightarrow> dget d x)"
  unfolding dput_all_def by (rule pd.fold_put_last_wins)

lemma distinct_dput_all: "distinct (dkeys d) \<Longrightarrow> distinct (dkeys (dput_all d ps))"
  unfolding dput_all_def by (rule pd.fold_put_distinct)

lemma keys_dput_all: "set (dkeys (dput_all d ps)) = set (dkeys d) \<union> fst ` set ps"
  unfolding dput_all_def by (rule pd.fold_put_keys)

lemma dkeys_Nil [simp]: "dkeys [] = []"
  by (simp add: dkeys_def)

lemma dhas_simps [simp]:
  "\<not> dhas [] k"
  "dhas ((k', v) # d) k \<longleftrightarrow> k = k' \<or> dhas d k"
  by (auto simp: dhas_def)

lemma dhas_keys: "dhas d k \<longleftrightarrow> k \<in> set (dkeys d)"
  using dget_None_keys [of d k] by (auto simp: dhas_def)

end
