(* ===== verification/PyJson.thy ===== *)
theory PyJson
  imports PyText PyDict
begin

text \<open>
  The values \<open>json.loads\<close> returns, with the Python operations the code applies to them:
  \<open>isinstance\<close> tests, \<open>int(x)\<close>, \<open>str(x)\<close>, truth, \<open>dict\<close> access. A float carries its exact
  value (\<open>mantissa * 2 ^ exponent\<close>, infinite or NaN: \<open>json\<close> reads \<open>Infinity\<close> and \<open>1e400\<close>) and
  its \<open>repr\<close>. The order of the keys of an object is that of the text.
\<close>

datatype fval = FFin int int | FInf bool | FNan

datatype json =
    JNull
  | JBool bool
  | JInt int
  | JFloat fval string
  | JStr string
  | JList "json list"
  | JObj "(string \<times> json) list"

section \<open>Types and truth\<close>

fun is_bool :: "json \<Rightarrow> bool" where
  "is_bool (JBool _) = True"
| "is_bool _ = False"

text \<open>\<open>isinstance(x, int)\<close>: a \<open>bool\<close> is an \<open>int\<close>.\<close>

fun is_int :: "json \<Rightarrow> bool" where
  "is_int (JInt _) = True"
| "is_int (JBool _) = True"
| "is_int _ = False"

fun is_str :: "json \<Rightarrow> bool" where
  "is_str (JStr _) = True"
| "is_str _ = False"

fun is_list :: "json \<Rightarrow> bool" where
  "is_list (JList _) = True"
| "is_list _ = False"

fun is_obj :: "json \<Rightarrow> bool" where
  "is_obj (JObj _) = True"
| "is_obj _ = False"

fun truthy :: "json \<Rightarrow> bool" where
  "truthy JNull = False"
| "truthy (JBool b) = b"
| "truthy (JInt i) = (i \<noteq> 0)"
| "truthy (JFloat v _) = (case v of FFin m e \<Rightarrow> m \<noteq> 0 | _ \<Rightarrow> True)"
| "truthy (JStr s) = (s \<noteq> [])"
| "truthy (JList xs) = (xs \<noteq> [])"
| "truthy (JObj d) = (d \<noteq> [])"

text \<open>\<open>d.get(k)\<close> on an object (\<open>None\<close> when absent), \<open>d.get(k, default)\<close> and \<open>d[k]\<close>.\<close>

definition jget :: "(string \<times> json) list \<Rightarrow> string \<Rightarrow> json" where
  "jget d k = dget_or d k JNull"

definition jidx :: "(string \<times> json) list \<Rightarrow> string \<Rightarrow> json res" where
  "jidx d k = (case dget d k of Some v \<Rightarrow> Inr v | None \<Rightarrow> Inl KeyError)"

section \<open>Conversions\<close>

fun trunc_float :: "fval \<Rightarrow> int res" where
  "trunc_float (FFin m e) =
     Inr (if 0 \<le> e then m * 2 ^ nat e else sgn m * (\<bar>m\<bar> div 2 ^ nat (- e)))"
| "trunc_float (FInf _) = Inl OverflowError"
| "trunc_float FNan = Inl ValueError"

text \<open>\<open>int(x)\<close>.\<close>

fun py_int :: "json \<Rightarrow> int res" where
  "py_int JNull = Inl TypeError"
| "py_int (JBool b) = Inr (if b then 1 else 0)"
| "py_int (JInt i) = Inr i"
| "py_int (JFloat v _) = trunc_float v"
| "py_int (JStr s) = py_int_str 10 s"
| "py_int (JList _) = Inl TypeError"
| "py_int (JObj _) = Inl TypeError"

text \<open>\<open>repr\<close> and \<open>str\<close>.\<close>

definition repr_char :: "char \<Rightarrow> char \<Rightarrow> string" where
  "repr_char q c =
     (let n = cp c; bs = CHR 0x5C in
      if c = q \<or> c = bs then [bs, c]
      else if n = 9 then [bs, CHR ''t''] else if n = 10 then [bs, CHR ''n'']
      else if n = 13 then [bs, CHR ''r'']
      else if n < 32 \<or> (127 \<le> n \<and> n \<le> 160) \<or> n = 173
        then [bs, CHR ''x'', digit_char (n div 16), digit_char (n mod 16)]
      else [c])"

definition repr_str :: "string \<Rightarrow> string" where
  "repr_str s =
     (let q = if CHR 0x27 \<in> set s \<and> CHR 0x22 \<notin> set s then CHR 0x22 else CHR 0x27
      in [q] @ concat (map (repr_char q) s) @ [q])"

fun py_repr :: "json \<Rightarrow> string" where
  "py_repr JNull = ''None''"
| "py_repr (JBool b) = (if b then ''True'' else ''False'')"
| "py_repr (JInt i) = show_int i"
| "py_repr (JFloat _ r) = r"
| "py_repr (JStr s) = repr_str s"
| "py_repr (JList xs) = ''['' @ join '', '' (map py_repr xs) @ '']''"
| "py_repr (JObj d) =
     ''{'' @ join '', '' (map (\<lambda>(k, v). repr_str k @ '': '' @ py_repr v) d) @ ''}''"

definition py_str :: "json \<Rightarrow> string" where
  "py_str x = (case x of JStr s \<Rightarrow> s | _ \<Rightarrow> py_repr x)"

lemma py_str_JStr [simp]: "py_str (JStr s) = s"
  by (simp add: py_str_def)

lemma py_int_errors:
  "py_int x = Inl e \<Longrightarrow> e \<in> {TypeError, OverflowError, ValueError}"
  by (cases x) (auto simp: py_int_str_def Let_def elim!: trunc_float.elims split: option.splits if_splits)

lemma py_int_is_int: "is_int x \<Longrightarrow> \<exists>i. py_int x = Inr i"
  by (cases x) auto

end
