(* ===== verification/AbiTypes.thy ===== *)
theory AbiTypes
  imports PyJson
begin

text \<open>
  \<open>contest/observable.py\<close>, the ABI side: the type strings (\<open>_clean_type\<close>, \<open>_array_elem\<close>,
  \<open>_struct_member_types\<close>), the layout of a type (\<open>_is_dynamic_type\<close>, \<open>_head_size\<close>) and the
  decoder of return and revert data into the normal form (\<open>_decode_tuple\<close>, \<open>_decode_value\<close>).

  The recursion of the code is over type strings and the members of structs, and a recursive
  struct makes it run forever: the \<open>nat\<close> argument is the number of nested types Python's stack
  admits, and running out of it is its \<open>RecursionError\<close>. Theory \<open>AbiSpec\<close> shows that the depth of
  a resolvable type is enough. Type strings are the ASCII strings of solc, with array lengths and
  \<open>bytesN\<close> sizes in decimal.
\<close>

section \<open>Type strings\<close>

definition clean_type :: "string \<Rightarrow> string" where
  "clean_type t =
     strip (replace_all '' payable'' '''' (replace_all '' calldata'' ''''
       (replace_all '' storage'' '''' (replace_all '' memory'' '''' t))))"

definition is_digits :: "string \<Rightarrow> bool" where
  "is_digits s \<longleftrightarrow> s \<noteq> [] \<and> list_all (\<lambda>c. 48 \<le> cp c \<and> cp c \<le> 57) s"

definition dec_val :: "string \<Rightarrow> nat" where
  "dec_val s = foldl (\<lambda>n c. n * 10 + (cp c - 48)) 0 s"

definition is_bytes_type :: "string \<Rightarrow> bool" where
  "is_bytes_type t \<longleftrightarrow> t = ''bytes'' \<or> t = ''string''"

definition is_dynamic :: "string \<Rightarrow> bool" where
  "is_dynamic t = (let t = clean_type t in is_bytes_type t \<or> ends ''[]'' t)"

definition fixed_bytes_n :: "string \<Rightarrow> nat option" where
  "fixed_bytes_n t =
     (if starts ''bytes'' t \<and> is_digits (drop 5 t) then
        (let n = dec_val (drop 5 t) in if 1 \<le> n \<and> n \<le> 32 then Some n else None)
      else None)"

definition render_word_for_type :: "nat \<Rightarrow> string \<Rightarrow> string" where
  "render_word_for_type word t0 =
     (let t = clean_type t0 in
      if starts ''function'' t \<and> contains '' external'' t then
        ''f:'' @ show_nat (word div 2 ^ 96) @ '':'' @ show_nat (word div 2 ^ 64 mod 2 ^ 32)
      else case fixed_bytes_n t of
        Some n \<Rightarrow> ''w:'' @ show_nat (word div 2 ^ (256 - 8 * n))
      | None \<Rightarrow>
          if starts ''int'' t \<and> \<not> starts ''uint'' t then
            ''i:'' @ show_int (if 2 ^ 255 \<le> word then int word - 2 ^ 256 else int word)
          else ''w:'' @ show_nat word)"

definition array_elem :: "string \<Rightarrow> (string \<times> nat option) option" where
  "array_elem t0 =
     (let t = clean_type t0 in
      if \<not> ends '']'' t then None
      else case rpart_at ''['' t of
             None \<Rightarrow> None
           | Some (a, b) \<Rightarrow>
               (let inner = strip (butlast b); elem = strip a in
                if inner = [] then Some (elem, None)
                else if is_digits inner then Some (elem, Some (dec_val inner))
                else None))"

type_synonym structs = "(string \<times> string list) list"

definition struct_member_types :: "string \<Rightarrow> structs \<Rightarrow> string list option" where
  "struct_member_types t0 structs =
     (let t = clean_type t0 in
      if \<not> starts ''struct '' t then None
      else dget structs (strip (drop (length ''struct '') t)))"

section \<open>The layout of a type\<close>

fun is_dynamic_type :: "structs \<Rightarrow> nat \<Rightarrow> string \<Rightarrow> bool res" where
  "is_dynamic_type S 0 t0 = Inl RecursionError"
| "is_dynamic_type S (Suc d) t0 =
     (let t = clean_type t0 in
      if is_bytes_type t then Inr True
      else case array_elem t of
        Some (elem, n) \<Rightarrow> (if n = None then Inr True else is_dynamic_type S d elem)
      | None \<Rightarrow>
          (case struct_member_types t S of
             Some members \<Rightarrow> anyR (is_dynamic_type S d) members
           | None \<Rightarrow> Inr False))"

fun head_size :: "structs \<Rightarrow> nat \<Rightarrow> string \<Rightarrow> nat res" where
  "head_size S 0 t = Inl RecursionError"
| "head_size S (Suc d) t =
     bindR (is_dynamic_type S (Suc d) t) (\<lambda>dyn.
       if dyn then Inr 32
       else case array_elem (clean_type t) of
         Some (elem, n) \<Rightarrow>
           bindR (head_size S d elem) (\<lambda>k. Inr ((case n of Some k' \<Rightarrow> k' | None \<Rightarrow> 0) * k))
       | None \<Rightarrow>
           (case struct_member_types t S of
              Some members \<Rightarrow> sumR (head_size S d) members
            | None \<Rightarrow> Inr 32))"

section \<open>Decoding\<close>

text \<open>\<open>_decode_tuple\<close> with its loop variable \<open>pos\<close>, and \<open>_decode_value\<close>. The slice
  \<open>region[pos:pos + size]\<close> is \<open>take size (drop pos region)\<close>.\<close>

function decode_tuple :: "structs \<Rightarrow> nat \<Rightarrow> byte list \<Rightarrow> nat \<Rightarrow> string list \<Rightarrow> string list res"
  and decode_value :: "structs \<Rightarrow> nat \<Rightarrow> byte list \<Rightarrow> string \<Rightarrow> string res" where
  "decode_tuple S d region pos [] = Inr []"
| "decode_tuple S d region pos (t # types) =
     bindR (is_dynamic_type S d t) (\<lambda>dyn.
       if dyn then
         (if length region < pos + 32 then Inl ValueError
          else let off = be_val (take 32 (drop pos region)) in
            if length region < off then Inl ValueError
            else bindR (decode_value S d (drop off region) t) (\<lambda>v.
                 bindR (decode_tuple S d region (pos + 32) types) (\<lambda>vs. Inr (v # vs))))
       else
         bindR (head_size S d t) (\<lambda>size.
           if length region < pos + size then Inl ValueError
           else bindR (decode_value S d (take size (drop pos region)) t) (\<lambda>v.
                bindR (decode_tuple S d region (pos + size) types) (\<lambda>vs. Inr (v # vs)))))"
| "decode_value S 0 buf t0 = Inl RecursionError"
| "decode_value S (Suc d) buf t0 =
     (let t = clean_type t0 in
      if is_bytes_type t then
        (if length buf < 32 then Inl ValueError
         else let len = be_val (take 32 buf); payload = take len (drop 32 buf) in
           if length payload < len then Inl ValueError else Inr (''b:0x'' @ to_hex payload))
      else case array_elem t of
        Some (elem, n0) \<Rightarrow>
          (if n0 = None \<and> length buf < 32 then Inl ValueError
           else let n = (case n0 of None \<Rightarrow> be_val (take 32 buf) | Some k \<Rightarrow> k);
                    buf = (if n0 = None then drop 32 buf else buf) in
             if n \<noteq> 0 \<and> length buf < n * 32 then Inl ValueError
             else bindR (decode_tuple S d buf 0 (replicate n elem)) (\<lambda>vs.
                  Inr (''['' @ join '','' vs @ '']'')))
      | None \<Rightarrow>
          (case struct_member_types t S of
             Some members \<Rightarrow>
               bindR (decode_tuple S d buf 0 members) (\<lambda>vs. Inr (''('' @ join '','' vs @ '')''))
           | None \<Rightarrow>
               if starts ''struct '' (clean_type t) then Inl ValueError
               else if length buf < 32 then Inl ValueError
               else Inr (render_word_for_type (be_val (take 32 buf)) t)))"
  by pat_completeness auto
termination
  by (relation "measures
        [\<lambda>x. case x of Inl (S, d, r, p, ts) \<Rightarrow> d | Inr (S, d, b, t) \<Rightarrow> d,
         \<lambda>x. case x of Inl (S, d, r, p, ts) \<Rightarrow> Suc (length ts) | Inr (S, d, b, t) \<Rightarrow> 0]") auto

definition decode_abi_values :: "structs \<Rightarrow> nat \<Rightarrow> byte list \<Rightarrow> string list \<Rightarrow> string list res" where
  "decode_abi_values S d data types = decode_tuple S d data 0 types"

section \<open>Return and revert data\<close>

definition ERROR_SELECTOR :: string where
  "ERROR_SELECTOR = ''08c379a0''"

definition PANIC_SELECTOR :: string where
  "PANIC_SELECTOR = ''4e487b71''"

definition unhex :: "string \<Rightarrow> byte list res" where
  "unhex s =
     (case from_hex (if starts ''0x'' s then drop 2 s else s) of
        Some bs \<Rightarrow> Inr bs | None \<Rightarrow> Inl ValueError)"

definition evm_return_normal_form ::
    "structs \<Rightarrow> nat \<Rightarrow> string \<Rightarrow> string list \<Rightarrow> string res" where
  "evm_return_normal_form S d ret_hex return_types =
     bindR (unhex ret_hex) (\<lambda>data.
       if return_types = [] then Inr ''success|''
       else bindR (decode_abi_values S d data return_types) (\<lambda>vs.
            Inr (''success|'' @ join '','' vs)))"

text \<open>\<open>errors\<close> maps a selector to the error's name and parameter types; \<open>except Exception\<close>
  around the decoder catches every error of it, the exhausted stack included.\<close>

definition evm_revert_normal_form ::
    "structs \<Rightarrow> nat \<Rightarrow> (string \<times> string \<times> string list) list \<Rightarrow> string \<Rightarrow> utext res" where
  "evm_revert_normal_form S d errors ret_hex =
     bindR (unhex ret_hex) (\<lambda>data.
       if data = [] then Inr (ulit ''revert|empty'')
       else
         let selector = to_hex (take 4 data);
             raw = ulit (''revert|raw:0x'' @ to_hex data) in
         if selector = ERROR_SELECTOR \<and> 4 + 64 \<le> length data then
           (let off = be_val (take 32 (drop 4 data));
                base = 4 + off;
                len = be_val (take 32 (drop base data));
                msg = utf8_decode (take len (drop (base + 32) data))
            in Inr (ulit ''revert|error:'' @ msg))
         else if selector = PANIC_SELECTOR \<and> 4 + 32 \<le> length data then
           Inr (ulit (''revert|panic:'' @ show_nat (be_val (take 32 (drop 4 data)))))
         else case dget errors selector of
           Some (name, types) \<Rightarrow>
             (case decode_abi_values S d (drop 4 data) types of
                Inr vals \<Rightarrow> Inr (ulit (''revert|custom:'' @ name @ '':'' @ join '','' vals))
              | Inl _ \<Rightarrow> Inr raw)
         | None \<Rightarrow> Inr raw)"

end
