(* ===== verification/AbiEncode.thy ===== *)
theory AbiEncode
  imports AbiTypes
begin

text \<open>
  \<open>contest/measure.py\<close>: the ABI encoding of the arguments of \<open>claim.json\<close> into calldata,
  type-directed (\<open>_encode_typed\<close>, \<open>_encode_tuple_typed\<close>) and by argument form alone
  (\<open>_encode_arg\<close>, the legacy branch of \<open>_encode_args_abi\<close>).
\<close>

definition word32 :: "int \<Rightarrow> byte list" where
  "word32 i = be_bytes 32 (nat (i mod 2 ^ 256))"

definition zero_pad :: "nat \<Rightarrow> byte list" where
  "zero_pad n = replicate ((32 - n mod 32) mod 32) 0"

definition encode_arg :: "json \<Rightarrow> (bool \<times> byte list) res" where
  "encode_arg arg =
     (case arg of
        JBool b \<Rightarrow> Inr (False, be_bytes 32 (if b then 1 else 0))
      | JInt i \<Rightarrow> Inr (False, word32 i)
      | JObj d \<Rightarrow>
          if dhas d ''word'' then
            bindR (py_int (jget d ''word'')) (\<lambda>i. Inr (False, word32 i))
          else if dhas d ''int'' then
            bindR (py_int (jget d ''int'')) (\<lambda>i. Inr (False, word32 i))
          else if dhas d ''bytes'' then
            bindR (unhex (py_str (jget d ''bytes''))) (\<lambda>bs.
              bindR (to_bytes 32 (int (length bs))) (\<lambda>len.
                Inr (True, len @ bs @ zero_pad (length bs))))
          else Inl ValueError
      | _ \<Rightarrow> Inl ValueError)"

definition arg_component_word :: "json \<Rightarrow> int res" where
  "arg_component_word v =
     (case v of
        JBool _ \<Rightarrow> Inl ValueError
      | JInt i \<Rightarrow> Inr i
      | JObj d \<Rightarrow> if dhas d ''word'' then py_int (jget d ''word'') else Inl ValueError
      | _ \<Rightarrow> Inl ValueError)"

text \<open>The loop of \<open>_encode_tuple_typed\<close>: the head and the tail grow, a dynamic component puts
  its offset into the head.\<close>

fun pack_loop ::
    "nat \<Rightarrow> (bool \<times> byte list) list \<Rightarrow> byte list \<Rightarrow> byte list \<Rightarrow> byte list res" where
  "pack_loop hs [] head tail = Inr (head @ tail)"
| "pack_loop hs ((is_dyn, enc) # encoded) head tail =
     (if is_dyn then
        bindR (to_bytes 32 (int (hs + length tail))) (\<lambda>off.
          pack_loop hs encoded (head @ off) (tail @ enc))
      else pack_loop hs encoded (head @ enc) tail)"

definition pack :: "(bool \<times> byte list) list \<Rightarrow> byte list res" where
  "pack encoded =
     pack_loop (sum_list (map (\<lambda>(is_dyn, enc). if is_dyn then 32 else length enc) encoded))
       encoded [] []"

text \<open>The word of an external function value.\<close>

definition fn_word :: "int \<Rightarrow> int \<Rightarrow> nat" where
  "fn_word addr sel = nat (addr mod 2 ^ 160) * 2 ^ 96 + nat (sel mod 2 ^ 32) * 2 ^ 64"

function encode_typed :: "structs \<Rightarrow> nat \<Rightarrow> json \<Rightarrow> string \<Rightarrow> (bool \<times> byte list) res"
  and encode_tuple_typed :: "structs \<Rightarrow> nat \<Rightarrow> json list \<Rightarrow> string list \<Rightarrow> byte list res" where
  "encode_typed S 0 arg t = Inl RecursionError"
| "encode_typed S (Suc d) arg t =
     (let ct = clean_type t in
      case array_elem ct of
        Some (elem, n) \<Rightarrow>
          (case arg of
             JList xs \<Rightarrow>
               (case n of
                  None \<Rightarrow>
                    bindR (to_bytes 32 (int (length xs))) (\<lambda>len.
                    bindR (encode_tuple_typed S d xs (replicate (length xs) elem)) (\<lambda>body.
                      Inr (True, len @ body)))
                | Some k \<Rightarrow>
                    if length xs \<noteq> k then Inl ValueError
                    else bindR (encode_tuple_typed S d xs (replicate k elem)) (\<lambda>body.
                         bindR (is_dynamic_type S (Suc d) ct) (\<lambda>dyn. Inr (dyn, body))))
           | _ \<Rightarrow> Inl ValueError)
      | None \<Rightarrow>
          if starts ''function'' ct then
            (if \<not> contains '' external'' ct then Inl ValueError
             else case arg of
               JList [a, s] \<Rightarrow>
                 bindR (arg_component_word a) (\<lambda>addr.
                 bindR (arg_component_word s) (\<lambda>sel.
                   Inr (False, be_bytes 32 (fn_word addr sel))))
             | _ \<Rightarrow> Inl ValueError)
          else case struct_member_types ct S of
            Some members \<Rightarrow>
              (case arg of
                 JList xs \<Rightarrow>
                   if length xs \<noteq> length members then Inl ValueError
                   else bindR (encode_tuple_typed S d xs members) (\<lambda>body.
                        bindR (is_dynamic_type S (Suc d) ct) (\<lambda>dyn. Inr (dyn, body)))
               | _ \<Rightarrow> Inl ValueError)
          | None \<Rightarrow>
              if starts ''struct '' ct then Inl ValueError
              else if is_list arg then Inl ValueError
              else encode_arg arg)"
| "encode_tuple_typed S d args types =
     bindR (mapR (\<lambda>p. encode_typed S d (fst p) (snd p)) (zip args types)) pack"
  by pat_completeness auto
termination
  by (relation "measures
        [\<lambda>x. case x of Inl (S, d, a, t) \<Rightarrow> d | Inr (S, d, a, t) \<Rightarrow> d,
         \<lambda>x. case x of Inl (S, d, a, t) \<Rightarrow> 0 | Inr (S, d, a, t) \<Rightarrow> 1]") auto

definition encode_args_abi ::
    "structs \<Rightarrow> nat \<Rightarrow> json list \<Rightarrow> string list option \<Rightarrow> byte list res" where
  "encode_args_abi S d args types =
     (case types of
        Some ts \<Rightarrow>
          if length args \<noteq> length ts then Inl ValueError else encode_tuple_typed S d args ts
      | None \<Rightarrow>
          bindR (mapR encode_arg args) (\<lambda>encoded. pack_loop (32 * length encoded) encoded [] []))"

definition build_calldata ::
    "structs \<Rightarrow> nat \<Rightarrow> string \<Rightarrow> json list \<Rightarrow> string list option \<Rightarrow> string res" where
  "build_calldata S d selector args types =
     bindR (encode_args_abi S d args types) (\<lambda>bs. Inr (selector @ to_hex bs))"

end
