(* ===== verification/AbiSpec.thy ===== *)
theory AbiSpec
  imports AbiEncode
begin

text \<open>
  The contract of the ABI codec. \<open>aty\<close> is the structure behind a type string, \<open>resolve\<close> computes
  it from the string and the struct table; \<open>dynT\<close>, \<open>hsizeT\<close> are the layout rules of the ABI and
  \<open>denote\<close> is the normal form an argument of \<open>claim.json\<close> stands for, all by structural recursion.
  The theorems show that the string-directed code computes them for every stack depth that
  reaches the leaves of the type, and that the decoder inverts the encoder.
\<close>

section \<open>Types\<close>

datatype aty = AWord string | AFun string | ADyn | AArr aty "nat option" | AStruct "aty list"

fun resolve :: "structs \<Rightarrow> nat \<Rightarrow> string \<Rightarrow> aty option" where
  "resolve S 0 t0 = None"
| "resolve S (Suc d) t0 =
     (let t = clean_type t0 in
      if clean_type t \<noteq> t then None
      else if is_bytes_type t then Some ADyn
      else case array_elem t of
        Some (elem, n) \<Rightarrow> map_option (\<lambda>T. AArr T n) (resolve S d elem)
      | None \<Rightarrow>
          if starts ''function'' t then
            (if contains '' external'' t then Some (AFun t) else None)
          else case struct_member_types t S of
            Some members \<Rightarrow> map_option AStruct (those (map (resolve S d) members))
          | None \<Rightarrow> if starts ''struct '' t then None else Some (AWord t))"

fun dynT :: "aty \<Rightarrow> bool" where
  "dynT (AWord t) = False"
| "dynT (AFun t) = False"
| "dynT ADyn = True"
| "dynT (AArr T n) = (n = None \<or> dynT T)"
| "dynT (AStruct Ts) = list_ex dynT Ts"

fun hsizeT :: "aty \<Rightarrow> nat" where
  "hsizeT (AWord t) = 32"
| "hsizeT (AFun t) = 32"
| "hsizeT ADyn = 32"
| "hsizeT (AArr T n) =
     (if n = None \<or> dynT T then 32 else (case n of Some k \<Rightarrow> k | None \<Rightarrow> 0) * hsizeT T)"
| "hsizeT (AStruct Ts) = (if list_ex dynT Ts then 32 else sum_list (map hsizeT Ts))"

text \<open>What Solidity has: no array of fixed length 0 and no empty struct.\<close>

fun wfT :: "aty \<Rightarrow> bool" where
  "wfT (AArr T n) = (n \<noteq> Some 0 \<and> wfT T)"
| "wfT (AStruct Ts) = (Ts \<noteq> [] \<and> list_all wfT Ts)"
| "wfT _ = True"

section \<open>The value of an argument\<close>

definition word_arg :: "json \<Rightarrow> nat res" where
  "word_arg a =
     bindR (case a of
        JBool b \<Rightarrow> Inr (if b then 1 else 0)
      | JInt i \<Rightarrow> Inr i
      | JObj d \<Rightarrow> if dhas d ''word'' then py_int (jget d ''word'')
                else if dhas d ''int'' then py_int (jget d ''int'') else Inl ValueError
      | _ \<Rightarrow> Inl ValueError) (\<lambda>i. Inr (nat (i mod 2 ^ 256)))"

definition bytes_arg :: "json \<Rightarrow> byte list res" where
  "bytes_arg a =
     (case a of
        JObj d \<Rightarrow> if dhas d ''word'' \<or> dhas d ''int'' \<or> \<not> dhas d ''bytes'' then Inl ValueError
                else unhex (py_str (jget d ''bytes''))
      | _ \<Rightarrow> Inl ValueError)"

function denote :: "aty \<Rightarrow> json \<Rightarrow> string res" where
  "denote (AWord t) a = bindR (word_arg a) (\<lambda>w. Inr (render_word_for_type w t))"
| "denote (AFun t) a =
     (case a of
        JList [x, y] \<Rightarrow>
          bindR (arg_component_word x) (\<lambda>addr. bindR (arg_component_word y) (\<lambda>sel.
            Inr (''f:'' @ show_nat (nat (addr mod 2 ^ 160)) @ '':'' @ show_nat (nat (sel mod 2 ^ 32)))))
      | _ \<Rightarrow> Inl ValueError)"
| "denote ADyn a = bindR (bytes_arg a) (\<lambda>bs. Inr (''b:0x'' @ to_hex bs))"
| "denote (AArr T n) a =
     (case a of
        JList xs \<Rightarrow> bindR (mapR (denote T) xs) (\<lambda>vs. Inr (''['' @ join '','' vs @ '']''))
      | _ \<Rightarrow> Inl ValueError)"
| "denote (AStruct Ts) a =
     (case a of
        JList xs \<Rightarrow>
          bindR (mapR (\<lambda>p. denote (fst p) (snd p)) (zip Ts xs)) (\<lambda>vs.
            Inr (''('' @ join '','' vs @ '')''))
      | _ \<Rightarrow> Inl ValueError)"
  by pat_completeness auto
termination
proof (relation "measure (\<lambda>(T, a). size T)", goal_cases)
  case (3 Ts a xs p)
  then have "fst p \<in> set Ts" by (metis prod.collapse set_zip_leftD)
  then have "size (fst p) \<le> size_list size Ts" by (rule size_list_estimation') simp
  then show ?case by (simp add: case_prod_beta)
qed auto

definition denotes :: "aty list \<Rightarrow> json list \<Rightarrow> string list res" where
  "denotes Ts xs = mapR (\<lambda>p. denote (fst p) (snd p)) (zip Ts xs)"

section \<open>The layout functions compute the ABI layout\<close>

lemma those_Some: "those xs = Some ys \<longleftrightarrow> list_all2 (\<lambda>x y. x = Some y) xs ys"
proof (induction xs arbitrary: ys)
  case (Cons x xs)
  then show ?case by (cases x; cases ys) auto
qed auto

lemma those_map_Some: "those (map f xs) = Some ys \<longleftrightarrow> list_all2 (\<lambda>x y. f x = Some y) xs ys"
  by (simp add: those_Some list_all2_map1)

lemma hsizeT_dyn: "dynT T \<Longrightarrow> hsizeT T = 32"
  by (cases T) auto

lemma hsizeT_ge: "wfT T \<Longrightarrow> 32 \<le> hsizeT T"
proof (induction T)
  case (AArr T n)
  have "hsizeT T \<le> k * hsizeT T" if "k \<noteq> 0" for k using that by (cases k) auto
  with AArr show ?case by (cases n) (auto intro: order_trans)
next
  case (AStruct Ts)
  then obtain T Ts' where "Ts = T # Ts'" by (cases Ts) auto
  with AStruct have "32 \<le> hsizeT T" by auto
  then have "32 \<le> hsizeT T + sum_list (map hsizeT Ts')" by (rule trans_le_add1)
  with \<open>Ts = _\<close> show ?case by simp
qed auto

text \<open>The cases of \<open>resolve\<close>, in the order the code tests them.\<close>

lemma resolve_cases:
  assumes "resolve S n t = Some T"
  obtains (dyn) d where "n = Suc d" "is_bytes_type (clean_type t)" "T = ADyn"
  | (arr) d elem k T' where "n = Suc d" "\<not> is_bytes_type (clean_type t)"
      "array_elem (clean_type t) = Some (elem, k)" "resolve S d elem = Some T'" "T = AArr T' k"
  | (fn) d where "n = Suc d" "\<not> is_bytes_type (clean_type t)" "array_elem (clean_type t) = None"
      "starts ''function'' (clean_type t)" "contains '' external'' (clean_type t)"
      "T = AFun (clean_type t)"
  | (struct) d members Ts where "n = Suc d" "\<not> is_bytes_type (clean_type t)"
      "array_elem (clean_type t) = None" "\<not> starts ''function'' (clean_type t)"
      "struct_member_types (clean_type t) S = Some members"
      "list_all2 (\<lambda>m T. resolve S d m = Some T) members Ts" "T = AStruct Ts"
  | (word) d where "n = Suc d" "\<not> is_bytes_type (clean_type t)" "array_elem (clean_type t) = None"
      "\<not> starts ''function'' (clean_type t)" "struct_member_types (clean_type t) S = None"
      "\<not> starts ''struct '' (clean_type t)" "T = AWord (clean_type t)"
  using assms
  by (cases n) (auto simp: Let_def those_map_Some split: if_splits option.splits)

lemma resolve_clean: "resolve S n t = Some T \<Longrightarrow> clean_type (clean_type t) = clean_type t"
  by (cases n) (auto simp: Let_def split: if_splits)

lemma function_not_struct: "starts ''function'' t \<Longrightarrow> \<not> starts ''struct '' t"
  by (auto simp: starts_iff)

lemma struct_function_none:
  "clean_type (clean_type t) = clean_type t \<Longrightarrow> starts ''function'' (clean_type t) \<Longrightarrow>
     struct_member_types (clean_type t) S = None"
  by (simp add: struct_member_types_def function_not_struct)

lemma struct_members_clean:
  "clean_type (clean_type t) = clean_type t \<Longrightarrow>
     struct_member_types (clean_type t) S = struct_member_types t S"
  by (simp add: struct_member_types_def)

lemma is_dynamic_type_resolve:
  "resolve S n t = Some T \<Longrightarrow> n \<le> m \<Longrightarrow> is_dynamic_type S m t = Inr (dynT T)"
proof (induction n arbitrary: t T m)
  case (Suc n)
  from Suc.prems(2) obtain m' where m: "m = Suc m'" "n \<le> m'" by (cases m) auto
  from Suc.prems(1) show ?case
  proof (cases rule: resolve_cases)
    case (arr d elem k T')
    with Suc.IH [of elem T' m'] m show ?thesis by (cases k) auto
  next
    case (struct d members Ts)
    have "anyR (is_dynamic_type S m') members = Inr (list_ex dynT Ts)"
      using struct(6) Suc.IH m(2) struct(1) by (induction rule: list_all2_induct) auto
    with struct m show ?thesis by simp
  next
    case (fn d)
    then show ?thesis using m resolve_clean [OF Suc.prems(1)] by (simp add: struct_function_none)
  qed (use m in simp_all)
qed simp

lemma head_size_resolve:
  "resolve S n t = Some T \<Longrightarrow> n \<le> m \<Longrightarrow> head_size S m t = Inr (hsizeT T)"
proof (induction n arbitrary: t T m)
  case (Suc n)
  note dyn = is_dynamic_type_resolve [OF Suc.prems]
  from Suc.prems(2) obtain m' where m: "m = Suc m'" "n \<le> m'" by (cases m) auto
  note dyn = dyn [unfolded m(1)]
  note st = struct_members_clean [OF resolve_clean [OF Suc.prems(1)], of S]
  show ?case
  proof (cases "dynT T")
    case True
    with dyn m show ?thesis by (simp add: hsizeT_dyn del: is_dynamic_type.simps)
  next
    case False
    from Suc.prems(1) show ?thesis
    proof (cases rule: resolve_cases)
      case (arr d elem k T')
      with Suc.IH [of elem T' m'] m dyn False show ?thesis
        by (cases k) (auto simp del: is_dynamic_type.simps)
    next
      case (struct d members Ts)
      have "sumR (head_size S m') members = Inr (sum_list (map hsizeT Ts))"
        using struct(6) Suc.IH m(2) struct(1) by (induction rule: list_all2_induct) auto
      with struct m dyn False st show ?thesis by (simp del: is_dynamic_type.simps)
    next
      case (fn d)
      then show ?thesis using m dyn resolve_clean [OF Suc.prems(1)]
        by (simp add: struct_function_none st [symmetric] del: is_dynamic_type.simps)
    qed (use m dyn False st in \<open>simp_all del: is_dynamic_type.simps\<close>)
  qed
qed simp

section \<open>Head and tail\<close>

definition headlen :: "(bool \<times> byte list) list \<Rightarrow> nat" where
  "headlen es = sum_list (map (\<lambda>(is_dyn, enc). if is_dyn then 32 else length enc) es)"

lemma headlen_simps [simp]:
  "headlen [] = 0"
  "headlen ((b, e) # es) = (if b then 32 else length e) + headlen es"
  by (simp_all add: headlen_def)

lemma to_bytes_Inr:
  "to_bytes k (int n) = Inr bs \<longleftrightarrow> n < 256 ^ k \<and> bs = be_bytes k n"
  by (auto simp: to_bytes_def)

lemma pack_loop_shape:
  "pack_loop hs es h q = Inr r \<Longrightarrow> \<exists>hx tx. r = h @ hx @ q @ tx \<and> length hx = headlen es"
proof (induction hs es h q arbitrary: r rule: pack_loop.induct)
  case (2 hs b e es h q)
  show ?case
  proof (cases b)
    case True
    with "2.prems" obtain off where off: "to_bytes 32 (int (hs + length q)) = Inr off"
      and rest: "pack_loop hs es (h @ off) (q @ e) = Inr r"
      by (auto simp: bindR_eq_Inr)
    from "2.IH"(1) [OF True off rest] obtain hx tx
      where "r = h @ (off @ hx) @ q @ (e @ tx)" "length hx = headlen es" by auto
    moreover from off have "length off = 32" by (auto simp only: to_bytes_Inr length_be_bytes)
    ultimately show ?thesis using True by (intro exI [of _ "off @ hx"] exI [of _ "e @ tx"]) simp
  next
    case False
    with "2.prems" have "pack_loop hs es (h @ e) q = Inr r" by simp
    from "2.IH"(2) [OF False this] obtain hx tx
      where "r = h @ (e @ hx) @ q @ tx" "length hx = headlen es" by auto
    with False show ?thesis by (intro exI [of _ "e @ hx"] exI [of _ tx]) simp
  qed
qed auto

lemma pack_loop_static:
  "list_all (\<lambda>p. \<not> fst p) es \<Longrightarrow> pack_loop hs es h q = Inr (h @ concat (map snd es) @ q)"
  by (induction hs es h q rule: pack_loop.induct) auto

lemma pack_static_length:
  "list_all (\<lambda>p. \<not> fst p) es \<Longrightarrow> pack es = Inr r \<Longrightarrow> length r = headlen es"
  by (auto simp: pack_def pack_loop_static headlen_def length_concat comp_def case_prod_beta
      list_all_iff intro!: arg_cong [of _ _ sum_list])

lemma pack_length: "pack es = Inr r \<Longrightarrow> headlen es \<le> length r"
  unfolding pack_def by (drule pack_loop_shape) auto

text \<open>One component: what the decoder needs of the encoding of one value.\<close>

definition item_ok :: "structs \<Rightarrow> nat \<Rightarrow> string \<Rightarrow> bool \<times> byte list \<Rightarrow> string \<Rightarrow> bool" where
  "item_ok S m t p v \<longleftrightarrow>
     is_dynamic_type S m t = Inr (fst p) \<and> (\<forall>rest. decode_value S m (snd p @ rest) t = Inr v)
     \<and> (\<not> fst p \<longrightarrow> head_size S m t = Inr (length (snd p)))"

fun items_ok :: "structs \<Rightarrow> nat \<Rightarrow> string list \<Rightarrow> (bool \<times> byte list) list \<Rightarrow> string list \<Rightarrow> bool" where
  "items_ok S m (t # ts) (p # ps) (v # vs) = (item_ok S m t p v \<and> items_ok S m ts ps vs)"
| "items_ok S m [] [] [] = True"
| "items_ok S m _ _ _ = False"

lemma decode_tuple_pack_loop:
  "items_ok S m ts es vs \<Longrightarrow> pack_loop hs es h q = Inr r \<Longrightarrow> hs = length h + headlen es \<Longrightarrow>
     decode_tuple S m (r @ rest) (length h) ts = Inr vs"
proof (induction S m ts es vs arbitrary: h q rule: items_ok.induct)
  case (1 S m t ts p ps v vs)
  obtain b e where p: "p = (b, e)" by (cases p)
  from "1.prems"(1) p have it: "is_dynamic_type S m t = Inr b"
    "\<And>rest. decode_value S m (e @ rest) t = Inr v" "\<not> b \<Longrightarrow> head_size S m t = Inr (length e)"
    and its: "items_ok S m ts ps vs" by (auto simp: item_ok_def)
  show ?case
  proof (cases b)
    case True
    with "1.prems"(2) p obtain off where off: "to_bytes 32 (int (hs + length q)) = Inr off"
      and nxt: "pack_loop hs ps (h @ off) (q @ e) = Inr r"
      by (auto simp: bindR_eq_Inr)
    from off have "length off = 32" and val: "be_val off = hs + length q"
      by (auto simp only: to_bytes_Inr length_be_bytes be_val_be_bytes)
    from pack_loop_shape [OF nxt] obtain hx tx
      where r: "r = h @ off @ hx @ q @ e @ tx" and hx: "length hx = headlen ps" by auto
    from "1.prems"(3) p True have hs: "hs = length h + 32 + headlen ps" by simp
    have "decode_tuple S m (r @ rest) (length (h @ off)) ts = Inr vs"
      using "1.IH" [OF its nxt] hs \<open>length off = 32\<close> by simp
    moreover have "take 32 (drop (length h) (r @ rest)) = off"
      using \<open>length off = 32\<close> by (simp add: r)
    moreover have "drop (hs + length q) (r @ rest) = e @ tx @ rest"
      using \<open>length off = 32\<close> hx by (simp add: r hs)
    moreover have "\<not> length (r @ rest) < hs + length q" "\<not> length (r @ rest) < length h + 32"
      using \<open>length off = 32\<close> hx by (simp_all add: r hs)
    ultimately show ?thesis
      using True it \<open>length off = 32\<close> by (simp add: val Let_def)
  next
    case False
    with "1.prems"(2) p have nxt: "pack_loop hs ps (h @ e) q = Inr r" by simp
    from pack_loop_shape [OF nxt] obtain hx tx
      where r: "r = h @ e @ hx @ q @ tx" by auto
    have "decode_tuple S m (r @ rest) (length (h @ e)) ts = Inr vs"
      using "1.IH" [OF its nxt] "1.prems"(3) p False by simp
    moreover have "take (length e) (drop (length h) (r @ rest)) = e" by (simp add: r)
    moreover have "\<not> length (r @ rest) < length h + length e" by (simp add: r)
    ultimately show ?thesis using False it it(2) [of "[]"] by simp
  qed
qed auto

lemma decode_tuple_pack:
  "items_ok S m ts es vs \<Longrightarrow> pack es = Inr r \<Longrightarrow> decode_tuple S m (r @ rest) 0 ts = Inr vs"
  using decode_tuple_pack_loop [of S m ts es vs "headlen es" "[]" "[]" r rest]
  by (simp add: pack_def headlen_def)

section \<open>One value\<close>

lemma be_val_word32: "be_val (word32 i @ rest) = be_val (word32 i) * 256 ^ length rest + be_val rest"
  by (rule be_val_append)

lemma length_word32 [simp]: "length (word32 i) = 32"
  by (simp add: word32_def)

lemma be_val_of_word32: "be_val (word32 i) = nat (i mod 2 ^ 256)"
proof -
  have "nat (i mod 2 ^ 256) < 2 ^ 256" by (simp add: nat_less_iff)
  then have "nat (i mod 2 ^ 256) < 256 ^ 32" by simp
  then show ?thesis unfolding word32_def by (rule be_val_be_bytes)
qed

lemma encode_word_arg:
  assumes "word_arg a = Inr w"
  shows "encode_arg a = Inr (False, be_bytes 32 w) \<and> w < 2 ^ 256"
proof -
  have small: "nat (i mod 2 ^ 256) < 2 ^ 256" for i :: int by (simp add: nat_less_iff)
  from assms small show ?thesis
    by (cases a) (auto simp: word_arg_def encode_arg_def bindR_eq_Inr word32_def split: if_splits)
qed

lemma encode_bytes_arg:
  assumes "bytes_arg a = Inr bs" "encode_arg a = Inr (b, e)"
  shows "b \<and> length bs < 256 ^ 32 \<and> e = be_bytes 32 (length bs) @ bs @ zero_pad (length bs)"
  using assms
  by (cases a) (auto simp: bytes_arg_def encode_arg_def bindR_eq_Inr to_bytes_Inr split: if_splits)

lemma word_arg_not_list: "word_arg a = Inr w \<Longrightarrow> \<not> is_list a"
  by (cases a) (auto simp: word_arg_def)

lemma bytes_arg_not_list: "bytes_arg a = Inr w \<Longrightarrow> \<not> is_list a"
  by (cases a) (auto simp: bytes_arg_def)

lemma fn_word_lt: "fn_word a s < 256 ^ 32"
proof -
  have "nat (a mod 2 ^ 160) < 2 ^ 160" "nat (s mod 2 ^ 32) < 2 ^ 32"
    by (simp_all add: nat_less_iff)
  then show ?thesis by (simp add: fn_word_def)
qed

lemma fn_word_split:
  "fn_word a s div 2 ^ 96 = nat (a mod 2 ^ 160)"
  "fn_word a s div 2 ^ 64 mod 2 ^ 32 = nat (s mod 2 ^ 32)"
proof -
  have s: "nat (s mod 2 ^ 32) < 2 ^ 32" by (simp add: nat_less_iff)
  then show "fn_word a s div 2 ^ 96 = nat (a mod 2 ^ 160)"
    by (simp add: fn_word_def)
  have "fn_word a s div 2 ^ 64 = nat (a mod 2 ^ 160) * 2 ^ 32 + nat (s mod 2 ^ 32)"
    by (simp add: fn_word_def)
  with s show "fn_word a s div 2 ^ 64 mod 2 ^ 32 = nat (s mod 2 ^ 32)" by simp
qed

lemma mapR_length: "mapR f xs = Inr ys \<Longrightarrow> length ys = length xs"
  by (simp add: mapR_Inr list_all2_lengthD)

lemma mapR_zip_replicate:
  "length xs \<le> k \<Longrightarrow> mapR (\<lambda>p. f (fst p) (snd p)) (zip (replicate k T) xs) = mapR (f T) xs"
proof (induction xs arbitrary: k)
  case (Cons x xs)
  then show ?case by (cases k) auto
qed simp

text \<open>The components of an array or struct, given the claim for each of them.\<close>

definition codec_item :: "structs \<Rightarrow> nat \<Rightarrow> nat \<Rightarrow> nat \<Rightarrow> bool" where
  "codec_item S n d m \<longleftrightarrow>
     (\<forall>a t T p v. resolve S n t = Some T \<longrightarrow> wfT T \<longrightarrow> encode_typed S d a t = Inr p \<longrightarrow>
        denote T a = Inr v \<longrightarrow>
        fst p = dynT T \<and> (\<not> fst p \<longrightarrow> length (snd p) = hsizeT T)
        \<and> (\<forall>rest. decode_value S m (snd p @ rest) t = Inr v))"

lemma codec_itemD:
  assumes "codec_item S n d m" "resolve S n t = Some T" "wfT T" "encode_typed S d a t = Inr p"
    "denote T a = Inr v"
  shows "fst p = dynT T" "\<not> fst p \<Longrightarrow> length (snd p) = hsizeT T"
    "decode_value S m (snd p @ rest) t = Inr v"
  using assms unfolding codec_item_def by blast+

lemma items_of_encoded:
  assumes "mapR (\<lambda>p. encode_typed S d (fst p) (snd p)) (zip xs ts) = Inr es"
    and "denotes Ts xs = Inr vs" and "length xs = length ts"
    and "list_all2 (\<lambda>t T. resolve S n t = Some T) ts Ts" and "list_all wfT Ts"
    and item: "codec_item S n d m" and "n \<le> m"
  shows "items_ok S m ts es vs \<and> map fst es = map dynT Ts \<and> headlen es = sum_list (map hsizeT Ts)"
  using assms(4,1,2,3,5)
proof (induction ts Ts arbitrary: xs es vs rule: list_all2_induct)
  case Nil
  then show ?case by (simp add: denotes_def)
next
  case (Cons t ts T Ts)
  from Cons.prems(3) obtain a as where xs: "xs = a # as" by (cases xs) auto
  with Cons.prems(1) obtain p ps where es: "es = p # ps" and p: "encode_typed S d a t = Inr p"
    and ps: "mapR (\<lambda>p. encode_typed S d (fst p) (snd p)) (zip as ts) = Inr ps"
    by (auto simp: bindR_eq_Inr)
  from Cons.prems(2) xs obtain v ws where vs: "vs = v # ws" and v: "denote T a = Inr v"
    and ws: "denotes Ts as = Inr ws"
    by (auto simp: bindR_eq_Inr denotes_def)
  from Cons.prems(4) have "wfT T" by simp
  note it = codec_itemD [OF item Cons.hyps(1) this p v]
  then have "item_ok S m t p v"
    using is_dynamic_type_resolve [OF Cons.hyps(1) \<open>n \<le> m\<close>]
      head_size_resolve [OF Cons.hyps(1) \<open>n \<le> m\<close>]
    by (simp add: item_ok_def)
  moreover have "items_ok S m ts ps ws \<and> map fst ps = map dynT Ts
      \<and> headlen ps = sum_list (map hsizeT Ts)"
    using Cons.IH [OF ps ws] Cons.prems(3,4) xs by simp
  moreover have "(if fst p then 32 else length (snd p)) = hsizeT T"
    using it(1,2) hsizeT_dyn by auto
  moreover have "headlen (p # ps) = (if fst p then 32 else length (snd p)) + headlen ps"
    by (cases p) simp
  ultimately show ?case using it(1) by (simp add: es vs)
qed

lemma decode_value_suc:
  "clean_type (clean_type t) = clean_type t \<Longrightarrow> is_bytes_type (clean_type t) \<Longrightarrow>
     n < 256 ^ 32 \<Longrightarrow> length bs = n \<Longrightarrow>
     decode_value S (Suc m) (be_bytes 32 n @ bs @ rest) t = Inr (''b:0x'' @ to_hex bs)"
  by (simp add: Let_def be_val_be_bytes)

lemma decode_value_word:
  assumes "\<not> is_bytes_type (clean_type t)" "array_elem (clean_type t) = None"
    "struct_member_types (clean_type t) S = None" "\<not> starts ''struct '' (clean_type t)"
    "clean_type (clean_type t) = clean_type t" "w < 256 ^ 32"
  shows "decode_value S (Suc m) (be_bytes 32 w @ rest) t = Inr (render_word_for_type w (clean_type t))"
  using assms by (simp add: Let_def be_val_be_bytes)

lemma decode_value_array:
  assumes "\<not> is_bytes_type (clean_type t)" "array_elem (clean_type t) = Some (elem, k)"
    and "items_ok S m (replicate n elem) es vs" "pack es = Inr body" "n * 32 \<le> length body"
    and "k = None \<and> pre = be_bytes 32 n \<and> n < 256 ^ 32 \<or> k = Some n \<and> pre = []"
  shows "decode_value S (Suc m) (pre @ body @ rest) t = Inr (''['' @ join '','' vs @ '']'')"
proof -
  have "decode_tuple S m (body @ rest) 0 (replicate n elem) = Inr vs"
    by (rule decode_tuple_pack [OF assms(3,4)])
  moreover have "\<not> (n \<noteq> 0 \<and> length (body @ rest) < n * 32)" using assms(5) by simp
  ultimately show ?thesis
    using assms(1,2,6) by (elim disjE conjE) (simp_all add: Let_def be_val_be_bytes)
qed

lemma codec_item: "n \<le> d \<Longrightarrow> n \<le> m \<Longrightarrow> codec_item S n d m"
proof (induction n arbitrary: d m)
  case 0
  then show ?case by (simp add: codec_item_def)
next
  case (Suc n)
  from Suc.prems obtain d' m' where dm: "d = Suc d'" "n \<le> d'" "m = Suc m'" "n \<le> m'"
    by (cases d; cases m) auto
  have IH: "codec_item S n d' m'" using Suc.IH dm by blast
  have "fst p = dynT T \<and> (\<not> fst p \<longrightarrow> length (snd p) = hsizeT T)
       \<and> (\<forall>rest. decode_value S m (snd p @ rest) t = Inr v)"
    if prems: "resolve S (Suc n) t = Some T" "wfT T" "encode_typed S d a t = Inr p"
      "denote T a = Inr v" for a t T p v
  proof -
  note cl = resolve_clean [OF prems(1)]
  note enc = prems(3) [unfolded dm(1)]
  have dynt: "is_dynamic_type S (Suc d') (clean_type t) = Inr (dynT T)"
    using is_dynamic_type_resolve [OF prems(1), of "Suc d'"] dm cl by simp
  from prems(1) show ?thesis
  proof (cases rule: resolve_cases)
    case (dyn e)
    from dyn prems(4) obtain bs where bs: "bytes_arg a = Inr bs" "v = ''b:0x'' @ to_hex bs"
      by (auto simp: bindR_eq_Inr)
    have notarr: "array_elem (clean_type t) = None" "\<not> starts ''function'' (clean_type t)"
      "struct_member_types (clean_type t) S = None" "\<not> starts ''struct '' (clean_type t)"
      using dyn(2) cl by (auto simp: is_bytes_type_def array_elem_def ends_def struct_member_types_def)
    with enc have "encode_arg a = Inr p" using bytes_arg_not_list [OF bs(1)] by (simp add: Let_def)
    with encode_bytes_arg [OF bs(1), of "fst p" "snd p"]
    have p: "fst p" "length bs < 256 ^ 32"
      "snd p = be_bytes 32 (length bs) @ bs @ zero_pad (length bs)" by simp_all
    have "decode_value S (Suc m') (snd p @ rest) t = Inr v" for rest
      using decode_value_suc [OF cl dyn(2) p(2) refl, of S m' "zero_pad (length bs) @ rest"]
      by (simp add: p(3) bs(2) del: decode_value.simps)
    with dyn p(1) dm show ?thesis by simp
  next
    case (arr e elem k T')
    from arr prems(4) obtain xs vs where a: "a = JList xs" and vs: "mapR (denote T') xs = Inr vs"
      and v: "v = ''['' @ join '','' vs @ '']''"
      by (auto simp: bindR_eq_Inr split: json.splits)
    have ne: "k \<noteq> None \<Longrightarrow> k = Some (length xs)"
      using enc arr a by (auto simp: Let_def split: if_splits)
    with enc arr a obtain es body where
      es: "mapR (\<lambda>p. encode_typed S d' (fst p) (snd p)) (zip xs (replicate (length xs) elem)) = Inr es"
      and body: "pack es = Inr body"
      and p: "k = None \<and> length xs < 256 ^ 32 \<and> p = (True, be_bytes 32 (length xs) @ body)
        \<or> k = Some (length xs) \<and> p = (dynT T, body)"
      using dynt by (cases k) (auto simp: Let_def bindR_eq_Inr to_bytes_Inr simp del: is_dynamic_type.simps)
    have "denotes (replicate (length xs) T') xs = Inr vs"
      using vs by (simp add: denotes_def mapR_zip_replicate)
    from items_of_encoded [OF es this _ _ _ IH dm(4)] arr prems(2)
    have its: "items_ok S m' (replicate (length xs) elem) es vs"
      "map fst es = replicate (length xs) (dynT T')"
      "headlen es = length xs * hsizeT T'"
      by (auto simp: list_all2_conv_all_nth list_all_iff sum_list_replicate)
    have "32 \<le> hsizeT T'" using arr prems(2) by (intro hsizeT_ge) auto
    then have "length xs * 32 \<le> length body"
      using pack_length [OF body] its(3) mult_le_mono2 [of 32 "hsizeT T'" "length xs"] by linarith
    note dec = decode_value_array [OF arr(2,3) its(1) body this]
    have "decode_value S (Suc m') (snd p @ rest) t = Inr v" for rest
      using p dec [of "be_bytes 32 (length xs)" rest] dec [of "[]" rest]
      by (elim disjE conjE) (simp_all add: v del: decode_value.simps)
    moreover have "length body = hsizeT T" if "\<not> dynT T"
    proof -
      from that arr ne have "\<not> dynT T'" "k = Some (length xs)" by auto
      then have "list_all (\<lambda>p. \<not> fst p) es"
        using its(2) by (metis (mono_tags, lifting) in_set_replicate list.pred_map list_all_iff o_apply)
      from pack_static_length [OF this body] its(3) show ?thesis
        using \<open>\<not> dynT T'\<close> \<open>k = Some (length xs)\<close> arr by simp
    qed
    ultimately show ?thesis using p arr dm by auto
  next
    case (struct e members Ts)
    from struct prems(4) obtain xs vs where a: "a = JList xs" and vs: "denotes Ts xs = Inr vs"
      and v: "v = ''('' @ join '','' vs @ '')''"
      by (auto simp: bindR_eq_Inr denotes_def split: json.splits)
    from enc struct a dynt obtain es body where len: "length xs = length members"
      and es: "mapR (\<lambda>p. encode_typed S d' (fst p) (snd p)) (zip xs members) = Inr es"
      and body: "pack es = Inr body" and p: "p = (dynT T, body)"
      by (auto simp: Let_def bindR_eq_Inr simp del: is_dynamic_type.simps split: if_splits)
    from items_of_encoded [OF es vs len _ _ IH dm(4)] struct prems(2)
    have its: "items_ok S m' members es vs" "map fst es = map dynT Ts"
      "headlen es = sum_list (map hsizeT Ts)" by auto
    have "decode_tuple S m' (body @ rest) 0 members = Inr vs" for rest
      by (rule decode_tuple_pack [OF its(1) body])
    then have "decode_value S (Suc m') (snd p @ rest) t = Inr v" for rest
      using struct p v by (simp add: Let_def)
    moreover have "length body = hsizeT T" if "\<not> dynT T"
    proof -
      from that struct have "\<not> list_ex dynT Ts" by simp
      then have "list_all (\<lambda>p. \<not> fst p) es"
        using its(2) by (metis (mono_tags, lifting) list_all_length list_ex_length nth_map length_map)
      from pack_static_length [OF this body] its(3) show ?thesis
        using \<open>\<not> list_ex dynT Ts\<close> struct by simp
    qed
    ultimately show ?thesis using p dm by simp
  next
    case (fn e)
    note none = struct_function_none [OF cl fn(4), of S]
    from fn prems(4) obtain x y addr sel where a: "a = JList [x, y]"
      and xy: "arg_component_word x = Inr addr" "arg_component_word y = Inr sel"
      and v: "v = ''f:'' @ show_nat (nat (addr mod 2 ^ 160)) @ '':'' @ show_nat (nat (sel mod 2 ^ 32))"
      by (auto simp: bindR_eq_Inr split: json.splits list.splits)
    have p: "p = (False, be_bytes 32 (fn_word addr sel))"
      using enc fn a xy by (simp add: Let_def)
    have "render_word_for_type (fn_word addr sel) (clean_type t) = v"
      using fn cl by (simp only: render_word_for_type_def Let_def fn_word_split v simp_thms if_True)
    then have "decode_value S (Suc m') (snd p @ rest) t = Inr v" for rest
      using decode_value_word [OF fn(2,3) none function_not_struct [OF fn(4)] cl fn_word_lt]
      by (simp add: p del: decode_value.simps)
    with fn p dm show ?thesis by simp
  next
    case (word e)
    from word prems(4) obtain w where w: "word_arg a = Inr w"
      "v = render_word_for_type w (clean_type t)"
      by (auto simp: bindR_eq_Inr)
    from encode_word_arg [OF w(1)] have e: "encode_arg a = Inr (False, be_bytes 32 w)"
      and "w < 2 ^ 256" by auto
    then have lt: "w < 256 ^ 32" by simp
    have p: "p = (False, be_bytes 32 w)"
      using enc word e word_arg_not_list [OF w(1)] by (simp add: Let_def)
    have "decode_value S (Suc m') (snd p @ rest) t = Inr v" for rest
      using decode_value_word [OF word(2,3,5,6) cl lt] by (simp add: p w del: decode_value.simps)
    with word p dm show ?thesis by simp
  qed
  qed
  then show ?case unfolding codec_item_def by blast
qed

lemma calldata_codec:
  assumes "list_all2 (\<lambda>t T. resolve S n t = Some T) types Ts" "list_all wfT Ts"
    "encode_args_abi S d args (Some types) = Inr bs" "denotes Ts args = Inr vs" "n \<le> d" "n \<le> m"
  shows "decode_abi_values S m (bs @ rest) types = Inr vs"
proof -
  from assms(3) obtain es where len: "length args = length types"
    and es: "mapR (\<lambda>p. encode_typed S d (fst p) (snd p)) (zip args types) = Inr es"
    and bs: "pack es = Inr bs"
    by (auto simp: encode_args_abi_def bindR_eq_Inr split: if_splits)
  from items_of_encoded [OF es assms(4) len assms(1,2) codec_item [OF assms(5,6)] assms(6)]
  have "items_ok S m types es vs" by simp
  from decode_tuple_pack [OF this bs] show ?thesis by (simp add: decode_abi_values_def)
qed

section \<open>Properties\<close>

lemma type_examples:
  "clean_type ''uint256[]'' = ''uint256[]''" "clean_type ''uint256'' = ''uint256''"
  "clean_type ''bytes4'' = ''bytes4''" "array_elem ''uint256[]'' = Some (''uint256'', None)"
  "array_elem ''uint256'' = None" "array_elem ''bytes4'' = None"
  "fixed_bytes_n ''bytes4'' = Some 4" "fixed_bytes_n ''uint256'' = None"
  "\<not> is_bytes_type ''uint256[]''" "\<not> is_bytes_type ''uint256''" "\<not> is_bytes_type ''bytes4''"
  "struct_member_types ''uint256'' [] = None" "struct_member_types ''bytes4'' [] = None"
  by code_simp+

lemma encode_example:
  "encode_args_abi [] 2 [JList [JInt 5, JBool True], JObj [(''word'', JInt (0x1020304 * 2 ^ 224))]]
     (Some [''uint256[]'', ''bytes4'']) =
   Inr (be_bytes 32 64 @ word32 (0x1020304 * 2 ^ 224) @ be_bytes 32 2 @ word32 5 @ be_bytes 32 1)"
  by (simp add: encode_args_abi_def Let_def type_examples encode_arg_def pack_def to_bytes_def jget_def dget_or_def numeral_2_eq_2)

lemma denotes_example:
  "denotes [AArr (AWord ''uint256'') None, AWord ''bytes4'']
     [JList [JInt 5, JBool True], JObj [(''word'', JInt (0x1020304 * 2 ^ 224))]] =
   Inr [''[w:5,w:1]'', ''w:16909060'']"
  by (simp add: denotes_def word_arg_def render_word_for_type_def type_examples jget_def dget_or_def Let_def show_nat_def show_base.simps)

text \<open>For every type the struct table resolves, and every stack depth that reaches its leaves,
  \<open>_is_dynamic_type\<close> and \<open>_head_size\<close> return and compute the layout of the ABI.\<close>

theorem layout_correct:
  assumes "resolve S n t = Some T" "n \<le> m"
  shows "is_dynamic_type S m t = Inr (dynT T) \<and> head_size S m t = Inr (hsizeT T)"
  using is_dynamic_type_resolve [OF assms] head_size_resolve [OF assms] ..

lemma resolve_example:
  "resolve [(''C.P'', [''uint256'', ''int8[2]''])] 3 ''struct C.P memory'' =
     Some (AStruct [AWord ''uint256'', AArr (AWord ''int8'') (Some 2)])"
  by code_simp

theorem layout_correct_witness:
  "is_dynamic_type [(''C.P'', [''uint256'', ''int8[2]''])] 3 ''struct C.P memory'' = Inr False
   \<and> head_size [(''C.P'', [''uint256'', ''int8[2]''])] 3 ''struct C.P memory'' = Inr 96"
  using layout_correct [OF resolve_example order_refl] by simp

text \<open>The decoder inverts the encoder on one value: whatever follows the encoding, decoding it
  gives the normal form the argument denotes; a static value takes exactly its head size and
  the dynamic flag is the type's.\<close>

theorem value_roundtrip:
  assumes "resolve S n t = Some T" "wfT T" "encode_typed S d a t = Inr (b, enc)"
    "denote T a = Inr v" "n \<le> d" "n \<le> m"
  shows "decode_value S m (enc @ rest) t = Inr v \<and> b = dynT T \<and> (\<not> b \<longrightarrow> length enc = hsizeT T)"
  using codec_itemD [OF codec_item [OF assms(5,6)] assms(1-4)] by auto

theorem value_roundtrip_witness:
  "decode_value [] 1 (be_bytes 32 1 @ [9]) ''uint256'' = Inr ''w:1''"
proof -
  have "resolve [] 1 ''uint256'' = Some (AWord ''uint256'')" by code_simp
  moreover have "encode_typed [] 1 (JBool True) ''uint256'' = Inr (False, be_bytes 32 1)"
    by (simp add: Let_def type_examples encode_arg_def)
  moreover have "denote (AWord ''uint256'') (JBool True) = Inr ''w:1''"
    by (simp add: word_arg_def render_word_for_type_def type_examples show_nat_def
        show_base.simps)
  ultimately show ?thesis
    using value_roundtrip [of "[]" 1 "''uint256''" "AWord ''uint256''" 1 "JBool True" False
        "be_bytes 32 1" "''w:1''" 1 "[9]"] by simp
qed

text \<open>C7: calldata. The encoding of an argument list, followed by anything, decodes to the normal
  forms of the arguments in order: offsets, lengths and padding are consistent for any nesting of
  arrays, structs, bytes, strings, words and external function values.\<close>

theorem calldata_roundtrip:
  assumes "list_all2 (\<lambda>t T. resolve S n t = Some T) types Ts" "list_all wfT Ts"
    "encode_args_abi S d args (Some types) = Inr bs" "denotes Ts args = Inr vs" "n \<le> d" "n \<le> m"
  shows "decode_abi_values S m (bs @ rest) types = Inr vs"
  using assms by (rule calldata_codec)

theorem calldata_roundtrip_witness:
  "decode_abi_values [] 2
     ((be_bytes 32 64 @ word32 (0x1020304 * 2 ^ 224) @ be_bytes 32 2 @ word32 5 @ be_bytes 32 1) @ [7])
     [''uint256[]'', ''bytes4''] = Inr [''[w:5,w:1]'', ''w:16909060'']"
proof (rule calldata_roundtrip [OF _ _ encode_example denotes_example order_refl order_refl])
  show "list_all2 (\<lambda>t T. resolve [] 2 t = Some T) [''uint256[]'', ''bytes4'']
      [AArr (AWord ''uint256'') None, AWord ''bytes4'']"
    by code_simp
  show "list_all wfT [AArr (AWord ''uint256'') None, AWord ''bytes4'']" by simp
qed

lemma self_struct:
  "clean_type ''struct A'' = ''struct A''" "\<not> is_bytes_type ''struct A''"
  "array_elem ''struct A'' = None"
  "struct_member_types ''struct A'' [(''A'', [''struct A''])] = Some [''struct A'']"
  by code_simp+

text \<open>A struct that contains itself is not resolved, and the recursion of the code over it
  never returns: at every stack depth it ends in a \<open>RecursionError\<close>.\<close>

theorem recursive_struct_diverges:
  "is_dynamic_type [(''A'', [''struct A''])] m ''struct A'' = Inl RecursionError
   \<and> resolve [(''A'', [''struct A''])] m ''struct A'' = None"
  by (induction m) (simp_all add: self_struct Let_def starts_iff)

end
