(* ===== verification/LeanRender.thy ===== *)
theory LeanRender
  imports AbiSpec
begin

text \<open>
  The Lean side of the observable (\<open>contest/observable.py\<close>): the helper text
  \<open>LEAN_OBSERVABLE_HELPER\<close>, which renders the result of the model's entry call into the normal
  form, and \<open>render_lean_arg\<close>, which prints a claim argument as a Lean value expression.

  \<open>lval\<close> has the constructors of \<open>Source.Value\<close> the helper names; every other value carries its
  \<open>reprStr\<close> text. \<open>lexpr\<close> is the syntax of the printed expressions and \<open>lexpr_val\<close> the value Lean
  elaborates them to. The main theorem of the file: for an argument in canonical form the value
  the model receives renders exactly as the EVM's decoder renders the calldata it receives.
\<close>

section \<open>Values and their rendering\<close>

datatype lval =
    LWord nat
  | LInt nat
  | LBytes "nat list"
  | LFixedArray "lval list"
  | LDynamicArray "lval list"
  | LTuple "lval list"
  | LExternalFunction nat nat
  | LOther string

definition norm :: "nat \<Rightarrow> nat" where
  "norm n = n mod 2 ^ 256"

definition signed_value :: "nat \<Rightarrow> int" where
  "signed_value w = (if 2 ^ 255 \<le> norm w then int (norm w) - 2 ^ 256 else int (norm w))"

definition signed_to_word :: "int \<Rightarrow> nat" where
  "signed_to_word i = nat (i mod 2 ^ 256)"

definition lean_hex2 :: "nat \<Rightarrow> string" where
  "lean_hex2 b =
     (let s = show_base 16 (b mod 256) in if length s = 1 then CHR ''0'' # s else s)"

fun render_value :: "lval \<Rightarrow> string" where
  "render_value (LWord w) = ''w:'' @ show_nat (norm w)"
| "render_value (LInt w) = ''i:'' @ show_int (signed_value w)"
| "render_value (LBytes bs) = ''b:0x'' @ concat (map lean_hex2 bs)"
| "render_value (LFixedArray xs) = ''['' @ join '','' (map render_value xs) @ '']''"
| "render_value (LDynamicArray xs) = ''['' @ join '','' (map render_value xs) @ '']''"
| "render_value (LTuple xs) = ''('' @ join '','' (map render_value xs) @ '')''"
| "render_value (LExternalFunction a s) =
     ''f:'' @ show_nat (norm a) @ '':'' @ show_nat (norm s)"
| "render_value (LOther r) = ''r:'' @ r"

definition render_values :: "lval list \<Rightarrow> string" where
  "render_values vs = join '','' (map render_value vs)"

section \<open>The result of a call\<close>

datatype lrevert =
    LEmpty
  | LPanic nat
  | LError utext
  | LCustom string "lval list"
  | LRaw "nat list"

text \<open>Of the model's \<open>State\<close> the helper reads the log entries of an account (topics and data) and
  the pairs of the storage map, in the map's own order.\<close>

record lstate =
  l_logs :: "nat \<Rightarrow> (nat list \<times> nat list) list"
  l_storage :: "(nat \<times> nat) list"

datatype lresult = LReturned lstate "lval list" | LReverted lstate lrevert

fun render_revert :: "lrevert \<Rightarrow> utext" where
  "render_revert LEmpty = ulit ''empty''"
| "render_revert (LPanic w) = ulit (''panic:'' @ show_nat (norm w))"
| "render_revert (LError s) = ulit ''error:'' @ s"
| "render_revert (LCustom name vs) = ulit (''custom:'' @ name @ '':'' @ render_values vs)"
| "render_revert (LRaw bs) = ulit (''raw:0x'' @ concat (map lean_hex2 bs))"

text \<open>\<open>Except TypeError CallResult\<close>: an error carries its \<open>reprStr\<close> text.\<close>

fun render_call_result :: "utext + lresult \<Rightarrow> utext" where
  "render_call_result (Inl e) = ulit ''solidity-lean-reject|'' @ e"
| "render_call_result (Inr (LReturned s vals)) = ulit (''success|'' @ render_values vals)"
| "render_call_result (Inr (LReverted s rd)) = ulit ''revert|'' @ render_revert rd"

definition hex_of_bytes :: "nat list \<Rightarrow> string" where
  "hex_of_bytes bs = ''0x'' @ concat (map lean_hex2 bs)"

definition render_log :: "nat list \<times> nat list \<Rightarrow> string" where
  "render_log e =
     ''t=['' @ join '','' (map (\<lambda>w. show_nat (norm w)) (fst e)) @ ''];d='' @ hex_of_bytes (snd e)"

definition render_events :: "nat \<Rightarrow> lstate \<Rightarrow> string" where
  "render_events self st = join ''~'' (map render_log (l_logs st self))"

definition render_events_from :: "nat \<Rightarrow> lstate \<Rightarrow> nat \<Rightarrow> string" where
  "render_events_from self st skip = join ''~'' (map render_log (drop skip (l_logs st self)))"

definition render_storage_all :: "lstate \<Rightarrow> string" where
  "render_storage_all st =
     join '';'' (List.map_filter
       (\<lambda>kv. let v = norm (snd kv) in
          if v = 0 then None else Some (show_nat (norm (fst kv)) @ '':'' @ show_nat v))
       (l_storage st))"

definition load_slot :: "lstate \<Rightarrow> nat \<Rightarrow> nat" where
  "load_slot st s = (case map_of (l_storage st) s of Some v \<Rightarrow> v | None \<Rightarrow> 0)"

definition render_storage :: "nat list \<Rightarrow> lstate \<Rightarrow> string" where
  "render_storage slots st =
     join '';'' (map (\<lambda>s. show_nat (norm s) @ '':'' @ show_nat (norm (load_slot st s))) slots)"

definition EVT_SEP :: string where
  "EVT_SEP = ''##EVT##''"

definition STO_SEP :: string where
  "STO_SEP = ''##STO##''"

definition render_full :: "nat \<Rightarrow> nat list \<Rightarrow> utext + lresult \<Rightarrow> utext" where
  "render_full self slots r =
     (case r of
        Inl e \<Rightarrow> ulit ''solidity-lean-reject|'' @ e
      | Inr res \<Rightarrow>
          render_call_result (Inr res) @
          ulit (EVT_SEP @ (case res of LReturned st _ \<Rightarrow> render_events self st | LReverted _ _ \<Rightarrow> [])) @
          ulit (STO_SEP @ (case res of LReturned st _ \<Rightarrow> render_storage_all st | LReverted _ _ \<Rightarrow> [])))"

definition render_full_delta ::
    "nat \<Rightarrow> nat list \<Rightarrow> utext + (nat \<times> bool \<times> lresult) \<Rightarrow> utext" where
  "render_full_delta self slots r =
     (case r of
        Inl e \<Rightarrow> ulit ''solidity-lean-reject|'' @ e
      | Inr (ctor_logs, deploy_reverted, res) \<Rightarrow>
          (case res of
             LReverted _ rd \<Rightarrow>
               if deploy_reverted then ulit ''deployrevert|'' @ render_revert rd
               else render_call_result (Inr res)
           | _ \<Rightarrow> render_call_result (Inr res)) @
          ulit (EVT_SEP @ (case res of LReturned st _ \<Rightarrow> render_events_from self st ctor_logs
                             | LReverted _ _ \<Rightarrow> [])) @
          ulit (STO_SEP @ (case res of LReturned st _ \<Rightarrow> render_storage_all st
                             | LReverted _ _ \<Rightarrow> [])))"

section \<open>Arguments as Lean expressions\<close>

definition V :: string where
  "V = ''SolidCore.Solidity.Source.Value''"

fun chunk2 :: "string \<Rightarrow> string list" where
  "chunk2 [] = []"
| "chunk2 [a] = [[a]]"
| "chunk2 (a # b # s) = [a, b] # chunk2 s"

text \<open>The argument forms that do not depend on the parameter type.\<close>

definition render_scalar_arg :: "json \<Rightarrow> string res" where
  "render_scalar_arg arg =
     (case arg of
        JBool b \<Rightarrow> Inr (''('' @ V @ ''.word '' @ (if b then ''1'' else ''0'') @ '')'')
      | JInt i \<Rightarrow> Inr (''('' @ V @ ''.word '' @ show_int i @ '')'')
      | JObj d \<Rightarrow>
          if dhas d ''word'' then
            bindR (py_int (jget d ''word'')) (\<lambda>i. Inr (''('' @ V @ ''.word '' @ show_int i @ '')''))
          else if dhas d ''int'' then
            bindR (py_int (jget d ''int'')) (\<lambda>n.
              Inr (''('' @ V @ ''.int (SolidCore.Solidity.Shared.signedToWord ('' @ show_int n @ '')))''))
          else if dhas d ''bytes'' then
            (let h = py_str (jget d ''bytes''); h = (if starts ''0x'' h then drop 2 h else h) in
             bindR (mapR (py_int_str 16) (chunk2 h)) (\<lambda>bs.
               Inr (''('' @ V @ ''.bytes ['' @ join '', '' (map show_int bs) @ ''])'')))
          else Inl ValueError
      | _ \<Rightarrow> Inl ValueError)"

text \<open>A component of an external function argument: an unsigned integer or \<open>{"word": n}\<close>.\<close>

definition fn_component :: "json \<Rightarrow> int res" where
  "fn_component v =
     (case v of
        JInt i \<Rightarrow> Inr i
      | JObj d \<Rightarrow> bindR (jidx d ''word'') py_int
      | _ \<Rightarrow> Inl ValueError)"

fun render_lean_arg :: "structs \<Rightarrow> nat \<Rightarrow> json \<Rightarrow> string \<Rightarrow> string res" where
  "render_lean_arg S 0 arg ptype = Inl RecursionError"
| "render_lean_arg S (Suc d) arg ptype =
     (let ct = clean_type ptype in
      case array_elem ct of
        Some (elem, n) \<Rightarrow>
          (case arg of
             JList xs \<Rightarrow>
               if n \<noteq> None \<and> n \<noteq> Some (length xs) then Inl ValueError
               else bindR (mapR (\<lambda>a. render_lean_arg S d a elem) xs) (\<lambda>vs.
                    Inr (''('' @ V @ ''.'' @ (if n = None then ''dynamicArray'' else ''fixedArray'') @
                         '' ['' @ join '', '' vs @ ''])''))
           | _ \<Rightarrow> Inl ValueError)
      | None \<Rightarrow>
          if starts ''function'' ct then
            (if \<not> contains '' external'' ct then Inl ValueError
             else case arg of
               JList xs \<Rightarrow>
                 if length xs \<noteq> 2 then Inl ValueError
                 else bindR (mapR fn_component xs) (\<lambda>comps.
                   Inr (''('' @ V @ ''.externalFunction '' @ show_int (comps ! 0) @ '' '' @
                        show_int (comps ! 1) @ '')''))
             | _ \<Rightarrow> Inl ValueError)
          else case struct_member_types ct S of
            Some members \<Rightarrow>
              (case arg of
                 JList xs \<Rightarrow>
                   if length xs \<noteq> length members then Inl ValueError
                   else bindR (mapR (\<lambda>p. render_lean_arg S d (fst p) (snd p)) (zip xs members)) (\<lambda>vs.
                        Inr (''('' @ V @ ''.tuple ['' @ join '', '' vs @ ''])''))
               | _ \<Rightarrow> Inl ValueError)
          | None \<Rightarrow>
              if starts ''struct '' ct then Inl ValueError else render_scalar_arg arg)"

definition render_lean_args :: "structs \<Rightarrow> nat \<Rightarrow> json list \<Rightarrow> string list option \<Rightarrow> string res" where
  "render_lean_args S d args types =
     bindR
       (case types of
          Some ts \<Rightarrow>
            if length ts = length args
            then mapR (\<lambda>p. render_lean_arg S d (fst p) (snd p)) (zip args ts)
            else mapR render_scalar_arg args
        | None \<Rightarrow> mapR render_scalar_arg args)
       (\<lambda>vs. Inr (''['' @ join '', '' vs @ '']''))"

section \<open>The expression behind the text\<close>

datatype lexpr =
    EWord int
  | EInt int
  | EBytes "int list"
  | EFixed "lexpr list"
  | EDynamic "lexpr list"
  | ETuple "lexpr list"
  | EFunction int int

fun show_lexpr :: "lexpr \<Rightarrow> string" where
  "show_lexpr (EWord i) = ''('' @ V @ ''.word '' @ show_int i @ '')''"
| "show_lexpr (EInt i) =
     ''('' @ V @ ''.int (SolidCore.Solidity.Shared.signedToWord ('' @ show_int i @ '')))''"
| "show_lexpr (EBytes bs) = ''('' @ V @ ''.bytes ['' @ join '', '' (map show_int bs) @ ''])''"
| "show_lexpr (EFixed es) = ''('' @ V @ ''.fixedArray ['' @ join '', '' (map show_lexpr es) @ ''])''"
| "show_lexpr (EDynamic es) =
     ''('' @ V @ ''.dynamicArray ['' @ join '', '' (map show_lexpr es) @ ''])''"
| "show_lexpr (ETuple es) = ''('' @ V @ ''.tuple ['' @ join '', '' (map show_lexpr es) @ ''])''"
| "show_lexpr (EFunction a s) =
     ''('' @ V @ ''.externalFunction '' @ show_int a @ '' '' @ show_int s @ '')''"

fun lexpr_val :: "lexpr \<Rightarrow> lval" where
  "lexpr_val (EWord i) = LWord (nat i)"
| "lexpr_val (EInt i) = LInt (signed_to_word i)"
| "lexpr_val (EBytes bs) = LBytes (map nat bs)"
| "lexpr_val (EFixed es) = LFixedArray (map lexpr_val es)"
| "lexpr_val (EDynamic es) = LDynamicArray (map lexpr_val es)"
| "lexpr_val (ETuple es) = LTuple (map lexpr_val es)"
| "lexpr_val (EFunction a s) = LExternalFunction (nat a) (nat s)"

definition strip0x :: "string \<Rightarrow> string" where
  "strip0x h = (if starts ''0x'' h then drop 2 h else h)"

definition scalar_expr :: "json \<Rightarrow> lexpr res" where
  "scalar_expr a =
     (case a of
        JBool b \<Rightarrow> Inr (EWord (if b then 1 else 0))
      | JInt i \<Rightarrow> Inr (EWord i)
      | JObj d \<Rightarrow>
          if dhas d ''word'' then bindR (py_int (jget d ''word'')) (\<lambda>i. Inr (EWord i))
          else if dhas d ''int'' then bindR (py_int (jget d ''int'')) (\<lambda>i. Inr (EInt i))
          else if dhas d ''bytes'' then
            bindR (mapR (py_int_str 16) (chunk2 (strip0x (py_str (jget d ''bytes''))))) (\<lambda>bs.
              Inr (EBytes bs))
          else Inl ValueError
      | _ \<Rightarrow> Inl ValueError)"

function lean_expr :: "aty \<Rightarrow> json \<Rightarrow> lexpr res" where
  "lean_expr (AWord t) a = scalar_expr a"
| "lean_expr ADyn a = scalar_expr a"
| "lean_expr (AFun t) a =
     (case a of
        JList xs \<Rightarrow>
          if length xs \<noteq> 2 then Inl ValueError
          else bindR (mapR fn_component xs) (\<lambda>c. Inr (EFunction (c ! 0) (c ! 1)))
      | _ \<Rightarrow> Inl ValueError)"
| "lean_expr (AArr T n) a =
     (case a of
        JList xs \<Rightarrow>
          if n \<noteq> None \<and> n \<noteq> Some (length xs) then Inl ValueError
          else bindR (mapR (lean_expr T) xs) (\<lambda>es.
               Inr (if n = None then EDynamic es else EFixed es))
      | _ \<Rightarrow> Inl ValueError)"
| "lean_expr (AStruct Ts) a =
     (case a of
        JList xs \<Rightarrow>
          if length xs \<noteq> length Ts then Inl ValueError
          else bindR (mapR (\<lambda>p. lean_expr (fst p) (snd p)) (zip Ts xs)) (\<lambda>es. Inr (ETuple es))
      | _ \<Rightarrow> Inl ValueError)"
  by pat_completeness auto
termination
proof (relation "measure (\<lambda>(T, a). size T)", goal_cases)
  case (3 Ts a xs p)
  then have "fst p \<in> set Ts" by (metis prod.collapse set_zip_leftD)
  then have "size (fst p) \<le> size_list size Ts" by (rule size_list_estimation') simp
  then show ?case by (simp add: case_prod_beta)
qed auto

definition printed :: "lexpr res \<Rightarrow> string res" where
  "printed r = bindR r (\<lambda>e. Inr (show_lexpr e))"

lemma printed_simps [simp]: "printed (Inl e) = Inl e" "printed (Inr x) = Inr (show_lexpr x)"
  by (simp_all add: printed_def)

lemma printed_bind: "printed (bindR m f) = bindR m (\<lambda>x. printed (f x))"
  by (cases m) simp_all

lemma mapR_printed:
  "(\<And>x. x \<in> set xs \<Longrightarrow> f x = printed (g x)) \<Longrightarrow>
     mapR f xs = bindR (mapR g xs) (\<lambda>es. Inr (map show_lexpr es))"
proof (induction xs)
  case (Cons x xs)
  then have "f x = printed (g x)" "mapR f xs = bindR (mapR g xs) (\<lambda>es. Inr (map show_lexpr es))"
    by auto
  then show ?case by (cases "g x"; cases "mapR g xs") simp_all
qed simp

lemma bindR_assoc: "bindR (bindR m f) g = bindR m (\<lambda>x. bindR (f x) g)"
  by (cases m) simp_all

lemma show_int_01: "show_int 0 = ''0''" "show_int 1 = ''1''"
  by (simp_all add: show_int_def show_nat_def show_base.simps)

lemma render_scalar_printed: "render_scalar_arg a = printed (scalar_expr a)"
  by (cases a) (simp_all add: render_scalar_arg_def scalar_expr_def printed_bind strip0x_def Let_def
      show_int_01)

lemma render_lean_arg_printed:
  "resolve S n t = Some T \<Longrightarrow> n \<le> d \<Longrightarrow> render_lean_arg S d a t = printed (lean_expr T a)"
proof (induction n arbitrary: t T d a)
  case (Suc n)
  from Suc.prems(2) obtain d' where d: "d = Suc d'" "n \<le> d'" by (cases d) auto
  note cl = resolve_clean [OF Suc.prems(1)]
  from Suc.prems(1) show ?case
  proof (cases rule: resolve_cases)
    case (dyn e)
    then have "array_elem (clean_type t) = None" "\<not> starts ''function'' (clean_type t)"
      "struct_member_types (clean_type t) S = None" "\<not> starts ''struct '' (clean_type t)"
      using cl by (auto simp: is_bytes_type_def array_elem_def ends_def struct_member_types_def)
    with dyn d show ?thesis by (simp add: Let_def render_scalar_printed)
  next
    case (arr e elem k T')
    have "mapR (\<lambda>a. render_lean_arg S d' a elem) xs
        = bindR (mapR (lean_expr T') xs) (\<lambda>es. Inr (map show_lexpr es))" for xs
      using arr Suc.IH d by (intro mapR_printed) auto
    with arr d show ?thesis
      by (cases a; cases k) (auto simp: Let_def printed_bind bindR_assoc)
  next
    case (fn e)
    with d show ?thesis by (cases a) (auto simp: Let_def printed_bind)
  next
    case (struct e members Ts)
    have "mapR (\<lambda>p. render_lean_arg S d' (fst p) (snd p)) (zip xs members)
        = bindR (mapR (\<lambda>p. lean_expr (fst p) (snd p)) (zip Ts xs)) (\<lambda>es. Inr (map show_lexpr es))"
      if "length xs = length Ts" for xs
      using struct(6) that
    proof (induction arbitrary: xs rule: list_all2_induct)
      case (Cons m ms T Ts)
      from Cons.prems obtain x xs' where xs: "xs = x # xs'" by (cases xs) auto
      have "render_lean_arg S d' x m = printed (lean_expr T x)"
        using Cons.hyps(1) Suc.IH d struct(1) by auto
      with Cons.IH [of xs'] Cons.prems xs show ?case
        by (cases "lean_expr T x"; cases "mapR (\<lambda>p. lean_expr (fst p) (snd p)) (zip Ts xs')") simp_all
    qed simp
    with struct d list_all2_lengthD [OF struct(6)] show ?thesis
      by (cases a) (auto simp: Let_def printed_bind bindR_assoc)
  next
    case (word e)
    with d show ?thesis by (simp add: Let_def render_scalar_printed)
  qed
qed simp

section \<open>Both engines receive the same call\<close>

text \<open>Words and signed integers by their type string; a \<open>bytesN\<close> with \<open>N < 32\<close> is aligned
  differently on the two sides and has no argument form.\<close>

definition unsigned_type :: "string \<Rightarrow> bool" where
  "unsigned_type t \<longleftrightarrow>
     (let c = clean_type t in
      \<not> starts ''function'' c \<and> \<not> (starts ''int'' c \<and> \<not> starts ''uint'' c)
      \<and> (fixed_bytes_n c = None \<or> fixed_bytes_n c = Some 32))"

definition signed_type :: "string \<Rightarrow> bool" where
  "signed_type t \<longleftrightarrow>
     (let c = clean_type t in starts ''int'' c)"

definition nonneg :: "int res \<Rightarrow> bool" where
  "nonneg r = (case r of Inr i \<Rightarrow> 0 \<le> i | Inl _ \<Rightarrow> False)"

definition below :: "int \<Rightarrow> int res \<Rightarrow> bool" where
  "below b r = (case r of Inr i \<Rightarrow> 0 \<le> i \<and> i < b | Inl _ \<Rightarrow> False)"

text \<open>\<open>bytes\<close> arguments: pairs of hexadecimal digits and nothing else.\<close>

definition clean_hex :: "string \<Rightarrow> bool" where
  "clean_hex h \<longleftrightarrow> even (length h) \<and> list_all (\<lambda>c. digit_val 16 c \<noteq> None) h"

definition canonical_word :: "string \<Rightarrow> json \<Rightarrow> bool" where
  "canonical_word t a =
     (case a of
        JBool b \<Rightarrow> unsigned_type t
      | JInt i \<Rightarrow> unsigned_type t \<and> 0 \<le> i
      | JObj d \<Rightarrow>
          if dhas d ''word'' then unsigned_type t \<and> nonneg (py_int (jget d ''word''))
          else dhas d ''int'' \<and> signed_type t \<and> \<not> isl (py_int (jget d ''int''))
      | _ \<Rightarrow> False)"

definition canonical_bytes :: "json \<Rightarrow> bool" where
  "canonical_bytes a =
     (case a of
        JObj d \<Rightarrow> \<not> dhas d ''word'' \<and> \<not> dhas d ''int'' \<and> dhas d ''bytes''
                 \<and> clean_hex (strip0x (py_str (jget d ''bytes'')))
      | _ \<Rightarrow> False)"

function canonical_arg :: "aty \<Rightarrow> json \<Rightarrow> bool" where
  "canonical_arg (AWord t) a = canonical_word t a"
| "canonical_arg ADyn a = canonical_bytes a"
| "canonical_arg (AFun t) a =
     (case a of
        JList [x, y] \<Rightarrow>
          below (2 ^ 160) (arg_component_word x) \<and> below (2 ^ 32) (arg_component_word y)
      | _ \<Rightarrow> False)"
| "canonical_arg (AArr T n) a =
     (case a of
        JList xs \<Rightarrow> (n = None \<or> n = Some (length xs)) \<and> list_all (canonical_arg T) xs
      | _ \<Rightarrow> False)"
| "canonical_arg (AStruct Ts) a =
     (case a of
        JList xs \<Rightarrow>
          length xs = length Ts \<and> list_all (\<lambda>p. canonical_arg (fst p) (snd p)) (zip Ts xs)
      | _ \<Rightarrow> False)"
  by pat_completeness auto
termination
proof (relation "measure (\<lambda>(T, a). size T)", goal_cases)
  case (3 Ts a xs p)
  then have "fst p \<in> set Ts" by (metis prod.collapse set_zip_leftD)
  then have "size (fst p) \<le> size_list size Ts" by (rule size_list_estimation') simp
  then show ?case by (simp add: case_prod_beta)
qed auto

lemma digit16_plain:
  assumes "digit_val 16 c = Some x"
  shows "x < 16" "\<not> space_cp (cp c)" "\<not> ascii_space c" "c \<noteq> CHR ''-''" "c \<noteq> CHR ''+''"
    "c \<noteq> CHR ''_''" "c \<noteq> CHR ''x''" "c \<noteq> CHR ''X''"
proof -
  from assms have r: "(48 \<le> cp c \<and> cp c \<le> 57) \<or> (97 \<le> cp c \<and> cp c \<le> 102) \<or> (65 \<le> cp c \<and> cp c \<le> 70)"
    by (auto simp: digit_val_def Let_def split: if_splits)
  from assms show "x < 16" by (auto simp: digit_val_def Let_def split: if_splits)
  from r show "\<not> space_cp (cp c)" "\<not> ascii_space c" by (auto simp: space_cp_def ascii_space_def)
  from r show "c \<noteq> CHR ''-''" "c \<noteq> CHR ''+''" "c \<noteq> CHR ''_''" "c \<noteq> CHR ''x''" "c \<noteq> CHR ''X''"
    by (auto simp: cp_def)
qed

lemma int_of_hex_pair:
  assumes "digit_val 16 c = Some x" "digit_val 16 d = Some y"
  shows "py_int_str 16 [c, d] = Inr (int (16 * x + y))"
proof -
  note c = digit16_plain [OF assms(1)] and d = digit16_plain [OF assms(2)]
  have "strip [c, d] = [c, d]" using c(2) d(2) by (intro strip_noop) auto
  with c d assms show ?thesis by (simp add: py_int_str_def Let_def)
qed

lemma clean_hex_pairs:
  "clean_hex h \<Longrightarrow> \<exists>bs. from_hex h = Some bs \<and>
     mapR (py_int_str 16) (chunk2 h) = Inr (map (\<lambda>b. int (unat b)) bs)"
proof (induction h rule: chunk2.induct)
  case (3 c d h)
  then obtain x y where xy: "digit_val 16 c = Some x" "digit_val 16 d = Some y" and "clean_hex h"
    by (auto simp: clean_hex_def)
  with "3.IH" obtain bs where bs: "from_hex h = Some bs"
    "mapR (py_int_str 16) (chunk2 h) = Inr (map (\<lambda>b. int (unat b)) bs)" by blast
  have "16 * x + y < 256" using digit16_plain(1) [OF xy(1)] digit16_plain(1) [OF xy(2)] by simp
  then have u: "unat (word_of_nat (16 * x + y) :: byte) = 16 * x + y"
    by (rule unat_word_of_nat_byte)
  define w where "w = (word_of_nat (16 * x + y) :: byte)"
  with u have "int (unat w) = int (16 * x + y)" by simp
  with xy bs digit16_plain(3) [OF xy(1)] int_of_hex_pair [OF xy] w_def show ?case
    by (intro exI [of _ "w # bs"]) simp
qed (simp_all add: clean_hex_def)

lemma lean_hex2_byte: "lean_hex2 (unat b) = hex2 b"
proof -
  have lt: "unat b < 256" by (rule unat_byte_lt)
  show ?thesis
  proof (cases "unat b < 16")
    case True
    then show ?thesis
      by (simp add: lean_hex2_def hex2_def show_base.simps)
  next
    case False
    then have "show_base 16 (unat b) = [digit_char (unat b div 16), digit_char (unat b mod 16)]"
      using lt by (subst show_base.simps, subst show_base.simps) simp
    with lt show ?thesis by (simp add: lean_hex2_def hex2_def)
  qed
qed

lemma lean_hex_bytes: "concat (map lean_hex2 (map unat bs)) = to_hex bs"
  by (simp add: to_hex_def comp_def lean_hex2_byte)

lemma norm_word: "0 \<le> i \<Longrightarrow> norm (nat i) = nat (i mod 2 ^ 256)"
  by (simp add: norm_def nat_mod_distrib)

lemma render_unsigned:
  "unsigned_type t \<Longrightarrow> render_word_for_type w t = ''w:'' @ show_nat w"
  by (auto simp: unsigned_type_def render_word_for_type_def Let_def split: option.splits)

lemma render_signed:
  assumes "signed_type t"
  shows "render_word_for_type w t =
     ''i:'' @ show_int (if 2 ^ 255 \<le> w then int w - 2 ^ 256 else int w)"
proof -
  from assms have c: "starts ''int'' (clean_type t)" by (simp add: signed_type_def)
  then have "\<not> starts ''function'' (clean_type t)" "\<not> starts ''uint'' (clean_type t)"
    "fixed_bytes_n (clean_type t) = None"
    by (auto simp: starts_iff fixed_bytes_n_def)
  with c show ?thesis by (simp add: render_word_for_type_def Let_def)
qed

lemma signed_value_to_word:
  "signed_value (signed_to_word i) =
     (let w = nat (i mod 2 ^ 256) in if 2 ^ 255 \<le> w then int w - 2 ^ 256 else int w)"
proof -
  have "nat (i mod 2 ^ 256) < 2 ^ 256" by (simp add: nat_less_iff)
  then have "norm (signed_to_word i) = nat (i mod 2 ^ 256)" by (simp add: norm_def signed_to_word_def)
  then show ?thesis by (simp only: signed_value_def Let_def)
qed

lemma agree_word:
  assumes "canonical_word t a"
  shows "\<exists>e. scalar_expr a = Inr e \<and> denote (AWord t) a = Inr (render_value (lexpr_val e))"
proof (cases a)
  case (JBool b)
  with assms have "unsigned_type t" by (simp add: canonical_word_def)
  with JBool show ?thesis
    by (simp add: scalar_expr_def word_arg_def render_unsigned norm_def)
next
  case (JInt i)
  with assms have "unsigned_type t" "0 \<le> i" by (simp_all add: canonical_word_def)
  with JInt show ?thesis
    by (simp add: scalar_expr_def word_arg_def render_unsigned norm_word)
next
  case (JObj d)
  show ?thesis
  proof (cases "dhas d ''word''")
    case True
    with assms JObj obtain i where "py_int (jget d ''word'') = Inr i" "0 \<le> i" "unsigned_type t"
      by (auto simp: canonical_word_def nonneg_def split: sum.splits)
    with True JObj show ?thesis
      by (simp add: scalar_expr_def word_arg_def render_unsigned norm_word)
  next
    case False
    with assms JObj obtain i where i: "py_int (jget d ''int'') = Inr i" "dhas d ''int''" "signed_type t"
      by (cases "py_int (jget d ''int'')") (auto simp: canonical_word_def)
    have "denote (AWord t) a = Inr (render_word_for_type (nat (i mod 2 ^ 256)) t)"
      using False JObj i by (simp add: word_arg_def)
    also have "render_word_for_type (nat (i mod 2 ^ 256)) t
        = ''i:'' @ show_int (signed_value (signed_to_word i))"
      unfolding render_signed [OF i(3)] signed_value_to_word Let_def ..
    finally show ?thesis using False JObj i by (simp add: scalar_expr_def)
  qed
qed (use assms in \<open>simp_all add: canonical_word_def\<close>)

lemma agree_bytes:
  assumes "canonical_bytes a"
  shows "\<exists>e. scalar_expr a = Inr e \<and> denote ADyn a = Inr (render_value (lexpr_val e))"
proof -
  from assms obtain d where a: "a = JObj d" "\<not> dhas d ''word''" "\<not> dhas d ''int''" "dhas d ''bytes''"
    and h: "clean_hex (strip0x (py_str (jget d ''bytes'')))"
    by (cases a) (auto simp: canonical_bytes_def)
  from clean_hex_pairs [OF h] obtain bs where
    bs: "from_hex (strip0x (py_str (jget d ''bytes''))) = Some bs"
    "mapR (py_int_str 16) (chunk2 (strip0x (py_str (jget d ''bytes'')))) = Inr (map (\<lambda>b. int (unat b)) bs)"
    by blast
  from bs(1) have "denote ADyn a = Inr (''b:0x'' @ to_hex bs)"
    using a by (simp add: bytes_arg_def unhex_def strip0x_def)
  moreover have "render_value (lexpr_val (EBytes (map (\<lambda>b. int (unat b)) bs))) = ''b:0x'' @ to_hex bs"
    by (simp add: comp_def lean_hex_bytes [symmetric])
  ultimately show ?thesis using a bs(2) by (simp add: scalar_expr_def)
qed

lemma agree_fn:
  assumes "canonical_arg (AFun t) a"
  shows "\<exists>e. lean_expr (AFun t) a = Inr e \<and> denote (AFun t) a = Inr (render_value (lexpr_val e))"
proof -
  from assms obtain x y where a: "a = JList [x, y]" and
    xy: "below (2 ^ 160) (arg_component_word x)" "below (2 ^ 32) (arg_component_word y)"
    by (auto split: json.splits list.splits)
  have comp: "arg_component_word z = Inr i \<Longrightarrow> fn_component z = Inr i" for z i
    by (cases z)
      (auto simp: arg_component_word_def fn_component_def jidx_def jget_def dget_or_def dhas_def
        split: option.splits if_splits)
  from xy obtain i j where ij: "arg_component_word x = Inr i" "0 \<le> i" "i < 2 ^ 160"
    "arg_component_word y = Inr j" "0 \<le> j" "j < 2 ^ 32"
    by (auto simp: below_def split: sum.splits)
  then have "norm (nat i) = nat i" "norm (nat j) = nat j" by (simp_all add: norm_word)
  with ij show ?thesis using comp [OF ij(1)] comp [OF ij(4)] by (simp add: a)
qed

lemma agree_list:
  assumes "\<And>p. p \<in> set ps \<Longrightarrow> \<exists>e. f p = Inr e \<and> g p = Inr (render_value (lexpr_val e))"
  shows "\<exists>es. mapR f ps = Inr es \<and> mapR g ps = Inr (map (render_value \<circ> lexpr_val) es)"
  using assms
proof (induction ps)
  case (Cons p ps)
  from Cons.prems [of p] obtain e where "f p = Inr e" "g p = Inr (render_value (lexpr_val e))"
    by auto
  moreover from Cons obtain es where "mapR f ps = Inr es"
    "mapR g ps = Inr (map (render_value \<circ> lexpr_val) es)" by auto
  ultimately show ?case by (intro exI [of _ "e # es"]) simp
qed simp

lemma agree_arg:
  "canonical_arg T a \<Longrightarrow> \<exists>e. lean_expr T a = Inr e \<and> denote T a = Inr (render_value (lexpr_val e))"
proof (induction T a rule: canonical_arg.induct)
  case (1 t a)
  then show ?case using agree_word by simp
next
  case (2 a)
  then show ?case using agree_bytes by simp
next
  case (3 t a)
  then show ?case by (rule agree_fn)
next
  case (4 T n a)
  then obtain xs where a: "a = JList xs" and n: "n = None \<or> n = Some (length xs)"
    and xs: "list_all (canonical_arg T) xs" by (auto split: json.splits)
  from 4(1) [OF a] xs have "\<exists>es. mapR (lean_expr T) xs = Inr es
      \<and> mapR (denote T) xs = Inr (map (render_value \<circ> lexpr_val) es)"
    by (intro agree_list) (auto simp: list_all_iff)
  with a n show ?case by auto
next
  case (5 Ts a)
  then obtain xs where a: "a = JList xs" and n: "length xs = length Ts"
    and xs: "list_all (\<lambda>p. canonical_arg (fst p) (snd p)) (zip Ts xs)" by (auto split: json.splits)
  from 5(1) [OF a] xs have "\<exists>es. mapR (\<lambda>p. lean_expr (fst p) (snd p)) (zip Ts xs) = Inr es
      \<and> mapR (\<lambda>p. denote (fst p) (snd p)) (zip Ts xs) = Inr (map (render_value \<circ> lexpr_val) es)"
    by (intro agree_list) (auto simp: list_all_iff)
  with a n show ?case by auto
qed

definition canonical_args :: "aty list \<Rightarrow> json list \<Rightarrow> bool" where
  "canonical_args Ts xs \<longleftrightarrow>
     length xs = length Ts \<and> list_all (\<lambda>p. canonical_arg (fst p) (snd p)) (zip Ts xs)"

lemma render_lean_args_printed:
  assumes "list_all2 (\<lambda>t T. resolve S n t = Some T) types Ts" "n \<le> d" "length xs = length Ts"
  shows "mapR (\<lambda>p. render_lean_arg S d (fst p) (snd p)) (zip xs types) =
     bindR (mapR (\<lambda>p. lean_expr (fst p) (snd p)) (zip Ts xs)) (\<lambda>es. Inr (map show_lexpr es))"
  using assms(1,3)
proof (induction arbitrary: xs rule: list_all2_induct)
  case (Cons m ms T Ts)
  from Cons.prems obtain x xs' where xs: "xs = x # xs'" by (cases xs) auto
  have "render_lean_arg S d x m = printed (lean_expr T x)"
    by (rule render_lean_arg_printed [OF Cons.hyps(1) assms(2)])
  with Cons.IH [of xs'] Cons.prems xs show ?case
    by (cases "lean_expr T x"; cases "mapR (\<lambda>p. lean_expr (fst p) (snd p)) (zip Ts xs')") simp_all
qed simp

lemma same_call:
  assumes "list_all2 (\<lambda>t T. resolve S n t = Some T) types Ts" "list_all wfT Ts"
    "canonical_args Ts args" "encode_args_abi S d args (Some types) = Inr bs" "n \<le> d"
  shows "\<exists>es. render_lean_args S d args (Some types) = Inr (''['' @ join '', '' (map show_lexpr es) @ '']'')
    \<and> decode_abi_values S d bs types = Inr (map (render_value \<circ> lexpr_val) es)"
proof -
  from assms(3) have len: "length args = length Ts" by (simp add: canonical_args_def)
  from assms(3) have "\<exists>es. mapR (\<lambda>p. lean_expr (fst p) (snd p)) (zip Ts args) = Inr es
      \<and> mapR (\<lambda>p. denote (fst p) (snd p)) (zip Ts args) = Inr (map (render_value \<circ> lexpr_val) es)"
    by (intro agree_list agree_arg) (auto simp: canonical_args_def list_all_iff)
  then obtain es where es: "mapR (\<lambda>p. lean_expr (fst p) (snd p)) (zip Ts args) = Inr es"
    "denotes Ts args = Inr (map (render_value \<circ> lexpr_val) es)" by (auto simp: denotes_def)
  have "render_lean_args S d args (Some types) = Inr (''['' @ join '', '' (map show_lexpr es) @ '']'')"
    using render_lean_args_printed [OF assms(1,5) len] es(1) list_all2_lengthD [OF assms(1)] len
    by (simp add: render_lean_args_def)
  moreover have "decode_abi_values S d (bs @ []) types = Inr (map (render_value \<circ> lexpr_val) es)"
    by (rule calldata_codec [OF assms(1,2,4) es(2) assms(5,5)])
  ultimately show ?thesis by auto
qed

text \<open>C10: the two engines receive the same logical call. For canonical arguments the Lean text is
  the printed list of value expressions, and decoding the calldata sent to the EVM yields, for each
  argument, exactly the rendering of the value the Lean expression stands for.\<close>

theorem same_logical_call:
  assumes "list_all2 (\<lambda>t T. resolve S n t = Some T) types Ts" "list_all wfT Ts"
    "canonical_args Ts args" "encode_args_abi S d args (Some types) = Inr bs" "n \<le> d"
  shows "\<exists>es. render_lean_args S d args (Some types) = Inr (''['' @ join '', '' (map show_lexpr es) @ '']'')
    \<and> decode_abi_values S d bs types = Inr (map (render_value \<circ> lexpr_val) es)"
  using assms by (rule same_call)

lemma bytes_type_examples:
  "clean_type ''bytes'' = ''bytes''" "is_bytes_type ''bytes''" "array_elem ''bytes'' = None"
  "struct_member_types ''bytes'' [] = None"
  by code_simp+

lemma encode_example2:
  "encode_args_abi [] 2 [JList [JInt 5], JObj [(''bytes'', JStr ''0xab'')]]
     (Some [''uint256[]'', ''bytes'']) =
   Inr (be_bytes 32 64 @ be_bytes 32 128 @ be_bytes 32 1 @ word32 5
        @ be_bytes 32 1 @ [0xab] @ zero_pad 1)"
  by (simp add: encode_args_abi_def Let_def type_examples bytes_type_examples encode_arg_def pack_def
      to_bytes_def jget_def dget_or_def unhex_def digit_val_def cp_def ascii_space_def numeral_2_eq_2)

theorem same_logical_call_witness:
  "\<exists>es. render_lean_args [] 2 [JList [JInt 5], JObj [(''bytes'', JStr ''0xab'')]]
      (Some [''uint256[]'', ''bytes'']) = Inr (''['' @ join '', '' (map show_lexpr es) @ '']'')
    \<and> decode_abi_values [] 2
        (be_bytes 32 64 @ be_bytes 32 128 @ be_bytes 32 1 @ word32 5
          @ be_bytes 32 1 @ [0xab] @ zero_pad 1)
        [''uint256[]'', ''bytes''] = Inr (map (render_value \<circ> lexpr_val) es)"
proof (rule same_logical_call [OF _ _ _ encode_example2 order_refl])
  show "list_all2 (\<lambda>t T. resolve [] 2 t = Some T) [''uint256[]'', ''bytes'']
      [AArr (AWord ''uint256'') None, ADyn]"
    by code_simp
  show "list_all wfT [AArr (AWord ''uint256'') None, ADyn]" by simp
  show "canonical_args [AArr (AWord ''uint256'') None, ADyn]
      [JList [JInt 5], JObj [(''bytes'', JStr ''0xab'')]]"
    by (simp add: canonical_args_def canonical_word_def unsigned_type_def type_examples
        canonical_bytes_def clean_hex_def strip0x_def jget_def dget_or_def digit_val_def cp_def)
qed

text \<open>Hexadecimal text outside the canonical form reaches the engines as different calls.
  \<open>bytes.fromhex\<close> skips a space that \<open>render_lean_arg\<close> reads as a digit of the next pair: the EVM
  gets the bytes ab cd, the model ab 0c 0d. An odd number of digits raises an error in the encoder
  where the renderer makes a byte of the last one.\<close>

theorem hex_forms_diverge:
  "encode_arg (JObj [(''bytes'', JStr ''0xab cd'')]) =
     Inr (True, be_bytes 32 2 @ [0xab, 0xcd] @ zero_pad 2)
   \<and> render_scalar_arg (JObj [(''bytes'', JStr ''0xab cd'')]) =
     Inr (''('' @ V @ ''.bytes [171, 12, 13])'')
   \<and> encode_arg (JObj [(''bytes'', JStr ''0xabc'')]) = Inl ValueError
   \<and> render_scalar_arg (JObj [(''bytes'', JStr ''0xabc'')]) =
     Inr (''('' @ V @ ''.bytes [171, 12])'')"
  by (simp add: encode_arg_def render_scalar_arg_def jget_def dget_or_def unhex_def digit_val_def
      cp_def ascii_space_def to_bytes_def py_int_str_def strip_def strip_by_def space_cp_def Let_def
      show_int_def show_nat_def show_base.simps
      numeral_2_eq_2 [symmetric])

end
