(* ===== verification/Observable.thy ===== *)
theory Observable
  imports LeanRender
begin

text \<open>
  \<open>contest/observable.py\<close>, the comparison: an observable is a line of text with an outcome and
  optional event and storage sections, behind the markers \<open>##EVT##\<close> and \<open>##STO##\<close>. This theory
  has the EVM observable (\<open>evm_observable\<close>), the sections and outcome classes, the canonical form
  of raw reverts, the storage map and \<open>compare_observables\<close>, and the fault injection of the self
  tests. The text is a list of code points, because a revert reason is decoded UTF-8; the numbers
  of the storage section are ASCII decimals.
\<close>

section \<open>Sections and outcome\<close>

definition split_sections :: "utext \<Rightarrow> utext \<times> utext option \<times> utext option" where
  "split_sections raw =
     (let (t1, storage) = (case rpart_at (ulit STO_SEP) raw of
            Some (a, b) \<Rightarrow> (a, Some b) | None \<Rightarrow> (raw, None));
          (t2, events) = (case rpart_at (ulit EVT_SEP) t1 of
            Some (a, b) \<Rightarrow> (a, Some b) | None \<Rightarrow> (t1, None))
      in (t2, events, storage))"

definition outcome_line :: "utext \<Rightarrow> utext" where
  "outcome_line raw = fst (split_sections raw)"

definition events_of :: "utext \<Rightarrow> utext option" where
  "events_of raw = fst (snd (split_sections raw))"

definition storage_of :: "utext \<Rightarrow> utext option" where
  "storage_of raw = snd (snd (split_sections raw))"

text \<open>\<open>line.split("|", 1)\<close>: its head, and what follows the bar.\<close>

definition bar_head :: "utext \<Rightarrow> utext" where
  "bar_head line = (case part_at (ulit ''|'') line of Some (a, b) \<Rightarrow> a | None \<Rightarrow> line)"

definition bar_rest :: "utext \<Rightarrow> utext" where
  "bar_rest line = (case part_at (ulit ''|'') line of Some (a, b) \<Rightarrow> b | None \<Rightarrow> [])"

definition outcome :: "utext \<Rightarrow> utext" where
  "outcome raw =
     (let line = outcome_line raw; head = bar_head line in
      if head = ulit ''success'' then ulit ''success''
      else if head = ulit ''solidity-lean-reject'' then ulit ''solidity-lean-reject''
      else if head = ulit ''deployrevert'' then ulit ''deployrevert''
      else if head = ulit ''revert'' then
        (if starts (ulit ''panic:'') (bar_rest line) then ulit ''panic'' else ulit ''revert'')
      else head)"

definition is_solidity_lean_reject :: "utext \<Rightarrow> bool" where
  "is_solidity_lean_reject raw = starts (ulit ''solidity-lean-reject|'') raw"

definition reject_message :: "utext \<Rightarrow> utext" where
  "reject_message raw = (if is_solidity_lean_reject raw then bar_rest (outcome_line raw) else [])"

definition parse_observable :: "utext \<Rightarrow> utext" where
  "parse_observable t = tstrip t"

section \<open>The EVM observable\<close>

definition opt_text :: "utext option \<Rightarrow> utext" where
  "opt_text x = (case x of Some t \<Rightarrow> t | None \<Rightarrow> [])"

definition evm_observable ::
    "structs \<Rightarrow> nat \<Rightarrow> bool \<Rightarrow> string \<Rightarrow> string list \<Rightarrow> utext option \<Rightarrow> utext option \<Rightarrow>
     (string \<times> string \<times> string list) list \<Rightarrow> bool \<Rightarrow> utext res" where
  "evm_observable S d ok ret_hex return_types events storage errors deploy_reverted =
     bindR
       (if ok then bindR (evm_return_normal_form S d ret_hex return_types) (\<lambda>s. Inr (ulit s))
        else bindR (evm_revert_normal_form S d errors ret_hex) (\<lambda>line.
             Inr (if deploy_reverted then ulit ''deployrevert|'' @ bar_rest line else line)))
       (\<lambda>line. Inr (parse_observable
          (if events \<noteq> None \<or> storage \<noteq> None
           then line @ ulit EVT_SEP @ opt_text events @ ulit STO_SEP @ opt_text storage
           else line)))"

section \<open>Raw reverts in canonical form\<close>

text \<open>The hexadecimal digits are ASCII text of an observable line; other code points make
  \<open>bytes.fromhex\<close> raise, which leaves the observable as it is.\<close>

definition text_string :: "utext \<Rightarrow> string option" where
  "text_string t = (if list_all (\<lambda>n. n < 256) t then Some (map char_of t) else None)"

definition canonicalize_raw_revert ::
    "structs \<Rightarrow> nat \<Rightarrow> (string \<times> string \<times> string list) list \<Rightarrow> utext \<Rightarrow> utext" where
  "canonicalize_raw_revert S d errors raw =
     (let (out, events, storage) = split_sections raw;
          hit = (if starts (ulit ''revert|raw:0x'') out
                 then Some (False, drop (length ''revert|raw:0x'') out)
                 else if starts (ulit ''deployrevert|raw:0x'') out
                 then Some (True, drop (length ''deployrevert|raw:0x'') out)
                 else None)
      in case hit of
           None \<Rightarrow> raw
         | Some (deploy, hexbody) \<Rightarrow>
             (case text_string hexbody of
                None \<Rightarrow> raw
              | Some h \<Rightarrow>
                  (case evm_revert_normal_form S d errors (''0x'' @ h) of
                     Inl _ \<Rightarrow> raw
                   | Inr decoded \<Rightarrow>
                       if starts (ulit ''revert|raw:'') decoded then raw
                       else
                         let decoded = (if deploy then ulit ''deployrevert|'' @ bar_rest decoded
                                        else decoded)
                         in if events = None \<and> storage = None then decoded
                            else decoded @ ulit EVT_SEP @ opt_text events @
                                 ulit STO_SEP @ opt_text storage)))"

section \<open>The storage map\<close>

definition text_int :: "utext \<Rightarrow> int res" where
  "text_int t = (case text_string t of Some s \<Rightarrow> py_int_str 10 s | None \<Rightarrow> Inl ValueError)"

definition storage_pair :: "utext \<Rightarrow> (int \<times> int) option" where
  "storage_pair pair0 =
     (let pair = tstrip pair0 in
      if pair = [] then None
      else let (k, v) = (case part_at (ulit '':'') pair of
                 Some (a, b) \<Rightarrow> (a, b) | None \<Rightarrow> (pair, []))
        in case (text_int k, text_int v) of
             (Inr slot, Inr val) \<Rightarrow> if val \<noteq> 0 then Some (slot, val) else None
           | _ \<Rightarrow> None)"

definition parse_storage_map :: "utext \<Rightarrow> (int \<times> int) list" where
  "parse_storage_map section =
     dput_all [] (List.map_filter storage_pair (split_on (ulit '';'') (tstrip section)))"

text \<open>Equality of dictionaries ignores the order of insertion.\<close>

definition dict_eq :: "('k \<times> 'v) list \<Rightarrow> ('k \<times> 'v) list \<Rightarrow> bool" where
  "dict_eq d e \<longleftrightarrow> set d = set e"

section \<open>Comparison\<close>

datatype component =
    Deploy_revert_vs_success
  | Deploy_vs_call_revert
  | Revert_vs_success
  | Wrong_panic
  | Wrong_revert
  | Wrong_value
  | Wrong_deploy_revert
  | Wrong_events
  | Wrong_state

record comparison =
  cmp_equal :: bool
  cmp_lean :: utext
  cmp_evm :: utext
  cmp_component :: "component option"

definition outcome_component :: "utext \<Rightarrow> utext \<Rightarrow> component" where
  "outcome_component sl evm =
     (if outcome sl \<noteq> outcome evm then
        let outs = [outcome sl, outcome evm] in
        if ulit ''deployrevert'' \<in> set outs then
          (if ulit ''success'' \<in> set outs then Deploy_revert_vs_success else Deploy_vs_call_revert)
        else if ulit ''success'' \<in> set outs
            \<and> (ulit ''revert'' \<in> set outs \<or> ulit ''panic'' \<in> set outs) then Revert_vs_success
        else if ulit ''panic'' \<in> set outs then Wrong_panic
        else Wrong_revert
      else if outcome sl = ulit ''success'' then Wrong_value
      else if outcome sl = ulit ''panic'' then Wrong_panic
      else if outcome sl = ulit ''deployrevert'' then Wrong_deploy_revert
      else Wrong_revert)"

definition differs :: "'a option \<Rightarrow> 'a option \<Rightarrow> ('a \<Rightarrow> 'a \<Rightarrow> bool) \<Rightarrow> bool" where
  "differs x y same = (case (x, y) of (Some a, Some b) \<Rightarrow> \<not> same a b | _ \<Rightarrow> False)"

definition compare_observables :: "utext \<Rightarrow> utext \<Rightarrow> comparison" where
  "compare_observables sl evm =
     (let result = (\<lambda>c. \<lparr>cmp_equal = (c = None), cmp_lean = sl, cmp_evm = evm, cmp_component = c\<rparr>) in
      if tstrip (outcome_line sl) \<noteq> tstrip (outcome_line evm)
      then result (Some (outcome_component sl evm))
      else if outcome sl = ulit ''success'' then
        (if differs (events_of sl) (events_of evm) (\<lambda>a b. tstrip a = tstrip b)
         then result (Some Wrong_events)
         else if differs (storage_of sl) (storage_of evm)
                   (\<lambda>a b. dict_eq (parse_storage_map a) (parse_storage_map b))
         then result (Some Wrong_state)
         else result None)
      else result None)"

section \<open>Fault injection for the self tests\<close>

definition digit_cp :: "nat \<Rightarrow> bool" where
  "digit_cp n \<longleftrightarrow> 48 \<le> n \<and> n \<le> 57"

definition text_nat :: "utext \<Rightarrow> nat" where
  "text_nat t = foldl (\<lambda>n c. n * 10 + (c - 48)) 0 t"

text \<open>\<open>re.search\<close> for \<open>w:(\d+)\<close> and \<open>f:(\d+):(\d+)\<close>: the text before the leftmost match, the
  groups, the text after it.\<close>

fun search_w :: "utext \<Rightarrow> (utext \<times> utext \<times> utext) option" where
  "search_w [] = None"
| "search_w (c # cs) =
     (let s = c # cs; body = drop 2 s; ds = takeWhile digit_cp body in
      if starts (ulit ''w:'') s \<and> ds \<noteq> [] then Some ([], ds, dropWhile digit_cp body)
      else map_option (\<lambda>(pre, ds, post). (c # pre, ds, post)) (search_w cs))"

fun search_f :: "utext \<Rightarrow> (utext \<times> utext \<times> utext \<times> utext) option" where
  "search_f [] = None"
| "search_f (c # cs) =
     (let s = c # cs; body = drop 2 s; ds = takeWhile digit_cp body;
          rest = dropWhile digit_cp body; es = takeWhile digit_cp (drop 1 rest) in
      if starts (ulit ''f:'') s \<and> ds \<noteq> [] \<and> starts (ulit '':'') rest \<and> es \<noteq> []
      then Some ([], ds, es, dropWhile digit_cp (drop 1 rest))
      else map_option (\<lambda>(pre, ds, es, post). (c # pre, ds, es, post)) (search_f cs))"

definition perturb_leading_value :: "utext \<Rightarrow> utext" where
  "perturb_leading_value raw =
     (case search_w (outcome_line raw) of
        None \<Rightarrow> raw
      | Some (pre, ds, post) \<Rightarrow>
          (pre @ ulit (''w:'' @ show_nat (text_nat ds + 1)) @ post) @
          drop (length (outcome_line raw)) raw)"

definition perturb_extfn_value :: "utext \<Rightarrow> utext" where
  "perturb_extfn_value raw =
     (case search_f (outcome_line raw) of
        None \<Rightarrow> raw
      | Some (pre, ds, es, post) \<Rightarrow>
          (pre @ ulit ''f:'' @ ds @ ulit ('':'' @ show_nat (text_nat es + 1)) @ post) @
          drop (length (outcome_line raw)) raw)"

definition perturb_storage_slot :: "utext \<Rightarrow> utext" where
  "perturb_storage_slot raw =
     (let (line, events, storage) = split_sections raw in
      case storage of
        None \<Rightarrow> raw
      | Some st \<Rightarrow>
          if st = [] then raw
          else
            let s = tstrip st; ks = takeWhile digit_cp s; r = dropWhile digit_cp s;
                vs = takeWhile digit_cp (drop 1 r); rest = dropWhile digit_cp (drop 1 r) in
            if ks = [] \<or> \<not> starts (ulit '':'') r \<or> vs = [] then raw
            else line @ (case events of Some e \<Rightarrow> ulit EVT_SEP @ e | None \<Rightarrow> []) @
                 ulit STO_SEP @ ks @ ulit ('':'' @ show_nat (text_nat vs + 1)) @ rest)"

end
