(* ===== verification/ObsProps.thy ===== *)
theory ObsProps
  imports Observable
begin

text \<open>
  What the comparison promises. The structural markers can not be forged from inside an outcome
  (\<open>split_sections\<close> returns the sections that were put together, whatever text the outcome
  contains); the storage sections compare as maps; the verdict of \<open>compare_observables\<close> on a
  successful call is equality of values, of events and of storage.
\<close>

section \<open>Markers\<close>

lemma rpart_at_last:
  "rpart_at p s = Some (a, b) \<Longrightarrow> s = a' @ p @ b' \<Longrightarrow> length a' \<le> length a"
proof (induction s arbitrary: a a')
  case (Cons c cs)
  show ?case
  proof (cases "rpart_at p cs")
    case None
    then have "\<not> contains p cs" by (simp add: rpart_at_None)
    with Cons.prems(2) have "a' = []" by (cases a') (auto simp: contains_iff)
    then show ?thesis by simp
  next
    case (Some r)
    obtain x y where r: "r = (x, y)" by (cases r)
    with Some Cons.prems(1) have a: "a = c # x" "b = y" by simp_all
    show ?thesis
    proof (cases a')
      case (Cons d a2)
      with Cons.prems(2) have "cs = a2 @ p @ b'" by simp
      with Cons.IH [of x a2] Some r a(2) have "length a2 \<le> length x" by simp
      with a Cons show ?thesis by simp
    qed simp
  qed
qed simp

lemma rpart_at_unique:
  assumes "p \<noteq> []" "\<And>a' b'. x @ p @ y = a' @ p @ b' \<Longrightarrow> length a' \<le> length x"
  shows "rpart_at p (x @ p @ y) = Some (x, y)"
proof (cases "rpart_at p (x @ p @ y)")
  case None
  then have "\<not> contains p (x @ p @ y)" by (simp add: rpart_at_None)
  then show ?thesis by (auto simp: contains_iff)
next
  case (Some r)
  obtain a b where r: "r = (a, b)" by (cases r)
  from rpart_at_Some [of p "x @ p @ y" a b] Some r have eq: "x @ p @ y = a @ p @ b" by simp
  have "length x \<le> length a" using Some r by (intro rpart_at_last) auto
  moreover have "length a \<le> length x" using assms(2) [OF eq] .
  ultimately have "x = a" "y = b" using eq by (auto simp: append_eq_append_conv)
  with Some r show ?thesis by simp
qed

lemma rpart_at_marker:
  assumes p: "p = q @ [m]" and y: "m \<notin> set y"
  shows "rpart_at p (x @ p @ y) = Some (x, y)"
proof (rule rpart_at_unique)
  show "p \<noteq> []" by (simp add: p)
  fix a' b' assume eq: "x @ p @ y = a' @ p @ b'"
  show "length a' \<le> length x"
  proof (rule ccontr)
    assume "\<not> length a' \<le> length x"
    then have gt: "length x < length a'" by simp
    have "(x @ p @ y) ! (length a' + length q) = m" unfolding eq by (simp add: p nth_append)
    moreover have "(x @ p @ y) ! (length a' + length q) \<in> set y"
    proof -
      have "length a' + length q < length (x @ p @ y)" unfolding eq by (simp add: p)
      moreover have "length (x @ p) \<le> length a' + length q" using gt by (simp add: p)
      ultimately have "(x @ p @ y) ! (length a' + length q) = y ! (length a' + length q - length (x @ p))"
        "length a' + length q - length (x @ p) < length y"
        by (auto simp: nth_append)
      then show ?thesis by simp
    qed
    ultimately show False using y by simp
  qed
qed

definition hash_cp :: nat where
  "hash_cp = cp CHR ''#''"

lemma sep_last: "ulit STO_SEP = ulit ''##STO#'' @ [hash_cp]" "ulit EVT_SEP = ulit ''##EVT#'' @ [hash_cp]"
  by (simp_all add: STO_SEP_def EVT_SEP_def hash_cp_def)

lemma split_sections_joined:
  assumes "hash_cp \<notin> set ev" "hash_cp \<notin> set st"
  shows "split_sections (line @ ulit EVT_SEP @ ev @ ulit STO_SEP @ st) = (line, Some ev, Some st)"
proof -
  have "rpart_at (ulit STO_SEP) ((line @ ulit EVT_SEP @ ev) @ ulit STO_SEP @ st)
      = Some (line @ ulit EVT_SEP @ ev, st)"
    by (rule rpart_at_marker [OF sep_last(1) assms(2)])
  moreover have "rpart_at (ulit EVT_SEP) (line @ ulit EVT_SEP @ ev) = Some (line, ev)"
    by (rule rpart_at_marker [OF sep_last(2) assms(1)])
  ultimately show ?thesis by (simp add: split_sections_def)
qed

section \<open>Rendered sections\<close>

text \<open>The characters of rendered numbers and sections.\<close>

definition plain :: "string \<Rightarrow> bool" where
  "plain s \<longleftrightarrow> list_all (\<lambda>c. c \<noteq> CHR ''#'' \<and> \<not> space_cp (cp c)) s"

lemma plain_simps [simp]:
  "plain []" "plain (c # s) \<longleftrightarrow> c \<noteq> CHR ''#'' \<and> \<not> space_cp (cp c) \<and> plain s"
  "plain (a @ b) \<longleftrightarrow> plain a \<and> plain b"
  by (auto simp: plain_def)

lemma plain_chars [simp]:
  "\<not> space_cp (cp CHR ''t'')" "\<not> space_cp (cp CHR ''='')" "\<not> space_cp (cp CHR ''['')"
  "\<not> space_cp (cp CHR '']'')" "\<not> space_cp (cp CHR '';'')" "\<not> space_cp (cp CHR ''d'')"
  "\<not> space_cp (cp CHR '':'')" "\<not> space_cp (cp CHR ''0'')" "\<not> space_cp (cp CHR ''x'')"
  "\<not> space_cp (cp CHR ''~'')" "\<not> space_cp (cp CHR '','')" "\<not> space_cp (cp CHR ''w'')"
  "\<not> space_cp (cp CHR ''i'')" "\<not> space_cp (cp CHR ''b'')" "\<not> space_cp (cp CHR ''f'')"
  "\<not> space_cp (cp CHR ''('')" "\<not> space_cp (cp CHR '')'')" "\<not> space_cp (cp CHR ''-'')"
  "\<not> space_cp (cp CHR ''s'')" "\<not> space_cp (cp CHR ''u'')" "\<not> space_cp (cp CHR ''c'')"
  "\<not> space_cp (cp CHR ''e'')" "\<not> space_cp (cp CHR ''|'')"
  by (simp_all add: space_cp_def cp_def)

lemma plain_digit: "d < 16 \<Longrightarrow> digit_char d \<noteq> CHR ''#'' \<and> \<not> space_cp (cp (digit_char d))"
  using digit_char_cases [of d] digit_char_plain(1) [of d] by auto

lemma plain_show_base: "2 \<le> b \<Longrightarrow> b \<le> 16 \<Longrightarrow> plain (show_base b n)"
  unfolding plain_def list_all_iff
  using show_base_chars plain_digit by (metis less_le_trans)

lemma plain_show_nat [simp]: "plain (show_nat n)"
  by (simp add: show_nat_def plain_show_base)

lemma plain_show_int [simp]: "plain (show_int i)"
  by (simp add: show_int_def)

lemma plain_hex2 [simp]: "plain (lean_hex2 n)"
  by (simp add: lean_hex2_def plain_show_base Let_def)

lemma plain_concat: "plain (concat xs) \<longleftrightarrow> list_all plain xs"
  by (induction xs) auto

lemma plain_join: "plain sep \<Longrightarrow> list_all plain xs \<Longrightarrow> plain (join sep xs)"
  by (induction sep xs rule: join.induct) auto

lemma plain_log: "plain (render_log e)"
  by (auto simp: render_log_def hex_of_bytes_def plain_concat list_all_iff intro!: plain_join)

lemma plain_events: "plain (render_events_from self st k)"
  by (auto simp: render_events_from_def list_all_iff plain_log intro!: plain_join)

lemma set_map_filter: "x \<in> set (List.map_filter f xs) \<longleftrightarrow> (\<exists>y \<in> set xs. f y = Some x)"
  by (induction xs) (auto simp: List.map_filter_simps split: option.splits)

lemma plain_nospace: "plain s \<Longrightarrow> list_all (\<lambda>x. \<not> space_cp (cp x)) s"
  by (auto simp: plain_def list_all_iff)

lemma nospace_literals:
  "list_all (\<lambda>x. \<not> space_cp (cp x)) ''success|''" "list_all (\<lambda>x. \<not> space_cp (cp x)) EVT_SEP"
  "list_all (\<lambda>x. \<not> space_cp (cp x)) STO_SEP"
  by (simp_all add: EVT_SEP_def STO_SEP_def space_cp_def cp_def)

lemma plain_storage: "plain (render_storage_all st)"
  by (auto simp: render_storage_all_def list_all_iff set_map_filter Let_def split: if_splits
      intro!: plain_join)

lemma plain_hash: "plain s \<Longrightarrow> hash_cp \<notin> set (ulit s)"
  unfolding ulit_def plain_def list_all_iff hash_cp_def by (metis cp_inj imageE list.set_map)

lemma plain_tstrip: "plain s \<Longrightarrow> tstrip (ulit s) = ulit s"
  unfolding tstrip_def by (rule strip_by_noop) (auto simp: ulit_def plain_def list_all_iff)

text \<open>The outcome part of the helper's line, with the phase of a revert.\<close>

definition outcome_text :: "bool \<Rightarrow> lresult \<Rightarrow> utext" where
  "outcome_text deploy res =
     (case res of
        LReturned st vals \<Rightarrow> ulit (''success|'' @ render_values vals)
      | LReverted st rd \<Rightarrow>
          ulit (if deploy then ''deployrevert|'' else ''revert|'') @ render_revert rd)"

definition event_text :: "nat \<Rightarrow> nat \<Rightarrow> lresult \<Rightarrow> string" where
  "event_text self k res =
     (case res of LReturned st vals \<Rightarrow> render_events_from self st k | LReverted st rd \<Rightarrow> [])"

definition storage_text :: "lresult \<Rightarrow> string" where
  "storage_text res =
     (case res of LReturned st vals \<Rightarrow> render_storage_all st | LReverted st rd \<Rightarrow> [])"

lemma render_full_delta_sections:
  "render_full_delta self slots (Inr (k, dr, res)) =
     outcome_text dr res @ ulit EVT_SEP @ ulit (event_text self k res) @
     ulit STO_SEP @ ulit (storage_text res)"
  by (cases res)
    (simp_all add: render_full_delta_def outcome_text_def event_text_def storage_text_def)

lemma plain_event_text [simp]: "plain (event_text self k res)"
  by (cases res) (simp_all add: event_text_def plain_events)

lemma plain_storage_text [simp]: "plain (storage_text res)"
  by (cases res) (simp_all add: storage_text_def plain_storage)

lemma sections_of_rendered:
  "split_sections (render_full_delta self slots (Inr (k, dr, res))) =
     (outcome_text dr res, Some (ulit (event_text self k res)), Some (ulit (storage_text res)))"
  by (simp add: render_full_delta_sections split_sections_joined plain_hash)

section \<open>Storage sections\<close>

lemma part_at_single: "x \<notin> set a \<Longrightarrow> part_at [x] (a @ x # b) = Some (a, b)"
  by (induction a) auto

lemma part_at_single_none: "x \<notin> set a \<Longrightarrow> part_at [x] a = None"
  by (induction a) auto

lemma split_on_join:
  "xs \<noteq> [] \<Longrightarrow> \<forall>x \<in> set xs. c \<notin> set x \<Longrightarrow> split_on [c] (join [c] xs) = xs"
proof (induction "[c]" xs rule: join.induct)
  case (2 x)
  then show ?case by (simp add: split_on.simps part_at_single_none)
next
  case (3 x y ys)
  then show ?case by (subst split_on.simps) (simp add: part_at_single)
qed simp

lemma text_string_ulit [simp]: "text_string (ulit s) = Some s"
  by (simp add: text_string_def ulit_def list_all_iff cp_lt comp_def cp_def)

lemma length_show_base:
  "0 < k \<Longrightarrow> n < 10 ^ k \<Longrightarrow> length (show_base 10 n) \<le> k"
proof (induction k arbitrary: n)
  case (Suc k)
  show ?case
  proof (cases "n < 10")
    case False
    with Suc.prems have "0 < k" by (cases k) auto
    from Suc.prems have "n div 10 < 10 ^ k" by (simp add: less_mult_imp_div_less mult.commute)
    with Suc.IH \<open>0 < k\<close> False show ?thesis by (subst show_base.simps) simp
  qed (simp add: show_base.simps)
qed simp

lemma text_int_show:
  assumes "n < 2 ^ 256" shows "text_int (ulit (show_nat n)) = Inr (int n)"
proof -
  have "n < 10 ^ 78" using assms by (rule less_trans) simp
  then have "length (show_nat n) \<le> 78" unfolding show_nat_def by (intro length_show_base) simp
  then show ?thesis by (simp add: text_int_def int_of_show_nat)
qed

lemma norm_lt: "norm n < 2 ^ 256"
  by (simp add: norm_def)

lemma show_nat_no_sep: "CHR '':'' \<notin> set (show_nat n)" "CHR '';'' \<notin> set (show_nat n)"
  using show_nat_chars [of "CHR '':''" n] show_nat_chars [of "CHR '';''" n] by auto

lemma in_ulit: "cp c \<in> set (ulit s) \<longleftrightarrow> c \<in> set s"
  unfolding ulit_def set_map by (metis cp_inj imageE imageI)

definition pair_text :: "nat \<times> nat \<Rightarrow> string" where
  "pair_text kv = show_nat (fst kv) @ '':'' @ show_nat (snd kv)"

lemma storage_pair_text:
  assumes "fst kv < 2 ^ 256" "snd kv < 2 ^ 256" "snd kv \<noteq> 0"
  shows "storage_pair (ulit (pair_text kv)) = Some (int (fst kv), int (snd kv))"
proof -
  obtain k v where kv: "kv = (k, v)" by (cases kv)
  have "part_at [cp CHR '':''] (ulit (show_nat k) @ cp CHR '':'' # ulit (show_nat v))
      = Some (ulit (show_nat k), ulit (show_nat v))"
    by (rule part_at_single) (simp add: in_ulit show_nat_no_sep)
  moreover have "tstrip (ulit (show_nat k @ '':'' @ show_nat v)) = ulit (show_nat k @ '':'' @ show_nat v)"
    by (rule plain_tstrip) simp
  ultimately show ?thesis
    using assms by (simp add: kv pair_text_def storage_pair_def text_int_show)
qed

text \<open>The words the storage list holds: its first entry for a slot, 0 where there is none.\<close>

definition storage_entries :: "lstate \<Rightarrow> (nat \<times> nat) list" where
  "storage_entries st = map (\<lambda>kv. (norm (fst kv), norm (snd kv))) (l_storage st)"

definition storage_word :: "lstate \<Rightarrow> nat \<Rightarrow> nat" where
  "storage_word st s = (case map_of (storage_entries st) s of Some v \<Rightarrow> v | None \<Rightarrow> 0)"

definition nonzero :: "(nat \<times> nat) list \<Rightarrow> (nat \<times> nat) list" where
  "nonzero es = filter (\<lambda>kv. snd kv \<noteq> 0) es"

lemma render_storage_entries:
  "render_storage_all st =
     join '';'' (map pair_text (nonzero (storage_entries st)))"
proof -
  have "List.map_filter (\<lambda>kv. let v = norm (snd kv) in
          if v = 0 then None else Some (show_nat (norm (fst kv)) @ '':'' @ show_nat v)) xs =
        map pair_text (nonzero (map (\<lambda>kv. (norm (fst kv), norm (snd kv))) xs))" for xs
    by (induction xs) (simp_all add: List.map_filter_simps nonzero_def pair_text_def Let_def)
  then show ?thesis by (simp add: render_storage_all_def storage_entries_def)
qed

lemma ulit_join: "ulit (join sep xs) = join (ulit sep) (map ulit xs)"
  by (induction sep xs rule: join.induct) auto

lemma dput_all_distinct:
  "distinct (map fst (d @ ps)) \<Longrightarrow> dput_all d ps = d @ ps"
proof (induction ps arbitrary: d)
  case (Cons p ps)
  obtain k v where p: "p = (k, v)" by (cases p)
  have "k \<notin> fst ` set d \<Longrightarrow> dput d k v = d @ [(k, v)]" by (induction d) auto
  with Cons.prems p have "dput d k v = d @ [(k, v)]" by auto
  with Cons.IH [of "d @ [(k, v)]"] Cons.prems p show ?case by (simp add: dput_all_def)
qed (simp add: dput_all_def)

lemma parse_rendered_storage:
  assumes "distinct (map fst (storage_entries st))"
  shows "parse_storage_map (ulit (render_storage_all st)) =
     map (\<lambda>kv. (int (fst kv), int (snd kv))) (nonzero (storage_entries st))"
proof -
  let ?es = "nonzero (storage_entries st)"
  let ?txt = "\<lambda>kv. ulit (pair_text kv)"
  have ne: "List.map_filter storage_pair (map ?txt es) = map (\<lambda>kv. (int (fst kv), int (snd kv))) es"
    if "\<forall>kv \<in> set es. fst kv < 2 ^ 256 \<and> snd kv < 2 ^ 256 \<and> snd kv \<noteq> 0" for es
    using that by (induction es) (auto simp: List.map_filter_simps storage_pair_text)
  have rng: "\<forall>kv \<in> set ?es. fst kv < 2 ^ 256 \<and> snd kv < 2 ^ 256 \<and> snd kv \<noteq> 0"
    using norm_lt by (auto simp: nonzero_def storage_entries_def)
  have split: "List.map_filter storage_pair (split_on (ulit '';'') (ulit (render_storage_all st)))
      = map (\<lambda>kv. (int (fst kv), int (snd kv))) ?es"
  proof (cases "?es = []")
    case True
    then show ?thesis
      by (simp add: render_storage_entries split_on.simps storage_pair_def tstrip_def strip_by_def
          List.map_filter_simps)
  next
    case False
    have "ulit (render_storage_all st) = join [cp CHR '';''] (map ?txt ?es)"
      by (simp add: render_storage_entries ulit_join comp_def)
    moreover have "split_on [cp CHR '';''] (join [cp CHR '';''] (map ?txt ?es)) = map ?txt ?es"
      using False show_nat_no_sep by (intro split_on_join) (auto simp: in_ulit pair_text_def)
    ultimately show ?thesis using ne [OF rng] by simp
  qed
  have "distinct (map fst ?es)"
    unfolding nonzero_def using assms by (rule distinct_map_filter)
  then have "distinct (map fst (map (\<lambda>kv. (int (fst kv), int (snd kv))) ?es))"
    by (simp add: comp_def distinct_map inj_on_def)
  then show ?thesis
    unfolding parse_storage_map_def plain_tstrip [OF plain_storage] split
    using dput_all_distinct [of "[]"] by (simp only: append_Nil)
qed

lemma nonzero_entries_eq:
  assumes "distinct (map fst es)"
  shows "set (nonzero es) = {(s, v). v \<noteq> 0 \<and> map_of es s = Some v}"
  using assms by (auto simp: nonzero_def)

lemma storage_maps_equal:
  assumes "distinct (map fst (storage_entries a))" "distinct (map fst (storage_entries b))"
  shows "dict_eq (parse_storage_map (ulit (render_storage_all a)))
           (parse_storage_map (ulit (render_storage_all b))) \<longleftrightarrow> storage_word a = storage_word b"
proof -
  let ?f = "\<lambda>kv. (int (fst kv), int (snd kv))"
  have inj: "inj ?f" by (auto simp: inj_def)
  have "dict_eq (parse_storage_map (ulit (render_storage_all a)))
      (parse_storage_map (ulit (render_storage_all b))) \<longleftrightarrow>
      ?f ` set (nonzero (storage_entries a)) = ?f ` set (nonzero (storage_entries b))"
    by (simp add: dict_eq_def parse_rendered_storage assms)
  also have "\<dots> \<longleftrightarrow> set (nonzero (storage_entries a)) = set (nonzero (storage_entries b))"
    using inj by (rule inj_image_eq_iff)
  also have "\<dots> \<longleftrightarrow> storage_word a = storage_word b"
  proof -
    have char: "(s, v) \<in> set (nonzero (storage_entries x)) \<longleftrightarrow> v \<noteq> 0 \<and> storage_word x s = v"
      if "distinct (map fst (storage_entries x))" for x s v
      unfolding nonzero_entries_eq [OF that] by (auto simp: storage_word_def split: option.splits)
    show ?thesis
    proof
      assume eq: "set (nonzero (storage_entries a)) = set (nonzero (storage_entries b))"
      have "v \<noteq> 0 \<and> storage_word a s = v \<longleftrightarrow> v \<noteq> 0 \<and> storage_word b s = v" for s v
        using char [OF assms(1)] char [OF assms(2)] eq by metis
      then show "storage_word a = storage_word b" by (intro ext) metis
    next
      assume "storage_word a = storage_word b"
      with char [OF assms(1)] char [OF assms(2)]
      show "set (nonzero (storage_entries a)) = set (nonzero (storage_entries b))" by auto
    qed
  qed
  finally show ?thesis .
qed

section \<open>The verdict on a successful call\<close>

lemma bar_simps:
  "ulit ''|'' = [cp CHR ''|'']"
  "ulit (''success|'' @ s) = ulit ''success'' @ cp CHR ''|'' # ulit s"
  by simp_all

lemma bar_head_at: "cp CHR ''|'' \<notin> set a \<Longrightarrow> bar_head (a @ cp CHR ''|'' # b) = a"
  by (simp add: bar_head_def part_at_single)

lemma bar_rest_at: "cp CHR ''|'' \<notin> set a \<Longrightarrow> bar_rest (a @ cp CHR ''|'' # b) = b"
  by (simp add: bar_rest_def part_at_single)

lemma success_head: "bar_head (ulit (''success|'' @ s)) = ulit ''success''"
  unfolding bar_simps by (rule bar_head_at) simp

lemma line_of_joined:
  assumes "plain ev" "plain st"
  shows "outcome_line (l @ ulit EVT_SEP @ ulit ev @ ulit STO_SEP @ ulit st) = l"
    "events_of (l @ ulit EVT_SEP @ ulit ev @ ulit STO_SEP @ ulit st) = Some (ulit ev)"
    "storage_of (l @ ulit EVT_SEP @ ulit ev @ ulit STO_SEP @ ulit st) = Some (ulit st)"
  using split_sections_joined [OF plain_hash [OF assms(1)] plain_hash [OF assms(2)], of l]
  by (simp_all add: outcome_line_def events_of_def storage_of_def)

lemma outcome_success:
  "plain ev \<Longrightarrow> plain st \<Longrightarrow>
     outcome (ulit (''success|'' @ s) @ ulit EVT_SEP @ ulit ev @ ulit STO_SEP @ ulit st) = ulit ''success''"
  by (simp only: outcome_def line_of_joined Let_def success_head if_True simp_thms)

lemma compare_success:
  assumes "plain v" "plain w" "plain ev" "plain fv" "plain st" "plain su"
  shows "cmp_equal (compare_observables
      (ulit (''success|'' @ v) @ ulit EVT_SEP @ ulit ev @ ulit STO_SEP @ ulit st)
      (ulit (''success|'' @ w) @ ulit EVT_SEP @ ulit fv @ ulit STO_SEP @ ulit su)) \<longleftrightarrow>
    v = w \<and> ev = fv \<and> dict_eq (parse_storage_map (ulit st)) (parse_storage_map (ulit su))"
proof -
  have strip: "tstrip (ulit (''success|'' @ x)) = ulit (''success|'' @ x)" if "plain x" for x
    using that by (intro plain_tstrip) simp
  show ?thesis
    using assms
    by (simp only: compare_observables_def line_of_joined outcome_success strip Let_def
        plain_tstrip differs_def) (auto simp: plain_tstrip)
qed

section \<open>Phases and raw reverts\<close>

lemma tstrip_head: "\<not> space_cp c \<Longrightarrow> \<exists>r. tstrip (c # s) = c # r"
  by (simp add: tstrip_def strip_by_def dropWhile_append3)

lemma tstrip_heads_differ:
  "a = c # x \<Longrightarrow> b = d # y \<Longrightarrow> c \<noteq> d \<Longrightarrow> \<not> space_cp c \<Longrightarrow> \<not> space_cp d \<Longrightarrow> tstrip a \<noteq> tstrip b"
  using tstrip_head [of c x] tstrip_head [of d y] by auto

lemma outcome_text_head:
  "\<exists>r. outcome_text dr res = (if (\<exists>st rd. res = LReverted st rd) \<and> dr then cp CHR ''d''
     else if (\<exists>st rd. res = LReverted st rd) then cp CHR ''r'' else cp CHR ''s'') # r"
  by (cases res) (auto simp: outcome_text_def)

lemma canonicalize_fixed:
  assumes "\<not> starts (ulit ''revert|raw:0x'') (outcome_line raw)"
    "\<not> starts (ulit ''deployrevert|raw:0x'') (outcome_line raw)"
  shows "canonicalize_raw_revert S d errors raw = raw"
proof -
  obtain out ev st where "split_sections raw = (out, ev, st)" by (cases "split_sections raw")
  with assms show ?thesis
    by (simp add: canonicalize_raw_revert_def outcome_line_def Let_def del: ulit_simps)
qed

lemma canonicalize_raw:
  assumes "split_sections raw = (ulit (''revert|raw:0x'' @ h), ev, st)"
    "evm_revert_normal_form S d errors (''0x'' @ h) = Inr decoded"
    "\<not> starts (ulit ''revert|raw:'') decoded"
  shows "canonicalize_raw_revert S d errors raw =
    (if ev = None \<and> st = None then decoded
     else decoded @ ulit EVT_SEP @ opt_text ev @ ulit STO_SEP @ opt_text st)"
proof -
  have "ulit (''revert|raw:0x'' @ h) = ulit ''revert|raw:0x'' @ ulit h" by simp
  then have "starts (ulit ''revert|raw:0x'') (ulit (''revert|raw:0x'' @ h))"
    "drop (length ''revert|raw:0x'') (ulit (''revert|raw:0x'' @ h)) = ulit h"
    by (simp_all only: starts_append) (simp add: ulit_def)
  with assms show ?thesis
    by (simp add: canonicalize_raw_revert_def Let_def del: ulit_simps)
qed

text \<open>The ABI data of \<open>Error(string)\<close>.\<close>

definition error_data :: "byte list \<Rightarrow> byte list" where
  "error_data msg = [0x08, 0xc3, 0x79, 0xa0] @ be_bytes 32 32 @ be_bytes 32 (length msg) @ msg
     @ zero_pad (length msg)"

lemma to_hex_simps [simp]: "to_hex [] = []" "to_hex (b # bs) = hex2 b @ to_hex bs"
  by (simp_all add: to_hex_def)

lemma selector_hex: "to_hex [0x08, 0xc3, 0x79, 0xa0] = ERROR_SELECTOR"
  by (simp add: hex2_def ERROR_SELECTOR_def)

lemma evm_revert_error:
  assumes "length msg < 256 ^ 32"
  shows "evm_revert_normal_form S d errors (''0x'' @ to_hex (error_data msg)) =
     Inr (ulit ''revert|error:'' @ utf8_decode msg)"
proof -
  let ?data = "error_data msg"
  have un: "unhex (''0x'' @ to_hex ?data) = Inr ?data"
    by (simp add: unhex_def from_hex_to_hex)
  have sel: "to_hex (take 4 ?data) = ERROR_SELECTOR"
    using selector_hex by (simp add: error_data_def)
  have off: "be_val (take 32 (drop 4 ?data)) = 32"
    by (simp add: error_data_def be_val_be_bytes)
  have len: "be_val (take 32 (drop (4 + 32) ?data)) = length msg"
    using assms by (simp add: error_data_def be_val_be_bytes)
  have body: "take (length msg) (drop (4 + 32 + 32) ?data) = msg"
    by (simp add: error_data_def)
  have ne: "?data \<noteq> []" "4 + 64 \<le> length ?data" by (simp_all add: error_data_def)
  show ?thesis
    unfolding evm_revert_normal_form_def un bindR_simps Let_def sel off len body
    using ne by simp
qed

lemma starts_prefix: "starts p a \<Longrightarrow> starts p (a @ b)"
  by (auto simp: starts_iff)

lemma outcome_line_prefix: "\<exists>r. raw = outcome_line raw @ r"
  by (auto simp: outcome_line_def split_sections_def split: option.splits dest!: rpart_at_Some)

lemma outcome_line_starts: "starts p (outcome_line raw) \<Longrightarrow> starts p raw"
  using outcome_line_prefix [of raw] starts_prefix by metis

lemma decoded_cases:
  assumes "evm_revert_normal_form S d errors h = Inr decoded"
  shows "starts (ulit ''revert|raw:'') decoded \<or>
    (\<exists>k y. decoded = ulit ''revert|'' @ cp k # y \<and> k \<in> {CHR ''e'', CHR ''p'', CHR ''c''})"
proof -
  have forms: "starts (ulit ''revert|raw:'') (ulit (''revert|raw:0x'' @ x))"
    "ulit ''revert|empty'' = ulit ''revert|'' @ cp CHR ''e'' # ulit ''mpty''"
    "ulit ''revert|error:'' @ z = ulit ''revert|'' @ cp CHR ''e'' # ulit ''rror:'' @ z"
    "ulit (''revert|panic:'' @ x) = ulit ''revert|'' @ cp CHR ''p'' # ulit (''anic:'' @ x)"
    "ulit (''revert|custom:'' @ x) = ulit ''revert|'' @ cp CHR ''c'' # ulit (''ustom:'' @ x)" for x z
    by simp_all
  from assms show ?thesis
    unfolding evm_revert_normal_form_def Let_def
    by (cases "unhex h") (auto simp only: bindR_simps sum.inject sum.distinct forms
        split: if_splits option.splits sum.splits prod.splits)
qed

lemma raw_prefix_false:
  assumes "k \<in> {CHR ''e'', CHR ''p'', CHR ''c''}"
  shows "\<not> starts (ulit ''revert|raw:0x'') ((ulit ''revert|'' @ cp k # y) @ x)"
    "\<not> starts (ulit ''deployrevert|raw:0x'') ((ulit ''revert|'' @ cp k # y) @ x)"
    "\<not> starts (ulit ''revert|raw:0x'') ((ulit ''deployrevert|'' @ cp k # y) @ x)"
    "\<not> starts (ulit ''deployrevert|raw:0x'') ((ulit ''deployrevert|'' @ cp k # y) @ x)"
  using assms by auto

lemma canonical_cases:
  "canonicalize_raw_revert S d errors raw = raw \<or>
     (\<exists>k y x. k \<in> {CHR ''e'', CHR ''p'', CHR ''c''} \<and>
        (canonicalize_raw_revert S d errors raw = (ulit ''revert|'' @ cp k # y) @ x \<or>
         canonicalize_raw_revert S d errors raw = (ulit ''deployrevert|'' @ cp k # y) @ x))"
proof -
  obtain out ev st where sp: "split_sections raw = (out, ev, st)" by (cases "split_sections raw")
  have step: "(case text_string hexbody of
                None \<Rightarrow> raw
              | Some h \<Rightarrow>
                  (case evm_revert_normal_form S d errors (''0x'' @ h) of
                     Inl _ \<Rightarrow> raw
                   | Inr decoded \<Rightarrow>
                       if starts (ulit ''revert|raw:'') decoded then raw
                       else
                         let decoded = (if deploy then ulit ''deployrevert|'' @ bar_rest decoded
                                        else decoded)
                         in if ev = None \<and> st = None then decoded
                            else decoded @ ulit EVT_SEP @ opt_text ev @
                                 ulit STO_SEP @ opt_text st)) = r \<Longrightarrow>
     r = raw \<or> (\<exists>k y x. k \<in> {CHR ''e'', CHR ''p'', CHR ''c''} \<and>
        (r = (ulit ''revert|'' @ cp k # y) @ x \<or> r = (ulit ''deployrevert|'' @ cp k # y) @ x))"
    for hexbody deploy r
  proof (cases "text_string hexbody")
    case (Some h)
    assume r: "(case text_string hexbody of
                None \<Rightarrow> raw
              | Some h \<Rightarrow>
                  (case evm_revert_normal_form S d errors (''0x'' @ h) of
                     Inl _ \<Rightarrow> raw
                   | Inr decoded \<Rightarrow>
                       if starts (ulit ''revert|raw:'') decoded then raw
                       else
                         let decoded = (if deploy then ulit ''deployrevert|'' @ bar_rest decoded
                                        else decoded)
                         in if ev = None \<and> st = None then decoded
                            else decoded @ ulit EVT_SEP @ opt_text ev @
                                 ulit STO_SEP @ opt_text st)) = r"
    show ?thesis
    proof (cases "evm_revert_normal_form S d errors (''0x'' @ h)")
      case (Inr decoded)
      note cs = decoded_cases [OF Inr]
      show ?thesis
      proof (cases "starts (ulit ''revert|raw:'') decoded")
        case False
        with cs obtain k y where k: "k \<in> {CHR ''e'', CHR ''p'', CHR ''c''}"
          and dec: "decoded = ulit ''revert|'' @ cp k # y" by blast
        have "decoded = ulit ''revert'' @ cp CHR ''|'' # (cp k # y)" by (simp add: dec)
        then have rest: "bar_rest decoded = cp k # y" using bar_rest_at [of "ulit ''revert''"] by simp
        obtain x where x: "x = (if ev = None \<and> st = None then [] else
           ulit EVT_SEP @ opt_text ev @ ulit STO_SEP @ opt_text st)" by simp
        have "r = (if deploy then ulit ''deployrevert|'' @ cp k # y else ulit ''revert|'' @ cp k # y) @ x"
          using r Some Inr False rest
          by (cases deploy; cases ev; cases st) (auto simp: x Let_def dec simp del: ulit_simps)
        with k show ?thesis by (cases deploy) (simp only: if_True if_False, blast)+
      qed (use r Some Inr in simp)
    qed (use r Some in simp)
  qed simp
  have "canonicalize_raw_revert S d errors raw = raw"
    if "\<not> starts (ulit ''revert|raw:0x'') out" "\<not> starts (ulit ''deployrevert|raw:0x'') out"
    using that sp by (intro canonicalize_fixed) (simp_all add: outcome_line_def del: ulit_simps)
  then show ?thesis
    using step [OF refl] sp
    by (cases "starts (ulit ''revert|raw:0x'') out"; cases "starts (ulit ''deployrevert|raw:0x'') out")
      (simp_all add: canonicalize_raw_revert_def Let_def del: ulit_simps)
qed

section \<open>Properties\<close>

text \<open>C14: the structural markers cannot be forged. Whatever the outcome contains (a revert reason
  with the text of the markers included), splitting the helper's line returns the outcome, the
  entry call's events and the storage section it was put together from.\<close>

theorem sections_unforgeable:
  "split_sections (render_full_delta self slots (Inr (k, deploy, res))) =
     (outcome_text deploy res, Some (ulit (event_text self k res)), Some (ulit (storage_text res)))"
  by (rule sections_of_rendered)



text \<open>A deploy-phase revert never compares equal to the outcome of an entry call, whatever the
  two carry.\<close>

theorem deploy_phase_distinct:
  "\<not> cmp_equal (compare_observables
      (render_full_delta self slots (Inr (k, True, LReverted st rd)))
      (render_full_delta self' slots' (Inr (k', False, res))))"
proof -
  let ?a = "render_full_delta self slots (Inr (k, True, LReverted st rd))"
  let ?b = "render_full_delta self' slots' (Inr (k', False, res))"
  have lines: "outcome_line ?a = outcome_text True (LReverted st rd)"
    "outcome_line ?b = outcome_text False res"
    by (simp_all only: outcome_line_def sections_of_rendered fst_conv)
  obtain x y where "outcome_line ?a = cp CHR ''d'' # x"
    and "outcome_line ?b = cp CHR ''r'' # y \<or> outcome_line ?b = cp CHR ''s'' # y"
    unfolding lines using outcome_text_head [of True "LReverted st rd"] outcome_text_head [of False res]
    by (auto split: if_splits)
  moreover have "\<not> space_cp (cp CHR ''r'')" by (simp add: space_cp_def cp_def)
  moreover have "cp CHR ''d'' \<noteq> cp CHR ''r''" "cp CHR ''d'' \<noteq> cp CHR ''s''" by simp_all
  ultimately have "tstrip (outcome_line ?a) \<noteq> tstrip (outcome_line ?b)"
    using tstrip_heads_differ plain_chars(6,19) by blast
  then show ?thesis by (simp add: compare_observables_def Let_def)
qed

text \<open>A raw revert that carries the ABI data of \<open>Error(string)\<close> takes the canonical form the
  structured error has: the representation of a revert reason does not change the verdict.\<close>

theorem raw_error_canonical:
  assumes "list_all scalar_cp s" "length (utf8_encode s) < 256 ^ 32" "plain ev" "plain st"
  shows "canonicalize_raw_revert S d errors
      (ulit (''revert|raw:0x'' @ to_hex (error_data (utf8_encode s))) @
        ulit EVT_SEP @ ulit ev @ ulit STO_SEP @ ulit st) =
    (ulit ''revert|error:'' @ s) @ ulit EVT_SEP @ ulit ev @ ulit STO_SEP @ ulit st"
proof -
  have "utf8_decode (utf8_encode s) = s"
    using assms(1) by (intro utf8_roundtrip) (auto simp: list_all_iff)
  then have "evm_revert_normal_form S d errors (''0x'' @ to_hex (error_data (utf8_encode s))) =
      Inr (ulit ''revert|error:'' @ s)"
    using evm_revert_error [OF assms(2)] by simp
  moreover have "\<not> starts (ulit ''revert|raw:'') (ulit ''revert|error:'' @ s)" by simp
  ultimately show ?thesis
    using canonicalize_raw [OF split_sections_joined [OF plain_hash [OF assms(3)] plain_hash [OF assms(4)]]]
    by (simp add: opt_text_def del: ulit_simps)
qed

theorem raw_error_canonical_witness:
  "canonicalize_raw_revert [] 1 []
      (ulit (''revert|raw:0x'' @ to_hex (error_data (utf8_encode [233, 128512]))) @
        ulit EVT_SEP @ ulit [] @ ulit STO_SEP @ ulit []) =
    (ulit ''revert|error:'' @ [233, 128512]) @ ulit EVT_SEP @ ulit [] @ ulit STO_SEP @ ulit []"
  by (rule raw_error_canonical)
    (simp_all add: scalar_cp_def utf8_encode_def utf8_enc1_def)

text \<open>The canonical form is a normal form: taking it twice is taking it once.\<close>

theorem canonicalize_idempotent:
  "canonicalize_raw_revert S d errors (canonicalize_raw_revert S d errors raw) =
     canonicalize_raw_revert S d errors raw"
proof -
  have "canonicalize_raw_revert S d errors r = r"
    if "k \<in> {CHR ''e'', CHR ''p'', CHR ''c''}"
      "r = (ulit ''revert|'' @ cp k # y) @ x \<or> r = (ulit ''deployrevert|'' @ cp k # y) @ x" for k y x r
    using that raw_prefix_false [OF that(1), of y x] outcome_line_starts [of _ r]
    by (intro canonicalize_fixed) blast+
  then show ?thesis using canonical_cases [of S d errors raw] by metis
qed

text \<open>Two ways in which different outcomes compare equal. A revert reason is compared after
  \<open>strip()\<close>, so a trailing space is lost; and invalid UTF-8 is replaced when the reason is decoded,
  so different revert data have one canonical form.\<close>

theorem masked_differences:
  "cmp_equal (compare_observables
      (ulit ''revert|error:no '' @ ulit EVT_SEP @ ulit [] @ ulit STO_SEP @ ulit [])
      (ulit ''revert|error:no'' @ ulit EVT_SEP @ ulit [] @ ulit STO_SEP @ ulit []))
   \<and> error_data [0xff] \<noteq> error_data [0xfe]
   \<and> evm_revert_normal_form S d errors (''0x'' @ to_hex (error_data [0xff])) =
     evm_revert_normal_form S d errors (''0x'' @ to_hex (error_data [0xfe]))"
proof (intro conjI)
  have "tstrip (ulit ''revert|error:no '') = tstrip (ulit ''revert|error:no'')"
    by (simp add: tstrip_def strip_by_def space_cp_def cp_def)
  moreover have "outcome (ulit ''revert|error:no '' @ ulit EVT_SEP @ ulit [] @ ulit STO_SEP @ ulit [])
      \<noteq> ulit ''success''"
    unfolding outcome_def line_of_joined [OF plain_simps(1) plain_simps(1)]
    by (simp add: bar_head_def bar_rest_def)
  ultimately show "cmp_equal (compare_observables
      (ulit ''revert|error:no '' @ ulit EVT_SEP @ ulit [] @ ulit STO_SEP @ ulit [])
      (ulit ''revert|error:no'' @ ulit EVT_SEP @ ulit [] @ ulit STO_SEP @ ulit []))"
    unfolding compare_observables_def line_of_joined [OF plain_simps(1) plain_simps(1)] Let_def
    by (simp del: ulit_simps)
  show "error_data [0xff] \<noteq> error_data [0xfe]" by (simp add: error_data_def)
  have "utf8_decode [0xff] = utf8_decode [0xfe]"
    by (simp add: utf8_decode.simps(2) utf8_step_def)
  then show "evm_revert_normal_form S d errors (''0x'' @ to_hex (error_data [0xff])) =
     evm_revert_normal_form S d errors (''0x'' @ to_hex (error_data [0xfe]))"
    using evm_revert_error [of "[0xff]" S d errors] evm_revert_error [of "[0xfe]" S d errors] by simp
qed

end
