(* ===== verification/Register.thy ===== *)
theory Register
  imports PyJson
begin

text \<open>
  \<open>contest/exclusion_register.py\<close>: the versioned exclusion register. A row is in force from
  its \<open>since_version\<close> until its \<open>removed_in_version\<close>; versions are compared as integer tuples
  padded with zeros. The rows carry what the code reads (identifier, kind, detector, window,
  node types), not their explanatory prose. The locale \<open>version_order\<close> derives the laws of the
  windows from those of the comparison; \<open>semver_lt\<close> interprets it.
\<close>

section \<open>Versions\<close>

definition semver_part :: "string \<Rightarrow> int" where
  "semver_part p = (case py_int_str 10 p of Inr n \<Rightarrow> n | Inl e \<Rightarrow> 0)"

definition semver_tuple :: "string \<Rightarrow> int list" where
  "semver_tuple v = map semver_part (split_on ''.'' v)"

definition semver_lt :: "string \<Rightarrow> string \<Rightarrow> bool" where
  "semver_lt a b =
     (let ta = semver_tuple a; tb = semver_tuple b; n = max (length ta) (length tb)
      in ta @ replicate (n - length ta) 0 < tb @ replicate (n - length tb) 0)"

section \<open>Rows\<close>

record entry =
  x_id :: string
  x_kind :: string
  x_detector :: string
  x_since :: string
  x_removed :: "string option"
  x_node_types :: "string list"

definition is_active :: "entry \<Rightarrow> string option \<Rightarrow> bool" where
  "is_active e at_version =
     (case at_version of
        None \<Rightarrow> x_removed e = None
      | Some v \<Rightarrow>
          if semver_lt v (x_since e) then False
          else case x_removed e of None \<Rightarrow> True | Some r \<Rightarrow> semver_lt v r)"

text \<open>The importer's table of excluded node types, which the register reads.\<close>

definition EXCLUDED_NODE_TYPES :: "(string \<times> string) list" where
  "EXCLUDED_NODE_TYPES =
     [(''ImportDirective'', ''import resolution is intentionally out of scope''),
      (''InlineAssembly'', ''inline assembly/Yul is intentionally out of scope'')]"

definition REGISTER_VERSION :: string where
  "REGISTER_VERSION = ''1.6.0''"

definition X_ASM :: entry where
  "X_ASM = \<lparr>x_id = ''X-ASM'', x_kind = ''syntactic'', x_detector = ''detect_inline_assembly'',
     x_since = ''1.0.0'', x_removed = None,
     x_node_types = filter (\<lambda>n. n = ''InlineAssembly'') (map fst EXCLUDED_NODE_TYPES)\<rparr>"

definition X_IMPORT :: entry where
  "X_IMPORT = \<lparr>x_id = ''X-IMPORT'', x_kind = ''syntactic'', x_detector = ''detect_import_directive'',
     x_since = ''1.0.0'', x_removed = None,
     x_node_types = filter (\<lambda>n. n = ''ImportDirective'') (map fst EXCLUDED_NODE_TYPES)\<rparr>"

definition X_GASLEFT :: entry where
  "X_GASLEFT = \<lparr>x_id = ''X-GASLEFT'', x_kind = ''syntactic'', x_detector = ''detect_gasleft'',
     x_since = ''1.0.0'', x_removed = None,
     x_node_types = []\<rparr>"

definition X_MSIZE :: entry where
  "X_MSIZE = \<lparr>x_id = ''X-MSIZE'', x_kind = ''syntactic'', x_detector = ''detect_msize'',
     x_since = ''1.0.0'', x_removed = None,
     x_node_types = []\<rparr>"

definition X_STORAGELAYOUT :: entry where
  "X_STORAGELAYOUT = \<lparr>x_id = ''X-STORAGELAYOUT'', x_kind = ''syntactic'', x_detector = ''detect_storage_layout_specifier'',
     x_since = ''1.0.0'', x_removed = None,
     x_node_types = []\<rparr>"

definition X_FIXED_EXEC :: entry where
  "X_FIXED_EXEC = \<lparr>x_id = ''X-FIXED-EXEC'', x_kind = ''syntactic'', x_detector = ''detect_executable_fixed_point'',
     x_since = ''1.0.0'', x_removed = Some ''1.5.0'',
     x_node_types = []\<rparr>"

definition X_EXTCALL :: entry where
  "X_EXTCALL = \<lparr>x_id = ''X-EXTCALL'', x_kind = ''syntactic'', x_detector = ''detect_external_call'',
     x_since = ''1.2.0'', x_removed = None,
     x_node_types = []\<rparr>"

definition X_RETABI :: entry where
  "X_RETABI = \<lparr>x_id = ''X-RETABI'', x_kind = ''syntactic'', x_detector = ''adjudicator:entry_return_type'',
     x_since = ''1.2.0'', x_removed = Some ''1.3.0'',
     x_node_types = []\<rparr>"

definition X_ERRSEL :: entry where
  "X_ERRSEL = \<lparr>x_id = ''X-ERRSEL'', x_kind = ''syntactic'', x_detector = ''adjudicator:revert_selector'',
     x_since = ''1.2.0'', x_removed = Some ''1.3.0'',
     x_node_types = []\<rparr>"

definition X_ARGVAL :: entry where
  "X_ARGVAL = \<lparr>x_id = ''X-ARGVAL'', x_kind = ''syntactic'', x_detector = ''adjudicator:entry_param_type'',
     x_since = ''1.3.0'', x_removed = Some ''1.4.0'',
     x_node_types = []\<rparr>"

definition X_FNVAL :: entry where
  "X_FNVAL = \<lparr>x_id = ''X-FNVAL'', x_kind = ''syntactic'', x_detector = ''adjudicator:entry_return_type'',
     x_since = ''1.3.0'', x_removed = Some ''1.4.0'',
     x_node_types = []\<rparr>"

definition X_FNARG :: entry where
  "X_FNARG = \<lparr>x_id = ''X-FNARG'', x_kind = ''syntactic'', x_detector = ''adjudicator:entry_param_type'',
     x_since = ''1.4.0'', x_removed = Some ''1.6.0'',
     x_node_types = []\<rparr>"

definition X_INTFNARG :: entry where
  "X_INTFNARG = \<lparr>x_id = ''X-INTFNARG'', x_kind = ''syntactic'', x_detector = ''adjudicator:entry_param_type'',
     x_since = ''1.6.0'', x_removed = None,
     x_node_types = []\<rparr>"

definition X_INTFNVAL :: entry where
  "X_INTFNVAL = \<lparr>x_id = ''X-INTFNVAL'', x_kind = ''syntactic'', x_detector = ''adjudicator:entry_return_type'',
     x_since = ''1.4.0'', x_removed = None,
     x_node_types = []\<rparr>"

definition SEM_GAS :: entry where
  "SEM_GAS = \<lparr>x_id = ''SEM-GAS'', x_kind = ''semantic'', x_detector = ''detect_gas_observable'',
     x_since = ''1.0.0'', x_removed = None,
     x_node_types = []\<rparr>"

definition SEM_CODE :: entry where
  "SEM_CODE = \<lparr>x_id = ''SEM-CODE'', x_kind = ''semantic'', x_detector = ''detect_creationcode_observable'',
     x_since = ''1.0.0'', x_removed = None,
     x_node_types = []\<rparr>"

definition SEM_ADDR :: entry where
  "SEM_ADDR = \<lparr>x_id = ''SEM-ADDR'', x_kind = ''semantic'', x_detector = ''detect_create2_address_observable'',
     x_since = ''1.0.0'', x_removed = None,
     x_node_types = []\<rparr>"

definition SEM_ENV :: entry where
  "SEM_ENV = \<lparr>x_id = ''SEM-ENV'', x_kind = ''semantic'', x_detector = ''detect_env_observable'',
     x_since = ''1.1.0'', x_removed = None,
     x_node_types = []\<rparr>"

definition SEM_CLOSEDGAS :: entry where
  "SEM_CLOSEDGAS = \<lparr>x_id = ''SEM-CLOSEDGAS'', x_kind = ''semantic'', x_detector = ''detect_closed_world_gas_observable'',
     x_since = ''1.0.0'', x_removed = None,
     x_node_types = []\<rparr>"

definition SYNTACTIC :: "entry list" where
  "SYNTACTIC =
     [X_ASM, X_IMPORT, X_GASLEFT, X_MSIZE, X_STORAGELAYOUT, X_FIXED_EXEC, X_EXTCALL, X_RETABI,
      X_ERRSEL, X_ARGVAL, X_FNVAL, X_FNARG, X_INTFNARG, X_INTFNVAL]"

definition SEMANTIC :: "entry list" where
  "SEMANTIC = [SEM_GAS, SEM_CODE, SEM_ADDR, SEM_ENV, SEM_CLOSEDGAS]"

definition all_entries :: "bool \<Rightarrow> string option \<Rightarrow> entry list" where
  "all_entries include_retired at_version =
     (let entries = SYNTACTIC @ SEMANTIC
      in if include_retired then entries else filter (\<lambda>e. is_active e at_version) entries)"

definition syntactic_entries :: "string option \<Rightarrow> entry list" where
  "syntactic_entries at_version = filter (\<lambda>e. is_active e at_version) SYNTACTIC"

definition semantic_entries :: "string option \<Rightarrow> entry list" where
  "semantic_entries at_version = filter (\<lambda>e. is_active e at_version) SEMANTIC"

definition entry_by_id :: "string \<Rightarrow> entry option" where
  "entry_by_id i = find (\<lambda>e. x_id e = i) (all_entries True None)"

definition register_summary :: json where
  "register_summary = JObj
     [(''register_version'', JStr REGISTER_VERSION),
      (''importer_excluded_node_types'', JObj (map (\<lambda>(k, v). (k, JStr v)) EXCLUDED_NODE_TYPES)),
      (''syntactic'', JList (map (\<lambda>e. JStr (x_id e)) (syntactic_entries None))),
      (''semantic'', JList (map (\<lambda>e. JStr (x_id e)) (semantic_entries None)))]"

lemmas row_defs =
  X_ASM_def X_IMPORT_def X_GASLEFT_def X_MSIZE_def X_STORAGELAYOUT_def X_FIXED_EXEC_def
  X_EXTCALL_def X_RETABI_def X_ERRSEL_def X_ARGVAL_def X_FNVAL_def X_FNARG_def X_INTFNARG_def
  X_INTFNVAL_def SEM_GAS_def SEM_CODE_def SEM_ADDR_def SEM_ENV_def SEM_CLOSEDGAS_def

section \<open>The order of versions\<close>

definition vpad :: "nat \<Rightarrow> string \<Rightarrow> int list" where
  "vpad n v = semver_tuple v @ replicate (n - length (semver_tuple v)) 0"

lemma append_less_same:
  "length x = length y \<Longrightarrow> (x @ z < y @ z) = (x < (y :: int list))"
  by (induction x y rule: list_induct2) auto

lemma vpad_more:
  "length (semver_tuple v) \<le> m \<Longrightarrow> m \<le> n \<Longrightarrow> vpad n v = vpad m v @ replicate (n - m) 0"
  by (simp add: vpad_def replicate_add [symmetric])

lemma length_vpad: "length (semver_tuple v) \<le> n \<Longrightarrow> length (vpad n v) = n"
  by (simp add: vpad_def)

lemma semver_lt_vpad:
  assumes "length (semver_tuple a) \<le> n" "length (semver_tuple b) \<le> n"
  shows "semver_lt a b \<longleftrightarrow> vpad n a < vpad n b"
proof -
  let ?m = "max (length (semver_tuple a)) (length (semver_tuple b))"
  have "semver_lt a b \<longleftrightarrow> vpad ?m a < vpad ?m b" unfolding semver_lt_def vpad_def Let_def ..
  also have "\<dots> \<longleftrightarrow> vpad ?m a @ replicate (n - ?m) 0 < vpad ?m b @ replicate (n - ?m) 0"
    by (rule append_less_same [symmetric]) (simp add: length_vpad)
  also have "\<dots> \<longleftrightarrow> vpad n a < vpad n b"
    using assms vpad_more [of a ?m n] vpad_more [of b ?m n] by simp
  finally show ?thesis .
qed

locale version_order =
  fixes lt :: "'v \<Rightarrow> 'v \<Rightarrow> bool"
  assumes irrefl: "\<not> lt a a"
    and trans: "lt a b \<Longrightarrow> lt b c \<Longrightarrow> lt a c"
    and neg_trans: "\<not> lt a b \<Longrightarrow> \<not> lt b c \<Longrightarrow> \<not> lt a c"
begin

text \<open>\<open>s\<close> is the first version of a window, \<open>r\<close> the version that closes it.\<close>

lemma asym: "lt a b \<Longrightarrow> \<not> lt b a"
  using irrefl trans by blast

lemma window_convex:
  assumes "\<not> lt u s" "\<not> lt v u" "\<not> lt w v" "lt w r"
  shows "\<not> lt v s \<and> lt v r"
  using assms neg_trans by blast

lemma closed_stays_closed: "\<not> lt v r \<Longrightarrow> \<not> lt w v \<Longrightarrow> \<not> lt w r"
  using neg_trans by blast

lemma consecutive_partition:
  assumes "\<not> lt v s" "lt s r"
  shows "(\<not> lt v s \<and> lt v r) \<noteq> (\<not> lt v r)"
  using assms by blast

lemma before_later: "lt v s \<Longrightarrow> lt s r \<Longrightarrow> lt v r"
  by (rule trans)

end

interpretation sv: version_order semver_lt
proof
  fix a b c
  let ?n = "max (length (semver_tuple a)) (max (length (semver_tuple b)) (length (semver_tuple c)))"
  note lt = semver_lt_vpad [of _ ?n]
  show "\<not> semver_lt a a" by (simp add: lt)
  show "semver_lt a b \<Longrightarrow> semver_lt b c \<Longrightarrow> semver_lt a c" by (simp add: lt)
  show "\<not> semver_lt a b \<Longrightarrow> \<not> semver_lt b c \<Longrightarrow> \<not> semver_lt a c" by (simp add: lt)
qed

lemma semver_part_digit:
  "digit_val 10 c = Some d \<Longrightarrow> \<not> space_cp (cp c) \<Longrightarrow> c \<notin> {CHR ''-'', CHR ''+'', CHR ''_''} \<Longrightarrow>
     semver_part [c] = int d"
  by (auto simp: semver_part_def py_int_str_def Let_def strip_def strip_by_def)

lemma semver_tuple_3:
  "set [a, b, c] \<subseteq> set ''0123456789'' \<Longrightarrow>
     semver_tuple [a, CHR ''.'', b, CHR ''.'', c] = map semver_part [[a], [b], [c]]"
  by (auto simp: semver_tuple_def split_on.simps)

lemma digit_parts:
  "semver_part ''0'' = 0" "semver_part ''1'' = 1" "semver_part ''2'' = 2" "semver_part ''3'' = 3"
  "semver_part ''4'' = 4" "semver_part ''5'' = 5" "semver_part ''6'' = 6" "semver_part ''9'' = 9"
  by (simp_all add: semver_part_digit digit_val_def space_cp_def cp_def)

lemmas semver_eval = semver_lt_def semver_tuple_3 digit_parts

lemma register_versions:
  "semver_lt ''1.2.0'' ''1.3.0''" "semver_lt ''1.3.0'' ''1.4.0''" "semver_lt ''1.4.0'' ''1.6.0''"
  "semver_lt ''1.5.0'' ''1.6.0''" "\<not> semver_lt ''1.6.0'' ''1.6.0''"
  "\<not> semver_lt ''1.6.0'' ''1.0.0''" "\<not> semver_lt ''1.6.0'' ''1.1.0''"
  "\<not> semver_lt ''1.6.0'' ''1.2.0''"
  by (simp_all add: semver_eval)

lemma register_versions_lt:
  "semver_lt v ''1.2.0'' \<Longrightarrow> semver_lt v ''1.3.0''" "semver_lt v ''1.3.0'' \<Longrightarrow> semver_lt v ''1.4.0''"
  "semver_lt v ''1.4.0'' \<Longrightarrow> semver_lt v ''1.6.0''" "semver_lt v ''1.5.0'' \<Longrightarrow> semver_lt v ''1.6.0''"
  by (rule sv.trans, assumption, rule register_versions)+

lemma register_versions_ge:
  "\<not> semver_lt ''1.6.0'' ''1.3.0''" "\<not> semver_lt ''1.6.0'' ''1.4.0''" "\<not> semver_lt ''1.6.0'' ''1.5.0''"
  using register_versions register_versions_lt [of "''1.6.0''"] by blast+

lemma ids_distinct: "distinct (map x_id (SYNTACTIC @ SEMANTIC))"
  by (simp add: SYNTACTIC_def SEMANTIC_def row_defs)

lemma find_by_key: "distinct (map f xs) \<Longrightarrow> x \<in> set xs \<Longrightarrow> find (\<lambda>y. f y = f x) xs = Some x"
  by (induction xs) (auto simp: image_iff)

lemma entry_by_id_iff: "entry_by_id i = Some e \<longleftrightarrow> e \<in> set (all_entries True None) \<and> x_id e = i"
proof
  assume "entry_by_id i = Some e"
  then show "e \<in> set (all_entries True None) \<and> x_id e = i"
    by (auto simp: entry_by_id_def find_Some_iff)
next
  assume "e \<in> set (all_entries True None) \<and> x_id e = i"
  with find_by_key [OF ids_distinct, of e] show "entry_by_id i = Some e"
    by (auto simp: entry_by_id_def all_entries_def)
qed

lemma live_rows:
  "syntactic_entries (Some REGISTER_VERSION) =
     [X_ASM, X_IMPORT, X_GASLEFT, X_MSIZE, X_STORAGELAYOUT, X_EXTCALL, X_INTFNARG, X_INTFNVAL]"
  "semantic_entries (Some REGISTER_VERSION) = SEMANTIC"
  by (simp_all add: syntactic_entries_def semantic_entries_def SYNTACTIC_def SEMANTIC_def
      is_active_def row_defs REGISTER_VERSION_def register_versions register_versions_ge)

section \<open>Properties\<close>

text \<open>A row that is in force at two register versions is in force at every version between
  them: a window has no hole, so a retired row never comes back.\<close>

theorem active_window_convex:
  assumes "is_active e (Some u)" "is_active e (Some w)" "\<not> semver_lt v u" "\<not> semver_lt w v"
  shows "is_active e (Some v)"
proof -
  from assms(1) have "\<not> semver_lt u (x_since e)" by (simp add: is_active_def split: if_splits)
  with assms(3) have since: "\<not> semver_lt v (x_since e)" using sv.neg_trans by blast
  show ?thesis
  proof (cases "x_removed e")
    case (Some r)
    with assms(2) have "semver_lt w r" by (simp add: is_active_def split: if_splits)
    with assms(4) have "semver_lt v r" using sv.closed_stays_closed by blast
    with Some since show ?thesis by (simp add: is_active_def)
  qed (simp add: is_active_def since)
qed

theorem active_window_convex_witness: "is_active X_FNARG (Some ''1.5.0'')"
  by (rule active_window_convex [of _ "''1.4.0''" "''1.5.9''"])
    (simp_all add: is_active_def row_defs semver_eval)

text \<open>At every version from 1.2.0 on, exactly one row covers the entry parameters
  (X-RETABI, X-ARGVAL, X-FNARG, X-INTFNARG) and exactly one the return and revert values
  (X-RETABI, X-FNVAL, X-INTFNVAL): the narrowings left no version uncovered and no overlap.\<close>

theorem channel_rows_partition:
  assumes "\<not> semver_lt v ''1.2.0''"
  shows "length (filter (\<lambda>e. is_active e (Some v)) [X_RETABI, X_ARGVAL, X_FNARG, X_INTFNARG]) = 1
    \<and> length (filter (\<lambda>e. is_active e (Some v)) [X_RETABI, X_FNVAL, X_INTFNVAL]) = 1"
  using assms register_versions_lt [of v]
  by (cases "semver_lt v ''1.3.0''"; cases "semver_lt v ''1.4.0''"; cases "semver_lt v ''1.6.0''")
    (simp_all add: is_active_def row_defs)

theorem channel_rows_partition_witness:
  "length (filter (\<lambda>e. is_active e (Some ''1.6.0'')) [X_RETABI, X_ARGVAL, X_FNARG, X_INTFNARG]) = 1"
  by (rule channel_rows_partition [THEN conjunct1]) (rule register_versions)

text \<open>The rows the live register applies are those in force at \<open>REGISTER_VERSION\<close>, and
  \<open>entry_by_id\<close> finds every row by its identifier, retired ones included.\<close>

theorem live_register:
  "all_entries False None = all_entries False (Some REGISTER_VERSION)
   \<and> map (\<lambda>e. entry_by_id (x_id e)) (all_entries True None) = map Some (all_entries True None)"
proof
  show "all_entries False None = all_entries False (Some REGISTER_VERSION)"
    by (simp add: all_entries_def SYNTACTIC_def SEMANTIC_def is_active_def row_defs
        REGISTER_VERSION_def register_versions register_versions_ge)
  show "map (\<lambda>e. entry_by_id (x_id e)) (all_entries True None) = map Some (all_entries True None)"
    by (simp add: entry_by_id_iff)
qed

end
