(* ===== verification/ArgDomain.thy ===== *)
theory ArgDomain
  imports LeanRender Register
begin

text \<open>
  \<open>contest/adjudicate.py\<close>, the validation of the untrusted claim: identifiers, the type fences
  (\<open>_representable_param_type\<close>, \<open>_comparable_channel_type\<close>, \<open>_encodable_param_type\<close>), the domain
  of each argument (\<open>_arg_domain_error\<close>), fuel, value, slots and the shape of the argument list.
  Reasons are constructors of \<open>derr\<close>; the sentinel \<open>"__OOS__"\<close> is \<open>OOS\<close>. As in the ABI theories
  the \<open>nat\<close> argument of a recursion over type strings is the stack it may use.

  The main theorem: an argument that passes the validation, given in the plain forms, is
  canonical in the sense of \<open>LeanRender\<close>, so both engines receive the same logical call.
\<close>

section \<open>Identifiers\<close>

definition ident_start :: "char \<Rightarrow> bool" where
  "ident_start c \<longleftrightarrow>
     (let n = cp c in (65 \<le> n \<and> n \<le> 90) \<or> (97 \<le> n \<and> n \<le> 122) \<or> n = 95 \<or> n = 36)"

definition ident_char :: "char \<Rightarrow> bool" where
  "ident_char c \<longleftrightarrow> ident_start c \<or> (48 \<le> cp c \<and> cp c \<le> 57)"

text \<open>The pattern ends in \<open>$\<close>, which also matches before a final newline.\<close>

definition ident_re :: "string \<Rightarrow> bool" where
  "ident_re s =
     (case s of
        [] \<Rightarrow> False
      | c # cs \<Rightarrow>
          ident_start c \<and>
          (list_all ident_char cs \<or>
           (cs \<noteq> [] \<and> cp (last cs) = 10 \<and> list_all ident_char (butlast cs))))"

definition valid_identifier :: "json \<Rightarrow> bool" where
  "valid_identifier name = (case name of JStr s \<Rightarrow> ident_re s | _ \<Rightarrow> False)"

section \<open>Type fences\<close>

definition clean_param_type :: "string \<Rightarrow> string" where
  "clean_param_type t =
     strip (replace_all '' payable'' '''' (replace_all '' storage'' ''''
       (replace_all '' calldata'' '''' (replace_all '' memory'' '''' (strip t)))))"

definition representable_param_type :: "string \<Rightarrow> bool" where
  "representable_param_type t0 =
     (let t = clean_param_type t0 in
      \<not> ends '']'' t \<and> \<not> starts ''struct '' t \<and> \<not> starts ''tuple'' t \<and> \<not> starts ''function'' t)"

fun comparable_channel_type :: "structs \<Rightarrow> nat \<Rightarrow> bool \<Rightarrow> string \<Rightarrow> bool res" where
  "comparable_channel_type S 0 ext t0 = Inl RecursionError"
| "comparable_channel_type S (Suc d) ext t0 =
     (let t = clean_param_type t0 in
      if starts ''function'' t then Inr (ext \<and> contains '' external'' t)
      else case array_elem t of
        Some (elem, n) \<Rightarrow> comparable_channel_type S d ext elem
      | None \<Rightarrow>
          (case struct_member_types t S of
             Some members \<Rightarrow> allR (comparable_channel_type S d ext) members
           | None \<Rightarrow>
               Inr (\<not> starts ''struct '' t \<and> \<not> starts ''tuple'' t \<and> \<not> starts ''mapping'' t)))"

fun encodable_param_type :: "structs \<Rightarrow> nat \<Rightarrow> bool \<Rightarrow> string \<Rightarrow> bool res" where
  "encodable_param_type S 0 ext t0 = Inl RecursionError"
| "encodable_param_type S (Suc d) ext t0 =
     (let t = clean_param_type t0 in
      case array_elem t of
        Some (elem, n) \<Rightarrow> encodable_param_type S d ext elem
      | None \<Rightarrow>
          if starts ''function'' t then Inr (ext \<and> contains '' external'' t)
          else (case struct_member_types t S of
             Some members \<Rightarrow> allR (encodable_param_type S d ext) members
           | None \<Rightarrow>
               Inr (\<not> starts ''struct '' t \<and> \<not> starts ''tuple'' t \<and> \<not> starts ''mapping'' t)))"

text \<open>The first row among the identifiers that is active.\<close>

definition active_row :: "string list \<Rightarrow> string option \<Rightarrow> entry option" where
  "active_row ids at_version =
     find (\<lambda>e. is_active e at_version) (List.map_filter entry_by_id ids)"

definition model_custom_error_name :: "utext \<Rightarrow> utext option" where
  "model_custom_error_name raw =
     (let line = tstrip (case part_at (ulit EVT_SEP) raw of Some (a, b) \<Rightarrow> a | None \<Rightarrow> raw);
          name = (\<lambda>rest. let n = (case part_at (ulit '':'') rest of Some (a, b) \<Rightarrow> a | None \<Rightarrow> rest)
                         in if n = [] then None else Some n)
      in if starts (ulit ''revert|custom:'') line
         then name (drop (length ''revert|custom:'') line)
         else if starts (ulit ''deployrevert|custom:'') line
         then name (drop (length ''deployrevert|custom:'') line)
         else None)"

section \<open>Argument domains\<close>

text \<open>\<open>int(x)\<close> inside \<open>except (TypeError, ValueError)\<close>: an \<open>OverflowError\<close> escapes.\<close>

definition int_or_none :: "json \<Rightarrow> int option res" where
  "int_or_none x =
     (case py_int x of
        Inr i \<Rightarrow> Inr (Some i)
      | Inl e \<Rightarrow> if e = TypeError \<or> e = ValueError then Inr None else Inl e)"

definition natural :: "int option \<Rightarrow> int option" where
  "natural w = (case w of Some i \<Rightarrow> if 0 \<le> i then Some i else None | None \<Rightarrow> None)"

definition arg_as_word :: "json \<Rightarrow> int option res" where
  "arg_as_word arg =
     (case arg of
        JBool b \<Rightarrow> Inr (Some (if b then 1 else 0))
      | JInt i \<Rightarrow> Inr (natural (Some i))
      | JObj d \<Rightarrow>
          if dhas d ''word'' then bindR (int_or_none (jget d ''word'')) (\<lambda>w. Inr (natural w))
          else Inr None
      | _ \<Rightarrow> Inr None)"

definition arg_as_signed :: "json \<Rightarrow> int option res" where
  "arg_as_signed arg =
     (case arg of
        JBool b \<Rightarrow> Inr None
      | JInt i \<Rightarrow> Inr (Some i)
      | JObj d \<Rightarrow>
          if dhas d ''int'' then int_or_none (jget d ''int'')
          else if dhas d ''word'' then bindR (int_or_none (jget d ''word'')) (\<lambda>w. Inr (natural w))
          else Inr None
      | _ \<Rightarrow> Inr None)"

datatype derr =
    OOS
  | BareNegative
  | ArrayNotList
  | ArrayLength
  | ArrayTooLong
  | ElementError nat derr
  | FnArgShape
  | FnAddressRange
  | FnSelectorRange
  | StructNotList
  | StructLength
  | MemberError nat derr
  | ListForScalar
  | BytesForm
  | BoolForm
  | UintRange
  | IntRange
  | AddressRange
  | Bytes32Range
  | EnumRange

definition MAX_ARRAY_ARG_LEN :: nat where
  "MAX_ARRAY_ARG_LEN = 1024"

text \<open>The loop over the elements (or the members): the first error decides, \<open>OOS\<close> unwrapped.\<close>

fun first_error ::
    "(nat \<Rightarrow> derr \<Rightarrow> derr) \<Rightarrow> nat \<Rightarrow> ('a \<Rightarrow> derr option res) \<Rightarrow> 'a list \<Rightarrow> derr option res" where
  "first_error wrap i f [] = Inr None"
| "first_error wrap i f (x # xs) =
     bindR (f x) (\<lambda>e. case e of
        None \<Rightarrow> first_error wrap (Suc i) f xs
      | Some OOS \<Rightarrow> Inr (Some OOS)
      | Some err \<Rightarrow> Inr (Some (wrap i err)))"

lemma first_error_cong [fundef_cong]:
  "xs = ys \<Longrightarrow> (\<And>x. x \<in> set ys \<Longrightarrow> f x = g x) \<Longrightarrow> w = w' \<Longrightarrow> i = i' \<Longrightarrow>
     first_error w i f xs = first_error w' i' g ys"
proof (induction ys arbitrary: xs i i')
  case (Cons y ys)
  then have "first_error w (Suc i) f ys = first_error w' (Suc i') g ys" by (intro Cons.IH) auto
  with Cons.prems show ?case by simp
qed simp

definition in_range :: "int \<Rightarrow> int \<Rightarrow> int option \<Rightarrow> bool" where
  "in_range lo hi w = (case w of Some i \<Rightarrow> lo \<le> i \<and> i < hi | None \<Rightarrow> False)"

definition check_range :: "int option res \<Rightarrow> int \<Rightarrow> int \<Rightarrow> derr \<Rightarrow> derr option res" where
  "check_range w lo hi err = bindR w (\<lambda>w. Inr (if in_range lo hi w then None else Some err))"

text \<open>\<open>fullmatch(prefix(\d*), t)\<close> with its number of bits, 256 when there are no digits.\<close>

definition bits_of :: "string \<Rightarrow> string \<Rightarrow> nat option" where
  "bits_of prefix t =
     (if starts prefix t then
        (let ds = drop (length prefix) t in
         if ds = [] then Some 256 else if is_digits ds then Some (dec_val ds) else None)
      else None)"

text \<open>The scalar families, in the order of the code.\<close>

definition scalar_domain_error ::
    "(string \<times> int) list \<Rightarrow> json \<Rightarrow> string \<Rightarrow> derr option res" where
  "scalar_domain_error enum_counts arg t =
     (if is_bytes_type t then
        Inr (case arg of JObj d \<Rightarrow> if dhas d ''bytes'' then None else Some BytesForm
             | _ \<Rightarrow> Some BytesForm)
      else if t = ''bool'' then check_range (arg_as_word arg) 0 2 BoolForm
      else case bits_of ''uint'' t of
        Some n \<Rightarrow> check_range (arg_as_word arg) 0 (2 ^ n) UintRange
      | None \<Rightarrow>
          (case bits_of ''int'' t of
             Some n \<Rightarrow>
               if n = 0 then bindR (arg_as_signed arg) (\<lambda>v.
                 if v = None then Inr (Some IntRange) else Inl ValueError)
               else check_range (arg_as_signed arg) (- (2 ^ (n - 1))) (2 ^ (n - 1)) IntRange
           | None \<Rightarrow>
               if t = ''address'' \<or> starts ''contract '' t \<or> starts ''interface '' t
               then check_range (arg_as_word arg) 0 (2 ^ 160) AddressRange
               else if t = ''bytes32'' then check_range (arg_as_word arg) 0 (2 ^ 256) Bytes32Range
               else if starts ''enum '' t then
                 (let count = dget enum_counts (strip (drop (length ''enum '') t)) in
                  bindR (arg_as_word arg) (\<lambda>w.
                    case count of
                      None \<Rightarrow> Inr (Some OOS)
                    | Some c \<Rightarrow> Inr (if in_range 0 c w then None else Some EnumRange)))
               else Inr (Some OOS)))"

fun arg_domain_error ::
    "structs \<Rightarrow> (string \<times> int) list \<Rightarrow> bool \<Rightarrow> nat \<Rightarrow> json \<Rightarrow> string \<Rightarrow> derr option res" where
  "arg_domain_error S enum_counts ext 0 arg ptype = Inl RecursionError"
| "arg_domain_error S enum_counts ext (Suc d) arg ptype =
     (if (case arg of JInt i \<Rightarrow> i < 0 | _ \<Rightarrow> False) then Inr (Some BareNegative)
      else let t = clean_param_type ptype in
      case array_elem t of
        Some (elem, n) \<Rightarrow>
          (case arg of
             JList xs \<Rightarrow>
               if n \<noteq> None \<and> n \<noteq> Some (length xs) then Inr (Some ArrayLength)
               else if n = None \<and> MAX_ARRAY_ARG_LEN < length xs then Inr (Some ArrayTooLong)
               else first_error ElementError 0
                      (\<lambda>el. arg_domain_error S enum_counts ext d el elem) xs
           | _ \<Rightarrow> Inr (Some ArrayNotList))
      | None \<Rightarrow>
          if starts ''function'' t then
            (if \<not> (ext \<and> contains '' external'' t) then Inr (Some OOS)
             else case arg of
               JList [a, s] \<Rightarrow>
                 bindR (arg_as_word a) (\<lambda>addr. bindR (arg_as_word s) (\<lambda>sel.
                   Inr (if \<not> in_range 0 (2 ^ 160) addr then Some FnAddressRange
                        else if \<not> in_range 0 (2 ^ 32) sel then Some FnSelectorRange else None)))
             | _ \<Rightarrow> Inr (Some FnArgShape))
          else case struct_member_types t S of
            Some members \<Rightarrow>
              (case arg of
                 JList xs \<Rightarrow>
                   if length xs \<noteq> length members then Inr (Some StructLength)
                   else first_error MemberError 0
                          (\<lambda>p. arg_domain_error S enum_counts ext d (fst p) (snd p)) (zip xs members)
               | _ \<Rightarrow> Inr (Some StructNotList))
          | None \<Rightarrow>
              if starts ''struct '' t then Inr (Some OOS)
              else if is_list arg then Inr (Some ListForScalar)
              else scalar_domain_error enum_counts arg t)"

section \<open>Fuel, value, slots and the shape of the arguments\<close>

definition FUEL_CAP :: int where
  "FUEL_CAP = 100000"

definition valid_fuel :: "json \<Rightarrow> int option res" where
  "valid_fuel v =
     bindR (int_or_none v) (\<lambda>f.
       Inr (case f of Some n \<Rightarrow> if n < 1 \<or> FUEL_CAP < n then None else Some n | None \<Rightarrow> None))"

definition valid_value :: "json \<Rightarrow> int option" where
  "valid_value v =
     (case v of JInt i \<Rightarrow> if i < 0 \<or> 2 ^ 256 - 1 < i then None else Some i | _ \<Rightarrow> None)"

datatype slots_err = SlotsNotList | SlotNotInteger json | SlotOutOfRange json

definition MAX_SLOTS :: nat where
  "MAX_SLOTS = 64"

fun check_slots :: "json list \<Rightarrow> (slots_err + int list) res" where
  "check_slots [] = Inr (Inr [])"
| "check_slots (s # ss) =
     bindR (int_or_none s) (\<lambda>v. case v of
        None \<Rightarrow> Inr (Inl (SlotNotInteger s))
      | Some i \<Rightarrow>
          if i < 0 \<or> 2 ^ 256 \<le> i then Inr (Inl (SlotOutOfRange s))
          else bindR (check_slots ss) (\<lambda>r. Inr (bindR r (\<lambda>is. Inr (i # is)))))"

definition valid_slots :: "json \<Rightarrow> (slots_err + int list) res" where
  "valid_slots slots =
     (case slots of
        JNull \<Rightarrow> Inr (Inr [])
      | JList ss \<Rightarrow> if MAX_SLOTS < length ss then Inr (Inl SlotsNotList) else check_slots ss
      | _ \<Rightarrow> Inr (Inl SlotsNotList))"

definition MAX_ARG_NESTING :: nat where
  "MAX_ARG_NESTING = 16"

text \<open>\<open>_check\<close>, and its caller: the caught exceptions make the claim malformed (\<open>False\<close>), an
  \<open>OverflowError\<close> is not caught.\<close>

fun check_arg :: "json \<Rightarrow> nat \<Rightarrow> unit res" where
  "check_arg (JList xs) depth =
     (if MAX_ARG_NESTING < depth then Inl ValueError
      else if MAX_ARRAY_ARG_LEN < length xs then Inl ValueError
      else bindR (mapR (\<lambda>el. check_arg el (Suc depth)) xs) (\<lambda>_. Inr ()))"
| "check_arg a depth =
     (if MAX_ARG_NESTING < depth then Inl ValueError
      else bindR (render_scalar_arg a) (\<lambda>_. Inr ()))"

definition safe_render_args :: "json \<Rightarrow> bool res" where
  "safe_render_args args =
     (case args of
        JList xs \<Rightarrow>
          (case mapR (\<lambda>a. check_arg a 0) xs of
             Inr _ \<Rightarrow> Inr True
           | Inl e \<Rightarrow> if e \<in> {ValueError, TypeError, KeyError} then Inr False else Inl e)
      | _ \<Rightarrow> Inr False)"

end
