(* ===== verification/ArgProps.thy ===== *)
theory ArgProps
  imports ArgDomain
begin

text \<open>
  What the validation of the claim guarantees: validated arguments in plain form reach both engines
  as the same logical call (\<open>validated_args_same_call\<close>), and the argument shapes that pass the
  validation and yet do not (\<open>hex\<close> text, several keys, booleans as function components) or that
  crash the adjudicator are pinned down one by one.
\<close>

section \<open>Cleaned type strings\<close>

lemma replace_nil_length: "length (replace_all old [] s) \<le> length s"
  by (induction old "[] :: 'a list" s rule: replace_all.induct) (auto intro: le_trans le_SucI)

lemma replace_nil_shorter:
  "old \<noteq> [] \<Longrightarrow> contains old s \<Longrightarrow> length (replace_all old [] s) < length s"
proof (induction old "[] :: 'a list" s rule: replace_all.induct)
  case (2 old c cs)
  show ?case
  proof (cases "starts old (c # cs)")
    case True
    have "length (replace_all old [] (drop (length old) (c # cs))) \<le> length (drop (length old) (c # cs))"
      by (rule replace_nil_length)
    also have "\<dots> < length (c # cs)" using 2(3) by (cases old) auto
    finally show ?thesis using True 2(3) by simp
  next
    case False
    with 2 show ?thesis by auto
  qed
qed simp

lemma strip_by_parts: "\<exists>x y. s = x @ strip_by P s @ y"
proof -
  have "s = takeWhile P s @ dropWhile P s" by simp
  moreover have "dropWhile P s = strip_by P s @ rev (takeWhile P (rev (dropWhile P s)))"
    unfolding strip_by_def by (metis rev_append rev_rev_ident takeWhile_dropWhile_id)
  ultimately show ?thesis by metis
qed

lemma strip_length: "length (strip s) \<le> length s"
proof -
  obtain x y where "s = x @ strip s @ y" using strip_by_parts unfolding strip_def by metis
  then have "length s = length (x @ strip s @ y)" by simp
  then show ?thesis by simp
qed

lemma strip_idem: "strip (strip s) = strip s"
proof -
  let ?P = "\<lambda>c. space_cp (cp c)"
  let ?d = "dropWhile ?P s"
  have hd: "?d = [] \<or> \<not> ?P (hd ?d)" by (metis hd_dropWhile)
  let ?r = "strip s"
  have r: "?r = rev (dropWhile ?P (rev ?d))" by (simp add: strip_def strip_by_def)
  have last: "?r = [] \<or> \<not> ?P (last ?r)"
    unfolding r using hd_dropWhile [of ?P "rev ?d"]
    by (cases "dropWhile ?P (rev ?d) = []") (simp_all only: last_rev rev.simps simp_thms)
  have "?r = [] \<or> hd ?r = hd ?d"
  proof -
    have "?d = ?r @ rev (takeWhile ?P (rev ?d))"
      unfolding r by (metis rev_append rev_rev_ident takeWhile_dropWhile_id)
    then show ?thesis by (metis hd_append2)
  qed
  moreover have "?r \<noteq> [] \<Longrightarrow> ?d \<noteq> []" unfolding r by (cases ?d) simp_all
  ultimately have "?r = [] \<or> \<not> ?P (hd ?r)" using hd by metis
  then have "dropWhile ?P ?r = ?r" by (auto simp: dropWhile_eq_self_iff)
  moreover from last have "dropWhile ?P (rev ?r) = rev ?r"
    by (auto simp: dropWhile_eq_self_iff hd_rev)
  ultimately show ?thesis by (metis rev_rev_ident strip_by_def strip_def)
qed

definition no_suffix :: "string \<Rightarrow> bool" where
  "no_suffix t \<longleftrightarrow> \<not> contains '' memory'' t \<and> \<not> contains '' storage'' t
     \<and> \<not> contains '' calldata'' t \<and> \<not> contains '' payable'' t"

lemma clean_type_fixed: "clean_type t = t \<Longrightarrow> no_suffix t \<and> strip t = t"
proof -
  assume fixed: "clean_type t = t"
  define a where "a = replace_all '' memory'' [] t"
  define b where "b = replace_all '' storage'' [] a"
  define c where "c = replace_all '' calldata'' [] b"
  define d where "d = replace_all '' payable'' [] c"
  have cl: "clean_type t = strip d" by (simp add: clean_type_def a_def b_def c_def d_def)
  have le: "length a \<le> length t" "length b \<le> length a" "length c \<le> length b" "length d \<le> length c"
    "length (strip d) \<le> length d"
    unfolding a_def b_def c_def d_def by (rule replace_nil_length strip_length)+
  with fixed cl have eq: "length a = length t" "length b = length t" "length c = length t"
    "length d = length t" by simp_all
  have "\<not> contains '' memory'' t" using replace_nil_shorter [of "'' memory''" t] eq by (auto simp: a_def)
  moreover from this have a: "a = t" unfolding a_def by (rule replace_all_absent)
  moreover have "\<not> contains '' storage'' t"
    using replace_nil_shorter [of "'' storage''" t] eq a by (auto simp: b_def)
  moreover from this a have b: "b = t" unfolding b_def by (simp add: replace_all_absent)
  moreover have "\<not> contains '' calldata'' t"
    using replace_nil_shorter [of "'' calldata''" t] eq b by (auto simp: c_def)
  moreover from this b have c: "c = t" unfolding c_def by (simp add: replace_all_absent)
  moreover have "\<not> contains '' payable'' t"
    using replace_nil_shorter [of "'' payable''" t] eq c by (auto simp: d_def)
  moreover from this c have "d = t" unfolding d_def by (simp add: replace_all_absent)
  ultimately show ?thesis using fixed cl by (simp add: no_suffix_def)
qed

lemma clean_noop:
  "no_suffix t \<Longrightarrow> strip t = t \<Longrightarrow> clean_type t = t \<and> clean_param_type t = t"
  by (simp add: clean_type_def clean_param_type_def no_suffix_def replace_all_absent)

lemma contains_part: "contains p t \<Longrightarrow> contains p (x @ t @ y)"
proof -
  assume "contains p t"
  then obtain a b where "t = a @ p @ b" by (auto simp: contains_iff)
  then have "x @ t @ y = (x @ a) @ p @ (b @ y)" by simp
  then show ?thesis unfolding contains_iff by blast
qed

lemma no_suffix_part: "no_suffix (x @ t @ y) \<Longrightarrow> no_suffix t"
  using contains_part [of _ t x y] unfolding no_suffix_def by blast

lemma elem_clean:
  assumes "clean_type t = t" "array_elem t = Some (elem, n)"
  shows "clean_param_type elem = clean_type elem"
proof -
  from assms obtain a b where "rpart_at ''['' t = Some (a, b)" and elem: "elem = strip a"
    by (auto simp: array_elem_def Let_def split: if_splits option.splits)
  from rpart_at_Some [OF this(1)] have t: "t = a @ ''['' @ b" .
  have "no_suffix t" using clean_type_fixed [OF assms(1)] by simp
  then have "no_suffix a" using no_suffix_part [of "[]" a] unfolding t by simp
  moreover obtain x y where "a = x @ elem @ y"
    using strip_by_parts unfolding strip_def elem by metis
  ultimately have "no_suffix elem" using no_suffix_part [of x elem y] by simp
  moreover have "strip elem = elem" by (simp add: elem strip_idem)
  ultimately show ?thesis using clean_noop by simp
qed

text \<open>The member types of the struct table are cleaned alike by both functions.\<close>

definition members_clean :: "structs \<Rightarrow> bool" where
  "members_clean S \<longleftrightarrow>
     list_all (\<lambda>p. list_all (\<lambda>m. clean_param_type m = clean_type m) (snd p)) S"

lemma member_clean:
  "members_clean S \<Longrightarrow> struct_member_types t S = Some ms \<Longrightarrow> m \<in> set ms \<Longrightarrow>
     clean_param_type m = clean_type m"
  by (auto simp: members_clean_def struct_member_types_def list_all_iff dget_map_of Let_def
      split: if_splits dest!: map_of_SomeD)

section \<open>Plain forms\<close>

text \<open>What the validation does not check: signed values in the \<open>{"int"}\<close> form alone, bytes in the
  \<open>{"bytes"}\<close> form alone with pairs of hexadecimal digits, no boolean as a component of a function
  value. (solc writes the type of an interface as \<open>contract I\<close>.)\<close>

fun not_bool :: "json \<Rightarrow> bool" where
  "not_bool (JBool b) = False"
| "not_bool _ = True"

function plain_forms :: "aty \<Rightarrow> json \<Rightarrow> bool" where
  "plain_forms (AWord t) a \<longleftrightarrow>
     \<not> starts ''interface '' t \<and>
     (signed_type t \<longrightarrow> (case a of JObj d \<Rightarrow> dhas d ''int'' \<and> \<not> dhas d ''word'' | _ \<Rightarrow> False))"
| "plain_forms ADyn a = canonical_bytes a"
| "plain_forms (AFun t) a = (case a of JList xs \<Rightarrow> list_all not_bool xs | _ \<Rightarrow> True)"
| "plain_forms (AArr T n) a = (case a of JList xs \<Rightarrow> list_all (plain_forms T) xs | _ \<Rightarrow> True)"
| "plain_forms (AStruct Ts) a =
     (case a of JList xs \<Rightarrow> list_all (\<lambda>p. plain_forms (fst p) (snd p)) (zip Ts xs) | _ \<Rightarrow> True)"
  by pat_completeness auto
termination
proof (relation "measure (\<lambda>(T, a). size T)", goal_cases)
  case (3 Ts a xs p)
  then have "fst p \<in> set Ts" by (metis prod.collapse set_zip_leftD)
  then have "size (fst p) \<le> size_list size Ts" by (rule size_list_estimation') simp
  then show ?case by (simp add: case_prod_beta)
qed auto

section \<open>Validated arguments are canonical\<close>

lemma int_or_none_Some: "int_or_none x = Inr (Some i) \<longleftrightarrow> py_int x = Inr i"
  by (auto simp: int_or_none_def split: sum.splits if_splits)

lemma natural_Some: "natural w = Some i \<longleftrightarrow> w = Some i \<and> 0 \<le> i"
  by (auto simp: natural_def split: option.splits)

lemma arg_as_word_cases:
  assumes "arg_as_word a = Inr (Some w)"
  obtains (bool) b where "a = JBool b" "w = (if b then 1 else 0)"
  | (int) "a = JInt w" "0 \<le> w"
  | (obj) d where "a = JObj d" "dhas d ''word''" "py_int (jget d ''word'') = Inr w" "0 \<le> w"
proof (cases a)
  case (JBool b)
  with assms show thesis by (intro bool) (auto simp: arg_as_word_def)
next
  case (JInt i)
  with assms show thesis by (intro int) (auto simp: arg_as_word_def natural_Some)
next
  case (JObj d)
  with assms have d: "dhas d ''word''" by (simp add: arg_as_word_def split: if_splits)
  with assms JObj obtain v where "int_or_none (jget d ''word'') = Inr v" "natural v = Some w"
    by (auto simp: arg_as_word_def bindR_eq_Inr)
  then show thesis using JObj d by (intro obj) (auto simp: natural_Some int_or_none_Some)
qed (use assms in \<open>simp_all add: arg_as_word_def\<close>)

lemma word_canonical: "arg_as_word a = Inr (Some w) \<Longrightarrow> unsigned_type t \<Longrightarrow> canonical_word t a"
  by (erule arg_as_word_cases) (auto simp: canonical_word_def nonneg_def)

lemma check_range_ok:
  "check_range w lo hi err = Inr None \<longleftrightarrow> (\<exists>i. w = Inr (Some i) \<and> lo \<le> i \<and> i < hi)"
  by (auto simp: check_range_def bindR_eq_Inr in_range_def split: option.splits)

lemma first_error_ok:
  "first_error wrap i f xs = Inr None \<longleftrightarrow> (\<forall>x \<in> set xs. f x = Inr None)"
proof (induction xs arbitrary: i)
  case (Cons x xs)
  show ?case
  proof (cases "f x")
    case (Inr e)
    with Cons show ?thesis by (cases e) (simp_all split: derr.split)
  qed simp
qed simp

lemma unsigned_families:
  assumes "clean_type t = t"
    "t = ''bool'' \<or> bits_of ''uint'' t = Some n \<or> t = ''address'' \<or> starts ''contract '' t
     \<or> t = ''bytes32'' \<or> starts ''enum '' t"
  shows "unsigned_type t"
proof -
  have b32: "fixed_bytes_n ''bytes32'' = Some 32" by code_simp
  have nb: "fixed_bytes_n t = None" if "\<not> starts ''bytes'' t" using that by (simp add: fixed_bytes_n_def)
  have uint: "starts ''uint'' t" if "bits_of ''uint'' t = Some n"
    using that by (simp add: bits_of_def split: if_splits)
  from assms(2) consider "t = ''bool''" | "starts ''uint'' t" | "t = ''address''" | "starts ''contract '' t"
    | "t = ''bytes32''" | "starts ''enum '' t" using uint by blast
  then show ?thesis
  proof cases
    case 5
    then show ?thesis using assms(1) b32 by (simp add: unsigned_type_def)
  qed (use assms(1) nb in \<open>auto simp: unsigned_type_def starts_iff\<close>)
qed

lemma in_range_Some: "in_range lo hi w \<longleftrightarrow> (\<exists>i. w = Some i \<and> lo \<le> i \<and> i < hi)"
  by (cases w) (auto simp: in_range_def)

lemma enum_ok:
  "bindR r (\<lambda>w. case c of None \<Rightarrow> Inr (Some OOS)
      | Some k \<Rightarrow> Inr (if in_range 0 k w then None else Some EnumRange)) = Inr None \<longleftrightarrow>
   (\<exists>k i. c = Some k \<and> r = Inr (Some i) \<and> 0 \<le> i \<and> i < k)"
  by (cases r; cases c) (auto simp: in_range_Some)

lemma scalar_canonical:
  assumes dom: "scalar_domain_error ec a t = Inr None" and cl: "clean_type t = t"
    and nb: "\<not> is_bytes_type t" and plain: "plain_forms (AWord t) a"
  shows "canonical_word t a"
proof (cases "bits_of ''uint'' t = None \<and> bits_of ''int'' t \<noteq> None \<and> t \<noteq> ''bool''")
  case True
  then obtain n where n: "bits_of ''int'' t = Some n" by auto
  then have sg: "signed_type t" using cl by (simp add: signed_type_def bits_of_def split: if_splits)
  with plain obtain d where d: "a = JObj d" "dhas d ''int''" "\<not> dhas d ''word''"
    by (cases a) auto
  have "\<exists>v. arg_as_signed a = Inr (Some v)"
    using dom nb True n by (cases "n = 0")
      (auto simp: scalar_domain_error_def check_range_ok bindR_eq_Inr split: if_splits)
  then obtain v where "py_int (jget d ''int'') = Inr v"
    using d by (auto simp: arg_as_signed_def int_or_none_Some)
  with d sg show ?thesis by (simp add: canonical_word_def)
next
  case False
  have "\<exists>w. arg_as_word a = Inr (Some w)"
    using dom nb False plain
    by (auto simp: scalar_domain_error_def check_range_ok enum_ok Let_def
        split: if_splits option.splits)
  then obtain w where w: "arg_as_word a = Inr (Some w)" ..
  have "t = ''bool'' \<or> (\<exists>n. bits_of ''uint'' t = Some n) \<or> t = ''address'' \<or> starts ''contract '' t
     \<or> t = ''bytes32'' \<or> starts ''enum '' t"
    using dom nb False plain
    by (auto simp: scalar_domain_error_def Let_def split: if_splits option.splits)
  then have "unsigned_type t" using unsigned_families [OF cl] by blast
  with w show ?thesis by (rule word_canonical)
qed

lemma bytes_canonical: "plain_forms ADyn a \<Longrightarrow> canonical_arg ADyn a"
  by simp

lemma fn_component_below:
  assumes "arg_as_word x = Inr (Some w)" "not_bool x" "w < b"
  shows "below b (arg_component_word x)"
  using assms(1)
  by (cases rule: arg_as_word_cases) (use assms(2,3) in \<open>auto simp: arg_component_word_def below_def\<close>)

lemma validated_canonical:
  "resolve S n t = Some T \<Longrightarrow> clean_param_type t = clean_type t \<Longrightarrow> members_clean S \<Longrightarrow>
     arg_domain_error S ec ext d a t = Inr None \<Longrightarrow> plain_forms T a \<Longrightarrow> n \<le> d \<Longrightarrow>
     canonical_arg T a"
proof (induction n arbitrary: t T d a)
  case (Suc n)
  from Suc.prems(6) obtain d' where d: "d = Suc d'" "n \<le> d'" by (cases d) auto
  note cl = resolve_clean [OF Suc.prems(1)]
  have neg: "\<not> (case a of JInt i \<Rightarrow> i < 0 | _ \<Rightarrow> False)"
    using Suc.prems(4) d by (auto split: if_splits)
  note dom = Suc.prems(4) [unfolded d(1) arg_domain_error.simps(2) if_not_P [OF neg] Suc.prems(2) Let_def]
  from Suc.prems(1) show ?case
  proof (cases rule: resolve_cases)
    case (dyn e)
    with Suc.prems(5) show ?thesis by simp
  next
    case (arr e elem k T')
    from dom arr obtain xs where a: "a = JList xs" and k: "k = None \<or> k = Some (length xs)"
      and el: "\<forall>x \<in> set xs. arg_domain_error S ec ext d' x elem = Inr None"
      by (auto simp: first_error_ok split: json.splits if_splits)
    have "clean_param_type elem = clean_type elem" by (rule elem_clean [OF cl arr(3)])
    with Suc.IH [of elem T' d'] arr Suc.prems(3,5) el d(2) a
    have "list_all (canonical_arg T') xs" by (auto simp: list_all_iff)
    with a k arr show ?thesis by auto
  next
    case (fn e)
    from dom fn obtain x y u v where a: "a = JList [x, y]"
      and u: "arg_as_word x = Inr (Some u)" "u < 2 ^ 160"
      and v: "arg_as_word y = Inr (Some v)" "v < 2 ^ 32"
      by (auto simp: bindR_eq_Inr in_range_Some split: json.splits list.splits if_splits)
    with Suc.prems(5) fn have "not_bool x" "not_bool y" by simp_all
    with fn_component_below u v show ?thesis using fn a by simp
  next
    case (struct e members Ts)
    from dom struct obtain xs where a: "a = JList xs" and len: "length xs = length members"
      and el: "\<forall>p \<in> set (zip xs members). arg_domain_error S ec ext d' (fst p) (snd p) = Inr None"
      by (auto simp: first_error_ok split: json.splits if_splits)
    have "list_all (\<lambda>p. canonical_arg (fst p) (snd p)) (zip Ts xs)"
      unfolding list_all_length
    proof (intro allI impI)
      fix i assume i: "i < length (zip Ts xs)"
      then have i': "i < length xs" "i < length members" "i < length Ts" using len by auto
      have "resolve S n (members ! i) = Some (Ts ! i)"
        using struct(6,1) i' by (auto simp: list_all2_conv_all_nth)
      moreover have "clean_param_type (members ! i) = clean_type (members ! i)"
        using member_clean [OF Suc.prems(3) struct(5)] i' by simp
      moreover have "arg_domain_error S ec ext d' (xs ! i) (members ! i) = Inr None"
        using el i' by (metis fst_conv snd_conv in_set_zip)
      moreover have "plain_forms (Ts ! i) (xs ! i)"
        using Suc.prems(5) struct(7) a i' by (auto simp: list_all_length)
      ultimately show "canonical_arg (fst (zip Ts xs ! i)) (snd (zip Ts xs ! i))"
        using Suc.IH [of "members ! i" "Ts ! i" d' "xs ! i"] Suc.prems(3) d(2) i' by simp
    qed
    with a len struct list_all2_lengthD [OF struct(6)] show ?thesis by simp
  next
    case (word e)
    with dom have "scalar_domain_error ec a (clean_type t) = Inr None" by (auto split: if_splits)
    with scalar_canonical cl word Suc.prems(5) show ?thesis by simp
  qed
qed simp

definition unsigned_bound :: "(string \<times> int) list \<Rightarrow> string \<Rightarrow> int option" where
  "unsigned_bound ec t =
     (if t = ''bool'' then Some 2
      else case bits_of ''uint'' t of
        Some n \<Rightarrow> Some (2 ^ n)
      | None \<Rightarrow>
          if t = ''address'' \<or> starts ''contract '' t then Some (2 ^ 160)
          else if t = ''bytes32'' then Some (2 ^ 256)
          else if starts ''enum '' t then dget ec (strip (drop (length ''enum '') t))
          else None)"

lemma scalar_domain_bound:
  assumes "scalar_domain_error ec a t = Inr None" "unsigned_bound ec t = Some b"
    "\<not> is_bytes_type t"
  obtains w where "arg_as_word a = Inr (Some w)" "0 \<le> w" "w < b"
proof -
  have ci: "bits_of ''int'' t = None" if "starts ''contract '' t \<or> t = ''address'' \<or> t = ''bytes32''
      \<or> starts ''enum '' t"
    using that by (auto simp: bits_of_def starts_iff)
  have ce: "\<not> starts ''interface '' t" "t \<noteq> ''address''" "\<not> starts ''contract '' t" "t \<noteq> ''bytes32''"
    if "starts ''enum '' t" using that by (auto simp: starts_iff)
  consider "t = ''bool''" "b = 2"
    | n where "t \<noteq> ''bool''" "bits_of ''uint'' t = Some n" "b = 2 ^ n"
    | "t \<noteq> ''bool''" "bits_of ''uint'' t = None" "t = ''address'' \<or> starts ''contract '' t" "b = 2 ^ 160"
    | "t \<noteq> ''bool''" "bits_of ''uint'' t = None" "t = ''bytes32''" "b = 2 ^ 256"
    | "t \<noteq> ''bool''" "bits_of ''uint'' t = None" "starts ''enum '' t"
      "dget ec (strip (drop (length ''enum '') t)) = Some b"
    using assms(2) by (auto simp: unsigned_bound_def split: if_splits option.splits)
  then have "\<exists>w. arg_as_word a = Inr (Some w) \<and> 0 \<le> w \<and> w < b"
  proof cases
    case 4
    then show ?thesis using assms(1,3) ci
      by (simp add: scalar_domain_error_def check_range_ok starts_iff)
  next
    case 5
    then show ?thesis using assms(1,3) ci ce
      by (simp add: scalar_domain_error_def Let_def check_range_def [symmetric] check_range_ok)
  qed (use assms(1,3) ci in \<open>auto simp: scalar_domain_error_def check_range_ok\<close>)
  then show thesis using that by blast
qed

lemma word_encoded:
  assumes "arg_as_word a = Inr (Some w)" "0 \<le> w" "w < 2 ^ 256"
  shows "encode_arg a = Inr (False, be_bytes 32 (nat w))"
proof -
  have "w mod 2 ^ 256 = w" using assms(2,3) by simp
  with assms(1) show ?thesis
    by (elim arg_as_word_cases) (auto simp: encode_arg_def word32_def)
qed

section \<open>Properties\<close>

text \<open>C22: validated arguments in plain form are the same logical call on both engines: the Lean
  text prints the expressions \<open>es\<close> and the EVM's calldata decodes to the rendering of their values.\<close>

theorem validated_args_same_call:
  assumes types: "list_all2 (\<lambda>t T. resolve S n t = Some T) types Ts" "list_all wfT Ts"
    and clean: "members_clean S" "list_all (\<lambda>t. clean_param_type t = clean_type t) types"
    and valid: "length args = length types"
      "list_all (\<lambda>p. arg_domain_error S ec ext d (fst p) (snd p) = Inr None) (zip args types)"
    and plain: "list_all (\<lambda>p. plain_forms (fst p) (snd p)) (zip Ts args)"
    and enc: "encode_args_abi S d args (Some types) = Inr bs" and "n \<le> d"
  shows "\<exists>es. render_lean_args S d args (Some types) =
      Inr (''['' @ join '', '' (map show_lexpr es) @ '']'')
    \<and> decode_abi_values S d bs types = Inr (map (render_value \<circ> lexpr_val) es)"
proof (rule same_call [OF types _ enc \<open>n \<le> d\<close>])
  have len: "length types = length Ts" using types(1) by (rule list_all2_lengthD)
  have "canonical_arg (Ts ! i) (args ! i)" if i: "i < length args" for i
  proof (rule validated_canonical [OF _ _ clean(1) _ _ \<open>n \<le> d\<close>])
    show "resolve S n (types ! i) = Some (Ts ! i)"
      using types(1) i valid(1) by (auto simp: list_all2_conv_all_nth)
    show "clean_param_type (types ! i) = clean_type (types ! i)"
      using clean(2) i valid(1) by (auto simp: list_all_length)
    show "arg_domain_error S ec ext d (args ! i) (types ! i) = Inr None"
      using valid i by (auto simp: list_all_length)
    show "plain_forms (Ts ! i) (args ! i)"
      using plain valid(1) len i by (auto simp: list_all_length)
  qed
  then show "canonical_args Ts args"
    using valid(1) len by (auto simp: canonical_args_def list_all_length)
qed

lemma validated_example:
  "clean_param_type ''uint256[]'' = ''uint256[]''" "clean_param_type ''uint256'' = ''uint256''"
  "clean_param_type ''bytes'' = ''bytes''" "bits_of ''uint'' ''uint256'' = Some 256"
  "\<not> starts ''function'' ''uint256''" "\<not> starts ''struct '' ''uint256''"
  "\<not> starts ''interface '' ''uint256''" "\<not> signed_type ''uint256''"
  by code_simp+

theorem validated_args_same_call_witness:
  "\<exists>es. render_lean_args [] 2 [JList [JInt 5], JObj [(''bytes'', JStr ''0xab'')]]
      (Some [''uint256[]'', ''bytes'']) = Inr (''['' @ join '', '' (map show_lexpr es) @ '']'')
    \<and> decode_abi_values [] 2
        (be_bytes 32 64 @ be_bytes 32 128 @ be_bytes 32 1 @ word32 5
          @ be_bytes 32 1 @ [0xab] @ zero_pad 1)
        [''uint256[]'', ''bytes''] = Inr (map (render_value \<circ> lexpr_val) es)"
proof (rule validated_args_same_call [OF _ _ _ _ _ _ _ encode_example2 order_refl])
  show "list_all2 (\<lambda>t T. resolve [] 2 t = Some T) [''uint256[]'', ''bytes'']
      [AArr (AWord ''uint256'') None, ADyn]"
    by code_simp
  show "list_all (\<lambda>p. arg_domain_error [] [] True 2 (fst p) (snd p) = Inr None)
      (zip [JList [JInt 5], JObj [(''bytes'', JStr ''0xab'')]] [''uint256[]'', ''bytes''])"
    by (simp add: numeral_2_eq_2 validated_example type_examples bytes_type_examples
        MAX_ARRAY_ARG_LEN_def scalar_domain_error_def check_range_def arg_as_word_def natural_def
        in_range_def)
qed (simp_all add: members_clean_def validated_example type_examples bytes_type_examples
    canonical_bytes_def clean_hex_def strip0x_def jget_def dget_or_def digit_val_def cp_def)

text \<open>No dirty bits. A validated argument of an unsigned family (bool, \<open>uintN\<close>, address, contract,
  bytes32, enum) is encoded as one static word below the bound of its type.\<close>

theorem validated_word_in_domain:
  assumes "arg_domain_error S ec ext (Suc d) a t = Inr None" "clean_param_type t = t"
    "array_elem t = None" "\<not> starts ''function'' t" "struct_member_types t S = None"
    "\<not> is_bytes_type t" "unsigned_bound ec t = Some b" "b \<le> 2 ^ 256"
  shows "\<exists>w. encode_arg a = Inr (False, be_bytes 32 w) \<and> int w < b"
proof -
  have "scalar_domain_error ec a t = Inr None"
    using assms(1-5) by (auto split: if_splits)
  from scalar_domain_bound [OF this assms(7,6)] obtain w where
    w: "arg_as_word a = Inr (Some w)" "0 \<le> w" "w < b" .
  with assms(8) word_encoded [OF w(1,2)] show ?thesis by (intro exI [of _ "nat w"]) simp
qed

theorem validated_word_in_domain_witness:
  "\<exists>w. encode_arg (JObj [(''word'', JInt 2)]) = Inr (False, be_bytes 32 w) \<and> int w < 3"
  by (rule validated_word_in_domain [of "[]" "[(''C.E'', 3)]" True 0 _ "''enum C.E''"]) code_simp+

text \<open>Three argument shapes pass the validation although the engines cannot take them. With two
  keys, \<open>{"int", "word"}\<close>, the range of the signed value is checked and the word is encoded; with
  \<open>{"word", "bytes"}\<close> a static word is encoded for a dynamic parameter; a boolean component of a
  function value makes both the encoder and the renderer raise.\<close>

theorem validation_gaps:
  "arg_domain_error [] [] True 1 (JObj [(''int'', JInt 5), (''word'', JInt (2 ^ 200))]) ''int8'' = Inr None
   \<and> encode_arg (JObj [(''int'', JInt 5), (''word'', JInt (2 ^ 200))]) = Inr (False, word32 (2 ^ 200))
   \<and> arg_domain_error [] [] True 1 (JObj [(''word'', JInt 1), (''bytes'', JStr [])]) ''bytes'' = Inr None
   \<and> encode_typed [] 1 (JObj [(''word'', JInt 1), (''bytes'', JStr [])]) ''bytes'' = Inr (False, word32 1)
   \<and> arg_domain_error [] [] True 1 (JList [JBool True, JInt 1]) ''function () external'' = Inr None
   \<and> encode_typed [] 1 (JList [JBool True, JInt 1]) ''function () external'' = Inl ValueError"
proof -
  have t: "clean_param_type ''int8'' = ''int8''" "array_elem ''int8'' = None"
    "struct_member_types ''int8'' [] = None" "bits_of ''uint'' ''int8'' = None"
    "bits_of ''int'' ''int8'' = Some 8" "\<not> is_bytes_type ''int8''"
    "clean_param_type ''bytes'' = ''bytes''"
    "clean_param_type ''function () external'' = ''function () external''"
    "clean_type ''function () external'' = ''function () external''"
    "array_elem ''function () external'' = None"
    by code_simp+
  show ?thesis
    by (simp add: t bytes_type_examples scalar_domain_error_def check_range_def arg_as_signed_def
        int_or_none_def in_range_def encode_arg_def jget_def dget_or_def arg_as_word_def natural_def
        arg_component_word_def Let_def)
qed

text \<open>What the scalar validations return is bounded: fuel between 1 and its cap, value and every
  observed slot an unsigned 256-bit number, at most 64 slots.\<close>

theorem claim_scalars_bounded:
  "(valid_fuel f = Inr (Some n) \<longrightarrow> 1 \<le> n \<and> n \<le> FUEL_CAP)
   \<and> (valid_value v = Some i \<longrightarrow> 0 \<le> i \<and> i < 2 ^ 256)
   \<and> (valid_slots s = Inr (Inr is) \<longrightarrow> length is \<le> 64 \<and> list_all (\<lambda>k. 0 \<le> k \<and> k < 2 ^ 256) is)"
proof -
  have slots: "check_slots ss = Inr (Inr is) \<Longrightarrow>
      length is = length ss \<and> list_all (\<lambda>k. 0 \<le> k \<and> k < 2 ^ 256) is" for ss "is"
    by (induction ss arbitrary: "is") (auto simp: bindR_eq_Inr split: option.splits if_splits)
  have "length is \<le> 64 \<and> list_all (\<lambda>k. 0 \<le> k \<and> k < 2 ^ 256) is" if "valid_slots s = Inr (Inr is)"
    using that slots by (cases s) (auto simp: valid_slots_def MAX_SLOTS_def split: if_splits)
  moreover have "1 \<le> n \<and> n \<le> FUEL_CAP" if "valid_fuel f = Inr (Some n)"
    using that by (auto simp: valid_fuel_def bindR_eq_Inr split: option.splits if_splits)
  moreover have "0 \<le> i \<and> i < 2 ^ 256" if "valid_value v = Some i"
    using that by (cases v) (auto simp: valid_value_def split: if_splits)
  ultimately show ?thesis by blast
qed

theorem claim_scalars_bounded_witness:
  "length [1, 2 :: int] \<le> 64 \<and> list_all (\<lambda>k. 0 \<le> k \<and> k < 2 ^ 256) [1, 2 :: int]"
proof -
  have "valid_slots (JList [JInt 1, JBool True]) = Inr (Inr [1, 1])"
    "valid_slots (JList [JInt 1, JInt 2]) = Inr (Inr [1, 2])"
    "valid_fuel (JInt 500) = Inr (Some 500)" "valid_value (JInt 7) = Some 7"
    by (simp_all add: valid_slots_def MAX_SLOTS_def int_or_none_def valid_fuel_def FUEL_CAP_def
        valid_value_def)
  then show ?thesis
    using claim_scalars_bounded [of "JInt 500" 500 "JInt 7" 7 "JList [JInt 1, JInt 2]" "[1, 2]"]
    by blast
qed

text \<open>JSON numbers Python cannot convert (\<open>Infinity\<close>, \<open>1e400\<close>) raise an \<open>OverflowError\<close> that no
  handler of the validation catches: fuel, slots and arguments crash the adjudicator.\<close>

theorem overflow_escapes:
  "valid_fuel (JFloat (FInf neg) r) = Inl OverflowError
   \<and> valid_slots (JList [JFloat (FInf neg) r]) = Inl OverflowError
   \<and> safe_render_args (JList [JObj [(''word'', JFloat (FInf neg) r)]]) = Inl OverflowError"
  by (simp add: valid_fuel_def valid_slots_def MAX_SLOTS_def int_or_none_def safe_render_args_def
      MAX_ARG_NESTING_def render_scalar_arg_def jget_def dget_or_def)

text \<open>An accepted identifier contains no quote, backslash or space, so it cannot close the Lean
  string it is interpolated into; the pattern does accept one final newline.\<close>

theorem identifier_inert:
  "(valid_identifier (JStr s) \<longrightarrow>
      CHR 0x22 \<notin> set s \<and> CHR 0x5C \<notin> set s \<and> CHR '' '' \<notin> set s \<and> s \<noteq> [])
   \<and> valid_identifier (JStr [CHR ''C'', CHR 0x0A])"
proof
  have bad: "\<not> ident_char (CHR 0x22)" "\<not> ident_char (CHR 0x5C)" "\<not> ident_char (CHR '' '')"
    "\<not> ident_start (CHR 0x22)" "\<not> ident_start (CHR 0x5C)" "\<not> ident_start (CHR '' '')"
    by (simp_all add: ident_char_def ident_start_def cp_def Let_def)
  have "x \<in> set s \<Longrightarrow> ident_char x \<or> ident_start x \<or> cp x = 10" if "ident_re s" for x
    using that by (cases s) (auto simp: ident_re_def list_all_iff in_set_butlast_appendI
        elim!: disjE dest: in_set_conv_decomp_last [THEN iffD1]
        split: if_splits simp flip: append_butlast_last_id)
  moreover have "cp CHR 0x22 \<noteq> 10" "cp CHR 0x5C \<noteq> 10" "cp CHR '' '' \<noteq> 10" by (simp_all add: cp_def)
  ultimately show "valid_identifier (JStr s) \<longrightarrow>
      CHR 0x22 \<notin> set s \<and> CHR 0x5C \<notin> set s \<and> CHR '' '' \<notin> set s \<and> s \<noteq> []"
    using bad by (auto simp: valid_identifier_def ident_re_def)
  show "valid_identifier (JStr [CHR ''C'', CHR 0x0A])"
    by (simp add: valid_identifier_def ident_re_def ident_start_def cp_def)
qed

theorem identifier_inert_witness: "CHR 0x22 \<notin> set ''run'' \<and> CHR 0x5C \<notin> set ''run''"
proof -
  have "valid_identifier (JStr ''run'')"
    by (simp add: valid_identifier_def ident_re_def ident_char_def ident_start_def cp_def)
  with identifier_inert [of "''run''"] show ?thesis by blast
qed

end
