(* ===== verification/SolcAst.thy ===== *)
theory SolcAst
  imports PyJson
begin

unbundle bit_operations_syntax

text \<open>
  The analyzed solc AST as \<open>contest/reject_gate.py\<close> walks it: JSON whose objects are the nodes.
  The identity of a node (\<open>is\<close>, \<open>id()\<close>) is its path from the root, the list of the positions of
  the children taken. Where \<open>nodeType\<close> is present it is a string, names are strings, and a
  \<open>hexValue\<close> consists of hexadecimal digits, as solc writes them.
\<close>

type_synonym node = "(string \<times> json) list"
type_synonym path = "nat list"

section \<open>Reading a node\<close>

text \<open>\<open>x or \{\}\<close> and \<open>isinstance(x, dict)\<close> guards; \<open>x or []\<close> for a list.\<close>

fun jobj :: "json \<Rightarrow> node" where
  "jobj (JObj d) = d"
| "jobj _ = []"

fun jlist :: "json \<Rightarrow> json list" where
  "jlist (JList xs) = xs"
| "jlist _ = []"

definition nt_is :: "node \<Rightarrow> string \<Rightarrow> bool" where
  "nt_is d t \<longleftrightarrow> jget d ''nodeType'' = JStr t"

definition nt_yul :: "node \<Rightarrow> bool" where
  "nt_yul d = (case jget d ''nodeType'' of JStr t \<Rightarrow> starts ''Yul'' t | _ \<Rightarrow> False)"

definition fld_in :: "node \<Rightarrow> string \<Rightarrow> string list \<Rightarrow> bool" where
  "fld_in d k names = (case jget d k of JStr s \<Rightarrow> s \<in> set names | _ \<Rightarrow> False)"

definition sub_obj :: "node \<Rightarrow> string \<Rightarrow> node" where
  "sub_obj d k = jobj (jget d k)"

definition node_src :: "node \<Rightarrow> string" where
  "node_src d = py_str (dget_or d ''src'' (JStr ''?''))"

definition type_string :: "node \<Rightarrow> string" where
  "type_string d =
     (case jget d ''typeDescriptions'' of
        JObj td \<Rightarrow> (let v = jget td ''typeString'' in if truthy v then py_str v else [])
      | _ \<Rightarrow> [])"

definition name_or :: "node \<Rightarrow> string \<Rightarrow> string" where
  "name_or d dflt = (let v = jget d ''name'' in if truthy v then py_str v else dflt)"

section \<open>Walking\<close>

text \<open>\<open>iter_nodes\<close>: every node with its path, depth first.\<close>

fun walk :: "path \<Rightarrow> json \<Rightarrow> (path \<times> node) list"
  and walk_vals :: "path \<Rightarrow> nat \<Rightarrow> (string \<times> json) list \<Rightarrow> (path \<times> node) list"
  and walk_items :: "path \<Rightarrow> nat \<Rightarrow> json list \<Rightarrow> (path \<times> node) list" where
  "walk p (JObj d) = (p, d) # walk_vals p 0 d"
| "walk p (JList xs) = walk_items p 0 xs"
| "walk p JNull = []"
| "walk p (JBool _) = []"
| "walk p (JInt _) = []"
| "walk p (JFloat _ _) = []"
| "walk p (JStr _) = []"
| "walk_vals p i [] = []"
| "walk_vals p i ((k, v) # d) = walk (p @ [i]) v @ walk_vals p (Suc i) d"
| "walk_items p i [] = []"
| "walk_items p i (x # xs) = walk (p @ [i]) x @ walk_items p (Suc i) xs"

definition iter_nodes :: "json \<Rightarrow> (path \<times> node) list" where
  "iter_nodes = walk []"

text \<open>The nodes without their paths, for the scans that do not need an identity.\<close>

definition nodes_of :: "json \<Rightarrow> node list" where
  "nodes_of x = map snd (iter_nodes x)"

text \<open>\<open>enclosing_contract_name\<close>: the contract above the node, \<open>?\<close> outside every contract.\<close>

fun encl :: "path \<Rightarrow> path \<Rightarrow> json \<Rightarrow> string option \<Rightarrow> string option"
  and encl_vals :: "path \<Rightarrow> path \<Rightarrow> nat \<Rightarrow> (string \<times> json) list \<Rightarrow> string option \<Rightarrow> string option"
  and encl_items :: "path \<Rightarrow> path \<Rightarrow> nat \<Rightarrow> json list \<Rightarrow> string option \<Rightarrow> string option" where
  "encl t p j cur =
     (case j of
        JObj d \<Rightarrow>
          if p = t then cur
          else encl_vals t p 0 d
            (if nt_is d ''ContractDefinition'' then Some (name_or d ''?'') else cur)
      | JList xs \<Rightarrow> encl_items t p 0 xs cur
      | _ \<Rightarrow> None)"
| "encl_vals t p i [] cur = None"
| "encl_vals t p i ((k, v) # d) cur =
     (case encl t (p @ [i]) v cur of Some c \<Rightarrow> Some c | None \<Rightarrow> encl_vals t p (Suc i) d cur)"
| "encl_items t p i [] cur = None"
| "encl_items t p i (x # xs) cur =
     (case encl t (p @ [i]) x cur of Some c \<Rightarrow> Some c | None \<Rightarrow> encl_items t p (Suc i) xs cur)"

definition enclosing_contract_name :: "json \<Rightarrow> path \<Rightarrow> string" where
  "enclosing_contract_name ast t =
     (case encl t [] ast None of Some c \<Rightarrow> if c = [] then ''?'' else c | None \<Rightarrow> ''?'')"

section \<open>Literals and constant folding\<close>

text \<open>The \<open>Literal\<close> arm of \<open>_literal_int\<close>.\<close>

definition literal_value :: "node \<Rightarrow> int option" where
  "literal_value d =
     (let val = jget d ''value'' in
      if jget d ''kind'' = JStr ''bool''
        then Some (if val \<in> {JStr ''true'', JBool True, JInt 1} then 1 else 0)
      else if val = JNull then
        (case jget d ''hexValue'' of
           JStr hv \<Rightarrow> if hv = [] then None
             else (case py_int_str 16 hv of Inr n \<Rightarrow> Some n | Inl e \<Rightarrow> None)
         | _ \<Rightarrow> None)
      else (let s = py_str val in
            case py_int_str (if starts ''0x'' s then 16 else 10) s of
              Inr n \<Rightarrow> Some n | Inl e \<Rightarrow> None))"

definition fold_unary :: "string \<Rightarrow> int \<Rightarrow> int option" where
  "fold_unary op x =
     (if op = ''-'' then Some (- x) else if op = ''~'' then Some (- x - 1)
      else if op = ''+'' then Some x else None)"

definition fold_binary :: "string \<Rightarrow> int \<Rightarrow> int \<Rightarrow> int option" where
  "fold_binary op a b =
     (if op = ''+'' then Some (a + b) else if op = ''-'' then Some (a - b)
      else if op = ''*'' then Some (a * b)
      else if op = ''/'' then (if b \<noteq> 0 then Some (a div b) else None)
      else if op = ''%'' then (if b \<noteq> 0 then Some (a mod b) else None)
      else if op = ''<<'' then (if 0 \<le> b \<and> b < 512 then Some (a * 2 ^ nat b) else None)
      else if op = ''>>'' then (if b \<ge> 0 then Some (a div 2 ^ nat b) else None)
      else if op = ''|'' then Some (a OR b) else if op = ''&'' then Some (a AND b)
      else if op = ''^'' then Some (a XOR b) else None)"

lemma dget_size: "dget d k = Some v \<Longrightarrow> size v < size (JObj d)"
  by (induction d) (auto split: if_splits)

lemma jget_size: "size (jget d k) < size (JObj d)"
  by (auto simp: jget_def dget_or_def dest: dget_size split: option.splits)

lemma jlist_size: "x \<in> set (jlist j) \<Longrightarrow> size x < size j"
  by (cases j) (auto dest: size_list_estimation' [where f = size, OF _ order_refl])

lemma one_arg_size: "jlist (jget d k) = [x] \<Longrightarrow> size x < size (JObj d)"
  using jlist_size [of x "jget d k"] jget_size [of d k] by simp

text \<open>The three arms after \<open>Literal\<close>: a call with one argument folds to its argument, whatever
  the callee; unary and binary operators fold when their operands do.\<close>

function literal_int :: "json \<Rightarrow> int option" where
  "literal_int (JObj d) =
     (if nt_is d ''Literal'' then literal_value d
      else if nt_is d ''FunctionCall'' then
        (case jlist (jget d ''arguments'') of [x] \<Rightarrow> literal_int x | _ \<Rightarrow> None)
      else if nt_is d ''UnaryOperation'' then
        (case literal_int (jget d ''subExpression'') of
           None \<Rightarrow> None | Some x \<Rightarrow> fold_unary (py_str (jget d ''operator'')) x)
      else if nt_is d ''BinaryOperation'' then
        (case literal_int (jget d ''leftExpression'') of
           None \<Rightarrow> None
         | Some a \<Rightarrow>
             (case literal_int (jget d ''rightExpression'') of
                None \<Rightarrow> None | Some b \<Rightarrow> fold_binary (py_str (jget d ''operator'')) a b))
      else None)"
| "literal_int JNull = None"
| "literal_int (JBool _) = None"
| "literal_int (JInt _) = None"
| "literal_int (JFloat _ _) = None"
| "literal_int (JStr _) = None"
| "literal_int (JList _) = None"
  by pat_completeness auto
termination
  by (relation "measure size") (auto intro: jget_size one_arg_size simp del: json.size)

section \<open>Lemmas\<close>

lemma jobj_Nil_nt [simp]: "nt_is [] t \<longleftrightarrow> False"
  by (simp add: nt_is_def jget_def dget_or_def)

lemma nt_unique: "nt_is d a \<Longrightarrow> nt_is d b \<longleftrightarrow> a = b"
  by (auto simp: nt_is_def)

text \<open>Paths identify nodes: two nodes of a walk with the same path are the same node.\<close>

lemma walk_prefix:
  "x \<in> set (walk p j) \<Longrightarrow> \<exists>r. fst x = p @ r"
  "x \<in> set (walk_vals p i d) \<Longrightarrow> \<exists>n r. i \<le> n \<and> fst x = p @ n # r"
  "x \<in> set (walk_items p i xs) \<Longrightarrow> \<exists>n r. i \<le> n \<and> fst x = p @ n # r"
proof (induction p j and p i d and p i xs rule: walk_walk_vals_walk_items.induct)
  case (9 p i k v d)
  then show ?case by (fastforce dest: Suc_leD)
next
  case (11 p i y ys)
  then show ?case by (fastforce dest: Suc_leD)
qed auto

lemma walk_distinct:
  "distinct (map fst (walk p j))"
  "distinct (map fst (walk_vals p i d))"
  "distinct (map fst (walk_items p i xs))"
proof (induction p j and p i d and p i xs rule: walk_walk_vals_walk_items.induct)
  case (1 p d)
  then show ?case by (fastforce dest: walk_prefix(2))
next
  case (9 p i k v d)
  then show ?case by (fastforce dest: walk_prefix)
next
  case (11 p i y ys)
  then show ?case by (fastforce dest: walk_prefix)
qed auto

lemma iter_nodes_distinct: "distinct (map fst (iter_nodes ast))"
  unfolding iter_nodes_def by (rule walk_distinct)

lemma iter_nodes_path_inj:
  "x \<in> set (iter_nodes ast) \<Longrightarrow> y \<in> set (iter_nodes ast) \<Longrightarrow> fst x = fst y \<Longrightarrow> x = y"
  using iter_nodes_distinct by (metis distinct_map inj_onD)

end
