(* ===== verification/Gate.thy ===== *)
theory Gate
  imports SolcAst Register
begin

text \<open>
  \<open>contest/reject_gate.py\<close>, the scan of a submission against the exclusion register: one
  definition per detector, the dispatch tables, the single-contract guard and
  \<open>run_gate_on_asts\<close>. A hit carries what the detector adds to the row's own reason
  (\<open>h_reason\<close>) and the taint path of the semantic scans.
\<close>

record source_ast =
  sa_source :: string
  sa_ast :: json

record hit =
  h_id :: string
  h_source :: string
  h_contract :: string
  h_node_src :: string
  h_reason :: string
  h_taint :: "string option"

record gate_verdict =
  gv_verdict :: string
  gv_version :: string
  gv_hits :: "hit list"

definition is_pass :: "gate_verdict \<Rightarrow> bool" where
  "is_pass v \<longleftrightarrow> gv_verdict v = ''PASS''"

definition mk_hit :: "string \<Rightarrow> source_ast \<Rightarrow> path \<times> node \<Rightarrow> string \<Rightarrow> string option \<Rightarrow> hit" where
  "mk_hit i s x reason taint =
     \<lparr>h_id = i, h_source = sa_source s, h_contract = enclosing_contract_name (sa_ast s) (fst x),
      h_node_src = node_src (snd x), h_reason = reason, h_taint = taint\<rparr>"

text \<open>The loop every one-pass detector runs: a hit for each node the test accepts.\<close>

definition flag_nodes :: "(path \<times> node \<Rightarrow> string option) \<Rightarrow> entry \<Rightarrow> source_ast \<Rightarrow> hit list" where
  "flag_nodes f e s =
     concat (map (\<lambda>x. case f x of None \<Rightarrow> [] | Some what \<Rightarrow> [mk_hit (x_id e) s x what None])
       (iter_nodes (sa_ast s)))"

definition if_flag :: "(node \<Rightarrow> bool) \<Rightarrow> path \<times> node \<Rightarrow> string option" where
  "if_flag P x = (if P (snd x) then Some [] else None)"

section \<open>Syntactic detectors\<close>

definition is_inline_assembly :: "node \<Rightarrow> bool" where
  "is_inline_assembly d \<longleftrightarrow> nt_is d ''InlineAssembly'' \<or> nt_yul d"

definition detect_inline_assembly :: "entry \<Rightarrow> source_ast \<Rightarrow> hit list" where
  "detect_inline_assembly = flag_nodes (if_flag is_inline_assembly)"

definition detect_import_directive :: "entry \<Rightarrow> source_ast \<Rightarrow> hit list" where
  "detect_import_directive = flag_nodes (if_flag (\<lambda>d. nt_is d ''ImportDirective''))"

definition callee_name :: "node \<Rightarrow> json" where
  "callee_name d =
     (if nt_is d ''FunctionCall'' \<and> nt_is (sub_obj d ''expression'') ''Identifier''
      then jget (sub_obj d ''expression'') ''name'' else JNull)"

text \<open>solc gives a builtin a negative \<open>referencedDeclaration\<close>.\<close>

definition refs_builtin :: "node \<Rightarrow> bool" where
  "refs_builtin d =
     (case jget d ''referencedDeclaration'' of JNull \<Rightarrow> True | JInt i \<Rightarrow> i < 0 | _ \<Rightarrow> False)"

definition is_gasleft :: "node \<Rightarrow> bool" where
  "is_gasleft d \<longleftrightarrow>
     nt_is d ''Identifier'' \<and> jget d ''name'' = JStr ''gasleft'' \<and> refs_builtin d"

definition detect_gasleft :: "entry \<Rightarrow> source_ast \<Rightarrow> hit list" where
  "detect_gasleft = flag_nodes (if_flag is_gasleft)"

definition detect_msize :: "entry \<Rightarrow> source_ast \<Rightarrow> hit list" where
  "detect_msize = flag_nodes (if_flag (\<lambda>d. nt_yul d \<and> jget d ''name'' = JStr ''msize''))"

definition detect_storage_layout_specifier :: "entry \<Rightarrow> source_ast \<Rightarrow> hit list" where
  "detect_storage_layout_specifier = flag_nodes (if_flag (\<lambda>d. nt_is d ''StorageLayoutSpecifier''))"

definition LOWLEVEL_CALL_MEMBERS :: "string list" where
  "LOWLEVEL_CALL_MEMBERS = [''call'', ''staticcall'', ''delegatecall'', ''transfer'', ''send'']"

definition is_external_fn_typestring :: "string \<Rightarrow> bool" where
  "is_external_fn_typestring ts \<longleftrightarrow>
     starts ''function'' ts \<and> contains '' external'' ts
     \<and> \<not> ends '']'' (rev (dropWhile (\<lambda>c. space_cp (cp c)) (rev ts)))"

text \<open>The paths of the dictionaries under a \<open>FunctionCallOptions\<close> wrapper.\<close>

definition child_path :: "path \<Rightarrow> node \<Rightarrow> string \<Rightarrow> path" where
  "child_path p d k = p @ [length (takeWhile (\<lambda>kv. fst kv \<noteq> k) d)]"

definition option_wrapped :: "json \<Rightarrow> path list" where
  "option_wrapped ast =
     concat (map (\<lambda>(p, d).
        if nt_is d ''FunctionCallOptions'' \<and> is_obj (jget d ''expression'')
        then [child_path p d ''expression''] else []) (iter_nodes ast))"

definition precompile_carveout :: "string option \<Rightarrow> bool" where
  "precompile_carveout at_version =
     (case at_version of None \<Rightarrow> True | Some v \<Rightarrow> \<not> semver_lt v ''1.6.0'')"

definition carved_out :: "string option \<Rightarrow> path list \<Rightarrow> path \<times> node \<Rightarrow> bool" where
  "carved_out at_version wrapped x \<longleftrightarrow>
     precompile_carveout at_version \<and> jget (snd x) ''memberName'' = JStr ''staticcall''
     \<and> fst x \<notin> set wrapped
     \<and> (case literal_int (jget (snd x) ''expression'') of
          Some r \<Rightarrow> 1 \<le> r \<and> r \<le> 10 | None \<Rightarrow> False)"

definition external_call_what ::
  "string option \<Rightarrow> path list \<Rightarrow> path \<times> node \<Rightarrow> string option" where
  "external_call_what at_version wrapped x =
     (let d = snd x in
      if nt_is d ''MemberAccess'' \<and> fld_in d ''memberName'' LOWLEVEL_CALL_MEMBERS then
        (if carved_out at_version wrapped x then None
         else Some ('' [low-level .'' @ py_str (jget d ''memberName'') @ '']''))
      else if nt_is d ''FunctionCall''
              \<and> is_external_fn_typestring (type_string (sub_obj d ''expression'')) then
        Some '' [call through an external function-typed value]''
      else if nt_is d ''NewExpression'' then
        (if nt_is (sub_obj d ''typeName'') ''UserDefinedTypeName''
         then Some ('' [contract creation (new C / new C{salt:..} / new C{value:..}; '' @
                ''CREATE/CREATE2) is out of scope in v1: it executes an external deployment '' @
                ''sub-context]'') else None)
      else if nt_is d ''TryStatement'' then Some '' [try/external-call]''
      else if nt_is d ''FunctionCall'' then
        (let callee = sub_obj d ''expression'' in
         if nt_is callee ''MemberAccess''
            \<and> starts ''contract '' (type_string (sub_obj callee ''expression''))
         then Some '' [high-level external call]'' else None)
      else None)"

definition detect_external_call :: "entry \<Rightarrow> source_ast \<Rightarrow> string option \<Rightarrow> hit list" where
  "detect_external_call e s at_version =
     flag_nodes (external_call_what at_version (option_wrapped (sa_ast s))) e s"

definition is_fixed_point_op :: "node \<Rightarrow> bool" where
  "is_fixed_point_op d \<longleftrightarrow>
     (nt_is d ''BinaryOperation'' \<or> nt_is d ''Assignment'')
     \<and> list_ex (\<lambda>side. let ts = type_string (sub_obj d side) in
                   starts ''fixed'' ts \<or> starts ''ufixed'' ts)
         [''leftExpression'', ''rightExpression'', ''leftHandSide'', ''rightHandSide'']"

definition detect_executable_fixed_point :: "entry \<Rightarrow> source_ast \<Rightarrow> hit list" where
  "detect_executable_fixed_point = flag_nodes (if_flag is_fixed_point_op)"

section \<open>Semantic detectors\<close>

definition ASSERT_CALLEES :: "string list" where
  "ASSERT_CALLEES =
     [''assertEq'', ''assertTrue'', ''assertFalse'', ''assertGt'', ''assertLt'', ''assertGe'',
      ''assertLe'', ''assertEqUint'', ''assertNotEq'', ''assertApproxEqAbs'', ''require'', ''assert'']"

definition find_functions :: "json \<Rightarrow> node list" where
  "find_functions ast =
     filter (\<lambda>d. nt_is d ''FunctionDefinition'' \<or> nt_is d ''ModifierDefinition'') (nodes_of ast)"

definition observed_position :: "node \<Rightarrow> bool" where
  "observed_position d \<longleftrightarrow>
     nt_is d ''FunctionCall'' \<and> (case callee_name d of JStr n \<Rightarrow> n \<in> set ASSERT_CALLEES | _ \<Rightarrow> False)
     \<or> nt_is d ''Return'' \<and> jget d ''expression'' \<noteq> JNull
     \<or> nt_is d ''EmitStatement''"

definition function_has_observed_position :: "node \<Rightarrow> bool" where
  "function_has_observed_position fn \<longleftrightarrow> list_ex observed_position (nodes_of (jget fn ''body''))"

record taint_spec =
  t_label :: string
  t_identifiers :: "string list"
  t_members :: "string list"
  t_options :: "string list"

definition names_include :: "node \<Rightarrow> string list \<Rightarrow> bool" where
  "names_include d opts \<longleftrightarrow>
     (case jget d ''names'' of JList ns \<Rightarrow> list_ex (\<lambda>nm. JStr nm \<in> set ns) opts | _ \<Rightarrow> False)"

definition tainted_predicate :: "taint_spec \<Rightarrow> node \<Rightarrow> bool" where
  "tainted_predicate spec d =
     (if nt_is d ''Identifier'' \<and> fld_in d ''name'' (t_identifiers spec) then refs_builtin d
      else if nt_is d ''FunctionCall'' then
        (let callee = sub_obj d ''expression'' in
         nt_is callee ''Identifier'' \<and> fld_in callee ''name'' (t_identifiers spec)
         \<and> refs_builtin callee)
      else if nt_is d ''MemberAccess'' \<and> fld_in d ''memberName'' (t_members spec) then True
      else nt_is d ''FunctionCallOptions'' \<and> names_include d (t_options spec))"

definition observed_functions :: "json \<Rightarrow> node list" where
  "observed_functions ast =
     filter (\<lambda>fn. jget fn ''body'' \<noteq> JNull \<and> function_has_observed_position fn)
       (find_functions ast)"

definition obs_names :: "node list \<Rightarrow> string" where
  "obs_names fns = join '', '' (take 5 (sort (remdups (map (\<lambda>fn. name_or fn ''<anon>'') fns))))"

definition whole_source_taint_scan ::
  "entry \<Rightarrow> source_ast \<Rightarrow> (node \<Rightarrow> bool) \<Rightarrow> string \<Rightarrow> hit list" where
  "whole_source_taint_scan e s pred label =
     (let flagged = filter (\<lambda>x. pred (snd x)) (iter_nodes (sa_ast s));
          observed = observed_functions (sa_ast s) in
      if flagged = [] then []
      else if observed = [] then []
      else map (\<lambda>x. mk_hit (x_id e) s x []
             (Some (label @ '' at '' @ node_src (snd x) @
                '' may reach an observed position (assert/return/emit) via same-source '' @
                ''(incl. cross-function storage) flow; observing function(s): '' @
                obs_names observed))) flagged)"

definition semantic_taint_scan :: "entry \<Rightarrow> source_ast \<Rightarrow> taint_spec \<Rightarrow> hit list" where
  "semantic_taint_scan e s spec =
     whole_source_taint_scan e s (tainted_predicate spec) (t_label spec)"

definition GAS_SPEC :: taint_spec where
  "GAS_SPEC = \<lparr>t_label = ''gas quantity (gasleft/tx.gasprice/gas call-option)'',
     t_identifiers = [''gasleft''], t_members = [''gasleft'', ''gasprice''], t_options = [''gas'']\<rparr>"

definition detect_gas_observable :: "entry \<Rightarrow> source_ast \<Rightarrow> hit list" where
  "detect_gas_observable e s = semantic_taint_scan e s GAS_SPEC"

definition presence_scan :: "entry \<Rightarrow> source_ast \<Rightarrow> taint_spec \<Rightarrow> hit list" where
  "presence_scan e s spec =
     flag_nodes (\<lambda>x. if tainted_predicate spec (snd x)
                     then Some ('' ['' @ t_label spec @ '' present (presence-based; whole submission)]'')
                     else None) e s"

definition CODE_SPEC :: taint_spec where
  "CODE_SPEC = \<lparr>t_label = ''compiled-bytecode quantity (creationCode/runtimeCode/code/codehash)'',
     t_identifiers = [], t_members = [''creationCode'', ''runtimeCode'', ''code'', ''codehash''],
     t_options = []\<rparr>"

definition detect_creationcode_observable :: "entry \<Rightarrow> source_ast \<Rightarrow> hit list" where
  "detect_creationcode_observable e s = presence_scan e s CODE_SPEC"

definition is_salt_option :: "node \<Rightarrow> bool" where
  "is_salt_option d \<longleftrightarrow> nt_is d ''FunctionCallOptions'' \<and> names_include d [''salt'']"

definition detect_create2_address_observable :: "entry \<Rightarrow> source_ast \<Rightarrow> hit list" where
  "detect_create2_address_observable e s =
     whole_source_taint_scan e s is_salt_option ''salted create2 (predicted address)''"

definition ENV_SPEC :: taint_spec where
  "ENV_SPEC = \<lparr>t_label = ''unpinnable env fact (blockhash/blobhash)'',
     t_identifiers = [''blockhash'', ''blobhash''], t_members = [''blockhash'', ''blobhash''],
     t_options = []\<rparr>"

definition detect_env_observable :: "entry \<Rightarrow> source_ast \<Rightarrow> hit list" where
  "detect_env_observable e s = presence_scan e s ENV_SPEC"

definition is_stipend_or_gas_option :: "node \<Rightarrow> bool" where
  "is_stipend_or_gas_option d =
     (if nt_is d ''MemberAccess'' \<and> fld_in d ''memberName'' [''transfer'', ''send'']
      then contains ''address'' (type_string (sub_obj d ''expression''))
      else nt_is d ''FunctionCallOptions'' \<and> names_include d [''gas''])"

definition detect_closed_world_gas_observable :: "entry \<Rightarrow> source_ast \<Rightarrow> hit list" where
  "detect_closed_world_gas_observable e s =
     whole_source_taint_scan e s is_stipend_or_gas_option
       ''closed-world gas/stipend effect (send/transfer/gas-option)''"

section \<open>The single-contract guard\<close>

definition contracts_of :: "source_ast \<Rightarrow> node list" where
  "contracts_of s = filter (\<lambda>d. nt_is d ''ContractDefinition'') (nodes_of (sa_ast s))"

definition base_ids :: "source_ast list \<Rightarrow> json list" where
  "base_ids srcs =
     concat (map (\<lambda>s. concat (map (\<lambda>d.
        filter (\<lambda>b. b \<noteq> jget d ''id'') (jlist (jget d ''linearizedBaseContracts'')))
        (contracts_of s))) srcs)"

definition concrete :: "node \<Rightarrow> bool" where
  "concrete d \<longleftrightarrow> jget d ''contractKind'' = JStr ''contract'' \<and> \<not> truthy (jget d ''abstract'')"

definition deployable :: "source_ast list \<Rightarrow> (source_ast \<times> node) list" where
  "deployable srcs =
     filter (\<lambda>(s, d). jget d ''id'' \<notin> set (base_ids srcs))
       (concat (map (\<lambda>s. map (Pair s) (filter concrete (contracts_of s))) srcs))"

definition v1_multi_reason :: "(source_ast \<times> node) list \<Rightarrow> string" where
  "v1_multi_reason ds =
     ''v1 ships single-contract only (design '' @ [CHR 0xA7] @ ''3.3): the reflective '' @
     ''multi-contract responder is a v2 feature. '' @
     ''Submission has '' @ show_int (int (length ds)) @ '' concrete contracts: '' @
     join '', '' (map (\<lambda>(s, d). py_str (jget d ''name'') @ ''@'' @ sa_source s) ds) @ ''.''"

definition detect_v1_multi :: "source_ast list \<Rightarrow> hit list" where
  "detect_v1_multi srcs =
     (let ds = deployable srcs in
      if length ds \<le> 1 then []
      else map (\<lambda>(s, d). \<lparr>h_id = ''V1-MULTI'', h_source = sa_source s, h_contract = name_or d ''?'',
             h_node_src = node_src d, h_reason = v1_multi_reason ds, h_taint = None\<rparr>) ds)"

section \<open>Dispatch\<close>

text \<open>A detector that has an \<open>at_version\<close> parameter is given the version, the others not.\<close>

definition SYNTACTIC_DETECTORS :: "(string \<times> (entry \<Rightarrow> source_ast \<Rightarrow> string option \<Rightarrow> hit list)) list" where
  "SYNTACTIC_DETECTORS =
     [(''detect_inline_assembly'', \<lambda>e s v. detect_inline_assembly e s),
      (''detect_import_directive'', \<lambda>e s v. detect_import_directive e s),
      (''detect_gasleft'', \<lambda>e s v. detect_gasleft e s),
      (''detect_msize'', \<lambda>e s v. detect_msize e s),
      (''detect_storage_layout_specifier'', \<lambda>e s v. detect_storage_layout_specifier e s),
      (''detect_executable_fixed_point'', \<lambda>e s v. detect_executable_fixed_point e s),
      (''detect_external_call'', detect_external_call)]"

definition SEMANTIC_DETECTORS :: "(string \<times> (entry \<Rightarrow> source_ast \<Rightarrow> hit list)) list" where
  "SEMANTIC_DETECTORS =
     [(''detect_gas_observable'', detect_gas_observable),
      (''detect_creationcode_observable'', detect_creationcode_observable),
      (''detect_create2_address_observable'', detect_create2_address_observable),
      (''detect_closed_world_gas_observable'', detect_closed_world_gas_observable),
      (''detect_env_observable'', detect_env_observable)]"

definition effective_version :: "string option \<Rightarrow> string" where
  "effective_version at_version =
     (case at_version of Some v \<Rightarrow> if v = [] then REGISTER_VERSION else v | None \<Rightarrow> REGISTER_VERSION)"

definition run_gate_on_asts :: "source_ast list \<Rightarrow> bool \<Rightarrow> string option \<Rightarrow> gate_verdict" where
  "run_gate_on_asts srcs enforce_v1_multi at_version =
     (let eff = effective_version at_version;
          syn = concat (map (\<lambda>e. case dget SYNTACTIC_DETECTORS (x_detector e) of
                  None \<Rightarrow> [] | Some det \<Rightarrow> concat (map (\<lambda>s. det e s (Some eff)) srcs))
                (syntactic_entries (Some eff)));
          sem = concat (map (\<lambda>e. case dget SEMANTIC_DETECTORS (x_detector e) of
                  None \<Rightarrow> [] | Some det \<Rightarrow> concat (map (det e) srcs))
                (semantic_entries (Some eff)));
          hits = syn @ sem @ (if enforce_v1_multi then detect_v1_multi srcs else [])
      in if hits \<noteq> [] then \<lparr>gv_verdict = ''OUT_OF_SCOPE'', gv_version = eff, gv_hits = hits\<rparr>
         else \<lparr>gv_verdict = ''PASS'', gv_version = eff, gv_hits = []\<rparr>)"

end
