(* ===== verification/Env.thy ===== *)
theory Env
  imports PyJson
begin

text \<open>
  \<open>contest/env.py\<close>: the canonical block / transaction environment, the cheatcode policy and
  \<open>EnvOverrides\<close>, the environment of one submission. Both engines run under it: the EVM replays
  the deals in order, each one a SET (\<open>evm_balances\<close>), the Lean side looks the address up in the
  printed \<open>accountBalances\<close> list, first entry wins (\<open>lean_lookup\<close>). The theorems show that the
  two views agree, with and without the debit of the entry value.
\<close>

section \<open>The canonical environment\<close>

definition CANONICAL_ENV :: "(string \<times> int) list" where
  "CANONICAL_ENV =
     [(''number'', 1), (''timestamp'', 1), (''chainid'', 31337), (''basefee'', 0), (''coinbase'', 0),
      (''prevrandao'', 0), (''gaslimit'', 1073741824), (''blobbasefee'', 1)]"

definition CANONICAL_SENDER :: int where
  "CANONICAL_SENDER = 0x1804c8AB1F12E6bbf3894d4083f33e07309d1f38"

definition CANONICAL_ORIGIN :: int where
  "CANONICAL_ORIGIN = 0x1804c8AB1F12E6bbf3894d4083f33e07309d1f38"

definition CANONICAL_GASPRICE :: int where
  "CANONICAL_GASPRICE = 0"

definition CANONICAL_SENDER_BALANCE :: int where
  "CANONICAL_SENDER_BALANCE = 2 ^ 96 - 1"

section \<open>The cheatcode policy\<close>

definition CHEATCODE_ALLOW :: "(string \<times> string) list" where
  "CHEATCODE_ALLOW =
     [(''roll'', ''number''), (''warp'', ''timestamp''), (''chainId'', ''chainid''),
      (''fee'', ''basefee''), (''prevrandao'', ''prevrandao''), (''prank'', ''_sender''),
      (''startPrank'', ''_sender''), (''stopPrank'', ''_noop''), (''deal'', ''_deal'')]"

definition CHEATCODE_IGNORE :: "string list" where
  "CHEATCODE_IGNORE = [''label'', ''toString'', ''assume'']"

definition CHEATCODE_DENY :: "string list" where
  "CHEATCODE_DENY =
     [''store'', ''load'', ''mockCall'', ''mockCallRevert'', ''clearMockedCalls'', ''ffi'', ''etch'',
      ''expectRevert'', ''expectEmit'', ''expectCall'', ''record'', ''accesses'', ''readFile'',
      ''writeFile'', ''removeFile'', ''sign'', ''addr'', ''deriveKey'', ''setNonce'', ''resetNonce'',
      ''coinbase'', ''txGasPrice'']"

section \<open>The environment of a submission\<close>

record env =
  e_number :: int
  e_timestamp :: int
  e_chainid :: int
  e_basefee :: int
  e_coinbase :: int
  e_prevrandao :: int
  e_gaslimit :: int
  e_blobbasefee :: int
  e_sender :: int
  e_origin :: int
  e_gasprice :: int
  e_value :: int
  e_self :: "int option"
  e_deals :: "(int \<times> int) list"

definition canonical :: "string \<Rightarrow> int" where
  "canonical k = dget_or CANONICAL_ENV k 0"

definition env_default :: env where
  "env_default =
     \<lparr>e_number = canonical ''number'', e_timestamp = canonical ''timestamp'',
      e_chainid = canonical ''chainid'', e_basefee = canonical ''basefee'',
      e_coinbase = canonical ''coinbase'', e_prevrandao = canonical ''prevrandao'',
      e_gaslimit = canonical ''gaslimit'', e_blobbasefee = canonical ''blobbasefee'',
      e_sender = CANONICAL_SENDER, e_origin = CANONICAL_ORIGIN, e_gasprice = CANONICAL_GASPRICE,
      e_value = 0, e_self = None, e_deals = []\<rparr>"

definition with_self :: "env \<Rightarrow> int \<Rightarrow> env" where
  "with_self e a = e\<lparr>e_self := Some a\<rparr>"

definition effective_deals :: "env \<Rightarrow> (int \<times> int) list" where
  "effective_deals e = dput_all [] (e_deals e)"

definition lean_block_fields :: "env \<Rightarrow> string" where
  "lean_block_fields e =
     ''number := '' @ show_int (e_number e) @ '', timestamp := '' @ show_int (e_timestamp e) @
     '', chainid := '' @ show_int (e_chainid e) @ '', basefee := '' @ show_int (e_basefee e) @
     '', coinbase := '' @ show_int (e_coinbase e) @ '', prevrandao := '' @ show_int (e_prevrandao e) @
     '', gaslimit := '' @ show_int (e_gaslimit e) @
     '', blobbasefee := '' @ show_int (e_blobbasefee e)"

definition lean_tx_fields :: "env \<Rightarrow> string" where
  "lean_tx_fields e =
     ''gasprice := '' @ show_int (e_gasprice e) @ '', origin := '' @ show_int (e_origin e)"

text \<open>The loop of \<open>lean_balances\<close> that debits the first entry of the caller, if it covers the
  value, and stops there.\<close>

fun debit_first :: "int \<Rightarrow> int \<Rightarrow> (int \<times> int) list \<Rightarrow> (int \<times> int) list" where
  "debit_first s v [] = []"
| "debit_first s v ((a, amt) # es) =
     (if a = s then (if v \<le> amt then (a, amt - v) # es else (a, amt) # es)
      else (a, amt) # debit_first s v es)"

definition balance_entries :: "env \<Rightarrow> bool \<Rightarrow> (int \<times> int) list" where
  "balance_entries e debit_entry_value =
     (let entries = effective_deals e @ [(CANONICAL_SENDER, CANONICAL_SENDER_BALANCE)]
      in if debit_entry_value \<and> e_value e \<noteq> 0 then debit_first (e_sender e) (e_value e) entries
         else entries)"

definition lean_balances :: "env \<Rightarrow> bool \<Rightarrow> string" where
  "lean_balances e d =
     ''['' @ join '', '' (map (\<lambda>(a, amt). ''('' @ show_int a @ '', '' @ show_int amt @ '')'')
       (balance_entries e d)) @ '']''"

definition env_to_dict :: "env \<Rightarrow> json" where
  "env_to_dict e = JObj
     [(''number'', JInt (e_number e)), (''timestamp'', JInt (e_timestamp e)),
      (''chainid'', JInt (e_chainid e)), (''basefee'', JInt (e_basefee e)),
      (''coinbase'', JInt (e_coinbase e)), (''prevrandao'', JInt (e_prevrandao e)),
      (''gaslimit'', JInt (e_gaslimit e)), (''blobbasefee'', JInt (e_blobbasefee e)),
      (''sender'', JStr (py_hex (e_sender e))), (''origin'', JStr (py_hex (e_origin e))),
      (''value'', JInt (e_value e)),
      (''self'', case e_self e of Some a \<Rightarrow> JStr (py_hex a) | None \<Rightarrow> JNull),
      (''deals'', JList (map (\<lambda>(a, amt). JList [JStr (py_hex a), JInt amt]) (e_deals e)))]"

section \<open>The two views of the balances\<close>

text \<open>The Lean lookup in \<open>accountBalances\<close> (first entry, 0 when there is none) and the EVM: the
  genesis funds the canonical sender, every \<open>vm.deal\<close> sets a balance, and a call with value
  debits its caller when the balance covers it.\<close>

definition lean_lookup :: "(int \<times> int) list \<Rightarrow> int \<Rightarrow> int" where
  "lean_lookup es a = (case map_of es a of Some v \<Rightarrow> v | None \<Rightarrow> 0)"

definition evm_genesis :: "int \<Rightarrow> int" where
  "evm_genesis a = (if a = CANONICAL_SENDER then CANONICAL_SENDER_BALANCE else 0)"

definition evm_balances :: "env \<Rightarrow> int \<Rightarrow> int" where
  "evm_balances e = fold (\<lambda>(a, amt) b. b(a := amt)) (e_deals e) evm_genesis"

definition evm_entry_balances :: "env \<Rightarrow> int \<Rightarrow> int" where
  "evm_entry_balances e a =
     (let b = evm_balances e a
      in if a = e_sender e \<and> e_value e \<le> b then b - e_value e else b)"

lemma fold_update_last_wins:
  "fold (\<lambda>(a, amt) b. b(a := amt)) ds b x = (case map_of (rev ds) x of Some v \<Rightarrow> v | None \<Rightarrow> b x)"
  by (induction ds arbitrary: b) (auto simp: map_add_def split: option.splits)

lemma effective_deals_last_wins: "map_of (effective_deals e) x = map_of (rev (e_deals e)) x"
  using dget_dput_all [of "[]" "e_deals e" x]
  by (simp add: effective_deals_def dget_map_of split: option.splits)

lemma effective_deals_distinct: "distinct (map fst (effective_deals e))"
  using distinct_dput_all [of "[]" "e_deals e"] by (simp add: effective_deals_def dkeys_def)

lemma effective_deals_addresses: "fst ` set (effective_deals e) = fst ` set (e_deals e)"
  using keys_dput_all [of "[]" "e_deals e"] by (simp add: effective_deals_def dkeys_def)

lemma map_of_debit_first:
  "map_of (debit_first s v es) a =
     (case map_of es a of None \<Rightarrow> None
      | Some b \<Rightarrow> Some (if a = s \<and> v \<le> b then b - v else b))"
  by (induction s v es rule: debit_first.induct) (auto split: option.splits)

lemma lookup_entries:
  "lean_lookup (effective_deals e @ [(CANONICAL_SENDER, CANONICAL_SENDER_BALANCE)]) a =
     evm_balances e a"
  by (simp add: lean_lookup_def evm_balances_def fold_update_last_wins map_add_def
      effective_deals_last_wins evm_genesis_def split: option.splits)

lemma lookup_debit:
  "0 < v \<Longrightarrow> lean_lookup (debit_first s v es) a =
     (if a = s \<and> v \<le> lean_lookup es a then lean_lookup es a - v else lean_lookup es a)"
  by (simp add: lean_lookup_def map_of_debit_first split: option.splits)

section \<open>Properties\<close>

text \<open>For every list of deals, repeated addresses included, the first-wins lookup in the
  balances printed for the Lean constructor context returns the balance the EVM has after
  replaying the same deals in order over its genesis.\<close>

theorem balances_agree: "lean_lookup (balance_entries e False) a = evm_balances e a"
  by (simp add: balance_entries_def lookup_entries)



text \<open>C29: \<open>effective_deals\<close> keeps exactly the addresses dealt to, each once, with the last
  amount.\<close>

theorem effective_deals_spec:
  "distinct (map fst (effective_deals e)) \<and> fst ` set (effective_deals e) = fst ` set (e_deals e)
   \<and> map_of (effective_deals e) = map_of (rev (e_deals e))"
  using effective_deals_last_wins by (auto simp: effective_deals_distinct effective_deals_addresses)

end
