(* ===== verification/Cheat.thy ===== *)
theory Cheat
  imports Gate Env
begin

text \<open>
  \<open>contest/reject_gate.py\<close>, the cheatcode scan: references to the Foundry cheatcode address,
  the handles declared from them, and the member calls a handle is allowed. The scan of \<open>src/\<close>
  bans every reference; the scan of \<open>test/\<close> mirrors the whitelisted calls with literal
  arguments into the \<open>EnvOverrides\<close> both engines run under.
\<close>

definition CHEAT_ADDR :: int where
  "CHEAT_ADDR = 0x7109709ECfa91a80626fF3989D68f67F5b1DD12D"

definition CHEAT_CODE_STRING :: string where
  "CHEAT_CODE_STRING = ''hevm cheat code''"

definition LOWLEVEL_CALLS :: "string list" where
  "LOWLEVEL_CALLS = [''call'', ''staticcall'', ''delegatecall'']"

definition is_cheat_ref :: "node \<Rightarrow> bool" where
  "is_cheat_ref d =
     (if nt_is d ''Literal'' then
        jget d ''kind'' = JStr ''string'' \<and> jget d ''value'' = JStr CHEAT_CODE_STRING
        \<or> literal_int (JObj d) = Some CHEAT_ADDR
      else if nt_is d ''FunctionCall'' \<or> nt_is d ''BinaryOperation'' \<or> nt_is d ''UnaryOperation'' then
        literal_int (JObj d) = Some CHEAT_ADDR
      else False)"

text \<open>The initializer a declaration node carries, with its path, and the names it declares.\<close>

definition decl_init :: "path \<times> node \<Rightarrow> (path \<times> json \<times> json list) option" where
  "decl_init x =
     (let (p, d) = x in
      if nt_is d ''VariableDeclaration'' \<and> jget d ''value'' \<noteq> JNull then
        Some (child_path p d ''value'', jget d ''value'', [jget d ''name''])
      else if nt_is d ''VariableDeclarationStatement'' \<and> jget d ''initialValue'' \<noteq> JNull then
        Some (child_path p d ''initialValue'', jget d ''initialValue'',
          map (\<lambda>j. jget (jobj j) ''name'') (filter is_obj (jlist (jget d ''declarations''))))
      else None)"

definition cheat_refs_under :: "path \<Rightarrow> json \<Rightarrow> path list" where
  "cheat_refs_under p j = map fst (filter (\<lambda>x. is_cheat_ref (snd x)) (walk p j))"

definition str_names :: "json list \<Rightarrow> string list" where
  "str_names js = concat (map (\<lambda>j. case j of JStr s \<Rightarrow> if s = [] then [] else [s] | _ \<Rightarrow> []) js)"

definition cheat_handles :: "json \<Rightarrow> string list \<times> path list" where
  "cheat_handles ast =
     fold (\<lambda>x (handles, sanctioned).
        case decl_init x of
          None \<Rightarrow> (handles, sanctioned)
        | Some (p, init, names) \<Rightarrow>
            (let refs = cheat_refs_under p init in
             if refs = [] then (handles, sanctioned)
             else (handles @ str_names names, sanctioned @ refs)))
       (iter_nodes ast) ([''vm'', ''hevm''], [])"

definition handle_member_call :: "node \<Rightarrow> string list \<Rightarrow> string option" where
  "handle_member_call d handles =
     (let callee = sub_obj d ''expression''; base = sub_obj callee ''expression'' in
      if nt_is d ''FunctionCall'' \<and> nt_is callee ''MemberAccess'' \<and> nt_is base ''Identifier''
         \<and> fld_in base ''name'' handles
      then (case jget callee ''memberName'' of JStr n \<Rightarrow> Some n | _ \<Rightarrow> None) else None)"

definition receiver_reaches_cheat :: "json \<Rightarrow> string list \<Rightarrow> bool" where
  "receiver_reaches_cheat recv handles \<longleftrightarrow>
     list_ex (\<lambda>d. is_cheat_ref d \<or> nt_is d ''Identifier'' \<and> fld_in d ''name'' handles) (nodes_of recv)"

record cheat_scan =
  c_banned :: "hit list"
  c_unmirrorable :: "hit list"
  c_overrides :: env

definition cheat_scan_empty :: cheat_scan where
  "cheat_scan_empty = \<lparr>c_banned = [], c_unmirrorable = [], c_overrides = env_default\<rparr>"

definition rejected :: "cheat_scan \<Rightarrow> bool" where
  "rejected sc \<longleftrightarrow> c_banned sc \<noteq> [] \<or> c_unmirrorable sc \<noteq> []"

definition ban :: "hit \<Rightarrow> cheat_scan \<Rightarrow> cheat_scan" where
  "ban h sc = sc\<lparr>c_banned := c_banned sc @ [h]\<rparr>"

definition unmirror :: "hit \<Rightarrow> cheat_scan \<Rightarrow> cheat_scan" where
  "unmirror h sc = sc\<lparr>c_unmirrorable := c_unmirrorable sc @ [h]\<rparr>"

text \<open>(1) cheat references outside a sanctioned declaration; (2) raw calls on a handle or the
  address.\<close>

definition scan_refs :: "source_ast \<Rightarrow> path list \<Rightarrow> cheat_scan \<Rightarrow> cheat_scan" where
  "scan_refs s sanctioned =
     fold (\<lambda>x sc. if is_cheat_ref (snd x) \<and> fst x \<notin> set sanctioned
        then ban (mk_hit ''CHEAT-ADDR'' s x
               (''reference to the Foundry cheatcode address outside a sanctioned vm-handle '' @
                ''declaration (aliasing / raw-call bypass); default-deny'') None) sc
        else sc) (iter_nodes (sa_ast s))"

definition is_raw_call :: "string list \<Rightarrow> node \<Rightarrow> bool" where
  "is_raw_call handles d \<longleftrightarrow>
     nt_is d ''FunctionCall'' \<and> nt_is (sub_obj d ''expression'') ''MemberAccess''
     \<and> fld_in (sub_obj d ''expression'') ''memberName'' LOWLEVEL_CALLS
     \<and> receiver_reaches_cheat (jget (sub_obj d ''expression'') ''expression'') handles"

definition scan_raw_calls :: "source_ast \<Rightarrow> string list \<Rightarrow> cheat_scan \<Rightarrow> cheat_scan" where
  "scan_raw_calls s handles =
     fold (\<lambda>x sc. if is_raw_call handles (snd x)
        then ban (mk_hit ''CHEAT-RAWCALL'' s x
               (''raw call to the cheatcode address (bypasses member dispatch); default-deny'') None) sc
        else sc) (iter_nodes (sa_ast s))"

text \<open>(3) a member call on a handle: \<open>setattr(scan.overrides, field, v)\<close>, the bounds, the deals.\<close>

definition set_override :: "string \<Rightarrow> int \<Rightarrow> env \<Rightarrow> env" where
  "set_override field v e =
     (if field = ''_sender'' then e\<lparr>e_sender := v\<rparr>
      else if field = ''number'' then e\<lparr>e_number := v\<rparr>
      else if field = ''timestamp'' then e\<lparr>e_timestamp := v\<rparr>
      else if field = ''chainid'' then e\<lparr>e_chainid := v\<rparr>
      else if field = ''basefee'' then e\<lparr>e_basefee := v\<rparr>
      else if field = ''prevrandao'' then e\<lparr>e_prevrandao := v\<rparr>
      else e)"

definition field_bits :: "string \<Rightarrow> nat" where
  "field_bits field =
     (if field \<in> {''number'', ''timestamp'', ''chainid''} then 64
      else if field = ''_sender'' then 160 else 256)"

definition in_domain :: "nat \<Rightarrow> int \<Rightarrow> bool" where
  "in_domain n v \<longleftrightarrow> 0 \<le> v \<and> v < 2 ^ n"

definition mirror_deal ::
  "source_ast \<Rightarrow> path \<times> node \<Rightarrow> string \<Rightarrow> json list \<Rightarrow> cheat_scan \<Rightarrow> cheat_scan" where
  "mirror_deal s x name args sc =
     (case map literal_int args of
        [Some a, Some amt] \<Rightarrow>
          if in_domain 160 a \<and> in_domain 256 amt
          then sc\<lparr>c_overrides := (c_overrides sc)\<lparr>e_deals := e_deals (c_overrides sc) @ [(a, amt)]\<rparr>\<rparr>
          else unmirror (mk_hit ''CHEAT-UNMIRROR'' s x (''.'' @ name @
                 '' args out of the mirrorable domain (address < 2^160, amount < 2^256)'') None) sc
      | _ \<Rightarrow> unmirror (mk_hit ''CHEAT-UNMIRROR'' s x (''.'' @ name @
               '' with non-literal args cannot be mirrored into the solidity-lean env'') None) sc)"

definition mirror_field ::
  "source_ast \<Rightarrow> path \<times> node \<Rightarrow> string \<Rightarrow> string \<Rightarrow> json list \<Rightarrow> cheat_scan \<Rightarrow> cheat_scan" where
  "mirror_field s x name field args sc =
     (case (case args of [] \<Rightarrow> None | a # as \<Rightarrow> literal_int a) of
        None \<Rightarrow> unmirror (mk_hit ''CHEAT-UNMIRROR'' s x (''.'' @ name @
                  '' with a non-literal argument cannot be mirrored into the solidity-lean env '' @
                  ''(v1 requires a literal)'') None) sc
      | Some v \<Rightarrow>
          if in_domain (field_bits field) v
          then sc\<lparr>c_overrides := set_override field v (c_overrides sc)\<rparr>
          else unmirror (mk_hit ''CHEAT-UNMIRROR'' s x (''.'' @ name @ '' argument '' @ show_int v @
                 '' out of the mirrorable domain [0, 2^'' @ show_int (int (field_bits field)) @ '')'')
                 None) sc)"

definition scan_member :: "source_ast \<Rightarrow> string list \<Rightarrow> path \<times> node \<Rightarrow> cheat_scan \<Rightarrow> cheat_scan" where
  "scan_member s handles x sc =
     (case handle_member_call (snd x) handles of
        None \<Rightarrow> sc
      | Some name \<Rightarrow>
          if name \<in> set CHEATCODE_IGNORE then sc
          else if name \<in> set LOWLEVEL_CALLS then sc
          else (case dget CHEATCODE_ALLOW name of
                  None \<Rightarrow> ban (mk_hit ''CHEAT-DENY'' s x (''banned cheatcode .'' @ name @
                            '' (default-deny; not on the env-pinning whitelist '' @
                            py_repr (JList (map JStr (sort (dkeys CHEATCODE_ALLOW)))) @ '')'') None) sc
                | Some field \<Rightarrow>
                    let args = jlist (jget (snd x) ''arguments'') in
                    if field = ''_noop'' then sc
                    else if field = ''_deal'' then mirror_deal s x name args sc
                    else mirror_field s x name field args sc))"

definition scan_source :: "bool \<Rightarrow> source_ast \<Rightarrow> cheat_scan \<Rightarrow> cheat_scan" where
  "scan_source is_test s sc =
     (let (handles, sanctioned) =
            if is_test then cheat_handles (sa_ast s) else ([''vm'', ''hevm''], []);
          sc1 = scan_refs s sanctioned sc;
          sc2 = scan_raw_calls s handles sc1
      in if \<not> is_test then sc2 else fold (scan_member s handles) (iter_nodes (sa_ast s)) sc2)"

definition scan_cheatcodes :: "source_ast list \<Rightarrow> bool \<Rightarrow> cheat_scan" where
  "scan_cheatcodes asts is_test = fold (scan_source is_test) asts cheat_scan_empty"

definition scan_test_cheatcodes :: "source_ast list \<Rightarrow> cheat_scan" where
  "scan_test_cheatcodes asts = scan_cheatcodes asts True"

definition scan_src_cheatcodes :: "source_ast list \<Rightarrow> cheat_scan" where
  "scan_src_cheatcodes asts = scan_cheatcodes asts False"

end
