(* ===== verification/GateProps.thy ===== *)
theory GateProps
  imports Gate
begin

text \<open>
  What the reject gate guarantees. The locale \<open>node_detector\<close> is the contract of a detector:
  it fires iff some node of the source is flagged, and its hits name the source, the contract
  and the location of such a node. Every detector of the dispatch tables interprets it.
\<close>

section \<open>The contract of a detector\<close>

definition located :: "string \<Rightarrow> source_ast \<Rightarrow> path \<times> node \<Rightarrow> hit \<Rightarrow> bool" where
  "located i s x h \<longleftrightarrow>
     h_id h = i \<and> h_source h = sa_source s
     \<and> h_contract h = enclosing_contract_name (sa_ast s) (fst x) \<and> h_node_src h = node_src (snd x)"

locale node_detector =
  fixes detect :: "entry \<Rightarrow> source_ast \<Rightarrow> hit list"
    and flag :: "source_ast \<Rightarrow> path \<times> node \<Rightarrow> bool"
  assumes covers: "x \<in> set (iter_nodes (sa_ast s)) \<Longrightarrow> flag s x \<Longrightarrow> detect e s \<noteq> []"
    and sound: "h \<in> set (detect e s) \<Longrightarrow>
      \<exists>x \<in> set (iter_nodes (sa_ast s)). flag s x \<and> located (x_id e) s x h"
begin

lemma silent_iff: "detect e s = [] \<longleftrightarrow> (\<forall>x \<in> set (iter_nodes (sa_ast s)). \<not> flag s x)"
proof (cases "detect e s")
  case Nil
  then show ?thesis using covers by blast
next
  case (Cons h hs)
  then show ?thesis using sound [of h e s] by auto
qed

lemma submission_silent_iff:
  "concat (map (detect e) srcs) = [] \<longleftrightarrow>
     (\<forall>s \<in> set srcs. \<forall>x \<in> set (iter_nodes (sa_ast s)). \<not> flag s x)"
  by (simp add: silent_iff)

lemma submission_hits:
  "h \<in> set (concat (map (detect e) srcs)) \<Longrightarrow>
     \<exists>s \<in> set srcs. \<exists>x \<in> set (iter_nodes (sa_ast s)). flag s x \<and> located (x_id e) s x h"
  using sound by fastforce

end

lemma flag_nodes_Nil: "flag_nodes f e s = [] \<longleftrightarrow> (\<forall>x \<in> set (iter_nodes (sa_ast s)). f x = None)"
  by (auto simp: flag_nodes_def split: option.splits)

lemma flag_nodes_hit:
  "h \<in> set (flag_nodes f e s) \<Longrightarrow>
     \<exists>x \<in> set (iter_nodes (sa_ast s)). f x \<noteq> None \<and> located (x_id e) s x h"
proof -
  assume "h \<in> set (flag_nodes f e s)"
  then obtain x where x: "x \<in> set (iter_nodes (sa_ast s))"
    and h: "h \<in> set (case f x of None \<Rightarrow> [] | Some what \<Rightarrow> [mk_hit (x_id e) s x what None])"
    by (auto simp only: flag_nodes_def set_concat set_map)
  from h have "f x \<noteq> None \<and> located (x_id e) s x h"
    by (cases "f x") (simp_all add: mk_hit_def located_def)
  with x show ?thesis by blast
qed

lemma flag_nodes_detector:
  "(\<And>s x. flag s x \<longleftrightarrow> f s x \<noteq> None) \<Longrightarrow> node_detector (\<lambda>e s. flag_nodes (f s) e s) flag"
  by unfold_locales (use flag_nodes_hit in \<open>fastforce simp: flag_nodes_Nil\<close>)+

lemma if_flag_iff [simp]: "if_flag P x = None \<longleftrightarrow> \<not> P (snd x)"
  by (simp add: if_flag_def)

lemma flag_pred_detector: "node_detector (flag_nodes (if_flag P)) (\<lambda>s x. P (snd x))"
  using flag_nodes_detector [of "\<lambda>s x. P (snd x)" "\<lambda>s. if_flag P"] by simp

text \<open>A taint scan flags its nodes only in a source that observes something.\<close>

definition tainted_node :: "(node \<Rightarrow> bool) \<Rightarrow> source_ast \<Rightarrow> path \<times> node \<Rightarrow> bool" where
  "tainted_node P s x \<longleftrightarrow> P (snd x) \<and> observed_functions (sa_ast s) \<noteq> []"

lemma taint_scan_detector:
  "node_detector (\<lambda>e s. whole_source_taint_scan e s P l) (tainted_node P)"
  by unfold_locales
    (auto simp: whole_source_taint_scan_def tainted_node_def filter_empty_conv mk_hit_def
      located_def Let_def split: if_splits)

lemma presence_detector:
  "node_detector (\<lambda>e s. presence_scan e s sp) (\<lambda>s x. tainted_predicate sp (snd x))"
  unfolding presence_scan_def by (rule flag_nodes_detector) simp

interpretation asm: node_detector detect_inline_assembly "\<lambda>s x. is_inline_assembly (snd x)"
  unfolding detect_inline_assembly_def by (rule flag_pred_detector)

interpretation import_dir: node_detector detect_import_directive
  "\<lambda>s x. nt_is (snd x) ''ImportDirective''"
  unfolding detect_import_directive_def by (rule flag_pred_detector)

interpretation gasleft: node_detector detect_gasleft "\<lambda>s x. is_gasleft (snd x)"
  unfolding detect_gasleft_def by (rule flag_pred_detector)

interpretation msize: node_detector detect_msize
  "\<lambda>s x. nt_yul (snd x) \<and> jget (snd x) ''name'' = JStr ''msize''"
  unfolding detect_msize_def by (rule flag_pred_detector)

interpretation layout: node_detector detect_storage_layout_specifier
  "\<lambda>s x. nt_is (snd x) ''StorageLayoutSpecifier''"
  unfolding detect_storage_layout_specifier_def by (rule flag_pred_detector)

interpretation fixed_point: node_detector detect_executable_fixed_point
  "\<lambda>s x. is_fixed_point_op (snd x)"
  unfolding detect_executable_fixed_point_def by (rule flag_pred_detector)

definition external_node :: "string option \<Rightarrow> source_ast \<Rightarrow> path \<times> node \<Rightarrow> bool" where
  "external_node v s x \<longleftrightarrow> external_call_what v (option_wrapped (sa_ast s)) x \<noteq> None"

interpretation extcall: node_detector "\<lambda>e s. detect_external_call e s v" "external_node v" for v
  unfolding detect_external_call_def by (rule flag_nodes_detector) (simp add: external_node_def)

interpretation gas_obs: node_detector detect_gas_observable
  "tainted_node (tainted_predicate GAS_SPEC)"
  unfolding detect_gas_observable_def semantic_taint_scan_def by (rule taint_scan_detector)

interpretation code_obs: node_detector detect_creationcode_observable
  "\<lambda>s x. tainted_predicate CODE_SPEC (snd x)"
  unfolding detect_creationcode_observable_def by (rule presence_detector)

interpretation create2_obs: node_detector detect_create2_address_observable
  "tainted_node is_salt_option"
  unfolding detect_create2_address_observable_def by (rule taint_scan_detector)

interpretation env_obs: node_detector detect_env_observable
  "\<lambda>s x. tainted_predicate ENV_SPEC (snd x)"
  unfolding detect_env_observable_def by (rule presence_detector)

interpretation closed_gas_obs: node_detector detect_closed_world_gas_observable
  "tainted_node is_stipend_or_gas_option"
  unfolding detect_closed_world_gas_observable_def by (rule taint_scan_detector)

section \<open>The specification of the gate\<close>

text \<open>The nodes a row excludes, by the name of its detector: a row whose detector is in no
  table (the channel rows, which the adjudicator applies) excludes none.\<close>

definition excluded_table :: "string \<Rightarrow> (string \<times> (source_ast \<Rightarrow> path \<times> node \<Rightarrow> bool)) list" where
  "excluded_table v =
     [(''detect_inline_assembly'', \<lambda>s x. is_inline_assembly (snd x)),
      (''detect_import_directive'', \<lambda>s x. nt_is (snd x) ''ImportDirective''),
      (''detect_gasleft'', \<lambda>s x. is_gasleft (snd x)),
      (''detect_msize'', \<lambda>s x. nt_yul (snd x) \<and> jget (snd x) ''name'' = JStr ''msize''),
      (''detect_storage_layout_specifier'', \<lambda>s x. nt_is (snd x) ''StorageLayoutSpecifier''),
      (''detect_executable_fixed_point'', \<lambda>s x. is_fixed_point_op (snd x)),
      (''detect_external_call'', external_node (Some v)),
      (''detect_gas_observable'', tainted_node (tainted_predicate GAS_SPEC)),
      (''detect_creationcode_observable'', \<lambda>s x. tainted_predicate CODE_SPEC (snd x)),
      (''detect_create2_address_observable'', tainted_node is_salt_option),
      (''detect_closed_world_gas_observable'', tainted_node is_stipend_or_gas_option),
      (''detect_env_observable'', \<lambda>s x. tainted_predicate ENV_SPEC (snd x))]"

definition excludes :: "entry \<Rightarrow> string \<Rightarrow> source_ast \<Rightarrow> path \<times> node \<Rightarrow> bool" where
  "excludes e v s x =
     (case dget (excluded_table v) (x_detector e) of None \<Rightarrow> False | Some P \<Rightarrow> P s x)"

definition row_hits_syn :: "string \<Rightarrow> source_ast list \<Rightarrow> entry \<Rightarrow> hit list" where
  "row_hits_syn v srcs e = (case dget SYNTACTIC_DETECTORS (x_detector e) of
     None \<Rightarrow> [] | Some det \<Rightarrow> concat (map (\<lambda>s. det e s (Some v)) srcs))"

definition row_hits_sem :: "source_ast list \<Rightarrow> entry \<Rightarrow> hit list" where
  "row_hits_sem srcs e = (case dget SEMANTIC_DETECTORS (x_detector e) of
     None \<Rightarrow> [] | Some det \<Rightarrow> concat (map (det e) srcs))"

lemmas table_defs = excluded_table_def SYNTACTIC_DETECTORS_def SEMANTIC_DETECTORS_def

lemmas detectors =
  asm.node_detector_axioms import_dir.node_detector_axioms gasleft.node_detector_axioms
  msize.node_detector_axioms layout.node_detector_axioms fixed_point.node_detector_axioms
  extcall.node_detector_axioms gas_obs.node_detector_axioms code_obs.node_detector_axioms
  create2_obs.node_detector_axioms env_obs.node_detector_axioms closed_gas_obs.node_detector_axioms

text \<open>Every entry of a table is a detector for the nodes the specification lists; a row with
  no entry excludes nothing.\<close>

lemma syn_table:
  "dget SYNTACTIC_DETECTORS d = Some det \<Longrightarrow>
     \<exists>P. dget (excluded_table v) d = Some P \<and> node_detector (\<lambda>e s. det e s (Some v)) P"
  unfolding table_defs by (simp split: if_splits) (auto intro: detectors)

lemma sem_table:
  "dget SEMANTIC_DETECTORS d = Some det \<Longrightarrow>
     \<exists>P. dget (excluded_table v) d = Some P \<and> node_detector det P"
  unfolding table_defs by (simp split: if_splits) (auto intro: detectors)

lemma syn_no_tables:
  "list_all (\<lambda>e. dget SYNTACTIC_DETECTORS (x_detector e) = None \<longrightarrow>
     dget (excluded_table v) (x_detector e) = None) SYNTACTIC"
  unfolding SYNTACTIC_def row_defs table_defs by simp

lemma sem_no_tables:
  "list_all (\<lambda>e. dget SEMANTIC_DETECTORS (x_detector e) = None \<longrightarrow>
     dget (excluded_table v) (x_detector e) = None) SEMANTIC"
  unfolding SEMANTIC_def row_defs table_defs by simp

lemma syn_no_table:
  "e \<in> set SYNTACTIC \<Longrightarrow> dget SYNTACTIC_DETECTORS (x_detector e) = None \<Longrightarrow>
     dget (excluded_table v) (x_detector e) = None"
  using syn_no_tables [of v] by (simp add: list_all_iff)

lemma sem_no_table:
  "e \<in> set SEMANTIC \<Longrightarrow> dget SEMANTIC_DETECTORS (x_detector e) = None \<Longrightarrow>
     dget (excluded_table v) (x_detector e) = None"
  using sem_no_tables [of v] by (simp add: list_all_iff)

lemma row_syn_silent:
  assumes "e \<in> set SYNTACTIC"
  shows "row_hits_syn v srcs e = [] \<longleftrightarrow>
     (\<forall>s \<in> set srcs. \<forall>x \<in> set (iter_nodes (sa_ast s)). \<not> excludes e v s x)"
proof (cases "dget SYNTACTIC_DETECTORS (x_detector e)")
  case None
  with syn_no_table [OF assms None] show ?thesis by (simp add: row_hits_syn_def excludes_def)
next
  case (Some det)
  then obtain P where P: "dget (excluded_table v) (x_detector e) = Some P"
    and D: "node_detector (\<lambda>e s. det e s (Some v)) P" using syn_table by blast
  show ?thesis unfolding row_hits_syn_def excludes_def Some P option.case
    by (rule node_detector.submission_silent_iff [OF D])
qed

lemma row_sem_silent:
  assumes "e \<in> set SEMANTIC"
  shows "row_hits_sem srcs e = [] \<longleftrightarrow>
     (\<forall>s \<in> set srcs. \<forall>x \<in> set (iter_nodes (sa_ast s)). \<not> excludes e v s x)"
proof (cases "dget SEMANTIC_DETECTORS (x_detector e)")
  case None
  with sem_no_table [OF assms None] show ?thesis by (simp add: row_hits_sem_def excludes_def)
next
  case (Some det)
  then obtain P where P: "dget (excluded_table v) (x_detector e) = Some P"
    and D: "node_detector det P" using sem_table by blast
  show ?thesis unfolding row_hits_sem_def excludes_def Some P option.case
    by (rule node_detector.submission_silent_iff [OF D])
qed

lemma row_syn_hits:
  assumes "h \<in> set (row_hits_syn v srcs e)"
  shows "\<exists>s \<in> set srcs. \<exists>x \<in> set (iter_nodes (sa_ast s)).
           excludes e v s x \<and> located (x_id e) s x h"
proof (cases "dget SYNTACTIC_DETECTORS (x_detector e)")
  case (Some det)
  then obtain P where P: "dget (excluded_table v) (x_detector e) = Some P"
    and D: "node_detector (\<lambda>e s. det e s (Some v)) P" using syn_table by blast
  from assms show ?thesis unfolding row_hits_syn_def excludes_def Some P option.case
    by (rule node_detector.submission_hits [OF D])
qed (use assms in \<open>simp add: row_hits_syn_def\<close>)

lemma row_sem_hits:
  assumes "h \<in> set (row_hits_sem srcs e)"
  shows "\<exists>s \<in> set srcs. \<exists>x \<in> set (iter_nodes (sa_ast s)).
           excludes e v s x \<and> located (x_id e) s x h"
proof (cases "dget SEMANTIC_DETECTORS (x_detector e)")
  case (Some det)
  then obtain P where P: "dget (excluded_table v) (x_detector e) = Some P"
    and D: "node_detector det P" using sem_table by blast
  from assms show ?thesis unfolding row_hits_sem_def excludes_def Some P option.case
    by (rule node_detector.submission_hits [OF D])
qed (use assms in \<open>simp add: row_hits_sem_def\<close>)

lemma gate_verdict_hits:
  "gv_hits (if hits \<noteq> [] then \<lparr>gv_verdict = a, gv_version = v, gv_hits = hits\<rparr>
     else \<lparr>gv_verdict = b, gv_version = v, gv_hits = []\<rparr>) = hits"
  by simp

lemma run_gate_hits:
  "gv_hits (run_gate_on_asts srcs multi at_version) =
     (let v = effective_version at_version in
      concat (map (row_hits_syn v srcs) (syntactic_entries (Some v))) @
      concat (map (row_hits_sem srcs) (semantic_entries (Some v))) @
      (if multi then detect_v1_multi srcs else []))"
  unfolding run_gate_on_asts_def row_hits_syn_def [abs_def] row_hits_sem_def [abs_def] Let_def
  by (rule gate_verdict_hits)

lemma gate_verdict_pass:
  "is_pass (if hits \<noteq> [] then \<lparr>gv_verdict = ''OUT_OF_SCOPE'', gv_version = v, gv_hits = hits\<rparr>
     else \<lparr>gv_verdict = ''PASS'', gv_version = v, gv_hits = []\<rparr>) \<longleftrightarrow> hits = []"
  by (simp add: is_pass_def)

lemma run_gate_pass:
  "is_pass (run_gate_on_asts srcs multi at_version) \<longleftrightarrow>
     gv_hits (run_gate_on_asts srcs multi at_version) = []"
  unfolding run_gate_on_asts_def Let_def gate_verdict_pass gate_verdict_hits ..

lemma run_gate_version:
  "gv_version (run_gate_on_asts srcs multi at_version) = effective_version at_version"
  by (simp add: run_gate_on_asts_def Let_def)

lemma v1_multi_silent: "detect_v1_multi srcs = [] \<longleftrightarrow> length (deployable srcs) \<le> 1"
  by (auto simp: detect_v1_multi_def Let_def)

lemma gate_pass_rule:
  "is_pass (run_gate_on_asts srcs multi at_version) \<longleftrightarrow>
     (\<forall>e \<in> set (all_entries False (Some (effective_version at_version))).
        \<forall>s \<in> set srcs. \<forall>x \<in> set (iter_nodes (sa_ast s)).
          \<not> excludes e (effective_version at_version) s x)
     \<and> (multi \<longrightarrow> length (deployable srcs) \<le> 1)"
  unfolding run_gate_pass run_gate_hits Let_def append_is_Nil_conv concat_eq_Nil_conv
  by (auto simp: all_entries_def syntactic_entries_def semantic_entries_def v1_multi_silent
      row_syn_silent row_sem_silent [of _ _ "effective_version at_version"])

text \<open>The live gate, row by row, for evaluation on a concrete submission.\<close>

definition live_silent :: "source_ast \<Rightarrow> bool" where
  "live_silent s \<longleftrightarrow>
     detect_inline_assembly X_ASM s = [] \<and> detect_import_directive X_IMPORT s = []
     \<and> detect_gasleft X_GASLEFT s = [] \<and> detect_msize X_MSIZE s = []
     \<and> detect_storage_layout_specifier X_STORAGELAYOUT s = []
     \<and> detect_external_call X_EXTCALL s None = []
     \<and> detect_gas_observable SEM_GAS s = [] \<and> detect_creationcode_observable SEM_CODE s = []
     \<and> detect_create2_address_observable SEM_ADDR s = [] \<and> detect_env_observable SEM_ENV s = []
     \<and> detect_closed_world_gas_observable SEM_CLOSEDGAS s = []"

lemma carved_out_live: "carved_out (Some REGISTER_VERSION) = carved_out None"
  by (intro ext) (simp add: carved_out_def precompile_carveout_def REGISTER_VERSION_def
      register_versions)

lemma external_call_live:
  "detect_external_call e s (Some REGISTER_VERSION) = detect_external_call e s None"
  unfolding detect_external_call_def external_call_what_def [abs_def] carved_out_live ..

lemma gate_pass_live:
  "is_pass (run_gate_on_asts srcs multi None) \<longleftrightarrow>
     (\<forall>s \<in> set srcs. live_silent s) \<and> (multi \<longrightarrow> length (deployable srcs) \<le> 1)"
proof -
  have syn: "concat (map (row_hits_syn REGISTER_VERSION srcs) (syntactic_entries (Some REGISTER_VERSION))) = []
    \<longleftrightarrow> (\<forall>s \<in> set srcs. detect_inline_assembly X_ASM s = [] \<and> detect_import_directive X_IMPORT s = []
          \<and> detect_gasleft X_GASLEFT s = [] \<and> detect_msize X_MSIZE s = []
          \<and> detect_storage_layout_specifier X_STORAGELAYOUT s = []
          \<and> detect_external_call X_EXTCALL s None = [])"
    unfolding live_rows external_call_live [symmetric]
    by (simp add: row_hits_syn_def SYNTACTIC_DETECTORS_def row_defs) blast
  have sem: "concat (map (row_hits_sem srcs) (semantic_entries (Some REGISTER_VERSION))) = []
    \<longleftrightarrow> (\<forall>s \<in> set srcs. detect_gas_observable SEM_GAS s = []
          \<and> detect_creationcode_observable SEM_CODE s = []
          \<and> detect_create2_address_observable SEM_ADDR s = [] \<and> detect_env_observable SEM_ENV s = []
          \<and> detect_closed_world_gas_observable SEM_CLOSEDGAS s = [])"
    unfolding live_rows SEMANTIC_def
    by (simp add: row_hits_sem_def SEMANTIC_DETECTORS_def row_defs) blast
  show ?thesis
    unfolding run_gate_pass run_gate_hits Let_def append_is_Nil_conv effective_version_def
      option.case syn sem
    by (auto simp: live_silent_def v1_multi_silent)
qed

text \<open>Concrete submissions.\<close>

definition tnode :: "string \<Rightarrow> (string \<times> json) list \<Rightarrow> json" where
  "tnode t fs = JObj ((''nodeType'', JStr t) # fs)"

definition contract_ast :: "int \<Rightarrow> int list \<Rightarrow> string \<Rightarrow> json list \<Rightarrow> json" where
  "contract_ast i bases nm members =
     tnode ''ContractDefinition''
        [(''id'', JInt i), (''name'', JStr nm), (''contractKind'', JStr ''contract''),
         (''linearizedBaseContracts'', JList (map JInt (i # bases))), (''nodes'', JList members)]"

definition unit_ast :: "string \<Rightarrow> json list \<Rightarrow> source_ast" where
  "unit_ast nm contracts = \<lparr>sa_source = nm, sa_ast = tnode ''SourceUnit'' [(''nodes'', JList contracts)]\<rparr>"

definition fn_ast :: "json list \<Rightarrow> json" where
  "fn_ast stmts = tnode ''FunctionDefinition''
     [(''name'', JStr ''f''), (''body'', tnode ''Block'' [(''statements'', JList stmts)])]"

definition named_return_src :: source_ast where
  "named_return_src = unit_ast ''a.sol'' [contract_ast 9 [] ''C'' [fn_ast
     [tnode ''ExpressionStatement'' [(''expression'', tnode ''Assignment''
        [(''leftHandSide'', tnode ''Identifier'' [(''name'', JStr ''r'')]),
         (''rightHandSide'', tnode ''MemberAccess'' [(''memberName'', JStr ''gasprice''),
            (''expression'', tnode ''Identifier'' [(''name'', JStr ''tx'')])])])]]]]"
definition folded_call_src :: source_ast where
  "folded_call_src = unit_ast ''b.sol'' [contract_ast 9 [] ''C'' [fn_ast
     [tnode ''ExpressionStatement'' [(''expression'', tnode ''FunctionCall''
        [(''arguments'', JList [tnode ''Literal'' [(''kind'', JStr ''string''), (''value'', JStr [])]]),
         (''expression'', tnode ''MemberAccess'' [(''memberName'', JStr ''staticcall''),
            (''expression'', tnode ''FunctionCall''
               [(''arguments'', JList [tnode ''Literal'' [(''kind'', JStr ''number''), (''value'', JStr ''1'')]]),
                (''expression'', tnode ''Identifier'' [(''name'', JStr ''target'')])])])])]]]]"

definition collision_srcs :: "source_ast list" where
  "collision_srcs =
     [unit_ast ''a.sol'' [contract_ast 3 [] ''A'' []],
      unit_ast ''b.sol'' [contract_ast 3 [] ''P'' [], contract_ast 5 [3] ''Q'' []]]"

definition assembly_src :: source_ast where
  "assembly_src = unit_ast ''c.sol'' [tnode ''InlineAssembly'' []]"

section \<open>Properties\<close>

lemma gate_hits_rule:
  assumes h: "h \<in> set (gv_hits (run_gate_on_asts srcs multi at_version))"
  defines "v \<equiv> effective_version at_version"
  shows "(\<exists>e \<in> set (all_entries False (Some v)). \<exists>s \<in> set srcs. \<exists>x \<in> set (iter_nodes (sa_ast s)).
            excludes e v s x \<and> located (x_id e) s x h)
         \<or> (multi \<and> h_id h = ''V1-MULTI'' \<and> h_source h \<in> sa_source ` set srcs)"
proof -
  from h consider
    (syn) e where "e \<in> set (syntactic_entries (Some v))" "h \<in> set (row_hits_syn v srcs e)"
  | (sem) e where "e \<in> set (semantic_entries (Some v))" "h \<in> set (row_hits_sem srcs e)"
  | (multi) "multi" "h \<in> set (detect_v1_multi srcs)"
    unfolding run_gate_hits Let_def v_def [symmetric] by (auto split: if_splits)
  then show ?thesis
  proof cases
    case (syn e)
    then have "e \<in> set (all_entries False (Some v))"
      by (simp add: syntactic_entries_def all_entries_def)
    with row_syn_hits [OF syn(2)] show ?thesis by blast
  next
    case (sem e)
    then have "e \<in> set (all_entries False (Some v))"
      by (simp add: semantic_entries_def all_entries_def)
    with row_sem_hits [OF sem(2), of v] show ?thesis by blast
  next
    case multi
    then show ?thesis
      by (auto simp: detect_v1_multi_def deployable_def Let_def split: if_splits)
  qed
qed


lemma assembly_src_excluded:
  "X_ASM \<in> set (all_entries False (Some (effective_version None)))"
  "assembly_src \<in> set [named_return_src, assembly_src]"
  "([1, 0], [(''nodeType'', JStr ''InlineAssembly'')]) \<in> set (iter_nodes (sa_ast assembly_src))"
  "excludes X_ASM (effective_version None) assembly_src ([1, 0], [(''nodeType'', JStr ''InlineAssembly'')])"
proof -
  have "X_ASM \<in> set (syntactic_entries (Some REGISTER_VERSION))" unfolding live_rows by simp
  then show "X_ASM \<in> set (all_entries False (Some (effective_version None)))"
    by (simp add: effective_version_def all_entries_def syntactic_entries_def)
  show "assembly_src \<in> set [named_return_src, assembly_src]" by simp
  show "([1, 0], [(''nodeType'', JStr ''InlineAssembly'')]) \<in> set (iter_nodes (sa_ast assembly_src))"
    by code_simp
  show "excludes X_ASM (effective_version None) assembly_src ([1, 0], [(''nodeType'', JStr ''InlineAssembly'')])"
    by (simp add: excludes_def excluded_table_def row_defs is_inline_assembly_def nt_is_def jget_def
        dget_or_def)
qed


text \<open>Every hit of the verdict names a row in force at the version the verdict records (or
  the single-contract guard, when it is enforced), a source of the submission, and the contract
  and location of a node of that source which the row excludes.\<close>

theorem gate_hits_located:
  assumes "v = run_gate_on_asts srcs multi at_version" and "h \<in> set (gv_hits v)"
  shows "(\<exists>e \<in> set (all_entries False (Some (gv_version v))). \<exists>s \<in> set srcs.
            \<exists>x \<in> set (iter_nodes (sa_ast s)).
              excludes e (gv_version v) s x \<and> h_id h = x_id e \<and> h_source h = sa_source s
              \<and> h_contract h = enclosing_contract_name (sa_ast s) (fst x)
              \<and> h_node_src h = node_src (snd x))
         \<or> (multi \<and> h_id h = ''V1-MULTI'' \<and> h_source h \<in> sa_source ` set srcs)"
  using gate_hits_rule [of h srcs multi at_version] assms
  unfolding located_def by (simp add: run_gate_version)

lemma assembly_src_hits:
  "\<exists>h. h \<in> set (gv_hits (run_gate_on_asts [assembly_src] False None))"
proof -
  have "\<not> is_pass (run_gate_on_asts [assembly_src] False None)"
    unfolding gate_pass_rule using assembly_src_excluded by auto
  then show ?thesis unfolding run_gate_pass by (metis list.set_intros(1) neq_Nil_conv)
qed

theorem gate_hits_located_witness:
  "\<exists>h \<in> set (gv_hits (run_gate_on_asts [assembly_src] False None)). h_source h = ''c.sol''"
proof -
  obtain h where h: "h \<in> set (gv_hits (run_gate_on_asts [assembly_src] False None))"
    using assembly_src_hits by blast
  with gate_hits_located [OF refl h] show ?thesis
    by (auto simp: assembly_src_def unit_ast_def)
qed

text \<open>Three submissions the live gate passes. A tainted quantity assigned to a named return
  variable is in no observed position. A call of any function with one literal argument 1..10 folds
  to a precompile receiver, so \<open>target(1).staticcall("")\<close> is carved out of X-EXTCALL. Node
  identifiers are per compilation, so a contract of one source is taken for the base of a
  contract of another, and two deployable contracts pass the single-contract guard.\<close>

theorem gate_escapes:
  "is_pass (run_gate_on_asts [named_return_src] True None)
   \<and> is_pass (run_gate_on_asts [folded_call_src] True None)
   \<and> is_pass (run_gate_on_asts collision_srcs True None)
   \<and> map (\<lambda>s. length (deployable [s])) collision_srcs = [1, 1]"
proof -
  have silent: "\<forall>s \<in> set [named_return_src]. live_silent s" "\<forall>s \<in> set [folded_call_src]. live_silent s"
    "\<forall>s \<in> set collision_srcs. live_silent s"
    unfolding list_all_iff [symmetric] by code_simp+
  have few: "length (deployable [named_return_src]) \<le> 1" "length (deployable [folded_call_src]) \<le> 1"
    "length (deployable collision_srcs) \<le> 1"
    "map (\<lambda>s. length (deployable [s])) collision_srcs = [1, 1]"
    by code_simp+
  show ?thesis unfolding gate_pass_live using silent few by blast
qed

end
