(* ===== verification/CheatProps.thy ===== *)
theory CheatProps
  imports Cheat GateProps
begin

text \<open>
  What the cheatcode scan guarantees. Every loop of the scan is a \<open>scan_stage\<close>: a step rejects
  exactly when its element is bad, a rejection is never undone, and the mirrored environment
  stays in the domain both engines can represent.
\<close>

text \<open>The domain of the mirrored environment.\<close>

definition env_ok :: "env \<Rightarrow> bool" where
  "env_ok e \<longleftrightarrow>
     in_domain 64 (e_number e) \<and> in_domain 64 (e_timestamp e) \<and> in_domain 64 (e_chainid e)
     \<and> in_domain 256 (e_basefee e) \<and> in_domain 256 (e_prevrandao e) \<and> in_domain 160 (e_sender e)
     \<and> list_all (\<lambda>(a, amt). in_domain 160 a \<and> in_domain 256 amt) (e_deals e)"

locale scan_stage =
  fixes step :: "'x \<Rightarrow> cheat_scan \<Rightarrow> cheat_scan"
    and bad :: "'x \<Rightarrow> bool"
  assumes rejects: "rejected (step x sc) \<longleftrightarrow> rejected sc \<or> bad x"
    and keeps: "env_ok (c_overrides sc) \<Longrightarrow> env_ok (c_overrides (step x sc))"
begin

lemma fold_rejects: "rejected (fold step xs sc) \<longleftrightarrow> rejected sc \<or> (\<exists>x \<in> set xs. bad x)"
  by (induction xs arbitrary: sc) (auto simp: rejects)

lemma fold_keeps: "env_ok (c_overrides sc) \<Longrightarrow> env_ok (c_overrides (fold step xs sc))"
  by (induction xs arbitrary: sc) (auto simp: keeps)

end

lemma rejected_add [simp]: "rejected (ban h sc)" "rejected (unmirror h sc)"
  by (simp_all add: rejected_def ban_def unmirror_def)

lemma overrides_add [simp]:
  "c_overrides (ban h sc) = c_overrides sc" "c_overrides (unmirror h sc) = c_overrides sc"
  by (simp_all add: ban_def unmirror_def)

lemma rejected_overrides [simp]: "rejected (sc\<lparr>c_overrides := e\<rparr>) = rejected sc"
  by (simp add: rejected_def)

interpretation ban_stage: scan_stage "\<lambda>x sc. if P x then ban (m x) sc else sc" P for P m
  by unfold_locales auto

section \<open>Member calls\<close>

text \<open>The calls on a handle that are mirrored or ignored; all others are rejected.\<close>

definition mirrored_args :: "string \<Rightarrow> json list \<Rightarrow> bool" where
  "mirrored_args field args \<longleftrightarrow>
     field = ''_noop''
     \<or> field = ''_deal'' \<and> (case map literal_int args of
          [Some a, Some amt] \<Rightarrow> in_domain 160 a \<and> in_domain 256 amt | _ \<Rightarrow> False)
     \<or> field \<notin> {''_noop'', ''_deal''} \<and> (case map literal_int args of
          Some v # _ \<Rightarrow> in_domain (field_bits field) v | _ \<Rightarrow> False)"

definition bad_member :: "string list \<Rightarrow> path \<times> node \<Rightarrow> bool" where
  "bad_member handles x =
     (case handle_member_call (snd x) handles of
        None \<Rightarrow> False
      | Some name \<Rightarrow> name \<notin> set CHEATCODE_IGNORE \<and> name \<notin> set LOWLEVEL_CALLS
          \<and> (case dget CHEATCODE_ALLOW name of
               None \<Rightarrow> True
             | Some field \<Rightarrow> \<not> mirrored_args field (jlist (jget (snd x) ''arguments''))))"

lemma mirror_deal_rejects:
  "rejected (mirror_deal s x name args sc) \<longleftrightarrow> rejected sc \<or> \<not> mirrored_args ''_deal'' args"
proof -
  obtain l where l: "map literal_int args = l" by simp
  show ?thesis unfolding mirror_deal_def mirrored_args_def l
    by (simp split: list.split option.split)
qed

lemma mirror_field_rejects:
  "field \<notin> {''_noop'', ''_deal''} \<Longrightarrow>
     rejected (mirror_field s x name field args sc) \<longleftrightarrow> rejected sc \<or> \<not> mirrored_args field args"
  by (cases args) (auto simp: mirror_field_def mirrored_args_def split: option.splits)

lemma mirror_deal_keeps:
  "env_ok (c_overrides sc) \<Longrightarrow> env_ok (c_overrides (mirror_deal s x name args sc))"
proof -
  assume ok: "env_ok (c_overrides sc)"
  obtain l where l: "map literal_int args = l" by simp
  have "in_domain 160 a \<Longrightarrow> in_domain 256 amt \<Longrightarrow>
      env_ok ((c_overrides sc)\<lparr>e_deals := e_deals (c_overrides sc) @ [(a, amt)]\<rparr>)" for a amt
    using ok by (simp add: env_ok_def)
  with ok show ?thesis unfolding mirror_deal_def l by (simp split: list.split option.split)
qed

lemma set_override_ok: "env_ok e \<Longrightarrow> in_domain (field_bits field) v \<Longrightarrow> env_ok (set_override field v e)"
  by (simp add: set_override_def field_bits_def env_ok_def split: if_split_asm)
    (elim disjE; simp)

lemma mirror_field_keeps:
  "env_ok (c_overrides sc) \<Longrightarrow> env_ok (c_overrides (mirror_field s x name field args sc))"
  by (auto simp: mirror_field_def set_override_ok split: option.splits)

interpretation member_stage: scan_stage "scan_member s handles" "bad_member handles" for s handles
proof
  fix x sc
  show "rejected (scan_member s handles x sc) \<longleftrightarrow> rejected sc \<or> bad_member handles x"
    by (auto simp: scan_member_def bad_member_def Let_def mirror_deal_rejects mirror_field_rejects
        mirrored_args_def [of "''_noop''"] split: option.splits)
  show "env_ok (c_overrides sc) \<Longrightarrow> env_ok (c_overrides (scan_member s handles x sc))"
    by (auto simp: scan_member_def Let_def mirror_deal_keeps mirror_field_keeps split: option.splits)
qed

section \<open>Sources\<close>

definition bad_source :: "bool \<Rightarrow> source_ast \<Rightarrow> bool" where
  "bad_source is_test s \<longleftrightarrow>
     (let (handles, sanctioned) =
            if is_test then cheat_handles (sa_ast s) else ([''vm'', ''hevm''], []) in
      \<exists>x \<in> set (iter_nodes (sa_ast s)).
        is_cheat_ref (snd x) \<and> fst x \<notin> set sanctioned
        \<or> is_raw_call handles (snd x)
        \<or> is_test \<and> bad_member handles x)"

interpretation source_stage: scan_stage "scan_source is_test" "bad_source is_test" for is_test
proof
  fix s :: source_ast and sc :: cheat_scan
  obtain h san where hs:
    "(if is_test then cheat_handles (sa_ast s) else ([''vm'', ''hevm''], [])) = (h, san)"
    by (cases "if is_test then cheat_handles (sa_ast s) else ([''vm'', ''hevm''], [])")
  note stages = ban_stage.fold_rejects member_stage.fold_rejects
  show "rejected (scan_source is_test s sc) \<longleftrightarrow> rejected sc \<or> bad_source is_test s"
    unfolding scan_source_def bad_source_def hs
    by (auto simp: Let_def scan_refs_def scan_raw_calls_def stages)
  show "env_ok (c_overrides sc) \<Longrightarrow> env_ok (c_overrides (scan_source is_test s sc))"
    unfolding scan_source_def hs
    by (auto simp: Let_def scan_refs_def scan_raw_calls_def
        intro!: member_stage.fold_keeps ban_stage.fold_keeps)
qed

lemma scan_rejected_rule:
  "rejected (scan_cheatcodes asts is_test) \<longleftrightarrow> (\<exists>s \<in> set asts. bad_source is_test s)"
  unfolding scan_cheatcodes_def source_stage.fold_rejects
  by (simp add: rejected_def cheat_scan_empty_def)

lemma raw_member_call:
  "handle_member_call d handles = Some n \<Longrightarrow> n \<in> set LOWLEVEL_CALLS \<Longrightarrow> is_raw_call handles d"
proof -
  assume h: "handle_member_call d handles = Some n" and n: "n \<in> set LOWLEVEL_CALLS"
  let ?callee = "sub_obj d ''expression''"
  let ?recv = "jget ?callee ''expression''"
  from h have call: "nt_is d ''FunctionCall''" "nt_is ?callee ''MemberAccess''"
    and base: "nt_is (jobj ?recv) ''Identifier''" "fld_in (jobj ?recv) ''name'' handles"
    and name: "jget ?callee ''memberName'' = JStr n"
    unfolding handle_member_call_def Let_def sub_obj_def
    by (simp_all split: if_split_asm json.split_asm)
  from base(1) have "jobj ?recv \<in> set (nodes_of ?recv)"
    by (cases ?recv) (simp_all add: nodes_of_def iter_nodes_def)
  with base have "receiver_reaches_cheat ?recv handles"
    by (auto simp: receiver_reaches_cheat_def list_ex_iff)
  with call name n show ?thesis by (simp add: is_raw_call_def fld_in_def)
qed

lemma env_default_ok: "env_ok env_default"
  by (simp add: env_ok_def env_default_def canonical_def CANONICAL_ENV_def dget_or_def in_domain_def
      CANONICAL_SENDER_def)

lemma scan_env_ok: "env_ok (c_overrides (scan_cheatcodes asts is_test))"
  unfolding scan_cheatcodes_def
  by (rule source_stage.fold_keeps) (simp add: cheat_scan_empty_def env_default_ok)

section \<open>Concrete test files\<close>

definition call_ast :: "json \<Rightarrow> string \<Rightarrow> json list \<Rightarrow> json" where
  "call_ast recv member args =
     tnode ''FunctionCall'' [(''arguments'', JList args),
       (''expression'', tnode ''MemberAccess'' [(''memberName'', JStr member), (''expression'', recv)])]"

definition ident_ast :: "string \<Rightarrow> json" where
  "ident_ast nm = tnode ''Identifier'' [(''name'', JStr nm)]"

definition lit_ast :: "string \<Rightarrow> json" where
  "lit_ast v = tnode ''Literal'' [(''kind'', JStr ''number''), (''value'', JStr v)]"

definition roll_test :: source_ast where
  "roll_test = unit_ast ''t.sol'' [fn_ast [call_ast (ident_ast ''vm'') ''roll'' [lit_ast ''5'']]]"

text \<open>\<open>Vm cheat = vm; cheat.etch(1);\<close> and \<open>vm.etch\{gas: 1\}(1);\<close>\<close>

definition alias_test :: source_ast where
  "alias_test = unit_ast ''t.sol'' [fn_ast
     [tnode ''VariableDeclarationStatement''
        [(''declarations'', JList [tnode ''VariableDeclaration'' [(''name'', JStr ''cheat'')]]),
         (''initialValue'', ident_ast ''vm'')],
      call_ast (ident_ast ''cheat'') ''etch'' [lit_ast ''1'']]]"

definition options_test :: source_ast where
  "options_test = unit_ast ''t.sol'' [fn_ast
     [tnode ''FunctionCall'' [(''arguments'', JList [lit_ast ''1'']),
        (''expression'', tnode ''FunctionCallOptions''
           [(''names'', JList [JStr ''gas'']), (''options'', JList [lit_ast ''1'']),
            (''expression'', tnode ''MemberAccess''
               [(''memberName'', JStr ''etch''), (''expression'', ident_ast ''vm'')])])]]]"

section \<open>Properties\<close>


text \<open>When the scan of \<open>test/\<close> accepts, every member call on a handle is ignored by policy or
  is a whitelisted cheatcode whose arguments are literals in the mirrorable domain, and every
  reference to the cheatcode address is inside a handle declaration.\<close>

theorem test_scan_accepts:
  assumes "\<not> rejected (scan_test_cheatcodes asts)"
    and "s \<in> set asts" and "x \<in> set (iter_nodes (sa_ast s))"
    and "cheat_handles (sa_ast s) = (handles, sanctioned)"
  shows "(is_cheat_ref (snd x) \<longrightarrow> fst x \<in> set sanctioned)
    \<and> (\<forall>n. handle_member_call (snd x) handles = Some n \<longrightarrow>
         n \<in> set CHEATCODE_IGNORE
         \<or> (\<exists>field. dget CHEATCODE_ALLOW n = Some field
              \<and> mirrored_args field (jlist (jget (snd x) ''arguments''))))"
proof -
  from assms have ok: "\<not> bad_source True s"
    unfolding scan_test_cheatcodes_def scan_rejected_rule by blast
  with assms(3,4) have ref: "is_cheat_ref (snd x) \<longrightarrow> fst x \<in> set sanctioned"
    and raw: "\<not> is_raw_call handles (snd x)" and member: "\<not> bad_member handles x"
    by (auto simp: bad_source_def)
  from raw member raw_member_call [of "snd x" handles] ref show ?thesis
    by (auto simp: bad_member_def split: option.splits)
qed

lemma roll_test_facts:
  "\<not> bad_source True roll_test"
  "([1, 0, 2, 1, 0], [(''nodeType'', JStr ''FunctionCall''), (''arguments'', JList [lit_ast ''5'']),
     (''expression'', tnode ''MemberAccess'' [(''memberName'', JStr ''roll''), (''expression'', ident_ast ''vm'')])])
     \<in> set (iter_nodes (sa_ast roll_test))"
  "cheat_handles (sa_ast roll_test) = ([''vm'', ''hevm''], [])"
  by code_simp+

theorem test_scan_accepts_witness:
  "\<exists>field. dget CHEATCODE_ALLOW ''roll'' = Some field \<and> mirrored_args field [lit_ast ''5'']"
proof -
  let ?x = "([1, 0, 2, 1, 0], [(''nodeType'', JStr ''FunctionCall''), (''arguments'', JList [lit_ast ''5'']),
     (''expression'', tnode ''MemberAccess'' [(''memberName'', JStr ''roll''), (''expression'', ident_ast ''vm'')])])"
  have ok: "\<not> rejected (scan_test_cheatcodes [roll_test])"
    unfolding scan_test_cheatcodes_def scan_rejected_rule using roll_test_facts(1) by simp
  have call: "handle_member_call (snd ?x) [''vm'', ''hevm''] = Some ''roll''" by code_simp
  from test_scan_accepts [OF ok _ roll_test_facts(2,3)] call
  have "''roll'' \<in> set CHEATCODE_IGNORE
    \<or> (\<exists>field. dget CHEATCODE_ALLOW ''roll'' = Some field
         \<and> mirrored_args field (jlist (jget (snd ?x) ''arguments'')))" by simp
  then show ?thesis by (simp add: CHEATCODE_IGNORE_def jget_def dget_or_def)
qed

text \<open>C38: whatever the sources contain, the environment the scan mirrors stays in the domain
  both engines represent: 64-bit block fields, a 160-bit sender, deals of a 256-bit amount to a
  160-bit address.\<close>

theorem mirrored_env_domain:
  "let e = c_overrides (scan_cheatcodes asts is_test) in
     in_domain 64 (e_number e) \<and> in_domain 64 (e_timestamp e) \<and> in_domain 64 (e_chainid e)
     \<and> in_domain 256 (e_basefee e) \<and> in_domain 256 (e_prevrandao e) \<and> in_domain 160 (e_sender e)
     \<and> list_all (\<lambda>(a, amt). in_domain 160 a \<and> in_domain 256 amt) (e_deals e)"
  using scan_env_ok by (simp add: env_ok_def Let_def)

text \<open>Two bypasses of the default-deny rule for test files: a variable initialised from a
  handle is not a handle, and a cheatcode call with call options is not a member call, so a
  banned cheatcode passes either way.\<close>

theorem test_scan_escapes:
  "\<not> rejected (scan_test_cheatcodes [alias_test]) \<and> \<not> rejected (scan_test_cheatcodes [options_test])
   \<and> dget CHEATCODE_ALLOW ''etch'' = None \<and> ''etch'' \<in> set CHEATCODE_DENY"
proof -
  have "\<not> bad_source True alias_test" "\<not> bad_source True options_test" by code_simp+
  moreover have "dget CHEATCODE_ALLOW ''etch'' = None \<and> ''etch'' \<in> set CHEATCODE_DENY" by code_simp
  ultimately show ?thesis unfolding scan_test_cheatcodes_def scan_rejected_rule by simp
qed

end
