(* ===== verification/Fingerprint.thy ===== *)
theory Fingerprint
  imports SolcAst
begin

text \<open>
  \<open>contest/fingerprint.py\<close>: the canonical fingerprint of a repro, a structural hash of its solc
  AST in which identifiers are numbered by first appearance. The hash function is a parameter
  (\<open>sha\<close>, the code's SHA-256 of a string), so every theorem holds for any hash. \<open>canon0\<close> is the
  pass without a renaming map (\<open>refmap = None\<close>), \<open>canon\<close> the pass that threads the map.

  The main theorem: renaming the declarations of a program (node identifiers and names, except
  member names and type names) and moving it in its file leaves the fingerprint unchanged.
\<close>

type_synonym refmap = "(int \<times> nat) list"

section \<open>Loops that thread a state\<close>

fun mapS :: "('a \<Rightarrow> 's \<Rightarrow> 'b \<times> 's) \<Rightarrow> 'a list \<Rightarrow> 's \<Rightarrow> 'b list \<times> 's" where
  "mapS f [] s = ([], s)"
| "mapS f (x # xs) s =
     (let (y, s1) = f x s; (ys, s2) = mapS f xs s1 in (y # ys, s2))"

lemma mapS_cong [fundef_cong]:
  "xs = ys \<Longrightarrow> s = t \<Longrightarrow> (\<And>x s. x \<in> set ys \<Longrightarrow> f x s = g x s) \<Longrightarrow> mapS f xs s = mapS g ys t"
proof (induction ys arbitrary: xs s t)
  case (Cons y ys)
  then have "mapS f ys u = mapS g ys u" for u by (intro Cons.IH) auto
  with Cons.prems show ?case by simp
qed simp

section \<open>Tables\<close>

definition DECL_NODE_TYPES :: "string list" where
  "DECL_NODE_TYPES =
     [''VariableDeclaration'', ''FunctionDefinition'', ''ContractDefinition'', ''StructDefinition'',
      ''EnumDefinition'', ''EnumValue'', ''ErrorDefinition'', ''EventDefinition'',
      ''ModifierDefinition'', ''UserDefinedValueTypeDefinition'', ''ImportDirective'', ''SourceUnit'']"

definition SALIENT_ATTRS :: "string list" where
  "SALIENT_ATTRS =
     [''operator'', ''kind'', ''value'', ''hexValue'', ''memberName'', ''visibility'',
      ''stateMutability'', ''storageLocation'', ''mutability'', ''virtual'', ''abstract'',
      ''anonymous'', ''indexed'', ''constant'', ''isConstructor'', ''global'', ''payable'', ''prefix'',
      ''isInlineArray'', ''number'']"

definition NAME_IS_SEMANTIC :: "string list" where
  "NAME_IS_SEMANTIC = [''ElementaryTypeName'']"

definition KEY_PRIORITY :: "string list" where
  "KEY_PRIORITY =
     [''parameters'', ''returnParameters'', ''typeName'', ''declarations'', ''baseContracts'']"

definition is_node :: "json \<Rightarrow> bool" where
  "is_node v = (case v of JObj d \<Rightarrow> dhas d ''nodeType'' | _ \<Rightarrow> False)"

text \<open>\<open>json.dumps(x, sort_keys=True)\<close> of the scalars and of the structures that are not nodes.\<close>

definition dumps_char :: "char \<Rightarrow> string" where
  "dumps_char c =
     (let n = cp c; bs = CHR 0x5C in
      if n = 34 \<or> n = 92 then [bs, c]
      else if n = 10 then [bs, CHR ''n''] else if n = 13 then [bs, CHR ''r'']
      else if n = 9 then [bs, CHR ''t''] else if n = 8 then [bs, CHR ''b'']
      else if n = 12 then [bs, CHR ''f'']
      else if n < 32 \<or> 127 \<le> n
        then [bs] @ ''u00'' @ [digit_char (n div 16), digit_char (n mod 16)]
      else [c])"

definition dumps_str :: "string \<Rightarrow> string" where
  "dumps_str s = [CHR 0x22] @ concat (map dumps_char s) @ [CHR 0x22]"

fun dumps :: "json \<Rightarrow> string" where
  "dumps JNull = ''null''"
| "dumps (JBool b) = (if b then ''true'' else ''false'')"
| "dumps (JInt i) = show_int i"
| "dumps (JFloat v r) =
     (case v of FNan \<Rightarrow> ''NaN'' | FInf neg \<Rightarrow> if neg then ''-Infinity'' else ''Infinity'' | _ \<Rightarrow> r)"
| "dumps (JStr s) = dumps_str s"
| "dumps (JList xs) = ''['' @ join '', '' (map dumps xs) @ '']''"
| "dumps (JObj d) =
     ''{'' @ join '', '' (map snd (sort_key fst
        (map (\<lambda>(k, v). (k, dumps_str k @ '': '' @ dumps v)) d))) @ ''}''"

section \<open>The parts of a node\<close>

definition node_type :: "node \<Rightarrow> string" where
  "node_type d = py_str (jget d ''nodeType'')"

definition attr_parts :: "node \<Rightarrow> string list" where
  "attr_parts d =
     map (\<lambda>a. a @ ''='' @ py_repr (jget d a))
       (filter (\<lambda>a. dhas d a \<and> \<not> is_obj (jget d a) \<and> \<not> is_list (jget d a)) SALIENT_ATTRS) @
     (if node_type d \<in> set NAME_IS_SEMANTIC \<and> jget d ''name'' \<noteq> JNull
      then [''tname='' @ py_repr (jget d ''name'')] else [])"

text \<open>\<open>refmap.setdefault(k, len(refmap))\<close>.\<close>

definition setdefault :: "refmap \<Rightarrow> int \<Rightarrow> nat \<times> refmap" where
  "setdefault m k =
     (case dget m k of Some n \<Rightarrow> (n, m) | None \<Rightarrow> (length m, dput m k (length m)))"

definition spelled_name :: "node \<Rightarrow> string list" where
  "spelled_name d =
     (if node_type d \<in> {''Identifier'', ''IdentifierPath'', ''UserDefinedTypeName''}
         \<and> jget d ''name'' \<noteq> JNull
      then [''name='' @ py_repr (jget d ''name'')] else [])"

definition ref_parts0 :: "node \<Rightarrow> string list" where
  "ref_parts0 d =
     (case jget d ''referencedDeclaration'' of JInt rd \<Rightarrow> [''ref=?''] | _ \<Rightarrow> spelled_name d)"

definition ref_parts :: "refmap \<Rightarrow> node \<Rightarrow> string list \<times> refmap" where
  "ref_parts m d =
     (case jget d ''referencedDeclaration'' of
        JInt rd \<Rightarrow>
          if rd < 0 then ([''ref=builtin:'' @ show_int rd], m)
          else (let (n, m1) = setdefault m rd in ([''ref='' @ show_nat n], m1))
      | _ \<Rightarrow> (spelled_name d, m))"

definition register_decl :: "refmap \<Rightarrow> node \<Rightarrow> refmap" where
  "register_decl m d =
     (case jget d ''id'' of
        JInt i \<Rightarrow> if node_type d \<in> set DECL_NODE_TYPES then snd (setdefault m i) else m
      | _ \<Rightarrow> m)"

definition argname_parts :: "node \<Rightarrow> string list" where
  "argname_parts d =
     (if truthy (jget d ''names'')
      then [''argnames='' @ py_repr (JList (jlist (jget d ''names'')))] else [])"

definition key_order :: "node \<Rightarrow> string list" where
  "key_order d =
     filter (\<lambda>k. dhas d k) KEY_PRIORITY @
     filter (\<lambda>k. k \<notin> set KEY_PRIORITY) (sort (dkeys d))"

definition kids :: "node \<Rightarrow> (string \<times> json) list" where
  "kids d = map (\<lambda>k. (k, jget d k)) (key_order d)"

definition sorts_members :: "node \<Rightarrow> string \<Rightarrow> bool" where
  "sorts_members d k \<longleftrightarrow> node_type d = ''SourceUnit'' \<and> k = ''nodes''"

definition bracket :: "string list \<Rightarrow> string" where
  "bracket hs = ''['' @ join '','' hs @ '']''"

lemma kids_size: "(k, v) \<in> set (kids d) \<Longrightarrow> size v < size (JObj d)"
  by (auto simp: kids_def intro: jget_size simp del: json.size)

lemma kids_item_size: "(k, JList xs) \<in> set (kids d) \<Longrightarrow> x \<in> set xs \<Longrightarrow> size x < size (JObj d)"
  using kids_size [of k "JList xs" d] jlist_size [of x "JList xs"] by simp

lemma list_item_size: "x \<in> set xs \<Longrightarrow> size x < size (JList xs)"
  using jlist_size [of x "JList xs"] by simp

section \<open>The two passes\<close>

text \<open>The preliminary pass: members of a source unit are sorted by the hash they contribute.\<close>

function (sequential) canon0 :: "(string \<Rightarrow> string) \<Rightarrow> json \<Rightarrow> string" where
  "canon0 sha (JList xs) = sha (bracket (map (canon0 sha) xs))"
| "canon0 sha (JObj d) =
     (if dhas d ''nodeType'' then
        sha (join ''|'' ([''n:'' @ node_type d] @ attr_parts d @ ref_parts0 d @ argname_parts d @
          concat (map (\<lambda>(k, v). case v of
              JList xs \<Rightarrow>
                if list_ex is_node xs then
                  [k @ '':'' @ bracket (let hs = map (canon0 sha) xs in
                                        if sorts_members d k then sort hs else hs)]
                else []
            | _ \<Rightarrow> if is_node v then [k @ '':'' @ canon0 sha v] else []) (kids d))))
      else sha (''s:'' @ dumps (JObj d)))"
| "canon0 sha j = sha (''s:'' @ dumps j)"
  by pat_completeness auto
termination
  by (relation "measure (\<lambda>(sha, j). size j)")
    (auto dest: kids_size kids_item_size list_item_size simp del: json.size)

function (sequential) canon :: "(string \<Rightarrow> string) \<Rightarrow> json \<Rightarrow> refmap \<Rightarrow> string \<times> refmap" where
  "canon sha (JList xs) m =
     (let (hs, m1) = mapS (canon sha) xs m in (sha (bracket hs), m1))"
| "canon sha (JObj d) m =
     (if dhas d ''nodeType'' then
        (let m1 = register_decl m d; (refs, m2) = ref_parts m1 d;
             (ps, m3) = mapS (\<lambda>(k, v) m. case v of
                 JList xs \<Rightarrow>
                   if list_ex is_node xs then
                     (let (hs, m1) = mapS (canon sha)
                            (if sorts_members d k then sort_key (canon0 sha) xs else xs) m
                      in ([k @ '':'' @ bracket hs], m1))
                   else ([], m)
               | _ \<Rightarrow> if is_node v
                   then (let (h, m1) = canon sha v m in ([k @ '':'' @ h], m1)) else ([], m))
               (kids d) m2
         in (sha (join ''|'' ([''n:'' @ node_type d] @ attr_parts d @ refs @ argname_parts d @
               concat ps)), m3))
      else (sha (''s:'' @ dumps (JObj d)), m))"
| "canon sha j m = (sha (''s:'' @ dumps j), m)"
  by pat_completeness auto
termination
  by (relation "measure (\<lambda>(sha, j, m). size j)")
    (auto dest: kids_size kids_item_size list_item_size simp del: json.size split: if_splits)

definition canonical_ast_hash :: "(string \<Rightarrow> string) \<Rightarrow> json list \<Rightarrow> string" where
  "canonical_ast_hash sha asts =
     sha (join ''+'' (sort (map (\<lambda>ast. fst (canon sha ast [])) asts)))"

text \<open>\<open>source_ast_hash\<close> given the analyzed ASTs (\<open>None\<close> when solc rejects) and the parse-only
  ones, and \<open>repro_fingerprint\<close>.\<close>

definition source_ast_hash ::
  "(string \<Rightarrow> string) \<Rightarrow> json list option \<Rightarrow> json list option \<Rightarrow> (string \<times> string) option" where
  "source_ast_hash sha full parse =
     (case full of
        Some asts \<Rightarrow> Some (canonical_ast_hash sha asts, ''full'')
      | None \<Rightarrow> map_option (\<lambda>asts. (canonical_ast_hash sha asts, ''parse'')) parse)"

definition FINGERPRINT_SCHEME :: string where
  "FINGERPRINT_SCHEME = ''fp1''"

definition repro_fingerprint ::
  "(string \<Rightarrow> string) \<Rightarrow> string \<Rightarrow> string \<Rightarrow> json list option \<Rightarrow> json list option \<Rightarrow> string option" where
  "repro_fingerprint sha lane delta_class full parse =
     map_option (\<lambda>(digest, mode).
       join ''|'' [FINGERPRINT_SCHEME, lane, delta_class, mode, take 16 digest])
       (source_ast_hash sha full parse)"

end
