(* ===== verification/FingerProps.thy ===== *)
theory FingerProps
  imports Fingerprint "HOL-Library.Multiset"
begin

text \<open>
  What the fingerprint identifies. \<open>ren f g l\<close> renames a program: node identifiers by \<open>f\<close>,
  names by \<open>g\<close> (all but type names and the spelled references of a parse-only AST), source
  locations by \<open>l\<close>.
\<close>

section \<open>Renaming\<close>

definition scalar :: "json \<Rightarrow> bool" where
  "scalar v \<longleftrightarrow> \<not> is_obj v \<and> \<not> is_list v"

definition renamable :: "node \<Rightarrow> bool" where
  "renamable d \<longleftrightarrow>
     node_type d \<notin> set NAME_IS_SEMANTIC
     \<and> (node_type d \<notin> {''Identifier'', ''IdentifierPath'', ''UserDefinedTypeName''}
        \<or> is_int (jget d ''referencedDeclaration'') \<and> \<not> is_bool (jget d ''referencedDeclaration''))"

fun ren :: "(int \<Rightarrow> int) \<Rightarrow> (string \<Rightarrow> string) \<Rightarrow> (string \<Rightarrow> string) \<Rightarrow> json \<Rightarrow> json" where
  "ren f g l (JList xs) = JList (map (ren f g l) xs)"
| "ren f g l (JObj d) =
     (if dhas d ''nodeType'' then
        JObj (map (\<lambda>(k, v). (k,
          case v of
            JInt i \<Rightarrow> if k \<in> {''id'', ''referencedDeclaration''} then JInt (f i) else v
          | JStr s \<Rightarrow> if k = ''src'' \<or> k = ''nameLocation'' then JStr (l s)
                      else if k = ''name'' \<and> renamable d then JStr (g s) else v
          | _ \<Rightarrow> ren f g l v)) d)
      else JObj d)"
| "ren f g l j = j"

fun wf_ast :: "json \<Rightarrow> bool" where
  "wf_ast (JList xs) = list_all wf_ast xs"
| "wf_ast (JObj d) =
     (dhas d ''nodeType'' \<longrightarrow>
        is_str (jget d ''nodeType'') \<and> scalar (jget d ''name'')
        \<and> list_all is_str (jlist (jget d ''names'')) \<and> list_all (\<lambda>(k, v). wf_ast v) d)"
| "wf_ast j = True"

text \<open>What \<open>ren\<close> does to the value of a field.\<close>

definition rfield :: "(int \<Rightarrow> int) \<Rightarrow> (string \<Rightarrow> string) \<Rightarrow> (string \<Rightarrow> string) \<Rightarrow> node \<Rightarrow> string \<Rightarrow> json \<Rightarrow> json" where
  "rfield f g l d k v = (case v of
            JInt i \<Rightarrow> if k \<in> {''id'', ''referencedDeclaration''} then JInt (f i) else v
          | JStr s \<Rightarrow> if k = ''src'' \<or> k = ''nameLocation'' then JStr (l s)
                      else if k = ''name'' \<and> renamable d then JStr (g s) else v
          | _ \<Rightarrow> ren f g l v)"

definition robj :: "(int \<Rightarrow> int) \<Rightarrow> (string \<Rightarrow> string) \<Rightarrow> (string \<Rightarrow> string) \<Rightarrow> node \<Rightarrow> node" where
  "robj f g l d = map (\<lambda>(k, v). (k, rfield f g l d k v)) d"

lemma ren_obj: "ren f g l (JObj d) = (if dhas d ''nodeType'' then JObj (robj f g l d) else JObj d)"
  by (simp add: robj_def rfield_def)

declare ren.simps(2) [simp del]

lemma ren_scalar [simp]: "scalar v \<Longrightarrow> ren f g l v = v"
  by (cases v) (auto simp: scalar_def)

lemma ren_kind [simp]:
  "is_obj (ren f g l v) = is_obj v" "is_list (ren f g l v) = is_list v"
  "is_str (ren f g l v) = is_str v"
  by (cases v; simp add: ren_obj)+

lemma scalar_ren [simp]: "scalar (ren f g l v) = scalar v"
  by (simp add: scalar_def)

lemma rfield_compound: "\<not> scalar v \<Longrightarrow> rfield f g l d k v = ren f g l v"
  by (cases v) (auto simp: rfield_def scalar_def)

lemma rfield_other:
  "k \<notin> {''id'', ''referencedDeclaration'', ''src'', ''nameLocation'', ''name''} \<Longrightarrow>
     rfield f g l d k v = ren f g l v"
  by (cases v) (auto simp: rfield_def)

lemma rfield_kind [simp]:
  "is_obj (rfield f g l d k v) = is_obj v" "is_list (rfield f g l d k v) = is_list v"
  by (cases v; simp add: rfield_def ren_obj)+

lemma scalar_rfield [simp]: "scalar (rfield f g l d k v) = scalar v"
  by (simp add: scalar_def)

lemma rfield_null [simp]: "rfield f g l d k JNull = JNull" "rfield f g l d k v = JNull \<longleftrightarrow> v = JNull"
  by (simp_all add: rfield_def split: json.splits) (auto simp: ren_obj)

lemma dget_map_val: "dget (map (\<lambda>(k, v). (k, h k v)) d) k = map_option (h k) (dget d k)"
  by (induction d) auto

lemma dkeys_robj [simp]: "dkeys (robj f g l d) = dkeys d"
  by (simp add: dkeys_def robj_def case_prod_beta comp_def)

lemma dhas_robj [simp]: "dhas (robj f g l d) k = dhas d k"
  by (simp add: dhas_keys)

lemma jget_robj: "jget (robj f g l d) k = rfield f g l d k (jget d k)"
  unfolding jget_def dget_or_def robj_def dget_map_val [of "rfield f g l d"]
  by (cases "dget d k") simp_all

lemma is_node_ren [simp]: "is_node (ren f g l v) = is_node v"
  by (cases v) (auto simp: is_node_def ren_obj)

section \<open>The parts of a renamed node\<close>

lemma node_type_robj:
  "is_str (jget d ''nodeType'') \<Longrightarrow> node_type (robj f g l d) = node_type d"
  by (cases "jget d ''nodeType''") (simp_all add: node_type_def jget_robj rfield_def)

lemma key_order_robj: "key_order (robj f g l d) = key_order d"
  by (simp add: key_order_def)

lemma kids_robj: "kids (robj f g l d) = map (\<lambda>(k, v). (k, rfield f g l d k v)) (kids d)"
  by (simp add: kids_def key_order_robj jget_robj)

lemma salient_other:
  "a \<in> set SALIENT_ATTRS \<Longrightarrow> a \<notin> {''id'', ''referencedDeclaration'', ''src'', ''nameLocation'', ''name''}"
  by (auto simp: SALIENT_ATTRS_def)

lemma attr_parts_robj:
  assumes "is_str (jget d ''nodeType'')" "scalar (jget d ''name'')"
  shows "attr_parts (robj f g l d) = attr_parts d"
proof -
  have eq: "jget (robj f g l d) a = jget d a"
    if "a \<in> set SALIENT_ATTRS" "\<not> is_obj (jget d a)" "\<not> is_list (jget d a)" for a
    using that salient_other [OF that(1)] by (simp add: jget_robj rfield_other scalar_def)
  have attrs: "map (\<lambda>a. a @ ''='' @ py_repr (jget (robj f g l d) a))
      (filter (\<lambda>a. dhas d a \<and> \<not> is_obj (jget d a) \<and> \<not> is_list (jget d a)) SALIENT_ATTRS) =
    map (\<lambda>a. a @ ''='' @ py_repr (jget d a))
      (filter (\<lambda>a. dhas d a \<and> \<not> is_obj (jget d a) \<and> \<not> is_list (jget d a)) SALIENT_ATTRS)"
    by (rule map_cong) (auto simp: eq)
  have nm: "rfield f g l d ''name'' (jget d ''name'') = jget d ''name''"
    if "node_type d \<in> set NAME_IS_SEMANTIC"
    using that assms(2) by (cases "jget d ''name''") (auto simp: rfield_def renamable_def scalar_def)
  show ?thesis
    unfolding attr_parts_def node_type_robj [OF assms(1)] dhas_robj jget_robj rfield_kind
      attrs [unfolded jget_robj] rfield_null
    by (simp add: nm)
qed

lemma spelled_robj:
  assumes "is_str (jget d ''nodeType'')" "scalar (jget d ''name'')"
    and "\<not> (is_int (jget d ''referencedDeclaration'') \<and> \<not> is_bool (jget d ''referencedDeclaration''))"
  shows "spelled_name (robj f g l d) = spelled_name d"
proof -
  have "rfield f g l d ''name'' (jget d ''name'') = jget d ''name''"
    if "node_type d \<in> {''Identifier'', ''IdentifierPath'', ''UserDefinedTypeName''}"
    using that assms(2,3) by (cases "jget d ''name''") (auto simp: rfield_def renamable_def scalar_def)
  then show ?thesis
    unfolding spelled_name_def node_type_robj [OF assms(1)] jget_robj by auto
qed

lemma argnames_robj:
  assumes "list_all is_str (jlist (jget d ''names''))"
  shows "argname_parts (robj f g l d) = argname_parts d"
proof (cases "jget d ''names''")
  case (JList xs)
  have "is_str x \<Longrightarrow> ren f g l x = x" for x by (cases x) simp_all
  with assms JList have "map (ren f g l) xs = xs" by (intro map_idI) (auto simp: list_all_iff)
  with JList show ?thesis by (simp add: argname_parts_def jget_robj rfield_def)
next
  case (JObj e)
  have "truthy (ren f g l (JObj e)) = truthy (JObj e)" by (simp add: ren_obj robj_def)
  with JObj show ?thesis by (simp add: argname_parts_def jget_robj rfield_def ren_obj)
qed (simp_all add: argname_parts_def jget_robj rfield_def)

section \<open>The renaming map\<close>

definition rmap :: "(int \<Rightarrow> int) \<Rightarrow> refmap \<Rightarrow> refmap" where
  "rmap f m = map (\<lambda>(k, v). (f k, v)) m"

lemma rmap_simps [simp]: "rmap f [] = []" "length (rmap f m) = length m"
  by (simp_all add: rmap_def)

lemma dget_rmap: "inj f \<Longrightarrow> dget (rmap f m) (f k) = dget m k"
  by (induction m) (auto simp: rmap_def inj_eq)

lemma dput_rmap: "inj f \<Longrightarrow> dput (rmap f m) (f k) v = rmap f (dput m k v)"
  by (induction m) (auto simp: rmap_def inj_eq)

lemma setdefault_rmap:
  "inj f \<Longrightarrow> setdefault (rmap f m) (f k) = map_prod id (rmap f) (setdefault m k)"
  by (simp add: setdefault_def dget_rmap dput_rmap split: option.split)

lemma mapS_sim:
  assumes "\<And>x m. x \<in> set xs \<Longrightarrow> F' (r x) (h m) = map_prod id h (F x m)"
  shows "mapS F' (map r xs) (h m) = map_prod id h (mapS F xs m)"
  using assms by (induction xs arbitrary: m) (auto simp: case_prod_beta split: prod.splits)

text \<open>What a renaming of declarations must respect: the identifiers of builtins are negative and
  are not renamed.\<close>

definition renaming :: "(int \<Rightarrow> int) \<Rightarrow> bool" where
  "renaming f \<longleftrightarrow> inj f \<and> (\<forall>i. i < 0 \<longrightarrow> f i = i) \<and> (\<forall>i. 0 \<le> i \<longrightarrow> 0 \<le> f i)"

lemma register_robj:
  assumes "renaming f" "is_str (jget d ''nodeType'')"
  shows "register_decl (rmap f m) (robj f g l d) = rmap f (register_decl m d)"
proof (cases "jget d ''id''")
  case (JInt i)
  with assms show ?thesis
    by (simp add: register_decl_def jget_robj rfield_def node_type_robj renaming_def
        setdefault_rmap)
qed (simp_all add: register_decl_def jget_robj rfield_def ren_obj)

lemma ref_parts_robj:
  assumes "renaming f" "is_str (jget d ''nodeType'')" "scalar (jget d ''name'')"
  shows "ref_parts (rmap f m) (robj f g l d) = map_prod id (rmap f) (ref_parts m d)"
proof (cases "jget d ''referencedDeclaration''")
  case (JInt i)
  with assms show ?thesis
    by (cases "i < 0")
      (auto simp: ref_parts_def jget_robj rfield_def renaming_def setdefault_rmap not_less
        split: prod.split)
qed (simp_all add: ref_parts_def jget_robj rfield_def ren_obj spelled_robj assms)

lemma ref_parts0_robj:
  assumes "is_str (jget d ''nodeType'')" "scalar (jget d ''name'')"
  shows "ref_parts0 (robj f g l d) = ref_parts0 d"
  by (cases "jget d ''referencedDeclaration''")
    (simp_all add: ref_parts0_def jget_robj rfield_def ren_obj spelled_robj assms)

section \<open>The passes over a renamed program\<close>

definition kid0 :: "(json \<Rightarrow> string) \<Rightarrow> node \<Rightarrow> string \<Rightarrow> json \<Rightarrow> string list" where
  "kid0 C d k v = (case v of
      JList xs \<Rightarrow>
        if list_ex is_node xs then
          [k @ '':'' @ bracket (let hs = map C xs in if sorts_members d k then sort hs else hs)]
        else []
    | _ \<Rightarrow> if is_node v then [k @ '':'' @ C v] else [])"

definition kidS :: "(json \<Rightarrow> string) \<Rightarrow> (json \<Rightarrow> refmap \<Rightarrow> string \<times> refmap) \<Rightarrow> node \<Rightarrow>
    string \<times> json \<Rightarrow> refmap \<Rightarrow> string list \<times> refmap" where
  "kidS C0 C d kv m = (case kv of (k, v) \<Rightarrow> (case v of
       JList xs \<Rightarrow>
         if list_ex is_node xs then
           (let (hs, m1) = mapS C (if sorts_members d k then sort_key C0 xs else xs) m
            in ([k @ '':'' @ bracket hs], m1))
         else ([], m)
     | _ \<Rightarrow> if is_node v
         then (let (h, m1) = C v m in ([k @ '':'' @ h], m1)) else ([], m)))"

lemma canon0_obj:
  "dhas d ''nodeType'' \<Longrightarrow> canon0 sha (JObj d) =
     sha (join ''|'' ([''n:'' @ node_type d] @ attr_parts d @ ref_parts0 d @ argname_parts d @
       concat (map (\<lambda>(k, v). kid0 (canon0 sha) d k v) (kids d))))"
  by (simp add: kid0_def)

lemma canon_obj:
  "dhas d ''nodeType'' \<Longrightarrow> canon sha (JObj d) m =
     (let (refs, m2) = ref_parts (register_decl m d) d;
          (ps, m3) = mapS (kidS (canon0 sha) (canon sha) d) (kids d) m2
      in (sha (join ''|'' ([''n:'' @ node_type d] @ attr_parts d @ refs @ argname_parts d @
            concat ps)), m3))"
  by (simp add: kidS_def [abs_def] case_prod_unfold)

declare canon0.simps(2) [simp del] canon.simps(2) [simp del]

lemma jget_wf: "list_all (\<lambda>(k, v). wf_ast v) d \<Longrightarrow> wf_ast (jget d k)"
  by (induction d) (auto simp: jget_def dget_or_def)

lemma kids_wf:
  "wf_ast (JObj d) \<Longrightarrow> dhas d ''nodeType'' \<Longrightarrow> (k, v) \<in> set (kids d) \<Longrightarrow> wf_ast v"
  by (auto simp: kids_def jget_wf)

lemma wf_obj:
  "wf_ast (JObj d) \<Longrightarrow> dhas d ''nodeType'' \<Longrightarrow>
     is_str (jget d ''nodeType'') \<and> scalar (jget d ''name'')
     \<and> list_all is_str (jlist (jget d ''names''))"
  by simp

declare wf_ast.simps(2) [simp del]

lemma sorts_robj:
  "is_str (jget d ''nodeType'') \<Longrightarrow> sorts_members (robj f g l d) k = sorts_members d k"
  by (simp add: sorts_members_def node_type_robj)

lemma sort_key_map_comp: "sort_key f (map g xs) = map g (sort_key (\<lambda>x. f (g x)) xs)"
proof (induction xs)
  case (Cons x xs)
  have ins: "insort_key f (g x) (map g ys) = map g (insort_key (\<lambda>x. f (g x)) x ys)" for ys
    by (induction ys) simp_all
  from Cons show ?case by (simp add: ins)
qed simp

lemma sort_key_same: "(\<And>x. x \<in> set xs \<Longrightarrow> f x = g x) \<Longrightarrow> sort_key f xs = sort_key g xs"
proof (induction xs)
  case (Cons x xs)
  then have eq: "sort_key f xs = sort_key g xs" by simp
  have "insort_key f x ys = insort_key g x ys" if "set ys \<subseteq> set xs" for ys
    using that Cons.prems by (induction ys) auto
  with eq show ?case by simp
qed simp

lemma kid0_ren:
  assumes "is_str (jget d ''nodeType'')" "wf_ast v"
    and IH: "\<And>x. size x \<le> size v \<Longrightarrow> wf_ast x \<Longrightarrow> C (ren f g l x) = C x"
  shows "kid0 C (robj f g l d) k (rfield f g l d k v) = kid0 C d k v"
proof (cases v)
  case (JList xs)
  then have "C (ren f g l x) = C x" if "x \<in> set xs" for x
    using that IH [of x] assms(2) list_item_size [OF that] by (auto simp: list_all_iff)
  then have "map C (map (ren f g l) xs) = map C xs" by simp
  moreover have "list_ex is_node (map (ren f g l) xs) = list_ex is_node xs"
    by (simp add: list_ex_iff)
  ultimately show ?thesis
    using JList assms(1) by (simp add: kid0_def rfield_compound scalar_def sorts_robj del: map_map)
next
  case (JObj e)
  then have "C (ren f g l v) = C v" using IH assms(2) by blast
  moreover have "rfield f g l d k v = ren f g l v" using JObj by (simp add: rfield_compound scalar_def)
  moreover from JObj have "is_obj (ren f g l v)" by simp
  then obtain e' where e': "ren f g l v = JObj e'" by (cases "ren f g l v") simp_all
  moreover have "is_node (JObj e') = is_node (JObj e)" by (metis is_node_ren e' JObj)
  ultimately show ?thesis using JObj by (simp add: kid0_def)
qed (simp_all add: kid0_def rfield_def is_node_def)

lemma canon0_ren: "wf_ast j \<Longrightarrow> canon0 sha (ren f g l j) = canon0 sha j"
proof (induction j rule: measure_induct_rule [where f = size])
  case (less j)
  show ?case
  proof (cases j)
    case (JList xs)
    have "canon0 sha (ren f g l x) = canon0 sha x" if "x \<in> set xs" for x
      using less JList that list_item_size [OF that] by (auto simp: list_all_iff)
    with JList show ?thesis by (simp cong: map_cong)
  next
    case (JObj d)
    show ?thesis
    proof (cases "dhas d ''nodeType''")
      case True
      note wf = wf_obj [OF less.prems [unfolded JObj] True]
      have "kid0 (canon0 sha) (robj f g l d) k (rfield f g l d k v) = kid0 (canon0 sha) d k v"
        if "(k, v) \<in> set (kids d)" for k v
        using wf less.IH kids_wf [OF less.prems [unfolded JObj] True that] kids_size [OF that]
        by (intro kid0_ren) (auto simp: JObj simp del: json.size)
      then have "map (\<lambda>(k, v). kid0 (canon0 sha) (robj f g l d) k (rfield f g l d k v)) (kids d)
          = map (\<lambda>(k, v). kid0 (canon0 sha) d k v) (kids d)"
        by (intro map_cong) auto
      then show ?thesis
        using True wf
        by (simp add: JObj ren_obj canon0_obj kids_robj node_type_robj attr_parts_robj
            ref_parts0_robj argnames_robj comp_def case_prod_unfold cong: map_cong)
    qed (simp add: JObj ren_obj)
  qed simp_all
qed

lemma kidS_ren:
  assumes "is_str (jget d ''nodeType'')" "wf_ast v"
    and C0: "\<And>x. wf_ast x \<Longrightarrow> C0 (ren f g l x) = C0 x"
    and IH: "\<And>x m. size x \<le> size v \<Longrightarrow> wf_ast x \<Longrightarrow>
               C (ren f g l x) (rmap f m) = map_prod id (rmap f) (C x m)"
  shows "kidS C0 C (robj f g l d) (k, rfield f g l d k v) (rmap f m) =
           map_prod id (rmap f) (kidS C0 C d (k, v) m)"
proof (cases v)
  case (JList xs)
  have item: "size x \<le> size v \<and> wf_ast x" if "x \<in> set xs" for x
    using that assms(2) JList list_item_size [OF that] by (auto simp: list_all_iff)
  have order: "sort_key C0 (map (ren f g l) xs) = map (ren f g l) (sort_key C0 xs)"
    unfolding sort_key_map_comp using item C0 by (simp cong: sort_key_same)
  have step: "mapS C (map (ren f g l) ys) (rmap f m) = map_prod id (rmap f) (mapS C ys m)"
    if "set ys \<subseteq> set xs" for ys m
    using that item IH by (intro mapS_sim) blast
  have "list_ex is_node (map (ren f g l) xs) = list_ex is_node xs" by (simp add: list_ex_iff)
  then show ?thesis
    using JList assms(1) step [of xs] step [of "sort_key C0 xs"]
    by (simp add: kidS_def rfield_compound scalar_def sorts_robj order case_prod_unfold Let_def)
next
  case (JObj e)
  then have "C (ren f g l v) (rmap f m) = map_prod id (rmap f) (C v m)" using IH assms(2) by blast
  moreover have "rfield f g l d k v = ren f g l v" using JObj by (simp add: rfield_compound scalar_def)
  moreover from JObj have "is_obj (ren f g l v)" by simp
  then obtain e' where e': "ren f g l v = JObj e'" by (cases "ren f g l v") simp_all
  moreover have "is_node (JObj e') = is_node (JObj e)" by (metis is_node_ren e' JObj)
  ultimately show ?thesis using JObj by (simp add: kidS_def case_prod_unfold Let_def)
qed (simp_all add: kidS_def rfield_def is_node_def)

lemma canon_ren:
  assumes f: "renaming f"
  shows "wf_ast j \<Longrightarrow> canon sha (ren f g l j) (rmap f m) = map_prod id (rmap f) (canon sha j m)"
proof (induction j arbitrary: m rule: measure_induct_rule [where f = size])
  case (less j)
  show ?case
  proof (cases j)
    case (JList xs)
    have "mapS (canon sha) (map (ren f g l) xs) (rmap f m) =
        map_prod id (rmap f) (mapS (canon sha) xs m)"
    proof (rule mapS_sim)
      fix x m assume "x \<in> set xs"
      with less.prems JList list_item_size [OF this] show
        "canon sha (ren f g l x) (rmap f m) = map_prod id (rmap f) (canon sha x m)"
        by (intro less.IH) (auto simp: list_all_iff)
    qed
    with JList show ?thesis by (simp add: case_prod_unfold Let_def)
  next
    case (JObj d)
    show ?thesis
    proof (cases "dhas d ''nodeType''")
      case True
      note wf = wf_obj [OF less.prems [unfolded JObj] True]
      have step: "mapS (kidS (canon0 sha) (canon sha) (robj f g l d)) (kids (robj f g l d)) (rmap f m')
        = map_prod id (rmap f) (mapS (kidS (canon0 sha) (canon sha) d) (kids d) m')" for m'
        unfolding kids_robj
      proof (rule mapS_sim)
        fix kv m assume kv: "kv \<in> set (kids d)"
        obtain k v where [simp]: "kv = (k, v)" by (cases kv)
        from kv have wv: "wf_ast v" and sv: "size v < size j"
          using kids_wf [OF less.prems [unfolded JObj] True] kids_size JObj by auto
        have "kidS (canon0 sha) (canon sha) (robj f g l d) (k, rfield f g l d k v) (rmap f m) =
            map_prod id (rmap f) (kidS (canon0 sha) (canon sha) d (k, v) m)"
        proof (rule kidS_ren)
          fix x m assume "size x \<le> size v" "wf_ast x"
          with sv show "canon sha (ren f g l x) (rmap f m) = map_prod id (rmap f) (canon sha x m)"
            by (intro less.IH) simp_all
        qed (use wf wv canon0_ren in simp_all)
        then show "kidS (canon0 sha) (canon sha) (robj f g l d)
              (case kv of (k, v) \<Rightarrow> (k, rfield f g l d k v)) (rmap f m) =
            map_prod id (rmap f) (kidS (canon0 sha) (canon sha) d kv m)"
          by simp
      qed
      show ?thesis
        using True wf
        by (simp add: JObj ren_obj canon_obj node_type_robj attr_parts_robj register_robj [OF f]
            ref_parts_robj [OF f] argnames_robj step case_prod_unfold Let_def)
    qed (simp add: JObj ren_obj canon.simps(2))
  qed simp_all
qed

lemma hash_ren:
  assumes "renaming f" "list_all wf_ast asts"
  shows "canonical_ast_hash sha (map (ren f g l) asts) = canonical_ast_hash sha asts"
proof -
  have "fst (canon sha (ren f g l ast) []) = fst (canon sha ast [])" if "ast \<in> set asts" for ast
    using that assms canon_ren [OF assms(1), of ast sha g l "[]"] by (simp add: list_all_iff)
  then have "map (\<lambda>ast. fst (canon sha ast [])) (map (ren f g l) asts) =
      map (\<lambda>ast. fst (canon sha ast [])) asts" by simp
  then show ?thesis unfolding canonical_ast_hash_def by (rule arg_cong)
qed

section \<open>Concrete programs\<close>

definition unit_with :: "json list \<Rightarrow> json" where
  "unit_with ns = JObj [(''nodeType'', JStr ''SourceUnit''), (''id'', JInt 1), (''nodes'', JList ns)]"

definition contract_with :: "string \<Rightarrow> int \<Rightarrow> string \<Rightarrow> json list \<Rightarrow> json" where
  "contract_with kind i nm ns =
     JObj [(''nodeType'', JStr ''ContractDefinition''), (''id'', JInt i), (''name'', JStr nm),
           (''contractKind'', JStr kind), (''src'', JStr ''0:9:0''), (''nodes'', JList ns)]"

definition state_var :: "int \<Rightarrow> string \<Rightarrow> json \<Rightarrow> json" where
  "state_var i nm init =
     JObj [(''nodeType'', JStr ''VariableDeclaration''), (''id'', JInt i), (''name'', JStr nm),
           (''stateVariable'', JBool True), (''value'', init)]"

definition literal :: "string \<Rightarrow> string \<Rightarrow> json" where
  "literal v sub = JObj [(''nodeType'', JStr ''Literal''), (''kind'', JStr ''number''),
     (''value'', JStr v), (''subdenomination'', JStr sub)]"

definition reference :: "int \<Rightarrow> string \<Rightarrow> json" where
  "reference i nm = JObj [(''nodeType'', JStr ''Identifier''), (''name'', JStr nm),
     (''referencedDeclaration'', JInt i)]"

definition using_for :: "int \<Rightarrow> json" where
  "using_for i = JObj [(''nodeType'', JStr ''UsingForDirective''),
     (''functionList'', JList [JObj [(''function'', JObj [(''nodeType'', JStr ''IdentifierPath''),
        (''name'', JStr ''f''), (''referencedDeclaration'', JInt i)])]])]"

definition two_vars :: "int \<Rightarrow> int \<Rightarrow> string \<Rightarrow> string \<Rightarrow> int \<Rightarrow> string \<Rightarrow> json" where
  "two_vars a b na nb r nr = unit_with [contract_with ''contract'' 2 ''C''
     [state_var a na (literal ''1'' ''wei''), state_var b nb (reference r nr)]]"

section \<open>Properties\<close>

text \<open>C32: the fingerprint of a repro is a function of the program up to renaming: renumbering the
  declarations by an injective map, renaming identifiers, moving code in the file and reordering
  the files leave it unchanged, whatever the hash function.\<close>

theorem fingerprint_alpha_invariant:
  assumes "renaming f" and "list_all wf_ast asts"
    and "mset asts' = mset (map (ren f g l) asts)"
  shows "repro_fingerprint sha lane delta (Some asts') parse =
           repro_fingerprint sha lane delta (Some asts) parse"
proof -
  let ?h = "\<lambda>ast. fst (canon sha ast [])"
  have "mset (map ?h asts') = mset (map ?h (map (ren f g l) asts))"
    using assms(3) by (simp only: mset_map)
  then have "sort (map ?h asts') = sort (map ?h (map (ren f g l) asts))"
    by (intro properties_for_sort) (simp_all only: mset_sort sorted_sort)
  then have "canonical_ast_hash sha asts' = canonical_ast_hash sha (map (ren f g l) asts)"
    by (simp only: canonical_ast_hash_def)
  with hash_ren [OF assms(1,2)] show ?thesis
    by (simp add: repro_fingerprint_def source_ast_hash_def)
qed

theorem fingerprint_alpha_invariant_witness:
  "repro_fingerprint id ''S'' ''wrong-value'' (Some [two_vars 13 14 ''u'' ''v'' 13 ''u'']) None =
     repro_fingerprint id ''S'' ''wrong-value'' (Some [two_vars 3 4 ''x'' ''y'' 3 ''x'']) None"
proof (rule fingerprint_alpha_invariant [of "\<lambda>i. if i < 0 then i else if i < 3 then i else i + 10" _ _
      "\<lambda>s. if s = ''x'' then ''u'' else if s = ''y'' then ''v'' else s" "\<lambda>s. s"])
  show "renaming (\<lambda>i. if i < 0 then i else if i < 3 then i else i + 10)"
    by (auto simp: renaming_def inj_def split: if_splits)
  show "list_all wf_ast [two_vars 3 4 ''x'' ''y'' 3 ''x'']" by code_simp
  show "mset [two_vars 13 14 ''u'' ''v'' 13 ''u''] =
      mset (map (ren (\<lambda>i. if i < 0 then i else if i < 3 then i else i + 10)
        (\<lambda>s. if s = ''x'' then ''u'' else if s = ''y'' then ''v'' else s) (\<lambda>s. s))
      [two_vars 3 4 ''x'' ''y'' 3 ''x''])"
    by (rule arg_cong [of _ _ mset]) code_simp
qed

text \<open>Three pairs of different programs with one fingerprint, whatever the hash: a literal
  and the same literal with another denomination, a contract and a library, and two
  \<open>using\<close> directives with different functions. So the fingerprint does not distinguish all
  programs that differ in more than names.\<close>

theorem fingerprint_over_match:
  "canonical_ast_hash sha [unit_with [contract_with ''contract'' 2 ''C'' [state_var 3 ''x'' (literal ''1'' ''ether'')]]] =
   canonical_ast_hash sha [unit_with [contract_with ''contract'' 2 ''C'' [state_var 3 ''x'' (literal ''1'' ''wei'')]]]
   \<and> canonical_ast_hash sha [unit_with [contract_with ''contract'' 2 ''C'' []]] =
     canonical_ast_hash sha [unit_with [contract_with ''library'' 2 ''C'' []]]
   \<and> canonical_ast_hash sha [unit_with [using_for 3]] = canonical_ast_hash sha [unit_with [using_for 4]]"
proof (intro conjI)
  show "canonical_ast_hash sha [unit_with [using_for 3]] = canonical_ast_hash sha [unit_with [using_for 4]]"
    by code_simp
  show "canonical_ast_hash sha [unit_with [contract_with ''contract'' 2 ''C'' []]] =
     canonical_ast_hash sha [unit_with [contract_with ''library'' 2 ''C'' []]]"
    by code_simp
  show "canonical_ast_hash sha [unit_with [contract_with ''contract'' 2 ''C'' [state_var 3 ''x'' (literal ''1'' ''ether'')]]] =
   canonical_ast_hash sha [unit_with [contract_with ''contract'' 2 ''C'' [state_var 3 ''x'' (literal ''1'' ''wei'')]]]"
    by code_simp
qed

end
