(* ===== verification/KnownGaps.thy ===== *)
theory KnownGaps
  imports Fingerprint
begin

text \<open>
  \<open>contest/known_gaps.py\<close>: the registry of known gaps. An entry has no key of its own: its key is
  the fingerprint of its repro, cached in a JSON file (\<open>stored\<close>, the \<open>entries\<close> object of the
  file). This theory has the entry, the table of the open gaps, the registry invariant
  (\<open>verify_fingerprints\<close>) and the submission-time matching; titles and notes are left out.
  The files of a repro and their ASTs are parameters: \<open>repro e\<close> is \<open>None\<close> without \<open>.sol\<close> sources,
  else the analyzed ASTs (\<open>None\<close> when solc rejects) and the parse-only ones.
\<close>

type_synonym repro_asts = "json list option \<times> json list option"

definition KNOWN_GAPS_VERSION :: string where
  "KNOWN_GAPS_VERSION = ''2.0.0''"

record gap =
  g_id :: string
  g_lane :: string
  g_status :: string
  g_feature :: string
  g_component :: string
  g_delta :: string
  g_repro_dir :: "string option"

definition gap :: "string \<Rightarrow> string \<Rightarrow> string \<Rightarrow> string \<Rightarrow> string \<Rightarrow> string \<Rightarrow> string option \<Rightarrow> gap" where
  "gap i lane status feature component delta repro =
     \<lparr>g_id = i, g_lane = lane, g_status = status, g_feature = feature, g_component = component,
      g_delta = delta, g_repro_dir = repro\<rparr>"

definition OPEN_ENTRIES :: "gap list" where
  "OPEN_ENTRIES =
     [gap ''G1'' ''S'' ''open'' ''using-operator-nonbuiltin-body''
        ''return_value'' ''wrong-value'' None,
      gap ''G2'' ''S'' ''open'' ''msg.value-in-view-nonpayable''
        ''over_accept'' ''over-accept'' None,
      gap ''G3'' ''S'' ''open'' ''eq-on-reference-types''
        ''over_accept'' ''over-accept'' None,
      gap ''G4'' ''S'' ''open'' ''const-oob-index-bytesN-fixedarray''
        ''over_accept'' ''over-accept'' None,
      gap ''G5'' ''S'' ''open'' ''bare-return-with-named-returns''
        ''over_accept'' ''over-accept'' None,
      gap ''G6'' ''S'' ''open'' ''super-to-unimplemented-base''
        ''over_accept'' ''over-accept'' None,
      gap ''G7'' ''S'' ''open'' ''emit-nonevent-member-callee''
        ''over_accept'' ''over-accept'' None,
      gap ''G8'' ''S'' ''open'' ''revert-shadowing-member''
        ''over_accept'' ''over-accept'' None,
      gap ''G9'' ''S'' ''open'' ''inline-array-literal-of-mapping''
        ''over_accept'' ''over-accept'' None,
      gap ''G10'' ''S'' ''open'' ''msg.data-in-receive''
        ''over_accept'' ''over-accept'' None,
      gap ''G11'' ''S'' ''open'' ''cross-contract-creationcode-cycle''
        ''over_accept'' ''over-accept'' None,
      gap ''G12'' ''S'' ''open'' ''identifier-underscore-not-reserved''
        ''over_accept'' ''over-accept'' None,
      gap ''G16'' ''C'' ''open'' ''try-on-library-usingfor-call''
        ''typecheck'' ''over_reject'' None,
      gap ''G19'' ''S'' ''open'' ''mutability-relaxing-override''
        ''over_accept'' ''over-accept'' None,
      gap ''G20'' ''S'' ''open'' ''using-for-wildcard-imported''
        ''over_accept'' ''over-accept'' None,
      gap ''G22'' ''S'' ''open'' ''salted-create-address-prediction''
        ''return_value'' ''wrong-value'' None,
      gap ''CF3'' ''C'' ''open'' ''ctrlflow-fuel-placeholder-fallback''
        ''typecheck'' ''over_reject'' None,
      gap ''A1'' ''S'' ''open'' ''try-void-call-codeless-address''
        ''revert_data'' ''revert-vs-success'' None,
      gap ''A2'' ''S'' ''open'' ''catch-clause-source-order-vs-kind''
        ''return_value'' ''wrong-value'' (Some ''tests/forge-harness/catch-dispatch-by-kind''),
      gap ''A3'' ''S'' ''open'' ''extcodesize-nonident-receiver''
        ''revert_data'' ''revert-vs-success'' (Some ''tests/forge-harness/extcodesize-existence-guard''),
      gap ''CB1'' ''S'' ''open'' ''trycatch-short-error-clause-dispatch''
        ''return_value'' ''wrong-value'' None]"

section \<open>Keys derived from repros\<close>

text \<open>\<open>GapEntry.fingerprint\<close>: the cached key.\<close>

definition gap_fingerprint :: "(string \<times> json) list \<Rightarrow> gap \<Rightarrow> json" where
  "gap_fingerprint stored e =
     (case dget stored (g_id e) of None \<Rightarrow> JNull
      | Some v \<Rightarrow> jget (jobj v) ''fingerprint'')"

text \<open>\<open>derive_fingerprint\<close>: \<open>None\<close> without sources, an exception when the repro does not parse.\<close>

definition derive_fingerprint ::
  "(string \<Rightarrow> string) \<Rightarrow> (gap \<Rightarrow> repro_asts option) \<Rightarrow> gap \<Rightarrow> string option res" where
  "derive_fingerprint sha repro e =
     (case (if g_repro_dir e = None then None else repro e) of
        None \<Rightarrow> Inr None
      | Some (full, parse) \<Rightarrow>
          (case repro_fingerprint sha (g_lane e) (g_delta e) full parse of
             Some fp \<Rightarrow> Inr (Some fp)
           | None \<Rightarrow> Inl RuntimeError))"

fun rebuild_fingerprints ::
  "(string \<Rightarrow> string) \<Rightarrow> (gap \<Rightarrow> repro_asts option) \<Rightarrow> gap list \<Rightarrow> (string \<times> json) list \<Rightarrow>
     (string \<times> json) list res" where
  "rebuild_fingerprints sha repro [] entries = Inr entries"
| "rebuild_fingerprints sha repro (e # es) entries =
     bindR (derive_fingerprint sha repro e) (\<lambda>fp.
       rebuild_fingerprints sha repro es
         (case fp of None \<Rightarrow> entries
          | Some f \<Rightarrow> dput entries (g_id e) (JObj [(''fingerprint'', JStr f)])))"

datatype problem =
    DuplicateId string
  | BadLane string
  | BadStatus string
  | NoReproStored string
  | NoSources string
  | NoStored string
  | Desynced string
  | UnknownId string

definition is_lane :: "string \<Rightarrow> bool" where
  "is_lane l \<longleftrightarrow> l = ''C'' \<or> l = ''S''"

definition verify_entry ::
  "(string \<Rightarrow> string) \<Rightarrow> (gap \<Rightarrow> repro_asts option) \<Rightarrow> (string \<times> json) list \<Rightarrow> string list \<Rightarrow>
     gap \<Rightarrow> problem list res" where
  "verify_entry sha repro stored seen e =
     (let i = g_id e;
          static = (if i \<in> set seen then [DuplicateId i] else [])
            @ (if is_lane (g_lane e) then [] else [BadLane i])
            @ (if g_status e \<in> {''open'', ''fixed''} then [] else [BadStatus i])
      in if g_repro_dir e = None
         then Inr (static @ (if dhas stored i then [NoReproStored i] else []))
         else if repro e = None then Inr (static @ [NoSources i])
         else bindR (derive_fingerprint sha repro e) (\<lambda>derived.
           Inr (static @
             (case gap_fingerprint stored e of
                JNull \<Rightarrow> [NoStored i]
              | got \<Rightarrow> if derived = None \<or> got \<noteq> JStr (the derived) then [Desynced i] else []))))"

fun verify_entries ::
  "(string \<Rightarrow> string) \<Rightarrow> (gap \<Rightarrow> repro_asts option) \<Rightarrow> (string \<times> json) list \<Rightarrow> string list \<Rightarrow>
     gap list \<Rightarrow> problem list res" where
  "verify_entries sha repro stored seen [] = Inr []"
| "verify_entries sha repro stored seen (e # es) =
     bindR (verify_entry sha repro stored seen e) (\<lambda>ps.
       bindR (verify_entries sha repro stored (g_id e # seen) es) (\<lambda>qs. Inr (ps @ qs)))"

definition verify_fingerprints ::
  "(string \<Rightarrow> string) \<Rightarrow> (gap \<Rightarrow> repro_asts option) \<Rightarrow> (string \<times> json) list \<Rightarrow> gap list \<Rightarrow>
     problem list res" where
  "verify_fingerprints sha repro stored entries =
     bindR (verify_entries sha repro stored [] entries) (\<lambda>ps.
       Inr (ps @ map UnknownId (filter (\<lambda>k. k \<notin> set (map g_id entries)) (dkeys stored))))"

section \<open>Matching\<close>

definition delta_class_of_live_key :: "string \<Rightarrow> string list \<Rightarrow> string" where
  "delta_class_of_live_key lane key =
     (if lane = ''C'' then (if 1 < length key then key ! 1 else ''unknown'')
      else if 2 < length key then key ! 2 else ''unknown'')"

text \<open>\<open>match_submission\<close>: \<open>None\<close> on any doubt. \<open>sub\<close> is \<open>None\<close> without sources.\<close>

definition match_submission ::
  "(string \<Rightarrow> string) \<Rightarrow> (string \<times> json) list \<Rightarrow> gap list \<Rightarrow> string \<Rightarrow> string list \<Rightarrow>
     repro_asts option \<Rightarrow> gap option" where
  "match_submission sha stored opens lane live_key sub =
     (case sub of
        None \<Rightarrow> None
      | Some (full, parse) \<Rightarrow>
          (case repro_fingerprint sha lane (delta_class_of_live_key lane live_key) full parse of
             None \<Rightarrow> None
           | Some fp \<Rightarrow>
               find (\<lambda>e. g_lane e = lane \<and> gap_fingerprint stored e = JStr fp) opens))"

definition feature_hint :: "gap list \<Rightarrow> string \<Rightarrow> string \<Rightarrow> string list" where
  "feature_hint opens lane token =
     map g_id (filter (\<lambda>e. g_lane e = lane \<and> g_feature e = token) opens)"

definition cluster_by_delta :: "gap list \<Rightarrow> string \<Rightarrow> string \<Rightarrow> string \<Rightarrow> string list" where
  "cluster_by_delta opens lane component delta_shape =
     (if lane \<noteq> ''S'' then []
      else map g_id (filter (\<lambda>e. g_lane e = lane \<and> g_component e = component
             \<and> g_delta e = delta_shape) opens))"

definition no_repro_entries :: "gap list \<Rightarrow> gap list" where
  "no_repro_entries entries = filter (\<lambda>e. g_repro_dir e = None) entries"

end
