(* ===== verification/KnownGapsFixed.thy ===== *)
theory KnownGapsFixed
  imports KnownGaps
begin

text \<open>
  \<open>contest/known_gaps.py\<close>, the table of the known-fixed gaps (\<open>_FIXED_ENTRIES\<close>), and the whole
  registry \<open>_ALL_ENTRIES\<close>.
\<close>

definition FIXED_ENTRIES :: "gap list" where
  "FIXED_ENTRIES =
     [gap ''DL1'' ''S'' ''fixed'' ''storage-ctor-initializer-order''
        ''return_value'' ''wrong-value'' None,
      gap ''M1'' ''S'' ''fixed'' ''memory-alias-reference-assignment''
        ''return_value'' ''wrong-value'' (Some ''tests/forge-harness/memory-alias-fixes''),
      gap ''M4'' ''S'' ''fixed'' ''memory-deep-deref-encode-keccak''
        ''return_value'' ''wrong-value'' None,
      gap ''E1'' ''S'' ''fixed'' ''nonrational-immutable-read-in-pure''
        ''over_accept'' ''over-accept'' None,
      gap ''E2'' ''C'' ''fixed'' ''this-f-selector-in-pure''
        ''typecheck'' ''over_reject'' None,
      gap ''O1'' ''S'' ''fixed'' ''duplicate-contract-in-override-list''
        ''over_accept'' ''over-accept'' None,
      gap ''CF2'' ''C'' ''fixed'' ''no-revert-pruning-always-reverting-callee''
        ''typecheck'' ''over_reject'' (Some ''tests/forge-harness/cf2-revert-pruning''),
      gap ''PT1'' ''S'' ''fixed'' ''constant-cyclic-dependency''
        ''over_accept'' ''over-accept'' None,
      gap ''CL1'' ''S'' ''fixed'' ''bare-modifier-base-ctor-zeroparam''
        ''over_accept'' ''over-accept'' None,
      gap ''PK1'' ''C'' ''fixed'' ''encodepacked-nested-static-array''
        ''typecheck'' ''over_reject'' (Some ''tests/forge-harness/packed-nested-static-array''),
      gap ''UF1'' ''C'' ''fixed'' ''using-for-global-nonudvt''
        ''typecheck'' ''over_reject'' (Some ''tests/forge-harness/using-for-global-nonudvt''),
      gap ''UF2'' ''S'' ''fixed'' ''operator-binding-mixed-params''
        ''over_accept'' ''over-accept'' None,
      gap ''UF3'' ''S'' ''fixed'' ''duplicate-operator-binding''
        ''over_accept'' ''over-accept'' None,
      gap ''V1'' ''S'' ''fixed'' ''calldata-slice-oob-revert-data''
        ''revert_data'' ''wrong-revert'' (Some ''tests/forge-harness/calldata-slice-oob''),
      gap ''A1IF'' ''C'' ''fixed'' ''abstract-contract-interfaceId-lowering''
        ''elaboration'' ''elab_reject'' (Some ''tests/forge-harness/abstract-interface-id''),
      gap ''DL52'' ''C'' ''fixed'' ''ec-cmp''
        ''typecheck'' ''over_reject'' None,
      gap ''DL53'' ''S'' ''fixed'' ''fp-eq-2''
        ''return_value'' ''wrong-value'' None,
      gap ''DL54'' ''S'' ''fixed'' ''mod-ret''
        ''over_accept'' ''over-accept'' None,
      gap ''DL55'' ''C'' ''fixed'' ''base-call''
        ''typecheck'' ''over_reject'' (Some ''tests/forge-harness/base-qualified-call''),
      gap ''DL56'' ''S'' ''fixed'' ''al1''
        ''over_accept'' ''over-accept'' None,
      gap ''DL57'' ''C'' ''fixed'' ''tup-idx''
        ''typecheck'' ''over_reject'' None,
      gap ''DL58'' ''C'' ''fixed'' ''al-exec''
        ''typecheck'' ''over_reject'' (Some ''tests/forge-harness/inline-array-literal-exec''),
      gap ''DL59'' ''S'' ''fixed'' ''uni1''
        ''return_value'' ''wrong-value'' None,
      gap ''DL62'' ''S'' ''fixed'' ''dec-oom''
        ''return_value'' ''wrong-value'' None,
      gap ''DL63'' ''S'' ''fixed'' ''get-struct''
        ''over_accept'' ''over-accept'' None,
      gap ''DL69'' ''S'' ''fixed'' ''priv-shadow''
        ''over_accept'' ''over-accept'' None,
      gap ''DL70'' ''C'' ''fixed'' ''callpos-family''
        ''typecheck'' ''over_reject'' (Some ''tests/forge-harness/callpos-family''),
      gap ''DL70b'' ''C'' ''fixed'' ''call-position''
        ''typecheck'' ''over_reject'' (Some ''tests/forge-harness/call-position''),
      gap ''DL73'' ''C'' ''fixed'' ''extcall-binary''
        ''typecheck'' ''over_reject'' (Some ''tests/forge-harness/extcall-binary''),
      gap ''DL74'' ''C'' ''fixed'' ''emit-qual''
        ''typecheck'' ''over_reject'' None,
      gap ''DL77'' ''C'' ''fixed'' ''revert-qual''
        ''typecheck'' ''over_reject'' None,
      gap ''DL78'' ''S'' ''fixed'' ''encpacked-lit''
        ''over_accept'' ''over-accept'' (Some ''tests/forge-harness/encpacked-literal''),
      gap ''DL80'' ''C'' ''fixed'' ''sb-a''
        ''typecheck'' ''over_reject'' None,
      gap ''DL81'' ''S'' ''fixed'' ''div-dup-inh-mod''
        ''over_accept'' ''over-accept'' None,
      gap ''DL82'' ''S'' ''fixed'' ''usingfor-brace''
        ''over_accept'' ''over-accept'' None,
      gap ''DL83'' ''S'' ''fixed'' ''d-oom-dispatch''
        ''return_value'' ''wrong-value'' (Some ''tests/forge-harness/dispatch-oom''),
      gap ''DL84'' ''S'' ''fixed'' ''tc-oom1''
        ''return_value'' ''wrong-value'' None,
      gap ''DL86'' ''S'' ''fixed'' ''cmp-mixedsign''
        ''over_accept'' ''over-accept'' None,
      gap ''DL93'' ''C'' ''fixed'' ''lib-storage-public-2''
        ''typecheck'' ''over_reject'' (Some ''tests/forge-harness/lib-storage-public-2''),
      gap ''DL94'' ''S'' ''fixed'' ''str-overaccept---payable-vis''
        ''over_accept'' ''over-accept'' None,
      gap ''DL95'' ''C'' ''fixed'' ''push-field-lvalue''
        ''typecheck'' ''over_reject'' (Some ''tests/forge-harness/push-field-lvalue''),
      gap ''DL101'' ''C'' ''fixed'' ''calldata-lazy-value''
        ''typecheck'' ''over_reject'' (Some ''tests/forge-harness/calldata-lazy-value''),
      gap ''DL102'' ''C'' ''fixed'' ''qualified-member-cluster''
        ''typecheck'' ''over_reject'' (Some ''tests/forge-harness/qualified-member''),
      gap ''DL104'' ''S'' ''fixed'' ''syntax-overaccept''
        ''over_accept'' ''over-accept'' None,
      gap ''DL105'' ''S'' ''fixed'' ''dup-event-sibling''
        ''over_accept'' ''over-accept'' None,
      gap ''DL106'' ''S'' ''fixed'' ''inherited-identifier-clash''
        ''over_accept'' ''over-accept'' None,
      gap ''DL108'' ''S'' ''fixed'' ''abi-decode-address-payable''
        ''return_value'' ''wrong-value'' (Some ''tests/forge-harness/abi-decode-address-payable''),
      gap ''DL109'' ''C'' ''fixed'' ''common-type-literal-mobile''
        ''typecheck'' ''over_reject'' (Some ''tests/forge-harness/common-type-literal''),
      gap ''DL110'' ''C'' ''fixed'' ''qualified-struct-construction''
        ''typecheck'' ''over_reject'' (Some ''tests/forge-harness/qualified-struct-construction''),
      gap ''DL112'' ''C'' ''fixed'' ''create-salt-literal''
        ''typecheck'' ''over_reject'' (Some ''tests/forge-harness/create-salt-literal''),
      gap ''DL114'' ''S'' ''fixed'' ''dec-alloc-memptr''
        ''return_value'' ''wrong-value'' (Some ''tests/forge-harness/dec-alloc-memptr''),
      gap ''DL115'' ''C'' ''fixed'' ''const-getter-pure-override''
        ''typecheck'' ''over_reject'' (Some ''tests/forge-harness/const-getter-pure-override''),
      gap ''DL116'' ''C'' ''fixed'' ''ternary-storage-statelvalue''
        ''typecheck'' ''over_reject'' None,
      gap ''DL117'' ''S'' ''fixed'' ''frac-cmp-overaccept''
        ''over_accept'' ''over-accept'' None,
      gap ''DL121'' ''C'' ''fixed'' ''const-zero-bytesn''
        ''typecheck'' ''over_reject'' (Some ''tests/forge-harness/const-zero-bytesn''),
      gap ''DL123'' ''S'' ''fixed'' ''struct-cycle-fuel''
        ''over_accept'' ''over-accept'' None,
      gap ''DL124'' ''S'' ''fixed'' ''slice-dyn-base''
        ''over_accept'' ''over-accept'' None,
      gap ''DL126'' ''C'' ''fixed'' ''array-widen-copy''
        ''typecheck'' ''over_reject'' (Some ''tests/forge-harness/array-widen-copy''),
      gap ''DL127'' ''S'' ''fixed'' ''encodecall-overload''
        ''over_accept'' ''over-accept'' None,
      gap ''DL128'' ''S'' ''fixed'' ''abi-decode-eager-headcheck''
        ''return_value'' ''wrong-value'' (Some ''tests/forge-harness/abi-memory-eager''),
      gap ''DL130'' ''S'' ''fixed'' ''delete-expr-type''
        ''over_accept'' ''over-accept'' None,
      gap ''DL131'' ''C'' ''fixed'' ''shortcircuit-call-pos''
        ''typecheck'' ''over_reject'' (Some ''tests/forge-harness/shortcircuit-callpos''),
      gap ''DL132'' ''S'' ''fixed'' ''tuple-write-order''
        ''return_value'' ''wrong-value'' (Some ''tests/forge-harness/tuple-write-order''),
      gap ''DL134'' ''C'' ''fixed'' ''contract-ordered-cmp''
        ''typecheck'' ''over_reject'' (Some ''tests/forge-harness/contract-ordered-compare''),
      gap ''DL135'' ''C'' ''fixed'' ''array-mutation-vs-usingfor''
        ''typecheck'' ''over_reject'' (Some ''tests/forge-harness/array-mutation-usingfor''),
      gap ''DL136'' ''S'' ''fixed'' ''qualified-error-collision''
        ''return_value'' ''wrong-value'' None,
      gap ''DL137'' ''C'' ''fixed'' ''qualified-event-collision''
        ''typecheck'' ''over_reject'' None,
      gap ''DL138'' ''C'' ''fixed'' ''qualified-event-selector''
        ''typecheck'' ''over_reject'' (Some ''tests/forge-harness/qualified-event-selector''),
      gap ''DL139'' ''C'' ''fixed'' ''error-selector-collision''
        ''typecheck'' ''over_reject'' (Some ''tests/forge-harness/error-selector-collision''),
      gap ''DL140'' ''S'' ''fixed'' ''abiencode-lit-fixedbytes''
        ''return_value'' ''wrong-value'' (Some ''tests/forge-harness/abiencode-lit-fixedbytes''),
      gap ''DL141'' ''C'' ''fixed'' ''emit-revert-lit-fixedbytes''
        ''typecheck'' ''over_reject'' None,
      gap ''DL142'' ''S'' ''fixed'' ''push-lit-fixedbytes''
        ''return_value'' ''wrong-value'' None,
      gap ''DL143'' ''C'' ''fixed'' ''encwithselector-lit-selector''
        ''typecheck'' ''over_reject'' None,
      gap ''DL144'' ''S'' ''fixed'' ''extfnptr-call-lit-fixedbytes''
        ''return_value'' ''wrong-value'' None,
      gap ''DL145'' ''C'' ''fixed'' ''mapkey-lit-fixedbytes''
        ''typecheck'' ''over_reject'' None,
      gap ''DL148'' ''C'' ''fixed'' ''call-in-array-literal''
        ''typecheck'' ''over_reject'' None,
      gap ''DL149'' ''C'' ''fixed'' ''call-in-struct-ctor-arg''
        ''typecheck'' ''over_reject'' None,
      gap ''DL150'' ''C'' ''fixed'' ''call-in-new-arg''
        ''typecheck'' ''over_reject'' None,
      gap ''DL151'' ''C'' ''fixed'' ''call-in-nested-arg''
        ''typecheck'' ''over_reject'' None,
      gap ''DL152'' ''C'' ''fixed'' ''stringconcat-hexlit-utf8''
        ''typecheck'' ''over_reject'' (Some ''tests/forge-harness/stringconcat-hexlit''),
      gap ''DL154'' ''S'' ''fixed'' ''deploy-abstract''
        ''over_accept'' ''over-accept'' None,
      gap ''DL155'' ''C'' ''fixed'' ''lib-storage-return''
        ''typecheck'' ''over_reject'' (Some ''tests/forge-harness/lib-storage-return''),
      gap ''DL160'' ''C'' ''fixed'' ''recursive-struct-mem-construct''
        ''typecheck'' ''over_reject'' (Some ''tests/forge-harness/recursive-struct-mem-construct''),
      gap ''DL163'' ''C'' ''fixed'' ''new-contract-local-struct-array''
        ''typecheck'' ''over_reject'' (Some ''tests/forge-harness/new-contract-local-struct-array''),
      gap ''DL164'' ''S'' ''fixed'' ''exp-narrow-base-wide-exponent''
        ''return_value'' ''wrong-value'' (Some ''tests/forge-harness/exp-narrow-base-wide-exp''),
      gap ''DL165'' ''C'' ''fixed'' ''bool-cast-of-comparison''
        ''typecheck'' ''over_reject'' (Some ''tests/forge-harness/bool-cast-of-comparison''),
      gap ''DL166'' ''C'' ''fixed'' ''overload-mem-vs-storage-location''
        ''typecheck'' ''over_reject'' (Some ''tests/forge-harness/overload-mem-vs-storage''),
      gap ''DL167'' ''C'' ''fixed'' ''creationcode-ancestor''
        ''typecheck'' ''over_reject'' (Some ''tests/forge-harness/creationcode-ancestor''),
      gap ''DL168'' ''S'' ''fixed'' ''delete-memory-nested-ref''
        ''return_value'' ''wrong-value'' (Some ''tests/forge-harness/delete-memory-nested-ref''),
      gap ''DL170'' ''C'' ''fixed'' ''address-folded-const-conversion''
        ''typecheck'' ''over_reject'' (Some ''tests/forge-harness/address-folded-const''),
      gap ''DL171'' ''S'' ''fixed'' ''tuple-vardecl-from-abi-decode''
        ''return_value'' ''wrong-value'' (Some ''tests/forge-harness/tuple-vardecl-abi-decode''),
      gap ''DL172'' ''S'' ''fixed'' ''tuple-vardecl-ternary-rhs''
        ''return_value'' ''wrong-value'' (Some ''tests/forge-harness/tuple-vardecl-ternary''),
      gap ''DL173'' ''S'' ''fixed'' ''ternary-with-call-in-call-argument''
        ''return_value'' ''wrong-value'' (Some ''tests/forge-harness/ternary-call-in-arg''),
      gap ''DL174'' ''S'' ''fixed'' ''abi-encode-internal-call-arg''
        ''return_value'' ''wrong-value'' (Some ''tests/forge-harness/abi-encode-call-arg''),
      gap ''DL175'' ''S'' ''fixed'' ''bytesn-ident-index-panics''
        ''return_value'' ''wrong-value'' (Some ''tests/forge-harness/bytesn-ident-index''),
      gap ''DL176'' ''S'' ''fixed'' ''bytesn-storage-var-index-panic''
        ''return_value'' ''wrong-value'' (Some ''tests/forge-harness/bytesn-ident-index''),
      gap ''DL178'' ''S'' ''fixed'' ''enum-member-access-encodepacked-width''
        ''return_value'' ''wrong-value'' (Some ''tests/forge-harness/enum-member-encodepacked''),
      gap ''DL180'' ''C'' ''fixed'' ''bytesn-eq-literal''
        ''typecheck'' ''over_reject'' (Some ''tests/forge-harness/bytesn-eq-literal''),
      gap ''DL181'' ''C'' ''fixed'' ''address-nested-conv-const-depth3''
        ''typecheck'' ''over_reject'' (Some ''tests/forge-harness/address-nested-conv''),
      gap ''DL182'' ''S'' ''fixed'' ''forinit-narrow-counter-no-cleanup''
        ''return_value'' ''wrong-value'' (Some ''tests/forge-harness/narrow-cleanup-family''),
      gap ''DL183'' ''S'' ''fixed'' ''push-arg-narrow-no-cleanup''
        ''return_value'' ''wrong-value'' (Some ''tests/forge-harness/narrow-cleanup-family''),
      gap ''DL184'' ''S'' ''fixed'' ''struct-ctor-field-narrow-no-cleanup''
        ''return_value'' ''wrong-value'' (Some ''tests/forge-harness/narrow-cleanup-family''),
      gap ''DL185'' ''C'' ''fixed'' ''array-literal-assign-unsupported''
        ''typecheck'' ''over_reject'' None,
      gap ''DL187'' ''S'' ''fixed'' ''binary-operand-order-ltr''
        ''return_value'' ''wrong-value'' None,
      gap ''DL188'' ''C'' ''fixed'' ''indexed-storage-ref-return-panic''
        ''typecheck'' ''over_reject'' None,
      gap ''DL189'' ''S'' ''fixed'' ''tuple-rhs-component-order-rtl''
        ''return_value'' ''wrong-value'' None,
      gap ''DL190'' ''S'' ''fixed'' ''eval-order-l2r-sites''
        ''return_value'' ''wrong-value'' None,
      gap ''DL191'' ''S'' ''fixed'' ''external-binary-operand-order''
        ''return_value'' ''wrong-value'' None,
      gap ''DL192'' ''C'' ''fixed'' ''hash-of-storage-bytes-panic''
        ''typecheck'' ''over_reject'' None,
      gap ''DL194'' ''S'' ''fixed'' ''lvalue-index-key-narrow-no-cleanup''
        ''return_value'' ''wrong-value'' (Some ''tests/forge-harness/narrow-cleanup-family''),
      gap ''DL195'' ''S'' ''fixed'' ''emit-call-args-defeat-two-phase''
        ''return_value'' ''wrong-value'' None,
      gap ''DL197'' ''C'' ''fixed'' ''inherited-struct-field-access''
        ''typecheck'' ''over_reject'' (Some ''tests/forge-harness/inherited-struct-field''),
      gap ''DL199'' ''C'' ''fixed'' ''modifier-body-private-var-scope''
        ''typecheck'' ''over_reject'' (Some ''tests/forge-harness/modifier-private-scope''),
      gap ''DL205'' ''C'' ''fixed'' ''ws1-env-audit-batch''
        ''typecheck'' ''over_reject'' None,
      gap ''G13'' ''C'' ''fixed'' ''nested-tuple-LHS''
        ''typecheck'' ''over_reject'' (Some ''tests/forge-harness/nested-tuple-assignment''),
      gap ''G14'' ''C'' ''fixed'' ''storage-array-assign-shorter-source''
        ''typecheck'' ''over_reject'' (Some ''tests/forge-harness/storage-array-copy-convert''),
      gap ''G15'' ''C'' ''fixed'' ''ternary-of-literals-mobile-type''
        ''typecheck'' ''over_reject'' (Some ''tests/forge-harness/ternary-literal-mobile-type''),
      gap ''G17'' ''S'' ''fixed'' ''storage-ctor-uninit-internal-fn-ptr''
        ''return_value'' ''wrong-panic'' (Some ''tests/forge-harness/storage-uninit-fn-ptr''),
      gap ''G18'' ''S'' ''fixed'' ''trycatch-multislot-extfnptr-return''
        ''return_value'' ''wrong-value'' (Some ''tests/forge-harness/try-external-fn-return''),
      gap ''G21'' ''S'' ''fixed'' ''c99-block-scope-self-init''
        ''return_value'' ''wrong-value'' (Some ''tests/forge-harness/c99-scope-activation''),
      gap ''CS1'' ''S'' ''fixed'' ''selfdestruct-balance-transfer''
        ''return_value'' ''wrong-value'' (Some ''tests/forge-harness/selfdestruct-balance''),
      gap ''H1'' ''S'' ''fixed'' ''exp-literal-base-runtime-exp''
        ''return_value'' ''wrong-value'' (Some ''tests/forge-harness/exp-literal-base-runtime-exp''),
      gap ''H2'' ''S'' ''fixed'' ''signed-literal-wide-cast''
        ''return_value'' ''wrong-value'' (Some ''tests/forge-harness/signed-literal-wide-cast''),
      gap ''H3'' ''S'' ''fixed'' ''library-overload-enum-arg''
        ''return_value'' ''wrong-value'' (Some ''tests/forge-harness/library-overload-enum-arg''),
      gap ''H4'' ''S'' ''fixed'' ''fnvalue-shadowing''
        ''return_value'' ''wrong-value'' (Some ''tests/forge-harness/fnvalue-shadowing''),
      gap ''H5'' ''S'' ''fixed'' ''revert-nested-two-call''
        ''revert_data'' ''wrong-revert'' (Some ''tests/forge-harness/revert-nested-two-call''),
      gap ''H6'' ''S'' ''fixed'' ''emit-nested-two-call''
        ''events'' ''wrong-events'' (Some ''tests/forge-harness/emit-nested-two-call''),
      gap ''H7'' ''S'' ''fixed'' ''revert-mixed-env-cleanup''
        ''revert_data'' ''wrong-panic'' (Some ''tests/forge-harness/revert-mixed-env-cleanup''),
      gap ''H8'' ''S'' ''fixed'' ''abi-decode-short-head''
        ''revert_data'' ''wrong-revert'' (Some ''tests/forge-harness/abi-decode-short-head''),
      gap ''H9'' ''S'' ''fixed'' ''slice-bound-narrow-panic''
        ''revert_data'' ''wrong-panic'' (Some ''tests/forge-harness/slice-bound-narrow-panic''),
      gap ''H10'' ''S'' ''fixed'' ''library-qualified-selectors''
        ''return_value'' ''wrong-value'' (Some ''tests/forge-harness/library-qualified-selectors''),
      gap ''H11'' ''C'' ''fixed'' ''library-enum-overloads''
        ''typecheck'' ''over_reject'' (Some ''tests/forge-harness/library-enum-overloads''),
      gap ''H12'' ''C'' ''fixed'' ''extfn-location-erasure''
        ''typecheck'' ''over_reject'' (Some ''tests/forge-harness/extfn-location-erasure''),
      gap ''H13'' ''C'' ''fixed'' ''lib-struct-enum-ctor''
        ''typecheck'' ''over_reject'' (Some ''tests/forge-harness/lib-struct-enum-ctor''),
      gap ''H14'' ''C'' ''fixed'' ''storage-return-subfield-ops''
        ''typecheck'' ''over_reject'' (Some ''tests/forge-harness/storage-return-subfield-ops'')]"

definition ALL_ENTRIES :: "gap list" where
  "ALL_ENTRIES = OPEN_ENTRIES @ FIXED_ENTRIES"

lemma registry_ids:
  "map g_id ALL_ENTRIES =
     [''G1'', ''G2'', ''G3'', ''G4'', ''G5'', ''G6'', ''G7'', ''G8'', ''G9'', ''G10'',
      ''G11'', ''G12'', ''G16'', ''G19'', ''G20'', ''G22'', ''CF3'', ''A1'', ''A2'', ''A3'',
      ''CB1'', ''DL1'', ''M1'', ''M4'', ''E1'', ''E2'', ''O1'', ''CF2'', ''PT1'', ''CL1'',
      ''PK1'', ''UF1'', ''UF2'', ''UF3'', ''V1'', ''A1IF'', ''DL52'', ''DL53'', ''DL54'',
      ''DL55'', ''DL56'', ''DL57'', ''DL58'', ''DL59'', ''DL62'', ''DL63'', ''DL69'',
      ''DL70'', ''DL70b'', ''DL73'', ''DL74'', ''DL77'', ''DL78'', ''DL80'', ''DL81'',
      ''DL82'', ''DL83'', ''DL84'', ''DL86'', ''DL93'', ''DL94'', ''DL95'', ''DL101'',
      ''DL102'', ''DL104'', ''DL105'', ''DL106'', ''DL108'', ''DL109'', ''DL110'', ''DL112'',
      ''DL114'', ''DL115'', ''DL116'', ''DL117'', ''DL121'', ''DL123'', ''DL124'', ''DL126'',
      ''DL127'', ''DL128'', ''DL130'', ''DL131'', ''DL132'', ''DL134'', ''DL135'', ''DL136'',
      ''DL137'', ''DL138'', ''DL139'', ''DL140'', ''DL141'', ''DL142'', ''DL143'', ''DL144'',
      ''DL145'', ''DL148'', ''DL149'', ''DL150'', ''DL151'', ''DL152'', ''DL154'', ''DL155'',
      ''DL160'', ''DL163'', ''DL164'', ''DL165'', ''DL166'', ''DL167'', ''DL168'', ''DL170'',
      ''DL171'', ''DL172'', ''DL173'', ''DL174'', ''DL175'', ''DL176'', ''DL178'', ''DL180'',
      ''DL181'', ''DL182'', ''DL183'', ''DL184'', ''DL185'', ''DL187'', ''DL188'', ''DL189'',
      ''DL190'', ''DL191'', ''DL192'', ''DL194'', ''DL195'', ''DL197'', ''DL199'', ''DL205'',
      ''G13'', ''G14'', ''G15'', ''G17'', ''G18'', ''G21'', ''CS1'', ''H1'', ''H2'', ''H3'',
      ''H4'', ''H5'', ''H6'', ''H7'', ''H8'', ''H9'', ''H10'', ''H11'', ''H12'', ''H13'',
      ''H14'']"
  by code_simp

lemma registry_ids_distinct: "distinct (map g_id ALL_ENTRIES)"
  unfolding registry_ids by simp

lemma registry_lanes_statuses:
  "list_all (\<lambda>e. is_lane (g_lane e) \<and> g_status e \<in> {''open'', ''fixed''}) ALL_ENTRIES"
  by code_simp

end
