(* ===== verification/GapProps.thy ===== *)
theory GapProps
  imports KnownGapsFixed
begin

text \<open>
  What the registry invariant buys: rebuilding the keys establishes it, and under it a submission
  is matched only with an open gap whose own repro has the same fingerprint.
\<close>

section \<open>Rebuilding\<close>

lemma rebuild_other:
  "rebuild_fingerprints sha repro es ents = Inr st \<Longrightarrow> k \<notin> set (map g_id es) \<Longrightarrow>
     dget st k = dget ents k"
  by (induction es arbitrary: ents) (auto simp: bindR_eq_Inr split: option.splits)

lemma rebuild_derives:
  "rebuild_fingerprints sha repro es ents = Inr st \<Longrightarrow> e \<in> set es \<Longrightarrow>
     \<exists>fp. derive_fingerprint sha repro e = Inr fp"
  by (induction es arbitrary: ents) (auto simp: bindR_eq_Inr)

lemma rebuild_get:
  assumes "rebuild_fingerprints sha repro es ents = Inr st" "distinct (map g_id es)" "e \<in> set es"
    and "derive_fingerprint sha repro e = Inr fp"
  shows "dget st (g_id e) =
    (case fp of None \<Rightarrow> dget ents (g_id e) | Some f \<Rightarrow> Some (JObj [(''fingerprint'', JStr f)]))"
  using assms
proof (induction es arbitrary: ents)
  case (Cons x es)
  then obtain fx where fx: "derive_fingerprint sha repro x = Inr fx"
    and rest: "rebuild_fingerprints sha repro es
      (case fx of None \<Rightarrow> ents | Some f \<Rightarrow> dput ents (g_id x) (JObj [(''fingerprint'', JStr f)])) = Inr st"
    by (auto simp: bindR_eq_Inr)
  show ?case
  proof (cases "e = x")
    case True
    with rebuild_other [OF rest, of "g_id x"] Cons.prems fx show ?thesis
      by (auto split: option.splits)
  next
    case False
    with Cons.prems have e: "e \<in> set es" by simp
    then have "g_id e \<in> set (map g_id es)" by simp
    with Cons.prems(2) have ne: "g_id e \<noteq> g_id x" by auto
    from Cons.IH [OF rest _ e Cons.prems(4)] Cons.prems(2) ne show ?thesis
      by (simp split: option.splits)
  qed
qed simp

lemma rebuild_keys:
  "rebuild_fingerprints sha repro es ents = Inr st \<Longrightarrow>
     set (dkeys st) \<subseteq> set (dkeys ents) \<union> set (map g_id es)"
proof (induction es arbitrary: ents)
  case (Cons e es)
  from Cons.prems obtain fp where
    rest: "rebuild_fingerprints sha repro es (case fp of None \<Rightarrow> ents
        | Some f \<Rightarrow> dput ents (g_id e) (JObj [(''fingerprint'', JStr f)])) = Inr st"
    by (auto simp: bindR_eq_Inr)
  from Cons.IH [OF rest] show ?case by (auto split: option.splits if_splits)
qed simp

text \<open>The registry invariant, entry by entry.\<close>

definition entry_ok ::
  "(string \<Rightarrow> string) \<Rightarrow> (gap \<Rightarrow> repro_asts option) \<Rightarrow> (string \<times> json) list \<Rightarrow> gap \<Rightarrow> bool" where
  "entry_ok sha repro stored e \<longleftrightarrow>
     is_lane (g_lane e) \<and> g_status e \<in> {''open'', ''fixed''}
     \<and> (if g_repro_dir e = None then \<not> dhas stored (g_id e)
        else \<exists>fp. derive_fingerprint sha repro e = Inr (Some fp)
                  \<and> gap_fingerprint stored e = JStr fp)"

lemma derive_Some_repro:
  "derive_fingerprint sha repro e = Inr (Some fp) \<Longrightarrow> g_repro_dir e \<noteq> None \<and> repro e \<noteq> None"
  by (auto simp: derive_fingerprint_def split: if_splits option.splits)

lemma derive_None_repro:
  "derive_fingerprint sha repro e = Inr None \<longleftrightarrow> g_repro_dir e = None \<or> repro e = None"
  by (auto simp: derive_fingerprint_def split: option.splits)

lemma verify_entry_clean:
  "verify_entry sha repro stored seen e = Inr [] \<longleftrightarrow>
     g_id e \<notin> set seen \<and> entry_ok sha repro stored e"
proof (cases "g_repro_dir e = None")
  case True
  then show ?thesis by (auto simp: verify_entry_def entry_ok_def Let_def)
next
  case False
  show ?thesis
  proof (cases "repro e = None")
    case True
    with False show ?thesis
      by (auto simp: verify_entry_def entry_ok_def Let_def dest: derive_Some_repro)
  next
    case repro: False
    show ?thesis
    proof (cases "derive_fingerprint sha repro e")
      case (Inr d)
      with False repro derive_None_repro [of sha repro e] obtain fp where "d = Some fp"
        by (cases d) auto
      with Inr False repro show ?thesis
        by (cases "gap_fingerprint stored e") (auto simp: verify_entry_def entry_ok_def Let_def)
    qed (use False repro in \<open>auto simp: verify_entry_def entry_ok_def Let_def\<close>)
  qed
qed

lemma verify_entries_clean:
  "verify_entries sha repro stored seen es = Inr [] \<longleftrightarrow>
     distinct (map g_id es) \<and> set (map g_id es) \<inter> set seen = {}
     \<and> (\<forall>e \<in> set es. entry_ok sha repro stored e)"
proof (induction es arbitrary: seen)
  case (Cons e es)
  have "verify_entries sha repro stored seen (e # es) = Inr [] \<longleftrightarrow>
      verify_entry sha repro stored seen e = Inr []
      \<and> verify_entries sha repro stored (g_id e # seen) es = Inr []"
    by (auto simp: bindR_eq_Inr)
  then show ?case unfolding Cons.IH verify_entry_clean by auto
qed simp

lemma verify_clean:
  "verify_fingerprints sha repro stored entries = Inr [] \<longleftrightarrow>
     distinct (map g_id entries) \<and> (\<forall>e \<in> set entries. entry_ok sha repro stored e)
     \<and> set (dkeys stored) \<subseteq> set (map g_id entries)"
proof -
  have "verify_fingerprints sha repro stored entries = Inr [] \<longleftrightarrow>
      verify_entries sha repro stored [] entries = Inr []
      \<and> filter (\<lambda>k. k \<notin> set (map g_id entries)) (dkeys stored) = []"
    by (auto simp: verify_fingerprints_def bindR_eq_Inr)
  then show ?thesis unfolding verify_entries_clean by (auto simp: filter_empty_conv)
qed

section \<open>The shipped registry\<close>

definition static_ok :: "gap list \<Rightarrow> bool" where
  "static_ok es \<longleftrightarrow>
     distinct (map g_id es) \<and> list_all (\<lambda>e. is_lane (g_lane e) \<and> g_status e \<in> {''open'', ''fixed''}) es"

lemma shipped_static: "static_ok ALL_ENTRIES"
  using registry_ids_distinct registry_lanes_statuses by (simp add: static_ok_def)

lemma rebuilt_verifies:
  assumes st: "rebuild_fingerprints sha repro es [] = Inr stored" and ok: "static_ok es"
    and src: "\<forall>e \<in> set es. g_repro_dir e \<noteq> None \<longrightarrow> repro e \<noteq> None"
  shows "verify_fingerprints sha repro stored es = Inr []"
proof -
  from ok have dist: "distinct (map g_id es)" by (simp add: static_ok_def)
  have "entry_ok sha repro stored e" if e: "e \<in> set es" for e
  proof -
    from rebuild_derives [OF st e] obtain fp where fp: "derive_fingerprint sha repro e = Inr fp" by blast
    note get = rebuild_get [OF st dist e fp]
    from ok e have "is_lane (g_lane e) \<and> g_status e \<in> {''open'', ''fixed''}"
      by (auto simp: static_ok_def list_all_iff)
    moreover have "g_repro_dir e = None \<Longrightarrow> \<not> dhas stored (g_id e)"
      using get fp derive_Some_repro [of sha repro e] by (cases fp) (auto simp: dhas_def)
    moreover have "g_repro_dir e \<noteq> None \<Longrightarrow>
        \<exists>f. fp = Some f \<and> gap_fingerprint stored e = JStr f"
      using get fp derive_None_repro [of sha repro e] src e
      by (cases fp) (auto simp: gap_fingerprint_def jget_def dget_or_def)
    ultimately show ?thesis using fp by (auto simp: entry_ok_def)
  qed
  moreover from rebuild_keys [OF st] have "set (dkeys stored) \<subseteq> set (map g_id es)" by simp
  ultimately show ?thesis unfolding verify_clean using dist by blast
qed

lemma match_rule:
  assumes "match_submission sha stored opens lane key sub = Some e"
  obtains full parse fp where "sub = Some (full, parse)" "e \<in> set opens" "g_lane e = lane"
    "repro_fingerprint sha lane (delta_class_of_live_key lane key) full parse = Some fp"
    "gap_fingerprint stored e = JStr fp"
  using assms by (auto simp: match_submission_def find_Some_iff split: option.splits)

lemma match_entry_ok:
  assumes "match_submission sha stored opens lane key sub = Some e"
    and "entry_ok sha repro stored e"
  shows "\<exists>full parse. sub = Some (full, parse) \<and>
     derive_fingerprint sha repro e =
       Inr (repro_fingerprint sha lane (delta_class_of_live_key lane key) full parse)"
proof -
  from match_rule [OF assms(1)] obtain full parse fp where m: "sub = Some (full, parse)"
    "repro_fingerprint sha lane (delta_class_of_live_key lane key) full parse = Some fp"
    "gap_fingerprint stored e = JStr fp" by metis
  then have "dhas stored (g_id e)" by (auto simp: gap_fingerprint_def dhas_def split: option.splits)
  with assms(2) m show ?thesis by (auto simp: entry_ok_def split: if_splits)
qed

lemma rebuild_total:
  "(\<And>e. e \<in> set es \<Longrightarrow> \<exists>fp. derive_fingerprint sha repro e = Inr fp) \<Longrightarrow>
     \<exists>st. rebuild_fingerprints sha repro es ents = Inr st"
proof (induction es arbitrary: ents)
  case (Cons e es)
  then obtain fp where "derive_fingerprint sha repro e = Inr fp" by (meson list.set_intros(1))
  with Cons.IH Cons.prems show ?case by simp
qed simp

definition empty_repro :: "gap \<Rightarrow> repro_asts option" where
  "empty_repro e = Some (Some [], None)"

lemma empty_repro_derives: "\<exists>fp. derive_fingerprint sha empty_repro e = Inr fp"
  by (simp add: derive_fingerprint_def empty_repro_def repro_fingerprint_def source_ast_hash_def)

lemma keyed_open_gaps:
  "map g_id (filter (\<lambda>e. g_repro_dir e \<noteq> None) OPEN_ENTRIES) = [''A2'', ''A3'']"
  by code_simp

section \<open>Properties\<close>

text \<open>Rebuilding the keys of the shipped registry, with the sources of every repro present,
  establishes the registry invariant: every entry with a repro carries the key derived from it,
  no other key is stored, identifiers are unique and lanes and statuses legal.\<close>

theorem registry_rebuild_verifies:
  assumes "rebuild_fingerprints sha repro ALL_ENTRIES [] = Inr stored"
    and "\<forall>e \<in> set ALL_ENTRIES. g_repro_dir e \<noteq> None \<longrightarrow> repro e \<noteq> None"
  shows "verify_fingerprints sha repro stored ALL_ENTRIES = Inr []"
  using assms(1) shipped_static assms(2) by (rule rebuilt_verifies)

theorem registry_rebuild_verifies_witness:
  "\<exists>stored. rebuild_fingerprints id empty_repro ALL_ENTRIES [] = Inr stored
     \<and> verify_fingerprints id empty_repro stored ALL_ENTRIES = Inr []"
proof -
  obtain stored where st: "rebuild_fingerprints id empty_repro ALL_ENTRIES [] = Inr stored"
    using rebuild_total empty_repro_derives by metis
  with registry_rebuild_verifies [OF st] show ?thesis by (auto simp: empty_repro_def)
qed

text \<open>C40: under the registry invariant a submission is matched only with an open gap of its own
  lane whose repro, fingerprinted with that gap's delta class, has the very fingerprint of the
  submission; for the shipped table that can only be A2 or A3.\<close>

theorem match_is_justified:
  assumes "verify_fingerprints sha repro stored ALL_ENTRIES = Inr []"
    and "match_submission sha stored OPEN_ENTRIES lane key sub = Some e"
  shows "e \<in> set OPEN_ENTRIES \<and> g_lane e = lane \<and> g_id e \<in> {''A2'', ''A3''}
    \<and> (\<exists>full parse. sub = Some (full, parse) \<and>
         derive_fingerprint sha repro e =
           Inr (repro_fingerprint sha lane (delta_class_of_live_key lane key) full parse))"
proof -
  from match_rule [OF assms(2)] have e: "e \<in> set OPEN_ENTRIES" "g_lane e = lane" by metis+
  with assms(1) have ok: "entry_ok sha repro stored e"
    unfolding verify_clean ALL_ENTRIES_def by simp
  from match_entry_ok [OF assms(2) ok] have just:
    "\<exists>full parse. sub = Some (full, parse) \<and>
         derive_fingerprint sha repro e =
           Inr (repro_fingerprint sha lane (delta_class_of_live_key lane key) full parse)" .
  from match_rule [OF assms(2)] obtain fp where "gap_fingerprint stored e = JStr fp" by metis
  then have "dhas stored (g_id e)" by (auto simp: gap_fingerprint_def dhas_def split: option.splits)
  with ok have "g_repro_dir e \<noteq> None" by (auto simp: entry_ok_def split: if_splits)
  with e(1) have "g_id e \<in> set (map g_id (filter (\<lambda>e. g_repro_dir e \<noteq> None) OPEN_ENTRIES))" by simp
  then have "g_id e \<in> {''A2'', ''A3''}" unfolding keyed_open_gaps by simp
  with e just show ?thesis by blast
qed

lemma empty_submission_matches:
  assumes "rebuild_fingerprints id empty_repro ALL_ENTRIES [] = Inr stored"
  shows "\<exists>e. match_submission id stored OPEN_ENTRIES ''S'' [''return_value'', ''f'', ''wrong-value'']
    (Some (Some [], None)) = Some e"
proof -
  obtain e where e: "e \<in> set OPEN_ENTRIES" "g_repro_dir e \<noteq> None" "g_lane e = ''S''"
    "g_delta e = ''wrong-value''"
  proof -
    have "list_ex (\<lambda>e. g_repro_dir e \<noteq> None \<and> g_lane e = ''S'' \<and> g_delta e = ''wrong-value'') OPEN_ENTRIES"
      by code_simp
    then show ?thesis using that by (auto simp: list_ex_iff)
  qed
  then have all: "e \<in> set ALL_ENTRIES" by (simp add: ALL_ENTRIES_def)
  let ?fp = "repro_fingerprint id ''S'' ''wrong-value'' (Some []) None"
  obtain fp where fp: "?fp = Some fp" by (simp add: repro_fingerprint_def source_ast_hash_def)
  with e have d: "derive_fingerprint id empty_repro e = Inr (Some fp)"
    by (simp add: derive_fingerprint_def empty_repro_def)
  have "gap_fingerprint stored e = JStr fp"
    using rebuild_get [OF assms registry_ids_distinct all d]
    by (simp add: gap_fingerprint_def jget_def dget_or_def)
  with e fp have "find (\<lambda>e. g_lane e = ''S'' \<and> gap_fingerprint stored e = JStr fp) OPEN_ENTRIES \<noteq> None"
    unfolding find_None_iff by blast
  with fp show ?thesis
    by (auto simp: match_submission_def delta_class_of_live_key_def)
qed

theorem match_is_justified_witness:
  "\<exists>stored e. match_submission id stored OPEN_ENTRIES ''S'' [''return_value'', ''f'', ''wrong-value'']
      (Some (Some [], None)) = Some e \<and> g_id e \<in> {''A2'', ''A3''}"
proof -
  obtain stored where st: "rebuild_fingerprints id empty_repro ALL_ENTRIES [] = Inr stored"
    using rebuild_total empty_repro_derives by metis
  have v: "verify_fingerprints id empty_repro stored ALL_ENTRIES = Inr []"
    using st shipped_static by (rule rebuilt_verifies) (simp add: empty_repro_def)
  obtain e where m: "match_submission id stored OPEN_ENTRIES ''S''
      [''return_value'', ''f'', ''wrong-value''] (Some (Some [], None)) = Some e"
    using empty_submission_matches [OF st] by blast
  from match_is_justified [OF v m] m show ?thesis by blast
qed

end
