(* ===== verification/Manifest.thy ===== *)
theory Manifest
  imports ArgDomain SolcAst Env
begin

text \<open>
  \<open>contest/manifest.py\<close>, single-file submissions: the manifest in a comment of the source is cut
  out, validated, and turned into the claim, the environment and the injected storage the
  adjudicator takes. Errors are constructors of \<open>merr\<close>. The JSON parser is the parameter \<open>loads\<close>:
  an exception other than \<open>JSONDecodeError\<close> escapes, \<open>Inr None\<close> is \<open>JSONDecodeError\<close>.
\<close>

section \<open>Extraction\<close>

datatype merr =
    NoManifest | ManyManifests | NoEndMarker | EndBeforeBegin | NotInComment | CommentClosed
  | ManifestNotJson | ManifestNotObject
  | DeployMissing | DeployContract | DeployArgs | DeployValue
  | EntryObjMissing | EntryFunction | EntryArgs | EntryValue | EntryCaller
  | EnvNotObject | BalancesNotObject | BalanceKey string | BalanceAmount string
  | EnvUnknown string | EnvNotInteger string | EnvOver64 string | EnvOver160 string | EnvOver256 string
  | StorageNotObject | StorageTooMany | StorageSlot string | StorageWord string
  | OverAcceptNotBool | NoteNotString | FuelNotInteger

definition MANIFEST_BEGIN :: utext where
  "MANIFEST_BEGIN = ulit ''===ARENA-MANIFEST===''"

definition MANIFEST_END :: utext where
  "MANIFEST_END = ulit ''===END-ARENA-MANIFEST===''"

text \<open>\<open>s.count(p)\<close> of a non-empty \<open>p\<close>.\<close>

definition count_of :: "utext \<Rightarrow> utext \<Rightarrow> nat" where
  "count_of p s = length (split_on p s) - 1"

definition open_comment :: utext where
  "open_comment = ulit ''/*''"

definition close_comment :: utext where
  "close_comment = ulit ''*/''"

text \<open>The begin marker, which follows \<open>pre\<close>, is in an open comment.\<close>

definition in_open_comment :: "utext \<Rightarrow> bool" where
  "in_open_comment pre =
     (case rpart_at open_comment (pre @ MANIFEST_BEGIN) of
        None \<Rightarrow> False
      | Some (a, b) \<Rightarrow> \<not> contains close_comment (drop (length a + 2) pre))"

definition extract_manifest ::
  "(utext \<Rightarrow> json option res) \<Rightarrow> utext \<Rightarrow> (merr + (string \<times> json) list) res" where
  "extract_manifest loads src =
     (let n_begin = count_of MANIFEST_BEGIN src; n_end = count_of MANIFEST_END src in
      if n_begin = 0 then Inr (Inl NoManifest)
      else if 1 < n_begin \<or> 1 < n_end then Inr (Inl ManyManifests)
      else if n_end = 0 then Inr (Inl NoEndMarker)
      else case (part_at MANIFEST_BEGIN src, part_at MANIFEST_END src) of
        (Some (pre, post), Some (until, _)) \<Rightarrow>
          (let start = length pre + length MANIFEST_BEGIN; stop_at = length until in
           if stop_at < start then Inr (Inl EndBeforeBegin)
           else if \<not> in_open_comment pre then Inr (Inl NotInComment)
           else
             (let raw = take (stop_at - start) (drop start src) in
              if contains close_comment raw then Inr (Inl CommentClosed)
              else bindR (loads (tstrip raw)) (\<lambda>parsed. case parsed of
                  None \<Rightarrow> Inr (Inl ManifestNotJson)
                | Some (JObj m) \<Rightarrow> Inr (Inr m)
                | Some _ \<Rightarrow> Inr (Inl ManifestNotObject))))
      | _ \<Rightarrow> Inl ValueError)"

section \<open>Validation\<close>

definition as_int :: "json \<Rightarrow> int option" where
  "as_int v =
     (case v of
        JInt i \<Rightarrow> Some i
      | JStr t \<Rightarrow>
          (let s = strip t;
               parsed = (if starts ''0x'' s \<or> starts ''0X'' s then py_int_str 16 s else py_int_str 10 s)
           in case parsed of Inr i \<Rightarrow> Some i | Inl _ \<Rightarrow> None)
      | _ \<Rightarrow> None)"

definition fits_bits :: "nat \<Rightarrow> int \<Rightarrow> bool" where
  "fits_bits n i \<longleftrightarrow> 0 \<le> i \<and> i < 2 ^ n"

definition int_below :: "nat \<Rightarrow> json \<Rightarrow> bool" where
  "int_below n v = (case as_int v of Some i \<Rightarrow> fits_bits n i | None \<Rightarrow> False)"

definition MAX_INJECT_SLOTS :: nat where
  "MAX_INJECT_SLOTS = 64"

definition ENV_FIELDS :: "(string \<times> (int \<Rightarrow> env \<Rightarrow> env)) list" where
  "ENV_FIELDS =
     [(''blockNumber'', \<lambda>i e. e\<lparr>e_number := i\<rparr>), (''timestamp'', \<lambda>i e. e\<lparr>e_timestamp := i\<rparr>),
      (''chainId'', \<lambda>i e. e\<lparr>e_chainid := i\<rparr>), (''basefee'', \<lambda>i e. e\<lparr>e_basefee := i\<rparr>),
      (''coinbase'', \<lambda>i e. e\<lparr>e_coinbase := i\<rparr>), (''prevrandao'', \<lambda>i e. e\<lparr>e_prevrandao := i\<rparr>)]"

definition ENV_U64_FIELDS :: "string set" where
  "ENV_U64_FIELDS = {''blockNumber'', ''timestamp'', ''chainId''}"

definition ENV_U160_FIELDS :: "string set" where
  "ENV_U160_FIELDS = {''coinbase''}"

text \<open>A loop that returns the first error.\<close>

fun first_err :: "('a \<Rightarrow> 'e option) \<Rightarrow> 'a list \<Rightarrow> 'e option" where
  "first_err f [] = None"
| "first_err f (x # xs) = (case f x of Some e \<Rightarrow> Some e | None \<Rightarrow> first_err f xs)"

text \<open>Checks in order: the first that fails.\<close>

definition failing :: "(bool \<times> merr) list \<Rightarrow> merr option" where
  "failing cs = map_option snd (find fst cs)"

definition is_identifier :: "json \<Rightarrow> bool" where
  "is_identifier v = (case v of JStr s \<Rightarrow> ident_re s | _ \<Rightarrow> False)"

text \<open>\<open>k in d and not ok(d[k])\<close>.\<close>

definition present_bad :: "(json \<Rightarrow> bool) \<Rightarrow> node \<Rightarrow> string \<Rightarrow> bool" where
  "present_bad ok d k = (case dget d k of Some v \<Rightarrow> \<not> ok v | None \<Rightarrow> False)"

definition is_integer :: "json \<Rightarrow> bool" where
  "is_integer v \<longleftrightarrow> as_int v \<noteq> None"

definition check_deploy :: "node \<Rightarrow> merr option" where
  "check_deploy m =
     (case jget m ''deploy'' of
        JObj deploy \<Rightarrow> failing
          [(\<not> is_identifier (jget deploy ''contract''), DeployContract),
           (present_bad is_list deploy ''args'', DeployArgs),
           (present_bad is_integer deploy ''value'', DeployValue)]
      | _ \<Rightarrow> Some DeployMissing)"

definition check_entry :: "node \<Rightarrow> merr option" where
  "check_entry m =
     (case jget m ''entry'' of
        JObj entry \<Rightarrow> failing
          [(\<not> is_identifier (jget entry ''function''), EntryFunction),
           (present_bad is_list entry ''args'', EntryArgs),
           (present_bad is_integer entry ''value'', EntryValue),
           (jget entry ''caller'' \<noteq> JNull \<and> \<not> int_below 160 (jget entry ''caller''), EntryCaller)]
      | _ \<Rightarrow> Some EntryObjMissing)"

definition check_balance :: "string \<times> json \<Rightarrow> merr option" where
  "check_balance p = failing
     [(\<not> int_below 160 (JStr (fst p)), BalanceKey (fst p)),
      (\<not> int_below 256 (snd p), BalanceAmount (fst p))]"

definition check_env_field :: "string \<times> json \<Rightarrow> merr option" where
  "check_env_field p =
     (let (k, v) = p in
      if k = ''balances'' then
        (case v of JObj bs \<Rightarrow> first_err check_balance bs | _ \<Rightarrow> Some BalancesNotObject)
      else failing
        [(\<not> dhas ENV_FIELDS k, EnvUnknown k),
         (\<not> is_integer v, EnvNotInteger k),
         (k \<in> ENV_U64_FIELDS \<and> \<not> int_below 64 v, EnvOver64 k),
         (k \<in> ENV_U160_FIELDS \<and> \<not> int_below 160 v, EnvOver160 k),
         (\<not> int_below 256 v, EnvOver256 k)])"

definition check_env :: "node \<Rightarrow> merr option" where
  "check_env m =
     (case jget m ''env'' of
        JNull \<Rightarrow> None
      | JObj env \<Rightarrow> first_err check_env_field env
      | _ \<Rightarrow> Some EnvNotObject)"

definition check_slot :: "string \<times> json \<Rightarrow> merr option" where
  "check_slot p = failing
     [(\<not> int_below 256 (JStr (fst p)), StorageSlot (fst p)),
      (\<not> int_below 256 (snd p), StorageWord (fst p))]"

definition check_storage :: "node \<Rightarrow> merr option" where
  "check_storage m =
     (case jget m ''storage'' of
        JNull \<Rightarrow> None
      | JObj storage \<Rightarrow>
          if MAX_INJECT_SLOTS < length storage then Some StorageTooMany
          else first_err check_slot storage
      | _ \<Rightarrow> Some StorageNotObject)"

definition check_scalars :: "node \<Rightarrow> merr option" where
  "check_scalars m = failing
     [(present_bad is_bool m ''overAccept'', OverAcceptNotBool),
      (present_bad is_str m ''note'', NoteNotString),
      (present_bad is_integer m ''fuel'', FuelNotInteger)]"

definition validate_manifest :: "node \<Rightarrow> merr option" where
  "validate_manifest m =
     first_err (\<lambda>check. check m) [check_deploy, check_entry, check_env, check_storage, check_scalars]"

section \<open>Adaptation\<close>

text \<open>The integer of a value that has been validated.\<close>

definition int_of :: "json \<Rightarrow> int" where
  "int_of v = (case as_int v of Some i \<Rightarrow> i | None \<Rightarrow> 0)"

definition or_json :: "json \<Rightarrow> json \<Rightarrow> json" where
  "or_json a b = (if truthy a then a else b)"

definition note_of :: "node \<Rightarrow> string" where
  "note_of m = (case jget m ''note'' of JStr s \<Rightarrow> s | _ \<Rightarrow> [])"

definition fuel_of :: "node \<Rightarrow> int" where
  "fuel_of m = (let i = int_of (dget_or m ''fuel'' (JInt 64)) in if i = 0 then 64 else i)"

definition claim_from_manifest :: "node \<Rightarrow> node" where
  "claim_from_manifest m =
     (let deploy = jobj (jget m ''deploy''); entry = jobj (jget m ''entry'');
          over = truthy (jget m ''overAccept''); note = note_of m; code = jget m ''solcErrorCode'' in
      [(''_manifest'', JBool True),
       (''lane'', JStr (if over then ''S'' else ''C'')),
       (''entry'', JObj
          [(''contract'', jget deploy ''contract''), (''function'', jget entry ''function''),
           (''args'', dget_or entry ''args'' (JList [])),
           (''value'', JInt (int_of (dget_or entry ''value'' (JInt 0)))),
           (''constructor_args'', dget_or deploy ''args'' (JList []))]),
       (''feature'', or_json (jget m ''feature'') (or_json (JStr (take 60 note)) (JStr ''unspecified-feature''))),
       (''fuel'', JInt (fuel_of m))]
      @ (if note \<noteq> [] then [(''expected_divergence'', JStr note)] else [])
      @ (if over then
           [(''_over_accept'', JBool True), (''mode'', JStr ''OVER_ACCEPT'')]
           @ (if truthy code then [(''solc_error_code'', code)] else [])
         else []))"

definition set_env_field :: "node \<Rightarrow> string \<times> (int \<Rightarrow> env \<Rightarrow> env) \<Rightarrow> env \<Rightarrow> env" where
  "set_env_field env f ov =
     (case dget env (fst f) of Some v \<Rightarrow> snd f (int_of v) ov | None \<Rightarrow> ov)"

definition env_from_manifest :: "node \<Rightarrow> env" where
  "env_from_manifest m =
     (let env = jobj (jget m ''env''); entry = jobj (jget m ''entry'');
          ov = fold (set_env_field env) ENV_FIELDS env_default;
          ov = ov\<lparr>e_deals := e_deals ov @
                 map (\<lambda>(addr, amt). (int_of (JStr addr), int_of amt)) (jobj (jget env ''balances''))\<rparr>;
          ov = (if dhas entry ''value'' then ov\<lparr>e_value := int_of (jget entry ''value'')\<rparr> else ov)
      in if jget entry ''caller'' \<noteq> JNull then ov\<lparr>e_sender := int_of (jget entry ''caller'')\<rparr> else ov)"

definition inject_storage_from_manifest :: "node \<Rightarrow> (int \<times> int) list" where
  "inject_storage_from_manifest m =
     map (\<lambda>(slot, word). (int_of (JStr slot), int_of word)) (jobj (jget m ''storage''))"

end
