(* ===== verification/Verdict.thy ===== *)
theory Verdict
  imports ArgDomain Manifest Observable KnownGaps
begin

text \<open>
  \<open>contest/adjudicate.py\<close>, the vocabulary of the adjudicator: the report, the fingerprints of the
  two lanes and the annotation of known gaps. A report's free text and its evidence record are
  represented by \<open>why\<close>, one constructor for each return of the pipeline. Messages of the importer
  and of Lean are ASCII.

  The pipeline is written in the type \<open>step\<close>: an exception that escapes, a report (an early
  \<open>return\<close>), or a value to go on with.
\<close>

section \<open>Reports\<close>

datatype why =
    NoSubmissionDir | NoClaimFile | ClaimNotJson | ClaimNotObject | NoSolSources | NoTestDir
  | ClaimMissing string | EntryNotObject | EntryMissing string | LaneIllegal
  | ContractIllegal | FunctionIllegal | FuelIllegal | ArgsIllegal | CtorArgsIllegal
  | SlotsIllegal slots_err | ValueIllegal
  | SignatureInfra | SignatureUnresolved | EntryNotFound | EntryOverloaded nat | ArgCountMismatch
  | ParamTypeScope string "string list" | ArgTypeScope string nat | ArgUnvalidated nat
  | ArgIllegal nat derr | CtorCountMismatch | CtorTypeScope string nat | CtorUnvalidated nat
  | CtorIllegal nat derr
  | SolcInfra | SourceNotParsed | SourceNotAnalyzed | CheatBanned "string list" | CheatUnmirrored
  | SolcRejectTimeout | SolcDidNotReject | ForgeInfra | NotReproduced | ReturnTypeScope string "string list"
  | NotMeasured | GateFired "string list" | EntryContractMissing
  | OverAccepted | BothReject | LeanInconclusive | LeanExecutableFailure | ImporterExcluded
  | FailsClosed string string | NoOracle | AmbiguousSelector string
  | RevertTypeScope string "string list" | NotDecoded | Agree | Differs component
  | SubmissionMissing | ManifestRejected merr

record report =
  r_verdict :: string
  r_lane :: "string option"
  r_why :: why
  r_key :: "json list option"
  r_duplicate_of :: "string option"
  r_feature_hint :: "string list"
  r_cluster_hint :: "string list"
  r_register_version :: string
  r_gaps_version :: string

definition rep :: "string \<Rightarrow> why \<Rightarrow> report" where
  "rep verdict w =
     \<lparr>r_verdict = verdict, r_lane = None, r_why = w, r_key = None, r_duplicate_of = None,
      r_feature_hint = [], r_cluster_hint = [], r_register_version = REGISTER_VERSION,
      r_gaps_version = KNOWN_GAPS_VERSION\<rparr>"

definition qualifies :: "report \<Rightarrow> bool" where
  "qualifies r \<longleftrightarrow> r_verdict r = ''COVERAGE_GAP'' \<or> r_verdict r = ''SOUNDNESS_GAP''"

definition key_str :: "json list \<Rightarrow> string" where
  "key_str key = join ''|'' (map py_str key)"

section \<open>Steps of the pipeline\<close>

type_synonym 'a step = "pyexn + (report + 'a)"

definition stop :: "report \<Rightarrow> 'a step" where
  "stop r = Inr (Inl r)"

definition go :: "'a \<Rightarrow> 'a step" where
  "go x = Inr (Inr x)"

definition lift :: "'a res \<Rightarrow> 'a step" where
  "lift m = bindR m go"

definition bindS :: "'a step \<Rightarrow> ('a \<Rightarrow> 'b step) \<Rightarrow> 'b step" where
  "bindS m f = bindR m (\<lambda>r. case r of Inl rp \<Rightarrow> stop rp | Inr x \<Rightarrow> f x)"

text \<open>\<open>if not c: return r\<close>.\<close>

definition guard :: "bool \<Rightarrow> report \<Rightarrow> unit step" where
  "guard c r = (if c then go () else stop r)"

named_theorems step_simps \<open>rewriting steps of the pipeline\<close>

lemma bindS_simps [simp, step_simps]:
  "bindS (Inl e) f = Inl e" "bindS (stop r) f = stop r" "bindS (go x) f = f x"
  by (simp_all add: bindS_def stop_def go_def)

lemma lift_simps [simp, step_simps]: "lift (Inl e) = Inl e" "lift (Inr x) = go x"
  by (simp_all add: lift_def go_def)

lemma guard_simps [simp, step_simps]: "guard True r = go ()" "guard False r = stop r"
  by (simp_all add: guard_def)

lemma step_distinct [simp]:
  "stop r \<noteq> go x" "go x \<noteq> stop r" "stop r = stop r' \<longleftrightarrow> r = r'" "go x = go y \<longleftrightarrow> x = y"
  "Inl e \<noteq> stop r" "Inl e \<noteq> go x" "stop r \<noteq> Inl e" "go x \<noteq> Inl e"
  by (simp_all add: stop_def go_def)

lemma step_cases [case_names raise stop go]:
  obtains e where "m = Inl e" | r where "m = stop r" | x where "m = go x"
  unfolding stop_def go_def by (metis sum.exhaust)

lemma bindS_go_iff: "bindS m f = go y \<longleftrightarrow> (\<exists>x. m = go x \<and> f x = go y)"
  by (cases m rule: step_cases) auto

lemma bindS_stop_iff: "bindS m f = stop r \<longleftrightarrow> m = stop r \<or> (\<exists>x. m = go x \<and> f x = stop r)"
  by (cases m rule: step_cases) auto

lemma lift_go_iff: "lift m = go x \<longleftrightarrow> m = Inr x"
  by (cases m) auto

lemma lift_not_stop [simp]: "lift m \<noteq> stop r"
  by (cases m) auto

lemma guard_go_iff: "guard c r = go u \<longleftrightarrow> c"
  by (cases c) auto

lemma guard_stop_iff: "guard c r = stop r' \<longleftrightarrow> \<not> c \<and> r' = r"
  by (cases c) auto

lemmas step_iffs = bindS_go_iff bindS_stop_iff lift_go_iff guard_go_iff guard_stop_iff

text \<open>The reports a stage can return.\<close>

definition stops_with :: "(report \<Rightarrow> bool) \<Rightarrow> 'a step \<Rightarrow> bool" where
  "stops_with P m \<longleftrightarrow> (\<forall>r. m = stop r \<longrightarrow> P r)"

named_theorems stops \<open>composing what stages return\<close>

lemma stops_basic [simp, stops]:
  "stops_with P (go x)" "stops_with P (Inl e)" "stops_with P (lift m)"
  "stops_with P (stop r) \<longleftrightarrow> P r"
  by (auto simp: stops_with_def)

lemma stops_guard [simp, stops]: "stops_with P (guard c r) \<longleftrightarrow> c \<or> P r"
  by (cases c) simp_all

lemma stops_bind [stops]:
  "stops_with P m \<Longrightarrow> (\<And>x. m = go x \<Longrightarrow> stops_with P (f x)) \<Longrightarrow> stops_with P (bindS m f)"
  by (cases m rule: step_cases) auto

section \<open>Fingerprints\<close>

text \<open>\<open>str.split()\<close>.\<close>

function words :: "string \<Rightarrow> string list" where
  "words s =
     (let t = dropWhile (\<lambda>c. space_cp (cp c)) s in
      if t = [] then []
      else takeWhile (\<lambda>c. \<not> space_cp (cp c)) t # words (dropWhile (\<lambda>c. \<not> space_cp (cp c)) t))"
  by pat_completeness auto
termination
proof (relation "measure length", goal_cases)
  case (2 s t)
  then have "dropWhile (\<lambda>c. space_cp (cp c)) s \<noteq> []" by simp
  then obtain c cs where t: "dropWhile (\<lambda>c. space_cp (cp c)) s = c # cs" by (meson neq_Nil_conv)
  then have "\<not> space_cp (cp c)" by (metis hd_dropWhile list.distinct(1) list.sel(1))
  moreover have "length (dropWhile (\<lambda>c. \<not> space_cp (cp c)) cs) \<le> length cs"
    by (rule length_dropWhile_le)
  moreover have "length (c # cs) \<le> length s"
    unfolding t [symmetric] by (rule length_dropWhile_le)
  ultimately show ?case using 2 t by simp
qed simp

declare words.simps [simp del]

definition upper_ch :: "char \<Rightarrow> bool" where
  "upper_ch c \<longleftrightarrow> 65 \<le> cp c \<and> cp c \<le> 90"

definition alnum_ch :: "char \<Rightarrow> bool" where
  "alnum_ch c \<longleftrightarrow> (48 \<le> cp c \<and> cp c \<le> 57) \<or> upper_ch c \<or> (97 \<le> cp c \<and> cp c \<le> 122)"

definition lower_str :: "string \<Rightarrow> string" where
  "lower_str s = map (\<lambda>c. if upper_ch c then char_of (cp c + 32) else c) s"

definition present_tokens :: "string \<Rightarrow> string list" where
  "present_tokens tail =
     filter (\<lambda>t. t \<noteq> [] \<and> lower_str t \<notin> {''and'', ''or''})
       (map (strip_by (\<lambda>c. c \<in> set ''() '')) (words (replace_all '','' '' '' tail)))"

definition first_token :: "string \<Rightarrow> string" where
  "first_token msg =
     (let toks = (case rpart_at ''present:'' msg of
                    Some (a, tail) \<Rightarrow> present_tokens tail | None \<Rightarrow> []) in
      if toks \<noteq> [] then join ''+'' (sort (remdups toks))
      else case find (\<lambda>w. list_all alnum_ch w \<and> (case w of [] \<Rightarrow> False | c # cs \<Rightarrow> upper_ch c)
                         \<and> w \<notin> {''Solidity'', ''AST''})
                  (words (replace_all '','' '' '' (replace_all '':'' '' '' msg))) of
        Some w \<Rightarrow> w
      | None \<Rightarrow>
          if msg = [] then ''unknown''
          else take 48 (case split_on '':'' (strip msg) of [] \<Rightarrow> [] | x # xs \<Rightarrow> x))"

record lean_result =
  lr_ok :: bool
  lr_stage :: string
  lr_fail_closed :: bool
  lr_observable :: "utext option"
  lr_message :: string
  lr_inconclusive :: bool

definition coverage_fingerprint :: "lean_result \<Rightarrow> string \<times> string \<times> string" where
  "coverage_fingerprint sl =
     (let msg = lr_message sl in
      if lr_stage sl = ''import'' then
        (''import'',
         (if contains ''unimplemented'' msg then ''unimplemented''
          else if contains ''unclassified'' msg then ''unclassified''
          else if contains ''unknown'' msg then ''unknown_scalar''
          else if contains ''excluded'' msg then ''excluded''
          else ''import_fail''),
         first_token msg)
      else if lr_stage sl = ''run'' then (''typecheck'', ''over_reject'', first_token msg)
      else (''elaboration'', ''elab_reject'', first_token msg))"

definition is_executable_failure :: "string \<Rightarrow> bool" where
  "is_executable_failure msg = contains ''checked executable'' msg"

definition component_name :: "component \<Rightarrow> string" where
  "component_name c =
     (case c of
        Deploy_revert_vs_success \<Rightarrow> ''deploy-revert-vs-success''
      | Deploy_vs_call_revert \<Rightarrow> ''deploy-vs-call-revert''
      | Revert_vs_success \<Rightarrow> ''revert-vs-success''
      | Wrong_panic \<Rightarrow> ''wrong-panic''
      | Wrong_revert \<Rightarrow> ''wrong-revert''
      | Wrong_value \<Rightarrow> ''wrong-value''
      | Wrong_deploy_revert \<Rightarrow> ''wrong-deploy-revert''
      | Wrong_events \<Rightarrow> ''wrong-events''
      | Wrong_state \<Rightarrow> ''wrong-state'')"

definition soundness_fingerprint :: "comparison \<Rightarrow> json \<Rightarrow> json list" where
  "soundness_fingerprint c feature =
     (let component = (case cmp_component c of None \<Rightarrow> ''unknown'' | Some x \<Rightarrow> component_name x);
          obs_component =
            (if component = ''wrong-value'' then ''return_value''
             else if component \<in> {''wrong-panic'', ''wrong-revert'', ''revert-vs-success''} then ''revert_data''
             else if component \<in> {''deploy-revert-vs-success'', ''deploy-vs-call-revert'',
                                ''wrong-deploy-revert''} then ''deploy_revert_data''
             else component)
      in [JStr obs_component, feature, JStr component])"

section \<open>Known gaps\<close>

text \<open>\<open>_annotate_dedup\<close>: the key, an exact match with a known-open repro, and the hints.\<close>

definition annotate_dedup ::
  "(string \<Rightarrow> string) \<Rightarrow> (string \<times> json) list \<Rightarrow> repro_asts option \<Rightarrow> string \<Rightarrow> json list \<Rightarrow>
     json \<Rightarrow> report \<Rightarrow> report" where
  "annotate_dedup sha stored sub lane key feature r =
     (let hit = match_submission sha stored OPEN_ENTRIES lane (map py_str key) sub;
          dup = (case hit of Some e \<Rightarrow> Some (g_id e) | None \<Rightarrow> r_duplicate_of r);
          others = filter (\<lambda>i. Some i \<noteq> dup);
          hints = (case feature of JStr f \<Rightarrow> others (feature_hint OPEN_ENTRIES lane f) | _ \<Rightarrow> []);
          cluster = (if lane = ''S'' \<and> 3 \<le> length key
                     then others (cluster_by_delta OPEN_ENTRIES lane (py_str (key ! 0)) (py_str (key ! 2)))
                     else [])
      in r\<lparr>r_key := Some key, r_duplicate_of := dup, r_feature_hint := hints,
           r_cluster_hint := cluster\<rparr>)"

end
