(* ===== verification/EvalLine.thy ===== *)
theory EvalLine
  imports LeanRender Env
begin

text \<open>
  \<open>contest/observable.py\<close>, \<open>lean_eval_line\<close>: the \<open>#eval\<close> command that runs the entry call in
  solidity-lean under the pinned environment. The text is UTF-8, one \<open>char\<close> for each byte.
\<close>

definition NL :: string where
  "NL = [CHR 0x0A]"

definition LEFT_ARROW :: string where
  "LEFT_ARROW = [CHR 0xE2, CHR 0x86, CHR 0x90]"

definition TIMES_SIGN :: string where
  "TIMES_SIGN = [CHR 0xC3, CHR 0x97]"

text \<open>Text of several lines, each with its line end.\<close>

definition unlines :: "string list \<Rightarrow> string" where
  "unlines ls = concat (map (\<lambda>l. l @ NL) ls)"

definition OBSERVABLE_MARKER :: string where
  "OBSERVABLE_MARKER = ''CONTEST_OBS ''"

definition TC :: string where
  "TC = ''SolidCore.Solidity.TypeCheck''"

definition WORD :: string where
  "WORD = ''SolidCore.Solidity.Source.Word''"

definition STORAGEMAP :: string where
  "STORAGEMAP = ''SolidCore.Solidity.Source.StorageMap''"

definition self_addr_of :: "env \<Rightarrow> int" where
  "self_addr_of e = (case e_self e of Some a \<Rightarrow> a | None \<Rightarrow> CANONICAL_SENDER)"

definition seed_pairs :: "(int \<times> int) list \<Rightarrow> string" where
  "seed_pairs inject =
     ''['' @ join '', '' (map (\<lambda>(s, w). ''('' @ show_int s @ '', '' @ show_int w @ '')'') inject) @ '']''"

definition seed_line :: "(int \<times> int) list \<Rightarrow> string" where
  "seed_line inject =
     (if inject = [] then []
      else unlines
      [''    let deployState := { deployState with storage :='',
       ''      (('' @ seed_pairs inject @ '' : List ('' @ WORD @ '' '' @ TIMES_SIGN @ '' '' @ WORD @ '')).foldl'',
       ''        (fun acc kv => '' @ STORAGEMAP @ ''.insertLoop acc kv.1 kv.2)'',
       ''        deployState.storage) }''])"

text \<open>The overrides of the context of the entry call: its calldata, and the balances after the
  caller has paid the value.\<close>

definition entry_overrides :: "env \<Rightarrow> string option \<Rightarrow> string list res" where
  "entry_overrides e calldata_hex =
     bindR
       (case calldata_hex of
          None \<Rightarrow> Inr []
        | Some h \<Rightarrow>
            if h = [] then Inr []
            else case from_hex h of
              None \<Rightarrow> Inl ValueError
            | Some bs \<Rightarrow> Inr [''calldata :='' @ NL @ ''      (['' @
                  join '', '' (map (\<lambda>b. show_nat (unat b)) bs) @ ''] : List Nat)''])
       (\<lambda>cd. Inr (cd @ (if e_value e \<noteq> 0
          then [''accountBalances := base.accountBalances ++ '' @ lean_balances e True] else [])))"

text \<open>One \<open>let\<close> for each override; the first extends \<open>ctx\<close>, the others \<open>ctxCall\<close>.\<close>

fun cd_line :: "string \<Rightarrow> string list \<Rightarrow> string" where
  "cd_line src_ctx [] = []"
| "cd_line src_ctx (ov_field # ovs) =
     ''    let ctxCall := { '' @ src_ctx @ '' with '' @ ov_field @ '' }'' @ NL @ cd_line ''ctxCall'' ovs"

definition entry_ctx :: "string list \<Rightarrow> string" where
  "entry_ctx ovs = (if ovs = [] then ''ctx'' else ''ctxCall'')"

text \<open>The block up to the construction, from the construction to the seeding, and the call.\<close>

definition do_context :: \<open>string \<Rightarrow> string \<Rightarrow> env \<Rightarrow> string\<close> where
  \<open>do_context ns contract e = unlines
      [''(do'',
       ''    let source := '' @ ns @ ''.importedSourceUnit'',
       ''    let program '' @ LEFT_ARROW @ '' '' @ TC @ ''.CheckedInput.program source'',
       ''    let contract '' @ LEFT_ARROW @ '' '' @ TC @ ''.CheckedProgram.contract program "'' @ contract @ ''"'',
       ''    let base := contract.core.context'',
       ''    let ctx := { base with'',
       ''      sender := '' @ show_int (e_sender e) @ '', self := '' @ show_int (self_addr_of e) @ '', value := '' @ show_int (e_value e) @ '','',
       ''      accountBalances := base.accountBalances ++ '' @ lean_balances e False @ '','',
       ''      blockEnv := { base.blockEnv with '' @ lean_block_fields e @ '' },'',
       ''      txEnv := { base.txEnv with '' @ lean_tx_fields e @ '' } }'']\<close>

definition do_deploy :: \<open>int \<Rightarrow> env \<Rightarrow> string \<Rightarrow> string\<close> where
  \<open>do_deploy fuel e ctor_args_lean = unlines
      [''    let deployState '' @ LEFT_ARROW @ '' match '' @ LEFT_ARROW @ '' '' @ TC @ ''.CheckedContract.constructWithContext '' @ show_int fuel,
       ''        contract ctx SolidCore.Solidity.Source.State.empty '' @ show_int (e_sender e) @ '' 0 '' @ ctor_args_lean @ '' with'',
       ''      | SolidCore.Solidity.Source.CallResult.returned st _ => pure st'',
       ''      | rr@(SolidCore.Solidity.Source.CallResult.reverted _ _) =>'',
       ''          return (0, true, rr)'']\<close>

definition do_call :: \<open>int \<Rightarrow> string \<Rightarrow> string list \<Rightarrow> string \<Rightarrow> string\<close> where
  \<open>do_call fuel fname ovs args_lean = unlines
      [''    let callRes '' @ LEFT_ARROW @ '' '' @ TC @ ''.CheckedContract.callFunctionWithContext '' @ show_int fuel,
       ''      contract "'' @ fname @ ''" '' @ entry_ctx ovs @ '' deployState '' @ args_lean]
     @ ''    pure (ctorLogs, false, callRes))''\<close>

definition lean_eval_line ::
    \<open>string \<Rightarrow> string \<Rightarrow> int \<Rightarrow> string \<Rightarrow> string \<Rightarrow> env \<Rightarrow> int list \<Rightarrow> string \<Rightarrow> (int \<times> int) list \<Rightarrow>
      string option \<Rightarrow> string res\<close> where
  \<open>lean_eval_line ns contract fuel fname args_lean e slots ctor_args_lean inject calldata_hex =
     bindR (entry_overrides e calldata_hex) (\<lambda>ovs.
     let self_addr = show_int (self_addr_of e);
         slots_lean = ''['' @ join '', '' (map show_int slots) @ '']'';
         do_block = do_context ns contract e @ do_deploy fuel e ctor_args_lean @ seed_line inject
           @ ''    let ctorLogs := (SolidCore.Solidity.Source.State.logEntries deployState ''
           @ self_addr @ '').length'' @ NL
           @ cd_line ''ctx'' ovs @ do_call fuel fname ovs args_lean;
         call = ''SolidCore.Solidity.Contest.renderFullDelta '' @ self_addr @ '' '' @ slots_lean
           @ '' '' @ do_block
     in Inr (''#eval "'' @ strip OBSERVABLE_MARKER @ '' " ++ ('' @ call @ '')''))\<close>

end
