(* ===== verification/Bridge.thy ===== *)
theory Bridge
  imports Verdict EvalLine
begin

text \<open>
  \<open>contest/harness_bridge.py\<close>: what the runs of Forge, solc, the importer and Lean are read as.
  A run (\<open>run_capture\<close> of \<open>scripts/run_forge_interpreter_harness.py\<close>) times out, raises, or ends
  with an exit status and two logs; a timeout leaves a part of the log of errors. The logs are lists of code points; a decimal digit is an
  ASCII digit.
\<close>

section \<open>Runs\<close>

datatype capture = Timeout utext | Failed pyexn utext | Exit int utext utext

definition timeout_status :: "int \<Rightarrow> utext" where
  "timeout_status t = ulit (''timeout_after_'' @ show_int t @ ''s'')"

definition last_chars :: "nat \<Rightarrow> 'a list \<Rightarrow> 'a list" where
  "last_chars n s = drop (length s - n) s"

definition run_forge_test :: "int \<Rightarrow> capture \<Rightarrow> bool \<times> utext" where
  "run_forge_test t c =
     (case c of
        Timeout err \<Rightarrow> (False, timeout_status t)
      | Failed e msg \<Rightarrow> (False, ulit ''infra_error: '' @ msg)
      | Exit status out err \<Rightarrow>
          if status = 0 then (True, ulit ''pass'')
          else (False, ulit (''forge_exit_'' @ show_int status @ '': '') @ last_chars 800 (out @ err)))"

section \<open>The reject check\<close>

definition digit_cp :: "nat \<Rightarrow> bool" where
  "digit_cp n \<longleftrightarrow> 48 \<le> n \<and> n \<le> 57"

text \<open>\<open>_SOLC_ERRCODE_RE.findall\<close>: the digits of every \<open>Error (NNNN)\<close>, wherever it stands.\<close>

definition error_code_at :: "utext \<Rightarrow> utext option" where
  "error_code_at s =
     (if starts (ulit ''Error ('') s then
        (let r = drop 7 s; ds = takeWhile digit_cp r in
         if ds \<noteq> [] \<and> starts (ulit '')'') (dropWhile digit_cp r) then Some ds else None)
      else None)"

fun error_codes :: "utext \<Rightarrow> utext list" where
  "error_codes [] = []"
| "error_codes (c # cs) =
     (case error_code_at (c # cs) of Some ds \<Rightarrow> ds # error_codes cs | None \<Rightarrow> error_codes cs)"

text \<open>\<open>_SOLC_ERROR_RE.search\<close>: a line whose first word contains \<open>Error:\<close>, or a code.\<close>

definition error_diagnostic :: "utext \<Rightarrow> bool" where
  "error_diagnostic output \<longleftrightarrow>
     list_ex (\<lambda>l. contains (ulit ''Error:'') (takeWhile (\<lambda>c. \<not> space_cp c) l)) (split_on [10] output)
     \<or> error_codes output \<noteq> []"

text \<open>\<open>code in codes\<close> on a set of strings: a list or an object is not hashable.\<close>

definition code_in :: "json \<Rightarrow> utext list \<Rightarrow> bool res" where
  "code_in code codes =
     (case code of
        JStr s \<Rightarrow> Inr (ulit s \<in> set codes)
      | JList _ \<Rightarrow> Inl TypeError
      | JObj _ \<Rightarrow> Inl TypeError
      | _ \<Rightarrow> Inr False)"

definition code_status :: "json \<Rightarrow> utext list \<Rightarrow> utext" where
  "code_status code codes =
     ulit (''error_code_'' @ py_str code @ ''_not_found_in_['') @
     join (ulit '', '') (map (\<lambda>c. [39] @ map cp c @ [39])
        (sort (remdups (map (map (\<lambda>n. char_of n)) codes)))) @ ulit '']''"

definition run_solc_rejects_source :: "int \<Rightarrow> json \<Rightarrow> capture \<Rightarrow> (bool \<times> utext) res" where
  "run_solc_rejects_source t code c =
     (case c of
        Timeout err \<Rightarrow> Inr (False, timeout_status t)
      | Failed e msg \<Rightarrow> Inl e
      | Exit status out err \<Rightarrow>
          (let output = out @ err; reject = Inr (True, ulit (''reject_exit_'' @ show_int status)) in
           if status = 0 then Inr (False, ulit ''unexpected_accept_exit0'')
           else if \<not> error_diagnostic output
             then Inr (False, ulit (''exit_'' @ show_int status @ ''_no_error_diagnostic''))
           else if truthy code
             then bindR (code_in code (error_codes output)) (\<lambda>found.
                    if found then reject else Inr (False, code_status code (error_codes output)))
           else reject))"

section \<open>The importer\<close>

text \<open>\<open>run_solc_import\<close>: whether the importer ended well, its status, the Lean text.\<close>

definition run_solc_import :: "int \<Rightarrow> capture \<Rightarrow> (bool \<times> utext \<times> utext) res" where
  "run_solc_import t c =
     (case c of
        Timeout err \<Rightarrow> Inr (False, timeout_status t, [])
      | Failed e msg \<Rightarrow> Inl e
      | Exit status out err \<Rightarrow>
          if status \<noteq> 0 then Inr (False, ulit (''exit_'' @ show_int status), [])
          else Inr (True, ulit ''ok'', out))"

text \<open>The log of standard error, which a timeout cuts off.\<close>

definition stderr_of :: "capture \<Rightarrow> utext" where
  "stderr_of c = (case c of Exit s out err \<Rightarrow> err | Timeout err \<Rightarrow> err | Failed e msg \<Rightarrow> [])"

section \<open>Reading what #eval prints\<close>

text \<open>\<open>str.splitlines()\<close>.\<close>

definition line_end :: "nat \<Rightarrow> bool" where
  "line_end n \<longleftrightarrow> (10 \<le> n \<and> n \<le> 13) \<or> (28 \<le> n \<and> n \<le> 30) \<or> n = 133 \<or> n = 8232 \<or> n = 8233"

fun splitlines_from :: "utext \<Rightarrow> utext \<Rightarrow> utext list" where
  "splitlines_from acc [] = (if acc = [] then [] else [acc])"
| "splitlines_from acc [c] = (if line_end c then [acc] else [acc @ [c]])"
| "splitlines_from acc (c # c' # cs) =
     (if c = 13 \<and> c' = 10 then acc # splitlines_from [] cs
      else if line_end c then acc # splitlines_from [] (c' # cs)
      else splitlines_from (acc @ [c]) (c' # cs))"

definition splitlines :: "utext \<Rightarrow> utext list" where
  "splitlines s = splitlines_from [] s"

text \<open>\<open>_unescape_lean_repr\<close>. The code point of \<open>\u{..}\<close> is \<open>chr(int(h, 16))\<close>, where both may
  raise \<open>ValueError\<close>.\<close>

definition simple_escape :: "nat \<Rightarrow> nat option" where
  "simple_escape n =
     (if n \<in> {92, 34, 39} then Some n
      else if n = cp (CHR ''n'') then Some 10
      else if n = cp (CHR ''t'') then Some 9
      else if n = cp (CHR ''r'') then Some 13 else None)"

definition hex_code_point :: "utext \<Rightarrow> nat option" where
  "hex_code_point h =
     (if list_all (\<lambda>n. n < 128) h then
        (case py_int_str 16 (map char_of h) of
           Inr i \<Rightarrow> if 0 \<le> i \<and> i < 1114112 then Some (nat i) else None
         | Inl e \<Rightarrow> None)
      else None)"

text \<open>The number of characters of a \<open>\u{..}\<close> escape and its code point, at the opening brace.\<close>

definition unicode_escape :: "utext \<Rightarrow> (nat \<times> utext) option" where
  "unicode_escape s =
     (if starts [123] s then
        (case part_at [125] (drop 1 s) of
           Some (h, r) \<Rightarrow> map_option (\<lambda>n. (n, r)) (hex_code_point h)
         | None \<Rightarrow> None)
      else None)"

lemma unicode_escape_shorter: "unicode_escape s = Some (n, r) \<Longrightarrow> length r < length s"
proof -
  assume "unicode_escape s = Some (n, r)"
  then obtain h where "part_at [125] (drop 1 s) = Some (h, r)"
    by (auto simp: unicode_escape_def split: if_splits option.splits)
  from part_at_Some [OF this] have "length (drop 1 s) = length (h @ [125] @ r)" by simp
  then show ?thesis by simp
qed

function unescape :: "utext \<Rightarrow> utext" where
  "unescape [] = []"
| "unescape [c] = [c]"
| "unescape (c # x # cs) =
     (if c \<noteq> 92 then c # unescape (x # cs)
      else if x = cp (CHR ''u'')
        then (case unicode_escape cs of Some (n, r) \<Rightarrow> n # unescape r | None \<Rightarrow> x # unescape cs)
      else case simple_escape x of Some y \<Rightarrow> y # unescape cs | None \<Rightarrow> x # unescape cs)"
  by pat_completeness auto
termination
  by (relation "measure length") (auto dest: unicode_escape_shorter)

definition unescape_lean_repr :: "utext \<Rightarrow> utext" where
  "unescape_lean_repr s = (if 92 \<notin> set s then s else unescape s)"

section \<open>solidity-lean\<close>

definition lean_failure_inconclusive :: "utext \<Rightarrow> bool" where
  "lean_failure_inconclusive stderr = True"

text \<open>Messages enter the report as ASCII text.\<close>

definition ascii_text :: "utext \<Rightarrow> string" where
  "ascii_text s = map (\<lambda>n. char_of n) s"

definition fail_closed_at :: "string \<Rightarrow> utext option \<Rightarrow> utext \<Rightarrow> bool \<Rightarrow> lean_result" where
  "fail_closed_at stage observable msg inconclusive =
     \<lparr>lr_ok = False, lr_stage = stage, lr_fail_closed = True, lr_observable = observable,
      lr_message = ascii_text msg, lr_inconclusive = inconclusive\<rparr>"

text \<open>The Lean file, as the UTF-8 bytes that are written.\<close>

definition utf8_text :: "utext \<Rightarrow> string" where
  "utf8_text s = map (\<lambda>b. char_of (unat b)) (utf8_encode s)"

definition lean_file :: "bool \<Rightarrow> string \<Rightarrow> utext \<Rightarrow> string \<Rightarrow> string" where
  "lean_file compiled_helper helper generated eval_line =
     join NL
       [''import SolidCore.Solidity.Checked'',
        (if compiled_helper then ''import SolidCore.Contest.Observable'' else []),
        ''set_option maxHeartbeats 8000000'', [], utf8_text generated, [],
        (if compiled_helper then [] else helper), [], eval_line] @ NL"

text \<open>The payload of a marker line: what follows the first marker, without the closing quote.\<close>

definition payload_of :: "utext \<Rightarrow> utext" where
  "payload_of line =
     (let marker = ulit (strip OBSERVABLE_MARKER);
          p = tstrip (case part_at marker line of Some (a, b) \<Rightarrow> b | None \<Rightarrow> []);
          p1 = (if ends [34] p then butlast p else p)
      in tstrip (unescape_lean_repr p1))"

definition marker_lines :: "utext \<Rightarrow> utext list" where
  "marker_lines stdout =
     filter (contains (ulit (strip OBSERVABLE_MARKER))) (splitlines stdout)"

text \<open>The reading of the run of \<open>lake env lean\<close>.\<close>

definition read_lean_run :: "int \<Rightarrow> capture \<Rightarrow> lean_result res" where
  "read_lean_run t c =
     (case c of
        Timeout err \<Rightarrow>
          Inr (fail_closed_at ''lean'' None (ulit (''lean timeout after '' @ show_int t @ ''s'')) True)
      | Failed e msg \<Rightarrow> Inl e
      | Exit status out err \<Rightarrow>
          (let ls = marker_lines out in
           if status \<noteq> 0 \<and> ls = [] then
             Inr (fail_closed_at ''lean'' None
               (ulit (''lean exit '' @ show_int status @ '': '') @ take 2000 (tstrip err))
               (lean_failure_inconclusive err))
           else if ls = [] then
             Inr (fail_closed_at ''lean'' None (ulit ''no observable produced by #eval'') True)
           else
             (let observed = parse_observable (payload_of (last ls)) in
              if is_solidity_lean_reject observed then
                Inr (fail_closed_at ''run'' (Some observed)
                  (ulit ''solidity_lean fail-closed: '' @ reject_message observed) False)
              else
                Inr \<lparr>lr_ok = True, lr_stage = ''run'', lr_fail_closed = False,
                     lr_observable = Some observed, lr_message = ''ran to completion'',
                     lr_inconclusive = False\<rparr>)))"

record lean_call =
  lc_contract :: string
  lc_function :: string
  lc_args :: "json list"
  lc_param_types :: "string list option"
  lc_ctor_args :: "json list"
  lc_ctor_types :: "string list option"
  lc_structs :: structs
  lc_slots :: "int list"
  lc_inject :: "(int \<times> int) list"
  lc_calldata :: "string option"

text \<open>\<open>import_run\<close> is the run of the importer, \<open>lean_run\<close> answers the text of a Lean file.\<close>

definition run_solidity_lean ::
    "nat \<Rightarrow> int \<Rightarrow> bool \<Rightarrow> string \<Rightarrow> string \<Rightarrow> capture \<Rightarrow> (string \<Rightarrow> capture) \<Rightarrow> int \<Rightarrow> env \<Rightarrow> lean_call \<Rightarrow>
      lean_result res" where
  "run_solidity_lean d t compiled_helper helper ns import_run lean_run fuel e k =
     bindR (run_solc_import t import_run) (\<lambda>(import_ok, import_status, generated).
     if \<not> import_ok then
       Inr (fail_closed_at ''import'' None
         (ulit ''importer '' @ import_status @ ulit '': '' @ take 2000 (tstrip (stderr_of import_run)))
         False)
     else
       bindR (render_lean_args (lc_structs k) d (lc_args k) (lc_param_types k)) (\<lambda>args_lean.
       bindR (render_lean_args (lc_structs k) d (lc_ctor_args k) (lc_ctor_types k)) (\<lambda>ctor_args_lean.
       bindR (lean_eval_line ns (lc_contract k) fuel (lc_function k) args_lean e (lc_slots k)
                ctor_args_lean (lc_inject k) (lc_calldata k)) (\<lambda>eval_line.
       read_lean_run t (lean_run (lean_file compiled_helper helper generated eval_line))))))"

end
