(* ===== verification/MeasureAst.thy ===== *)
theory MeasureAst
  imports Gate AbiTypes
begin

text \<open>
  \<open>contest/measure.py\<close>, what the adjudicator reads from the analyzed AST of the entry source
  (the signature of the entry function, errors, structs, enums, the constructor) and the
  parser of the line the measurement harness writes. An AST that solc could not produce is
  \<open>None\<close>.
\<close>

section \<open>The entry signature\<close>

record esig =
  es_selector :: string
  es_params :: "string list"
  es_returns :: "string list"
  es_contract :: string
  es_overloads :: nat

definition param_type :: "node \<Rightarrow> string" where
  "param_type p =
     (let v = jget (sub_obj p ''typeDescriptions'') ''typeString'' in if truthy v then py_str v else [])"

definition params_of :: "node \<Rightarrow> string \<Rightarrow> string list" where
  "params_of item k = map (\<lambda>p. param_type (jobj p)) (jlist (jget (sub_obj item k) ''parameters''))"

definition named_contract :: "string \<Rightarrow> node \<Rightarrow> bool" where
  "named_contract contract d \<longleftrightarrow>
     nt_is d ''ContractDefinition'' \<and> jget d ''name'' = JStr contract"

definition functions_named :: "string \<Rightarrow> node \<Rightarrow> node list" where
  "functions_named f d =
     filter (\<lambda>item. nt_is item ''FunctionDefinition'' \<and> jget item ''name'' = JStr f)
       (map jobj (jlist (jget d ''nodes'')))"

text \<open>The first contract of that name that has a function of the name decides.\<close>

definition entry_signature :: "json \<Rightarrow> string \<Rightarrow> string \<Rightarrow> esig option" where
  "entry_signature ast contract function =
     (case concat (map (\<lambda>d. let ms = functions_named function d in
             case ms of [] \<Rightarrow> [] | m # _ \<Rightarrow> [(m, length ms)])
           (filter (named_contract contract) (nodes_of ast))) of
        [] \<Rightarrow> None
      | (item, n) # _ \<Rightarrow>
          if \<not> truthy (jget item ''functionSelector'') then None
          else Some \<lparr>es_selector = py_str (jget item ''functionSelector''),
                     es_params = params_of item ''parameters'',
                     es_returns = params_of item ''returnParameters'',
                     es_contract = contract, es_overloads = n\<rparr>)"

section \<open>Errors, structs, enums, the constructor\<close>

type_synonym error_def = "string \<times> string \<times> string list"

definition lower_hex :: "string \<Rightarrow> string" where
  "lower_hex s = map (\<lambda>c. if 65 \<le> cp c \<and> cp c \<le> 90 then char_of (cp c + 32) else c) s"

definition error_definition_list :: "json option \<Rightarrow> error_def list" where
  "error_definition_list ast =
     (case ast of
        None \<Rightarrow> []
      | Some a \<Rightarrow>
          map (\<lambda>d. (lower_hex (py_str (jget d ''errorSelector'')), py_str (jget d ''name''),
                     params_of d ''parameters''))
            (filter (\<lambda>d. nt_is d ''ErrorDefinition'' \<and> truthy (jget d ''errorSelector'')
                        \<and> truthy (jget d ''name'')) (nodes_of a)))"

text \<open>The last definition of a selector wins; a selector with two names is ambiguous.\<close>

fun error_table ::
  "error_def list \<Rightarrow> error_def list \<Rightarrow> string list \<Rightarrow> error_def list \<times> string list" where
  "error_table [] out ambiguous = (out, ambiguous)"
| "error_table ((sel, name, types) # es) out ambiguous =
     error_table es (dput out sel (name, types))
       (case dget out sel of
          Some (prior, _) \<Rightarrow> if prior \<noteq> name then sel # ambiguous else ambiguous
        | None \<Rightarrow> ambiguous)"

definition error_definitions :: "json option \<Rightarrow> error_def list \<times> string list" where
  "error_definitions ast = error_table (error_definition_list ast) [] []"

definition canonical_name :: "node \<Rightarrow> json" where
  "canonical_name d =
     (let c = jget d ''canonicalName'' in if truthy c then c else jget d ''name'')"

definition struct_definitions :: "json option \<Rightarrow> structs" where
  "struct_definitions ast =
     (case ast of
        None \<Rightarrow> []
      | Some a \<Rightarrow> dput_all []
          (map (\<lambda>d. (py_str (canonical_name d),
                     map (\<lambda>m. param_type (jobj m)) (jlist (jget d ''members''))))
            (filter (\<lambda>d. nt_is d ''StructDefinition'' \<and> truthy (canonical_name d)) (nodes_of a))))"

definition constructor_param_types :: "json option \<Rightarrow> string \<Rightarrow> string list" where
  "constructor_param_types ast contract =
     (case ast of
        None \<Rightarrow> []
      | Some a \<Rightarrow>
          (case concat (map (\<lambda>d. filter (\<lambda>item. nt_is item ''FunctionDefinition''
                    \<and> jget item ''kind'' = JStr ''constructor'') (map jobj (jlist (jget d ''nodes''))))
                 (filter (named_contract contract) (nodes_of a))) of
             [] \<Rightarrow> []
           | item # _ \<Rightarrow> params_of item ''parameters''))"

definition enum_member_counts :: "json option \<Rightarrow> (string \<times> int) list" where
  "enum_member_counts ast =
     (case ast of
        None \<Rightarrow> []
      | Some a \<Rightarrow> dput_all []
          (map (\<lambda>d. (py_str (canonical_name d), int (length (jlist (jget d ''members'')))))
            (filter (\<lambda>d. nt_is d ''EnumDefinition'' \<and> truthy (canonical_name d)
                        \<and> jlist (jget d ''members'') \<noteq> []) (nodes_of a))))"

section \<open>The measurement\<close>

record measurement =
  ms_ok :: bool
  ms_ret_hex :: string
  ms_self :: int
  ms_origin :: int
  ms_events :: string
  ms_storage :: string
  ms_deploy_reverted :: bool

definition hex_ch :: "char \<Rightarrow> bool" where
  "hex_ch c \<longleftrightarrow> digit_val 16 c \<noteq> None"

text \<open>\<open>_MEAS_RE\<close>, group by group: the kind, an even number of hexadecimal digits, the two
  addresses, and the optional sections; a dot does not match a newline.\<close>

definition eat :: "string \<Rightarrow> string \<Rightarrow> string option" where
  "eat p s = (if starts p s then Some (drop (length p) s) else None)"

definition eat_kind :: "string \<Rightarrow> (string \<times> string) option" where
  "eat_kind s =
     (case eat ''ok|'' s of
        Some r \<Rightarrow> Some (''ok'', r)
      | None \<Rightarrow>
          (case eat ''revert|'' s of
             Some r \<Rightarrow> Some (''revert'', r)
           | None \<Rightarrow> map_option (\<lambda>r. (''deployrevert'', r)) (eat ''deployrevert|'' s)))"

definition eat_hex :: "string \<Rightarrow> (string \<times> string) option" where
  "eat_hex s = map_option (\<lambda>r. (takeWhile hex_ch r, dropWhile hex_ch r)) (eat ''0x'' s)"

text \<open>The tail of the pattern: nothing, or \<open>|evt=..|sto=..\<close> with the last \<open>|sto=\<close> (greedy).\<close>

definition eat_sections :: "string \<Rightarrow> (string \<times> string) option" where
  "eat_sections s =
     (if s = [] then Some ([], [])
      else case eat ''|evt='' s of
        None \<Rightarrow> None
      | Some r \<Rightarrow> if CHR 0x0A \<in> set r then None else rpart_at ''|sto='' r)"

definition hex_int :: "string \<Rightarrow> int" where
  "hex_int s = (case py_int_str 16 s of Inr n \<Rightarrow> n | Inl e \<Rightarrow> 0)"

definition parse_measurement :: "string \<Rightarrow> measurement option" where
  "parse_measurement raw =
     (case eat_kind (strip raw) of
        None \<Rightarrow> None
      | Some (kind, r1) \<Rightarrow>
     (case eat_hex r1 of
        None \<Rightarrow> None
      | Some (ret, r2) \<Rightarrow>
     (if odd (length ret) then None else
      case eat ''|self='' r2 of
        None \<Rightarrow> None
      | Some r3 \<Rightarrow>
     (case eat_hex r3 of
        None \<Rightarrow> None
      | Some (self, r4) \<Rightarrow>
     (if self = [] then None else
      case eat ''|origin='' r4 of
        None \<Rightarrow> None
      | Some r5 \<Rightarrow>
     (case eat_hex r5 of
        None \<Rightarrow> None
      | Some (origin, r6) \<Rightarrow>
     (if origin = [] then None else
      case eat_sections r6 of
        None \<Rightarrow> None
      | Some (evt, sto) \<Rightarrow>
          Some \<lparr>ms_ok = (kind = ''ok''), ms_ret_hex = ''0x'' @ ret, ms_self = hex_int self,
                ms_origin = hex_int origin, ms_events = evt, ms_storage = sto,
                ms_deploy_reverted = (kind = ''deployrevert'')\<rparr>)))))))"

text \<open>The line the generated harness writes: the format strings of \<open>_harness_source\<close>.\<close>

definition harness_line ::
  "bool \<Rightarrow> string \<Rightarrow> string \<Rightarrow> string \<Rightarrow> string \<Rightarrow> string \<Rightarrow> string" where
  "harness_line ok ret self origin evt sto =
     (if ok then ''ok'' else ''revert'') @ ''|0x'' @ ret @ ''|self=0x'' @ self @ ''|origin=0x'' @ origin
     @ ''|evt='' @ evt @ ''|sto='' @ sto"

definition deploy_revert_line :: "string \<Rightarrow> string \<Rightarrow> string \<Rightarrow> string" where
  "deploy_revert_line ret self origin =
     ''deployrevert|0x'' @ ret @ ''|self=0x'' @ self @ ''|origin=0x'' @ origin @ ''|evt=|sto=''"

end
