(* ===== verification/Harness.thy ===== *)
theory Harness
  imports EvalLine MeasureAst AbiEncode
begin

text \<open>
  \<open>contest/measure.py\<close>, the measurement of the EVM side: the Foundry test \<open>_harness_source\<close>
  generates (the text, UTF-8, one \<open>char\<close> for each byte) and \<open>measure_evm\<close>, which builds the
  calldata and the constructor arguments, has the test run and parses the line it writes. The
  run itself is the parameter \<open>run\<close>: what the output file holds after Forge ran the test, if
  Forge could be run and wrote it. The cache of measurements, which repeats an earlier answer
  for the same text, is not represented.
\<close>

definition SECTION_SIGN :: string where
  "SECTION_SIGN = [CHR 0xC2, CHR 0xA7]"

definition CHEAT_EXPR :: string where
  \<open>CHEAT_EXPR = ''address(uint160(uint256(keccak256("hevm cheat code"))))''\<close>

definition VM_IFACE :: string where
  \<open>VM_IFACE = join NL
      [''struct VmLog { bytes32[] topics; bytes data; address emitter; }'',
       [],
       ''interface CVm {'',
       ''    function roll(uint256) external;'',
       ''    function warp(uint256) external;'',
       ''    function chainId(uint256) external;'',
       ''    function fee(uint256) external;'',
       ''    function prevrandao(bytes32) external;'',
       ''    function coinbase(address) external;'',
       ''    function deal(address,uint256) external;'',
       ''    function prank(address) external;'',
       ''    function startPrank(address) external;'',
       ''    function stopPrank() external;'',
       ''    function recordLogs() external;'',
       ''    function getRecordedLogs() external returns (VmLog[] memory);'',
       ''    function record() external;'',
       ''    function accesses(address) external returns (bytes32[] memory reads, bytes32[] memory writes);'',
       ''    function load(address,bytes32) external view returns (bytes32);'',
       ''    function store(address,bytes32,bytes32) external;'',
       ''    function writeFile(string calldata, string calldata) external;'',
       ''    function getNonce(address) external returns (uint64);'',
       ''    function computeCreateAddress(address,uint256) external pure returns (address);'',
       ''    function toString(bytes calldata) external pure returns (string memory);'',
       ''    function toString(uint256) external pure returns (string memory);'',
       ''    function toString(address) external pure returns (string memory);'',
       ''}'']\<close>

section \<open>The blocks of the test\<close>

definition addr_expr :: "int \<Rightarrow> string" where
  "addr_expr a = ''address(uint160('' @ show_int a @ ''))''"

definition sender_expr :: "env \<Rightarrow> string" where
  "sender_expr e = addr_expr (e_sender e)"

definition pins :: "env \<Rightarrow> string list" where
  "pins e =
     [''vm.roll('' @ show_int (e_number e) @ '');'',
      ''vm.warp('' @ show_int (e_timestamp e) @ '');'',
      ''vm.chainId('' @ show_int (e_chainid e) @ '');'',
      ''vm.fee('' @ show_int (e_basefee e) @ '');'',
      ''vm.prevrandao(bytes32(uint256('' @ show_int (e_prevrandao e) @ '')));'',
      ''vm.coinbase('' @ addr_expr (e_coinbase e) @ '');'']
     @ map (\<lambda>(addr, amt). ''vm.deal('' @ addr_expr addr @ '', '' @ show_int amt @ '');'')
         (effective_deals e)
     @ (if e_value e \<noteq> 0 then [''vm.deal(address(this), '' @ show_int (e_value e) @ '');''] else [])"

definition pin_block :: "env \<Rightarrow> string" where
  "pin_block e = join (NL @ ''        '') (pins e)"

definition value_opt :: "env \<Rightarrow> string" where
  "value_opt e = (if e_value e \<noteq> 0 then ''{value: '' @ show_int (e_value e) @ ''}'' else [])"

text \<open>The deployment: a low-level \<open>create\<close>, whose failure is written as the measurement.\<close>

definition deploy_block :: \<open>string \<Rightarrow> string \<Rightarrow> env \<Rightarrow> string \<Rightarrow> string\<close> where
  \<open>deploy_block contract out_path e ctor_args_hex = unlines
      [''bytes memory _init = abi.encodePacked(type('' @ contract @ '').creationCode, hex"'' @ ctor_args_hex @ ''");'',
       ''        address _pred = vm.computeCreateAddress('' @ sender_expr e @ '', vm.getNonce('' @ sender_expr e @ ''));'',
       ''        vm.prank('' @ sender_expr e @ '');'',
       ''        address _addr;'',
       ''        assembly { _addr := create(0, add(_init, 0x20), mload(_init)) }'',
       ''        if (_addr == address(0)) {'',
       ''            bytes memory _crd;'',
       ''            assembly {'',
       ''                _crd := mload(0x40)'',
       ''                mstore(_crd, returndatasize())'',
       ''                returndatacopy(add(_crd, 0x20), 0, returndatasize())'',
       ''                mstore(0x40, add(add(_crd, 0x20), and(add(returndatasize(), 0x3f), not(0x1f))))'',
       ''            }'',
       ''            vm.writeFile("'' @ out_path @ ''", string(abi.encodePacked('',
       ''                "deployrevert|", vm.toString(_crd),'',
       ''                "|self=", vm.toString(_pred),'',
       ''                "|origin=", vm.toString(tx.origin),'',
       ''                "|evt=|sto=")));'',
       ''            return;'',
       ''        }'']
     @ ''        '' @ contract @ '' target = '' @ contract @ ''(_addr);''\<close>

definition inject_block :: "(int \<times> int) list \<Rightarrow> string" where
  "inject_block inject =
     join (NL @ ''        '')
       (map (\<lambda>(slot, word). ''vm.store(address(target), bytes32(uint256('' @ show_int slot
               @ '')), bytes32(uint256('' @ show_int word @ '')));'') inject)"

definition inject_sto_block :: \<open>(int \<times> int) list \<Rightarrow> string\<close> where
  \<open>inject_sto_block inject =
     join (NL @ ''            '')
       (map (\<lambda>(slot, word). ''sto = abi.encodePacked(sto, ";", vm.toString(uint256('' @ show_int slot
               @ '')), ":", vm.toString(uint256(vm.load(address(target), bytes32(uint256('' @ show_int slot
               @ ''))))));'') inject)\<close>

section \<open>The test\<close>

definition harness_head :: \<open>string \<Rightarrow> string \<Rightarrow> string\<close> where
  \<open>harness_head contract rel_import = unlines
      [''// SPDX-License-Identifier: UNLICENSED'',
       ''pragma solidity 0.8.35;'',
       [],
       ''import {'' @ contract @ ''} from "'' @ rel_import @ ''";'',
       [],
       VM_IFACE,
       [],
       ''contract ContestMeasure {'',
       ''    CVm constant vm = CVm('' @ CHEAT_EXPR @ '');'',
       []]\<close>

definition harness_run ::
    \<open>string \<Rightarrow> string \<Rightarrow> string \<Rightarrow> env \<Rightarrow> string \<Rightarrow> (int \<times> int) list \<Rightarrow> string\<close> where
  \<open>harness_run contract calldata_hex out_path e ctor_args_hex inject = unlines
      [''    function test_ContestMeasure() public {'',
       ''        '' @ pin_block e,
       ''        // Arm storage recording BEFORE the deploy so constructor SSTOREs count.'',
       ''        vm.record();'',
       ''        // Deploy (pranked; see deploy_block): a reverting constructor is'',
       ''        // CAPTURED as the `deployrevert|...` observable, not a test abort.'',
       ''        '' @ deploy_block contract out_path e ctor_args_hex,
       ''        // Raw storage injection (manifest `storage`), applied AFTER the constructor.'',
       ''        '' @ inject_block inject,
       ''        vm.recordLogs();'',
       ''        vm.prank(address(uint160('' @ show_int (e_sender e) @ '')));'',
       ''        (bool ok, bytes memory ret) = address(target).call'' @ value_opt e @ ''(hex"'' @ calldata_hex @ ''");'']\<close>

definition harness_sections :: \<open>(int \<times> int) list \<Rightarrow> string\<close> where
  \<open>harness_sections inject = unlines
      [''        // Events ('' @ SECTION_SIGN @ ''3.4 component 4): rolled back on revert, so only on success.'',
       ''        bytes memory evt = "";'',
       ''        bytes memory sto = "";'',
       ''        if (ok) {'',
       ''            VmLog[] memory logs = vm.getRecordedLogs();'',
       ''            for (uint i = 0; i < logs.length; i++) {'',
       ''                bytes memory t = "t=[";'',
       ''                for (uint j = 0; j < logs[i].topics.length; j++) {'',
       ''                    t = abi.encodePacked(t, j > 0 ? "," : "",'',
       ''                        vm.toString(uint256(logs[i].topics[j])));'',
       ''                }'',
       ''                t = abi.encodePacked(t, "];d=", vm.toString(logs[i].data));'',
       ''                evt = abi.encodePacked(evt, i > 0 ? "~" : "", t);'',
       ''            }'',
       ''            // Full post-call storage map: every written slot -> current value.'',
       ''            (, bytes32[] memory ws) = vm.accesses(address(target));'',
       ''            for (uint k = 0; k < ws.length; k++) {'',
       ''                sto = abi.encodePacked(sto, k > 0 ? ";" : "",'',
       ''                    vm.toString(uint256(ws[k])), ":",'',
       ''                    vm.toString(uint256(vm.load(address(target), ws[k]))));'',
       ''            }'',
       ''            // Injected slots (see above): emit each post-call value so the observed'',
       ''            // storage is symmetric with the solidity-lean whole-map dump.'',
       ''            '' @ inject_sto_block inject,
       ''        }'']\<close>

definition harness_write :: \<open>string \<Rightarrow> string\<close> where
  \<open>harness_write out_path = unlines
      [''        string memory out = string(abi.encodePacked('',
       ''            ok ? "ok" : "revert", "|", vm.toString(ret),'',
       ''            "|self=", vm.toString(address(target)),'',
       ''            "|origin=", vm.toString(tx.origin),'',
       ''            "|evt=", string(evt), "|sto=", string(sto)));'',
       ''        vm.writeFile("'' @ out_path @ ''", out);'',
       ''    }'',
       ''}'']\<close>

definition harness_source ::
    "string \<Rightarrow> string \<Rightarrow> string \<Rightarrow> env \<Rightarrow> string \<Rightarrow> string \<Rightarrow> (int \<times> int) list \<Rightarrow> string" where
  "harness_source contract calldata_hex out_path e rel_import ctor_args_hex inject =
     harness_head contract rel_import
     @ harness_run contract calldata_hex out_path e ctor_args_hex inject
     @ harness_sections inject @ harness_write out_path"

section \<open>Measuring\<close>

definition measure_evm ::
    "(string \<Rightarrow> string option) \<Rightarrow> string \<Rightarrow> string \<Rightarrow> json option \<Rightarrow> nat \<Rightarrow> esig \<Rightarrow> json list \<Rightarrow> env \<Rightarrow>
     json list \<Rightarrow> (int \<times> int) list \<Rightarrow> measurement option res" where
  "measure_evm run out_path file_name ast d sig args e cargs inject =
     (let S = struct_definitions ast;
          ctor_types = constructor_param_types ast (es_contract sig) in
      bindR (build_calldata S d (es_selector sig) args (Some (es_params sig))) (\<lambda>calldata.
      bindR (encode_args_abi S d cargs
               (if length ctor_types = length cargs then Some ctor_types else None)) (\<lambda>ctor.
      Inr (case run (harness_source (es_contract sig) calldata out_path e (''../src/'' @ file_name)
                       (to_hex ctor) inject) of
             None \<Rightarrow> None
           | Some raw \<Rightarrow> parse_measurement (strip raw)))))"

end
