(* ===== verification/Adjudicate.thy ===== *)
theory Adjudicate
  imports Bridge Harness Cheat
begin

text \<open>
  \<open>contest/adjudicate.py\<close>, the decision tree: \<open>load_submission\<close> and the stages of \<open>adjudicate\<close> in
  the order of the code. What solc, Forge, the importer and Lean answer is the record \<open>tools\<close>: the
  ASTs, the runs (\<open>capture\<close>), the output of the measurement as a function of the text of the
  generated test, the run of Lean as a function of the text of the generated file. \<open>d\<close> bounds
  the Python stack, as in the ABI theories. The two arguments that inject faults for the self
  tests are absent.
\<close>

section \<open>The submission\<close>

record files =
  f_is_dir :: bool
  f_claim :: "json option option"
  f_sources :: nat
  f_has_test :: bool

definition missing_key :: "node \<Rightarrow> string list \<Rightarrow> string option" where
  "missing_key d ks = find (\<lambda>k. \<not> dhas d k) ks"

definition load_submission :: "files \<Rightarrow> node step" where
  "load_submission fs =
     (let malformed = rep ''REJECT_MALFORMED'' in
      bindS (guard (f_is_dir fs) (malformed NoSubmissionDir)) (\<lambda>_.
      case f_claim fs of
        None \<Rightarrow> stop (malformed NoClaimFile)
      | Some None \<Rightarrow> stop (malformed ClaimNotJson)
      | Some (Some (JObj claim)) \<Rightarrow>
          bindS (guard (f_sources fs \<noteq> 0) (malformed NoSolSources)) (\<lambda>_.
          bindS (guard (f_has_test fs \<or> jget claim ''lane'' = JStr ''S''
                  \<or> truthy (jget claim ''_over_accept'') \<or> truthy (jget claim ''_manifest''))
                  (malformed NoTestDir)) (\<lambda>_.
          case missing_key claim [''lane'', ''entry''] of
            Some k \<Rightarrow> stop (malformed (ClaimMissing k))
          | None \<Rightarrow>
              (case jget claim ''entry'' of
                 JObj entry \<Rightarrow>
                   (case missing_key entry [''contract'', ''function''] of
                      Some k \<Rightarrow> stop (malformed (EntryMissing k))
                    | None \<Rightarrow>
                        bindS (guard (jget claim ''lane'' \<in> {JStr ''C'', JStr ''S''})
                          (malformed LaneIllegal)) (\<lambda>_. go claim))
               | _ \<Rightarrow> stop (malformed EntryNotObject))))
      | Some (Some _) \<Rightarrow> stop (malformed ClaimNotObject)))"

section \<open>The tools\<close>

datatype 'a outcome = Val 'a | OsFailure | Raised

record call =
  k_contract :: string
  k_function :: string
  k_args :: "json list"
  k_ctor_args :: "json list"
  k_slots :: "int list"
  k_inject :: "(int \<times> int) list"
  k_env :: env

record tools =
  o_timeout :: int
  o_root_name :: string
  o_entry_ast :: "json outcome"
  o_entry_file :: string
  o_asts :: "source_ast list outcome"
  o_parse_asts :: "source_ast list option"
  o_contract_asts :: "json option list"
  o_test_files :: "string list"
  o_test_output :: "json option"
  o_solc :: capture
  o_forge :: capture
  o_out_path :: string
  o_measure :: "string \<Rightarrow> string option"
  o_helper :: string
  o_compiled_helper :: bool
  o_import :: capture
  o_lean :: "string \<Rightarrow> capture"
  o_sha :: "string \<Rightarrow> string"
  o_stored :: "(string \<times> json) list"

definition entry_ast :: "tools \<Rightarrow> json option" where
  "entry_ast T = (case o_entry_ast T of Val a \<Rightarrow> Some a | _ \<Rightarrow> None)"

definition submission_asts :: "tools \<Rightarrow> repro_asts option" where
  "submission_asts T =
     Some (case o_asts T of Val ss \<Rightarrow> Some (map sa_ast ss) | _ \<Rightarrow> None,
           map_option (map sa_ast) (o_parse_asts T))"

definition annotate :: "tools \<Rightarrow> string \<Rightarrow> json list \<Rightarrow> json \<Rightarrow> report \<Rightarrow> report" where
  "annotate T = annotate_dedup (o_sha T) (o_stored T) (submission_asts T)"

section \<open>Step 0a: the claim\<close>

definition over_accept_claim :: "node \<Rightarrow> bool" where
  "over_accept_claim claim \<longleftrightarrow>
     truthy (jget claim ''_over_accept'')
     \<or> jget claim ''lane'' = JStr ''S'' \<and> jget claim ''mode'' = JStr ''OVER_ACCEPT''"

definition ctor_args_of :: "node \<Rightarrow> json" where
  "ctor_args_of entry =
     (let v = dget_or entry ''constructor_args'' (JList []) in if truthy v then v else JList [])"

definition validate_claim :: "node \<Rightarrow> node \<Rightarrow> (json list \<times> json list \<times> int list) step" where
  "validate_claim claim entry =
     (let malformed = rep ''REJECT_MALFORMED'' in
      bindS (guard (valid_identifier (jget entry ''contract'')) (malformed ContractIllegal)) (\<lambda>_.
      bindS (guard (valid_identifier (jget entry ''function'')) (malformed FunctionIllegal)) (\<lambda>_.
      bindS (lift (valid_fuel (dget_or claim ''fuel'' (JInt 64)))) (\<lambda>fuel.
      bindS (guard (fuel \<noteq> None) (malformed FuelIllegal)) (\<lambda>_.
      bindS (lift (safe_render_args (dget_or entry ''args'' (JList [])))) (\<lambda>ok.
      bindS (guard ok (malformed ArgsIllegal)) (\<lambda>_.
      bindS (lift (safe_render_args (ctor_args_of entry))) (\<lambda>cok.
      bindS (guard cok (malformed CtorArgsIllegal)) (\<lambda>_.
      bindS (lift (valid_slots (dget_or claim ''observed_slots'' (JList [])))) (\<lambda>slots.
      case slots of
        Inl e \<Rightarrow> stop (malformed (SlotsIllegal e))
      | Inr ss \<Rightarrow> go (jlist (dget_or entry ''args'' (JList [])), jlist (ctor_args_of entry), ss)))))))))))"

section \<open>Step 0a': the signature\<close>

definition filterR :: "('a \<Rightarrow> bool res) \<Rightarrow> 'a list \<Rightarrow> 'a list res" where
  "filterR f xs = bindR (mapR (\<lambda>x. bindR (f x) (\<lambda>b. Inr (if b then [x] else []))) xs)
     (\<lambda>yss. Inr (concat yss))"

fun domain_loop ::
  "(json \<Rightarrow> string \<Rightarrow> derr option res) \<Rightarrow> (nat \<Rightarrow> derr \<Rightarrow> report) \<Rightarrow> nat \<Rightarrow> (json \<times> string) list \<Rightarrow>
     unit step" where
  "domain_loop f rej i [] = go ()"
| "domain_loop f rej i ((arg, ptype) # ps) =
     bindS (lift (f arg ptype)) (\<lambda>e. case e of
        None \<Rightarrow> domain_loop f rej (Suc i) ps
      | Some err \<Rightarrow> stop (rej i err))"

text \<open>What a domain error leads to: the sentinel is out of scope while a row is in force.\<close>

definition arg_report ::
  "(string \<Rightarrow> nat \<Rightarrow> why) \<Rightarrow> (nat \<Rightarrow> why) \<Rightarrow> (nat \<Rightarrow> derr \<Rightarrow> why) \<Rightarrow> entry option \<Rightarrow> nat \<Rightarrow> derr \<Rightarrow>
     report" where
  "arg_report scope unvalidated illegal row i err =
     (if err = OOS then
        (case row of Some e \<Rightarrow> rep ''REJECTED_OOS'' (scope (x_id e) i)
         | None \<Rightarrow> rep ''REJECT_MALFORMED'' (unvalidated i))
      else rep ''REJECT_MALFORMED'' (illegal i err))"

definition bad_param_types ::
  "nat \<Rightarrow> structs \<Rightarrow> entry option \<Rightarrow> bool \<Rightarrow> string list \<Rightarrow> string list res" where
  "bad_param_types d S row ext types =
     (case row of
        Some e \<Rightarrow>
          if x_id e \<in> {''X-ARGVAL'', ''X-RETABI''}
          then Inr (filter (\<lambda>t. \<not> representable_param_type t) types)
          else filterR (\<lambda>t. bindR (encodable_param_type S d ext t) (\<lambda>b. Inr (\<not> b))) types
      | None \<Rightarrow> filterR (\<lambda>t. bindR (encodable_param_type S d ext t) (\<lambda>b. Inr (\<not> b))) types)"

definition validate_signature ::
  "nat \<Rightarrow> tools \<Rightarrow> string option \<Rightarrow> node \<Rightarrow> json list \<Rightarrow> json list \<Rightarrow> esig step" where
  "validate_signature d T at_version entry args ctor_args =
     (let malformed = rep ''REJECT_MALFORMED'';
          contract = py_str (jget entry ''contract''); function = py_str (jget entry ''function'') in
      case o_entry_ast T of
        OsFailure \<Rightarrow> stop (rep ''NEEDS_REVIEW'' SignatureInfra)
      | Raised \<Rightarrow> stop (malformed SignatureUnresolved)
      | Val ast \<Rightarrow>
      (case entry_signature ast contract function of
        None \<Rightarrow> stop (malformed EntryNotFound)
      | Some sig \<Rightarrow>
      bindS (guard (es_overloads sig \<le> 1) (malformed (EntryOverloaded (es_overloads sig)))) (\<lambda>_.
      bindS (guard (length args = length (es_params sig)) (malformed ArgCountMismatch)) (\<lambda>_.
      let S = struct_definitions (Some ast);
          row = active_row [''X-INTFNARG'', ''X-FNARG'', ''X-ARGVAL'', ''X-RETABI'']
                  (Some (effective_version at_version));
          ext = (case row of None \<Rightarrow> True | Some e \<Rightarrow> x_id e = ''X-INTFNARG'') in
      bindS (lift (bad_param_types d S row ext (es_params sig))) (\<lambda>bad.
      bindS (guard (bad = [] \<or> row = None)
              (rep ''REJECTED_OOS'' (ParamTypeScope (case row of Some e \<Rightarrow> x_id e | None \<Rightarrow> []) bad))) (\<lambda>_.
      let dom = arg_domain_error S (enum_member_counts (Some ast)) ext d;
          ctypes = constructor_param_types (Some ast) contract in
      bindS (domain_loop dom (arg_report ArgTypeScope ArgUnvalidated ArgIllegal row) 0
              (zip args (es_params sig))) (\<lambda>_.
      bindS (guard (length ctor_args = length ctypes) (malformed CtorCountMismatch)) (\<lambda>_.
      bindS (domain_loop dom (arg_report CtorTypeScope CtorUnvalidated CtorIllegal row) 0
              (zip ctor_args ctypes)) (\<lambda>_.
      go sig)))))))))"

section \<open>Step 0b: the cheatcode gate and the environment\<close>

text \<open>The ASTs of the test files, from what solc prints on the request for all files (\<open>None\<close>: not
  JSON); a file without an AST is left out.\<close>

definition multi_source_asts :: "string list \<Rightarrow> json option \<Rightarrow> source_ast list" where
  "multi_source_asts report_files output =
     (case output of
        None \<Rightarrow> []
      | Some out \<Rightarrow>
          (case jget (jobj out) ''sources'' of
             JObj sources \<Rightarrow>
               concat (map (\<lambda>key. case jget sources key of
                   JObj entry \<Rightarrow>
                     (case jget entry ''ast'' of
                        JObj a \<Rightarrow> [\<lparr>sa_source = key, sa_ast = JObj a\<rparr>] | _ \<Rightarrow> [])
                 | _ \<Rightarrow> []) report_files)
           | _ \<Rightarrow> []))"

definition scan_asts :: "tools \<Rightarrow> bool \<Rightarrow> source_ast list step" where
  "scan_asts T over =
     (case o_asts T of
        Val ss \<Rightarrow> go ss
      | OsFailure \<Rightarrow> stop (rep ''NEEDS_REVIEW'' SolcInfra)
      | Raised \<Rightarrow>
          if over then (case o_parse_asts T of
            Some ss \<Rightarrow> go ss | None \<Rightarrow> stop (rep ''REJECT_MALFORMED'' SourceNotParsed))
          else stop (rep ''REJECT_MALFORMED'' SourceNotAnalyzed))"

definition hit_ids :: "hit list \<Rightarrow> string list" where
  "hit_ids hs = sort (remdups (map h_id hs))"

definition cheat_stage ::
  "tools \<Rightarrow> bool \<Rightarrow> bool \<Rightarrow> env option \<Rightarrow> node \<Rightarrow> env step" where
  "cheat_stage T over manifest env_override entry =
     (case valid_value (dget_or entry ''value'' (JInt 0)) of
        None \<Rightarrow> stop (rep ''REJECT_MALFORMED'' ValueIllegal)
      | Some v \<Rightarrow>
      bindS (scan_asts T over) (\<lambda>src_asts.
      let src_scan = scan_src_cheatcodes src_asts;
          test_scan = scan_test_cheatcodes (multi_source_asts (o_test_files T) (o_test_output T));
          banned = c_banned src_scan @ c_banned test_scan in
      bindS (guard (banned = []) (rep ''REJECTED_OOS'' (CheatBanned (hit_ids banned)))) (\<lambda>_.
      bindS (guard (c_unmirrorable test_scan = []) (rep ''REJECTED_OOS'' CheatUnmirrored)) (\<lambda>_.
      go (case env_override of
            Some e \<Rightarrow> if manifest then e\<lparr>e_value := v\<rparr> else (c_overrides test_scan)\<lparr>e_value := v\<rparr>
          | None \<Rightarrow> (c_overrides test_scan)\<lparr>e_value := v\<rparr>)))))"

section \<open>Step 1: the real behaviour\<close>

text \<open>The rows that keep a return or revert type out of the comparison.\<close>

definition channel_scope ::
  "nat \<Rightarrow> structs \<Rightarrow> string option \<Rightarrow> string list \<Rightarrow> (string \<times> string list) option res" where
  "channel_scope d S at_version types =
     (let eff = Some (effective_version at_version);
          legacy = (case entry_by_id ''X-RETABI'' of Some e \<Rightarrow> is_active e eff | None \<Rightarrow> False) in
      if legacy then
        (let bad = filter (\<lambda>t. \<not> representable_param_type t) types in
         Inr (if bad = [] then None else Some (''X-RETABI'', bad)))
      else
        (let row = active_row [''X-INTFNVAL'', ''X-FNVAL''] eff;
             ext = (case row of None \<Rightarrow> True | Some e \<Rightarrow> x_id e = ''X-INTFNVAL'') in
         bindR (filterR (\<lambda>t. bindR (comparable_channel_type S d ext t) (\<lambda>b. Inr (\<not> b))) types) (\<lambda>bad.
           Inr (case row of
                  Some e \<Rightarrow> if bad = [] then None else Some (x_id e, bad)
                | None \<Rightarrow> None))))"

definition solc_reject_stage :: "tools \<Rightarrow> node \<Rightarrow> unit step" where
  "solc_reject_stage T claim =
     (let c = jget claim ''solc_error_code'';
          code = (if truthy c then c else jget claim ''solc_reject_error_code'') in
      bindS (lift (run_solc_rejects_source (o_timeout T) code (o_solc T))) (\<lambda>(ok, status).
        if ok then go ()
        else if starts (ulit ''timeout'') status then stop (rep ''NEEDS_REVIEW'' SolcRejectTimeout)
        else stop (rep ''INVALID'' SolcDidNotReject)))"

definition forge_stage :: "tools \<Rightarrow> bool \<Rightarrow> unit step" where
  "forge_stage T manifest =
     (if manifest then go ()
      else let (ok, status) = run_forge_test (o_timeout T) (o_forge T) in
        if ok then go ()
        else if starts (ulit ''timeout'') status \<or> starts (ulit ''infra_error'') status
          then stop (rep ''NEEDS_REVIEW'' ForgeInfra)
        else stop (rep ''INVALID'' NotReproduced))"

definition measure_stage ::
  "nat \<Rightarrow> tools \<Rightarrow> string option \<Rightarrow> esig \<Rightarrow> call \<Rightarrow> (measurement \<times> env) step" where
  "measure_stage d T at_version sig k =
     bindS (lift (channel_scope d (struct_definitions (entry_ast T)) at_version (es_returns sig)))
       (\<lambda>scope. case scope of
          Some (row, bad) \<Rightarrow> stop (rep ''REJECTED_OOS'' (ReturnTypeScope row bad))
        | None \<Rightarrow>
            bindS (lift (measure_evm (o_measure T) (o_out_path T) (o_entry_file T) (entry_ast T) d
                           sig (k_args k) (k_env k) (k_ctor_args k) (k_inject k))) (\<lambda>measured.
            case measured of
               None \<Rightarrow> stop (rep ''NEEDS_REVIEW'' NotMeasured)
             | Some m \<Rightarrow> go (m, with_self (k_env k) (ms_self m))))"

definition real_behaviour ::
  "nat \<Rightarrow> tools \<Rightarrow> string option \<Rightarrow> bool \<Rightarrow> bool \<Rightarrow> bool \<Rightarrow> node \<Rightarrow> esig option \<Rightarrow> call \<Rightarrow>
     (measurement option \<times> env) step" where
  "real_behaviour d T at_version over skip_forge manifest claim sig k =
     (if over then bindS (solc_reject_stage T claim) (\<lambda>_. go (None, k_env k))
      else if \<not> skip_forge then
        bindS (forge_stage T manifest) (\<lambda>_.
          case sig of
            None \<Rightarrow> stop (rep ''REJECT_MALFORMED'' EntryNotFound)
          | Some s \<Rightarrow> bindS (measure_stage d T at_version s k) (\<lambda>(m, e). go (Some m, e)))
      else go (None, k_env k))"

section \<open>Step 2: the reject gate\<close>

definition gate_asts :: "tools \<Rightarrow> bool \<Rightarrow> source_ast list res" where
  "gate_asts T over =
     (case o_asts T of
        Val ss \<Rightarrow> Inr ss
      | _ \<Rightarrow> if over then (case o_parse_asts T of Some ss \<Rightarrow> Inr ss | None \<Rightarrow> Inl RuntimeError)
             else Inl RuntimeError)"

definition contract_found :: "json option list \<Rightarrow> json \<Rightarrow> bool" where
  "contract_found asts contract =
     list_ex (\<lambda>a. case a of
        None \<Rightarrow> False
      | Some ast \<Rightarrow> list_ex (\<lambda>d. nt_is d ''ContractDefinition'' \<and> jget d ''name'' = contract)
                     (nodes_of ast)) asts"

definition gate_stage :: "tools \<Rightarrow> string option \<Rightarrow> bool \<Rightarrow> node \<Rightarrow> unit step" where
  "gate_stage T at_version over entry =
     bindS (lift (gate_asts T over)) (\<lambda>asts.
     let v = run_gate_on_asts asts True (Some (effective_version at_version)) in
     bindS (guard (is_pass v) (rep ''REJECTED_OOS'' (GateFired (hit_ids (gv_hits v))))) (\<lambda>_.
     guard (contract_found (o_contract_asts T) (jget entry ''contract''))
       (rep ''REJECT_MALFORMED'' EntryContractMissing)))"

section \<open>Step 3: run solidity-lean and classify\<close>

definition lean_calldata :: "nat \<Rightarrow> tools \<Rightarrow> esig option \<Rightarrow> json list \<Rightarrow> string option" where
  "lean_calldata d T sig args =
     (case sig of
        None \<Rightarrow> None
      | Some s \<Rightarrow>
          (case build_calldata (struct_definitions (entry_ast T)) d (es_selector s) args
                  (Some (es_params s)) of
             Inr h \<Rightarrow> Some h | Inl e \<Rightarrow> None))"

definition sanitize :: "string \<Rightarrow> string" where
  "sanitize name =
     (let s = strip_by (\<lambda>c. c = CHR ''_'') (map (\<lambda>c. if alnum_ch c then c else CHR ''_'') name)
      in if s = [] then ''Sub'' else s)"

definition NAMESPACE_PREFIX :: string where
  "NAMESPACE_PREFIX = ''SolidCore.Solidity.SolcAstImport.Contest''"

definition lean_call_of :: "nat \<Rightarrow> tools \<Rightarrow> esig option \<Rightarrow> call \<Rightarrow> lean_call" where
  "lean_call_of d T sig k =
     \<lparr>lc_contract = k_contract k, lc_function = k_function k, lc_args = k_args k,
      lc_param_types = map_option es_params sig, lc_ctor_args = k_ctor_args k,
      lc_ctor_types = map_option (\<lambda>s. constructor_param_types (entry_ast T) (k_contract k)) sig,
      lc_structs = (case sig of None \<Rightarrow> [] | Some s \<Rightarrow> struct_definitions (entry_ast T)),
      lc_slots = k_slots k, lc_inject = k_inject k,
      lc_calldata = lean_calldata d T sig (k_args k)\<rparr>"

text \<open>The interpreter runs at the fuel cap, whatever the claim says.\<close>

definition run_lean :: "nat \<Rightarrow> tools \<Rightarrow> esig option \<Rightarrow> call \<Rightarrow> lean_result res" where
  "run_lean d T sig k =
     run_solidity_lean d (o_timeout T) (o_compiled_helper T) (o_helper T)
       (NAMESPACE_PREFIX @ ''.'' @ sanitize (o_root_name T)) (o_import T) (o_lean T) FUEL_CAP
       (k_env k) (lean_call_of d T sig k)"

definition classify_over_accept :: "tools \<Rightarrow> node \<Rightarrow> lean_result \<Rightarrow> report" where
  "classify_over_accept T claim sl =
     (if lr_ok sl then
        (let feature = dget_or claim ''feature'' (JStr ''over-accept'') in
         annotate T ''S'' [JStr ''over_accept'', feature, JStr ''over-accept''] feature
           ((rep ''SOUNDNESS_GAP'' OverAccepted)\<lparr>r_lane := Some ''S''\<rparr>))
      else rep ''NO_DIVERGENCE'' BothReject)"

definition classify_fail_closed :: "tools \<Rightarrow> lean_result \<Rightarrow> report" where
  "classify_fail_closed T sl =
     (if lr_inconclusive sl then rep ''NEEDS_REVIEW'' LeanInconclusive
      else if lr_stage sl = ''run'' \<and> is_executable_failure (lr_message sl)
        then rep ''NEEDS_REVIEW'' LeanExecutableFailure
      else
        (let (stage, reason, token) = coverage_fingerprint sl in
         if reason = ''excluded'' then rep ''REJECTED_OOS'' ImporterExcluded
         else annotate T ''C'' [JStr stage, JStr reason, JStr token] (JStr token)
           ((rep ''COVERAGE_GAP'' (FailsClosed (lr_stage sl) reason))\<lparr>r_lane := Some ''C''\<rparr>)))"

text \<open>The custom errors under which the measured revert is decoded: a colliding selector is
  resolved to the error the model reports, and a parameter type outside the comparable subset
  ends the adjudication.\<close>

definition resolve_errors ::
  "tools \<Rightarrow> string option \<Rightarrow> string \<Rightarrow> utext \<Rightarrow> error_def list step" where
  "resolve_errors T at_version sel model_raw =
     (let (defs, ambiguous) = error_definitions (entry_ast T) in
      if sel = [] \<or> sel \<notin> set ambiguous then go defs
      else if (case entry_by_id ''X-ERRSEL'' of
                 Some e \<Rightarrow> is_active e (Some (effective_version at_version)) | None \<Rightarrow> False)
        then stop (rep ''REJECTED_OOS'' (AmbiguousSelector sel))
      else
        (let resolved = (case model_custom_error_name model_raw of
               None \<Rightarrow> None
             | Some n \<Rightarrow> find (\<lambda>(s, nm, ts). s = sel \<and> ulit nm = n)
                           (error_definition_list (entry_ast T))) in
         case resolved of
           Some (s, nm, ts) \<Rightarrow> go (dput defs sel (nm, ts))
         | None \<Rightarrow> if dhas defs sel then go defs else Inl KeyError))"

definition revert_errors ::
  "nat \<Rightarrow> tools \<Rightarrow> string option \<Rightarrow> measurement \<Rightarrow> utext \<Rightarrow> error_def list step" where
  "revert_errors d T at_version m model_raw =
     (if ms_ok m then go (fst (error_definitions (entry_ast T)))
      else
        bindS (lift (unhex (ms_ret_hex m))) (\<lambda>rd.
        let sel = (if 4 \<le> length rd then to_hex (take 4 rd) else []) in
        bindS (resolve_errors T at_version sel model_raw) (\<lambda>defs.
        case dget defs sel of
          None \<Rightarrow> go defs
        | Some (nm, types) \<Rightarrow>
            bindS (lift (channel_scope d (struct_definitions (entry_ast T)) at_version types)) (\<lambda>scope.
              case scope of
                Some (row, bad) \<Rightarrow> stop (rep ''REJECTED_OOS'' (RevertTypeScope row bad))
              | None \<Rightarrow> go defs))))"

text \<open>\<open>except ValueError\<close> around \<open>evm_observable\<close>.\<close>

definition decode_measured ::
  "nat \<Rightarrow> structs \<Rightarrow> esig \<Rightarrow> measurement \<Rightarrow> error_def list \<Rightarrow> utext step" where
  "decode_measured d S sig m defs =
     (case evm_observable S d (ms_ok m) (ms_ret_hex m) (es_returns sig)
             (Some (ulit (ms_events m))) (Some (ulit (ms_storage m))) defs (ms_deploy_reverted m) of
        Inr o' \<Rightarrow> go o'
      | Inl e \<Rightarrow> if e = ValueError then stop (rep ''NEEDS_REVIEW'' NotDecoded) else Inl e)"

text \<open>The cross-check of \<open>claim.declared_observable\<close>: \<open>.get\<close> and \<open>.strip\<close> raise on values that are
  not an object or not a string.\<close>

definition declared_check :: "node \<Rightarrow> unit res" where
  "declared_check claim =
     (let v = dget_or claim ''declared_observable'' (JObj []) in
      case (if truthy v then v else JObj []) of
        JObj d \<Rightarrow>
          (let n = jget d ''normal_form'' in
           if truthy n then (case n of JStr t \<Rightarrow> Inr () | _ \<Rightarrow> Inl AttributeError) else Inr ())
      | _ \<Rightarrow> Inl AttributeError)"

definition compare_stage ::
  "nat \<Rightarrow> tools \<Rightarrow> string option \<Rightarrow> node \<Rightarrow> esig option \<Rightarrow> measurement option \<Rightarrow> lean_result \<Rightarrow>
     report step" where
  "compare_stage d T at_version claim sig measured sl =
     (case (measured, sig) of
        (Some m, Some s) \<Rightarrow>
          (let S = struct_definitions (entry_ast T);
               model_raw = (case lr_observable sl of Some r \<Rightarrow> r | None \<Rightarrow> []) in
           bindS (revert_errors d T at_version m model_raw) (\<lambda>defs.
           bindS (decode_measured d S s m defs) (\<lambda>evm_obs.
           bindS (lift (declared_check claim)) (\<lambda>_.
           case lr_observable sl of
             None \<Rightarrow> Inl AssertionError
           | Some sl_raw \<Rightarrow>
               (let c = compare_observables (canonicalize_raw_revert S d defs sl_raw)
                          (canonicalize_raw_revert S d defs evm_obs);
                    feature = dget_or claim ''feature'' (JStr ''unspecified-feature'') in
                case cmp_component c of
                  None \<Rightarrow> go (rep ''NO_DIVERGENCE'' Agree)
                | Some cc \<Rightarrow>
                    go (annotate T ''S'' (soundness_fingerprint c feature) feature
                      ((rep ''SOUNDNESS_GAP'' (Differs cc))\<lparr>r_lane := Some ''S''\<rparr>)))))))
      | _ \<Rightarrow> stop (rep ''REJECT_MALFORMED'' NoOracle))"

definition classify ::
  "nat \<Rightarrow> tools \<Rightarrow> string option \<Rightarrow> bool \<Rightarrow> node \<Rightarrow> esig option \<Rightarrow> measurement option \<Rightarrow>
     lean_result \<Rightarrow> report step" where
  "classify d T at_version over claim sig measured sl =
     (if over then go (classify_over_accept T claim sl)
      else if lr_fail_closed sl then go (classify_fail_closed T sl)
      else compare_stage d T at_version claim sig measured sl)"

section \<open>The pipeline\<close>

record settings =
  s_at_version :: "string option"
  s_skip_forge :: bool
  s_env_override :: "env option"
  s_inject :: "(int \<times> int) list"

definition pipeline :: "nat \<Rightarrow> tools \<Rightarrow> settings \<Rightarrow> node \<Rightarrow> report step" where
  "pipeline d T st claim =
     (let entry = jobj (jget claim ''entry'');
          over = over_accept_claim claim;
          manifest = truthy (jget claim ''_manifest'');
          at_version = s_at_version st in
      bindS (validate_claim claim entry) (\<lambda>(args, ctor_args, slots).
      bindS (if over then go None
             else bindS (validate_signature d T at_version entry args ctor_args) (\<lambda>s. go (Some s)))
       (\<lambda>sig.
      bindS (cheat_stage T over manifest (s_env_override st) entry) (\<lambda>e.
      let k = \<lparr>k_contract = py_str (jget entry ''contract''),
               k_function = py_str (jget entry ''function''), k_args = args,
               k_ctor_args = ctor_args, k_slots = slots, k_inject = s_inject st, k_env = e\<rparr> in
      bindS (real_behaviour d T at_version over (s_skip_forge st) manifest claim sig k)
       (\<lambda>(measured, e1).
      bindS (gate_stage T at_version over entry) (\<lambda>_.
      bindS (lift (run_lean d T sig (k\<lparr>k_env := e1\<rparr>))) (\<lambda>sl.
      classify d T at_version over claim sig measured sl)))))))"

definition adjudicate :: "nat \<Rightarrow> tools \<Rightarrow> settings \<Rightarrow> files \<Rightarrow> report res" where
  "adjudicate d T st fs =
     bindR (bindS (load_submission fs) (pipeline d T st))
       (\<lambda>r. Inr (case r of Inl rp \<Rightarrow> rp | Inr rp \<Rightarrow> rp))"

end
