(* ===== verification/AdjProps.thy ===== *)
theory AdjProps
  imports Adjudicate
begin

text \<open>
  Properties of the adjudicator: which verdicts each stage can return, what a qualifying verdict
  rests on, and what the verdict does not depend on.
\<close>

section \<open>Verdicts of the stages\<close>

definition verdict_in :: "string set \<Rightarrow> report \<Rightarrow> bool" where
  "verdict_in vs r \<longleftrightarrow> (\<exists>v w. r = rep v w \<and> v \<in> vs)"

lemma verdict_in_rep [simp]: "verdict_in vs (rep v w) \<longleftrightarrow> v \<in> vs"
  by (auto simp: verdict_in_def rep_def)

lemma stops_mono: "stops_with P m \<Longrightarrow> (\<And>r. P r \<Longrightarrow> Q r) \<Longrightarrow> stops_with Q m"
  by (simp add: stops_with_def)

lemma verdict_in_mono: "verdict_in vs r \<Longrightarrow> vs \<subseteq> ws \<Longrightarrow> verdict_in ws r"
  by (auto simp: verdict_in_def)

lemma stops_widen: "stops_with (verdict_in vs) m \<Longrightarrow> vs \<subseteq> ws \<Longrightarrow> stops_with (verdict_in ws) m"
  by (erule stops_mono) (erule verdict_in_mono)

lemma stops_if: "(c \<Longrightarrow> stops_with P a) \<Longrightarrow> (\<not> c \<Longrightarrow> stops_with P b) \<Longrightarrow> stops_with P (if c then a else b)"
  by simp

lemma load_stops: "stops_with (verdict_in {''REJECT_MALFORMED''}) (load_submission fs)"
  unfolding load_submission_def Let_def
  by (intro stops_bind) (auto split: option.splits json.splits intro!: stops_bind)

lemma claim_stops: "stops_with (verdict_in {''REJECT_MALFORMED''}) (validate_claim claim entry)"
  unfolding validate_claim_def Let_def
  by (intro stops_bind) (auto split: sum.splits)

lemma domain_loop_stops:
  "(\<And>i e. P (rej i e)) \<Longrightarrow> stops_with P (domain_loop f rej i ps)"
  by (induction f rej i ps rule: domain_loop.induct) (auto intro!: stops_bind split: option.splits)

lemma arg_report_in: "verdict_in {''REJECTED_OOS'', ''REJECT_MALFORMED''} (arg_report a b c row i e)"
  by (auto simp: arg_report_def split: option.splits)

lemma signature_stops:
  "stops_with (verdict_in {''NEEDS_REVIEW'', ''REJECT_MALFORMED'', ''REJECTED_OOS''})
     (validate_signature d T v entry args cargs)"
proof -
  have dom: "stops_with (verdict_in {''NEEDS_REVIEW'', ''REJECT_MALFORMED'', ''REJECTED_OOS''})
       (domain_loop f (arg_report a b c row) i ps)" for f a b c row i ps
    by (rule stops_widen [where vs = "{''REJECTED_OOS'', ''REJECT_MALFORMED''}"],
        rule domain_loop_stops, rule arg_report_in) auto
  show ?thesis
    unfolding validate_signature_def Let_def
    by (auto split: outcome.splits option.splits intro!: stops_bind dom)
qed

lemma scan_stops:
  "stops_with (verdict_in {''NEEDS_REVIEW'', ''REJECT_MALFORMED''}) (scan_asts T over)"
  by (auto simp: scan_asts_def split: outcome.splits option.splits)

lemma cheat_stops:
  "stops_with (verdict_in {''NEEDS_REVIEW'', ''REJECT_MALFORMED'', ''REJECTED_OOS''})
     (cheat_stage T over manifest ov entry)"
  unfolding cheat_stage_def Let_def
  by (auto split: option.splits intro!: stops_bind stops_widen [OF scan_stops])

lemma solc_stops: "stops_with (verdict_in {''NEEDS_REVIEW'', ''INVALID''}) (solc_reject_stage T claim)"
  unfolding solc_reject_stage_def Let_def by (auto intro!: stops_bind)

lemma forge_stops: "stops_with (verdict_in {''NEEDS_REVIEW'', ''INVALID''}) (forge_stage T manifest)"
  unfolding forge_stage_def Let_def by (auto split: prod.splits)

lemma measure_stops:
  "stops_with (verdict_in {''NEEDS_REVIEW'', ''REJECTED_OOS''}) (measure_stage d T v sig k)"
  unfolding measure_stage_def by (auto intro!: stops_bind split: option.splits)

lemma behaviour_stops:
  "stops_with (verdict_in {''NEEDS_REVIEW'', ''INVALID'', ''REJECTED_OOS'', ''REJECT_MALFORMED''})
     (real_behaviour d T v over skip manifest claim sig k)"
  unfolding real_behaviour_def
  by (auto intro!: stops_bind stops_widen [OF solc_stops] stops_widen [OF forge_stops]
      stops_widen [OF measure_stops] split: option.splits)

lemma gate_stops:
  "stops_with (verdict_in {''REJECTED_OOS'', ''REJECT_MALFORMED''}) (gate_stage T v over entry)"
  unfolding gate_stage_def Let_def by (auto intro!: stops_bind)

lemma resolve_stops: "stops_with (verdict_in {''REJECTED_OOS''}) (resolve_errors T v sel raw)"
  unfolding resolve_errors_def Let_def by (auto split: prod.splits option.splits)

lemma revert_stops: "stops_with (verdict_in {''REJECTED_OOS''}) (revert_errors d T v m raw)"
  unfolding revert_errors_def Let_def
  by (auto intro!: stops_bind resolve_stops split: option.splits)

lemma decode_stops: "stops_with (verdict_in {''NEEDS_REVIEW''}) (decode_measured d S sig m defs)"
  unfolding decode_measured_def by (auto split: sum.splits)

lemma compare_stops:
  "stops_with (verdict_in {''REJECTED_OOS'', ''NEEDS_REVIEW'', ''REJECT_MALFORMED''})
     (compare_stage d T v claim sig measured sl)"
  unfolding compare_stage_def Let_def
  by (auto intro!: stops_bind stops_widen [OF revert_stops] stops_widen [OF decode_stops]
      split: option.splits)

section \<open>A run of the pipeline\<close>

text \<open>The stages before the classification succeed with these results.\<close>

definition passes_stages ::
  "nat \<Rightarrow> tools \<Rightarrow> settings \<Rightarrow> node \<Rightarrow> esig option \<Rightarrow> call \<Rightarrow> measurement option \<Rightarrow> env \<Rightarrow> bool" where
  "passes_stages d T st claim sig k measured e1 \<longleftrightarrow>
     (let entry = jobj (jget claim ''entry''); over = over_accept_claim claim;
          manifest = truthy (jget claim ''_manifest''); v = s_at_version st in
      k_contract k = py_str (jget entry ''contract'') \<and> k_function k = py_str (jget entry ''function'')
      \<and> k_inject k = s_inject st
      \<and> validate_claim claim entry = go (k_args k, k_ctor_args k, k_slots k)
      \<and> (if over then sig = None
         else \<exists>s. sig = Some s \<and> validate_signature d T v entry (k_args k) (k_ctor_args k) = go s)
      \<and> cheat_stage T over manifest (s_env_override st) entry = go (k_env k)
      \<and> real_behaviour d T v over (s_skip_forge st) manifest claim sig k = go (measured, e1)
      \<and> gate_stage T v over entry = go ())"

lemma pipeline_go:
  assumes "pipeline d T st claim = go r"
  obtains sig k measured e1 sl where
    "passes_stages d T st claim sig k measured e1" "run_lean d T sig (k\<lparr>k_env := e1\<rparr>) = Inr sl"
    "classify d T (s_at_version st) (over_accept_claim claim) claim sig measured sl = go r"
proof -
  let ?entry = "jobj (jget claim ''entry'')"
  from assms obtain args cargs slots sig e measured e1 sl where
    cl: "validate_claim claim ?entry = go (args, cargs, slots)"
    and sg: "(if over_accept_claim claim then go None
       else bindS (validate_signature d T (s_at_version st) ?entry args cargs) (\<lambda>s. go (Some s))) = go sig"
    and ch: "cheat_stage T (over_accept_claim claim) (truthy (jget claim ''_manifest''))
       (s_env_override st) ?entry = go e"
    and rb: "real_behaviour d T (s_at_version st) (over_accept_claim claim) (s_skip_forge st)
       (truthy (jget claim ''_manifest'')) claim sig
       \<lparr>k_contract = py_str (jget ?entry ''contract''), k_function = py_str (jget ?entry ''function''),
        k_args = args, k_ctor_args = cargs, k_slots = slots, k_inject = s_inject st, k_env = e\<rparr>
       = go (measured, e1)"
    and gs: "gate_stage T (s_at_version st) (over_accept_claim claim) ?entry = go ()"
    and rl: "run_lean d T sig
       \<lparr>k_contract = py_str (jget ?entry ''contract''), k_function = py_str (jget ?entry ''function''),
        k_args = args, k_ctor_args = cargs, k_slots = slots, k_inject = s_inject st, k_env = e1\<rparr> = Inr sl"
    and cf: "classify d T (s_at_version st) (over_accept_claim claim) claim sig measured sl = go r"
    unfolding pipeline_def Let_def by (auto simp: step_iffs)
  let ?k = "\<lparr>k_contract = py_str (jget ?entry ''contract''), k_function = py_str (jget ?entry ''function''),
        k_args = args, k_ctor_args = cargs, k_slots = slots, k_inject = s_inject st, k_env = e\<rparr>"
  have "passes_stages d T st claim sig ?k measured e1"
    unfolding passes_stages_def Let_def using cl sg ch rb gs
    by (auto simp: step_iffs split: if_splits)
  with rl cf show ?thesis by (intro that [of sig ?k measured e1 sl]) simp_all
qed

definition NON_QUALIFYING :: "string set" where
  "NON_QUALIFYING = {''REJECT_MALFORMED'', ''INVALID'', ''REJECTED_OOS'', ''NO_DIVERGENCE'', ''NEEDS_REVIEW''}"

lemma classify_stops:
  "stops_with (verdict_in {''REJECTED_OOS'', ''NEEDS_REVIEW'', ''REJECT_MALFORMED''})
     (classify d T v over claim sig measured sl)"
  unfolding classify_def by (simp add: compare_stops)

lemma pipeline_stops: "stops_with (verdict_in NON_QUALIFYING) (pipeline d T st claim)"
  unfolding pipeline_def Let_def
  by (auto simp: NON_QUALIFYING_def intro!: stops_bind stops_widen [OF claim_stops]
      stops_widen [OF signature_stops] stops_widen [OF cheat_stops] stops_widen [OF behaviour_stops]
      stops_widen [OF gate_stops] stops_widen [OF classify_stops] split: prod.splits)

lemma stops_withD: "stops_with P m \<Longrightarrow> m = stop r \<Longrightarrow> P r"
  by (simp add: stops_with_def)

lemma adjudicate_eq:
  "adjudicate d T st fs = Inr r \<longleftrightarrow>
     bindS (load_submission fs) (pipeline d T st) = stop r
     \<or> bindS (load_submission fs) (pipeline d T st) = go r"
  unfolding adjudicate_def
  by (cases "bindS (load_submission fs) (pipeline d T st)" rule: step_cases)
    (auto simp: stop_def go_def)

lemma adjudicate_cases:
  assumes "adjudicate d T st fs = Inr r"
  obtains (stop) "verdict_in NON_QUALIFYING r"
  | (go) claim where "load_submission fs = go claim" "pipeline d T st claim = go r"
proof -
  from assms consider "load_submission fs = stop r"
    | claim where "load_submission fs = go claim" "pipeline d T st claim = stop r"
    | claim where "load_submission fs = go claim" "pipeline d T st claim = go r"
    unfolding adjudicate_eq by (auto simp: step_iffs)
  then show ?thesis
  proof cases
    case 1
    from stops_withD [OF load_stops this] have "verdict_in NON_QUALIFYING r"
      by (rule verdict_in_mono) (simp add: NON_QUALIFYING_def)
    then show ?thesis by (rule stop)
  next
    case 2
    show ?thesis by (rule stop) (rule stops_withD [OF pipeline_stops 2(2)])
  next
    case 3
    then show ?thesis by (rule go)
  qed
qed

section \<open>The classification\<close>

lemma annotate_simps [simp]:
  "r_verdict (annotate T lane key feature r) = r_verdict r"
  "r_lane (annotate T lane key feature r) = r_lane r"
  "r_why (annotate T lane key feature r) = r_why r"
  "r_key (annotate T lane key feature r) = Some key"
  "r_register_version (annotate T lane key feature r) = r_register_version r"
  by (simp_all add: annotate_def annotate_dedup_def Let_def)

lemma rep_simps [simp]:
  "r_verdict (rep v w) = v" "r_lane (rep v w) = None" "r_why (rep v w) = w" "r_key (rep v w) = None"
  "r_duplicate_of (rep v w) = None" "r_register_version (rep v w) = REGISTER_VERSION"
  by (simp_all add: rep_def)

text \<open>A qualifying report of lane C or S.\<close>

definition gap_report :: "tools \<Rightarrow> string \<Rightarrow> string \<Rightarrow> why \<Rightarrow> report \<Rightarrow> bool" where
  "gap_report T v lane w r \<longleftrightarrow>
     (\<exists>key feature. r = annotate T lane key feature ((rep v w)\<lparr>r_lane := Some lane\<rparr>))"

definition CLASSIFIED :: "string set" where
  "CLASSIFIED = {''NO_DIVERGENCE'', ''NEEDS_REVIEW'', ''REJECTED_OOS''}"

lemma gap_reportI [simp]:
  "gap_report T v lane w (annotate T lane key feature ((rep v w)\<lparr>r_lane := Some lane\<rparr>))"
  unfolding gap_report_def by blast

lemma classified [simp]:
  "''NO_DIVERGENCE'' \<in> CLASSIFIED" "''NEEDS_REVIEW'' \<in> CLASSIFIED" "''REJECTED_OOS'' \<in> CLASSIFIED"
  "''COVERAGE_GAP'' \<notin> CLASSIFIED" "''SOUNDNESS_GAP'' \<notin> CLASSIFIED" "''INVALID'' \<notin> CLASSIFIED"
  by (simp_all add: CLASSIFIED_def)

lemma classified_non_qualifying: "verdict_in CLASSIFIED r \<Longrightarrow> verdict_in NON_QUALIFYING r"
  by (erule verdict_in_mono) (auto simp: CLASSIFIED_def NON_QUALIFYING_def)

text \<open>The observable Lean printed and the one decoded from the measurement differ.\<close>

definition observables_differ ::
  "nat \<Rightarrow> tools \<Rightarrow> string option \<Rightarrow> measurement \<Rightarrow> esig \<Rightarrow> utext \<Rightarrow> component \<Rightarrow> bool" where
  "observables_differ d T v m s raw cc \<longleftrightarrow>
     (\<exists>defs evm. revert_errors d T v m raw = go defs
        \<and> decode_measured d (struct_definitions (entry_ast T)) s m defs = go evm
        \<and> cmp_component (compare_observables
             (canonicalize_raw_revert (struct_definitions (entry_ast T)) d defs raw)
             (canonicalize_raw_revert (struct_definitions (entry_ast T)) d defs evm)) = Some cc)"

lemma classify_over:
  assumes "classify_over_accept T claim sl = r"
  shows "verdict_in CLASSIFIED r \<or> lr_ok sl \<and> gap_report T ''SOUNDNESS_GAP'' ''S'' OverAccepted r"
  unfolding assms [symmetric] classify_over_accept_def Let_def by (cases "lr_ok sl") simp_all

text \<open>A failure of solidity-lean that counts as a clean reject.\<close>

definition clean_reject :: "lean_result \<Rightarrow> bool" where
  "clean_reject sl \<longleftrightarrow>
     lr_fail_closed sl \<and> \<not> lr_inconclusive sl
     \<and> \<not> (lr_stage sl = ''run'' \<and> is_executable_failure (lr_message sl))
     \<and> fst (snd (coverage_fingerprint sl)) \<noteq> ''excluded''"

lemma classify_closed:
  assumes "classify_fail_closed T sl = r"
  shows "verdict_in CLASSIFIED r
    \<or> \<not> lr_inconclusive sl \<and> \<not> (lr_stage sl = ''run'' \<and> is_executable_failure (lr_message sl))
      \<and> fst (snd (coverage_fingerprint sl)) \<noteq> ''excluded''
      \<and> gap_report T ''COVERAGE_GAP'' ''C''
          (FailsClosed (lr_stage sl) (fst (snd (coverage_fingerprint sl)))) r"
  unfolding assms [symmetric] classify_fail_closed_def Let_def
  by (auto split: prod.split if_split)

lemma compare_go:
  assumes "compare_stage d T v claim sig measured sl = go r"
  obtains m s raw where
    "measured = Some m" "sig = Some s" "lr_observable sl = Some raw"
    "verdict_in CLASSIFIED r
      \<or> (\<exists>cc. observables_differ d T v m s raw cc \<and> gap_report T ''SOUNDNESS_GAP'' ''S'' (Differs cc) r)"
proof -
  from assms obtain m s where ms: "measured = Some m" "sig = Some s"
    by (auto simp: compare_stage_def split: option.splits)
  from assms [unfolded compare_stage_def ms Let_def] obtain raw where
    raw: "lr_observable sl = Some raw"
    and "verdict_in CLASSIFIED r
      \<or> (\<exists>cc. observables_differ d T v m s raw cc \<and> gap_report T ''SOUNDNESS_GAP'' ''S'' (Differs cc) r)"
    by (auto simp: step_iffs observables_differ_def split: option.splits)
  with ms show ?thesis by (intro that) auto
qed

text \<open>What a qualifying report rests on, by its lane.\<close>

lemma classify_go:
  assumes "classify d T v over claim sig measured sl = go r"
  shows "verdict_in CLASSIFIED r
    \<or> (\<exists>stage reason. \<not> over \<and> clean_reject sl \<and> gap_report T ''COVERAGE_GAP'' ''C'' (FailsClosed stage reason) r)
    \<or> (over \<and> lr_ok sl \<and> gap_report T ''SOUNDNESS_GAP'' ''S'' OverAccepted r)
    \<or> (\<not> over \<and> \<not> lr_fail_closed sl
       \<and> (\<exists>cc. gap_report T ''SOUNDNESS_GAP'' ''S'' (Differs cc) r))"
proof (cases "over \<or> lr_fail_closed sl")
  case True
  with assms classify_over [of T claim sl r] classify_closed [of T sl r] show ?thesis
    by (auto simp: classify_def clean_reject_def split: if_splits)
next
  case False
  with assms have "compare_stage d T v claim sig measured sl = go r" by (simp add: classify_def)
  from compare_go [OF this] False show ?thesis by metis
qed

section \<open>What solidity-lean answered\<close>

definition printed_observable :: "capture \<Rightarrow> utext \<Rightarrow> bool" where
  "printed_observable c raw \<longleftrightarrow>
     (\<exists>status out err. c = Exit status out err \<and> marker_lines out \<noteq> []
        \<and> raw = parse_observable (payload_of (last (marker_lines out))))"

lemma read_lean_cases:
  assumes "read_lean_run t c = Inr sl"
  shows "lr_fail_closed sl \<and> lr_inconclusive sl \<and> \<not> lr_ok sl
    \<or> (\<exists>raw. printed_observable c raw \<and> lr_observable sl = Some raw \<and> lr_stage sl = ''run''
        \<and> \<not> lr_inconclusive sl \<and> lr_fail_closed sl = is_solidity_lean_reject raw
        \<and> lr_ok sl = (\<not> is_solidity_lean_reject raw))"
proof (cases c)
  case (Exit status out err)
  then show ?thesis
    using assms by (auto simp: read_lean_run_def Let_def printed_observable_def fail_closed_at_def
        lean_failure_inconclusive_def split: if_splits)
qed (use assms in \<open>auto simp: read_lean_run_def fail_closed_at_def\<close>)

lemma run_lean_cases:
  assumes "run_lean d T sig k = Inr sl"
  shows "lr_fail_closed sl \<and> lr_inconclusive sl \<and> \<not> lr_ok sl
    \<or> (\<exists>status. run_solc_import (o_timeout T) (o_import T) = Inr (False, status, [])
        \<and> lr_stage sl = ''import'' \<and> lr_fail_closed sl \<and> \<not> lr_ok sl)
    \<or> (\<exists>file raw. printed_observable (o_lean T file) raw \<and> lr_observable sl = Some raw
        \<and> lr_stage sl = ''run'' \<and> lr_fail_closed sl = is_solidity_lean_reject raw
        \<and> lr_ok sl = (\<not> is_solidity_lean_reject raw))"
proof -
  from assms obtain ok status generated where
    i: "run_solc_import (o_timeout T) (o_import T) = Inr (ok, status, generated)"
    by (auto simp: run_lean_def run_solidity_lean_def bindR_eq_Inr)
  show ?thesis
  proof (cases ok)
    case False
    with i have "generated = []" by (auto simp: run_solc_import_def split: capture.splits if_splits)
    with assms i False show ?thesis
      by (auto simp: run_lean_def run_solidity_lean_def fail_closed_at_def)
  next
    case True
    with assms i obtain f where "read_lean_run (o_timeout T) (o_lean T f) = Inr sl"
      by (auto simp: run_lean_def run_solidity_lean_def bindR_eq_Inr)
    from read_lean_cases [OF this] show ?thesis by blast
  qed
qed

lemma stages_gate:
  assumes "passes_stages d T st claim sig k measured e1" "\<not> over_accept_claim claim"
  obtains asts where "o_asts T = Val asts"
    "is_pass (run_gate_on_asts asts True (Some (effective_version (s_at_version st))))"
    "c_banned (scan_src_cheatcodes asts) = []"
    "c_banned (scan_test_cheatcodes (multi_source_asts (o_test_files T) (o_test_output T))) = []"
proof -
  from assms(2) obtain asts where a: "o_asts T = Val asts"
    using assms(1) by (cases "o_asts T")
      (auto simp: passes_stages_def Let_def cheat_stage_def scan_asts_def step_iffs split: option.splits)
  from assms have g: "gate_stage T (s_at_version st) False (jobj (jget claim ''entry'')) = go ()"
    and c: "cheat_stage T False (truthy (jget claim ''_manifest'')) (s_env_override st)
         (jobj (jget claim ''entry'')) = go (k_env k)"
    by (auto simp: passes_stages_def Let_def)
  from g a have "is_pass (run_gate_on_asts asts True (Some (effective_version (s_at_version st))))"
    by (auto simp: gate_stage_def gate_asts_def Let_def step_iffs)
  moreover from c a have "c_banned (scan_src_cheatcodes asts) = []
      \<and> c_banned (scan_test_cheatcodes (multi_source_asts (o_test_files T) (o_test_output T))) = []"
    by (auto simp: cheat_stage_def scan_asts_def Let_def step_iffs split: option.splits)
  ultimately show ?thesis using a by (intro that) auto
qed

text \<open>The EVM side of a run that is compared: the measurement comes from the output of the test.\<close>

lemma stages_measured:
  assumes "passes_stages d T st claim sig k (Some m) e1"
  obtains s calldata ctor raw where "sig = Some s" "\<not> over_accept_claim claim"
    "build_calldata (struct_definitions (entry_ast T)) d (es_selector s) (k_args k) (Some (es_params s))
       = Inr calldata"
    "o_measure T (harness_source (es_contract s) calldata (o_out_path T) (k_env k)
       (''../src/'' @ o_entry_file T) ctor (k_inject k)) = Some raw"
    "parse_measurement (strip raw) = Some m" "e1 = with_self (k_env k) (ms_self m)"
proof -
  from assms have rb: "real_behaviour d T (s_at_version st) (over_accept_claim claim) (s_skip_forge st)
      (truthy (jget claim ''_manifest'')) claim sig k = go (Some m, e1)"
    by (simp add: passes_stages_def Let_def)
  then have no: "\<not> over_accept_claim claim"
    by (auto simp: real_behaviour_def step_iffs split: if_splits)
  with rb obtain s where s: "sig = Some s" "measure_stage d T (s_at_version st) s k = go (m, e1)"
    by (auto simp: real_behaviour_def step_iffs split: if_splits option.splits)
  then have me: "measure_evm (o_measure T) (o_out_path T) (o_entry_file T) (entry_ast T) d s (k_args k)
       (k_env k) (k_ctor_args k) (k_inject k) = Inr (Some m)" and e1: "e1 = with_self (k_env k) (ms_self m)"
    by (auto simp: measure_stage_def step_iffs split: option.splits)
  from me obtain calldata ctor raw where
    "build_calldata (struct_definitions (entry_ast T)) d (es_selector s) (k_args k) (Some (es_params s))
       = Inr calldata"
    "o_measure T (harness_source (es_contract s) calldata (o_out_path T) (k_env k)
       (''../src/'' @ o_entry_file T) (to_hex ctor) (k_inject k)) = Some raw"
    "parse_measurement (strip raw) = Some m"
    by (auto simp: measure_evm_def Let_def bindR_eq_Inr split: option.splits)
  with s no e1 show ?thesis by (intro that) auto
qed

section \<open>Properties\<close>

lemma gap_report_verdict:
  "gap_report T v lane w r \<Longrightarrow>
     r_verdict r = v \<and> r_lane r = Some lane \<and> r_why r = w \<and> r_key r \<noteq> None
     \<and> r_register_version r = REGISTER_VERSION"
  by (auto simp: gap_report_def)

lemma not_in_non_qualifying [simp]:
  "''COVERAGE_GAP'' \<notin> NON_QUALIFYING" "''SOUNDNESS_GAP'' \<notin> NON_QUALIFYING"
  by (simp_all add: NON_QUALIFYING_def)

lemma verdict_inD: "verdict_in vs r \<Longrightarrow> r_verdict r \<in> vs"
  by (auto simp: verdict_in_def)

lemma qualifying_run:
  assumes "adjudicate d T st fs = Inr r" "r_verdict r \<notin> NON_QUALIFYING"
  obtains claim sig k measured e1 sl where "load_submission fs = go claim"
    "passes_stages d T st claim sig k measured e1" "run_lean d T sig (k\<lparr>k_env := e1\<rparr>) = Inr sl"
    "classify d T (s_at_version st) (over_accept_claim claim) claim sig measured sl = go r"
proof (cases rule: adjudicate_cases [OF assms(1)])
  case 1
  with assms(2) show ?thesis by (auto dest: verdict_inD)
next
  case (2 claim)
  from pipeline_go [OF 2(2)] 2(1) that show ?thesis by metis
qed

text \<open>C4: an adjudication that ends returns one of seven verdicts; the report has a lane and a
  fingerprint exactly when the verdict qualifies, the lane is that of the verdict, only a
  qualifying report can be marked as a duplicate, and the register version is the current one.\<close>

theorem report_wellformed:
  assumes "adjudicate d T st fs = Inr r"
  shows "r_verdict r \<in> NON_QUALIFYING \<union> {''COVERAGE_GAP'', ''SOUNDNESS_GAP''}
    \<and> (r_lane r = (if r_verdict r = ''COVERAGE_GAP'' then Some ''C''
                  else if r_verdict r = ''SOUNDNESS_GAP'' then Some ''S'' else None))
    \<and> (r_key r \<noteq> None \<longleftrightarrow> qualifies r) \<and> (\<not> qualifies r \<longrightarrow> r_duplicate_of r = None)
    \<and> r_register_version r = REGISTER_VERSION"
proof -
  consider "verdict_in NON_QUALIFYING r" | w where "gap_report T ''COVERAGE_GAP'' ''C'' w r"
    | w where "gap_report T ''SOUNDNESS_GAP'' ''S'' w r"
    using adjudicate_cases [OF assms] pipeline_go classify_go classified_non_qualifying by metis
  then show ?thesis
  proof cases
    case 1
    then obtain v w where "r = rep v w" "v \<in> NON_QUALIFYING" by (auto simp: verdict_in_def)
    then show ?thesis by (auto simp: qualifies_def)
  qed (auto simp: qualifies_def dest!: gap_report_verdict)
qed


lemma solc_rejected:
  assumes "passes_stages d T st claim sig k measured e1" "over_accept_claim claim"
  shows "\<exists>code status. run_solc_rejects_source (o_timeout T) code (o_solc T) = Inr (True, status)"
proof -
  from assms have "solc_reject_stage T claim = go ()"
    by (auto simp: passes_stages_def Let_def real_behaviour_def step_iffs)
  then show ?thesis
    by (auto simp: solc_reject_stage_def Let_def step_iffs split: if_splits)
qed

text \<open>C2: a soundness gap rests either on an over-accept claim which solc rejects and solidity-lean
  runs, or on two observables that differ: the one Lean printed and the one decoded from the
  output of the measurement, both in canonical form; the claim's own declared observable is
  no part of it.\<close>

theorem soundness_gap_justified:
  assumes "adjudicate d T st fs = Inr r" "r_verdict r = ''SOUNDNESS_GAP''"
  shows "\<exists>claim sig k measured e1 sl.
    load_submission fs = go claim \<and> passes_stages d T st claim sig k measured e1
    \<and> run_lean d T sig (k\<lparr>k_env := e1\<rparr>) = Inr sl \<and> \<not> lr_fail_closed sl
    \<and> (if over_accept_claim claim
       then lr_ok sl \<and> (\<exists>code status. run_solc_rejects_source (o_timeout T) code (o_solc T) = Inr (True, status))
       else \<exists>m s f raw cc. measured = Some m \<and> sig = Some s
         \<and> printed_observable (o_lean T f) raw \<and> \<not> is_solidity_lean_reject raw
         \<and> observables_differ d T (s_at_version st) m s raw cc)"
proof -
  from assms(2) have nq: "r_verdict r \<notin> NON_QUALIFYING" by simp
  from qualifying_run [OF assms(1) nq] obtain claim sig k measured e1 sl where
    l: "load_submission fs = go claim" and p: "passes_stages d T st claim sig k measured e1"
    and rl: "run_lean d T sig (k\<lparr>k_env := e1\<rparr>) = Inr sl"
    and c: "classify d T (s_at_version st) (over_accept_claim claim) claim sig measured sl = go r" .
  have ok: "over_accept_claim claim \<longrightarrow> lr_ok sl" "\<not> lr_fail_closed sl"
    using classify_go [OF c] assms(2) run_lean_cases [OF rl] by (auto dest!: verdict_inD gap_report_verdict)
  show ?thesis
  proof (cases "over_accept_claim claim")
    case True
    with l p rl ok solc_rejected [OF p True] show ?thesis
      by (intro exI [of _ claim] exI [of _ sig] exI [of _ k] exI [of _ measured] exI [of _ e1]
          exI [of _ sl]) simp
  next
    case False
    with c ok have cs: "compare_stage d T (s_at_version st) claim sig measured sl = go r"
      by (simp add: classify_def)
    from compare_go [OF this] obtain m s raw where
      m: "measured = Some m" "sig = Some s" "lr_observable sl = Some raw"
      and v: "verdict_in CLASSIFIED r
      \<or> (\<exists>cc. observables_differ d T (s_at_version st) m s raw cc
            \<and> gap_report T ''SOUNDNESS_GAP'' ''S'' (Differs cc) r)" .
    from v assms(2) obtain cc where "observables_differ d T (s_at_version st) m s raw cc"
      by (auto dest: verdict_inD)
    moreover from run_lean_cases [OF rl] ok m(3) obtain f where
      "printed_observable (o_lean T f) raw" "\<not> is_solidity_lean_reject raw" by auto
    ultimately have "\<exists>m s f raw cc. measured = Some m \<and> sig = Some s
         \<and> printed_observable (o_lean T f) raw \<and> \<not> is_solidity_lean_reject raw
         \<and> observables_differ d T (s_at_version st) m s raw cc"
      using m by blast
    with False l p rl ok show ?thesis
      by (intro exI [of _ claim] exI [of _ sig] exI [of _ k] exI [of _ measured] exI [of _ e1]
          exI [of _ sl]) simp
  qed
qed

text \<open>C3: when the EVM side was measured, both engines run the same call: the harness sends the
  calldata the Lean context carries, with the same arguments and injected storage, and the
  environment of the Lean run is that of the harness with the deployed address as \<open>self\<close>.\<close>

theorem engines_share_call:
  assumes "passes_stages d T st claim sig k (Some m) e1"
  shows "\<exists>s calldata ctor raw. sig = Some s
    \<and> o_measure T (harness_source (es_contract s) calldata (o_out_path T) (k_env k)
         (''../src/'' @ o_entry_file T) ctor (k_inject k)) = Some raw
    \<and> parse_measurement (strip raw) = Some m
    \<and> build_calldata (struct_definitions (entry_ast T)) d (es_selector s) (k_args k)
         (Some (es_params s)) = Inr calldata
    \<and> lc_calldata (lean_call_of d T sig (k\<lparr>k_env := e1\<rparr>)) = Some calldata
    \<and> lc_args (lean_call_of d T sig (k\<lparr>k_env := e1\<rparr>)) = k_args k
    \<and> lc_inject (lean_call_of d T sig (k\<lparr>k_env := e1\<rparr>)) = k_inject k
    \<and> e1 = (k_env k)\<lparr>e_self := Some (ms_self m)\<rparr>"
  by (rule stages_measured [OF assms])
    (auto simp: lean_call_of_def lean_calldata_def with_self_def)

text \<open>What an INVALID report rests on, as a property of the reports of a stage.\<close>

definition observed_invalid :: "tools \<Rightarrow> bool \<Rightarrow> report \<Rightarrow> bool" where
  "observed_invalid T over r \<longleftrightarrow>
     (r_verdict r = ''INVALID'' \<longrightarrow>
        (if over then (\<exists>status out err. o_solc T = Exit status out err)
         else (\<exists>status out err. o_forge T = Exit status out err \<and> status \<noteq> 0)))"

lemma observed_other: "stops_with (verdict_in vs) m \<Longrightarrow> ''INVALID'' \<notin> vs \<Longrightarrow> stops_with (observed_invalid T over) m"
  by (erule stops_mono) (auto simp: observed_invalid_def dest: verdict_inD)

lemma forge_observed: "stops_with (observed_invalid T False) (forge_stage T manifest)"
  by (auto simp: forge_stage_def run_forge_test_def observed_invalid_def timeout_status_def
      split: capture.splits)

lemma solc_observed: "stops_with (observed_invalid T True) (solc_reject_stage T claim)"
proof (cases "o_solc T")
  case (Exit status out err)
  then show ?thesis by (auto simp: stops_with_def observed_invalid_def)
qed (auto simp: solc_reject_stage_def run_solc_rejects_source_def Let_def observed_invalid_def timeout_status_def)

lemma behaviour_observed:
  "stops_with (observed_invalid T over) (real_behaviour d T v over skip manifest claim sig k)"
  unfolding real_behaviour_def
  by (auto intro!: stops_bind solc_observed forge_observed observed_other [OF measure_stops]
      simp: observed_invalid_def split: option.splits)

lemma pipeline_observed:
  "stops_with (observed_invalid T (over_accept_claim claim)) (pipeline d T st claim)"
  unfolding pipeline_def Let_def
  by (auto intro!: stops_bind behaviour_observed observed_other [OF claim_stops]
      observed_other [OF signature_stops] observed_other [OF cheat_stops]
      observed_other [OF gate_stops] observed_other [OF classify_stops] split: prod.splits)

text \<open>C5: INVALID is returned only after a tool has answered: Forge ended with a failing status, or,
  for an over-accept claim, solc ended. A timeout or a tool that could not be run never
  invalidates a claim.\<close>

theorem invalid_is_observed:
  assumes "adjudicate d T st fs = Inr r" "r_verdict r = ''INVALID''"
  shows "(\<exists>status out err. o_forge T = Exit status out err \<and> status \<noteq> 0)
    \<or> (\<exists>claim status out err. load_submission fs = go claim \<and> over_accept_claim claim
         \<and> o_solc T = Exit status out err)"
proof -
  from assms(1) consider "load_submission fs = stop r"
    | claim where "load_submission fs = go claim" "pipeline d T st claim = stop r"
    | claim where "load_submission fs = go claim" "pipeline d T st claim = go r"
    unfolding adjudicate_eq by (auto simp: step_iffs)
  then show ?thesis
  proof cases
    case 1
    from stops_withD [OF load_stops this] assms(2) show ?thesis by (auto dest: verdict_inD)
  next
    case (2 claim)
    from stops_withD [OF pipeline_observed 2(2)] assms(2) 2(1) show ?thesis
      by (auto simp: observed_invalid_def split: if_splits)
  next
    case (3 claim)
    obtain sig k measured e1 sl where
      "classify d T (s_at_version st) (over_accept_claim claim) claim sig measured sl = go r"
      by (rule pipeline_go [OF 3(2)])
    from classify_go [OF this] assms(2) show ?thesis
      by (auto dest!: gap_report_verdict verdict_inD)
  qed
qed

section \<open>Fields the verdict does not depend on\<close>

lemma dget_or_put [simp]: "dget_or (dput d k v) k' w = (if k = k' then v else dget_or d k' w)"
  by (simp add: dget_or_def)

lemma jget_put [simp]: "jget (dput d k v) k' = (if k = k' then v else jget d k')"
  by (simp add: jget_def)

lemma dhas_put [simp]: "dhas (dput d k v) k' \<longleftrightarrow> k = k' \<or> dhas d k'"
  by (simp add: dhas_def)

text \<open>The claim with another fuel, another register version and another declared lane note.\<close>

definition restated :: "node \<Rightarrow> json \<Rightarrow> json \<Rightarrow> node" where
  "restated claim fuel seen = dput (dput claim ''fuel'' fuel) ''register_version_seen'' seen"

lemma restated_get:
  "k \<noteq> ''fuel'' \<Longrightarrow> k \<noteq> ''register_version_seen'' \<Longrightarrow>
     jget (restated claim fuel seen) k = jget claim k
     \<and> dget_or (restated claim fuel seen) k v = dget_or claim k v
     \<and> dhas (restated claim fuel seen) k = dhas claim k"
  by (auto simp: restated_def)

lemma restated_over: "over_accept_claim (restated claim fuel seen) = over_accept_claim claim"
  by (simp add: over_accept_claim_def restated_def)

lemma restated_validate:
  assumes "valid_fuel (dget_or claim ''fuel'' (JInt 64)) = Inr (Some n)" "valid_fuel fuel = Inr (Some m)"
  shows "validate_claim (restated claim fuel seen) entry = validate_claim claim entry"
  using assms by (simp add: validate_claim_def restated_def)

lemma restated_behaviour:
  "real_behaviour d T v over skip manifest (restated claim fuel seen) sig k
    = real_behaviour d T v over skip manifest claim sig k"
  by (simp add: real_behaviour_def solc_reject_stage_def restated_def Let_def)

lemma restated_classify:
  "classify d T v over (restated claim fuel seen) sig m sl = classify d T v over claim sig m sl"
proof -
  have d: "declared_check (restated claim fuel seen) = declared_check claim"
    by (simp add: declared_check_def restated_def)
  have f: "dget_or (restated claim fuel seen) ''feature'' v = dget_or claim ''feature'' v" for v
    by (simp add: restated_def)
  show ?thesis
    unfolding classify_def classify_over_accept_def compare_stage_def d f ..
qed

lemma restated_pipeline:
  assumes "valid_fuel (dget_or claim ''fuel'' (JInt 64)) = Inr (Some n)" "valid_fuel fuel = Inr (Some m)"
  shows "pipeline d T st (restated claim fuel seen) = pipeline d T st claim"
proof -
  have e: "jget (restated claim fuel seen) k = jget claim k" if "k \<in> {''entry'', ''_manifest''}" for k
    using that by (auto simp: restated_def)
  show ?thesis
    unfolding pipeline_def restated_over restated_validate [OF assms] restated_behaviour
      restated_classify e [of "''entry''", simplified] e [of "''_manifest''", simplified] ..
qed

lemma restated_load:
  "load_submission (fs\<lparr>f_claim := Some (Some (JObj (restated claim fuel seen)))\<rparr>)
     = bindS (load_submission (fs\<lparr>f_claim := Some (Some (JObj claim))\<rparr>)) (\<lambda>c. go (restated claim fuel seen))"
proof -
  have "missing_key (restated claim fuel seen) [''lane'', ''entry''] = missing_key claim [''lane'', ''entry'']"
    by (simp add: missing_key_def restated_def)
  moreover have "jget (restated claim fuel seen) k = jget claim k"
    if "k \<in> {''entry'', ''lane'', ''_over_accept'', ''_manifest''}" for k
    using that by (auto simp: restated_def)
  ultimately show ?thesis
    by (auto simp: load_submission_def Let_def guard_def split: option.splits json.splits)
qed

lemma load_claim:
  "load_submission (fs\<lparr>f_claim := Some (Some (JObj claim))\<rparr>) = go c \<Longrightarrow> c = claim"
  by (auto simp: load_submission_def Let_def step_iffs split: option.splits json.splits)


section \<open>Time limits and crashes\<close>

lemma classify_closed_gap:
  assumes "\<not> lr_inconclusive sl" "lr_stage sl \<noteq> ''run''"
    "fst (snd (coverage_fingerprint sl)) \<noteq> ''excluded''"
  shows "r_verdict (classify_fail_closed T sl) = ''COVERAGE_GAP''"
  using assms by (cases "coverage_fingerprint sl") (simp add: classify_fail_closed_def)

lemma ascii_text_ulit: "ascii_text (ulit s) = s"
  by (simp add: ascii_text_def ulit_def cp_def comp_def)

lemma contains_chars: "contains p s \<Longrightarrow> set p \<subseteq> set s"
  by (auto simp: contains_iff)

text \<open>A time limit that strikes while Lean runs leads to a review; the same time limit while the
  importer runs is classified as a coverage gap, which qualifies.\<close>

theorem importer_timeout_qualifies:
  assumes "o_import T = Timeout []"
  shows "\<exists>sl. run_lean d T sig k = Inr sl \<and> qualifies (classify_fail_closed T sl)
    \<and> r_verdict (classify_fail_closed T sl) = ''COVERAGE_GAP''"
proof -
  let ?msg = "''importer timeout_after_'' @ show_int (o_timeout T) @ ''s: ''"
  let ?sl = "fail_closed_at ''import'' None (ulit ?msg) False"
  have "run_lean d T sig k = Inr ?sl"
    using assms by (simp add: run_lean_def run_solidity_lean_def run_solc_import_def timeout_status_def
        stderr_of_def tstrip_def strip_by_def)
  moreover have "CHR ''x'' \<notin> set ?msg"
    using show_int_chars [of "o_timeout T"] by auto
  then have "\<not> contains ''excluded'' (ascii_text (ulit ?msg))"
    using contains_chars [of "''excluded''" ?msg] unfolding ascii_text_ulit by auto
  then have "fst (snd (coverage_fingerprint ?sl)) \<noteq> ''excluded''"
    by (simp add: coverage_fingerprint_def fail_closed_at_def Let_def)
  then have "r_verdict (classify_fail_closed T ?sl) = ''COVERAGE_GAP''"
    by (intro classify_closed_gap) (simp_all add: fail_closed_at_def)
  ultimately show ?thesis by (auto simp: qualifies_def)
qed

lemma lean_timeout_reviewed:
  assumes "o_import T = Exit 0 out err" "run_lean d T sig k = Inr sl" "\<And>f. \<exists>e. o_lean T f = Timeout e"
  shows "r_verdict (classify_fail_closed T sl) = ''NEEDS_REVIEW''"
proof -
  from assms(1,2) obtain f where "read_lean_run (o_timeout T) (o_lean T f) = Inr sl"
    by (auto simp: run_lean_def run_solidity_lean_def run_solc_import_def bindR_eq_Inr)
  with assms(3) [of f] show ?thesis
    by (auto simp: read_lean_run_def fail_closed_at_def classify_fail_closed_def)
qed

text \<open>A declared observable that is a string, not an object, ends the comparison in an
  \<open>AttributeError\<close>, whatever the observables are.\<close>

lemma declared_type_crash:
  assumes "revert_errors d T v m (case lr_observable sl of Some r \<Rightarrow> r | None \<Rightarrow> []) = go defs"
    and "decode_measured d (struct_definitions (entry_ast T)) s m defs = go evm"
    and "jget claim ''declared_observable'' = JStr (c # cs)"
  shows "compare_stage d T v claim (Some s) (Some m) sl = Inl AttributeError"
proof -
  have "dget_or claim ''declared_observable'' (JObj []) = JStr (c # cs)"
    using assms(3) by (auto simp: jget_def dget_or_def split: option.splits)
  with assms show ?thesis
    by (simp add: compare_stage_def declared_check_def Let_def)
qed

end
