(* ===== verification/BridgeProps.thy ===== *)
theory BridgeProps
  imports Bridge
begin

text \<open>
  Properties of the harness bridge: what \<open>#eval\<close> prints is read back, and what is not.
\<close>

section \<open>Strings\<close>

lemma strip_by_idem: "strip_by P (strip_by P s) = strip_by P s"
proof -
  let ?t = "dropWhile P s"
  have r: "dropWhile P (rev (dropWhile P (rev ?t))) = rev (dropWhile P (rev ?t))"
  proof (cases "rev (dropWhile P (rev ?t))")
    case (Cons c cs)
    have "\<exists>zs. ?t = rev (dropWhile P (rev ?t)) @ zs"
      by (metis rev_append rev_rev_ident takeWhile_dropWhile_id)
    with Cons obtain zs where "?t = c # zs" by auto
    then have "\<not> P c" by (metis hd_dropWhile list.distinct(1) list.sel(1))
    then show ?thesis by (simp add: Cons)
  next
    case Nil
    show ?thesis unfolding Nil by (rule dropWhile.simps(1))
  qed
  show ?thesis by (simp add: strip_by_def r dropWhile_idem)
qed

lemma dropWhile_weaker: "(\<And>x. Q x \<Longrightarrow> P x) \<Longrightarrow> dropWhile P (dropWhile Q s) = dropWhile P s"
  by (induction s) auto

lemma strip_by_weaker: "(\<And>x. Q x \<Longrightarrow> P x) \<Longrightarrow> strip_by P (dropWhile Q s) = strip_by P s"
  by (simp add: strip_by_def dropWhile_weaker)

section \<open>Lean's escapes\<close>

text \<open>The escapes the bridge documents for \<open>Repr String\<close>; every other character stands for itself.\<close>

definition quote_char :: "nat \<Rightarrow> utext" where
  "quote_char n =
     (if n = 92 then [92, 92] else if n = 34 then [92, 34]
      else if n = 10 then [92, cp (CHR ''n'')] else if n = 9 then [92, cp (CHR ''t'')]
      else if n = 13 then [92, cp (CHR ''r'')] else [n])"

definition quote_text :: "utext \<Rightarrow> utext" where
  "quote_text t = concat (map quote_char t)"

lemma quote_simps [simp]: "quote_text [] = []" "quote_text (c # t) = quote_char c @ quote_text t"
  "quote_text (a @ b) = quote_text a @ quote_text b"
  by (simp_all add: quote_text_def)

lemma unescape_other: "c \<noteq> 92 \<Longrightarrow> unescape (c # s) = c # unescape s"
  by (cases s) simp_all

lemma unescape_simple:
  "simple_escape x = Some y \<Longrightarrow> x \<noteq> cp (CHR ''u'') \<Longrightarrow> unescape (92 # x # s) = y # unescape s"
  by simp

lemma simple_escapes:
  "simple_escape 92 = Some 92" "simple_escape 34 = Some 34" "simple_escape (cp (CHR ''n'')) = Some 10"
  "simple_escape (cp (CHR ''t'')) = Some 9" "simple_escape (cp (CHR ''r'')) = Some 13"
  "cp (CHR ''u'') = 117"
  by (simp_all add: simple_escape_def cp_def)

lemma unescape_quote_char: "unescape (quote_char c @ s) = c # unescape s"
proof -
  have "cp (CHR ''n'') \<noteq> cp (CHR ''u'')" "cp (CHR ''t'') \<noteq> cp (CHR ''u'')" "cp (CHR ''r'') \<noteq> cp (CHR ''u'')"
    by simp_all
  then show ?thesis
    unfolding quote_char_def
    by (auto simp: unescape_other simple_escapes simp del: cp_inj unescape.simps
        intro!: unescape_simple)
qed

lemma unescape_quote: "unescape (quote_text t) = t"
  by (induction t) (simp_all add: unescape_quote_char)

lemma unescape_plain: "92 \<notin> set s \<Longrightarrow> unescape s = s"
  by (induction s) (auto simp: unescape_other simp del: unescape.simps(2,3))

lemma unescape_repr: "unescape_lean_repr s = unescape s"
  by (simp add: unescape_lean_repr_def unescape_plain)

section \<open>Lines\<close>

lemma splitlines_last:
  assumes "\<forall>c \<in> set l. \<not> line_end c"
  shows "splitlines_from acc (l @ [10]) = [acc @ l]"
proof -
  have ten: "line_end 10" by (simp add: line_end_def)
  from assms show ?thesis
  proof (induction l arbitrary: acc)
    case (Cons c l)
    have c: "\<not> line_end c" "c \<noteq> 13" using Cons by (auto simp: line_end_def)
    obtain x xs where x: "l @ [10] = x # xs" by (cases l) auto
    have "splitlines_from acc ((c # l) @ [10]) = splitlines_from (acc @ [c]) (l @ [10])"
      using c by (simp add: x)
    with Cons show ?case by simp
  qed (simp add: ten)
qed

lemma splitlines_cut:
  assumes "\<forall>c \<in> set l. \<not> line_end c" "line_end b" "b \<noteq> 13" "r \<noteq> []"
  shows "splitlines_from acc (l @ b # r) = (acc @ l) # splitlines_from [] r"
  using assms(1)
proof (induction l arbitrary: acc)
  case Nil
  obtain x xs where "r = x # xs" using assms(4) by (cases r) auto
  with assms show ?case by simp
next
  case (Cons c l)
  have c: "\<not> line_end c" "c \<noteq> 13" using Cons by (auto simp: line_end_def)
  obtain x xs where x: "l @ b # r = x # xs" by (cases l) auto
  have "splitlines_from acc ((c # l) @ b # r) = splitlines_from (acc @ [c]) (l @ b # r)"
    using c by (simp add: x)
  with Cons show ?case by simp
qed

text \<open>The line \<open>#eval\<close> prints for an observable.\<close>

definition eval_output :: "utext \<Rightarrow> utext" where
  "eval_output raw = [34] @ quote_text (ulit OBSERVABLE_MARKER @ raw) @ [34, 10]"

definition one_line :: "utext \<Rightarrow> bool" where
  "one_line s \<longleftrightarrow> (\<forall>c \<in> set s. line_end c \<longrightarrow> c = 10 \<or> c = 13)"

lemma char_codes: "cp (CHR ''n'') = 110" "cp (CHR ''t'') = 116" "cp (CHR ''r'') = 114"
  by (simp_all add: cp_def)

lemma quote_no_line_end: "one_line s \<Longrightarrow> \<forall>c \<in> set (quote_text s). \<not> line_end c"
proof (induction s)
  case (Cons c s)
  have "\<not> line_end 92" "\<not> line_end 34" "\<not> line_end 110" "\<not> line_end 116" "\<not> line_end 114"
    by (simp_all add: line_end_def)
  moreover from Cons have "line_end c \<longrightarrow> c = 10 \<or> c = 13" by (simp add: one_line_def)
  ultimately have "\<forall>x \<in> set (quote_char c). \<not> line_end x"
    unfolding quote_char_def char_codes by (auto split: if_splits)
  with Cons show ?case by (auto simp: one_line_def)
qed simp

section \<open>Reading back\<close>

definition marker :: utext where
  "marker = ulit ''CONTEST_OBS''"

lemma marker_text: "ulit (strip OBSERVABLE_MARKER) = marker"
  by code_simp

lemma marker_codes: "marker = [67, 79, 78, 84, 69, 83, 84, 95, 79, 66, 83]"
  by code_simp

lemma quoted_marker: "quote_text (ulit OBSERVABLE_MARKER) = marker @ [32]"
  by code_simp

lemma eval_output_lines: "eval_output raw = (34 # marker @ 32 # quote_text raw @ [34]) @ [10]"
  by (simp add: eval_output_def quoted_marker)

lemma contains_marker: "contains marker (34 # marker @ r)"
  unfolding contains_iff by (metis append_Cons append_Nil)

lemma part_at_self: "part_at p (p @ r) = Some ([], r)" if "p \<noteq> []"
  using that by (cases p) simp_all

lemma part_marker: "part_at marker (34 # marker @ r) = Some ([34], r)"
  using part_at_self [of marker r] by (simp add: marker_codes)

lemma marker_line_end: "\<forall>c \<in> set marker. \<not> line_end c" "\<not> line_end 34" "\<not> line_end 32"
  by (simp_all add: marker_codes line_end_def)

lemma quote_spaces:
  "dropWhile space_cp (quote_text raw) = quote_text (dropWhile (\<lambda>c. space_cp c \<and> c \<notin> {9, 10, 13}) raw)"
proof (induction raw)
  case (Cons c raw)
  have s: "\<not> space_cp 92" "\<not> space_cp 34" by (simp_all add: space_cp_def)
  show ?case
  proof (cases "c \<in> {92, 34, 10, 9, 13}")
    case True
    with s show ?thesis by (auto simp: quote_char_def)
  next
    case False
    with Cons show ?thesis by (simp add: quote_char_def)
  qed
qed simp

lemma payload_line:
  assumes "part_at marker l = Some (a, 32 # quote_text raw @ [34])"
  shows "payload_of l = tstrip raw"
proof -
  have s: "space_cp 32" "\<not> space_cp 34" by (simp_all add: space_cp_def)
  let ?t = "dropWhile (\<lambda>c. space_cp c \<and> c \<notin> {9, 10, 13}) raw"
  have d: "dropWhile space_cp (32 # quote_text raw @ [34]) = quote_text ?t @ [34]"
  proof (cases "\<forall>x \<in> set (quote_text raw). space_cp x")
    case True
    then have "dropWhile space_cp (quote_text raw) = []" by simp
    with True s show ?thesis
      using quote_spaces [of raw] by (auto simp: dropWhile_append2)
  next
    case False
    then show ?thesis using s quote_spaces [of raw] by (auto simp: dropWhile_append1)
  qed
  have "tstrip (32 # quote_text raw @ [34]) = quote_text ?t @ [34]"
    unfolding tstrip_def strip_by_def d using s by simp
  moreover have "ends [34] (quote_text ?t @ [34])" by (simp add: ends_iff)
  moreover have "tstrip ?t = tstrip raw" unfolding tstrip_def by (rule strip_by_weaker) simp
  ultimately show ?thesis
    using assms by (simp add: payload_of_def marker_text Let_def unescape_repr unescape_quote)
qed

lemma marker_lines_eval:
  assumes "one_line raw"
  shows "marker_lines (eval_output raw) = [34 # marker @ 32 # quote_text raw @ [34]]"
proof -
  have "\<forall>c \<in> set (34 # marker @ 32 # quote_text raw @ [34]). \<not> line_end c"
    using marker_line_end quote_no_line_end [OF assms] by auto
  from splitlines_last [OF this, of "[]"]
  have sp: "splitlines (eval_output raw) = [34 # marker @ 32 # quote_text raw @ [34]]"
    unfolding eval_output_lines splitlines_def append_Nil .
  show ?thesis
    unfolding marker_lines_def marker_text sp by (simp only: filter.simps contains_marker if_True)
qed

definition lean_answer :: "utext \<Rightarrow> lean_result" where
  "lean_answer observed =
     (if is_solidity_lean_reject observed
      then fail_closed_at ''run'' (Some observed)
             (ulit ''solidity_lean fail-closed: '' @ reject_message observed) False
      else \<lparr>lr_ok = True, lr_stage = ''run'', lr_fail_closed = False, lr_observable = Some observed,
            lr_message = ''ran to completion'', lr_inconclusive = False\<rparr>)"

lemma read_marker_lines:
  assumes "marker_lines out = ls @ [l]"
  shows "read_lean_run t (Exit status out err) = Inr (lean_answer (parse_observable (payload_of l)))"
  using assms by (simp add: read_lean_run_def lean_answer_def Let_def)

lemma parse_tstrip: "parse_observable (tstrip s) = tstrip s"
  by (simp add: parse_observable_def tstrip_def strip_by_idem)

lemma read_eval_output:
  assumes "one_line raw"
  shows "read_lean_run t (Exit status (eval_output raw) err) = Inr (lean_answer (tstrip raw))"
  using read_marker_lines [of "eval_output raw" "[]"] marker_lines_eval [OF assms]
  by (simp add: payload_line [OF part_marker] parse_tstrip del: append.simps)

section \<open>Properties\<close>


text \<open>A text with a Unicode line separator, which Lean does not escape, is cut by
  \<open>splitlines\<close>: a revert reason that contains the marker after such a separator replaces the
  whole observable by one of the contract's choice.\<close>

theorem marker_forged:
  assumes "one_line a" "one_line b"
  shows "read_lean_run t (Exit status (eval_output (a @ [8232] @ ulit OBSERVABLE_MARKER @ b)) err)
    = Inr (lean_answer (tstrip b))"
proof -
  let ?l1 = "34 # marker @ 32 # quote_text a" and ?l2 = "marker @ 32 # quote_text b @ [34]"
  have out: "eval_output (a @ [8232] @ ulit OBSERVABLE_MARKER @ b) = ?l1 @ 8232 # (?l2 @ [10])"
    by (simp add: eval_output_lines quoted_marker quote_char_def)
  have 1: "\<forall>c \<in> set ?l1. \<not> line_end c" and 2: "\<forall>c \<in> set ?l2. \<not> line_end c"
    using marker_line_end quote_no_line_end [OF assms(1)] quote_no_line_end [OF assms(2)] by auto
  have "splitlines (eval_output (a @ [8232] @ ulit OBSERVABLE_MARKER @ b))
      = [] @ ?l1 # splitlines_from [] (?l2 @ [10])"
    unfolding out splitlines_def by (subst splitlines_cut [OF 1]) (simp_all add: line_end_def)
  then have "splitlines (eval_output (a @ [8232] @ ulit OBSERVABLE_MARKER @ b)) = [?l1, ?l2]"
    unfolding splitlines_last [OF 2, of "[]"] by simp
  moreover have "contains marker ?l1" "contains marker ?l2"
    unfolding contains_iff by (metis append_Cons append_Nil)+
  ultimately have "marker_lines (eval_output (a @ [8232] @ ulit OBSERVABLE_MARKER @ b)) = [?l1] @ [?l2]"
    unfolding marker_lines_def marker_text by (simp del: contains.simps append.simps)
  moreover have "payload_of ?l2 = tstrip b"
    by (rule payload_line, rule part_at_self) (simp add: marker_codes)
  ultimately show ?thesis
    using read_marker_lines by (simp add: parse_tstrip del: append.simps)
qed


theorem marker_forged_witness:
  "\<exists>sl. read_lean_run 400
      (Exit 0 (eval_output (ulit ''revert|error:'' @ [8232] @ ulit OBSERVABLE_MARKER @ ulit ''success|w:1'')) [])
      = Inr sl \<and> lr_observable sl = Some (tstrip (ulit ''success|w:1''))"
proof -
  have o: "one_line (ulit ''revert|error:'')" "one_line (ulit ''success|w:1'')"
    by (simp_all add: one_line_def line_end_def cp_def)
  from marker_forged [OF o, of 400 0 "[]"] show ?thesis
    by (auto simp: lean_answer_def fail_closed_at_def simp del: ulit_simps)
qed

section \<open>Gaps of the reading\<close>

text \<open>Lean prints a control character as a backslash, \<open>x\<close> and two digits: the escape is not undone.\<close>

lemma control_escape_lost: "unescape_lean_repr (ulit (CHR 0x5C # ''x01'')) = ulit ''x01''"
proof -
  have "unescape (92 # 120 # s) = 120 # unescape s" for s
    by (simp add: simple_escape_def cp_def)
  then show ?thesis
    by (simp add: unescape_repr cp_def unescape_other simple_escape_def)
qed

text \<open>The error code that pins a rejection is found wherever it stands in the output, in the source
  lines solc quotes too.\<close>

lemma error_code_anywhere:
  assumes "list_all digit_cp ds" "ds \<noteq> []"
  shows "ds \<in> set (error_codes (a @ ulit ''Error ('' @ ds @ ulit '')'' @ b))"
proof -
  have d: "\<not> digit_cp (cp (CHR '')''))" by (simp add: digit_cp_def cp_def)
  have "takeWhile digit_cp (ds @ ulit '')'' @ b) = ds" "dropWhile digit_cp (ds @ ulit '')'' @ b) = ulit '')'' @ b"
    using assms d by (auto simp: list_all_iff takeWhile_append2 dropWhile_append2)
  then have c: "error_code_at (ulit ''Error ('' @ ds @ ulit '')'' @ b) = Some ds"
    using assms(2) by (simp add: error_code_at_def)
  have "ds \<in> set (error_codes (c # cs))" if "error_code_at (c # cs) = Some ds" for c cs
    using that by simp
  moreover have "set (error_codes s) \<subseteq> set (error_codes (c # s))" for c s
    by (auto split: option.splits)
  ultimately show ?thesis using c by (induction a) (auto split: option.splits)
qed

lemma error_code_forged:
  assumes "list_all digit_cp (ulit code)" "code \<noteq> []" "status \<noteq> 0"
  shows "run_solc_rejects_source t (JStr code)
    (Exit status (a @ ulit ''Error ('' @ ulit code @ ulit '')'' @ b) [])
    = Inr (True, ulit (''reject_exit_'' @ show_int status))"
proof -
  have c: "ulit code \<noteq> []" using assms(2) by (cases code) simp_all
  have m: "ulit code \<in> set (error_codes (a @ ulit ''Error ('' @ ulit code @ ulit '')'' @ b))"
    by (rule error_code_anywhere [OF assms(1) c])
  then have "error_codes (a @ ulit ''Error ('' @ ulit code @ ulit '')'' @ b) \<noteq> []" by auto
  with m assms(2,3) show ?thesis
    by (simp add: run_solc_rejects_source_def error_diagnostic_def code_in_def Let_def del: ulit_simps)
qed

end
