(* ===== verification/AdjWitness.thy ===== *)
theory AdjWitness
  imports AdjProps GateProps BridgeProps
begin

text \<open>
  One concrete submission, a contract with an empty function, under different answers of the
  tools: the theorems of \<open>AdjProps\<close> applied to it.
\<close>

section \<open>The submission\<close>

definition no_params :: json where
  "no_params = tnode ''ParameterList'' [(''parameters'', JList [])]"

definition demo_ast :: json where
  "demo_ast = tnode ''SourceUnit'' [(''nodes'', JList [contract_ast 1 [] ''C''
     [tnode ''FunctionDefinition'' [(''name'', JStr ''f''), (''kind'', JStr ''function''),
        (''functionSelector'', JStr ''26121ff0''), (''parameters'', no_params),
        (''returnParameters'', no_params), (''body'', tnode ''Block'' [(''statements'', JList [])])]]])]"

definition demo_src :: source_ast where
  "demo_src = \<lparr>sa_source = ''C.sol'', sa_ast = demo_ast\<rparr>"

definition demo_entry :: node where
  "demo_entry = [(''contract'', JStr ''C''), (''function'', JStr ''f'')]"

definition demo_claim :: node where
  "demo_claim = [(''lane'', JStr ''C''), (''entry'', JObj demo_entry)]"

definition demo_files :: files where
  "demo_files = \<lparr>f_is_dir = True, f_claim = Some (Some (JObj demo_claim)), f_sources = 1,
     f_has_test = True\<rparr>"

definition demo_tools :: "capture \<Rightarrow> capture \<Rightarrow> capture \<Rightarrow> tools" where
  "demo_tools forge imp lean =
     \<lparr>o_timeout = 400, o_root_name = ''demo'', o_entry_ast = Val demo_ast, o_entry_file = ''C.sol'',
      o_asts = Val [demo_src], o_parse_asts = None, o_contract_asts = [Some demo_ast],
      o_test_files = [], o_test_output = None, o_solc = Exit 0 [] [], o_forge = forge,
      o_out_path = ''/tmp/out'', o_measure = (\<lambda>_. Some ''ok|0x|self=0x1|origin=0x2|evt=|sto=''),
      o_helper = [], o_compiled_helper = True, o_import = imp, o_lean = (\<lambda>_. lean),
      o_sha = (\<lambda>s. s), o_stored = []\<rparr>"

definition demo_settings :: settings where
  "demo_settings = \<lparr>s_at_version = None, s_skip_forge = False, s_env_override = None, s_inject = []\<rparr>"

definition demo_sig :: esig where
  "demo_sig = \<lparr>es_selector = ''26121ff0'', es_params = [], es_returns = [], es_contract = ''C'',
     es_overloads = 1\<rparr>"

definition demo_call :: call where
  "demo_call = \<lparr>k_contract = ''C'', k_function = ''f'', k_args = [], k_ctor_args = [], k_slots = [],
     k_inject = [], k_env = env_default\<lparr>e_value := 0\<rparr>\<rparr>"

definition demo_measured :: measurement where
  "demo_measured = \<lparr>ms_ok = True, ms_ret_hex = ''0x'', ms_self = 1, ms_origin = 2, ms_events = [],
     ms_storage = [], ms_deploy_reverted = False\<rparr>"

definition demo_env :: env where
  "demo_env = with_self (k_env demo_call) 1"

lemmas demo_defs = demo_claim_def demo_files_def demo_entry_def demo_tools_def demo_settings_def

lemma demo_get:
  "jget demo_claim ''entry'' = JObj demo_entry" "jget demo_claim ''lane'' = JStr ''C''"
  "truthy (jget demo_claim ''_manifest'') = False" "over_accept_claim demo_claim = False"
  "jget demo_entry ''contract'' = JStr ''C''" "jget demo_entry ''function'' = JStr ''f''"
  by code_simp+

lemma demo_load: "load_submission demo_files = go demo_claim"
  by code_simp

lemma demo_validate: "validate_claim demo_claim demo_entry = go ([], [], [])"
  by code_simp

lemma demo_ast_facts:
  "entry_signature demo_ast ''C'' ''f'' = Some demo_sig"
  "constructor_param_types (Some demo_ast) ''C'' = []" "struct_definitions (Some demo_ast) = []"
  "error_definitions (Some demo_ast) = ([], [])"
  by code_simp+

lemma demo_signature:
  "validate_signature d (demo_tools forge imp lean) None demo_entry [] [] = go demo_sig"
proof -
  have "filterR f [] = Inr []" for f :: "string \<Rightarrow> bool res" by (simp add: filterR_def)
  then have bad: "bad_param_types d S row ext [] = Inr []" for S row ext
    by (simp add: bad_param_types_def split: option.splits)
  have sig: "es_params demo_sig = []" "es_overloads demo_sig = 1" by (simp_all add: demo_sig_def)
  show ?thesis
    unfolding validate_signature_def Let_def demo_get
    by (simp add: demo_tools_def demo_ast_facts bad sig)
qed

lemma demo_scan:
  "c_banned (scan_src_cheatcodes [demo_src]) = []"
  "scan_test_cheatcodes (multi_source_asts [] None) =
     \<lparr>c_banned = [], c_unmirrorable = [], c_overrides = env_default\<rparr>"
  by code_simp+

lemma demo_cheat:
  "cheat_stage (demo_tools forge imp lean) False False None demo_entry = go (k_env demo_call)"
proof -
  have "valid_value (dget_or demo_entry ''value'' (JInt 0)) = Some 0" by code_simp
  with demo_scan show ?thesis
    by (simp add: cheat_stage_def scan_asts_def demo_tools_def demo_call_def Let_def)
qed

lemma demo_parse: "parse_measurement (strip ''ok|0x|self=0x1|origin=0x2|evt=|sto='') = Some demo_measured"
  by code_simp

lemma channel_scope_none: "channel_scope d S v [] = Inr None"
  by (simp add: channel_scope_def filterR_def Let_def split: option.splits)

lemma demo_behaviour:
  "real_behaviour d (demo_tools (Exit 0 [] []) imp lean) None False False False demo_claim (Some demo_sig)
     demo_call = go (Some demo_measured, demo_env)"
proof -
  have c: "build_calldata [] d (es_selector demo_sig) [] (Some (es_params demo_sig)) = Inr ''26121ff0''"
    "encode_args_abi [] d [] (Some []) = Inr []"
    by (simp_all add: build_calldata_def encode_args_abi_def demo_sig_def pack_def to_hex_def)
  have m: "measure_evm (\<lambda>_. Some ''ok|0x|self=0x1|origin=0x2|evt=|sto='') out nm (Some demo_ast) d demo_sig
      [] e [] [] = Inr (Some demo_measured)" for out nm e
    using c demo_parse by (simp add: measure_evm_def demo_ast_facts demo_sig_def)
  have es: "es_returns demo_sig = []" by (simp add: demo_sig_def)
  have k: "k_args demo_call = []" "k_ctor_args demo_call = []" "k_inject demo_call = []"
    "with_self (k_env demo_call) (ms_self demo_measured) = demo_env"
    by (simp_all add: demo_call_def demo_env_def demo_measured_def)
  show ?thesis
    unfolding real_behaviour_def forge_stage_def run_forge_test_def measure_stage_def
    by (simp add: demo_tools_def entry_ast_def channel_scope_none es m k)
qed

lemma demo_gate_pass: "is_pass (run_gate_on_asts [demo_src] True None)"
proof -
  have "\<forall>s \<in> set [demo_src]. live_silent s" "length (deployable [demo_src]) \<le> 1"
    unfolding list_all_iff [symmetric] by code_simp+
  then show ?thesis unfolding gate_pass_live by blast
qed

lemma demo_gate: "gate_stage (demo_tools forge imp lean) None False demo_entry = go ()"
proof -
  from demo_gate_pass have "is_pass (run_gate_on_asts [demo_src] True (Some (effective_version None)))"
    by (simp add: run_gate_pass run_gate_hits effective_version_def)
  moreover have "contract_found [Some demo_ast] (JStr ''C'')" by code_simp
  ultimately show ?thesis
    by (simp add: gate_stage_def gate_asts_def demo_tools_def demo_get)
qed

lemma demo_stages:
  "passes_stages d (demo_tools (Exit 0 [] []) imp lean) demo_settings demo_claim (Some demo_sig)
     demo_call (Some demo_measured) demo_env"
  unfolding passes_stages_def Let_def demo_get
  using demo_validate demo_signature demo_cheat demo_behaviour demo_gate
  by (simp add: demo_settings_def demo_call_def demo_get)

lemma pipeline_stages:
  assumes "passes_stages d T st claim sig k measured e1"
  shows "pipeline d T st claim = bindS (lift (run_lean d T sig (k\<lparr>k_env := e1\<rparr>)))
    (classify d T (s_at_version st) (over_accept_claim claim) claim sig measured)"
proof -
  obtain c f a ca ss i e where k: "k = \<lparr>k_contract = c, k_function = f, k_args = a, k_ctor_args = ca,
      k_slots = ss, k_inject = i, k_env = e\<rparr>" by (cases k)
  from assms show ?thesis
    unfolding pipeline_def passes_stages_def Let_def k by (auto split: if_splits)
qed

lemma demo_adjudicate:
  assumes "run_lean d (demo_tools (Exit 0 [] []) imp lean) (Some demo_sig) (demo_call\<lparr>k_env := demo_env\<rparr>) = Inr sl"
    and "classify d (demo_tools (Exit 0 [] []) imp lean) None False demo_claim (Some demo_sig)
      (Some demo_measured) sl = go r"
  shows "adjudicate d (demo_tools (Exit 0 [] []) imp lean) demo_settings demo_files = Inr r"
proof -
  have "pipeline d (demo_tools (Exit 0 [] []) imp lean) demo_settings demo_claim = go r"
    unfolding pipeline_stages [OF demo_stages] using assms by (simp add: demo_get demo_settings_def)
  then show ?thesis unfolding adjudicate_eq demo_load by simp
qed

text \<open>The importer reports a node it does not implement.\<close>

definition reject_tools :: tools where
  "reject_tools = demo_tools (Exit 0 [] []) (Exit 1 [] (ulit ''unimplemented nodes present: Foo'')) (Timeout [])"

definition reject_result :: lean_result where
  "reject_result = fail_closed_at ''import'' None
     (ulit ''importer exit_1: unimplemented nodes present: Foo'') False"

lemma reject_run: "run_lean d reject_tools sig k = Inr reject_result"
proof -
  have "run_solc_import 400 (Exit 1 [] (ulit ''unimplemented nodes present: Foo''))
      = Inr (False, ulit ''exit_1'', [])" by code_simp
  moreover have "fail_closed_at ''import'' None (ulit ''importer '' @ ulit ''exit_1'' @ ulit '': '' @
      take 2000 (tstrip (stderr_of (Exit 1 [] (ulit ''unimplemented nodes present: Foo''))))) False
      = reject_result" by code_simp
  ultimately show ?thesis
    unfolding run_lean_def run_solidity_lean_def reject_tools_def demo_tools_def by (simp del: ulit_simps)
qed

lemma reject_adjudicate:
  "\<exists>r. adjudicate d reject_tools demo_settings demo_files = Inr r \<and> r_verdict r = ''COVERAGE_GAP''"
proof -
  have "r_verdict (classify_fail_closed reject_tools reject_result) = ''COVERAGE_GAP''"
    by (intro classify_closed_gap) code_simp+
  moreover have "classify d reject_tools None False demo_claim (Some demo_sig) (Some demo_measured) reject_result
      = go (classify_fail_closed reject_tools reject_result)"
    by (simp add: classify_def reject_result_def fail_closed_at_def)
  ultimately show ?thesis
    using demo_adjudicate [OF reject_run [unfolded reject_tools_def]] unfolding reject_tools_def by blast
qed


theorem report_wellformed_witness:
  "\<exists>r. adjudicate 1 reject_tools demo_settings demo_files = Inr r \<and> r_lane r = Some ''C''"
proof -
  obtain r where r: "adjudicate 1 reject_tools demo_settings demo_files = Inr r" "r_verdict r = ''COVERAGE_GAP''"
    using reject_adjudicate by blast
  from report_wellformed [OF r(1)] r show ?thesis by auto
qed

theorem engines_share_call_witness:
  "lc_calldata (lean_call_of 1 reject_tools (Some demo_sig) (demo_call\<lparr>k_env := demo_env\<rparr>)) \<noteq> None"
proof -
  have "passes_stages 1 reject_tools demo_settings demo_claim (Some demo_sig) demo_call (Some demo_measured) demo_env"
    unfolding reject_tools_def by (rule demo_stages)
  from engines_share_call [OF this] show ?thesis by auto
qed

theorem importer_timeout_qualifies_witness:
  "\<exists>sl. run_lean 1 (demo_tools (Exit 0 [] []) (Timeout []) (Timeout [])) (Some demo_sig) demo_call = Inr sl
     \<and> qualifies (classify_fail_closed (demo_tools (Exit 0 [] []) (Timeout []) (Timeout [])) sl)"
proof -
  have "o_import (demo_tools (Exit 0 [] []) (Timeout []) (Timeout [])) = Timeout []"
    by (simp add: demo_tools_def)
  from importer_timeout_qualifies [OF this] show ?thesis by blast
qed


text \<open>The submitter's test fails.\<close>

theorem invalid_is_observed_witness:
  "\<exists>status out err. o_forge (demo_tools (Exit 1 [] []) (Timeout []) (Timeout [])) = Exit status out err
     \<and> status \<noteq> 0"
proof -
  let ?T = "demo_tools (Exit 1 [] []) (Timeout []) (Timeout [])"
  have "forge_stage ?T False = stop (rep ''INVALID'' NotReproduced)" by code_simp
  then have "real_behaviour 1 ?T None False False False demo_claim (Some demo_sig) demo_call
      = stop (rep ''INVALID'' NotReproduced)"
    by (simp add: real_behaviour_def)
  then have "pipeline 1 ?T demo_settings demo_claim = stop (rep ''INVALID'' NotReproduced)"
    unfolding pipeline_def Let_def using demo_get demo_validate demo_signature demo_cheat
    by (simp add: demo_settings_def demo_call_def)
  then have "adjudicate 1 ?T demo_settings demo_files = Inr (rep ''INVALID'' NotReproduced)"
    unfolding adjudicate_eq demo_load by simp
  from invalid_is_observed [OF this] show ?thesis using demo_load demo_get(4) by auto
qed

text \<open>solidity-lean reverts where the EVM succeeds.\<close>

definition differ_out :: utext where
  "differ_out = eval_output (ulit ''revert|raw:0x'')"

definition differ_tools :: tools where
  "differ_tools = demo_tools (Exit 0 [] []) (Exit 0 [] []) (Exit 0 differ_out [])"

definition differ_result :: lean_result where
  "differ_result = \<lparr>lr_ok = True, lr_stage = ''run'', lr_fail_closed = False,
     lr_observable = Some (ulit ''revert|raw:0x''), lr_message = ''ran to completion'',
     lr_inconclusive = False\<rparr>"

lemma eval_line_total:
  assumes "from_hex h = Some bs"
  shows "\<exists>line. lean_eval_line ns c fuel f a e sl ca ij (Some h) = Inr line"
  using assms by (simp add: lean_eval_line_def entry_overrides_def Let_def)

lemma differ_run: "run_lean 1 differ_tools (Some demo_sig) (demo_call\<lparr>k_env := demo_env\<rparr>) = Inr differ_result"
proof -
  have i: "run_solc_import 400 (Exit 0 [] []) = Inr (True, ulit ''ok'', [])" by code_simp
  have c: "lean_calldata 1 differ_tools (Some demo_sig) [] = Some ''26121ff0''"
    by (simp add: lean_calldata_def differ_tools_def demo_tools_def entry_ast_def demo_ast_facts
        demo_sig_def build_calldata_def encode_args_abi_def pack_def to_hex_def)
  have h: "from_hex ''26121ff0'' = Some [0x26, 0x12, 0x1f, 0xf0]" by code_simp
  have r: "render_lean_args S n [] (Some []) = Inr ''[]''" for S n by (simp add: render_lean_args_def)
  have l: "\<exists>line. lean_eval_line ns c fuel f a e sl ca ij (Some ''26121ff0'') = Inr line" for ns c fuel f a e sl ca ij
    by (rule eval_line_total [OF h])
  have "one_line (ulit ''revert|raw:0x'')" by (simp add: one_line_def line_end_def cp_def)
  moreover have "lean_answer (tstrip (ulit ''revert|raw:0x'')) = differ_result" by code_simp
  ultimately have x: "read_lean_run 400 (Exit 0 differ_out []) = Inr differ_result"
    unfolding differ_out_def by (simp add: read_eval_output del: ulit_simps)
  have lc: "lean_call_of 1 differ_tools (Some demo_sig) (demo_call\<lparr>k_env := demo_env\<rparr>) =
     \<lparr>lc_contract = ''C'', lc_function = ''f'', lc_args = [], lc_param_types = Some [], lc_ctor_args = [],
      lc_ctor_types = Some [], lc_structs = [], lc_slots = [], lc_inject = [],
      lc_calldata = Some ''26121ff0''\<rparr>"
    using c by (simp add: lean_call_of_def demo_call_def demo_sig_def differ_tools_def demo_tools_def
        entry_ast_def demo_ast_facts)
  have step: "bindR m (\<lambda>line. read_lean_run 400 (Exit 0 differ_out [])) = Inr differ_result"
    if "\<exists>line. m = Inr line" for m :: "string res"
    using that x by auto
  show ?thesis
    unfolding run_lean_def lc run_solidity_lean_def
    by (simp add: differ_tools_def demo_tools_def i r) (rule step, rule l)
qed

lemma differ_adjudicate:
  "\<exists>r. adjudicate 1 differ_tools demo_settings demo_files = Inr r \<and> r_verdict r = ''SOUNDNESS_GAP''"
proof -
  have "revert_errors 1 differ_tools None demo_measured raw = go []" for raw
    by (simp add: revert_errors_def demo_measured_def differ_tools_def demo_tools_def entry_ast_def
        demo_ast_facts)
  moreover have "decode_measured 1 [] demo_sig demo_measured [] = go (ulit ''success|##EVT####STO##'')"
    by code_simp
  moreover have "declared_check demo_claim = Inr ()" by code_simp
  moreover have "cmp_component (compare_observables (canonicalize_raw_revert [] 1 [] (ulit ''revert|raw:0x''))
      (canonicalize_raw_revert [] 1 [] (ulit ''success|##EVT####STO##''))) = Some Revert_vs_success"
    by code_simp
  moreover have "struct_definitions (entry_ast differ_tools) = []"
    by (simp add: differ_tools_def demo_tools_def entry_ast_def demo_ast_facts)
  ultimately have "\<exists>r. classify 1 differ_tools None False demo_claim (Some demo_sig) (Some demo_measured) differ_result
      = go r \<and> r_verdict r = ''SOUNDNESS_GAP''"
    by (simp add: classify_def differ_result_def compare_stage_def Let_def del: ulit_simps)
  then show ?thesis
    using demo_adjudicate [OF differ_run [unfolded differ_tools_def]] unfolding differ_tools_def by blast
qed

theorem soundness_gap_justified_witness:
  "\<exists>f raw. printed_observable (o_lean differ_tools f) raw \<and> \<not> is_solidity_lean_reject raw"
proof -
  obtain r where "adjudicate 1 differ_tools demo_settings demo_files = Inr r" "r_verdict r = ''SOUNDNESS_GAP''"
    using differ_adjudicate by blast
  from soundness_gap_justified [OF this] demo_load demo_get(4) show ?thesis by (auto split: if_splits)
qed

end
