(* ===== verification/InertProps.thy ===== *)
theory InertProps
  imports Adjudicate
begin

text \<open>
  Submitted text in generated code: the number of double quotes in the Lean command and in the
  Foundry test, which says how much submitted text can open or close a string literal.
\<close>

definition quotes :: "string \<Rightarrow> nat" where
  "quotes s = count_list s (CHR 0x22)"

lemma quotes_simps [simp]:
  "quotes [] = 0" "quotes (c # s) = (if c = CHR 0x22 then Suc (quotes s) else quotes s)"
  "quotes (a @ b) = quotes a + quotes b"
  by (simp_all add: quotes_def)

lemma quotes_zero: "quotes s = 0 \<longleftrightarrow> CHR 0x22 \<notin> set s"
  by (induction s) auto

lemma quotes_unlines [simp]: "quotes (unlines ls) = sum_list (map quotes ls)"
  by (induction ls) (simp_all add: unlines_def NL_def)

lemma quotes_join:
  "quotes (join sep xs) = sum_list (map quotes xs) + (length xs - 1) * quotes sep"
  by (induction sep xs rule: join.induct) simp_all

lemma quotes_show [simp]: "quotes (show_int i) = 0" "quotes (show_nat n) = 0"
proof -
  have "CHR 0x22 \<notin> set (''-'' @ ''0123456789abcdef'')" by simp
  then show "quotes (show_int i) = 0" using show_int_chars [of i] unfolding quotes_zero by blast
  have "CHR 0x22 \<notin> set ''0123456789abcdef''" by simp
  then show "quotes (show_nat n) = 0" using show_nat_chars [of _ n] unfolding quotes_zero by blast
qed

lemma quotes_map [simp]:
  "(\<And>x. x \<in> set xs \<Longrightarrow> quotes (f x) = 0) \<Longrightarrow> sum_list (map quotes (map f xs)) = 0"
  by (induction xs) simp_all

section \<open>The Lean command\<close>

lemma scalar_quotes: "render_scalar_arg a = Inr s \<Longrightarrow> quotes s = 0"
  by (auto simp: render_scalar_arg_def V_def Let_def bindR_eq_Inr quotes_join
      split: json.splits if_splits)

lemma list_quotes:
  assumes "mapR f xs = Inr vs" "\<And>x v. x \<in> set xs \<Longrightarrow> f x = Inr v \<Longrightarrow> quotes v = 0"
  shows "\<forall>v \<in> set vs. quotes v = 0"
  using assms
proof (induction xs arbitrary: vs)
  case (Cons x xs)
  then obtain v ws where v: "f x = Inr v" "mapR f xs = Inr ws" "vs = v # ws"
    by (auto simp: bindR_eq_Inr)
  have "quotes v = 0" by (rule Cons.prems(2) [OF _ v(1)]) simp
  moreover have "\<forall>w \<in> set ws. quotes w = 0"
    by (rule Cons.IH [OF v(2)]) (auto intro: Cons.prems(2))
  ultimately show ?case by (simp add: v)
qed simp

lemma arg_quotes: "render_lean_arg S d a t = Inr s \<Longrightarrow> quotes s = 0"
proof (induction d arbitrary: a t s)
  case (Suc d)
  have l: "\<forall>v \<in> set vs. quotes v = 0" if "mapR (\<lambda>a. render_lean_arg S d a e) xs = Inr vs" for xs vs e
    by (rule list_quotes [OF that]) (rule Suc.IH)
  have m: "\<forall>v \<in> set vs. quotes v = 0"
    if "mapR (\<lambda>p. render_lean_arg S d (fst p) (snd p)) xs = Inr vs" for xs vs
    by (rule list_quotes [OF that]) (rule Suc.IH)
  from Suc.prems show ?case
    by (auto simp: Let_def bindR_eq_Inr V_def quotes_join l m scalar_quotes
        split: option.splits json.splits if_splits)
qed simp

lemma args_quotes: "render_lean_args S d args types = Inr s \<Longrightarrow> quotes s = 0"
proof -
  assume "render_lean_args S d args types = Inr s"
  then obtain vs where s: "s = ''['' @ join '', '' vs @ '']''"
    and v: "(\<exists>ps. mapR (\<lambda>p. render_lean_arg S d (fst p) (snd p)) ps = Inr vs) \<or> mapR render_scalar_arg args = Inr vs"
    by (auto simp: render_lean_args_def bindR_eq_Inr split: option.splits if_splits)
  have "\<forall>v \<in> set vs. quotes v = 0"
    using v by (elim disjE exE) (erule list_quotes, erule arg_quotes scalar_quotes)+
  then show ?thesis by (simp add: s quotes_join)
qed

lemma identifier_quotes: "valid_identifier (JStr s) \<Longrightarrow> quotes s = 0"
proof -
  assume v: "valid_identifier (JStr s)"
  have bad: "\<not> ident_char (CHR 0x22)" "\<not> ident_start (CHR 0x22)" "cp (CHR 0x22) \<noteq> 10"
    by (simp_all add: ident_char_def ident_start_def cp_def Let_def)
  from v obtain c cs where s: "s = c # cs" "ident_start c"
    and r: "list_all ident_char cs \<or> cs \<noteq> [] \<and> cp (last cs) = 10 \<and> list_all ident_char (butlast cs)"
    by (auto simp: valid_identifier_def ident_re_def split: list.splits)
  have "CHR 0x22 \<notin> set cs"
  proof (cases "list_all ident_char cs")
    case True
    with bad show ?thesis by (auto simp: list_all_iff)
  next
    case False
    with r obtain bs x where "cs = bs @ [x]" "cp x = 10" "list_all ident_char bs"
      by (cases cs rule: rev_cases) auto
    with bad show ?thesis by (auto simp: list_all_iff)
  qed
  with s bad show ?thesis unfolding quotes_zero by auto
qed

lemma sanitize_quotes: "quotes (sanitize nm) = 0"
proof -
  have "\<not> alnum_ch (CHR 0x22)" by (simp add: alnum_ch_def upper_ch_def cp_def)
  then have "CHR 0x22 \<notin> set (map (\<lambda>c. if alnum_ch c then c else CHR ''_'') nm)" by auto
  moreover have "set (strip_by P s) \<subseteq> set s" for P and s :: string
    unfolding strip_by_def by (metis set_dropWhileD set_rev subsetI)
  ultimately have "CHR 0x22 \<notin> set (strip_by (\<lambda>c. c = CHR ''_'')
      (map (\<lambda>c. if alnum_ch c then c else CHR ''_'') nm))" by blast
  then show ?thesis unfolding quotes_zero sanitize_def Let_def by simp
qed

lemma balances_quotes [simp]: "quotes (lean_balances e b) = 0"
  by (auto simp: lean_balances_def quotes_join)

lemma fields_quotes [simp]: "quotes (lean_block_fields e) = 0" "quotes (lean_tx_fields e) = 0"
  by (simp_all add: lean_block_fields_def lean_tx_fields_def)

lemma glyph_quotes [simp]: "quotes LEFT_ARROW = 0" "quotes TIMES_SIGN = 0" "quotes NL = 0"
  "quotes TC = 0" "quotes WORD = 0" "quotes STORAGEMAP = 0" "quotes SECTION_SIGN = 0"
  "quotes NAMESPACE_PREFIX = 0"
  by (simp_all add: LEFT_ARROW_def TIMES_SIGN_def NL_def TC_def WORD_def STORAGEMAP_def
      SECTION_SIGN_def NAMESPACE_PREFIX_def)

lemma context_quotes: "quotes (do_context ns contract e) = 2 + quotes ns + quotes contract"
  by (simp add: do_context_def)

lemma deploy_quotes: "quotes (do_deploy fuel e ctor) = quotes ctor"
  by (simp add: do_deploy_def)

lemma seed_quotes: "quotes (seed_line inject) = 0"
  by (auto simp: seed_line_def seed_pairs_def quotes_join)

lemma call_quotes: "quotes (do_call fuel fname ovs args) = 2 + quotes fname + quotes args"
  by (simp add: do_call_def entry_ctx_def)

lemma overrides_quotes: "entry_overrides e cd = Inr ovs \<Longrightarrow> \<forall>o' \<in> set ovs. quotes o' = 0"
  by (auto simp: entry_overrides_def bindR_eq_Inr quotes_join split: option.splits if_splits)

lemma cd_line_quotes: "\<forall>o' \<in> set ovs. quotes o' = 0 \<Longrightarrow> quotes src = 0 \<Longrightarrow> quotes (cd_line src ovs) = 0"
  by (induction src ovs rule: cd_line.induct) auto

lemma eval_line_quotes:
  assumes "lean_eval_line ns contract fuel fname a e slots ca inject cd = Inr line"
  shows "quotes line = 6 + quotes ns + quotes contract + quotes fname + quotes a + quotes ca"
proof -
  from assms obtain ovs where o: "entry_overrides e cd = Inr ovs"
    by (auto simp: lean_eval_line_def bindR_eq_Inr)
  have c: "quotes (cd_line ''ctx'' ovs) = 0"
    by (rule cd_line_quotes [OF overrides_quotes [OF o]]) simp
  have m: "quotes (strip OBSERVABLE_MARKER) = 0" by code_simp
  have s: "quotes (join '', '' (map show_int slots)) = 0" by (auto simp: quotes_join)
  from assms o show ?thesis
    by (auto simp: lean_eval_line_def Let_def context_quotes deploy_quotes seed_quotes call_quotes c m s)
qed

section \<open>The Foundry test\<close>

lemma addr_quotes [simp]: "quotes (addr_expr a) = 0" "quotes (sender_expr e) = 0"
  by (simp_all add: addr_expr_def sender_expr_def)

lemma pin_quotes [simp]: "quotes (pin_block e) = 0" "quotes (value_opt e) = 0"
  by (auto simp: pin_block_def pins_def value_opt_def quotes_join)

lemma deploy_block_quotes:
  "quotes (deploy_block contract out e ctor) = 12 + quotes ctor + quotes out + 3 * quotes contract"
  by (simp add: deploy_block_def)

lemma inject_quotes: "quotes (inject_block inject) = 0"
  by (auto simp: inject_block_def quotes_join)

lemma inject_sto_quotes: "quotes (inject_sto_block inject) = 4 * length inject"
  by (induction inject) (auto simp: inject_sto_block_def quotes_join)

lemma vm_quotes: "quotes VM_IFACE = 0" "quotes CHEAT_EXPR = 2"
  by code_simp+

lemma head_quotes: "quotes (harness_head contract rel) = 4 + quotes contract + quotes rel"
  by (simp add: harness_head_def vm_quotes)

lemma run_quotes:
  "quotes (harness_run contract cd out e ctor inject)
    = 14 + quotes cd + quotes ctor + quotes out + 3 * quotes contract"
  by (simp add: harness_run_def deploy_block_quotes inject_quotes)

lemma sections_quotes: "quotes (harness_sections inject) = 22 + 4 * length inject"
  by (simp add: harness_sections_def inject_sto_quotes)

lemma write_quotes: "quotes (harness_write out) = 16 + quotes out"
  by (simp add: harness_write_def)

section \<open>Properties\<close>

text \<open>C30: the Lean command has exactly the six quotes of its template, for every accepted contract
  and function name, any arguments that render, any environment and any name of the submission
  directory: submitted text can neither open nor close a string literal of the generated Lean.\<close>

theorem generated_lean_inert:
  assumes "valid_identifier (JStr contract)" "valid_identifier (JStr fname)"
    and "render_lean_args S d args types = Inr a" "render_lean_args S d cargs ctypes = Inr ca"
    and "lean_eval_line (NAMESPACE_PREFIX @ ''.'' @ sanitize nm) contract fuel fname a e slots ca
           inject calldata = Inr line"
  shows "count_list line (CHR 0x22) = 6"
  using eval_line_quotes [OF assms(5)] assms(1-4)
  by (simp add: args_quotes identifier_quotes sanitize_quotes flip: quotes_def)

theorem generated_lean_inert_witness:
  "\<exists>line. lean_eval_line (NAMESPACE_PREFIX @ ''.'' @ sanitize ''sub'') ''C'' 5 ''f'' ''[]'' env_default []
       ''[]'' [(0, 7)] None = Inr line \<and> count_list line (CHR 0x22) = 6"
proof -
  have v: "valid_identifier (JStr ''C'')" "valid_identifier (JStr ''f'')" by code_simp+
  have r: "render_lean_args [] 1 [] None = Inr ''[]''" by (simp add: render_lean_args_def)
  obtain line where l: "lean_eval_line (NAMESPACE_PREFIX @ ''.'' @ sanitize ''sub'') ''C'' 5 ''f'' ''[]''
      env_default [] ''[]'' [(0, 7)] None = Inr line"
    by (simp add: lean_eval_line_def entry_overrides_def Let_def)
  from generated_lean_inert [OF v r r this] l show ?thesis by blast
qed

text \<open>In the Foundry test the name of the source file is the only submitted text that can carry
  a quote: with an accepted contract name and hexadecimal call data, the test has the 56 quotes
  of its template, four for every injected slot, those of the output path (twice) and those of
  the file name. A file name with quotes does close the import and is read as Solidity.\<close>

theorem harness_quotes:
  assumes "valid_identifier (JStr contract)" "CHR 0x22 \<notin> set calldata" "CHR 0x22 \<notin> set ctor"
  shows "count_list (harness_source contract calldata out e (''../src/'' @ name) ctor inject) (CHR 0x22)
    = 56 + 4 * length inject + 2 * count_list out (CHR 0x22) + count_list name (CHR 0x22)"
  using assms unfolding quotes_zero [symmetric] quotes_def [symmetric]
  by (simp add: harness_source_def head_quotes run_quotes sections_quotes write_quotes identifier_quotes)

definition hostile_name :: string where
  \<open>hostile_name = ''x.sol"; contract P {} string constant z = ".sol''\<close>

theorem harness_quotes_witness:
  "count_list (harness_source ''C'' ''26121ff0'' ''/tmp/out'' env_default (''../src/'' @ hostile_name) [] [])
     (CHR 0x22) = 58"
proof -
  have "valid_identifier (JStr ''C'')" "CHR 0x22 \<notin> set ''26121ff0''" "CHR 0x22 \<notin> set []" by code_simp+
  moreover have "count_list ''/tmp/out'' (CHR 0x22) = 0" "count_list hostile_name (CHR 0x22) = 2" by code_simp+
  ultimately show ?thesis using harness_quotes [of "''C''" "''26121ff0''" "[]" "''/tmp/out''"] by simp
qed

text \<open>The import of a hostile file name ends early, and the rest of the name is Solidity.\<close>

lemma unlines_split: "unlines (ls @ l # ls') = unlines ls @ l @ NL @ unlines ls'"
  by (simp add: unlines_def)

lemma file_name_injected:
  \<open>\<exists>a b. harness_source contract calldata out e (''../src/'' @ hostile_name) ctor inject
     = a @ (''import {'' @ contract
         @ ''} from "../src/x.sol"; contract P {} string constant z = ".sol";'') @ NL @ b\<close>
proof -
  have h: \<open>harness_head contract rel = unlines [''// SPDX-License-Identifier: UNLICENSED'',
      ''pragma solidity 0.8.35;'', []] @ (''import {'' @ contract @ ''} from "'' @ rel @ ''";'') @ NL
    @ unlines [[], VM_IFACE, [], ''contract ContestMeasure {'',
       ''    CVm constant vm = CVm('' @ CHEAT_EXPR @ '');'', []]\<close> for rel
    unfolding harness_head_def
    using unlines_split [of \<open>[''// SPDX-License-Identifier: UNLICENSED'', ''pragma solidity 0.8.35;'', []]\<close>]
    by (simp only: append_Cons append_Nil)
  have n: \<open>''} from "'' @ (''../src/'' @ hostile_name) @ ''";''
    = ''} from "../src/x.sol"; contract P {} string constant z = ".sol";''\<close>
    by (simp add: hostile_name_def)
  show ?thesis unfolding harness_source_def h n by (metis append_assoc)
qed

end
