(* ===== verification/MeasureProps.thy ===== *)
theory MeasureProps
  imports Harness ObsProps
begin

text \<open>
  The line the generated test writes and its parser: a measurement is read back field by field.
\<close>

lemma eat_append [simp]: "eat p (p @ r) = Some r"
  by (simp add: eat_def)

lemma eat_hex_append:
  assumes "list_all hex_ch h" "r = [] \<or> \<not> hex_ch (hd r)"
  shows "eat_hex (''0x'' @ h @ r) = Some (h, r)"
proof -
  have "takeWhile hex_ch (h @ r) = h" "dropWhile hex_ch (h @ r) = r"
    using assms by (cases r; auto simp: list_all_iff takeWhile_append2 dropWhile_append2)+
  then show ?thesis unfolding eat_hex_def eat_append by simp
qed

lemma bar_not_hex: "\<not> hex_ch (CHR ''|'')"
  by (simp add: hex_ch_def digit_val_def cp_def)

lemma eat_kind_simps:
  "eat_kind (''ok|'' @ r) = Some (''ok'', r)" "eat_kind (''revert|'' @ r) = Some (''revert'', r)"
  "eat_kind (''deployrevert|'' @ r) = Some (''deployrevert'', r)"
  by (simp_all add: eat_kind_def eat_def)

lemma eat_sections_line:
  assumes "CHR ''='' \<notin> set sto" "CHR 0x0A \<notin> set evt" "CHR 0x0A \<notin> set sto"
  shows "eat_sections (''|evt='' @ evt @ ''|sto='' @ sto) = Some (evt, sto)"
proof -
  have "rpart_at (''|sto'' @ [CHR ''='']) (evt @ (''|sto'' @ [CHR ''='']) @ sto) = Some (evt, sto)"
    by (rule rpart_at_marker [OF refl assms(1)])
  then have "rpart_at ''|sto='' (evt @ ''|sto='' @ sto) = Some (evt, sto)" by simp
  moreover have "CHR 0x0A \<notin> set (evt @ ''|sto='' @ sto)" using assms by simp
  moreover have "''|evt='' @ evt @ ''|sto='' @ sto \<noteq> []" by simp
  ultimately show ?thesis unfolding eat_sections_def eat_append by (simp only: option.case if_False)
qed

text \<open>The fields of a line: the kind, the data, the two addresses and the two sections.\<close>

definition fields_line :: "string \<Rightarrow> string \<Rightarrow> string \<Rightarrow> string \<Rightarrow> string \<Rightarrow> string \<Rightarrow> string" where
  "fields_line kind ret self origin evt sto =
     kind @ ''|'' @ ''0x'' @ ret @ ''|self='' @ ''0x'' @ self @ ''|origin='' @ ''0x'' @ origin
     @ ''|evt='' @ evt @ ''|sto='' @ sto"

lemma harness_fields:
  "harness_line ok ret self origin evt sto
    = fields_line (if ok then ''ok'' else ''revert'') ret self origin evt sto"
  "deploy_revert_line ret self origin = fields_line ''deployrevert'' ret self origin [] []"
  by (simp_all add: harness_line_def deploy_revert_line_def fields_line_def)

definition plain_text :: "string \<Rightarrow> bool" where
  "plain_text s \<longleftrightarrow> list_all (\<lambda>c. \<not> space_cp (cp c)) s"

lemma parse_fields:
  assumes kind: "kind \<in> {''ok'', ''revert'', ''deployrevert''}"
    and hex: "list_all hex_ch ret" "even (length ret)" "list_all hex_ch self" "self \<noteq> []"
      "list_all hex_ch origin" "origin \<noteq> []"
    and secs: "plain_text evt" "plain_text sto" "CHR ''='' \<notin> set sto"
  shows "parse_measurement (fields_line kind ret self origin evt sto) =
    Some \<lparr>ms_ok = (kind = ''ok''), ms_ret_hex = ''0x'' @ ret, ms_self = hex_int self,
      ms_origin = hex_int origin, ms_events = evt, ms_storage = sto,
      ms_deploy_reverted = (kind = ''deployrevert'')\<rparr>"
proof -
  have hs: "hex_ch c \<Longrightarrow> \<not> space_cp (cp c)" for c
    by (auto simp: hex_ch_def digit_val_def Let_def space_cp_def split: if_splits)
  have h: "plain_text x" if "list_all hex_ch x" for x
    using that hs by (auto simp: plain_text_def list_all_iff)
  have lit: "plain_text ''|''" "plain_text ''0x''" "plain_text ''|self=''" "plain_text ''|origin=''"
    "plain_text ''|evt=''" "plain_text ''|sto=''" "plain_text kind"
    using kind by (auto simp: plain_text_def space_cp_def cp_def)
  have app: "plain_text (a @ b) \<longleftrightarrow> plain_text a \<and> plain_text b" for a b by (simp add: plain_text_def)
  have "plain_text (fields_line kind ret self origin evt sto)"
    unfolding fields_line_def app using lit h hex secs by blast
  then have s: "strip (fields_line kind ret self origin evt sto) = fields_line kind ret self origin evt sto"
    by (intro strip_noop) (auto simp: plain_text_def list_all_iff)
  have k: "eat_kind (fields_line kind ret self origin evt sto) = Some (kind,
      ''0x'' @ ret @ ''|self='' @ ''0x'' @ self @ ''|origin='' @ ''0x'' @ origin @ ''|evt='' @ evt @ ''|sto='' @ sto)"
    using kind eat_kind_simps unfolding fields_line_def by auto
  have e1: "eat_hex (''0x'' @ ret @ ''|self='' @ x) = Some (ret, ''|self='' @ x)" for x
    by (rule eat_hex_append [OF hex(1)]) (simp add: bar_not_hex)
  have e2: "eat_hex (''0x'' @ self @ ''|origin='' @ x) = Some (self, ''|origin='' @ x)" for x
    by (rule eat_hex_append [OF hex(3)]) (simp add: bar_not_hex)
  have e3: "eat_hex (''0x'' @ origin @ ''|evt='' @ x) = Some (origin, ''|evt='' @ x)" for x
    by (rule eat_hex_append [OF hex(5)]) (simp add: bar_not_hex)
  have nl: "CHR 0x0A \<notin> set x" if "plain_text x" for x
    using that by (auto simp: plain_text_def list_all_iff space_cp_def cp_def)
  have sec: "eat_sections (''|evt='' @ evt @ ''|sto='' @ sto) = Some (evt, sto)"
    by (rule eat_sections_line) (use secs nl in auto)
  show ?thesis
    unfolding parse_measurement_def s k option.case prod.case e1 e2 e3 eat_append sec
    using hex by simp
qed

text \<open>C9: the line the generated test writes after the entry call, and the one it writes when the
  constructor reverts, are parsed back to exactly what the test wrote: the outcome, the return
  data, the two addresses, the events and the storage, for any hexadecimal data of whole bytes
  and any sections without white space.\<close>

theorem measurement_roundtrip:
  assumes "list_all hex_ch ret" "even (length ret)" "list_all hex_ch self" "self \<noteq> []"
    and "list_all hex_ch origin" "origin \<noteq> []" "plain_text evt" "plain_text sto" "CHR ''='' \<notin> set sto"
  shows "parse_measurement (harness_line ok ret self origin evt sto) =
      Some \<lparr>ms_ok = ok, ms_ret_hex = ''0x'' @ ret, ms_self = hex_int self, ms_origin = hex_int origin,
        ms_events = evt, ms_storage = sto, ms_deploy_reverted = False\<rparr>
    \<and> parse_measurement (deploy_revert_line ret self origin) =
      Some \<lparr>ms_ok = False, ms_ret_hex = ''0x'' @ ret, ms_self = hex_int self, ms_origin = hex_int origin,
        ms_events = [], ms_storage = [], ms_deploy_reverted = True\<rparr>"
proof -
  have "(if ok then ''ok'' else ''revert'') \<in> {''ok'', ''revert'', ''deployrevert''}"
    "''deployrevert'' \<in> {''ok'', ''revert'', ''deployrevert''}" by simp_all
  moreover have "plain_text []" "CHR ''='' \<notin> set []" by (simp_all add: plain_text_def)
  ultimately show ?thesis unfolding harness_fields using parse_fields assms by simp
qed

theorem measurement_roundtrip_witness:
  "\<exists>m. parse_measurement (harness_line True ''00ff'' ''A1'' ''2b'' ''t=[1];d=0x'' ''0:7;1:9'') = Some m
     \<and> ms_storage m = ''0:7;1:9''"
proof -
  have "list_all hex_ch ''00ff''" "even (length ''00ff'')" "list_all hex_ch ''A1''" "''A1'' \<noteq> []"
    "list_all hex_ch ''2b''" "''2b'' \<noteq> []" "plain_text ''t=[1];d=0x''" "plain_text ''0:7;1:9''"
    "CHR ''='' \<notin> set ''0:7;1:9''" by code_simp+
  from measurement_roundtrip [OF this, of True] show ?thesis by simp
qed

end
