(* ===== verification/Minimality.thy ===== *)
theory Minimality
  imports Gate
begin

text \<open>
  \<open>contest/minimality.py\<close>, the advisory on dead code: the functions of the entry contract and its
  bases that the entry function cannot reach over \<open>referencedDeclaration\<close>. The order in which
  Python enumerates a set of numbers is the parameter \<open>ord\<close>; the \<open>while\<close> loop takes a bound on
  its iterations.
\<close>

section \<open>The functions of the contract\<close>

definition is_exempt :: "node \<Rightarrow> bool" where
  "is_exempt fn \<longleftrightarrow>
     fld_in fn ''kind'' [''constructor'', ''receive'', ''fallback'']
     \<or> jget fn ''implemented'' = JBool False \<and> jget fn ''body'' = JNull"

text \<open>\<open>isinstance(x, int)\<close>, and the number a key of a \<open>dict\<close> compares as.\<close>

definition int_value :: "json \<Rightarrow> int option" where
  "int_value x = (case x of JInt i \<Rightarrow> Some i | JBool b \<Rightarrow> Some (if b then 1 else 0) | _ \<Rightarrow> None)"

definition referenced_fn_ids :: "node \<Rightarrow> int list" where
  "referenced_fn_ids fn =
     remdups (List.map_filter (\<lambda>n. int_value (jget n ''referencedDeclaration'')) (nodes_of (JObj fn)))"

definition all_contracts :: "source_ast list \<Rightarrow> node list" where
  "all_contracts asts =
     filter (\<lambda>n. nt_is n ''ContractDefinition'') (concat (map (\<lambda>s. nodes_of (sa_ast s)) asts))"

definition by_id :: "node list \<Rightarrow> (int \<times> node) list" where
  "by_id ns = List.map_filter (\<lambda>n. map_option (\<lambda>i. (i, n)) (int_value (jget n ''id''))) ns"

definition contracts_by_id :: "source_ast list \<Rightarrow> (int \<times> node) list" where
  "contracts_by_id asts = dput_all [] (by_id (all_contracts asts))"

text \<open>The last contract of the name.\<close>

definition entry_node :: "source_ast list \<Rightarrow> string \<Rightarrow> node option" where
  "entry_node asts entry_contract =
     (case filter (\<lambda>n. jget n ''name'' = JStr entry_contract) (all_contracts asts) of
        [] \<Rightarrow> None | ns \<Rightarrow> Some (last ns))"

definition chain_ids :: "node \<Rightarrow> int list" where
  "chain_ids entry =
     (let ids = List.map_filter int_value (jlist (jget entry ''linearizedBaseContracts'')) in
      if ids \<noteq> [] then ids
      else case int_value (jget entry ''id'') of Some i \<Rightarrow> [i] | None \<Rightarrow> [])"

definition functions_of :: "node \<Rightarrow> (int \<times> node) list" where
  "functions_of c =
     by_id (filter (\<lambda>item. nt_is item ''FunctionDefinition'') (map jobj (jlist (jget c ''nodes''))))"

definition funcs_by_id :: "source_ast list \<Rightarrow> node \<Rightarrow> (int \<times> node) list" where
  "funcs_by_id asts entry =
     dput_all [] (concat (map (\<lambda>cid. case dget (contracts_by_id asts) cid of
          Some c \<Rightarrow> functions_of c | None \<Rightarrow> []) (chain_ids entry)))"

section \<open>Reachability\<close>

text \<open>The inner loop: a referenced function that is not yet reached is reached and queued.\<close>

definition visit :: "(int \<times> node) list \<Rightarrow> int \<Rightarrow> int set \<times> int list \<Rightarrow> int set \<times> int list" where
  "visit funcs ref st =
     (if dhas funcs ref \<and> ref \<notin> fst st then (insert ref (fst st), snd st @ [ref]) else st)"

text \<open>The outer loop takes the last element of the queue.\<close>

fun reach_loop ::
  "(int list \<Rightarrow> int list) \<Rightarrow> nat \<Rightarrow> (int \<times> node) list \<Rightarrow> int set \<Rightarrow> int list \<Rightarrow> int set option" where
  "reach_loop ord 0 funcs reachable frontier = (if frontier = [] then Some reachable else None)"
| "reach_loop ord (Suc n) funcs reachable frontier =
     (if frontier = [] then Some reachable
      else case dget funcs (last frontier) of
        None \<Rightarrow> reach_loop ord n funcs reachable (butlast frontier)
      | Some fn \<Rightarrow>
          (let (r, f) = fold (visit funcs) (ord (referenced_fn_ids fn)) (reachable, butlast frontier)
           in reach_loop ord n funcs r f))"

definition entry_ids :: "(int \<times> node) list \<Rightarrow> string \<Rightarrow> int list" where
  "entry_ids funcs entry_function =
     map fst (filter (\<lambda>(fid, f). jget f ''name'' = JStr entry_function) funcs)"

section \<open>The report\<close>

datatype minimality =
    Unknown
  | Minimal
  | Unreachable "string list"

definition dead_name :: "int \<times> node \<Rightarrow> string" where
  "dead_name p = name_or (snd p) (''<fn#'' @ show_int (fst p) @ ''>'')"

definition minimality_report ::
  "(int list \<Rightarrow> int list) \<Rightarrow> source_ast list option \<Rightarrow> string \<Rightarrow> string \<Rightarrow> minimality" where
  "minimality_report ord asts entry_contract entry_function =
     (case asts of
        None \<Rightarrow> Unknown
      | Some ss \<Rightarrow>
     (case entry_node ss entry_contract of
        None \<Rightarrow> Unknown
      | Some entry \<Rightarrow>
          (let funcs = funcs_by_id ss entry; ids = entry_ids funcs entry_function in
           if ids = [] then Unknown
           else case reach_loop ord (length funcs) funcs (set ids) ids of
             None \<Rightarrow> Unknown
           | Some reachable \<Rightarrow>
               (let dead = filter (\<lambda>p. fst p \<notin> reachable \<and> \<not> is_exempt (snd p)) funcs in
                if dead = [] then Minimal else Unreachable (sort (map dead_name dead))))))"

end
