(* ===== verification/MinProps.thy ===== *)
theory MinProps
  imports Minimality
begin

text \<open>
  The worklist of the minimality advisory ends, visits every function at most once and computes
  the closure of the reference relation, in whatever order the sets are enumerated.
\<close>

definition calls :: "(int \<times> node) list \<Rightarrow> (int \<times> int) set" where
  "calls funcs = {(f, g). \<exists>fn. dget funcs f = Some fn \<and> g \<in> set (referenced_fn_ids fn) \<and> dhas funcs g}"

lemma visit_fold:
  "\<exists>ns. fold (visit funcs) refs (r, f) = (r \<union> set ns, f @ ns) \<and> distinct ns
     \<and> set ns = {g \<in> set refs. dhas funcs g} - r"
proof (induction refs arbitrary: r f)
  case (Cons x refs)
  show ?case
  proof (cases "dhas funcs x \<and> x \<notin> r")
    case True
    from Cons [of "insert x r" "f @ [x]"] obtain ns where
      "fold (visit funcs) refs (insert x r, f @ [x]) = (insert x r \<union> set ns, (f @ [x]) @ ns)"
      "distinct ns" "set ns = {g \<in> set refs. dhas funcs g} - insert x r" by blast
    note ns = this
    from True have "fold (visit funcs) (x # refs) (r, f) = (r \<union> set (x # ns), f @ x # ns)"
      using ns(1) by (simp add: visit_def)
    moreover have "distinct (x # ns)" using ns by simp
    moreover have "set (x # ns) = {g \<in> set (x # refs). dhas funcs g} - r" using ns(3) True by auto
    ultimately show ?thesis by blast
  next
    case False
    with Cons [of r f] show ?thesis by (auto simp: visit_def)
  qed
qed simp

text \<open>The invariant of the loop: what is reached is reachable and contains the entries, what is
  queued is reached, and every reached function that is not queued has been expanded.\<close>

definition loop_inv :: "(int \<times> node) list \<Rightarrow> int set \<Rightarrow> int set \<Rightarrow> int list \<Rightarrow> bool" where
  "loop_inv funcs start r f \<longleftrightarrow>
     start \<subseteq> r \<and> r \<subseteq> (calls funcs)\<^sup>* `` start \<and> r \<subseteq> set (dkeys funcs)
     \<and> set f \<subseteq> r \<and> distinct f \<and> calls funcs `` (r - set f) \<subseteq> r"

lemma calls_dom: "(f, g) \<in> calls funcs \<Longrightarrow> g \<in> set (dkeys funcs)"
  by (auto simp: calls_def dhas_keys)

lemma loop_inv_step:
  assumes "loop_inv funcs start r (f @ [x])" "dget funcs x = Some fn" "\<And>xs. set (ord xs) = set xs"
  obtains ns where "fold (visit funcs) (ord (referenced_fn_ids fn)) (r, f) = (r \<union> set ns, f @ ns)"
    "distinct ns" "set ns \<subseteq> set (dkeys funcs) - r" "loop_inv funcs start (r \<union> set ns) (f @ ns)"
proof -
  obtain ns where ns: "fold (visit funcs) (ord (referenced_fn_ids fn)) (r, f) = (r \<union> set ns, f @ ns)"
      "distinct ns" "set ns = {g \<in> set (referenced_fn_ids fn). dhas funcs g} - r"
    using visit_fold [of funcs "ord (referenced_fn_ids fn)" r f] assms(3) by auto
  have succ: "calls funcs `` {x} \<subseteq> r \<union> set ns" "set ns \<subseteq> calls funcs `` {x}"
    using assms(2) ns(3) by (auto simp: calls_def)
  have x: "x \<in> (calls funcs)\<^sup>* `` start" using assms(1) by (auto simp: loop_inv_def)
  have "set ns \<subseteq> (calls funcs)\<^sup>* `` start"
  proof
    fix y assume "y \<in> set ns"
    with succ(2) have xy: "(x, y) \<in> calls funcs" by blast
    from x obtain s where s: "s \<in> start" "(s, x) \<in> (calls funcs)\<^sup>*" by blast
    from rtrancl_into_rtrancl [OF s(2) xy] s(1) show "y \<in> (calls funcs)\<^sup>* `` start" by blast
  qed
  moreover have dom: "set ns \<subseteq> set (dkeys funcs) - r" using ns(3) by (auto simp: dhas_keys)
  moreover have "calls funcs `` (r \<union> set ns - set (f @ ns)) \<subseteq> r \<union> set ns"
  proof -
    have "r \<union> set ns - set (f @ ns) \<subseteq> (r - set (f @ [x])) \<union> {x}" by auto
    then show ?thesis using assms(1) succ(1) unfolding loop_inv_def by blast
  qed
  ultimately have "loop_inv funcs start (r \<union> set ns) (f @ ns)"
    using assms(1) ns(2) unfolding loop_inv_def by auto
  with ns dom show ?thesis by (intro that)
qed

lemma closed_is_closure:
  assumes "loop_inv funcs start r []"
  shows "r = (calls funcs)\<^sup>* `` start"
proof -
  have "(calls funcs)\<^sup>* `` start \<subseteq> r"
  proof
    fix y assume "y \<in> (calls funcs)\<^sup>* `` start"
    then obtain s where "(s, y) \<in> (calls funcs)\<^sup>*" "s \<in> start" by blast
    then show "y \<in> r"
      by (induction rule: rtrancl_induct) (use assms in \<open>auto simp: loop_inv_def\<close>)
  qed
  with assms show ?thesis by (auto simp: loop_inv_def)
qed

lemma reach_loop_closure:
  assumes "\<And>xs. set (ord xs) = set xs" "loop_inv funcs start r f"
    and "card (set (dkeys funcs) - r) + length f \<le> n"
  shows "reach_loop ord n funcs r f = Some ((calls funcs)\<^sup>* `` start)"
  using assms(2,3)
proof (induction n arbitrary: r f)
  case 0
  then show ?case using closed_is_closure by simp
next
  case (Suc n)
  show ?case
  proof (cases f rule: rev_cases)
    case Nil
    with Suc.prems closed_is_closure show ?thesis by auto
  next
    case (snoc f' x)
    with Suc.prems have "x \<in> set (dkeys funcs)" by (auto simp: loop_inv_def)
    then obtain fn where fn: "dget funcs x = Some fn"
      using dget_None_keys [of funcs x] by (cases "dget funcs x") auto
    obtain ns where ns: "fold (visit funcs) (ord (referenced_fn_ids fn)) (r, f') = (r \<union> set ns, f' @ ns)"
        "distinct ns" "set ns \<subseteq> set (dkeys funcs) - r" "loop_inv funcs start (r \<union> set ns) (f' @ ns)"
      using loop_inv_step [OF Suc.prems(1) [unfolded snoc] fn assms(1)] by blast
    have "set (dkeys funcs) - r = (set (dkeys funcs) - (r \<union> set ns)) \<union> set ns"
      "(set (dkeys funcs) - (r \<union> set ns)) \<inter> set ns = {}" using ns(3) by auto
    then have "card (set (dkeys funcs) - r) = card (set (dkeys funcs) - (r \<union> set ns)) + length ns"
      using ns(2) by (metis List.finite_set card_Un_disjoint distinct_card finite_Diff)
    then have "card (set (dkeys funcs) - (r \<union> set ns)) + length (f' @ ns) \<le> n"
      using Suc.prems(2) snoc by simp
    from Suc.IH [OF ns(4) this] show ?thesis using snoc fn ns(1) by simp
  qed
qed

lemma funcs_distinct: "distinct (dkeys (funcs_by_id ss entry))"
  unfolding funcs_by_id_def by (rule distinct_dput_all) simp

lemma entry_ids_facts:
  "set (entry_ids funcs nm) \<subseteq> set (dkeys funcs)" "distinct (dkeys funcs) \<Longrightarrow> distinct (entry_ids funcs nm)"
  by (auto simp: entry_ids_def dkeys_def distinct_map inj_on_def)

lemma reach_all:
  assumes "\<And>xs. set (ord xs) = set xs" "distinct (dkeys funcs)"
  shows "reach_loop ord (length funcs) funcs (set (entry_ids funcs nm)) (entry_ids funcs nm)
    = Some ((calls funcs)\<^sup>* `` set (entry_ids funcs nm))"
proof (rule reach_loop_closure [OF assms(1)])
  show "loop_inv funcs (set (entry_ids funcs nm)) (set (entry_ids funcs nm)) (entry_ids funcs nm)"
    using entry_ids_facts assms(2) by (auto simp: loop_inv_def)
  have "card (set (dkeys funcs) - set (entry_ids funcs nm)) + length (entry_ids funcs nm)
      = card (set (dkeys funcs))"
    using entry_ids_facts [of funcs nm] assms(2)
    by (metis List.finite_set card_Diff_subset card_mono distinct_card le_add_diff_inverse2)
  also have "\<dots> = length funcs"
    using distinct_card [OF assms(2)] by (simp add: dkeys_def)
  finally show "card (set (dkeys funcs) - set (entry_ids funcs nm)) + length (entry_ids funcs nm)
      \<le> length funcs" by simp
qed

section \<open>Properties\<close>

text \<open>C36: the reachability loop ends after at most as many iterations as the contract has functions,
  each function being taken from the queue at most once, and what it returns is the set of
  functions reachable from the entry functions over references, in whatever order the references
  of a function are enumerated.\<close>

theorem reachability_terminates:
  assumes "\<And>xs. set (ord xs) = set xs"
  shows "\<exists>n \<le> length (funcs_by_id ss entry).
    reach_loop ord n (funcs_by_id ss entry) (set (entry_ids (funcs_by_id ss entry) nm))
      (entry_ids (funcs_by_id ss entry) nm)
    = Some ((calls (funcs_by_id ss entry))\<^sup>* `` set (entry_ids (funcs_by_id ss entry) nm))"
  using reach_all [OF assms funcs_distinct] by blast

text \<open>The advisory calls a submission minimal exactly when the entry function exists and every
  function of the contract and its bases that is not exempt is reachable from it; otherwise it
  names exactly the functions that are not.\<close>

theorem minimality_exact:
  assumes "\<And>xs. set (ord xs) = set xs" "entry_node ss c = Some entry"
    and "funcs = funcs_by_id ss entry" "entry_ids funcs nm \<noteq> []"
    and "dead = filter (\<lambda>p. fst p \<notin> (calls funcs)\<^sup>* `` set (entry_ids funcs nm) \<and> \<not> is_exempt (snd p)) funcs"
  shows "minimality_report ord (Some ss) c nm
    = (if dead = [] then Minimal else Unreachable (sort (map dead_name dead)))"
  using reach_all [OF assms(1) funcs_distinct, of ss entry nm] assms(2-5)
  by (simp add: minimality_report_def Let_def)


section \<open>A contract with a dead function\<close>

text \<open>\<open>f\<close> calls \<open>g\<close> twice, \<open>h\<close> calls itself, the constructor is never called.\<close>

definition fn_ast :: "int \<Rightarrow> string \<Rightarrow> string \<Rightarrow> int list \<Rightarrow> json" where
  "fn_ast i kind name refs = JObj [(''nodeType'', JStr ''FunctionDefinition''), (''id'', JInt i),
     (''kind'', JStr kind), (''name'', JStr name),
     (''body'', JList (map (\<lambda>r. JObj [(''nodeType'', JStr ''Identifier''),
        (''referencedDeclaration'', JInt r)]) refs))]"

definition min_src :: source_ast where
  "min_src = \<lparr>sa_source = ''C.sol'', sa_ast = JObj [(''nodeType'', JStr ''SourceUnit''),
     (''nodes'', JList [JObj [(''nodeType'', JStr ''ContractDefinition''), (''id'', JInt 9),
        (''name'', JStr ''C''), (''linearizedBaseContracts'', JList [JInt 9]),
        (''nodes'', JList [fn_ast 1 ''constructor'' [] [], fn_ast 2 ''function'' ''f'' [3, 3, 77],
           fn_ast 3 ''function'' ''g'' [2], fn_ast 4 ''function'' ''h'' [4, 2]])]])]\<rparr>"

definition min_entry :: node where
  "min_entry = (case entry_node [min_src] ''C'' of Some e \<Rightarrow> e | None \<Rightarrow> [])"

lemma min_entry: "entry_node [min_src] ''C'' = Some min_entry"
proof -
  have "entry_node [min_src] ''C'' \<noteq> None" by code_simp
  then show ?thesis by (auto simp: min_entry_def)
qed

lemma min_ids: "entry_ids (funcs_by_id [min_src] min_entry) ''f'' = [2]"
  by code_simp

theorem reachability_terminates_witness:
  "\<exists>n \<le> length (funcs_by_id [min_src] min_entry).
     reach_loop rev n (funcs_by_id [min_src] min_entry) {2} [2]
     = Some ((calls (funcs_by_id [min_src] min_entry))\<^sup>* `` {2})"
  using reachability_terminates [of rev "[min_src]" min_entry "''f''"] by (simp add: min_ids)

theorem minimality_exact_witness:
  "minimality_report rev (Some [min_src]) ''C'' ''f'' \<noteq> Unknown"
proof -
  have "entry_ids (funcs_by_id [min_src] min_entry) ''f'' \<noteq> []" by (simp add: min_ids)
  from minimality_exact [OF set_rev min_entry refl this refl] show ?thesis by simp
qed

end
