(* ===== verification/Dedup.thy ===== *)
theory Dedup
  imports Adjudicate
begin

text \<open>
  \<open>contest/dedup_replay.py\<close>, deduplication at fix time: a qualifying submission is adjudicated
  again with the tools of a reference build, the two reports are classified, and a pool of
  classified submissions is collapsed into classes that count as one finding each.
\<close>

section \<open>The classes\<close>

datatype dedup_class = NOVEL | DUPLICATE | SHIFTED | INCONCLUSIVE | NOT_IN_POOL

record dedup_verdict =
  dv_class :: dedup_class
  dv_e0_verdict :: string
  dv_e1_verdict :: string
  dv_e0_fingerprint :: "string option"
  dv_e1_fingerprint :: "string option"
  dv_reason :: string

definition is_inconclusive :: "report \<Rightarrow> bool" where
  "is_inconclusive r \<longleftrightarrow> r_verdict r \<in> {''NEEDS_REVIEW'', ''REJECT_MALFORMED'', ''INVALID''}"

text \<open>The joined key of the report's fingerprint, or the component the comparison named.\<close>

definition fingerprint_key :: "report \<Rightarrow> string option" where
  "fingerprint_key r =
     (case r_key r of
        Some key \<Rightarrow> Some (key_str key)
      | None \<Rightarrow> (case r_why r of
          Differs c \<Rightarrow> Some (''component:'' @ component_name c) | _ \<Rightarrow> None))"

definition classify_dedup :: "report \<Rightarrow> report \<Rightarrow> dedup_verdict" where
  "classify_dedup e0 e1 =
     (let e0_fp = fingerprint_key e0; e1_fp = fingerprint_key e1;
          dv = (\<lambda>c reason. \<lparr>dv_class = c, dv_e0_verdict = r_verdict e0, dv_e1_verdict = r_verdict e1,
                  dv_e0_fingerprint = e0_fp, dv_e1_fingerprint = e1_fp, dv_reason = reason\<rparr>) in
      if \<not> qualifies e0 then dv NOT_IN_POOL ''E0 did not qualify; not a dedup candidate''
      else if is_inconclusive e1 then
        dv INCONCLUSIVE ''reference replay inconclusive; route to review''
      else if \<not> qualifies e1 then
        dv DUPLICATE ''divergence closed under the reference build -> duplicate of a known gap''
      else if e0_fp \<noteq> None \<and> e1_fp \<noteq> None \<and> e0_fp = e1_fp then
        dv NOVEL ''still diverges under E1 with the same fingerprint -> genuinely novel''
      else dv SHIFTED
        ''still diverges under E1 but the fingerprint changed -> reference partially altered behavior; human review'')"

section \<open>Replaying\<close>

text \<open>The two builds share solc, Forge and the submission; the importer, the embedded helper and Lean
  are those of the checkout.\<close>

record checkout =
  b_helper :: string
  b_compiled_helper :: bool
  b_import :: capture
  b_lean :: "string \<Rightarrow> capture"

definition with_build :: "checkout \<Rightarrow> tools \<Rightarrow> tools" where
  "with_build b T = T\<lparr>o_helper := b_helper b, o_compiled_helper := b_compiled_helper b,
     o_import := b_import b, o_lean := b_lean b\<rparr>"

definition replay_against_reference ::
  "(tools \<Rightarrow> files \<Rightarrow> report res) \<Rightarrow> tools \<Rightarrow> checkout \<Rightarrow> files \<Rightarrow> dedup_verdict res" where
  "replay_against_reference adjudicate_fn T b fs =
     bindR (adjudicate_fn T fs) (\<lambda>e0.
     if \<not> qualifies e0 then Inr (classify_dedup e0 e0)
     else bindR (adjudicate_fn (with_build b T) fs) (\<lambda>e1. Inr (classify_dedup e0 e1)))"

text \<open>Each submission of the pool with what the tools answer about it in the two builds.\<close>

record entrant =
  n_id :: string
  n_files :: files
  n_tools :: tools
  n_reference :: checkout

definition batch_replay ::
  "(tools \<Rightarrow> files \<Rightarrow> report res) \<Rightarrow> entrant list \<Rightarrow> (string \<times> dedup_verdict) list res" where
  "batch_replay adjudicate_fn submissions =
     mapR (\<lambda>s. bindR (replay_against_reference adjudicate_fn (n_tools s) (n_reference s) (n_files s))
        (\<lambda>dv. Inr (n_id s, dv))) submissions"

section \<open>Collapsing a pool\<close>

text \<open>Python's \<open>a or b\<close> on optional strings.\<close>

definition or_else :: "string option \<Rightarrow> string option \<Rightarrow> string option" where
  "or_else a b = (case a of Some (c # cs) \<Rightarrow> a | _ \<Rightarrow> b)"

definition class_key :: "string \<times> dedup_verdict \<Rightarrow> string option" where
  "class_key p =
     (let (sub_id, dv) = p in
      if dv_class dv \<in> {DUPLICATE, NOT_IN_POOL} then None
      else if dv_class dv = INCONCLUSIVE then Some (''review:'' @ sub_id)
      else or_else (dv_e1_fingerprint dv) (or_else (dv_e0_fingerprint dv) (Some (''unkeyed:'' @ sub_id))))"

type_synonym classes = "(string \<times> string list) list"

text \<open>The dictionary of classes and the order of their keys.\<close>

definition bucket_append :: "string \<Rightarrow> string \<Rightarrow> classes \<times> string list \<Rightarrow> classes \<times> string list" where
  "bucket_append key sub_id st =
     (let (classes, order) = st;
          (classes, order) = (if dhas classes key then (classes, order)
                              else (dput classes key [], order @ [key]))
      in (dput classes key (dget_or classes key [] @ [sub_id]), order))"

definition collapse_step :: "string \<times> dedup_verdict \<Rightarrow> classes \<times> string list \<Rightarrow> classes \<times> string list" where
  "collapse_step p st =
     (case class_key p of None \<Rightarrow> st | Some key \<Rightarrow> bucket_append key (fst p) st)"

definition collapse_classes :: "(string \<times> dedup_verdict) list \<Rightarrow> classes" where
  "collapse_classes items =
     (let (classes, order) = fold collapse_step items ([], [])
      in map (\<lambda>k. (k, dget_or classes k [])) order)"

record unique_class =
  u_key :: string
  u_representative :: string
  u_rejected_reskins :: "string list"
  u_class :: "dedup_class option"

record batch_summary =
  b_total :: nat
  b_unique :: "unique_class list"
  b_n_unique :: nat
  b_duplicates :: "string list"
  b_needs_review :: "string list"
  b_not_in_pool :: "string list"

definition ids_in :: "dedup_class set \<Rightarrow> (string \<times> dedup_verdict) list \<Rightarrow> string list" where
  "ids_in cs items = map fst (filter (\<lambda>p. dv_class (snd p) \<in> cs) items)"

definition unique_of :: "(string \<times> dedup_verdict) list \<Rightarrow> classes \<Rightarrow> unique_class list" where
  "unique_of by_id classes =
     concat (map (\<lambda>(key, members).
        case members of
          [] \<Rightarrow> []
        | m # rest \<Rightarrow>
            if starts ''review:'' key then []
            else [\<lparr>u_key = key, u_representative = m, u_rejected_reskins = rest,
                   u_class = map_option dv_class (dget by_id m)\<rparr>]) classes)"

definition summarize_batch :: "(string \<times> dedup_verdict) list \<Rightarrow> batch_summary" where
  "summarize_batch items =
     (let unique = unique_of (dput_all [] items) (collapse_classes items) in
      \<lparr>b_total = length items, b_unique = unique, b_n_unique = length unique,
       b_duplicates = ids_in {DUPLICATE} items, b_needs_review = ids_in {SHIFTED, INCONCLUSIVE} items,
       b_not_in_pool = ids_in {NOT_IN_POOL} items\<rparr>)"

end
