(* ===== verification/DedupProps.thy ===== *)
theory DedupProps
  imports AdjWitness Dedup "HOL-Library.Multiset"
begin

text \<open>
  Properties of the replay: what the classes mean for reports of the adjudicator, that the two
  runs differ in solidity-lean only, and that collapsing a pool is grouping by key and loses no
  submission.
\<close>

section \<open>Grouping\<close>

definition first_occurrences :: "'a list \<Rightarrow> 'a list" where
  "first_occurrences xs = rev (remdups (rev xs))"

lemma first_occurrences_snoc:
  "first_occurrences (xs @ [x]) = (if x \<in> set xs then first_occurrences xs else first_occurrences xs @ [x])"
  by (simp add: first_occurrences_def)

lemma first_occurrences_simps [simp]:
  "first_occurrences [] = []" "set (first_occurrences xs) = set xs" "distinct (first_occurrences xs)"
  by (simp_all add: first_occurrences_def)

definition members_of :: "(string \<times> dedup_verdict) list \<Rightarrow> string \<Rightarrow> string list" where
  "members_of items key = map fst (filter (\<lambda>p. class_key p = Some key) items)"

lemma map_filter_snoc:
  "List.map_filter f (xs @ [x]) = List.map_filter f xs @ (case f x of None \<Rightarrow> [] | Some y \<Rightarrow> [y])"
  by (simp add: List.map_filter_def split: option.splits)

text \<open>The invariant of the loop: the order lists the keys of the dictionary, each mapped to its
  members so far.\<close>

lemma collapse_fold:
  "\<exists>classes. fold collapse_step items ([], [])
     = (classes, first_occurrences (List.map_filter class_key items))
   \<and> (\<forall>k. dget classes k = (if k \<in> set (List.map_filter class_key items)
                               then Some (members_of items k) else None))"
proof (induction items rule: rev_induct)
  case Nil
  show ?case by (simp add: List.map_filter_def)
next
  case (snoc p items)
  then obtain classes where
    c: "fold collapse_step items ([], []) = (classes, first_occurrences (List.map_filter class_key items))"
    and g: "\<And>k. dget classes k = (if k \<in> set (List.map_filter class_key items)
               then Some (members_of items k) else None)" by blast
  show ?case
  proof (cases "class_key p")
    case None
    then have "members_of (items @ [p]) k = members_of items k" for k by (simp add: members_of_def)
    moreover have "collapse_step p st = st" for st using None by (simp add: collapse_step_def)
    ultimately show ?thesis using None c g by (simp add: map_filter_snoc)
  next
    case (Some key)
    have m: "members_of (items @ [p]) k = (if k = key then members_of items k @ [fst p] else members_of items k)" for k
      using Some by (simp add: members_of_def)
    have st: "collapse_step p x = bucket_append key (fst p) x" for x using Some by (simp add: collapse_step_def)
    have n: "members_of items key = []" if "key \<notin> set (List.map_filter class_key items)"
      using that by (force simp: members_of_def List.map_filter_def filter_empty_conv)
    show ?thesis
    proof (cases "key \<in> set (List.map_filter class_key items)")
      case True
      then have "dhas classes key" by (simp add: dhas_def g)
      with True Some c g show ?thesis
        by (simp add: st bucket_append_def map_filter_snoc first_occurrences_snoc m dget_or_def)
    next
      case False
      then have "\<not> dhas classes key" by (simp add: dhas_def g)
      with False Some c g n show ?thesis
        by (auto simp: st bucket_append_def map_filter_snoc first_occurrences_snoc m dget_or_def)
    qed
  qed
qed

lemma collapse_groups_list:
  "collapse_classes items
     = map (\<lambda>k. (k, members_of items k)) (first_occurrences (List.map_filter class_key items))"
proof -
  obtain classes where
    "fold collapse_step items ([], []) = (classes, first_occurrences (List.map_filter class_key items))"
    "\<And>k. dget classes k = (if k \<in> set (List.map_filter class_key items)
        then Some (members_of items k) else None)"
    using collapse_fold by blast
  then show ?thesis by (simp add: collapse_classes_def dget_or_def)
qed

text \<open>Collapsing a pool is grouping it by key: one class for each key, in the order of first
  occurrence, whose members are the submissions with that key in the order of the pool.\<close>

theorem collapse_groups:
  "collapse_classes items
     = map (\<lambda>k. (k, members_of items k)) (first_occurrences (List.map_filter class_key items))"
  by (rule collapse_groups_list)


section \<open>The keys of adjudicated reports\<close>

lemma key_str_Cons: "key_str (JStr a # x # xs) = a @ ''|'' @ join ''|'' (map py_str (x # xs))"
  by (simp add: key_str_def)

text \<open>A key that is neither empty nor that of a review class.\<close>

definition finding_key :: "string option \<Rightarrow> bool" where
  "finding_key k \<longleftrightarrow> (\<exists>s. k = Some s \<and> s \<noteq> [] \<and> \<not> starts ''review:'' s)"

lemma fingerprint_annotate:
  "fingerprint_key (annotate T lane key feature r) = Some (key_str key)"
  by (simp add: fingerprint_key_def)

lemma coverage_key: "finding_key (Some (key_str [JStr (fst (coverage_fingerprint sl)), x, y]))"
  unfolding key_str_Cons
  by (simp add: finding_key_def coverage_fingerprint_def Let_def)

lemma soundness_key: "finding_key (Some (key_str (soundness_fingerprint c feature)))"
  by (simp add: finding_key_def soundness_fingerprint_def Let_def key_str_Cons
      component_name_def split: option.splits component.splits)

lemma classify_finding_key:
  assumes "classify d T v over claim sig measured sl = go r" "qualifies r"
  shows "finding_key (fingerprint_key r)"
proof -
  consider "over" | "\<not> over" "lr_fail_closed sl" | "\<not> over" "\<not> lr_fail_closed sl" by blast
  then show ?thesis
  proof cases
    case 1
    with assms have "r = classify_over_accept T claim sl" by (simp add: classify_def)
    with assms(2) show ?thesis
      by (auto simp: classify_over_accept_def Let_def qualifies_def fingerprint_annotate key_str_Cons
          finding_key_def split: if_splits)
  next
    case 2
    with assms have "r = classify_fail_closed T sl" by (simp add: classify_def)
    with assms(2) coverage_key [of sl] show ?thesis
      by (cases "coverage_fingerprint sl")
        (auto simp: classify_fail_closed_def qualifies_def fingerprint_annotate split: if_splits)
  next
    case 3
    with assms have "compare_stage d T v claim sig measured sl = go r" by (simp add: classify_def)
    with assms(2) soundness_key show ?thesis
      by (auto simp: compare_stage_def Let_def step_iffs qualifies_def fingerprint_annotate
          split: option.splits)
  qed
qed

lemma adjudicated_key:
  assumes "adjudicate d T st fs = Inr r" "qualifies r"
  shows "finding_key (fingerprint_key r)"
  using assms(1)
proof (cases rule: adjudicate_cases)
  case stop
  with assms(2) show ?thesis by (auto simp: verdict_in_def qualifies_def NON_QUALIFYING_def)
next
  case (go claim)
  obtain sig k measured e1 sl where
    "classify d T (s_at_version st) (over_accept_claim claim) claim sig measured sl = Verdict.go r"
    by (rule pipeline_go [OF go(2)])
  from classify_finding_key [OF this assms(2)] show ?thesis .
qed

section \<open>The replay\<close>

lemma adjudicated_verdict:
  assumes "adjudicate d T st fs = Inr r"
  shows "r_verdict r \<in> NON_QUALIFYING \<or> qualifies r"
  using assms
proof (cases rule: adjudicate_cases)
  case (go claim)
  obtain sig k measured e1 sl where
    "classify d T (s_at_version st) (over_accept_claim claim) claim sig measured sl = Verdict.go r"
    by (rule pipeline_go [OF go(2)])
  from classify_go [OF this] show ?thesis
    by (auto dest!: gap_report_verdict verdict_inD simp: qualifies_def CLASSIFIED_def NON_QUALIFYING_def)
qed (auto dest: verdict_inD)

text \<open>The stages before Lean do not use the checkout.\<close>

lemma with_build_simps [simp]:
  "o_timeout (with_build b T) = o_timeout T" "o_root_name (with_build b T) = o_root_name T"
  "o_entry_ast (with_build b T) = o_entry_ast T" "o_entry_file (with_build b T) = o_entry_file T"
  "o_asts (with_build b T) = o_asts T" "o_parse_asts (with_build b T) = o_parse_asts T"
  "o_contract_asts (with_build b T) = o_contract_asts T" "o_test_files (with_build b T) = o_test_files T"
  "o_test_output (with_build b T) = o_test_output T" "o_solc (with_build b T) = o_solc T"
  "o_forge (with_build b T) = o_forge T" "o_out_path (with_build b T) = o_out_path T"
  "o_measure (with_build b T) = o_measure T" "o_sha (with_build b T) = o_sha T"
  "o_stored (with_build b T) = o_stored T" "entry_ast (with_build b T) = entry_ast T"
  by (simp_all add: with_build_def entry_ast_def)

lemma with_build_annotate [simp]: "annotate (with_build b T) = annotate T"
  by (simp add: annotate_def submission_asts_def)

lemma with_build_stages:
  "validate_signature d (with_build b T) = validate_signature d T"
  "cheat_stage (with_build b T) = cheat_stage T"
  "real_behaviour d (with_build b T) = real_behaviour d T"
  "gate_stage (with_build b T) = gate_stage T"
  "classify d (with_build b T) = classify d T"
proof -
  show "validate_signature d (with_build b T) = validate_signature d T"
    by (intro ext) (unfold validate_signature_def with_build_simps, rule refl)
  have scan: "scan_asts (with_build b T) over = scan_asts T over" for over
    unfolding scan_asts_def with_build_simps ..
  show "cheat_stage (with_build b T) = cheat_stage T"
    by (intro ext) (unfold cheat_stage_def scan with_build_simps, rule refl)
  have real: "solc_reject_stage (with_build b T) claim = solc_reject_stage T claim"
    "forge_stage (with_build b T) m = forge_stage T m"
    "measure_stage d (with_build b T) v s k = measure_stage d T v s k" for claim m v s k
    unfolding solc_reject_stage_def forge_stage_def measure_stage_def with_build_simps by (rule refl)+
  show "real_behaviour d (with_build b T) = real_behaviour d T"
    by (intro ext) (unfold real_behaviour_def real, rule refl)
  have gate: "gate_asts (with_build b T) over = gate_asts T over" for over
    unfolding gate_asts_def with_build_simps ..
  show "gate_stage (with_build b T) = gate_stage T"
    by (intro ext) (unfold gate_stage_def gate with_build_simps, rule refl)
  have resolve: "resolve_errors (with_build b T) v sel raw = resolve_errors T v sel raw" for v sel raw
    unfolding resolve_errors_def with_build_simps ..
  have revert: "revert_errors d (with_build b T) v m raw = revert_errors d T v m raw" for v m raw
    unfolding revert_errors_def resolve with_build_simps ..
  have compare: "compare_stage d (with_build b T) v claim sig m sl = compare_stage d T v claim sig m sl"
    for v claim sig m sl
    unfolding compare_stage_def revert with_build_simps with_build_annotate ..
  show "classify d (with_build b T) = classify d T"
    by (intro ext) (unfold classify_def classify_over_accept_def classify_fail_closed_def compare
        with_build_annotate, rule refl)
qed

lemma with_build_passes:
  "passes_stages d (with_build b T) st claim sig k m e \<longleftrightarrow> passes_stages d T st claim sig k m e"
  by (simp add: passes_stages_def with_build_stages)

definition report_of :: "report step \<Rightarrow> report res" where
  "report_of m = bindR m (\<lambda>r. Inr (case r of Inl rp \<Rightarrow> rp | Inr rp \<Rightarrow> rp))"

lemma adjudicate_passed:
  assumes "load_submission fs = go claim" "passes_stages d T st claim sig k m e"
  shows "adjudicate d T st fs = bindR (run_lean d T sig (k\<lparr>k_env := e\<rparr>))
    (\<lambda>sl. report_of (classify d T (s_at_version st) (over_accept_claim claim) claim sig m sl))"
  by (cases "run_lean d T sig (k\<lparr>k_env := e\<rparr>)")
    (simp_all add: adjudicate_def assms(1) pipeline_stages [OF assms(2)] report_of_def)

text \<open>C25: the two runs of a replay share the ground truth: when a submission qualifies on the current
  build, the run on the reference build passes the same stages with the same signature, call,
  measurement and environment, so its report is a function of what solidity-lean answers there,
  and the same function that gave the first report.\<close>

theorem replay_shares_ground_truth:
  assumes "adjudicate d T st fs = Inr e0" "qualifies e0"
  shows "\<exists>claim sig k m e finish.
    load_submission fs = go claim
    \<and> passes_stages d T st claim sig k m e \<and> passes_stages d (with_build b T) st claim sig k m e
    \<and> adjudicate d T st fs = bindR (run_lean d T sig (k\<lparr>k_env := e\<rparr>)) finish
    \<and> adjudicate d (with_build b T) st fs = bindR (run_lean d (with_build b T) sig (k\<lparr>k_env := e\<rparr>)) finish"
  using assms(1)
proof (cases rule: adjudicate_cases)
  case stop
  with assms(2) show ?thesis by (auto simp: verdict_in_def qualifies_def NON_QUALIFYING_def)
next
  case (go claim)
  obtain sig k m e sl where p: "passes_stages d T st claim sig k m e"
    by (rule pipeline_go [OF go(2)])
  then have q: "passes_stages d (with_build b T) st claim sig k m e" by (simp add: with_build_passes)
  show ?thesis
    using go(1) p q adjudicate_passed [OF go(1) p]
      adjudicate_passed [OF go(1) q, unfolded with_build_stages] by blast
qed

text \<open>What the class of a replayed submission says about its two reports: it is out of the pool
  exactly when it does not qualify on the current build, a duplicate exactly when it qualifies
  there and the reference build ends in \<open>NO_DIVERGENCE\<close> or \<open>REJECTED_OOS\<close>, novel exactly when it
  qualifies on both with the same key, shifted with two keys, and otherwise for review.\<close>

theorem replay_classes:
  assumes "replay_against_reference (\<lambda>T. adjudicate d T st) T b fs = Inr dv"
  shows "\<exists>e0. adjudicate d T st fs = Inr e0 \<and> (dv_class dv = NOT_IN_POOL \<longleftrightarrow> \<not> qualifies e0)
    \<and> (qualifies e0 \<longrightarrow> (\<exists>e1. adjudicate d (with_build b T) st fs = Inr e1
        \<and> (dv_class dv = DUPLICATE \<longleftrightarrow> r_verdict e1 \<in> {''NO_DIVERGENCE'', ''REJECTED_OOS''})
        \<and> (dv_class dv = NOVEL \<longleftrightarrow> qualifies e1 \<and> fingerprint_key e0 = fingerprint_key e1)
        \<and> (dv_class dv = SHIFTED \<longleftrightarrow> qualifies e1 \<and> fingerprint_key e0 \<noteq> fingerprint_key e1)
        \<and> (dv_class dv = INCONCLUSIVE \<longleftrightarrow>
             r_verdict e1 \<in> {''NEEDS_REVIEW'', ''REJECT_MALFORMED'', ''INVALID''})))"
proof -
  from assms obtain e0 where e0: "adjudicate d T st fs = Inr e0"
    by (auto simp: replay_against_reference_def bindR_eq_Inr)
  show ?thesis
  proof (cases "qualifies e0")
    case False
    with assms e0 have "dv = classify_dedup e0 e0" by (simp add: replay_against_reference_def)
    with False e0 show ?thesis by (auto simp: classify_dedup_def Let_def)
  next
    case True
    with assms e0 obtain e1 where e1: "adjudicate d (with_build b T) st fs = Inr e1"
        "dv = classify_dedup e0 e1"
      by (auto simp: replay_against_reference_def bindR_eq_Inr)
    obtain k0 where k0: "fingerprint_key e0 = Some k0"
      using adjudicated_key [OF e0 True] by (auto simp: finding_key_def)
    have k1: "qualifies e1 \<Longrightarrow> \<exists>k1. fingerprint_key e1 = Some k1"
      using adjudicated_key [OF e1(1)] by (auto simp: finding_key_def)
    have v: "r_verdict e1 \<in> NON_QUALIFYING \<or> qualifies e1" by (rule adjudicated_verdict [OF e1(1)])
    show ?thesis
      using e0 e1(1) True k0 k1 v unfolding e1(2)
      by (auto simp: classify_dedup_def Let_def is_inconclusive_def NON_QUALIFYING_def qualifies_def)
  qed
qed

section \<open>The summary of a pool\<close>

definition ok_item :: "string \<times> dedup_verdict \<Rightarrow> bool" where
  "ok_item p \<longleftrightarrow> (dv_class (snd p) \<in> {NOVEL, SHIFTED} \<longrightarrow> (\<exists>s. class_key p = Some s \<and> \<not> starts ''review:'' s))"

lemma class_key_review: "dv_class (snd p) = INCONCLUSIVE \<Longrightarrow> class_key p = Some (''review:'' @ fst p)"
  by (cases p) (simp add: class_key_def)

lemma class_key_none: "class_key p = None \<longleftrightarrow> dv_class (snd p) \<in> {DUPLICATE, NOT_IN_POOL}"
  by (cases p) (auto simp: class_key_def Let_def or_else_def split: option.splits list.splits)

lemma class_key_unique:
  assumes "ok_item p"
  shows "(\<exists>s. class_key p = Some s \<and> \<not> starts ''review:'' s) \<longleftrightarrow> dv_class (snd p) \<in> {NOVEL, SHIFTED}"
proof -
  have "starts ''review:'' (''review:'' @ fst p)" by simp
  then show ?thesis
    using assms class_key_review [of p] class_key_none [of p] unfolding ok_item_def
    by (cases "dv_class (snd p)") auto
qed

lemma mset_groups:
  assumes "distinct ks"
  shows "mset (concat (map (members_of items) ks))
    = image_mset fst {# p \<in># mset items. \<exists>k \<in> set ks. class_key p = Some k #}"
  using assms
proof (induction ks)
  case (Cons k ks)
  have "{# p \<in># mset items. \<exists>x \<in> set (k # ks). class_key p = Some x #}
      = {# p \<in># mset items. class_key p = Some k #} + {# p \<in># mset items. \<exists>x \<in> set ks. class_key p = Some x #}"
    using Cons.prems by (induction items) auto
  with Cons show ?case by (simp add: members_of_def)
qed simp

lemma unique_of_groups:
  "concat (map (\<lambda>u. u_representative u # u_rejected_reskins u)
      (unique_of by_id (map (\<lambda>k. (k, members_of items k)) ks)))
   = concat (map (members_of items) (filter (\<lambda>k. \<not> starts ''review:'' k) ks))"
  by (induction ks) (auto simp: unique_of_def split: list.split)

lemma mset_ids_in: "mset (ids_in cs items) = image_mset fst {# p \<in># mset items. dv_class (snd p) \<in> cs #}"
  by (simp add: ids_in_def)

lemma accounting:
  assumes "list_all ok_item items"
  shows "mset (map fst items)
    = mset (concat (map (\<lambda>u. u_representative u # u_rejected_reskins u) (b_unique (summarize_batch items))))
      + mset (b_duplicates (summarize_batch items)) + mset (b_not_in_pool (summarize_batch items))
      + mset (ids_in {INCONCLUSIVE} items)"
proof -
  let ?ks = "filter (\<lambda>k. \<not> starts ''review:'' k) (first_occurrences (List.map_filter class_key items))"
  have key: "k \<in> set (List.map_filter class_key items)" if "p \<in> set items" "class_key p = Some k" for p k
    using that by (simp add: List.map_filter_def) (rule image_eqI [of _ _ p], simp_all)
  have "(\<exists>k \<in> set ?ks. class_key p = Some k) \<longleftrightarrow> dv_class (snd p) \<in> {NOVEL, SHIFTED}"
    if "p \<in> set items" for p
  proof -
    have "(\<exists>k \<in> set ?ks. class_key p = Some k) \<longleftrightarrow> (\<exists>s. class_key p = Some s \<and> \<not> starts ''review:'' s)"
      using key [OF that] by auto
    also have "\<dots> \<longleftrightarrow> dv_class (snd p) \<in> {NOVEL, SHIFTED}"
      using assms that by (intro class_key_unique) (simp add: list_all_iff)
    finally show ?thesis .
  qed
  then have "{# p \<in># mset items. \<exists>k \<in> set ?ks. class_key p = Some k #}
      = {# p \<in># mset items. dv_class (snd p) \<in> {NOVEL, SHIFTED} #}"
    by (intro filter_mset_cong) auto
  moreover have "distinct ?ks" by simp
  ultimately have "mset (concat (map (members_of items) ?ks)) = mset (ids_in {NOVEL, SHIFTED} items)"
    by (simp add: mset_groups mset_ids_in)
  moreover have "mset (map fst items) = mset (ids_in {NOVEL, SHIFTED} items) + mset (ids_in {DUPLICATE} items)
      + mset (ids_in {NOT_IN_POOL} items) + mset (ids_in {INCONCLUSIVE} items)"
  proof (induction items)
    case (Cons p items)
    then show ?case by (cases "dv_class (snd p)") (simp_all add: ids_in_def)
  qed (simp add: ids_in_def)
  ultimately show ?thesis
    using unique_of_groups [of "dput_all [] items" items "first_occurrences (List.map_filter class_key items)"]
    by (simp add: summarize_batch_def collapse_groups_list Let_def)
qed

lemma replay_ok_item:
  assumes "replay_against_reference (\<lambda>T. adjudicate d T st) T b fs = Inr dv"
  shows "ok_item (sid, dv)"
proof -
  from assms obtain e0 where e0: "adjudicate d T st fs = Inr e0"
    by (auto simp: replay_against_reference_def bindR_eq_Inr)
  show ?thesis
  proof (cases "qualifies e0")
    case False
    with assms e0 have "dv = classify_dedup e0 e0" by (simp add: replay_against_reference_def)
    with False show ?thesis by (simp add: classify_dedup_def ok_item_def)
  next
    case True
    with assms e0 obtain e1 where e1: "adjudicate d (with_build b T) st fs = Inr e1"
        "dv = classify_dedup e0 e1"
      by (auto simp: replay_against_reference_def bindR_eq_Inr)
    show ?thesis
      using adjudicated_key [OF e1(1)] unfolding e1(2)
      by (auto simp: ok_item_def classify_dedup_def Let_def finding_key_def class_key_def or_else_def
          split: list.split)
  qed
qed



text \<open>The joined key of lane S contains the feature the submitter states: the same divergence under two
  feature names has two keys, so it counts as two findings.\<close>

lemma key_follows_feature:
  assumes "f \<noteq> g"
  shows "key_str (soundness_fingerprint c (JStr f)) \<noteq> key_str (soundness_fingerprint c (JStr g))"
  using assms by (simp add: soundness_fingerprint_def Let_def key_str_def)

section \<open>The demo submission replayed\<close>

text \<open>The current build rejects the submission during the import, the reference build differs from
  the EVM.\<close>

definition differ_build :: checkout where
  "differ_build = \<lparr>b_helper = o_helper differ_tools, b_compiled_helper = o_compiled_helper differ_tools,
     b_import = o_import differ_tools, b_lean = o_lean differ_tools\<rparr>"

lemma with_differ: "with_build differ_build reject_tools = differ_tools"
  by (simp add: with_build_def differ_build_def differ_tools_def reject_tools_def demo_tools_def)

lemma replay_demo:
  "\<exists>dv. replay_against_reference (\<lambda>T. adjudicate 1 T demo_settings) reject_tools differ_build demo_files = Inr dv
     \<and> dv_class dv \<notin> {NOT_IN_POOL, INCONCLUSIVE, DUPLICATE}"
proof -
  obtain e0 where e0: "adjudicate 1 reject_tools demo_settings demo_files = Inr e0" "r_verdict e0 = ''COVERAGE_GAP''"
    using reject_adjudicate by blast
  obtain e1 where e1: "adjudicate 1 differ_tools demo_settings demo_files = Inr e1" "r_verdict e1 = ''SOUNDNESS_GAP''"
    using differ_adjudicate by blast
  from e0 e1 show ?thesis
    by (simp add: replay_against_reference_def with_differ qualifies_def classify_dedup_def Let_def
        is_inconclusive_def)
qed

theorem replay_shares_ground_truth_witness:
  "\<exists>sig k m e. passes_stages 1 differ_tools demo_settings demo_claim sig k m e"
proof -
  obtain r where r: "adjudicate 1 reject_tools demo_settings demo_files = Inr r" "r_verdict r = ''COVERAGE_GAP''"
    using reject_adjudicate by blast
  then have "qualifies r" by (simp add: qualifies_def)
  from replay_shares_ground_truth [OF r(1) this, of differ_build] show ?thesis
    unfolding with_differ demo_load by auto
qed

theorem replay_classes_witness:
  "\<exists>e0. adjudicate 1 reject_tools demo_settings demo_files = Inr e0 \<and> qualifies e0"
proof -
  obtain dv where dv: "replay_against_reference (\<lambda>T. adjudicate 1 T demo_settings) reject_tools differ_build demo_files = Inr dv"
      "dv_class dv \<noteq> NOT_IN_POOL" using replay_demo by auto
  from replay_classes [OF dv(1)] dv(2) show ?thesis by blast
qed

definition demo_pool :: "entrant list" where
  "demo_pool = [\<lparr>n_id = ''a'', n_files = demo_files, n_tools = reject_tools, n_reference = differ_build\<rparr>,
     \<lparr>n_id = ''b'', n_files = demo_files, n_tools = reject_tools, n_reference = differ_build\<rparr>]"


end
