(* ===== verification/ManifestProps.thy ===== *)
theory ManifestProps
  imports Manifest
begin

text \<open>
  Properties of the manifest front end: what a successful extraction says about the text, and the
  ranges of everything a validated manifest injects into the two engines.
\<close>

section \<open>Framing\<close>

lemma ulit_append: "ulit s = map cp s"
  by (simp add: ulit_def)

lemma count_one:
  assumes "count_of p s = 1"
  obtains a b where "part_at p s = Some (a, b)" "s = a @ p @ b" "\<not> contains p b"
proof -
  from assms obtain a b where ab: "part_at p s = Some (a, b)" "p \<noteq> []"
    by (cases "part_at p s") (auto simp: count_of_def split_on.simps split: if_splits)
  with assms have "split_on p b = [b]" if "part_at p b = None" 
    using that by (simp add: split_on.simps)
  have "part_at p b = None"
  proof (rule ccontr)
    assume "part_at p b \<noteq> None"
    then obtain c d where "part_at p b = Some (c, d)" by (cases "part_at p b") auto
    then have "split_on p s = a # c # split_on p d" using ab by (simp add: split_on.simps)
    moreover have "split_on p d \<noteq> []" by (subst split_on.simps) (auto split: option.split)
    ultimately show False using assms by (cases "split_on p d") (simp_all add: count_of_def)
  qed
  with ab part_at_Some [OF ab(1)] show ?thesis by (intro that) (simp_all add: part_at_None)
qed

lemma contains_two:
  "contains [x, y] (u @ v) \<longleftrightarrow>
     contains [x, y] u \<or> contains [x, y] v \<or> (u \<noteq> [] \<and> last u = x \<and> v \<noteq> [] \<and> hd v = y)"
proof (induction u)
  case (Cons c u)
  then show ?case by (cases u; cases v) auto
qed simp

lemma marker_ends:
  "MANIFEST_BEGIN \<noteq> []" "hd MANIFEST_BEGIN = cp (CHR ''='')" "last MANIFEST_BEGIN = cp (CHR ''='')"
  "\<not> contains close_comment MANIFEST_BEGIN" "cp (CHR ''/'') \<notin> set MANIFEST_BEGIN"
  "cp (CHR ''*'') \<notin> set MANIFEST_BEGIN"
  by (simp_all add: MANIFEST_BEGIN_def close_comment_def)

lemma extract_tail:
  assumes "(if a then Inr (Inl x) else if \<not> b then Inr (Inl y) else
      if c then Inr (Inl z) else bindR (loads t) (\<lambda>parsed. case parsed of
                  None \<Rightarrow> Inr (Inl ManifestNotJson)
                | Some (JObj m) \<Rightarrow> Inr (Inr m)
                | Some _ \<Rightarrow> Inr (Inl ManifestNotObject))) = Inr (Inr m)"
  shows "\<not> a \<and> b \<and> \<not> c \<and> loads t = Inr (Some (JObj m))"
proof -
  from assms have n: "\<not> a" "b" "\<not> c" by (auto split: if_splits)
  with assms obtain p where p: "loads t = Inr p" by (cases "loads t") auto
  with n assms obtain j where j: "p = Some j" by (cases p) auto
  with n assms p have "j = JObj m" by (cases j) auto
  with n p j show ?thesis by simp
qed

lemma take_prefix: "u @ b = p @ q \<Longrightarrow> length u \<le> length p \<Longrightarrow> take (length u) p = u"
  by (metis append_eq_append_conv_if append_eq_conv_conj)

lemma open_comment_before:
  assumes "in_open_comment pre"
  obtains a c where "pre = a @ open_comment @ c" "\<not> contains close_comment c"
proof -
  from assms obtain a b where r: "rpart_at open_comment (pre @ MANIFEST_BEGIN) = Some (a, b)"
    and n: "\<not> contains close_comment (drop (length a + 2) pre)"
    by (auto simp: in_open_comment_def split: option.splits)
  from rpart_at_Some [OF r] have eq: "pre @ MANIFEST_BEGIN = a @ open_comment @ b" .
  have "length a + 2 \<le> length pre"
  proof (rule ccontr)
    assume "\<not> length a + 2 \<le> length pre"
    then have len: "length pre \<le> Suc (length a)" by simp
    have "(pre @ MANIFEST_BEGIN) ! Suc (length a) = cp (CHR ''*'')"
      unfolding eq by (simp add: open_comment_def nth_append)
    moreover have "Suc (length a) < length (pre @ MANIFEST_BEGIN)"
      unfolding eq by (simp add: open_comment_def)
    ultimately have "MANIFEST_BEGIN ! (Suc (length a) - length pre) = cp (CHR ''*'')"
      "Suc (length a) - length pre < length MANIFEST_BEGIN"
      using len by (auto simp: nth_append)
    then show False using marker_ends(6) by (metis nth_mem)
  qed
  moreover have "length open_comment = 2" by (simp add: open_comment_def)
  ultimately have le: "length (a @ open_comment) \<le> length pre" and len: "length (a @ open_comment) = length a + 2"
    by simp_all
  have "(a @ open_comment) @ b = pre @ MANIFEST_BEGIN" using eq by simp
  from take_prefix [OF this le] have "take (length (a @ open_comment)) pre = a @ open_comment" .
  then have "pre = a @ open_comment @ drop (length a + 2) pre"
    unfolding len by (metis append.assoc append_take_drop_id)
  with n show ?thesis by (intro that) auto
qed

text \<open>A manifest is taken only from a text of which the two markers occur once each, in this
  order, the first one after a comment opening such that nothing up to the second marker closes
  the comment; the manifest is what the JSON parser makes of the text between the markers.\<close>

theorem manifest_framed:
  assumes "extract_manifest loads src = Inr (Inr m)"
  shows "\<exists>a c body z. src = a @ open_comment @ c @ MANIFEST_BEGIN @ body @ MANIFEST_END @ z
    \<and> \<not> contains close_comment (c @ MANIFEST_BEGIN @ body)
    \<and> loads (tstrip body) = Inr (Some (JObj m))
    \<and> count_of MANIFEST_BEGIN src = 1 \<and> count_of MANIFEST_END src = 1"
proof -
  have one: "count_of MANIFEST_BEGIN src = 1" "count_of MANIFEST_END src = 1"
    using assms by (auto simp: extract_manifest_def Let_def split: if_splits)
  obtain pre post where p: "part_at MANIFEST_BEGIN src = Some (pre, post)" "src = pre @ MANIFEST_BEGIN @ post"
    using count_one [OF one(1)] by metis
  obtain until z where q: "part_at MANIFEST_END src = Some (until, z)" "src = until @ MANIFEST_END @ z"
    using count_one [OF one(2)] by metis
  let ?start = "length pre + length MANIFEST_BEGIN"
  let ?body = "take (length until - ?start) (drop ?start src)"
  have "\<not> length until < ?start \<and> in_open_comment pre \<and> \<not> contains close_comment ?body
    \<and> loads (tstrip ?body) = Inr (Some (JObj m))"
    using assms unfolding extract_manifest_def Let_def one p(1) q(1) option.case prod.case
    by (intro extract_tail [of _ EndBeforeBegin _ NotInComment _ CommentClosed]) simp
  then have le: "?start \<le> length until" and oc: "in_open_comment pre"
    and cc: "\<not> contains close_comment ?body" and ld: "loads (tstrip ?body) = Inr (Some (JObj m))"
    by simp_all
  have "take (length until) src = until" unfolding q(2) by simp
  moreover have "take ?start src = pre @ MANIFEST_BEGIN" unfolding p(2) by simp
  moreover have "take (length until) src = take ?start src @ ?body"
    using le by (metis le_add_diff_inverse take_add)
  ultimately have up: "until = pre @ MANIFEST_BEGIN @ ?body" by simp
  obtain a c where ac: "pre = a @ open_comment @ c" "\<not> contains close_comment c"
    using open_comment_before [OF oc] .
  have "src = a @ open_comment @ c @ MANIFEST_BEGIN @ ?body @ MANIFEST_END @ z"
    using q(2) up ac(1) by (metis append.assoc)
  moreover have "\<not> contains close_comment (c @ MANIFEST_BEGIN @ ?body)"
    using ac(2) cc marker_ends unfolding close_comment_def by (simp add: contains_two)
  ultimately show ?thesis using ld one by blast
qed

section \<open>Ranges\<close>

lemma failing_None [simp]: "failing cs = None \<longleftrightarrow> (\<forall>c \<in> set cs. \<not> fst c)"
  by (auto simp: failing_def find_None_iff)

lemma first_err_None [simp]: "first_err f xs = None \<longleftrightarrow> (\<forall>x \<in> set xs. f x = None)"
  by (induction xs) (auto split: option.splits)

lemma int_below_of: "int_below n v \<Longrightarrow> fits_bits n (int_of v)"
  by (auto simp: int_below_def int_of_def split: option.splits)

lemma fits_bits_mono: "fits_bits n i \<Longrightarrow> n \<le> k \<Longrightarrow> fits_bits k i"
  unfolding fits_bits_def by (meson one_le_numeral order_less_le_trans power_increasing)

lemma dget_mem: "dget d k = Some v \<Longrightarrow> (k, v) \<in> set d"
  by (induction d) (auto split: if_splits)

lemma canonical_below:
  "fits_bits 64 (canonical ''number'')" "fits_bits 64 (canonical ''timestamp'')" "fits_bits 64 (canonical ''chainid'')"
  "fits_bits 256 (canonical ''basefee'')" "fits_bits 160 (canonical ''coinbase'')"
  "fits_bits 256 (canonical ''prevrandao'')" "fits_bits 160 CANONICAL_SENDER"
  by code_simp+

lemma env_field_below:
  assumes "check_env m = None" "dget (jobj (jget m ''env'')) k = Some v" "k \<noteq> ''balances''"
  shows "fits_bits 256 (int_of v)" "k \<in> ENV_U64_FIELDS \<Longrightarrow> fits_bits 64 (int_of v)"
    "k \<in> ENV_U160_FIELDS \<Longrightarrow> fits_bits 160 (int_of v)"
proof -
  have "(k, v) \<in> set (jobj (jget m ''env''))" using assms(2) by (rule dget_mem)
  moreover have "jget m ''env'' = JObj (jobj (jget m ''env''))"
    using assms(1,2) by (cases "jget m ''env''") (auto simp: check_env_def)
  ultimately have "check_env_field (k, v) = None"
    using assms(1) by (cases "jget m ''env''") (auto simp: check_env_def)
  then show "fits_bits 256 (int_of v)" "k \<in> ENV_U64_FIELDS \<Longrightarrow> fits_bits 64 (int_of v)"
    "k \<in> ENV_U160_FIELDS \<Longrightarrow> fits_bits 160 (int_of v)"
    using assms(3) by (auto simp: check_env_field_def intro: int_below_of)
qed

definition field_or :: "node \<Rightarrow> string \<Rightarrow> int \<Rightarrow> int" where
  "field_or env k i = (case dget env k of Some v \<Rightarrow> int_of v | None \<Rightarrow> i)"

lemma set_env_field_id: "(\<And>i e. sel (g i e) = sel e) \<Longrightarrow> sel (set_env_field env (k, g) e) = sel e"
  by (simp add: set_env_field_def split: option.split)

lemma env_from_manifest_fields:
  fixes m defines "env \<equiv> jobj (jget m ''env'')"
  shows "e_number (env_from_manifest m) = field_or env ''blockNumber'' (canonical ''number'')"
  "e_timestamp (env_from_manifest m) = field_or env ''timestamp'' (canonical ''timestamp'')"
  "e_chainid (env_from_manifest m) = field_or env ''chainId'' (canonical ''chainid'')"
  "e_basefee (env_from_manifest m) = field_or env ''basefee'' (canonical ''basefee'')"
  "e_coinbase (env_from_manifest m) = field_or env ''coinbase'' (canonical ''coinbase'')"
  "e_prevrandao (env_from_manifest m) = field_or env ''prevrandao'' (canonical ''prevrandao'')"
  "e_sender (env_from_manifest m) = (let c = jget (jobj (jget m ''entry'')) ''caller'' in
     if c \<noteq> JNull then int_of c else CANONICAL_SENDER)"
  "e_deals (env_from_manifest m) = map (\<lambda>(a, n). (int_of (JStr a), int_of n)) (jobj (jget env ''balances''))"
  unfolding env_from_manifest_def Let_def ENV_FIELDS_def env_def [symmetric]
  by (simp_all add: set_env_field_id field_or_def env_default_def)
    (simp_all add: set_env_field_def split: option.split)

text \<open>An environment and injected storage whose values have the widths both engines give them.\<close>

definition env_in_range :: "env \<Rightarrow> bool" where
  "env_in_range e \<longleftrightarrow>
     fits_bits 64 (e_number e) \<and> fits_bits 64 (e_timestamp e) \<and> fits_bits 64 (e_chainid e)
     \<and> fits_bits 256 (e_basefee e) \<and> fits_bits 160 (e_coinbase e) \<and> fits_bits 256 (e_prevrandao e)
     \<and> fits_bits 160 (e_sender e) \<and> list_all (\<lambda>(a, v). fits_bits 160 a \<and> fits_bits 256 v) (e_deals e)"

definition inject_in_range :: "(int \<times> int) list \<Rightarrow> bool" where
  "inject_in_range ss \<longleftrightarrow> length ss \<le> 64 \<and> list_all (\<lambda>(s, w). fits_bits 256 s \<and> fits_bits 256 w) ss"


section \<open>A file with an empty manifest\<close>

text \<open>The comment opening is in a line comment, where solc does not see it.\<close>

definition framed_file :: utext where
  "framed_file = ulit ''///*'' @ MANIFEST_BEGIN @ MANIFEST_END"

lemma framed_extract: "extract_manifest (\<lambda>_. Inr (Some (JObj []))) framed_file = Inr (Inr [])"
  by (simp add: extract_manifest_def framed_file_def MANIFEST_BEGIN_def MANIFEST_END_def count_of_def
      split_on.simps in_open_comment_def open_comment_def close_comment_def)

theorem manifest_framed_witness:
  "\<exists>a c body z. framed_file = a @ open_comment @ c @ MANIFEST_BEGIN @ body @ MANIFEST_END @ z"
  using manifest_framed [OF framed_extract] by blast

definition demo_manifest :: node where
  "demo_manifest = [(''deploy'', JObj [(''contract'', JStr ''C'')]), (''entry'', JObj [(''function'', JStr ''f'')]),
     (''env'', JObj [(''blockNumber'', JStr ''0x10''), (''balances'', JObj [(''0x1'', JInt 5)])]),
     (''storage'', JObj [(''0x0'', JStr ''0xff'')])]"

lemma demo_manifest_valid: "validate_manifest demo_manifest = None"
  by code_simp


end
