(* ===== verification/ManifestRun.thy ===== *)
theory ManifestRun
  imports Manifest Adjudicate
begin

text \<open>
  \<open>contest/manifest.py\<close>, \<open>adjudicate_file\<close>: a single file is adjudicated by the directory pipeline
  on the claim made from its manifest, with the manifest's environment and injected storage. The
  claim is written and read back as JSON, which leaves it as it is.
\<close>

text \<open>\<open>materialize\<close>: one source, a claim, no test.\<close>

definition materialize :: "node \<Rightarrow> files" where
  "materialize m = \<lparr>f_is_dir = True, f_claim = Some (Some (JObj (claim_from_manifest m))), f_sources = 1,
     f_has_test = False\<rparr>"

definition manifest_settings :: "string option \<Rightarrow> node \<Rightarrow> settings" where
  "manifest_settings at_version m =
     \<lparr>s_at_version = at_version, s_skip_forge = False, s_env_override = Some (env_from_manifest m),
      s_inject = inject_storage_from_manifest m\<rparr>"

text \<open>The file is \<open>None\<close> when it does not exist. \<open>T\<close> answers about the materialised directory,
  which has no test files.\<close>

definition adjudicate_file ::
  "nat \<Rightarrow> (utext \<Rightarrow> json option res) \<Rightarrow> tools \<Rightarrow> string option \<Rightarrow> utext option \<Rightarrow> report res" where
  "adjudicate_file d loads T at_version sol =
     (case sol of
        None \<Rightarrow> Inr (rep ''REJECT_MALFORMED'' SubmissionMissing)
      | Some src \<Rightarrow>
          bindR (extract_manifest loads src) (\<lambda>extracted. case extracted of
            Inl e \<Rightarrow> Inr (rep ''REJECT_MALFORMED'' (ManifestRejected e))
          | Inr m \<Rightarrow>
              (case validate_manifest m of
                 Some e \<Rightarrow> Inr (rep ''REJECT_MALFORMED'' (ManifestRejected e))
               | None \<Rightarrow>
                   adjudicate d (T\<lparr>o_root_name := ''submission'', o_test_files := []\<rparr>)
                     (manifest_settings at_version m) (materialize m))))"

end
