(* ===== verification/ManifestRunProps.thy ===== *)
theory ManifestRunProps
  imports ManifestProps AdjWitness ManifestRun
begin

text \<open>
  The manifest front end and the adjudicator together: both engines run the call the manifest
  declares, in the environment and from the storage it declares. The last section shows what the
  flag of a materialised claim does in a directory submission.
\<close>

lemma claim_args:
  assumes "validate_claim c e = go (a, ca, ss)"
  shows "a = jlist (dget_or e ''args'' (JList [])) \<and> ca = jlist (ctor_args_of e)"
proof -
  from assms obtain slots where
    "(case slots of Inl e' \<Rightarrow> stop (rep ''REJECT_MALFORMED'' (SlotsIllegal e'))
      | Inr ss' \<Rightarrow> go (jlist (dget_or e ''args'' (JList [])), jlist (ctor_args_of e), ss')) = go (a, ca, ss)"
    by (auto simp: validate_claim_def Let_def step_iffs)
  then show ?thesis by (cases slots) auto
qed

lemma manifest_claim_get:
  "jobj (jget (claim_from_manifest m) ''entry'')
     = [(''contract'', jget (jobj (jget m ''deploy'')) ''contract''),
        (''function'', jget (jobj (jget m ''entry'')) ''function''),
        (''args'', dget_or (jobj (jget m ''entry'')) ''args'' (JList [])),
        (''value'', JInt (int_of (dget_or (jobj (jget m ''entry'')) ''value'' (JInt 0)))),
        (''constructor_args'', dget_or (jobj (jget m ''deploy'')) ''args'' (JList []))]"
  "truthy (jget (claim_from_manifest m) ''_manifest'')"
  by (simp_all add: claim_from_manifest_def jget_def dget_or_def Let_def)

lemma manifest_value: "e_value (env_from_manifest m) = int_of (dget_or (jobj (jget m ''entry'')) ''value'' (JInt 0))"
proof -
  have v: "e_value (fold (set_env_field env) ENV_FIELDS e) = e_value e" for env e
    by (simp add: ENV_FIELDS_def set_env_field_id)
  have "int_of (JInt 0) = 0" by (simp add: int_of_def as_int_def)
  then show ?thesis
    unfolding env_from_manifest_def Let_def
    by (auto simp: v env_default_def dhas_def jget_def dget_or_def split: option.split)
qed

lemma cheat_manifest:
  assumes "cheat_stage T over True (Some ov) entry = go e"
  shows "\<exists>v. valid_value (dget_or entry ''value'' (JInt 0)) = Some v \<and> e = ov\<lparr>e_value := v\<rparr>"
  using assms by (auto simp: cheat_stage_def Let_def step_iffs split: option.splits)

lemma jlist_ctor: "jlist (ctor_args_of e) = jlist (dget_or e ''constructor_args'' (JList []))"
  by (cases "dget_or e ''constructor_args'' (JList [])") (auto simp: ctor_args_of_def Let_def)

lemma adjudicate_file_cases:
  assumes "adjudicate_file d loads T v (Some src) = Inr r" "qualifies r"
  obtains m where "extract_manifest loads src = Inr (Inr m)" "validate_manifest m = None"
    "adjudicate d (T\<lparr>o_root_name := ''submission'', o_test_files := []\<rparr>) (manifest_settings v m) (materialize m)
      = Inr r"
proof -
  have q: "\<not> qualifies (rep ''REJECT_MALFORMED'' w)" for w by (simp add: qualifies_def)
  from assms obtain x where x: "extract_manifest loads src = Inr x"
    by (auto simp: adjudicate_file_def bindR_eq_Inr)
  with assms q obtain m where m: "x = Inr m" by (cases x) (auto simp: adjudicate_file_def)
  with x assms q have "validate_manifest m = None"
    by (cases "validate_manifest m") (auto simp: adjudicate_file_def)
  with x m assms show ?thesis by (intro that [of m]) (simp_all add: adjudicate_file_def)
qed

text \<open>C13: when a single-file submission qualifies, its manifest has been extracted and is valid, and
  the stages before the classification were passed with exactly what the manifest declares: the
  contract, the function, both argument lists, the environment and the injected storage; unless
  the manifest claims an over-acceptance, the EVM was measured with them.\<close>

theorem manifest_declares_call:
  assumes "adjudicate_file d loads T v (Some src) = Inr r" "qualifies r"
  shows "\<exists>m sig k measured e1.
    extract_manifest loads src = Inr (Inr m) \<and> validate_manifest m = None
    \<and> passes_stages d (T\<lparr>o_root_name := ''submission'', o_test_files := []\<rparr>) (manifest_settings v m)
        (claim_from_manifest m) sig k measured e1
    \<and> k_contract k = py_str (jget (jobj (jget m ''deploy'')) ''contract'')
    \<and> k_function k = py_str (jget (jobj (jget m ''entry'')) ''function'')
    \<and> k_args k = jlist (dget_or (jobj (jget m ''entry'')) ''args'' (JList []))
    \<and> k_ctor_args k = jlist (dget_or (jobj (jget m ''deploy'')) ''args'' (JList []))
    \<and> k_env k = env_from_manifest m \<and> k_inject k = inject_storage_from_manifest m
    \<and> (\<not> over_accept_claim (claim_from_manifest m) \<longrightarrow>
         (\<exists>ms. measured = Some ms \<and> e1 = (env_from_manifest m)\<lparr>e_self := Some (ms_self ms)\<rparr>))"
proof -
  let ?T = "T\<lparr>o_root_name := ''submission'', o_test_files := []\<rparr>"
  from assms obtain m where m: "extract_manifest loads src = Inr (Inr m)" "validate_manifest m = None"
    and a: "adjudicate d ?T (manifest_settings v m) (materialize m) = Inr r"
    by (rule adjudicate_file_cases)
  obtain claim sig k measured e1 where l: "load_submission (materialize m) = go claim"
    and p: "passes_stages d ?T (manifest_settings v m) claim sig k measured e1"
    using a
  proof (cases rule: adjudicate_cases)
    case stop
    with assms(2) show ?thesis by (auto simp: verdict_in_def qualifies_def NON_QUALIFYING_def)
  next
    case (go claim)
    show ?thesis by (rule pipeline_go [OF go(2)]) (use go(1) that in blast)
  qed
  have claim: "claim = claim_from_manifest m"
    using l by (auto simp: load_submission_def materialize_def Let_def step_iffs split: option.splits json.splits)
  let ?entry = "jobj (jget (claim_from_manifest m) ''entry'')"
  have settings: "s_env_override (manifest_settings v m) = Some (env_from_manifest m)"
    "s_inject (manifest_settings v m) = inject_storage_from_manifest m"
    "s_skip_forge (manifest_settings v m) = False" by (simp_all add: manifest_settings_def)
  have entry: "jget ?entry ''contract'' = jget (jobj (jget m ''deploy'')) ''contract''"
    "jget ?entry ''function'' = jget (jobj (jget m ''entry'')) ''function''"
    "dget_or ?entry ''args'' (JList []) = dget_or (jobj (jget m ''entry'')) ''args'' (JList [])"
    "jlist (ctor_args_of ?entry) = jlist (dget_or (jobj (jget m ''deploy'')) ''args'' (JList []))"
    "dget_or ?entry ''value'' (JInt 0) = JInt (e_value (env_from_manifest m))"
    unfolding manifest_claim_get jlist_ctor manifest_value by (simp_all add: jget_def dget_or_def)
  have ps: "k_contract k = py_str (jget ?entry ''contract'')" "k_function k = py_str (jget ?entry ''function'')"
    "k_inject k = inject_storage_from_manifest m"
    "validate_claim claim ?entry = go (k_args k, k_ctor_args k, k_slots k)"
    "cheat_stage ?T (over_accept_claim claim) True (Some (env_from_manifest m)) ?entry = go (k_env k)"
    "real_behaviour d ?T v (over_accept_claim claim) False True claim sig k = go (measured, e1)"
    using p unfolding passes_stages_def Let_def claim settings manifest_claim_get(2)
    by (simp_all add: manifest_settings_def manifest_claim_get(2))
  have env: "k_env k = env_from_manifest m"
    using cheat_manifest [OF ps(5)] unfolding entry by (auto simp: valid_value_def split: if_splits)
  have "\<exists>ms. measured = Some ms \<and> e1 = (env_from_manifest m)\<lparr>e_self := Some (ms_self ms)\<rparr>"
    if "\<not> over_accept_claim claim"
  proof -
    from ps(6) that obtain ms where "measured = Some ms"
      by (auto simp: real_behaviour_def step_iffs split: option.splits)
    moreover from this p obtain s where "e1 = with_self (k_env k) (ms_self ms)"
      using stages_measured by blast
    ultimately show ?thesis by (simp add: with_self_def env)
  qed
  moreover have "k_args k = jlist (dget_or (jobj (jget m ''entry'')) ''args'' (JList []))"
    "k_ctor_args k = jlist (dget_or (jobj (jget m ''deploy'')) ''args'' (JList []))"
    using claim_args [OF ps(4)] unfolding entry by simp_all
  ultimately show ?thesis
    using m p ps(1,2,3) env unfolding entry claim by blast
qed

section \<open>The flag of a materialised claim\<close>

text \<open>The flag \<open>_manifest\<close> is a field of the claim. In a directory submission it makes the test
  directory optional and Foundry's answer irrelevant.\<close>

lemma manifest_flag_skips_test:
  assumes "load_submission fs = go claim" "truthy (jget claim ''_manifest'')"
  shows "adjudicate d (T\<lparr>o_forge := c\<rparr>) st fs = adjudicate d T st fs
    \<and> load_submission (fs\<lparr>f_has_test := False\<rparr>) = go claim"
proof -
  let ?U = "T\<lparr>o_forge := c\<rparr>"
  have fu: "o_timeout ?U = o_timeout T" "o_entry_ast ?U = o_entry_ast T" "o_asts ?U = o_asts T"
    "o_parse_asts ?U = o_parse_asts T" "o_contract_asts ?U = o_contract_asts T"
    "o_test_files ?U = o_test_files T" "o_test_output ?U = o_test_output T" "o_solc ?U = o_solc T"
    "o_measure ?U = o_measure T" "o_out_path ?U = o_out_path T" "o_entry_file ?U = o_entry_file T" by simp_all
  have ast: "entry_ast ?U = entry_ast T" by (simp add: entry_ast_def)
  have ann: "annotate ?U = annotate T" by (simp add: annotate_def submission_asts_def)
  have sig: "validate_signature d ?U = validate_signature d T"
    by (intro ext) (unfold validate_signature_def fu, rule refl)
  have scan: "scan_asts ?U over = scan_asts T over" for over
    unfolding scan_asts_def fu ..
  have cheat: "cheat_stage ?U = cheat_stage T"
    by (intro ext) (unfold cheat_stage_def scan fu, rule refl)
  have solc: "solc_reject_stage ?U claim = solc_reject_stage T claim" for claim
    unfolding solc_reject_stage_def fu ..
  have meas: "measure_stage d ?U v s k = measure_stage d T v s k" for v s k
    unfolding measure_stage_def ast fu ..
  have forge: "forge_stage ?U True = forge_stage T True" by (simp add: forge_stage_def)
  have real: "real_behaviour d ?U v over skip True claim = real_behaviour d T v over skip True claim"
    for v over skip claim
    by (intro ext) (unfold real_behaviour_def forge solc meas, rule refl)
  have gasts: "gate_asts ?U over = gate_asts T over" for over
    unfolding gate_asts_def fu ..
  have gate: "gate_stage ?U = gate_stage T"
    by (intro ext) (unfold gate_stage_def gasts fu, rule refl)
  have lean: "run_lean d ?U = run_lean d T"
    by (intro ext) (simp add: run_lean_def lean_call_of_def lean_calldata_def ast cong: option.case_cong)
  have res: "resolve_errors ?U v sel raw = resolve_errors T v sel raw" for v sel raw
    unfolding resolve_errors_def ast ..
  have rev: "revert_errors d ?U v m raw = revert_errors d T v m raw" for v m raw
    unfolding revert_errors_def res ast ..
  have cmp: "compare_stage d ?U v claim sig m sl = compare_stage d T v claim sig m sl" for v claim sig m sl
    unfolding compare_stage_def rev ast ann ..
  have cls: "classify d ?U = classify d T"
    by (intro ext) (unfold classify_def classify_over_accept_def classify_fail_closed_def cmp ann, rule refl)
  have "pipeline d ?U st claim = pipeline d T st claim"
    using assms(2) unfolding pipeline_def Let_def sig cheat gate lean cls by (simp add: real)
  moreover have "load_submission (fs\<lparr>f_has_test := False\<rparr>) = go claim"
    using assms by (auto simp: load_submission_def Let_def step_iffs split: option.splits json.splits)
  ultimately show ?thesis using assms(1) by (simp add: adjudicate_def)
qed

text \<open>The value a manifest gives for the deployment is validated and then not used.\<close>

lemma deploy_value_ignored:
  fixes m v defines "m' \<equiv> dput m ''deploy'' (JObj (dput (jobj (jget m ''deploy'')) ''value'' v))"
  shows "claim_from_manifest m' = claim_from_manifest m" "env_from_manifest m' = env_from_manifest m"
    "inject_storage_from_manifest m' = inject_storage_from_manifest m"
proof -
  have g: "k \<noteq> ''deploy'' \<Longrightarrow> jget m' k = jget m k \<and> dget_or m' k w = dget_or m k w" for k w
    by (simp add: m'_def jget_def dget_or_def)
  have d: "k \<noteq> ''value'' \<Longrightarrow> jget (jobj (jget m' ''deploy'')) k = jget (jobj (jget m ''deploy'')) k
      \<and> dget_or (jobj (jget m' ''deploy'')) k w = dget_or (jobj (jget m ''deploy'')) k w" for k w
    by (simp add: m'_def jget_def dget_or_def)
  show "claim_from_manifest m' = claim_from_manifest m"
    unfolding claim_from_manifest_def Let_def note_of_def fuel_of_def by (simp add: g d)
  show "env_from_manifest m' = env_from_manifest m" by (simp add: env_from_manifest_def g)
  show "inject_storage_from_manifest m' = inject_storage_from_manifest m"
    by (simp add: inject_storage_from_manifest_def g)
qed

section \<open>A single-file submission\<close>

text \<open>The demo contract with a manifest; the importer reports a node it does not implement.\<close>

definition file_manifest :: node where
  "file_manifest = [(''deploy'', JObj [(''contract'', JStr ''C'')]), (''entry'', JObj [(''function'', JStr ''f'')])]"

definition file_loads :: "utext \<Rightarrow> json option res" where
  "file_loads t = Inr (Some (JObj file_manifest))"

definition file_claim :: node where
  "file_claim = claim_from_manifest file_manifest"

definition file_tools :: tools where
  "file_tools = reject_tools\<lparr>o_root_name := ''submission'', o_test_files := []\<rparr>"

lemma file_facts:
  "validate_manifest file_manifest = None" "load_submission (materialize file_manifest) = go file_claim"
  "validate_claim file_claim (jobj (jget file_claim ''entry'')) = go ([], [], [])"
  "over_accept_claim file_claim = False" "truthy (jget file_claim ''_manifest'') = True"
  "jget (jobj (jget file_claim ''entry'')) ''contract'' = JStr ''C''"
  "jget (jobj (jget file_claim ''entry'')) ''function'' = JStr ''f''"
  "valid_value (dget_or (jobj (jget file_claim ''entry'')) ''value'' (JInt 0)) = Some 0"
  "inject_storage_from_manifest file_manifest = []" "env_from_manifest file_manifest = env_default"
  by code_simp+

lemma file_extract: "extract_manifest file_loads framed_file = Inr (Inr file_manifest)"
  by (simp add: extract_manifest_def framed_file_def MANIFEST_BEGIN_def MANIFEST_END_def count_of_def
      split_on.simps in_open_comment_def open_comment_def close_comment_def file_loads_def)

lemma file_tools_eq:
  "entry_ast file_tools = Some demo_ast" "o_entry_ast file_tools = Val demo_ast"
  "o_asts file_tools = Val [demo_src]" "o_contract_asts file_tools = [Some demo_ast]"
  "o_test_files file_tools = []" "o_test_output file_tools = None" "o_entry_file file_tools = ''C.sol''"
  "o_measure file_tools = (\<lambda>_. Some ''ok|0x|self=0x1|origin=0x2|evt=|sto='')"
  "o_import file_tools = Exit 1 [] (ulit ''unimplemented nodes present: Foo'')" "o_timeout file_tools = 400"
  by (simp_all add: file_tools_def reject_tools_def demo_tools_def entry_ast_def)

lemma file_stages:
  "passes_stages d file_tools (manifest_settings None file_manifest) file_claim (Some demo_sig) demo_call
     (Some demo_measured) demo_env"
proof -
  let ?entry = "jobj (jget file_claim ''entry'')"
  have f: "filterR f [] = Inr []" for f :: "string \<Rightarrow> bool res" by (simp add: filterR_def)
  then have bad: "bad_param_types d S row ext [] = Inr []" for S row ext
    by (simp add: bad_param_types_def split: option.splits)
  have sig: "es_params demo_sig = []" "es_overloads demo_sig = 1" "es_returns demo_sig = []"
    by (simp_all add: demo_sig_def)
  have vs: "validate_signature d file_tools None ?entry [] [] = go demo_sig"
    unfolding validate_signature_def Let_def file_facts by (simp add: file_tools_eq demo_ast_facts bad sig)
  have ch: "cheat_stage file_tools False True (Some env_default) ?entry = go (k_env demo_call)"
    using demo_scan file_facts(8)
    by (simp add: cheat_stage_def scan_asts_def file_tools_eq demo_call_def Let_def)
  have c: "build_calldata [] d (es_selector demo_sig) [] (Some (es_params demo_sig)) = Inr ''26121ff0''"
    "encode_args_abi [] d [] (Some []) = Inr []"
    by (simp_all add: build_calldata_def encode_args_abi_def demo_sig_def pack_def to_hex_def)
  have m: "measure_evm (\<lambda>_. Some ''ok|0x|self=0x1|origin=0x2|evt=|sto='') out nm (Some demo_ast) d demo_sig
      [] e [] [] = Inr (Some demo_measured)" for out nm e
    using c demo_parse by (simp add: measure_evm_def demo_ast_facts demo_sig_def)
  have k: "k_args demo_call = []" "k_ctor_args demo_call = []" "k_inject demo_call = []"
    "k_contract demo_call = ''C''" "k_function demo_call = ''f''" "k_slots demo_call = []"
    "with_self (k_env demo_call) (ms_self demo_measured) = demo_env"
    by (simp_all add: demo_call_def demo_env_def demo_measured_def)
  have rb: "real_behaviour d file_tools None False False True file_claim (Some demo_sig) demo_call
      = go (Some demo_measured, demo_env)"
    unfolding real_behaviour_def forge_stage_def measure_stage_def
    by (simp add: file_tools_eq channel_scope_none sig m k)
  have gs: "gate_stage file_tools None False ?entry = go ()"
    using demo_gate [of "Exit 0 [] []" "Timeout []" "Timeout []"]
    by (simp add: gate_stage_def gate_asts_def file_tools_eq file_facts demo_get demo_tools_def)
  show ?thesis
    unfolding passes_stages_def Let_def file_facts
    using file_facts(3) vs ch rb gs k
    by (simp add: manifest_settings_def file_facts(9,10))
qed

lemma file_adjudicate:
  "\<exists>r. adjudicate_file d file_loads reject_tools None (Some framed_file) = Inr r \<and> qualifies r"
proof -
  have rl: "run_lean d file_tools (Some demo_sig) (demo_call\<lparr>k_env := demo_env\<rparr>) = Inr reject_result"
  proof -
    have "run_solc_import 400 (Exit 1 [] (ulit ''unimplemented nodes present: Foo''))
        = Inr (False, ulit ''exit_1'', [])" by code_simp
    moreover have "fail_closed_at ''import'' None (ulit ''importer '' @ ulit ''exit_1'' @ ulit '': '' @
        take 2000 (tstrip (stderr_of (Exit 1 [] (ulit ''unimplemented nodes present: Foo''))))) False
        = reject_result" by code_simp
    ultimately show ?thesis
      unfolding run_lean_def run_solidity_lean_def file_tools_eq by (simp del: ulit_simps)
  qed
  have "r_verdict (classify_fail_closed file_tools reject_result) = ''COVERAGE_GAP''"
    by (intro classify_closed_gap) code_simp+
  then have q: "qualifies (classify_fail_closed file_tools reject_result)" by (simp add: qualifies_def)
  have "classify d file_tools None False file_claim (Some demo_sig) (Some demo_measured) reject_result
      = go (classify_fail_closed file_tools reject_result)"
    by (simp add: classify_def reject_result_def fail_closed_at_def)
  then have "pipeline d file_tools (manifest_settings None file_manifest) file_claim
      = go (classify_fail_closed file_tools reject_result)"
    unfolding pipeline_stages [OF file_stages] by (simp add: rl file_facts manifest_settings_def)
  then have "adjudicate d file_tools (manifest_settings None file_manifest) (materialize file_manifest)
      = Inr (classify_fail_closed file_tools reject_result)"
    unfolding adjudicate_eq file_facts(2) by simp
  with q show ?thesis
    by (simp add: adjudicate_file_def file_extract file_facts(1) file_tools_def [symmetric])
qed

theorem manifest_declares_call_witness:
  "\<exists>m (k :: call). extract_manifest file_loads framed_file = Inr (Inr m) \<and> k_env k = env_from_manifest m"
proof -
  obtain r where r: "adjudicate_file 1 file_loads reject_tools None (Some framed_file) = Inr r" "qualifies r"
    using file_adjudicate by blast
  from manifest_declares_call [OF this] show ?thesis by blast
qed

end
