(* ===== verification/ImportTypes.thy ===== *)
theory ImportTypes
  imports SolcAst
begin

text \<open>
  \<open>scripts/solc_ast_to_lean_source.py\<close>, the importer: literals of the Lean text, paths, types and
  parameters. An \<open>ImportError\<close> carries its message; other exceptions are those of Python. A
  recursive function takes the stack it may use and passes one less to its callees. An argument
  that is not an object raises \<open>AttributeError\<close>, as \<open>.get\<close> does.
\<close>

section \<open>Errors\<close>

datatype ierr = Fail string | Exn pyexn

type_synonym 'a imp = "ierr + 'a"

definition fail :: "string \<Rightarrow> 'a imp" where
  "fail msg = Inl (Fail msg)"

definition raises :: "'a res \<Rightarrow> 'a imp" where
  "raises m = (case m of Inl e \<Rightarrow> Inl (Exn e) | Inr x \<Rightarrow> Inr x)"

text \<open>\<open>if not isinstance(v, t): fail(msg)\<close>, and a receiver of \<open>.get\<close>.\<close>

definition need_str :: "string \<Rightarrow> json \<Rightarrow> string imp" where
  "need_str msg v = (case v of JStr s \<Rightarrow> Inr s | _ \<Rightarrow> fail msg)"

definition need_obj :: "string \<Rightarrow> json \<Rightarrow> json imp" where
  "need_obj msg v = (case v of JObj d \<Rightarrow> Inr v | _ \<Rightarrow> fail msg)"

definition need_list :: "string \<Rightarrow> json \<Rightarrow> json list imp" where
  "need_list msg v = (case v of JList xs \<Rightarrow> Inr xs | _ \<Rightarrow> fail msg)"

definition need :: "string \<Rightarrow> bool \<Rightarrow> unit imp" where
  "need msg b = (if b then Inr () else fail msg)"

definition on_node :: "json \<Rightarrow> (node \<Rightarrow> 'a imp) \<Rightarrow> 'a imp" where
  "on_node j f = (case j of JObj d \<Rightarrow> f d | _ \<Rightarrow> Inl (Exn AttributeError))"

lemma on_node_cong [fundef_cong]:
  "j = j' \<Longrightarrow> (\<And>d. j' = JObj d \<Longrightarrow> f d = g d) \<Longrightarrow> on_node j f = on_node j' g"
  by (cases j') (auto simp: on_node_def)

text \<open>A look-up that fails with the message and the \<open>repr\<close> of the key.\<close>

definition lookup_or_fail :: "string \<Rightarrow> (string \<times> string) list \<Rightarrow> string \<Rightarrow> string imp" where
  "lookup_or_fail msg mapping v =
     (case dget mapping v of Some x \<Rightarrow> Inr x | None \<Rightarrow> fail (msg @ repr_str v))"

section \<open>Lean text\<close>

text \<open>\<open>json.dumps(value, ensure_ascii=False)\<close>.\<close>

definition json_char :: "char \<Rightarrow> string" where
  "json_char c =
     (let n = cp c; bs = CHR 0x5C in
      if n = 0x22 \<or> n = 0x5C then [bs, c]
      else if n = 8 then [bs, CHR ''b''] else if n = 9 then [bs, CHR ''t'']
      else if n = 10 then [bs, CHR ''n''] else if n = 12 then [bs, CHR ''f'']
      else if n = 13 then [bs, CHR ''r'']
      else if n < 32 then [bs, CHR ''u'', CHR ''0'', CHR ''0'', digit_char (n div 16), digit_char (n mod 16)]
      else [c])"

definition lean_string :: "string \<Rightarrow> string" where
  "lean_string s = CHR 0x22 # concat (map json_char s) @ [CHR 0x22]"

definition lean_list :: "string list \<Rightarrow> string" where
  "lean_list items = ''['' @ join '', '' items @ '']''"

definition lean_option :: "string option \<Rightarrow> string" where
  "lean_option v = (case v of None \<Rightarrow> ''none'' | Some x \<Rightarrow> ''some '' @ x)"

definition lean_bool :: "bool \<Rightarrow> string" where
  "lean_bool b = (if b then ''true'' else ''false'')"

definition ns_start :: "char \<Rightarrow> bool" where
  "ns_start c \<longleftrightarrow> (let n = cp c in (65 \<le> n \<and> n \<le> 90) \<or> (97 \<le> n \<and> n \<le> 122) \<or> n = 95)"

definition ns_char :: "char \<Rightarrow> bool" where
  "ns_char c \<longleftrightarrow> ns_start c \<or> (48 \<le> cp c \<and> cp c \<le> 57) \<or> cp c = 39"

definition ns_segment :: "string \<Rightarrow> bool" where
  "ns_segment s = (case s of [] \<Rightarrow> False | c # cs \<Rightarrow> ns_start c \<and> list_all ns_char cs)"

definition namespace_segments :: "string \<Rightarrow> string list imp" where
  "namespace_segments namespace =
     (let segments = split_on ''.'' namespace in
      if list_all ns_segment segments then Inr segments
      else fail (''invalid Lean namespace '' @ repr_str namespace))"

section \<open>Paths\<close>

definition path_from_segments :: "string list \<Rightarrow> string imp" where
  "path_from_segments segments =
     (if segments = [] \<or> [] \<in> set segments then fail ''empty path segment''
      else Inr (''{ segments := '' @ lean_list (map lean_string segments) @ '' }''))"

definition path_from_name :: "string \<Rightarrow> string imp" where
  "path_from_name name = path_from_segments [name]"

text \<open>\<open>node.get("pathNode", {}).get("name")\<close>.\<close>

definition path_node_name :: "node \<Rightarrow> json imp" where
  "path_node_name d =
     (case dget d ''pathNode'' of None \<Rightarrow> Inr JNull | Some p \<Rightarrow> on_node p (\<lambda>n. Inr (jget n ''name'')))"

definition own_or_path_name :: "node \<Rightarrow> json imp" where
  "own_or_path_name d =
     (let n = jget d ''name'' in if truthy n then Inr n else path_node_name d)"

fun node_path_segments :: "nat \<Rightarrow> json \<Rightarrow> string list imp" where
  "node_path_segments 0 j = Inl (Exn RecursionError)"
| "node_path_segments (Suc s) j = on_node j (\<lambda>d.
     if nt_is d ''Identifier'' then
       bindR (need_str ''Identifier path missing name'' (jget d ''name'')) (\<lambda>n. Inr [n])
     else if fld_in d ''nodeType'' [''IdentifierPath'', ''UserDefinedTypeName''] then
       bindR (own_or_path_name d) (\<lambda>v.
       bindR (need_str (py_str (jget d ''nodeType'') @ '' missing name'') v) (\<lambda>n. Inr (split_on ''.'' n)))
     else if nt_is d ''MemberAccess'' then
       (let msg = ''MemberAccess path missing expression or memberName'' in
        bindR (need_obj msg (jget d ''expression'')) (\<lambda>e.
        bindR (need_str msg (jget d ''memberName'')) (\<lambda>m.
        bindR (node_path_segments s e) (\<lambda>base. Inr (base @ [m])))))
     else fail (''unsupported path node '' @ py_repr (jget d ''nodeType'')))"

definition path_from_node :: "nat \<Rightarrow> json \<Rightarrow> string imp" where
  "path_from_node s j = on_node j (\<lambda>d.
     if nt_is d ''Identifier'' then
       bindR (need_str ''Identifier path missing name'' (jget d ''name'')) path_from_name
     else if fld_in d ''nodeType'' [''IdentifierPath'', ''UserDefinedTypeName''] then
       bindR (own_or_path_name d) (\<lambda>v.
       bindR (need_str (py_str (jget d ''nodeType'') @ '' missing name'') v) (\<lambda>n.
         path_from_segments (split_on ''.'' n)))
     else if nt_is d ''MemberAccess'' then
       (let msg = ''MemberAccess path missing expression or memberName'' in
        bindR (need_obj msg (jget d ''expression'')) (\<lambda>e.
        bindR (need_str msg (jget d ''memberName'')) (\<lambda>m.
        bindR (node_path_segments s e) (\<lambda>base. path_from_segments (base @ [m])))))
     else fail (''unsupported path node '' @ py_repr (jget d ''nodeType'')))"

section \<open>Elementary types and numbers\<close>

definition digits :: "string \<Rightarrow> bool" where
  "digits s = list_all (\<lambda>c. 48 \<le> cp c \<and> cp c \<le> 57) s"

definition int_text :: "string \<Rightarrow> string imp" where
  "int_text s = bindR (raises (py_int_str 10 s)) (\<lambda>i. Inr (show_int i))"

text \<open>\<open>re.fullmatch(p + "([0-9]*)", s)\<close>.\<close>

definition digits_after :: "string \<Rightarrow> string \<Rightarrow> string option" where
  "digits_after p s =
     (if starts p s \<and> digits (drop (length p) s) then Some (drop (length p) s) else None)"

text \<open>\<open>re.fullmatch(p + "([0-9]+)x([0-9]+)", s)\<close>.\<close>

definition two_digits_after :: "string \<Rightarrow> string \<Rightarrow> (string \<times> string) option" where
  "two_digits_after p s =
     (if starts p s then
        (case part_at ''x'' (drop (length p) s) of
           Some (a, b) \<Rightarrow> if a \<noteq> [] \<and> b \<noteq> [] \<and> digits a \<and> digits b then Some (a, b) else None
         | None \<Rightarrow> None)
      else None)"

definition sized_type :: "string \<Rightarrow> string \<Rightarrow> string imp" where
  "sized_type ctor bits =
     bindR (int_text (if bits = [] then ''256'' else bits)) (\<lambda>n. Inr (ctor @ '' '' @ n))"

definition fixed_type :: "string \<Rightarrow> string \<times> string \<Rightarrow> string imp" where
  "fixed_type ctor ab =
     bindR (int_text (fst ab)) (\<lambda>m. bindR (int_text (snd ab)) (\<lambda>n. Inr (ctor @ '' '' @ m @ '' '' @ n)))"

definition named_types :: "(string \<times> string) list" where
  "named_types =
     [(''bool'', ''Ty.bool''), (''address'', ''Ty.address false''), (''address payable'', ''Ty.address true''),
      (''string'', ''Ty.string''), (''bytes'', ''Ty.bytes'')]"

definition type_from_name :: "string \<Rightarrow> string imp" where
  "type_from_name name =
     (case dget named_types name of
        Some t \<Rightarrow> Inr t
      | None \<Rightarrow>
     (case digits_after ''uint'' name of
        Some bits \<Rightarrow> sized_type ''Ty.uint'' bits
      | None \<Rightarrow>
     (case digits_after ''int'' name of
        Some bits \<Rightarrow> sized_type ''Ty.int'' bits
      | None \<Rightarrow>
     (case digits_after ''bytes'' name of
        Some (c # cs) \<Rightarrow> bindR (int_text (c # cs)) (\<lambda>n. Inr (''Ty.bytesN '' @ n))
      | _ \<Rightarrow>
      if name = ''fixed'' then Inr ''Ty.fixed 128 18''
      else if name = ''ufixed'' then Inr ''Ty.ufixed 128 18''
      else case two_digits_after ''fixed'' name of
        Some ab \<Rightarrow> fixed_type ''Ty.fixed'' ab
      | None \<Rightarrow>
     (case two_digits_after ''ufixed'' name of
        Some ab \<Rightarrow> fixed_type ''Ty.ufixed'' ab
      | None \<Rightarrow> fail (''unsupported Solidity elementary type '' @ repr_str name))))))"

definition unit_denominations :: "(string \<times> string) list" where
  "unit_denominations =
     [(''wei'', ''UnitDenomination.wei''), (''gwei'', ''UnitDenomination.gwei''),
      (''ether'', ''UnitDenomination.ether''), (''seconds'', ''UnitDenomination.seconds''),
      (''minutes'', ''UnitDenomination.minutes''), (''hours'', ''UnitDenomination.hours''),
      (''days'', ''UnitDenomination.days''), (''weeks'', ''UnitDenomination.weeks'')]"

definition unit_denomination :: "string \<Rightarrow> string imp" where
  "unit_denomination v = lookup_or_fail ''unsupported unit denomination '' unit_denominations v"

definition literal_number_nat :: "json \<Rightarrow> string imp" where
  "literal_number_nat j = on_node j (\<lambda>d.
     bindR (need ''expected numeric literal'' (nt_is d ''Literal'' \<and> jget d ''kind'' = JStr ''number'')) (\<lambda>_.
     case jget d ''value'' of
       JStr v \<Rightarrow> if v \<noteq> [] \<and> digits v then int_text v
                else fail ''numeric literal must be a decimal natural number''
     | _ \<Rightarrow> fail ''numeric literal must be a decimal natural number''))"

text \<open>The end of a pattern \<open>$\<close>: also before a final newline.\<close>

definition before_newline :: "string \<Rightarrow> string" where
  "before_newline s = (if s \<noteq> [] \<and> cp (last s) = 10 then butlast s else s)"

text \<open>\<open>re.search("\\[([0-9]+)\\]$", s)\<close>.\<close>

definition bracketed_digits :: "string \<Rightarrow> string option" where
  "bracketed_digits s =
     (case rpart_at ''['' (before_newline s) of
        Some (a, b) \<Rightarrow>
          if ends '']'' b \<and> butlast b \<noteq> [] \<and> digits (butlast b) then Some (butlast b) else None
      | None \<Rightarrow> None)"

text \<open>\<open>re.search(p + "([0-9]+)$", s)\<close> for a prefix without digits.\<close>

definition trailing_digits :: "string \<Rightarrow> string \<Rightarrow> string option" where
  "trailing_digits p s =
     (case rpart_at p (before_newline s) of
        Some (a, b) \<Rightarrow> if b \<noteq> [] \<and> digits b then Some b else None
      | None \<Rightarrow> None)"

definition type_descriptions :: "node \<Rightarrow> string \<Rightarrow> string option" where
  "type_descriptions d k =
     (case jget d ''typeDescriptions'' of
        JObj td \<Rightarrow> (case jget td k of JStr s \<Rightarrow> Some s | _ \<Rightarrow> None)
      | _ \<Rightarrow> None)"

text \<open>\<open>try: m except ImportError: pass\<close>, then \<open>f\<close>.\<close>

definition or_on_fail :: "'a imp \<Rightarrow> 'a imp \<Rightarrow> 'a imp" where
  "or_on_fail m f = (case m of Inl (Fail _) \<Rightarrow> f | _ \<Rightarrow> m)"

definition array_length_nat_from_node :: "node \<Rightarrow> string imp" where
  "array_length_nat_from_node d =
     (case Option.bind (type_descriptions d ''typeString'') bracketed_digits of
        Some n \<Rightarrow> int_text n
      | None \<Rightarrow>
         (let msg = ''ArrayTypeName length must resolve to a concrete static length'' in
          case jget d ''length'' of
            JObj l \<Rightarrow> if nt_is l ''Literal'' then or_on_fail (literal_number_nat (JObj l)) (fail msg) else fail msg
          | _ \<Rightarrow> fail msg))"

definition rational_digits :: "string \<Rightarrow> string option" where
  "rational_digits s =
     (if starts ''t_rational_'' s \<and> ends ''_by_1'' s then
        (let m = take (length s - 16) (drop 11 s) in
         if m \<noteq> [] \<and> digits m \<and> s = ''t_rational_'' @ m @ ''_by_1'' then Some m else None)
      else None)"

definition type_expression_length_nat_from_node :: "json \<Rightarrow> string imp" where
  "type_expression_length_nat_from_node j = on_node j (\<lambda>d.
     or_on_fail (literal_number_nat j)
       (case Option.bind (type_descriptions d ''typeString'') (trailing_digits ''int_const '') of
          Some n \<Rightarrow> int_text n
        | None \<Rightarrow>
       (case Option.bind (type_descriptions d ''typeIdentifier'') rational_digits of
          Some n \<Rightarrow> int_text n
        | None \<Rightarrow> fail ''array type expression length must resolve to a concrete static length'')))"

definition is_type_expression_node :: "node \<Rightarrow> bool" where
  "is_type_expression_node d =
     (case type_descriptions d ''typeIdentifier'' of Some s \<Rightarrow> starts ''t_type$'' s | None \<Rightarrow> False)"

end
