(* ===== verification/ImportParams.thy ===== *)
theory ImportParams
  imports ImportTypes
begin

text \<open>
  The importer: the tables of keywords, \<open>type_from_node\<close> and the functions on parameter lists. The
  recursive function is an argument of the helpers it calls back from (\<open>tf\<close>).
\<close>

section \<open>Tables\<close>

definition visibility_map :: "(string \<times> string) list" where
  "visibility_map =
     [(''public'', ''some Visibility.public_''), (''private'', ''some Visibility.private_''),
      (''internal'', ''some Visibility.internal_''),
      (''external'', ''some Visibility.external_''), (''default'', ''none'')]"

definition visibility :: "string \<Rightarrow> string imp" where
  "visibility v = lookup_or_fail ''unsupported visibility '' visibility_map v"

definition visibility_value_map :: "(string \<times> string) list" where
  "visibility_value_map =
     [(''public'', ''Visibility.public_''), (''private'', ''Visibility.private_''),
      (''internal'', ''Visibility.internal_''), (''external'', ''Visibility.external_'')]"

definition visibility_value :: "string \<Rightarrow> string imp" where
  "visibility_value v = lookup_or_fail ''unsupported visibility '' visibility_value_map v"

definition state_mutability_map :: "(string \<times> string) list" where
  "state_mutability_map =
     [(''pure'', ''StateMutability.pure''), (''view'', ''StateMutability.view''),
      (''nonpayable'', ''StateMutability.nonpayable''),
      (''payable'', ''StateMutability.payable'')]"

definition state_mutability :: "string \<Rightarrow> string imp" where
  "state_mutability v = lookup_or_fail ''unsupported state mutability '' state_mutability_map v"

definition function_kind_map :: "(string \<times> string) list" where
  "function_kind_map =
     [(''function'', ''FunctionKind.function''), (''freeFunction'', ''FunctionKind.function''),
      (''constructor'', ''FunctionKind.constructor''), (''receive'', ''FunctionKind.receive''),
      (''fallback'', ''FunctionKind.fallback'')]"

definition function_kind :: "string \<Rightarrow> string imp" where
  "function_kind v = lookup_or_fail ''unsupported function kind '' function_kind_map v"

definition var_mutability_map :: "(string \<times> string) list" where
  "var_mutability_map =
     [(''mutable'', ''VarMutability.mutable''), (''constant'', ''VarMutability.constant''),
      (''immutable'', ''VarMutability.immutable''), (''transient'', ''VarMutability.transient'')]"

definition var_mutability :: "string \<Rightarrow> string imp" where
  "var_mutability v = lookup_or_fail ''unsupported variable mutability '' var_mutability_map v"

definition binary_op_map :: "(string \<times> string) list" where
  "binary_op_map =
     [(''+'', ''BinaryOp.add''), (''-'', ''BinaryOp.sub''), (''*'', ''BinaryOp.mul''),
      (''/'', ''BinaryOp.div''), (''%'', ''BinaryOp.mod''), (''**'', ''BinaryOp.exp''),
      (''=='', ''BinaryOp.eq''), (''!='', ''BinaryOp.ne''), (''<'', ''BinaryOp.lt''),
      (''>'', ''BinaryOp.gt''), (''<='', ''BinaryOp.le''), (''>='', ''BinaryOp.ge''),
      (''&&'', ''BinaryOp.boolAnd''), (''||'', ''BinaryOp.boolOr''),
      (''&'', ''BinaryOp.bitAnd''), (''|'', ''BinaryOp.bitOr''), (''^'', ''BinaryOp.bitXor''),
      (''<<'', ''BinaryOp.shl''), (''>>'', ''BinaryOp.shr'')]"

definition binary_op :: "string \<Rightarrow> string imp" where
  "binary_op op = lookup_or_fail ''unsupported binary operator '' binary_op_map op"

definition using_binary_map :: "(string \<times> string) list" where
  "using_binary_map =
     [(''+'', ''BinaryOp.add''), (''-'', ''BinaryOp.sub''), (''*'', ''BinaryOp.mul''),
      (''/'', ''BinaryOp.div''), (''%'', ''BinaryOp.mod''), (''**'', ''BinaryOp.exp''),
      (''=='', ''BinaryOp.eq''), (''!='', ''BinaryOp.ne''), (''<'', ''BinaryOp.lt''),
      (''>'', ''BinaryOp.gt''), (''<='', ''BinaryOp.le''), (''>='', ''BinaryOp.ge''),
      (''&'', ''BinaryOp.bitAnd''), (''|'', ''BinaryOp.bitOr''), (''^'', ''BinaryOp.bitXor'')]"

definition assign_op_map :: "(string \<times> string) list" where
  "assign_op_map =
     [(''='', ''AssignOp.assign''), (''+='', ''AssignOp.addAssign''),
      (''-='', ''AssignOp.subAssign''), (''*='', ''AssignOp.mulAssign''),
      (''/='', ''AssignOp.divAssign''), (''%='', ''AssignOp.modAssign''),
      (''&='', ''AssignOp.bitAndAssign''), (''|='', ''AssignOp.bitOrAssign''),
      (''^='', ''AssignOp.bitXorAssign''), (''<<='', ''AssignOp.shlAssign''),
      (''>>='', ''AssignOp.shrAssign'')]"

definition assign_op :: "string \<Rightarrow> string imp" where
  "assign_op op = lookup_or_fail ''unsupported assignment operator '' assign_op_map op"

definition unary_op_map :: "(string \<times> string) list" where
  "unary_op_map =
     [(''!'', ''UnaryOp.logicalNot''), (''~'', ''UnaryOp.bitNot''), (''-'', ''UnaryOp.neg''),
      (''delete'', ''UnaryOp.delete'')]"

definition contract_kind_map :: "(string \<times> string) list" where
  "contract_kind_map =
     [(''contract'', ''ContractKind.contract''), (''interface'', ''ContractKind.interface''),
      (''library'', ''ContractKind.library'')]"

definition contract_kind :: "string \<Rightarrow> string imp" where
  "contract_kind v = lookup_or_fail ''unsupported contract kind '' contract_kind_map v"

definition using_operator :: "string \<Rightarrow> nat option \<Rightarrow> string imp" where
  "using_operator op param_count =
     (if op = ''~'' then Inr ''some (UsingOperator.unary UnaryOp.bitNot)''
      else if op = ''-'' \<and> param_count = Some 1 then Inr ''some (UsingOperator.unary UnaryOp.neg)''
      else case dget using_binary_map op of
        Some x \<Rightarrow> Inr (''some (UsingOperator.binary '' @ x @ '')'')
      | None \<Rightarrow> fail (''unsupported using operator '' @ repr_str op))"

definition unary_op :: "string \<Rightarrow> json \<Rightarrow> string imp" where
  "unary_op op prefix =
     (if op = ''++'' then Inr (if prefix = JBool True then ''UnaryOp.preIncrement'' else ''UnaryOp.postIncrement'')
      else if op = ''--'' then Inr (if prefix = JBool True then ''UnaryOp.preDecrement'' else ''UnaryOp.postDecrement'')
      else lookup_or_fail ''unsupported unary operator '' unary_op_map op)"

section \<open>Types\<close>

definition parameters_of :: "node \<Rightarrow> json list imp" where
  "parameters_of d =
     bindR (need ''expected ParameterList'' (nt_is d ''ParameterList'')) (\<lambda>_.
       need_list ''ParameterList.parameters must be a list'' (dget_or d ''parameters'' (JList [])))"

definition need_declaration :: "json \<Rightarrow> node imp" where
  "need_declaration p =
     (case p of
        JObj d \<Rightarrow> if nt_is d ''VariableDeclaration'' then Inr d
                  else fail ''function type parameter must be a VariableDeclaration''
      | _ \<Rightarrow> fail ''function type parameter must be a VariableDeclaration'')"

definition parameter_type_list :: "(json \<Rightarrow> string imp) \<Rightarrow> json \<Rightarrow> string imp" where
  "parameter_type_list tf j = on_node j (\<lambda>d.
     bindR (parameters_of d) (\<lambda>params.
     bindR (mapR (\<lambda>p. bindR (need_declaration p) (\<lambda>v.
              bindR (need_obj ''function type parameter missing typeName'' (jget v ''typeName'')) tf)) params)
       (\<lambda>types. Inr (lean_list types))))"

definition location_of :: "json \<Rightarrow> string imp" where
  "location_of location =
     (if location = JNull \<or> location = JStr ''default'' then Inr ''none''
      else if location = JStr ''memory'' then Inr ''some DataLocation.memory''
      else if location = JStr ''calldata'' then Inr ''some DataLocation.calldata''
      else if location = JStr ''storage'' then Inr ''some DataLocation.storage''
      else fail (''unsupported function type data location '' @ py_repr location))"

definition parameter_location_list :: "json \<Rightarrow> string imp" where
  "parameter_location_list j = on_node j (\<lambda>d.
     bindR (parameters_of d) (\<lambda>params.
     bindR (mapR (\<lambda>p. bindR (need_declaration p) (\<lambda>v. location_of (jget v ''storageLocation''))) params)
       (\<lambda>locations. Inr (lean_list locations))))"

definition elementary_type :: "node \<Rightarrow> string imp" where
  "elementary_type d =
     bindR (need_str ''ElementaryTypeName missing name'' (jget d ''name'')) (\<lambda>name.
       type_from_name (if name = ''address'' \<and> jget d ''stateMutability'' = JStr ''payable''
                       then ''address payable'' else name))"

definition user_type :: "node \<Rightarrow> string imp" where
  "user_type d =
     bindR (path_node_name d) (\<lambda>p.
     bindR (need_str ''UserDefinedTypeName missing name'' (if truthy p then p else jget d ''name'')) (\<lambda>path.
     bindR (path_from_segments (split_on ''.'' path)) (\<lambda>s. Inr (''Ty.user ('' @ s @ '')''))))"

definition mapping_type :: "(json \<Rightarrow> string imp) \<Rightarrow> node \<Rightarrow> string imp" where
  "mapping_type tf d =
     (let msg = ''Mapping missing keyType or valueType'' in
      bindR (need_obj msg (jget d ''keyType'')) (\<lambda>k.
      bindR (need_obj msg (jget d ''valueType'')) (\<lambda>v.
      bindR (tf k) (\<lambda>ks. bindR (tf v) (\<lambda>vs.
        Inr (''Ty.mapping ('' @ ks @ '') ('' @ vs @ '')''))))))"

definition array_type :: "(json \<Rightarrow> string imp) \<Rightarrow> node \<Rightarrow> string imp" where
  "array_type tf d =
     bindR (need_obj ''ArrayTypeName missing baseType'' (jget d ''baseType'')) (\<lambda>base.
     bindR (if jget d ''length'' = JNull then Inr ''none''
            else bindR (need_obj ''ArrayTypeName.length must be an object'' (jget d ''length'')) (\<lambda>_.
              bindR (array_length_nat_from_node d) (\<lambda>n. Inr (''some '' @ n)))) (\<lambda>len.
     bindR (tf base) (\<lambda>b. Inr (''Ty.array ('' @ b @ '') ('' @ len @ '')''))))"

definition function_type :: "(json \<Rightarrow> string imp) \<Rightarrow> node \<Rightarrow> string imp" where
  "function_type tf d =
     (let msg = ''FunctionTypeName missing parameter or return type list'' in
      bindR (need_obj msg (jget d ''parameterTypes'')) (\<lambda>params.
      bindR (need_obj msg (jget d ''returnParameterTypes'')) (\<lambda>returns.
      bindR (parameter_type_list tf params) (\<lambda>pt.
      bindR (parameter_location_list params) (\<lambda>pl.
      bindR (parameter_type_list tf returns) (\<lambda>rt.
      bindR (parameter_location_list returns) (\<lambda>rl.
      bindR (state_mutability (py_str (dget_or d ''stateMutability'' (JStr ''nonpayable'')))) (\<lambda>sm.
      bindR (visibility_value (py_str (dget_or d ''visibility'' (JStr ''internal'')))) (\<lambda>vis.
        Inr (''Ty.functionWithLocations '' @ pt @ '' '' @ pl @ '' '' @ rt @ '' '' @ rl @ '' '' @ sm @ '' '' @ vis))))))))))"

definition type_body :: "(json \<Rightarrow> string imp) \<Rightarrow> node \<Rightarrow> string imp" where
  "type_body tf d =
     (if nt_is d ''ElementaryTypeName'' then elementary_type d
      else if nt_is d ''UserDefinedTypeName'' then user_type d
      else if nt_is d ''Mapping'' then mapping_type tf d
      else if nt_is d ''ArrayTypeName'' then array_type tf d
      else if nt_is d ''FunctionTypeName'' then function_type tf d
      else fail (''unsupported type node '' @ py_repr (jget d ''nodeType'')))"

primrec type_from_node :: "nat \<Rightarrow> json \<Rightarrow> string imp" where
  "type_from_node 0 j = Inl (Exn RecursionError)"
| "type_from_node (Suc s) j = on_node j (type_body (type_from_node s))"

section \<open>Type expressions\<close>

definition array_type_expression :: "(json \<Rightarrow> string imp) \<Rightarrow> node \<Rightarrow> string imp" where
  "array_type_expression tef d =
     bindR (need_obj ''array type expression missing baseExpression'' (jget d ''baseExpression'')) (\<lambda>base.
     bindR (if jget d ''indexExpression'' = JNull then Inr ''none''
            else bindR (need_obj ''array type expression index must be an object'' (jget d ''indexExpression''))
              (\<lambda>index. bindR (type_expression_length_nat_from_node index) (\<lambda>n. Inr (''some '' @ n)))) (\<lambda>len.
     bindR (tef base) (\<lambda>b. Inr (''Ty.array ('' @ b @ '') ('' @ len @ '')''))))"

definition type_expression_body ::
  "nat \<Rightarrow> (json \<Rightarrow> string imp) \<Rightarrow> node \<Rightarrow> string imp" where
  "type_expression_body s tef d =
     (if nt_is d ''ElementaryTypeNameExpression'' then
        bindR (need_obj ''ElementaryTypeNameExpression missing typeName'' (jget d ''typeName'')) (type_from_node s)
      else if nt_is d ''Identifier'' then
        bindR (need_str ''type Identifier missing name'' (jget d ''name'')) (\<lambda>n.
        bindR (path_from_name n) (\<lambda>p. Inr (''Ty.user ('' @ p @ '')'')))
      else if nt_is d ''MemberAccess'' then
        bindR (node_path_segments s (JObj d)) (\<lambda>segs.
        bindR (path_from_segments segs) (\<lambda>p. Inr (''Ty.user ('' @ p @ '')'')))
      else if nt_is d ''IndexAccess'' \<and> is_type_expression_node d then array_type_expression tef d
      else fail (''unsupported type expression node '' @ py_repr (jget d ''nodeType'')))"

primrec type_from_expression_node :: "nat \<Rightarrow> json \<Rightarrow> string imp" where
  "type_from_expression_node 0 j = Inl (Exn RecursionError)"
| "type_from_expression_node (Suc s) j =
     on_node j (type_expression_body s (type_from_expression_node s))"

definition is_payable_address_type_node :: "json \<Rightarrow> bool" where
  "is_payable_address_type_node j =
     (case j of
        JObj d \<Rightarrow> nt_is d ''ElementaryTypeName'' \<and> jget d ''name'' = JStr ''address''
                  \<and> jget d ''stateMutability'' = JStr ''payable''
      | _ \<Rightarrow> False)"

section \<open>Parameters\<close>

text \<open>\<open>isinstance(name, str) and name\<close>.\<close>

definition name_part :: "json \<Rightarrow> string" where
  "name_part name = (case name of JStr (c # cs) \<Rightarrow> lean_option (Some (lean_string (c # cs))) | _ \<Rightarrow> ''none'')"

definition location_part :: "json \<Rightarrow> string" where
  "location_part location =
     (if location = JStr ''memory'' then ''some DataLocation.memory''
      else if location = JStr ''calldata'' then ''some DataLocation.calldata''
      else if location = JStr ''storage'' then ''some DataLocation.storage''
      else ''none'')"

definition parameter_from_node :: "nat \<Rightarrow> json \<Rightarrow> string imp" where
  "parameter_from_node s j = on_node j (\<lambda>d.
     bindR (need ''expected VariableDeclaration parameter'' (nt_is d ''VariableDeclaration'')) (\<lambda>_.
     bindR (need_obj ''parameter missing typeName'' (jget d ''typeName'')) (\<lambda>t.
     bindR (type_from_node s t) (\<lambda>ty.
       Inr (''{ name := '' @ name_part (jget d ''name'') @ '', ty := '' @ ty @ '', location := ''
            @ location_part (jget d ''storageLocation'') @ '' }'')))))"

definition var_binding_from_node :: "nat \<Rightarrow> json \<Rightarrow> string imp" where
  "var_binding_from_node s j =
     (case j of
        JNull \<Rightarrow> Inr ''{ name := none, ty := none, location := none }''
      | JObj d \<Rightarrow> parameter_from_node s j
      | _ \<Rightarrow> fail ''unsupported tuple-style variable declaration'')"

definition parameter_list :: "nat \<Rightarrow> json \<Rightarrow> string imp" where
  "parameter_list s j = on_node j (\<lambda>d.
     bindR (parameters_of d) (\<lambda>params.
     bindR (mapR (parameter_from_node s) params) (\<lambda>ps. Inr (lean_list ps))))"

definition override_specifier_from_node :: "nat \<Rightarrow> json \<Rightarrow> string imp" where
  "override_specifier_from_node s j =
     (case j of
        JNull \<Rightarrow> Inr ''none''
      | JObj d \<Rightarrow>
          bindR (need ''override specifier must be an OverrideSpecifier'' (nt_is d ''OverrideSpecifier'')) (\<lambda>_.
          bindR (need_list ''OverrideSpecifier.overrides must be a list'' (dget_or d ''overrides'' (JList []))) (\<lambda>os.
          bindR (need ''OverrideSpecifier.overrides entries must be nodes'' (list_all is_obj os)) (\<lambda>_.
          bindR (mapR (path_from_node s) os) (\<lambda>ps. Inr (''some { bases := '' @ lean_list ps @ '' }'')))))
      | _ \<Rightarrow> fail ''override specifier must be an OverrideSpecifier'')"

end
