(* ===== verification/ImportExpr.thy ===== *)
theory ImportExpr
  imports ImportParams
begin

text \<open>
  The importer: \<open>expr_from_node\<close>, one definition per node type, with the functions it calls on
  arguments, call options and tuple components (\<open>ef\<close> is the recursive function).
\<close>

section \<open>Tables of the module\<close>

text \<open>\<open>FUNCTION_PARAM_COUNT_BY_ID\<close> and \<open>FUNCTION_NAME_BY_ID\<close>, filled once per module.\<close>

record tables =
  t_counts :: "(int \<times> nat) list"
  t_names :: "(int \<times> string) list"

text \<open>\<open>isinstance(x, int)\<close>; a \<open>bool\<close> is the key 0 or 1.\<close>

definition id_value :: "json \<Rightarrow> int option" where
  "id_value x = (case x of JInt i \<Rightarrow> Some i | JBool b \<Rightarrow> Some (if b then 1 else 0) | _ \<Rightarrow> None)"

definition user_defined_operator_name :: "tables \<Rightarrow> node \<Rightarrow> string option imp" where
  "user_defined_operator_name tb d =
     (case id_value (jget d ''function'') of
        None \<Rightarrow> Inr None
      | Some i \<Rightarrow>
          (case dget (t_names tb) i of
             Some n \<Rightarrow> Inr (Some n)
           | None \<Rightarrow> fail (''user-defined operator references unknown function id '' @ py_repr (jget d ''function''))))"

section \<open>Arguments\<close>

definition positional :: "(json \<Rightarrow> string imp) \<Rightarrow> json \<Rightarrow> string imp" where
  "positional ef a = bindR (ef a) (\<lambda>s. Inr (''Arg.positional ('' @ s @ '')''))"

definition named :: "string \<Rightarrow> (json \<Rightarrow> string imp) \<Rightarrow> string \<times> json \<Rightarrow> string imp" where
  "named ctor ef p = bindR (ef (snd p)) (\<lambda>s. Inr (ctor @ '' '' @ lean_string (fst p) @ '' ('' @ s @ '')''))"

text \<open>The names when they are as many strings as there are nodes.\<close>

definition matching_names :: "string \<Rightarrow> json list \<Rightarrow> json list \<Rightarrow> string list imp" where
  "matching_names msg names nodes =
     (if length names \<noteq> length nodes \<or> \<not> list_all is_str names then fail msg
      else Inr (map py_str names))"

definition args_from_nodes :: "(json \<Rightarrow> string imp) \<Rightarrow> json list \<Rightarrow> json \<Rightarrow> string imp" where
  "args_from_nodes ef args names =
     (if names = JNull \<or> names = JList [] then
        bindR (mapR (positional ef) args) (\<lambda>xs. Inr (lean_list xs))
      else
        bindR (need_list ''FunctionCall.names must be a list when present'' names) (\<lambda>ns.
        bindR (matching_names ''FunctionCall.names must match arguments'' ns args) (\<lambda>ss.
        bindR (mapR (named ''Arg.named'' ef) (zip ss args)) (\<lambda>xs. Inr (lean_list xs)))))"

definition call_options_from_nodes :: "(json \<Rightarrow> string imp) \<Rightarrow> json list \<Rightarrow> json \<Rightarrow> string imp" where
  "call_options_from_nodes ef options names =
     bindR (need_list ''FunctionCallOptions.names must be a list'' names) (\<lambda>ns.
     bindR (matching_names ''FunctionCallOptions.names must match options'' ns options) (\<lambda>ss.
     bindR (mapR (named ''CallOption.named'' ef) (zip ss options)) (\<lambda>xs. Inr (lean_list xs))))"

definition tuple_item_from_node :: "(json \<Rightarrow> string imp) \<Rightarrow> json \<Rightarrow> string imp" where
  "tuple_item_from_node ef j =
     (case j of
        JNull \<Rightarrow> Inr ''TupleItem.hole''
      | JObj d \<Rightarrow> bindR (ef j) (\<lambda>s. Inr (''TupleItem.value ('' @ s @ '')''))
      | _ \<Rightarrow> fail ''unsupported tuple expression component'')"

definition is_abi_decode_call :: "json \<Rightarrow> bool" where
  "is_abi_decode_call j =
     (case j of
        JObj d \<Rightarrow> nt_is d ''MemberAccess'' \<and> jget d ''memberName'' = JStr ''decode''
          \<and> (case jget d ''expression'' of
               JObj i \<Rightarrow> nt_is i ''Identifier'' \<and> jget i ''name'' = JStr ''abi'' | _ \<Rightarrow> False)
      | _ \<Rightarrow> False)"

definition tuple_text :: "(json \<Rightarrow> string imp) \<Rightarrow> json list \<Rightarrow> string imp" where
  "tuple_text ef components =
     bindR (mapR (tuple_item_from_node ef) components) (\<lambda>xs. Inr (''Expr.tuple '' @ lean_list xs))"

definition plain_tuple :: "node \<Rightarrow> bool" where
  "plain_tuple d \<longleftrightarrow> nt_is d ''TupleExpression'' \<and> jget d ''isInlineArray'' \<noteq> JBool True"

definition abi_decode_type_arg_from_node :: "(json \<Rightarrow> string imp) \<Rightarrow> json \<Rightarrow> string imp" where
  "abi_decode_type_arg_from_node ef j =
     (case j of
        JObj d \<Rightarrow>
          if plain_tuple d then
            bindR (need_list ''TupleExpression.components must be a list'' (dget_or d ''components'' (JList [])))
              (tuple_text ef)
          else ef j
      | _ \<Rightarrow> ef j)"

section \<open>Leaves\<close>

definition expr_identifier :: "node \<Rightarrow> string imp" where
  "expr_identifier d =
     bindR (need_str ''Identifier missing name'' (jget d ''name'')) (\<lambda>name.
       if name = ''super'' then Inr (''Expr.ident '' @ lean_string name)
       else if is_type_expression_node d then
         bindR (path_from_name name) (\<lambda>p. Inr (''Expr.typeName (Ty.user ('' @ p @ ''))''))
       else Inr (''Expr.ident '' @ lean_string name))"

definition literal_text :: "string \<Rightarrow> string \<Rightarrow> string" where
  "literal_text ctor v = ''Expr.literal (Literal.'' @ ctor @ '' '' @ v @ '')''"

text \<open>\<open>str(a)\<close>, which Python refuses beyond 4300 digits.\<close>

definition int_str :: "int \<Rightarrow> string imp" where
  "int_str a =
     (if 4300 < length (show_nat (nat \<bar>a\<bar>)) then Inl (Exn ValueError) else Inr (show_int a))"

definition number_literal :: "node \<Rightarrow> string imp" where
  "number_literal d =
     bindR (need_str ''number literal missing value'' (jget d ''value'')) (\<lambda>v.
       if (case jget d ''typeDescriptions'' of
             JObj td \<Rightarrow> jget td ''typeIdentifier'' = JStr ''t_address'' | _ \<Rightarrow> False)
       then (case py_int_str 16 v of
               Inr a \<Rightarrow> bindR (int_str a) (\<lambda>n. Inr (literal_text ''address'' n))
             | Inl _ \<Rightarrow> fail (''address literal has invalid value '' @ repr_str v))
       else case jget d ''subdenomination'' of
         JStr (c # cs) \<Rightarrow>
           bindR (unit_denomination (c # cs)) (\<lambda>u.
             Inr (literal_text ''unitNumber'' (lean_string v @ '' '' @ u)))
       | _ \<Rightarrow> Inr (literal_text ''number'' (lean_string v)))"

definition string_literal :: "node \<Rightarrow> string imp" where
  "string_literal d =
     (case jget d ''value'' of
        JStr v \<Rightarrow> Inr (literal_text ''string'' (lean_string v))
      | _ \<Rightarrow> bindR (need_str ''string literal missing value'' (jget d ''hexValue'')) (\<lambda>h.
               Inr (literal_text ''hexString'' (lean_string h))))"

definition expr_literal :: "node \<Rightarrow> string imp" where
  "expr_literal d =
     (let kind = jget d ''kind'' in
      if kind = JStr ''number'' then number_literal d
      else if kind = JStr ''bool'' then
        (if jget d ''value'' \<in> {JStr ''true'', JStr ''false''}
         then Inr (literal_text ''bool'' (lean_bool (jget d ''value'' = JStr ''true'')))
         else fail ''bool literal has unexpected value'')
      else if kind = JStr ''string'' then string_literal d
      else if kind = JStr ''hexString'' then
        bindR (need_str ''hex string literal missing hexValue'' (jget d ''hexValue'')) (\<lambda>h.
          Inr (literal_text ''hexString'' (lean_string h)))
      else if kind = JStr ''unicodeString'' then
        bindR (need_str ''unicode string literal missing value'' (jget d ''value'')) (\<lambda>v.
          Inr (literal_text ''unicodeString'' (lean_string v)))
      else fail (''unsupported literal kind '' @ py_repr kind))"

section \<open>Operators\<close>

definition operator_call :: "(json \<Rightarrow> string imp) \<Rightarrow> string \<Rightarrow> json list \<Rightarrow> string imp" where
  "operator_call ef f operands =
     bindR (args_from_nodes ef operands JNull) (\<lambda>args.
       Inr (''Expr.call (Expr.ident '' @ lean_string f @ '') '' @ args))"

definition expr_tuple :: "(json \<Rightarrow> string imp) \<Rightarrow> node \<Rightarrow> string imp" where
  "expr_tuple ef d =
     bindR (need_list ''TupleExpression.components must be a list'' (dget_or d ''components'' (JList []))) (\<lambda>cs.
       if jget d ''isInlineArray'' = JBool True then
         (if JNull \<in> set cs then fail ''inline array expression cannot contain tuple holes''
          else bindR (mapR ef cs) (\<lambda>xs. Inr (''Expr.array '' @ lean_list xs)))
       else case cs of
         [JObj c] \<Rightarrow> ef (JObj c)
       | _ \<Rightarrow> tuple_text ef cs)"

definition expr_unary :: "tables \<Rightarrow> (json \<Rightarrow> string imp) \<Rightarrow> node \<Rightarrow> string imp" where
  "expr_unary tb ef d =
     (let msg = ''UnaryOperation missing subExpression or operator'' in
      bindR (need_obj msg (jget d ''subExpression'')) (\<lambda>sub.
      bindR (need_str msg (jget d ''operator'')) (\<lambda>op.
      bindR (user_defined_operator_name tb d) (\<lambda>f. case f of
        Some nm \<Rightarrow> operator_call ef nm [sub]
      | None \<Rightarrow>
          bindR (unary_op op (jget d ''prefix'')) (\<lambda>u.
          bindR (ef sub) (\<lambda>x. Inr (''Expr.unary '' @ u @ '' ('' @ x @ '')'')))))))"

definition expr_binary :: "tables \<Rightarrow> (json \<Rightarrow> string imp) \<Rightarrow> node \<Rightarrow> string imp" where
  "expr_binary tb ef d =
     (let msg = ''BinaryOperation missing left/right/operator'' in
      bindR (need_obj msg (jget d ''leftExpression'')) (\<lambda>left.
      bindR (need_obj msg (jget d ''rightExpression'')) (\<lambda>right.
      bindR (need_str msg (jget d ''operator'')) (\<lambda>op.
      bindR (user_defined_operator_name tb d) (\<lambda>f. case f of
        Some nm \<Rightarrow> operator_call ef nm [left, right]
      | None \<Rightarrow>
          bindR (binary_op op) (\<lambda>b.
          bindR (ef left) (\<lambda>x. bindR (ef right) (\<lambda>y.
            Inr (''Expr.binary '' @ b @ '' ('' @ x @ '') ('' @ y @ '')'')))))))))"

definition expr_conditional :: "(json \<Rightarrow> string imp) \<Rightarrow> node \<Rightarrow> string imp" where
  "expr_conditional ef d =
     (let msg = ''Conditional missing condition/trueExpression/falseExpression'' in
      bindR (need_obj msg (jget d ''condition'')) (\<lambda>c.
      bindR (need_obj msg (jget d ''trueExpression'')) (\<lambda>t.
      bindR (need_obj msg (jget d ''falseExpression'')) (\<lambda>f.
      bindR (ef c) (\<lambda>x. bindR (ef t) (\<lambda>y. bindR (ef f) (\<lambda>z.
        Inr (''Expr.ternary ('' @ x @ '') ('' @ y @ '') ('' @ z @ '')''))))))))"

definition expr_assignment :: "(json \<Rightarrow> string imp) \<Rightarrow> node \<Rightarrow> string imp" where
  "expr_assignment ef d =
     (let msg = ''Assignment missing left/right/operator'' in
      bindR (need_obj msg (jget d ''leftHandSide'')) (\<lambda>left.
      bindR (need_obj msg (jget d ''rightHandSide'')) (\<lambda>right.
      bindR (need_str msg (jget d ''operator'')) (\<lambda>op.
      bindR (ef left) (\<lambda>x. bindR (assign_op op) (\<lambda>a. bindR (ef right) (\<lambda>y.
        Inr (''Expr.assign ('' @ x @ '') '' @ a @ '' ('' @ y @ '')''))))))))"

section \<open>Members and indices\<close>

definition expr_member :: "nat \<Rightarrow> (json \<Rightarrow> string imp) \<Rightarrow> node \<Rightarrow> string imp" where
  "expr_member s ef d =
     (let msg = ''MemberAccess missing expression or memberName'' in
      bindR (need_obj msg (jget d ''expression'')) (\<lambda>e.
      bindR (need_str msg (jget d ''memberName'')) (\<lambda>m.
        if is_type_expression_node d then
          bindR (type_from_expression_node s (JObj d)) (\<lambda>t. Inr (''Expr.typeName ('' @ t @ '')''))
        else bindR (ef e) (\<lambda>x. Inr (''Expr.member ('' @ x @ '') '' @ lean_string m)))))"

definition expr_index :: "nat \<Rightarrow> (json \<Rightarrow> string imp) \<Rightarrow> node \<Rightarrow> string imp" where
  "expr_index s ef d =
     (if is_type_expression_node d then
        bindR (type_from_expression_node s (JObj d)) (\<lambda>t. Inr (''Expr.typeName ('' @ t @ '')''))
      else
        (let msg = ''IndexAccess missing baseExpression or indexExpression'' in
         bindR (need_obj msg (jget d ''baseExpression'')) (\<lambda>b.
         bindR (need_obj msg (jget d ''indexExpression'')) (\<lambda>i.
         bindR (ef b) (\<lambda>x. bindR (ef i) (\<lambda>y.
           Inr (''Expr.index ('' @ x @ '') ('' @ y @ '')'')))))))"

text \<open>An optional operand: \<open>none\<close>, or the text in \<open>(some (\<dots>))\<close>.\<close>

definition some_part :: "string \<Rightarrow> (json \<Rightarrow> string imp) \<Rightarrow> json \<Rightarrow> string imp" where
  "some_part msg f j =
     (if j = JNull then Inr ''none''
      else bindR (need_obj msg j) (\<lambda>e. bindR (f e) (\<lambda>x. Inr (''(some ('' @ x @ ''))''))))"

definition optional_node :: "string \<Rightarrow> json \<Rightarrow> unit imp" where
  "optional_node msg j = need msg (j = JNull \<or> is_obj j)"

definition expr_slice :: "(json \<Rightarrow> string imp) \<Rightarrow> node \<Rightarrow> string imp" where
  "expr_slice ef d =
     (let sm = ''IndexRangeAccess.startExpression must be an object'';
          em = ''IndexRangeAccess.endExpression must be an object'' in
      bindR (need_obj ''IndexRangeAccess missing baseExpression'' (jget d ''baseExpression'')) (\<lambda>b.
      bindR (optional_node sm (jget d ''startExpression'')) (\<lambda>_.
      bindR (optional_node em (jget d ''endExpression'')) (\<lambda>_.
      bindR (some_part sm ef (jget d ''startExpression'')) (\<lambda>s.
      bindR (some_part em ef (jget d ''endExpression'')) (\<lambda>e.
      bindR (ef b) (\<lambda>x. Inr (''Expr.slice ('' @ x @ '') '' @ s @ '' '' @ e)))))))) "

section \<open>Calls\<close>

text \<open>The parentheses around a callee are taken off.\<close>

function peel :: "json \<Rightarrow> json" where
  "peel j =
     (case j of
        JObj d \<Rightarrow>
          if plain_tuple d then (case jget d ''components'' of JList [JObj c] \<Rightarrow> peel (JObj c) | _ \<Rightarrow> j) else j
      | _ \<Rightarrow> j)"
  by pat_completeness auto

lemma size_jget: "v = jget d k \<Longrightarrow> v \<noteq> JNull \<Longrightarrow> size v < size (JObj d)"
proof (induction d)
  case (Cons p d)
  then show ?case by (cases p) (force simp: jget_def dget_or_def)
qed (simp add: jget_def dget_or_def)

termination peel
proof (relation "measure size", goal_cases)
  case (2 j d xs x c rest)
  then show ?case using size_jget [of "JList xs" d "''components''"] by simp
qed simp

declare peel.simps [simp del]

definition new_target :: "nat \<Rightarrow> node \<Rightarrow> string imp" where
  "new_target s d = bindR (need_obj ''NewExpression missing typeName'' (jget d ''typeName'')) (type_from_node s)"

definition call_with_options ::
  "nat \<Rightarrow> (json \<Rightarrow> string imp) \<Rightarrow> node \<Rightarrow> json list \<Rightarrow> json \<Rightarrow> string imp" where
  "call_with_options s ef e args names =
     (let msg = ''FunctionCallOptions missing expression or options'' in
      bindR (need_obj msg (jget e ''expression'')) (\<lambda>target.
      bindR (need_list msg (dget_or e ''options'' (JList []))) (\<lambda>options.
      bindR (if nt_is (jobj target) ''NewExpression''
             then bindR (new_target s (jobj target)) (\<lambda>t. Inr (''Expr.newExpr ('' @ t @ '') []''))
             else ef target) (\<lambda>t.
      bindR (call_options_from_nodes ef options (jget e ''names'')) (\<lambda>os.
      bindR (args_from_nodes ef args names) (\<lambda>xs.
        Inr (''Expr.callWithOptions ('' @ t @ '') '' @ os @ '' '' @ xs)))))))"

definition payable_conversion :: "(json \<Rightarrow> string imp) \<Rightarrow> json list \<Rightarrow> json \<Rightarrow> string imp" where
  "payable_conversion ef args names =
     (case args of
        [a] \<Rightarrow>
          if names = JNull \<or> names = JList []
          then bindR (ef a) (\<lambda>x. Inr (''Expr.payableConversion ('' @ x @ '')''))
          else fail ''payable(...) conversion cannot have named arguments''
      | _ \<Rightarrow> fail ''payable(...) conversion must have one argument'')"

definition abi_decode_call :: "(json \<Rightarrow> string imp) \<Rightarrow> json \<Rightarrow> json \<Rightarrow> json \<Rightarrow> string imp" where
  "abi_decode_call ef e a b =
     bindR (ef e) (\<lambda>f. bindR (ef a) (\<lambda>x. bindR (abi_decode_type_arg_from_node ef b) (\<lambda>y.
       Inr (''Expr.call ('' @ f @ '') ''
            @ lean_list [''Arg.positional ('' @ x @ '')'', ''Arg.positional ('' @ y @ '')'']))))"

definition call_body ::
  "nat \<Rightarrow> (json \<Rightarrow> string imp) \<Rightarrow> json \<Rightarrow> json \<Rightarrow> json list \<Rightarrow> json \<Rightarrow> string imp" where
  "call_body s ef kind callee args names =
     (let e = jobj callee in
      if kind = JStr ''typeConversion'' \<and> nt_is e ''ElementaryTypeNameExpression''
         \<and> is_payable_address_type_node (jget e ''typeName'')
      then payable_conversion ef args names
      else if nt_is e ''FunctionCallOptions'' then call_with_options s ef e args names
      else if nt_is e ''NewExpression'' then
        bindR (new_target s e) (\<lambda>t. bindR (args_from_nodes ef args names) (\<lambda>xs.
          Inr (''Expr.newExpr ('' @ t @ '') '' @ xs)))
      else if nt_is e ''Identifier'' \<and> jget e ''name'' = JStr ''type'' then
        (case args of [a] \<Rightarrow> ef a | _ \<Rightarrow> fail ''type(...) call must have one argument'')
      else if is_abi_decode_call callee \<and> length args = 2 \<and> (names = JNull \<or> names = JList []) then
        abi_decode_call ef callee (args ! 0) (args ! 1)
      else bindR (ef callee) (\<lambda>f. bindR (args_from_nodes ef args names) (\<lambda>xs.
        Inr (''Expr.call ('' @ f @ '') '' @ xs))))"

definition expr_call :: "nat \<Rightarrow> (json \<Rightarrow> string imp) \<Rightarrow> node \<Rightarrow> string imp" where
  "expr_call s ef d =
     (let msg = ''FunctionCall missing expression or arguments'' in
      bindR (need_obj msg (jget d ''expression'')) (\<lambda>e.
      bindR (need_list msg (dget_or d ''arguments'' (JList []))) (\<lambda>args.
        call_body s ef (jget d ''kind'') (peel e) args (jget d ''names''))))"

section \<open>Expressions\<close>

definition expr_body :: "tables \<Rightarrow> nat \<Rightarrow> (json \<Rightarrow> string imp) \<Rightarrow> node \<Rightarrow> string imp" where
  "expr_body tb s ef d =
     (if nt_is d ''Identifier'' then expr_identifier d
      else if nt_is d ''Literal'' then expr_literal d
      else if nt_is d ''ElementaryTypeNameExpression'' then
        bindR (need_obj ''ElementaryTypeNameExpression missing typeName'' (jget d ''typeName'')) (\<lambda>t.
        bindR (type_from_node s t) (\<lambda>x. Inr (''Expr.typeName ('' @ x @ '')'')))
      else if nt_is d ''TupleExpression'' then expr_tuple ef d
      else if nt_is d ''UnaryOperation'' then expr_unary tb ef d
      else if nt_is d ''FunctionCall'' then expr_call s ef d
      else if nt_is d ''MemberAccess'' then expr_member s ef d
      else if nt_is d ''IndexAccess'' then expr_index s ef d
      else if nt_is d ''IndexRangeAccess'' then expr_slice ef d
      else if nt_is d ''BinaryOperation'' then expr_binary tb ef d
      else if nt_is d ''Conditional'' then expr_conditional ef d
      else if nt_is d ''Assignment'' then expr_assignment ef d
      else fail (''unsupported expression node '' @ py_repr (jget d ''nodeType'')))"

primrec expr_from_node :: "tables \<Rightarrow> nat \<Rightarrow> json \<Rightarrow> string imp" where
  "expr_from_node tb 0 j = Inl (Exn RecursionError)"
| "expr_from_node tb (Suc s) j = on_node j (expr_body tb s (expr_from_node tb s))"

end
