(* ===== verification/ImportStmt.thy ===== *)
theory ImportStmt
  imports ImportExpr
begin

text \<open>
  The importer: \<open>stmt_from_node\<close>, one definition per node type. \<open>sf\<close> is the recursive function,
  \<open>ef\<close> the function on expressions, \<open>s\<close> the stack left for the functions on types.
\<close>

section \<open>Blocks and simple statements\<close>

definition statement_list :: "string \<Rightarrow> (json \<Rightarrow> string imp) \<Rightarrow> node \<Rightarrow> string imp" where
  "statement_list msg sf d =
     bindR (need_list msg (dget_or d ''statements'' (JList []))) (\<lambda>stmts.
     bindR (mapR sf stmts) (\<lambda>xs. Inr (lean_list xs)))"

definition stmt_return :: "(json \<Rightarrow> string imp) \<Rightarrow> node \<Rightarrow> string imp" where
  "stmt_return ef d =
     (if jget d ''expression'' = JNull then Inr ''Stmt.returnValues none''
      else bindR (need_obj ''Return.expression must be an object'' (jget d ''expression'')) (\<lambda>e.
           bindR (ef e) (\<lambda>x. Inr (''Stmt.returnValues (some ('' @ x @ ''))''))))"

text \<open>A statement with one expression under the field \<open>k\<close>.\<close>

definition one_expr :: "string \<Rightarrow> string \<Rightarrow> string \<Rightarrow> (json \<Rightarrow> string imp) \<Rightarrow> node \<Rightarrow> string imp" where
  "one_expr ctor msg k ef d =
     bindR (need_obj msg (jget d k)) (\<lambda>e. bindR (ef e) (\<lambda>x. Inr (ctor @ '' ('' @ x @ '')'')))"

definition stmt_var_decl :: "nat \<Rightarrow> (json \<Rightarrow> string imp) \<Rightarrow> node \<Rightarrow> string imp" where
  "stmt_var_decl s ef d =
     bindR (need_list ''VariableDeclarationStatement.declarations must be a list''
              (dget_or d ''declarations'' (JList []))) (\<lambda>decls.
     bindR (mapR (var_binding_from_node s) decls) (\<lambda>bindings.
     bindR (some_part ''VariableDeclarationStatement.initialValue must be an object'' ef
              (jget d ''initialValue'')) (\<lambda>init.
       Inr (''Stmt.varDecl '' @ lean_list bindings @ '' '' @ init))))"

section \<open>Control flow\<close>

definition stmt_if :: "(json \<Rightarrow> string imp) \<Rightarrow> (json \<Rightarrow> string imp) \<Rightarrow> node \<Rightarrow> string imp" where
  "stmt_if ef sf d =
     (let msg = ''IfStatement missing condition or trueBody'' in
      bindR (need_obj msg (jget d ''condition'')) (\<lambda>c.
      bindR (need_obj msg (jget d ''trueBody'')) (\<lambda>t.
      bindR (some_part ''IfStatement.falseBody must be an object'' sf (jget d ''falseBody'')) (\<lambda>f.
      bindR (ef c) (\<lambda>x. bindR (sf t) (\<lambda>y.
        Inr (''Stmt.ifElse ('' @ x @ '') ('' @ y @ '') '' @ f)))))))"

definition stmt_while :: "(json \<Rightarrow> string imp) \<Rightarrow> (json \<Rightarrow> string imp) \<Rightarrow> node \<Rightarrow> string imp" where
  "stmt_while ef sf d =
     (let msg = ''WhileStatement missing condition or body'' in
      bindR (need_obj msg (jget d ''condition'')) (\<lambda>c.
      bindR (need_obj msg (jget d ''body'')) (\<lambda>b.
      bindR (ef c) (\<lambda>x. bindR (sf b) (\<lambda>y.
        Inr (''Stmt.whileLoop ('' @ x @ '') ('' @ y @ '')''))))))"

definition stmt_do_while :: "(json \<Rightarrow> string imp) \<Rightarrow> (json \<Rightarrow> string imp) \<Rightarrow> node \<Rightarrow> string imp" where
  "stmt_do_while ef sf d =
     (let msg = ''DoWhileStatement missing condition or body'' in
      bindR (need_obj msg (jget d ''condition'')) (\<lambda>c.
      bindR (need_obj msg (jget d ''body'')) (\<lambda>b.
      bindR (sf b) (\<lambda>y. bindR (ef c) (\<lambda>x.
        Inr (''Stmt.doWhile ('' @ y @ '') ('' @ x @ '')''))))))"

text \<open>The loop expression loses its expression statement.\<close>

definition loop_expression :: "json \<Rightarrow> json imp" where
  "loop_expression j =
     (if nt_is (jobj j) ''ExpressionStatement''
      then need_obj ''ForStatement.loopExpression missing expression'' (jget (jobj j) ''expression'')
      else Inr j)"

definition stmt_for :: "(json \<Rightarrow> string imp) \<Rightarrow> (json \<Rightarrow> string imp) \<Rightarrow> node \<Rightarrow> string imp" where
  "stmt_for ef sf d =
     bindR (need_obj ''ForStatement missing body'' (jget d ''body'')) (\<lambda>b.
     bindR (some_part ''ForStatement.initializationExpression must be an object'' sf
              (jget d ''initializationExpression'')) (\<lambda>init.
     bindR (some_part ''ForStatement.condition must be an object'' ef (jget d ''condition'')) (\<lambda>c.
     bindR (some_part ''ForStatement.loopExpression must be an object''
              (\<lambda>e. bindR (loop_expression e) ef) (jget d ''loopExpression'')) (\<lambda>post.
     bindR (sf b) (\<lambda>y.
       Inr (''Stmt.forLoop '' @ init @ '' '' @ c @ '' '' @ post @ '' ('' @ y @ '')''))))))"

section \<open>Try\<close>

definition try_clause_params_from_node :: "nat \<Rightarrow> node \<Rightarrow> string imp" where
  "try_clause_params_from_node s d =
     (if jget d ''parameters'' = JNull then Inr ''[]''
      else bindR (need_obj ''TryCatchClause.parameters must be a parameter list'' (jget d ''parameters''))
             (parameter_list s))"

definition try_clause_body_from_node :: "(json \<Rightarrow> string imp) \<Rightarrow> node \<Rightarrow> string imp" where
  "try_clause_body_from_node sf d =
     bindR (need_obj ''TryCatchClause missing block'' (jget d ''block'')) sf"

definition catch_clause_from_node :: "nat \<Rightarrow> (json \<Rightarrow> string imp) \<Rightarrow> json \<Rightarrow> string imp" where
  "catch_clause_from_node s sf j = on_node j (\<lambda>d.
     bindR (need ''expected TryCatchClause'' (nt_is d ''TryCatchClause'')) (\<lambda>_.
     bindR (need_str ''TryCatchClause.errorName must be a string'' (dget_or d ''errorName'' (JStr []))) (\<lambda>en.
     let nm = (if en = [] then ''none'' else ''(some '' @ lean_string en @ '')'') in
     bindR (try_clause_params_from_node s d) (\<lambda>ps.
     bindR (try_clause_body_from_node sf d) (\<lambda>y.
       Inr (''CatchClause.clause '' @ nm @ '' '' @ ps @ '' ('' @ y @ '')''))))))"

definition is_clause :: "json \<Rightarrow> bool" where
  "is_clause j = (case j of JObj d \<Rightarrow> nt_is d ''TryCatchClause'' | _ \<Rightarrow> False)"

definition stmt_try ::
  "nat \<Rightarrow> (json \<Rightarrow> string imp) \<Rightarrow> (json \<Rightarrow> string imp) \<Rightarrow> node \<Rightarrow> string imp" where
  "stmt_try s ef sf d =
     bindR (need_obj ''TryStatement missing externalCall'' (jget d ''externalCall'')) (\<lambda>e.
     case dget_or d ''clauses'' (JList []) of
       JList (success # catches) \<Rightarrow>
         bindR (need ''TryStatement success clause must be a TryCatchClause'' (is_clause success)) (\<lambda>_.
         bindR (need ''TryStatement success clause must not have an error name''
                  (dget_or (jobj success) ''errorName'' (JStr []) = JStr [])) (\<lambda>_.
         bindR (need ''TryStatement catch clauses must be TryCatchClause nodes'' (list_all is_clause catches)) (\<lambda>_.
         bindR (ef e) (\<lambda>x.
         bindR (try_clause_params_from_node s (jobj success)) (\<lambda>ps.
         bindR (try_clause_body_from_node sf (jobj success)) (\<lambda>y.
         bindR (mapR (catch_clause_from_node s sf) catches) (\<lambda>cs.
           Inr (''Stmt.tryCatchReturns ('' @ x @ '') '' @ ps @ '' ('' @ y @ '') '' @ lean_list cs))))))))
     | _ \<Rightarrow> fail ''TryStatement requires a success clause'')"

section \<open>Statements\<close>

definition stmt_body ::
  "nat \<Rightarrow> (json \<Rightarrow> string imp) \<Rightarrow> (json \<Rightarrow> string imp) \<Rightarrow> node \<Rightarrow> string imp" where
  "stmt_body s ef sf d =
     (if nt_is d ''Block'' then
        bindR (statement_list ''Block.statements must be a list'' sf d) (\<lambda>xs. Inr (''Stmt.block '' @ xs))
      else if nt_is d ''Return'' then stmt_return ef d
      else if nt_is d ''ExpressionStatement'' then
        one_expr ''Stmt.expr'' ''ExpressionStatement missing expression'' ''expression'' ef d
      else if nt_is d ''VariableDeclarationStatement'' then stmt_var_decl s ef d
      else if nt_is d ''IfStatement'' then stmt_if ef sf d
      else if nt_is d ''WhileStatement'' then stmt_while ef sf d
      else if nt_is d ''DoWhileStatement'' then stmt_do_while ef sf d
      else if nt_is d ''ForStatement'' then stmt_for ef sf d
      else if nt_is d ''TryStatement'' then stmt_try s ef sf d
      else if nt_is d ''UncheckedBlock'' then
        bindR (statement_list ''UncheckedBlock.statements must be a list'' sf d) (\<lambda>xs.
          Inr (''Stmt.unchecked (Stmt.block '' @ xs @ '')''))
      else if nt_is d ''EmitStatement'' then
        one_expr ''Stmt.emitEvent'' ''EmitStatement missing eventCall'' ''eventCall'' ef d
      else if nt_is d ''RevertStatement'' then
        one_expr ''Stmt.revertCall'' ''RevertStatement missing errorCall'' ''errorCall'' ef d
      else if nt_is d ''Break'' then Inr ''Stmt.break''
      else if nt_is d ''Continue'' then Inr ''Stmt.continue''
      else if nt_is d ''PlaceholderStatement'' then Inr ''Stmt.modifierPlaceholder''
      else fail (''unsupported statement node '' @ py_repr (jget d ''nodeType'')))"

primrec stmt_from_node :: "tables \<Rightarrow> nat \<Rightarrow> json \<Rightarrow> string imp" where
  "stmt_from_node tb 0 j = Inl (Exn RecursionError)"
| "stmt_from_node tb (Suc s) j =
     on_node j (stmt_body s (expr_from_node tb s) (stmt_from_node tb s))"

end
