(* ===== verification/ImportDecl.thy ===== *)
theory ImportDecl
  imports ImportStmt
begin

text \<open>
  The importer: declarations, contracts and \<open>render_module\<close>. \<open>s\<close> is the stack left for statements,
  expressions and types. The audit of the AST that \<open>render_module\<close> runs first is in \<open>ImportGuard\<close>.
\<close>

definition nl :: string where
  "nl = [CHR 0x0A]"

section \<open>Functions and modifiers\<close>

definition modifier_invocation_from_node :: "tables \<Rightarrow> nat \<Rightarrow> json \<Rightarrow> string imp" where
  "modifier_invocation_from_node tb s j = on_node j (\<lambda>d.
     bindR (need ''expected ModifierInvocation'' (nt_is d ''ModifierInvocation'')) (\<lambda>_.
     bindR (need_obj ''ModifierInvocation missing modifierName'' (jget d ''modifierName'')) (\<lambda>m.
     let raw = jget d ''arguments'' in
     bindR (need ''ModifierInvocation.arguments must be a list'' (raw = JNull \<or> is_list raw)) (\<lambda>_.
     bindR (path_from_node s m) (\<lambda>p.
     bindR (args_from_nodes (expr_from_node tb s) (jlist raw) (jget d ''names'')) (\<lambda>xs.
       Inr (''{ target := '' @ p @ '', args := '' @ xs @ '', hasArgList := '' @ lean_bool (is_list raw) @ '' }'')))))))"

text \<open>An optional body.\<close>

definition body_part :: "tables \<Rightarrow> nat \<Rightarrow> string \<Rightarrow> json \<Rightarrow> string imp" where
  "body_part tb s msg j =
     (if j = JNull then Inr ''none''
      else bindR (need_obj msg j) (\<lambda>b. bindR (stmt_from_node tb s b) (\<lambda>y. Inr (''some ('' @ y @ '')''))))"

definition unnamed_kinds :: "string list" where
  "unnamed_kinds = [''constructor'', ''receive'', ''fallback'']"

definition function_decl_from_node :: "tables \<Rightarrow> nat \<Rightarrow> bool \<Rightarrow> json \<Rightarrow> string imp" where
  "function_decl_from_node tb s force_visibility_none j = on_node j (\<lambda>d.
     bindR (need ''expected FunctionDefinition'' (nt_is d ''FunctionDefinition'')) (\<lambda>_.
     let kind = py_str (dget_or d ''kind'' (JStr ''function'')) in
     bindR (function_kind kind) (\<lambda>kp.
     bindR (if kind \<in> set unnamed_kinds then Inr (''none'', kind)
            else bindR (need_str ''FunctionDefinition missing name'' (jget d ''name'')) (\<lambda>n.
              Inr (''some '' @ lean_string n, n))) (\<lambda>(np, en).
     let lists = ''function '' @ en @ '' missing parameter lists'' in
     bindR (need_obj lists (jget d ''parameters'')) (\<lambda>params.
     bindR (need_obj lists (jget d ''returnParameters'')) (\<lambda>returns.
     bindR (need_list (''function '' @ en @ '' modifiers must be a list'') (dget_or d ''modifiers'' (JList []))) (\<lambda>ms.
     bindR (body_part tb s (''function '' @ en @ '' body must be an object'') (jget d ''body'')) (\<lambda>bp.
     bindR (if force_visibility_none then Inr ''none''
            else visibility (py_str (dget_or d ''visibility'' (JStr ''default'')))) (\<lambda>vp.
     bindR (state_mutability (py_str (dget_or d ''stateMutability'' (JStr ''nonpayable'')))) (\<lambda>sm.
     bindR (parameter_list s params) (\<lambda>ps.
     bindR (parameter_list s returns) (\<lambda>rs.
     bindR (override_specifier_from_node s (jget d ''overrides'')) (\<lambda>ov.
     bindR (mapR (modifier_invocation_from_node tb s) ms) (\<lambda>mods.
       Inr (''{ kind := '' @ kp @ '','' @ nl @ ''    name := '' @ np @ '','' @ nl
            @ ''    visibility := '' @ vp @ '','' @ nl @ ''    mutability := '' @ sm @ '','' @ nl
            @ ''    params := '' @ ps @ '','' @ nl @ ''    returns := '' @ rs @ '','' @ nl
            @ ''    virtual := '' @ lean_bool (truthy (jget d ''virtual'')) @ '','' @ nl
            @ ''    override? := '' @ ov @ '','' @ nl @ ''    modifiers := '' @ lean_list mods @ '','' @ nl
            @ ''    body := '' @ bp @ '' }'')))))))))))))))"

definition modifier_from_node :: "tables \<Rightarrow> nat \<Rightarrow> node \<Rightarrow> string imp" where
  "modifier_from_node tb s d =
     (let msg = ''ModifierDefinition missing name or parameters'' in
      bindR (need_str msg (jget d ''name'')) (\<lambda>n.
      bindR (need_obj msg (jget d ''parameters'')) (\<lambda>params.
      bindR (body_part tb s ''ModifierDefinition body must be an object'' (jget d ''body'')) (\<lambda>bp.
      bindR (parameter_list s params) (\<lambda>ps.
      bindR (override_specifier_from_node s (jget d ''overrides'')) (\<lambda>ov.
        Inr (''ContractItem.modifierDecl'' @ nl @ ''  { name := '' @ lean_string n @ nl
             @ ''    params := '' @ ps @ nl
             @ ''    virtual := '' @ lean_bool (truthy (jget d ''virtual'')) @ nl
             @ ''    override? := '' @ ov @ nl @ ''    body := '' @ bp @ '' }'')))))))"

section \<open>Variables\<close>

definition state_var_decl_from_variable_node ::
  "tables \<Rightarrow> nat \<Rightarrow> json \<Rightarrow> bool \<Rightarrow> json \<Rightarrow> string imp" where
  "state_var_decl_from_variable_node tb s initial force_visibility_none j = on_node j (\<lambda>d.
     bindR (need ''expected VariableDeclaration'' (nt_is d ''VariableDeclaration'')) (\<lambda>_.
     let msg = ''variable declaration missing name or typeName'' in
     bindR (need_str msg (jget d ''name'')) (\<lambda>n.
     bindR (need msg (n \<noteq> [])) (\<lambda>_.
     bindR (need_obj msg (jget d ''typeName'')) (\<lambda>t.
     let init = (if initial \<noteq> JNull then initial
                 else let v = jget d ''value'' in if truthy v then v else jget d ''initialValue'') in
     bindR (if init = JNull then Inr ''none''
            else bindR (need_obj ''variable initializer must be an object'' init) (\<lambda>e.
                 bindR (expr_from_node tb s e) (\<lambda>x. Inr (''some ('' @ x @ '')'')))) (\<lambda>ip.
     bindR (if force_visibility_none then Inr ''none''
            else visibility (py_str (dget_or d ''visibility'' (JStr ''default'')))) (\<lambda>vp.
     let mut = py_str (dget_or d ''mutability'' (JStr ''mutable''));
         mut = (if mut = ''mutable'' \<and> jget d ''storageLocation'' = JStr ''transient''
                then ''transient'' else mut) in
     bindR (type_from_node s t) (\<lambda>ty.
     bindR (var_mutability mut) (\<lambda>vm.
     bindR (override_specifier_from_node s (jget d ''overrides'')) (\<lambda>ov.
       Inr (''{ name := '' @ lean_string n @ '','' @ nl @ ''    ty := '' @ ty @ '','' @ nl
            @ ''    visibility := '' @ vp @ '','' @ nl @ ''    mutability := '' @ vm @ '','' @ nl
            @ ''    override? := '' @ ov @ '','' @ nl @ ''    init := '' @ ip @ '' }'')))))))))))"

definition state_var_item :: "string \<Rightarrow> string" where
  "state_var_item t = ''(ContractItem.stateVar'' @ nl @ ''  '' @ t @ '')''"

definition state_var_from_node :: "tables \<Rightarrow> nat \<Rightarrow> node \<Rightarrow> string list imp" where
  "state_var_from_node tb s d =
     (if nt_is d ''VariableDeclaration'' \<and> jget d ''stateVariable'' = JBool True then
        bindR (state_var_decl_from_variable_node tb s JNull False (JObj d)) (\<lambda>t. Inr [state_var_item t])
      else if \<not> nt_is d ''StateVariableDeclaration'' then Inr []
      else
        bindR (need_list ''StateVariableDeclaration.declarations must be a list''
                 (dget_or d ''declarations'' (JList []))) (\<lambda>decls.
        let initial = jget d ''initialValue'' in
        bindR (if initial = JNull then Inr ''none''
               else bindR (need_obj ''state variable initialValue must be an object'' initial) (expr_from_node tb s)) (\<lambda>_.
        mapR (\<lambda>decl.
          bindR (need ''state variable declaration must contain VariableDeclaration nodes''
                   (is_obj decl \<and> nt_is (jobj decl) ''VariableDeclaration'')) (\<lambda>_.
          bindR (state_var_decl_from_variable_node tb s initial False decl) (\<lambda>t. Inr (state_var_item t)))) decls)))"

section \<open>Events, errors and types\<close>

definition event_param_from_node :: "nat \<Rightarrow> json \<Rightarrow> string imp" where
  "event_param_from_node s j = on_node j (\<lambda>d.
     bindR (need ''event parameter must be a VariableDeclaration'' (nt_is d ''VariableDeclaration'')) (\<lambda>_.
     bindR (need_obj ''event parameter missing typeName'' (jget d ''typeName'')) (\<lambda>t.
     bindR (type_from_node s t) (\<lambda>ty.
       Inr (''{ name := '' @ name_part (jget d ''name'') @ '', ty := '' @ ty @ '', indexed := ''
            @ lean_bool (jget d ''indexed'' = JBool True) @ '' }'')))))"

definition event_decl_from_node :: "nat \<Rightarrow> node \<Rightarrow> string imp" where
  "event_decl_from_node s d =
     (let msg = ''EventDefinition missing name or parameters'' in
      bindR (need_str msg (jget d ''name'')) (\<lambda>n.
      bindR (need_obj msg (jget d ''parameters'')) (\<lambda>params.
      bindR (need_list ''EventDefinition.parameters.parameters must be a list''
               (dget_or (jobj params) ''parameters'' (JList []))) (\<lambda>ps.
      bindR (mapR (event_param_from_node s) ps) (\<lambda>xs.
        Inr (''{ name := '' @ lean_string n @ '','' @ nl @ ''    params := '' @ lean_list xs @ '','' @ nl
             @ ''    anonymous := '' @ lean_bool (truthy (jget d ''anonymous'')) @ '' }''))))))"

definition error_decl_from_node :: "nat \<Rightarrow> node \<Rightarrow> string imp" where
  "error_decl_from_node s d =
     (let msg = ''ErrorDefinition missing name or parameters'' in
      bindR (need_str msg (jget d ''name'')) (\<lambda>n.
      bindR (need_obj msg (jget d ''parameters'')) (\<lambda>params.
      bindR (need_list ''ErrorDefinition.parameters.parameters must be a list''
               (dget_or (jobj params) ''parameters'' (JList []))) (\<lambda>ps.
      bindR (mapR (parameter_from_node s) ps) (\<lambda>xs.
        Inr (''{ name := '' @ lean_string n @ '','' @ nl @ ''    params := '' @ lean_list xs @ '' }''))))))"

definition struct_field_from_node :: "nat \<Rightarrow> json \<Rightarrow> string imp" where
  "struct_field_from_node s j = on_node j (\<lambda>d.
     bindR (need ''struct field must be a VariableDeclaration'' (nt_is d ''VariableDeclaration'')) (\<lambda>_.
     let msg = ''struct field missing name or typeName'' in
     bindR (need_str msg (jget d ''name'')) (\<lambda>n.
     bindR (need msg (n \<noteq> [])) (\<lambda>_.
     bindR (need_obj msg (jget d ''typeName'')) (\<lambda>t.
     bindR (type_from_node s t) (\<lambda>ty.
       Inr (''{ name := '' @ lean_string n @ '', ty := '' @ ty @ '' }'')))))))"

definition struct_decl_from_node :: "nat \<Rightarrow> node \<Rightarrow> string imp" where
  "struct_decl_from_node s d =
     (let msg = ''StructDefinition missing name or members'' in
      bindR (need_str msg (jget d ''name'')) (\<lambda>n.
      bindR (need_list msg (dget_or d ''members'' (JList []))) (\<lambda>ms.
      bindR (mapR (struct_field_from_node s) ms) (\<lambda>xs.
        Inr (''{ name := '' @ lean_string n @ '','' @ nl @ ''    fields := '' @ lean_list xs @ '' }'')))))"

definition enum_case :: "json \<Rightarrow> string imp" where
  "enum_case j =
     bindR (need ''EnumDefinition members must be EnumValue nodes'' (is_obj j \<and> nt_is (jobj j) ''EnumValue'')) (\<lambda>_.
     bindR (need_str ''EnumValue missing name'' (jget (jobj j) ''name'')) (\<lambda>n. Inr (lean_string n)))"

definition enum_decl_from_node :: "node \<Rightarrow> string imp" where
  "enum_decl_from_node d =
     (let msg = ''EnumDefinition missing name or members'' in
      bindR (need_str msg (jget d ''name'')) (\<lambda>n.
      bindR (need_list msg (dget_or d ''members'' (JList []))) (\<lambda>ms.
      bindR (mapR enum_case ms) (\<lambda>xs.
        Inr (''{ name := '' @ lean_string n @ '','' @ nl @ ''    cases := '' @ lean_list xs @ '' }'')))))"

definition user_value_type_decl_from_node :: "nat \<Rightarrow> node \<Rightarrow> string imp" where
  "user_value_type_decl_from_node s d =
     (let msg = ''UserDefinedValueTypeDefinition missing name or underlyingType'' in
      bindR (need_str msg (jget d ''name'')) (\<lambda>n.
      bindR (need_obj msg (jget d ''underlyingType'')) (\<lambda>u.
      bindR (type_from_node s u) (\<lambda>ty.
        Inr (''{ name := '' @ lean_string n @ '','' @ nl @ ''    underlying := '' @ ty @ '' }'')))))"

section \<open>Bases and using directives\<close>

definition base_specifier_from_node :: "tables \<Rightarrow> nat \<Rightarrow> json \<Rightarrow> string imp" where
  "base_specifier_from_node tb s j = on_node j (\<lambda>d.
     bindR (need ''base contract entry must be an InheritanceSpecifier'' (nt_is d ''InheritanceSpecifier'')) (\<lambda>_.
     bindR (need_obj ''InheritanceSpecifier missing baseName'' (jget d ''baseName'')) (\<lambda>b.
     let raw = dget_or d ''arguments'' (JList []); args = (if raw = JNull then JList [] else raw) in
     bindR (need_list ''InheritanceSpecifier.arguments must be a list'' args) (\<lambda>xs.
     bindR (path_from_node s b) (\<lambda>p.
     bindR (args_from_nodes (expr_from_node tb s) xs JNull) (\<lambda>as.
       Inr (''{ base := '' @ p @ '', args := '' @ as @ '' }'')))))))"

definition using_function_from_node :: "tables \<Rightarrow> nat \<Rightarrow> json \<Rightarrow> string imp" where
  "using_function_from_node tb s j = on_node j (\<lambda>d.
     bindR (need_obj ''UsingForDirective function entry missing definition/function''
              (let v = jget d ''definition'' in if truthy v then v else jget d ''function'')) (\<lambda>def.
     bindR (case jget d ''operator'' of
              JStr (c # cs) \<Rightarrow>
                using_operator (c # cs)
                  (Option.bind (id_value (jget (jobj def) ''referencedDeclaration'')) (dget (t_counts tb)))
            | _ \<Rightarrow> Inr ''none'') (\<lambda>op.
     bindR (path_from_node s def) (\<lambda>p.
       Inr (''{ function := '' @ p @ '', operator? := '' @ op @ '' }'')))))"

definition using_decl_from_node :: "tables \<Rightarrow> nat \<Rightarrow> node \<Rightarrow> string imp" where
  "using_decl_from_node tb s d =
     bindR (case jget d ''libraryName'' of
              JObj l \<Rightarrow> bindR (path_from_node s (JObj l)) (\<lambda>p. Inr (p, ''[]''))
            | _ \<Rightarrow> (case jget d ''functionList'' of
                 JList fs \<Rightarrow> bindR (mapR (using_function_from_node tb s) fs) (\<lambda>xs.
                   Inr (''{ segments := [] }'', lean_list xs))
               | _ \<Rightarrow> fail ''UsingForDirective missing libraryName or functionList'')) (\<lambda>(lp, fp).
     bindR (if jget d ''typeName'' = JNull then Inr ''none''
            else bindR (need_obj ''UsingForDirective.typeName must be an object'' (jget d ''typeName'')) (\<lambda>t.
                 bindR (type_from_node s t) (\<lambda>ty. Inr (''some ('' @ ty @ '')'')))) (\<lambda>tp.
       Inr (''{ library := '' @ lp @ '','' @ nl @ ''    functions := '' @ fp @ '','' @ nl
            @ ''    target := '' @ tp @ '','' @ nl
            @ ''    global := '' @ lean_bool (truthy (jget d ''global'')) @ '' }'')))"

definition pragma_from_node :: "node \<Rightarrow> string imp" where
  "pragma_from_node d =
     (case dget_or d ''literals'' (JList []) of
        JList (l # ls) \<Rightarrow>
          bindR (need ''PragmaDirective literals must be strings'' (list_all is_str (l # ls))) (\<lambda>_.
            Inr (''SourceItem.pragma '' @ lean_string (py_str l) @ '' '' @ lean_string (concat (map py_str ls))))
      | _ \<Rightarrow> fail ''PragmaDirective missing literals'')"

section \<open>The tables\<close>

definition function_param_count_from_node :: "node \<Rightarrow> nat option" where
  "function_param_count_from_node d =
     (if nt_is d ''FunctionDefinition'' then
        (case jget d ''parameters'' of
           JObj p \<Rightarrow> (case jget p ''parameters'' of JList xs \<Rightarrow> Some (length xs) | _ \<Rightarrow> None)
         | _ \<Rightarrow> None)
      else None)"

definition count_entry :: "node \<Rightarrow> (int \<times> nat) option" where
  "count_entry d =
     (case (id_value (jget d ''id''), function_param_count_from_node d) of
        (Some i, Some n) \<Rightarrow> Some (i, n) | _ \<Rightarrow> None)"

definition collect_function_param_counts :: "json \<Rightarrow> (int \<times> nat) list" where
  "collect_function_param_counts ast = dput_all [] (List.map_filter count_entry (nodes_of ast))"

definition name_entry :: "node \<Rightarrow> (int \<times> string) option" where
  "name_entry d =
     (case (id_value (jget d ''id''), jget d ''name'') of
        (Some i, JStr n) \<Rightarrow> if nt_is d ''FunctionDefinition'' then Some (i, n) else None
      | _ \<Rightarrow> None)"

definition collect_function_names_by_id :: "json \<Rightarrow> (int \<times> string) list" where
  "collect_function_names_by_id ast = dput_all [] (List.map_filter name_entry (nodes_of ast))"

definition tables_of :: "json \<Rightarrow> tables" where
  "tables_of ast = \<lparr>t_counts = collect_function_param_counts ast, t_names = collect_function_names_by_id ast\<rparr>"

section \<open>Contracts\<close>

definition item :: "string \<Rightarrow> string \<Rightarrow> string" where
  "item ctor t = ''(ContractItem.'' @ ctor @ nl @ ''  '' @ t @ '')''"

text \<open>What one child of a contract contributes.\<close>

definition contract_items :: "tables \<Rightarrow> nat \<Rightarrow> node \<Rightarrow> string list imp" where
  "contract_items tb s d =
     (if fld_in d ''nodeType'' [''StateVariableDeclaration'', ''VariableDeclaration''] then state_var_from_node tb s d
      else if nt_is d ''EventDefinition'' then
        bindR (event_decl_from_node s d) (\<lambda>t. Inr [item ''eventDecl'' t])
      else if nt_is d ''ErrorDefinition'' then
        bindR (error_decl_from_node s d) (\<lambda>t. Inr [item ''errorDecl'' t])
      else if nt_is d ''StructDefinition'' then
        bindR (struct_decl_from_node s d) (\<lambda>t. Inr [item ''structDecl'' t])
      else if nt_is d ''EnumDefinition'' then
        bindR (enum_decl_from_node d) (\<lambda>t. Inr [item ''enumDecl'' t])
      else if nt_is d ''UserDefinedValueTypeDefinition'' then
        bindR (user_value_type_decl_from_node s d) (\<lambda>t. Inr [item ''userValueTypeDecl'' t])
      else if nt_is d ''UsingForDirective'' then
        bindR (using_decl_from_node tb s d) (\<lambda>t. Inr [item ''usingDecl'' t])
      else if nt_is d ''ModifierDefinition'' then
        bindR (modifier_from_node tb s d) (\<lambda>t. Inr [t])
      else if nt_is d ''FunctionDefinition'' then
        bindR (function_decl_from_node tb s False (JObj d)) (\<lambda>t. Inr [item ''function'' t])
      else fail (''unsupported ContractDefinition child node '' @ py_repr (jget d ''nodeType'')))"

definition objs :: "json list \<Rightarrow> node list" where
  "objs xs = map jobj (filter is_obj xs)"

definition render_contract :: "tables \<Rightarrow> nat \<Rightarrow> node \<Rightarrow> string imp" where
  "render_contract tb s c =
     bindR (need_str ''ContractDefinition missing name'' (jget c ''name'')) (\<lambda>n.
     bindR (need_list ''ContractDefinition.nodes must be a list'' (dget_or c ''nodes'' (JList []))) (\<lambda>nodes.
     bindR (need_list ''ContractDefinition.baseContracts must be a list'' (dget_or c ''baseContracts'' (JList []))) (\<lambda>bases.
     bindR (mapR (contract_items tb s) (objs nodes)) (\<lambda>itemss.
     bindR (contract_kind (py_str (dget_or c ''contractKind'' (JStr ''contract'')))) (\<lambda>kind.
     bindR (mapR (base_specifier_from_node tb s) bases) (\<lambda>bs.
       Inr (''{ kind := '' @ kind @ nl @ ''  name := '' @ lean_string n @ nl
            @ ''  abstract := '' @ lean_bool (truthy (jget c ''abstract'')) @ nl
            @ ''  bases := '' @ lean_list bs @ nl
            @ ''  items := '' @ lean_list (concat itemss) @ '' }'')))))))"

end
