(* ===== verification/ImportGuard.thy ===== *)
theory ImportGuard
  imports ImportDecl Fingerprint
begin

text \<open>
  The importer: the audit of the AST. The tables say which node types, child fields, scalar fields and
  scalar values the importer knows; the coverage counts what an AST has of each class, and
  \<open>guard_no_unsupported_nodes\<close> fails on what is not known.
\<close>

section \<open>Tables\<close>

definition SUPPORTED_NODE_TYPES :: "string list" where
  "SUPPORTED_NODE_TYPES =
     [''Assignment'', ''ArrayTypeName'', ''BinaryOperation'', ''Block'', ''Break'',
      ''Conditional'', ''Continue'', ''ContractDefinition'', ''DoWhileStatement'',
      ''ElementaryTypeName'', ''ElementaryTypeNameExpression'', ''EmitStatement'',
      ''EnumDefinition'', ''EnumValue'', ''ErrorDefinition'', ''EventDefinition'',
      ''ExpressionStatement'', ''ForStatement'', ''FunctionCall'', ''FunctionCallOptions'',
      ''FunctionDefinition'', ''FunctionTypeName'', ''Identifier'', ''IdentifierPath'',
      ''IfStatement'', ''IndexAccess'', ''IndexRangeAccess'', ''InheritanceSpecifier'',
      ''Literal'', ''Mapping'', ''MemberAccess'', ''ModifierDefinition'', ''ModifierInvocation'',
      ''NewExpression'', ''OverrideSpecifier'', ''ParameterList'', ''PlaceholderStatement'',
      ''PragmaDirective'', ''Return'', ''RevertStatement'', ''SourceUnit'', ''StructDefinition'',
      ''TupleExpression'', ''TryCatchClause'', ''TryStatement'', ''UncheckedBlock'',
      ''UnaryOperation'', ''UserDefinedTypeName'', ''UserDefinedValueTypeDefinition'',
      ''UsingForDirective'', ''VariableDeclaration'', ''VariableDeclarationStatement'',
      ''WhileStatement'']"

definition METADATA_NODE_TYPES :: "string list" where
  "METADATA_NODE_TYPES =
     [''StructuredDocumentation'']"

definition IMPORTER_EXCLUDED_NODE_TYPES :: "(string \<times> string) list" where
  "IMPORTER_EXCLUDED_NODE_TYPES =
     [(''ImportDirective'', ''import resolution is intentionally out of scope''),
      (''InlineAssembly'', ''inline assembly/Yul is intentionally out of scope'')]"

definition SOURCE_CHILD_FIELDS :: "(string \<times> string) list" where
  "SOURCE_CHILD_FIELDS =
     [(''ArrayTypeName'', ''baseType''), (''ArrayTypeName'', ''length''),
      (''Assignment'', ''leftHandSide''), (''Assignment'', ''rightHandSide''),
      (''BinaryOperation'', ''leftExpression''), (''BinaryOperation'', ''rightExpression''),
      (''Block'', ''statements''), (''Conditional'', ''condition''),
      (''Conditional'', ''falseExpression''), (''Conditional'', ''trueExpression''),
      (''ContractDefinition'', ''baseContracts''), (''ContractDefinition'', ''nodes''),
      (''DoWhileStatement'', ''body''), (''DoWhileStatement'', ''condition''),
      (''ElementaryTypeNameExpression'', ''typeName''), (''EmitStatement'', ''eventCall''),
      (''EnumDefinition'', ''members''), (''ErrorDefinition'', ''parameters''),
      (''EventDefinition'', ''parameters''), (''ExpressionStatement'', ''expression''),
      (''ForStatement'', ''body''), (''ForStatement'', ''condition''),
      (''ForStatement'', ''initializationExpression''), (''ForStatement'', ''loopExpression''),
      (''FunctionCall'', ''arguments''), (''FunctionCall'', ''expression''),
      (''FunctionCallOptions'', ''expression''), (''FunctionCallOptions'', ''options''),
      (''FunctionDefinition'', ''body''), (''FunctionDefinition'', ''modifiers''),
      (''FunctionDefinition'', ''overrides''), (''FunctionDefinition'', ''parameters''),
      (''FunctionDefinition'', ''returnParameters''), (''FunctionTypeName'', ''parameterTypes''),
      (''FunctionTypeName'', ''returnParameterTypes''), (''IfStatement'', ''condition''),
      (''IfStatement'', ''falseBody''), (''IfStatement'', ''trueBody''),
      (''IndexAccess'', ''baseExpression''), (''IndexAccess'', ''indexExpression''),
      (''IndexRangeAccess'', ''baseExpression''), (''IndexRangeAccess'', ''endExpression''),
      (''IndexRangeAccess'', ''startExpression''), (''InheritanceSpecifier'', ''arguments''),
      (''InheritanceSpecifier'', ''baseName''), (''Mapping'', ''keyType''),
      (''Mapping'', ''valueType''), (''MemberAccess'', ''expression''),
      (''ModifierDefinition'', ''body''), (''ModifierDefinition'', ''overrides''),
      (''ModifierDefinition'', ''parameters''), (''ModifierInvocation'', ''arguments''),
      (''ModifierInvocation'', ''modifierName''), (''NewExpression'', ''typeName''),
      (''OverrideSpecifier'', ''overrides''), (''ParameterList'', ''parameters''),
      (''Return'', ''expression''), (''RevertStatement'', ''errorCall''),
      (''SourceUnit'', ''nodes''), (''StructDefinition'', ''members''),
      (''TryCatchClause'', ''block''), (''TryCatchClause'', ''parameters''),
      (''TryStatement'', ''clauses''), (''TryStatement'', ''externalCall''),
      (''TupleExpression'', ''components''), (''UnaryOperation'', ''subExpression''),
      (''UncheckedBlock'', ''statements''), (''UserDefinedTypeName'', ''pathNode''),
      (''UserDefinedValueTypeDefinition'', ''underlyingType''),
      (''UsingForDirective'', ''functionList.definition''),
      (''UsingForDirective'', ''functionList.function''),
      (''UsingForDirective'', ''libraryName''), (''UsingForDirective'', ''typeName''),
      (''VariableDeclaration'', ''overrides''), (''VariableDeclaration'', ''typeName''),
      (''VariableDeclaration'', ''value''), (''VariableDeclarationStatement'', ''declarations''),
      (''VariableDeclarationStatement'', ''initialValue''), (''WhileStatement'', ''body''),
      (''WhileStatement'', ''condition'')]"

definition METADATA_CHILD_FIELDS :: "(string \<times> string) list" where
  "METADATA_CHILD_FIELDS =
     [(''ContractDefinition'', ''documentation''), (''EnumDefinition'', ''documentation''),
      (''ErrorDefinition'', ''documentation''), (''EventDefinition'', ''documentation''),
      (''FunctionDefinition'', ''documentation''), (''ModifierDefinition'', ''documentation''),
      (''StructDefinition'', ''documentation''), (''VariableDeclaration'', ''documentation'')]"

definition SOURCE_SCALAR_FIELDS :: "(string \<times> string) list" where
  "SOURCE_SCALAR_FIELDS =
     [(''Assignment'', ''operator''), (''BinaryOperation'', ''operator''),
      (''ContractDefinition'', ''abstract''), (''ContractDefinition'', ''contractKind''),
      (''ContractDefinition'', ''name''), (''ElementaryTypeName'', ''name''),
      (''ElementaryTypeName'', ''stateMutability''), (''EnumDefinition'', ''name''),
      (''EnumValue'', ''name''), (''ErrorDefinition'', ''name''),
      (''EventDefinition'', ''anonymous''), (''EventDefinition'', ''name''),
      (''FunctionCall'', ''names''), (''FunctionCallOptions'', ''names''),
      (''FunctionDefinition'', ''kind''), (''FunctionDefinition'', ''name''),
      (''FunctionDefinition'', ''stateMutability''), (''FunctionDefinition'', ''virtual''),
      (''FunctionDefinition'', ''visibility''), (''FunctionTypeName'', ''stateMutability''),
      (''FunctionTypeName'', ''visibility''), (''Identifier'', ''name''),
      (''IdentifierPath'', ''name''), (''Literal'', ''hexValue''), (''Literal'', ''kind''),
      (''Literal'', ''subdenomination''), (''Literal'', ''value''),
      (''MemberAccess'', ''memberName''), (''ModifierDefinition'', ''name''),
      (''ModifierDefinition'', ''virtual''), (''PragmaDirective'', ''literals''),
      (''StructDefinition'', ''name''), (''TryCatchClause'', ''errorName''),
      (''TupleExpression'', ''components''), (''TupleExpression'', ''isInlineArray''),
      (''UnaryOperation'', ''operator''), (''UnaryOperation'', ''prefix''),
      (''UserDefinedValueTypeDefinition'', ''name''),
      (''UsingForDirective'', ''functionList.operator''), (''UsingForDirective'', ''global''),
      (''VariableDeclaration'', ''constant''), (''VariableDeclaration'', ''indexed''),
      (''VariableDeclaration'', ''mutability''), (''VariableDeclaration'', ''name''),
      (''VariableDeclaration'', ''stateVariable''),
      (''VariableDeclaration'', ''storageLocation''), (''VariableDeclaration'', ''visibility''),
      (''VariableDeclarationStatement'', ''declarations'')]"

definition ANALYSIS_SCALAR_FIELDS :: "(string \<times> string) list" where
  "ANALYSIS_SCALAR_FIELDS =
     [(''ArrayTypeName'', ''typeDescriptions.typeIdentifier''),
      (''ArrayTypeName'', ''typeDescriptions.typeString''), (''Assignment'', ''isConstant''),
      (''Assignment'', ''isLValue''), (''Assignment'', ''isPure''),
      (''Assignment'', ''lValueRequested''),
      (''Assignment'', ''typeDescriptions.typeIdentifier''),
      (''Assignment'', ''typeDescriptions.typeString''),
      (''BinaryOperation'', ''commonType.typeIdentifier''),
      (''BinaryOperation'', ''commonType.typeString''), (''BinaryOperation'', ''isConstant''),
      (''BinaryOperation'', ''isLValue''), (''BinaryOperation'', ''isPure''),
      (''BinaryOperation'', ''lValueRequested''), (''BinaryOperation'', ''function''),
      (''BinaryOperation'', ''typeDescriptions.typeIdentifier''),
      (''BinaryOperation'', ''typeDescriptions.typeString''), (''Conditional'', ''isConstant''),
      (''Conditional'', ''isLValue''), (''Conditional'', ''isPure''),
      (''Conditional'', ''lValueRequested''),
      (''Conditional'', ''typeDescriptions.typeIdentifier''),
      (''Conditional'', ''typeDescriptions.typeString''),
      (''ContractDefinition'', ''fullyImplemented''),
      (''ElementaryTypeName'', ''typeDescriptions.typeIdentifier''),
      (''ElementaryTypeName'', ''typeDescriptions.typeString''),
      (''ElementaryTypeNameExpression'', ''argumentTypes.typeIdentifier''),
      (''ElementaryTypeNameExpression'', ''argumentTypes.typeString''),
      (''ElementaryTypeNameExpression'', ''isConstant''),
      (''ElementaryTypeNameExpression'', ''isLValue''),
      (''ElementaryTypeNameExpression'', ''isPure''),
      (''ElementaryTypeNameExpression'', ''lValueRequested''),
      (''ElementaryTypeNameExpression'', ''typeDescriptions.typeIdentifier''),
      (''ElementaryTypeNameExpression'', ''typeDescriptions.typeString''),
      (''ForStatement'', ''isSimpleCounterLoop''),
      (''FunctionCall'', ''argumentTypes.typeIdentifier''),
      (''FunctionCall'', ''argumentTypes.typeString''), (''FunctionCall'', ''isConstant''),
      (''FunctionCall'', ''isLValue''), (''FunctionCall'', ''isPure''),
      (''FunctionCall'', ''kind''), (''FunctionCall'', ''lValueRequested''),
      (''FunctionCall'', ''tryCall''), (''FunctionCall'', ''typeDescriptions.typeIdentifier''),
      (''FunctionCall'', ''typeDescriptions.typeString''),
      (''FunctionCallOptions'', ''argumentTypes.typeIdentifier''),
      (''FunctionCallOptions'', ''argumentTypes.typeString''),
      (''FunctionCallOptions'', ''isConstant''), (''FunctionCallOptions'', ''isLValue''),
      (''FunctionCallOptions'', ''isPure''), (''FunctionCallOptions'', ''lValueRequested''),
      (''FunctionCallOptions'', ''typeDescriptions.typeIdentifier''),
      (''FunctionCallOptions'', ''typeDescriptions.typeString''),
      (''FunctionDefinition'', ''implemented''),
      (''FunctionTypeName'', ''typeDescriptions.typeIdentifier''),
      (''FunctionTypeName'', ''typeDescriptions.typeString''),
      (''Identifier'', ''argumentTypes.typeIdentifier''),
      (''Identifier'', ''argumentTypes.typeString''),
      (''Identifier'', ''typeDescriptions.typeIdentifier''),
      (''Identifier'', ''typeDescriptions.typeString''),
      (''IndexAccess'', ''argumentTypes.typeIdentifier''),
      (''IndexAccess'', ''argumentTypes.typeString''), (''IndexAccess'', ''isConstant''),
      (''IndexAccess'', ''isLValue''), (''IndexAccess'', ''isPure''),
      (''IndexAccess'', ''lValueRequested''),
      (''IndexAccess'', ''typeDescriptions.typeIdentifier''),
      (''IndexAccess'', ''typeDescriptions.typeString''), (''IndexRangeAccess'', ''isConstant''),
      (''IndexRangeAccess'', ''isLValue''), (''IndexRangeAccess'', ''isPure''),
      (''IndexRangeAccess'', ''lValueRequested''),
      (''IndexRangeAccess'', ''typeDescriptions.typeIdentifier''),
      (''IndexRangeAccess'', ''typeDescriptions.typeString''), (''Literal'', ''isConstant''),
      (''Literal'', ''isLValue''), (''Literal'', ''isPure''), (''Literal'', ''lValueRequested''),
      (''Literal'', ''typeDescriptions.typeIdentifier''),
      (''Literal'', ''typeDescriptions.typeString''),
      (''Mapping'', ''typeDescriptions.typeIdentifier''),
      (''Mapping'', ''typeDescriptions.typeString''),
      (''MemberAccess'', ''argumentTypes.typeIdentifier''),
      (''MemberAccess'', ''argumentTypes.typeString''), (''MemberAccess'', ''isConstant''),
      (''MemberAccess'', ''isLValue''), (''MemberAccess'', ''isPure''),
      (''MemberAccess'', ''lValueRequested''),
      (''MemberAccess'', ''typeDescriptions.typeIdentifier''),
      (''MemberAccess'', ''typeDescriptions.typeString''), (''ModifierInvocation'', ''kind''),
      (''NewExpression'', ''argumentTypes.typeIdentifier''),
      (''NewExpression'', ''argumentTypes.typeString''), (''NewExpression'', ''isConstant''),
      (''NewExpression'', ''isLValue''), (''NewExpression'', ''isPure''),
      (''NewExpression'', ''lValueRequested''),
      (''NewExpression'', ''typeDescriptions.typeIdentifier''),
      (''NewExpression'', ''typeDescriptions.typeString''),
      (''TupleExpression'', ''argumentTypes.typeIdentifier''),
      (''TupleExpression'', ''argumentTypes.typeString''), (''TupleExpression'', ''isConstant''),
      (''TupleExpression'', ''isLValue''), (''TupleExpression'', ''isPure''),
      (''TupleExpression'', ''lValueRequested''),
      (''TupleExpression'', ''typeDescriptions.typeIdentifier''),
      (''TupleExpression'', ''typeDescriptions.typeString''), (''UnaryOperation'', ''function''),
      (''UnaryOperation'', ''isConstant''), (''UnaryOperation'', ''isLValue''),
      (''UnaryOperation'', ''isPure''), (''UnaryOperation'', ''lValueRequested''),
      (''UnaryOperation'', ''typeDescriptions.typeIdentifier''),
      (''UnaryOperation'', ''typeDescriptions.typeString''),
      (''UserDefinedTypeName'', ''typeDescriptions.typeIdentifier''),
      (''UserDefinedTypeName'', ''typeDescriptions.typeString''),
      (''VariableDeclaration'', ''typeDescriptions.typeIdentifier''),
      (''VariableDeclaration'', ''typeDescriptions.typeString'')]"

definition METADATA_SCALAR_FIELDS :: "(string \<times> string) list" where
  "METADATA_SCALAR_FIELDS =
     [(''Mapping'', ''keyName''), (''Mapping'', ''keyNameLocation''),
      (''Mapping'', ''valueName''), (''Mapping'', ''valueNameLocation''),
      (''ModifierDefinition'', ''baseModifiers''), (''ModifierDefinition'', ''visibility''),
      (''SourceUnit'', ''absolutePath''), (''SourceUnit'', ''license''),
      (''StructDefinition'', ''visibility''), (''StructuredDocumentation'', ''text''),
      (''VariableDeclarationStatement'', ''assignments'')]"

definition METADATA_SCALAR_FIELD_SUFFIXES :: "string list" where
  "METADATA_SCALAR_FIELD_SUFFIXES =
     [''baseFunctions'', ''canonicalName'', ''contractDependencies'', ''errorSelector'',
      ''eventSelector'', ''functionReturnParameters'', ''functionSelector'', ''id'',
      ''linearizedBaseContracts'', ''memberLocation'', ''nameLocation'', ''nameLocations'',
      ''overloadedDeclarations'', ''referencedDeclaration'', ''scope'', ''src'', ''usedErrors'',
      ''usedEvents'']"

definition SOURCE_SCALAR_VALUE_DOMAINS :: "((string \<times> string) \<times> json list) list" where
  "SOURCE_SCALAR_VALUE_DOMAINS =
     [
      ((''Assignment'', ''operator''), [JStr ''='', JStr ''+='', JStr ''-='', JStr ''*='', JStr ''/='', JStr ''%='', JStr ''&='', JStr ''|='', JStr ''^='', JStr ''<<='', JStr ''>>='']),
      ((''BinaryOperation'', ''operator''), [JStr ''+'', JStr ''-'', JStr ''*'', JStr ''/'', JStr ''%'', JStr ''**'', JStr ''=='', JStr ''!='', JStr ''<'', JStr ''>'', JStr ''<='', JStr ''>='', JStr ''&&'', JStr ''||'', JStr ''&'', JStr ''|'', JStr ''^'', JStr ''<<'', JStr ''>>'']),
      ((''ContractDefinition'', ''abstract''), [JBool False, JBool True]),
      ((''ContractDefinition'', ''contractKind''), [JStr ''contract'', JStr ''interface'', JStr ''library'']),
      ((''ElementaryTypeName'', ''stateMutability''), [JStr ''nonpayable'', JStr ''payable'']),
      ((''EventDefinition'', ''anonymous''), [JBool False, JBool True]),
      ((''FunctionDefinition'', ''kind''), [JStr ''constructor'', JStr ''fallback'', JStr ''freeFunction'', JStr ''function'', JStr ''receive'']),
      ((''FunctionDefinition'', ''stateMutability''), [JStr ''nonpayable'', JStr ''payable'', JStr ''pure'', JStr ''view'']),
      ((''FunctionDefinition'', ''virtual''), [JBool False, JBool True]),
      ((''FunctionDefinition'', ''visibility''), [JStr ''external'', JStr ''internal'', JStr ''private'', JStr ''public'']),
      ((''FunctionTypeName'', ''stateMutability''), [JStr ''nonpayable'', JStr ''payable'', JStr ''pure'', JStr ''view'']),
      ((''FunctionTypeName'', ''visibility''), [JStr ''external'', JStr ''internal'']),
      ((''Literal'', ''kind''), [JStr ''bool'', JStr ''hexString'', JStr ''number'', JStr ''string'', JStr ''unicodeString'']),
      ((''Literal'', ''subdenomination''), [JStr ''days'', JStr ''ether'', JStr ''gwei'', JStr ''hours'', JStr ''minutes'', JStr ''seconds'', JStr ''weeks'', JStr ''wei'']),
      ((''TupleExpression'', ''isInlineArray''), [JBool False, JBool True]),
      ((''TryCatchClause'', ''errorName''), [JStr [], JStr ''Error'', JStr ''Panic'']),
      ((''UnaryOperation'', ''operator''), [JStr ''!'', JStr ''-'', JStr ''--'', JStr ''++'', JStr ''delete'', JStr ''~'']),
      ((''UnaryOperation'', ''prefix''), [JBool False, JBool True]),
      ((''UsingForDirective'', ''global''), [JBool False, JBool True]),
      ((''VariableDeclaration'', ''constant''), [JBool False, JBool True]),
      ((''VariableDeclaration'', ''indexed''), [JBool False, JBool True]),
      ((''VariableDeclaration'', ''mutability''), [JStr ''constant'', JStr ''immutable'', JStr ''mutable'']),
      ((''VariableDeclaration'', ''stateVariable''), [JBool False, JBool True]),
      ((''VariableDeclaration'', ''storageLocation''), [JStr ''calldata'', JStr ''default'', JStr ''memory'', JStr ''storage'', JStr ''transient'']),
      ((''VariableDeclaration'', ''visibility''), [JStr ''internal'', JStr ''private'', JStr ''public''])]"

section \<open>Status\<close>

definition node_type_status :: "string \<Rightarrow> string" where
  "node_type_status t =
     (if t \<in> set SUPPORTED_NODE_TYPES then ''supported''
      else if t \<in> set METADATA_NODE_TYPES then ''metadata''
      else if dhas IMPORTER_EXCLUDED_NODE_TYPES t \<or> starts ''Yul'' t then ''excluded''
      else ''unimplemented'')"

definition child_field_key :: "string \<Rightarrow> string \<Rightarrow> string" where
  "child_field_key parent path = parent @ ''.'' @ path"

definition child_field_status :: "string \<Rightarrow> string \<Rightarrow> string" where
  "child_field_status parent path =
     (if (parent, path) \<in> set SOURCE_CHILD_FIELDS then ''source''
      else if (parent, path) \<in> set METADATA_CHILD_FIELDS then ''metadata''
      else ''unclassified'')"

definition scalar_field_status :: "string \<Rightarrow> string \<Rightarrow> string" where
  "scalar_field_status parent path =
     (if (parent, path) \<in> set SOURCE_SCALAR_FIELDS then ''source''
      else if (parent, path) \<in> set ANALYSIS_SCALAR_FIELDS then ''analysis''
      else if (parent, path) \<in> set METADATA_SCALAR_FIELDS then ''metadata''
      else if path \<in> set METADATA_SCALAR_FIELD_SUFFIXES then ''metadata''
      else if starts ''exportedSymbols.'' path then ''metadata''
      else if starts ''internalFunctionIDs.'' path then ''metadata''
      else ''unclassified'')"

section \<open>Walks\<close>

definition node_type_of :: "node \<Rightarrow> string option" where
  "node_type_of d = (case jget d ''nodeType'' of JStr t \<Rightarrow> Some t | _ \<Rightarrow> None)"

definition iter_node_types :: "json \<Rightarrow> string list" where
  "iter_node_types v = List.map_filter node_type_of (nodes_of v)"

definition sub_path :: "string \<Rightarrow> string \<Rightarrow> string" where
  "sub_path path key = (if path \<noteq> [] then path @ ''.'' @ key else key)"

text \<open>The edges below a field of a node (\<open>collect\<close>) and below a value (\<open>walk\<close>), with the functions on
  the entries of an object and on the items of a list.\<close>

type_synonym edge = "string \<times> string \<times> string"

fun edges_collect :: "string \<Rightarrow> string \<Rightarrow> json \<Rightarrow> edge list"
  and edges_collect_vals :: "string \<Rightarrow> string \<Rightarrow> (string \<times> json) list \<Rightarrow> edge list"
  and edges_collect_items :: "string \<Rightarrow> string \<Rightarrow> json list \<Rightarrow> edge list"
  and edges_fields :: "string \<Rightarrow> (string \<times> json) list \<Rightarrow> edge list" where
  "edges_collect parent path (JObj d) =
     (case node_type_of d of
        Some t \<Rightarrow> (parent, path, t) # edges_fields t d
      | None \<Rightarrow> edges_collect_vals parent path d)"
| "edges_collect parent path (JList xs) = edges_collect_items parent path xs"
| "edges_collect parent path v = []"
| "edges_collect_vals parent path [] = []"
| "edges_collect_vals parent path ((k, v) # d) =
     edges_collect parent (sub_path path k) v @ edges_collect_vals parent path d"
| "edges_collect_items parent path [] = []"
| "edges_collect_items parent path (x # xs) =
     edges_collect parent path x @ edges_collect_items parent path xs"
| "edges_fields t [] = []"
| "edges_fields t ((k, v) # d) =
     (if k \<noteq> ''nodeType'' then edges_collect t k v else []) @ edges_fields t d"

fun edges_walk :: "json \<Rightarrow> edge list"
  and edges_walk_vals :: "(string \<times> json) list \<Rightarrow> edge list"
  and edges_walk_items :: "json list \<Rightarrow> edge list" where
  "edges_walk (JObj d) =
     (case node_type_of d of Some t \<Rightarrow> edges_fields t d | None \<Rightarrow> edges_walk_vals d)"
| "edges_walk (JList xs) = edges_walk_items xs"
| "edges_walk v = []"
| "edges_walk_vals [] = []"
| "edges_walk_vals ((k, v) # d) = edges_walk v @ edges_walk_vals d"
| "edges_walk_items [] = []"
| "edges_walk_items (x # xs) = edges_walk x @ edges_walk_items xs"

definition iter_child_edges :: "json \<Rightarrow> edge list" where
  "iter_child_edges v = edges_walk v"

type_synonym scalar_field = "string \<times> string \<times> json"

fun scalars_collect :: "string \<Rightarrow> string \<Rightarrow> json \<Rightarrow> scalar_field list"
  and scalars_collect_vals :: "string \<Rightarrow> string \<Rightarrow> (string \<times> json) list \<Rightarrow> scalar_field list"
  and scalars_collect_items :: "string \<Rightarrow> string \<Rightarrow> json list \<Rightarrow> scalar_field list" where
  "scalars_collect parent path (JObj d) =
     (case node_type_of d of Some t \<Rightarrow> [] | None \<Rightarrow> scalars_collect_vals parent path d)"
| "scalars_collect parent path (JList xs) = scalars_collect_items parent path xs"
| "scalars_collect parent path v = [(parent, path, v)]"
| "scalars_collect_vals parent path [] = []"
| "scalars_collect_vals parent path ((k, v) # d) =
     scalars_collect parent (sub_path path k) v @ scalars_collect_vals parent path d"
| "scalars_collect_items parent path [] = []"
| "scalars_collect_items parent path (x # xs) =
     (if is_obj x then scalars_collect parent path x else [(parent, path, x)])
     @ scalars_collect_items parent path xs"

definition node_scalars :: "string \<Rightarrow> node \<Rightarrow> scalar_field list" where
  "node_scalars t d =
     concat (map (\<lambda>(k, v). if k \<noteq> ''nodeType'' then scalars_collect t k v else []) d)"

definition iter_scalar_fields :: "json \<Rightarrow> scalar_field list" where
  "iter_scalar_fields v =
     concat (map (\<lambda>d. case node_type_of d of Some t \<Rightarrow> node_scalars t d | None \<Rightarrow> []) (nodes_of v))"

section \<open>Counts\<close>

definition bump :: "string \<Rightarrow> (string \<times> nat) list \<Rightarrow> (string \<times> nat) list" where
  "bump k d = dput d k (dget_or d k 0 + 1)"

definition bump_in ::
  "string \<Rightarrow> string \<Rightarrow> (string \<times> (string \<times> nat) list) list \<Rightarrow> (string \<times> (string \<times> nat) list) list" where
  "bump_in k c d = dput d k (bump c (dget_or d k []))"

definition sorted_items :: "(string \<times> 'v) list \<Rightarrow> (string \<times> 'v) list" where
  "sorted_items d = sort_key fst d"

definition sorted_nested :: "(string \<times> (string \<times> nat) list) list \<Rightarrow> (string \<times> (string \<times> nat) list) list" where
  "sorted_nested d = map (\<lambda>(k, c). (k, sorted_items c)) (sorted_items d)"

definition node_type_counts :: "json \<Rightarrow> (string \<times> nat) list" where
  "node_type_counts v = sorted_items (fold bump (iter_node_types v) [])"

definition child_field_counts :: "json \<Rightarrow> (string \<times> (string \<times> nat) list) list" where
  "child_field_counts v =
     sorted_nested (fold (\<lambda>(p, f, c). bump_in (child_field_key p f) c) (iter_child_edges v) [])"

definition scalar_field_counts :: "json \<Rightarrow> (string \<times> nat) list" where
  "scalar_field_counts v = sorted_items (fold (\<lambda>(p, f, x). bump (child_field_key p f)) (iter_scalar_fields v) [])"

definition scalar_value_repr :: "json \<Rightarrow> string" where
  "scalar_value_repr v = dumps v"

definition domain_of :: "string \<Rightarrow> string \<Rightarrow> json list option" where
  "domain_of p f = dget SOURCE_SCALAR_VALUE_DOMAINS (p, f)"

definition source_scalar_value_counts :: "json \<Rightarrow> (string \<times> (string \<times> nat) list) list" where
  "source_scalar_value_counts v =
     sorted_nested (fold (\<lambda>(p, f, x). bump_in (child_field_key p f) (scalar_value_repr x))
       (filter (\<lambda>(p, f, x). domain_of p f \<noteq> None) (iter_scalar_fields v)) [])"

text \<open>\<open>value in domain\<close> of a set of strings and truth values: numbers equal to a truth value are in,
  a list has no hash.\<close>

definition value_in_domain :: "json list \<Rightarrow> json \<Rightarrow> bool imp" where
  "value_in_domain vals v =
     (case v of
        JInt i \<Rightarrow> Inr (i = 0 \<and> JBool False \<in> set vals \<or> i = 1 \<and> JBool True \<in> set vals)
      | JFloat (FFin m e) r \<Rightarrow>
          Inr (m = 0 \<and> JBool False \<in> set vals \<or> m \<noteq> 0 \<and> m * 2 ^ nat e = 2 ^ nat (- e) \<and> JBool True \<in> set vals)
      | JList xs \<Rightarrow> Inl (Exn TypeError)
      | JObj d \<Rightarrow> Inl (Exn TypeError)
      | _ \<Rightarrow> Inr (v \<in> set vals))"

definition unknown_value :: "scalar_field \<Rightarrow> bool imp" where
  "unknown_value x =
     (let (p, f, v) = x in
      case domain_of p f of
        None \<Rightarrow> Inr False
      | Some vals \<Rightarrow> bindR (value_in_domain vals v) (\<lambda>b. Inr (\<not> b)))"

definition unknown_source_scalar_value_counts ::
  "json \<Rightarrow> (string \<times> (string \<times> nat) list) list imp" where
  "unknown_source_scalar_value_counts v =
     bindR (mapR (\<lambda>x. bindR (unknown_value x) (\<lambda>b. Inr (if b then [x] else []))) (iter_scalar_fields v)) (\<lambda>xss.
       Inr (sorted_nested (fold (\<lambda>(p, f, x). bump_in (child_field_key p f) (scalar_value_repr x)) (concat xss) [])))"

section \<open>Coverage\<close>

record coverage =
  cov_node_types :: "(string \<times> nat) list"
  cov_supported :: "(string \<times> nat) list"
  cov_metadata :: "(string \<times> nat) list"
  cov_excluded :: "(string \<times> nat) list"
  cov_unimplemented :: "(string \<times> nat) list"
  cov_child_fields :: "(string \<times> (string \<times> nat) list) list"
  cov_source_child_fields :: "(string \<times> (string \<times> nat) list) list"
  cov_metadata_child_fields :: "(string \<times> (string \<times> nat) list) list"
  cov_unclassified_child_fields :: "(string \<times> (string \<times> nat) list) list"
  cov_scalar_fields :: "(string \<times> nat) list"
  cov_source_scalar_fields :: "(string \<times> nat) list"
  cov_analysis_scalar_fields :: "(string \<times> nat) list"
  cov_metadata_scalar_fields :: "(string \<times> nat) list"
  cov_unclassified_scalar_fields :: "(string \<times> nat) list"
  cov_source_scalar_values :: "(string \<times> (string \<times> nat) list) list"
  cov_unknown_source_scalar_values :: "(string \<times> (string \<times> nat) list) list"

text \<open>\<open>key.partition(".")\<close>, and the entries whose key has a status.\<close>

definition key_status :: "(string \<Rightarrow> string \<Rightarrow> string) \<Rightarrow> string \<Rightarrow> string" where
  "key_status status key =
     (case part_at ''.'' key of Some (p, f) \<Rightarrow> status p f | None \<Rightarrow> status key [])"

definition by_status :: "(string \<Rightarrow> string) \<Rightarrow> string \<Rightarrow> (string \<times> 'v) list \<Rightarrow> (string \<times> 'v) list" where
  "by_status status st d = filter (\<lambda>(k, v). status k = st) d"

definition frontend_coverage :: "json \<Rightarrow> coverage imp" where
  "frontend_coverage ast =
     bindR (unknown_source_scalar_value_counts ast) (\<lambda>unknown.
     let nt = node_type_counts ast; cf = child_field_counts ast; sc = scalar_field_counts ast;
         child = key_status child_field_status; scalar = key_status scalar_field_status in
     Inr \<lparr>cov_node_types = nt, cov_supported = by_status node_type_status ''supported'' nt,
          cov_metadata = by_status node_type_status ''metadata'' nt,
          cov_excluded = by_status node_type_status ''excluded'' nt,
          cov_unimplemented = by_status node_type_status ''unimplemented'' nt,
          cov_child_fields = cf, cov_source_child_fields = by_status child ''source'' cf,
          cov_metadata_child_fields = by_status child ''metadata'' cf,
          cov_unclassified_child_fields = by_status child ''unclassified'' cf,
          cov_scalar_fields = sc, cov_source_scalar_fields = by_status scalar ''source'' sc,
          cov_analysis_scalar_fields = by_status scalar ''analysis'' sc,
          cov_metadata_scalar_fields = by_status scalar ''metadata'' sc,
          cov_unclassified_scalar_fields = by_status scalar ''unclassified'' sc,
          cov_source_scalar_values = source_scalar_value_counts ast,
          cov_unknown_source_scalar_values = unknown\<rparr>)"

section \<open>The guard\<close>

definition excluded_detail :: "string \<Rightarrow> string" where
  "excluded_detail t =
     t @ '' ('' @ dget_or IMPORTER_EXCLUDED_NODE_TYPES t ''Yul AST nodes are intentionally out of scope'' @ '')''"

text \<open>\<open>if xs: fail(msg + sep.join(sorted(xs)))\<close>.\<close>

definition guard_empty :: "string \<Rightarrow> (string \<times> 'v) list \<Rightarrow> unit imp" where
  "guard_empty msg d = (if d = [] then Inr () else fail (msg @ join '', '' (sort (dkeys d))))"

definition guard_no_unsupported_nodes :: "json \<Rightarrow> unit imp" where
  "guard_no_unsupported_nodes ast =
     bindR (frontend_coverage ast) (\<lambda>cov.
     let excluded = dkeys (cov_excluded cov) in
     bindR (if excluded = [] then Inr ()
            else fail (''excluded Solidity AST nodes present: '' @ join ''; '' (map excluded_detail (sort excluded)))) (\<lambda>_.
     bindR (guard_empty ''unimplemented Solidity AST nodes present: '' (cov_unimplemented cov)) (\<lambda>_.
     bindR (guard_empty ''unclassified Solidity AST child fields present: '' (cov_unclassified_child_fields cov)) (\<lambda>_.
     bindR (guard_empty ''unclassified Solidity AST scalar fields present: '' (cov_unclassified_scalar_fields cov)) (\<lambda>_.
     guard_empty ''unknown Solidity AST source scalar values present: '' (cov_unknown_source_scalar_values cov))))))"

end
