(* ===== verification/ImportModule.thy ===== *)
theory ImportModule
  imports ImportGuard Bridge
begin

text \<open>
  The importer: the items of the source unit, \<open>render_module\<close>, and \<open>main\<close> as the adjudicator sees it,
  a process with an exit status and two streams. What solc answers is the parameter \<open>solc\<close>: a name
  and an AST, or the message of a failure.
\<close>

section \<open>Finding the contract\<close>

text \<open>Iterating over an object or a string yields strings, which are skipped.\<close>

definition contract_definitions :: "node \<Rightarrow> node list imp" where
  "contract_definitions ast =
     (case dget_or ast ''nodes'' (JList []) of
        JList xs \<Rightarrow> Inr (filter (\<lambda>d. nt_is d ''ContractDefinition'') (objs xs))
      | JObj _ \<Rightarrow> Inr []
      | JStr _ \<Rightarrow> Inr []
      | _ \<Rightarrow> Inl (Exn TypeError))"

definition contract_index :: "string \<Rightarrow> node list \<Rightarrow> nat option" where
  "contract_index nm cs =
     (let before = takeWhile (\<lambda>d. jget d ''name'' \<noteq> JStr nm) cs
      in if length before < length cs then Some (length before) else None)"

definition find_contract :: "node \<Rightarrow> string \<Rightarrow> nat imp" where
  "find_contract ast nm =
     bindR (contract_definitions ast) (\<lambda>cs.
     case contract_index nm cs of
       Some i \<Rightarrow> Inr i
     | None \<Rightarrow> fail (''contract '' @ repr_str nm @ '' not found in solc AST''))"

section \<open>The source unit\<close>

definition def_name :: "nat \<Rightarrow> string" where
  "def_name i = ''importedContractDecl'' @ show_nat i"

text \<open>A source item; \<open>i\<close> is the number of the next contract.\<close>

definition source_item_from_node :: "tables \<Rightarrow> nat \<Rightarrow> nat \<Rightarrow> node \<Rightarrow> string imp" where
  "source_item_from_node tb s i d =
     (if nt_is d ''PragmaDirective'' then pragma_from_node d
      else if nt_is d ''ContractDefinition'' then Inr (''SourceItem.contract '' @ def_name i)
      else if nt_is d ''FunctionDefinition'' then
        bindR (function_decl_from_node tb s True (JObj d)) (\<lambda>t. Inr (''SourceItem.freeFunction'' @ nl @ ''  '' @ t))
      else if nt_is d ''VariableDeclaration'' then
        (if jget d ''constant'' = JBool True \<or> jget d ''mutability'' = JStr ''constant'' then
           bindR (state_var_decl_from_variable_node tb s JNull True (JObj d)) (\<lambda>t.
             Inr (''SourceItem.freeConstant'' @ nl @ ''  '' @ t))
         else fail ''unsupported non-constant free variable declaration'')
      else if nt_is d ''EventDefinition'' then
        bindR (event_decl_from_node s d) (\<lambda>t. Inr (''SourceItem.freeEvent'' @ nl @ ''  '' @ t))
      else if nt_is d ''ErrorDefinition'' then
        bindR (error_decl_from_node s d) (\<lambda>t. Inr (''SourceItem.freeError'' @ nl @ ''  '' @ t))
      else if nt_is d ''StructDefinition'' then
        bindR (struct_decl_from_node s d) (\<lambda>t. Inr (''SourceItem.freeStruct'' @ nl @ ''  '' @ t))
      else if nt_is d ''EnumDefinition'' then
        bindR (enum_decl_from_node d) (\<lambda>t. Inr (''SourceItem.freeEnum'' @ nl @ ''  '' @ t))
      else if nt_is d ''UserDefinedValueTypeDefinition'' then
        bindR (user_value_type_decl_from_node s d) (\<lambda>t. Inr (''SourceItem.freeUserValueType'' @ nl @ ''  '' @ t))
      else if nt_is d ''UsingForDirective'' then
        bindR (using_decl_from_node tb s d) (\<lambda>t. Inr (''SourceItem.usingDecl'' @ nl @ ''  '' @ t))
      else fail (''unsupported SourceUnit child node '' @ py_repr (jget d ''nodeType'')))"

fun source_items :: "tables \<Rightarrow> nat \<Rightarrow> nat \<Rightarrow> node list \<Rightarrow> string list imp" where
  "source_items tb s i [] = Inr []"
| "source_items tb s i (d # ds) =
     bindR (source_item_from_node tb s i d) (\<lambda>t.
     bindR (source_items tb s (if nt_is d ''ContractDefinition'' then Suc i else i) ds) (\<lambda>ts.
       Inr (t # ts)))"

section \<open>The module\<close>

fun contract_defs :: "tables \<Rightarrow> nat \<Rightarrow> nat \<Rightarrow> node list \<Rightarrow> string list imp" where
  "contract_defs tb s i [] = Inr []"
| "contract_defs tb s i (c # cs) =
     bindR (render_contract tb s c) (\<lambda>t.
     bindR (contract_defs tb s (Suc i) cs) (\<lambda>ls.
       Inr ((''def '' @ def_name i @ '' : ContractDecl :='') # t # [] # ls)))"

definition header_lines :: "bool \<Rightarrow> string list" where
  "header_lines body_only =
     (if body_only then [] else [''import SolidCore.Solidity.Checked'', ''import SolidCore.Witness.Checked'', []])"

definition footer_lines :: "string list \<Rightarrow> string list \<Rightarrow> string list" where
  "footer_lines items segments =
     [''def importedSourceUnit : SourceUnit :='', ''  { items := '' @ lean_list items @ '' }'', [],
      ''def importedContractAccepted : Bool :='',
      ''  TypeCheck.Result.isOk (TypeCheck.TypecheckedInput.checkedSourceUnit importedSourceUnit)'', []]
     @ map (\<lambda>n. ''end '' @ n) (rev segments) @ [[]]"

definition render_module ::
  "nat \<Rightarrow> node \<Rightarrow> string \<Rightarrow> string \<Rightarrow> string \<Rightarrow> bool \<Rightarrow> string imp" where
  "render_module s ast source_name contract_name namespace body_only =
     (let tb = tables_of (JObj ast) in
      bindR (guard_no_unsupported_nodes (JObj ast)) (\<lambda>_.
      bindR (find_contract ast contract_name) (\<lambda>selected.
      bindR (contract_definitions ast) (\<lambda>contracts.
      bindR (namespace_segments namespace) (\<lambda>segments.
      bindR (contract_defs tb s 0 contracts) (\<lambda>defs.
      bindR (need_list ''SourceUnit.nodes must be a list'' (dget_or ast ''nodes'' (JList []))) (\<lambda>nodes.
      bindR (source_items tb s 0 (objs nodes)) (\<lambda>items.
        Inr (join nl
          (header_lines body_only @ map (\<lambda>n. ''namespace '' @ n) segments
           @ [[], ''def importedSourceName : String := '' @ lean_string source_name, []]
           @ defs
           @ [''def importedContract : ContractDecl :='', ''  '' @ def_name selected, [],
              ''def importedContracts : List ContractDecl :='',
              ''  '' @ lean_list (map def_name [0..<length contracts]), []]
           @ footer_lines items segments))))))))))"

section \<open>The process\<close>

text \<open>An exception that is not an \<open>ImportError\<close> ends in a traceback.\<close>

definition main ::
  "nat \<Rightarrow> utext \<Rightarrow> (string \<times> node) imp \<Rightarrow> string \<Rightarrow> string \<Rightarrow> bool \<Rightarrow> capture" where
  "main s traceback solc contract namespace body_only =
     (case bindR solc (\<lambda>(name, ast). render_module s ast name contract namespace body_only) of
        Inr t \<Rightarrow> Exit 0 (ulit t) []
      | Inl (Fail msg) \<Rightarrow> Exit 1 [] (ulit (''error: '' @ msg @ nl))
      | Inl (Exn e) \<Rightarrow> Exit 1 [] traceback)"

end
