(* ===== verification/ImportLex.thy ===== *)
theory ImportLex
  imports ImportModule
begin

text \<open>
  The text the importer writes, read by a scanner for string literals and brackets: every piece a
  rendering function returns leaves the scanner in code, at the bracket depth it started from,
  whatever names and strings the AST carries.
\<close>

section \<open>The scanner\<close>

datatype lex_mode = InCode | InStr | InEsc

definition is_open :: "char \<Rightarrow> bool" where
  "is_open c \<longleftrightarrow> c = CHR ''('' \<or> c = CHR ''['' \<or> c = CHR ''{''"

definition is_close :: "char \<Rightarrow> bool" where
  "is_close c \<longleftrightarrow> c = CHR '')'' \<or> c = CHR '']'' \<or> c = CHR ''}''"

definition closing :: "char \<Rightarrow> char" where
  "closing c = (if c = CHR ''('' then CHR '')'' else if c = CHR ''['' then CHR '']'' else CHR ''}'')"

text \<open>The stack holds the closing brackets that are due. A string literal does not extend over a line,
  and only the escapes of JSON occur.\<close>

definition lex_step :: "char list \<times> lex_mode \<Rightarrow> char \<Rightarrow> (char list \<times> lex_mode) option" where
  "lex_step x c =
     (case x of
        (st, InCode) \<Rightarrow>
          if c = CHR 0x22 then Some (st, InStr)
          else if is_open c then Some (closing c # st, InCode)
          else if is_close c then
            (case st of d # st' \<Rightarrow> if c = d then Some (st', InCode) else None | [] \<Rightarrow> None)
          else Some (st, InCode)
      | (st, InStr) \<Rightarrow>
          if c = CHR 0x22 then Some (st, InCode)
          else if c = CHR 0x5C then Some (st, InEsc)
          else if cp c < 32 then None
          else Some (st, InStr)
      | (st, InEsc) \<Rightarrow> if c \<in> set [CHR 0x22, CHR 0x5C, CHR ''b'', CHR ''f'', CHR ''n'', CHR ''r'', CHR ''t'', CHR ''u'']
                       then Some (st, InStr) else None)"

fun lex :: "char list \<times> lex_mode \<Rightarrow> string \<Rightarrow> (char list \<times> lex_mode) option" where
  "lex x [] = Some x"
| "lex x (c # s) = (case lex_step x c of None \<Rightarrow> None | Some y \<Rightarrow> lex y s)"

definition balanced :: "string \<Rightarrow> bool" where
  "balanced s \<longleftrightarrow> (\<forall>st. lex (st, InCode) s = Some (st, InCode))"

lemma lex_append: "lex x (a @ b) = (case lex x a of None \<Rightarrow> None | Some y \<Rightarrow> lex y b)"
  by (induction a arbitrary: x) (auto split: option.splits)

lemma lex_balanced [simp]:
  "balanced s \<Longrightarrow> lex (st, InCode) (s @ r) = lex (st, InCode) r"
  "balanced s \<Longrightarrow> lex (st, InCode) s = Some (st, InCode)"
  by (simp_all add: lex_append balanced_def)

definition code_char :: "char \<Rightarrow> bool" where
  "code_char c \<longleftrightarrow> c \<noteq> CHR 0x22 \<and> \<not> is_open c \<and> \<not> is_close c"

lemma lex_code [simp]:
  "code_char c \<Longrightarrow> lex (st, InCode) (c # s) = lex (st, InCode) s"
  "lex (st, InCode) (CHR ''('' # s) = lex (CHR '')'' # st, InCode) s"
  "lex (st, InCode) (CHR ''['' # s) = lex (CHR '']'' # st, InCode) s"
  "lex (st, InCode) (CHR ''{'' # s) = lex (CHR ''}'' # st, InCode) s"
  "lex (CHR '')'' # st, InCode) (CHR '')'' # s) = lex (st, InCode) s"
  "lex (CHR '']'' # st, InCode) (CHR '']'' # s) = lex (st, InCode) s"
  "lex (CHR ''}'' # st, InCode) (CHR ''}'' # s) = lex (st, InCode) s"
  by (simp_all add: lex_step_def code_char_def is_open_def is_close_def closing_def)

lemma code_char_simps [simp]: "code_char c \<longleftrightarrow> c \<notin> set [CHR 0x22, CHR ''('', CHR ''['', CHR ''{'', CHR '')'', CHR '']'', CHR ''}'']"
  by (auto simp: code_char_def is_open_def is_close_def)

lemma balanced_Nil [simp]: "balanced []"
  by (simp add: balanced_def)

lemma balanced_append: "balanced a \<Longrightarrow> balanced b \<Longrightarrow> balanced (a @ b)"
  by (simp add: balanced_def lex_append)

lemma balanced_code: "list_all code_char s \<Longrightarrow> balanced s"
  by (induction s) (simp_all add: balanced_def lex_step_def code_char_def is_open_def is_close_def)

declare lex.simps(2) [simp del]

section \<open>Literals, numbers and lists\<close>

lemma hex_digit_in: "n < 16 \<Longrightarrow> digit_char n \<in> set ''0123456789abcdef''"
proof -
  have "list_all (\<lambda>n. digit_char n \<in> set ''0123456789abcdef'') [0..<16]" by code_simp
  then show "n < 16 \<Longrightarrow> ?thesis" by (simp add: list_all_iff)
qed

lemma lex_hex_digit: "x \<in> set ''0123456789abcdef'' \<Longrightarrow> lex (st, InStr) (x # s) = lex (st, InStr) s"
  by (auto simp: lex.simps(2) lex_step_def cp_def)

lemma cp_quote: "cp c = 34 \<longleftrightarrow> c = CHR 0x22" "cp c = 92 \<longleftrightarrow> c = CHR 0x5C"
  by (simp_all add: cp_def flip: cp_inj [unfolded cp_def])

lemma lex_json_char: "lex (st, InStr) (json_char c @ r) = lex (st, InStr) r"
proof (cases "cp c < 32")
  case True
  then have "digit_char (cp c div 16) \<in> set ''0123456789abcdef''" "digit_char (cp c mod 16) \<in> set ''0123456789abcdef''"
    by (intro hex_digit_in; simp)+
  note d = this [THEN lex_hex_digit]
  have z: "lex (st, InStr) (CHR ''0'' # s) = lex (st, InStr) s" for s
    by (rule lex_hex_digit) simp
  show ?thesis
    using True by (simp add: json_char_def Let_def d z lex.simps(2) [of "(st, InEsc)"] lex_step_def
        lex.simps(2) [of _ "CHR 0x5C"])
next
  case False
  then show ?thesis
    by (auto simp: json_char_def Let_def lex.simps(2) lex_step_def cp_quote)
qed

lemma lex_json_chars: "lex (st, InStr) (concat (map json_char s) @ r) = lex (st, InStr) r"
  by (induction s) (simp_all add: lex_json_char)

lemma balanced_string [simp]: "balanced (lean_string s)"
  by (simp add: balanced_def lean_string_def lex.simps(2) lex_step_def lex_json_chars)


lemma balanced_list: "list_all balanced xs \<Longrightarrow> balanced (lean_list xs)"
proof -
  have j: "list_all balanced xs \<Longrightarrow> balanced (join '', '' xs)" for xs
    by (induction "'', ''" xs rule: join.induct) (auto intro!: balanced_append simp: balanced_def)
  assume "list_all balanced xs"
  from j [OF this] show ?thesis by (simp add: balanced_def lean_list_def lex_append)
qed

lemma balanced_show_int [simp]: "balanced (show_int i)"
proof -
  have "list_all code_char (''-'' @ ''0123456789abcdef'')" by simp
  then show ?thesis using show_int_chars [of i] by (intro balanced_code) (auto simp: list_all_iff)
qed

lemma balanced_show_nat [simp]: "balanced (show_nat n)"
  using balanced_show_int [of "int n"] by (simp add: show_int_def)

lemma balanced_bool [simp]: "balanced (lean_bool b)"
  by (simp add: lean_bool_def balanced_def)

text \<open>Text from a table.\<close>

lemma balanced_table:
  "dget t k = Some v \<Longrightarrow> list_all balanced (map snd t) \<Longrightarrow> balanced v"
  by (force simp: list_all_iff dget_map_of dest: map_of_SomeD)

end
