(* ===== verification/BalanceTypes.thy ===== *)
theory BalanceTypes
  imports ImportLex
begin

text \<open>
  Every piece of Lean text the rendering functions of the importer return is balanced, from literals up
  to contracts and source items.
\<close>

section \<open>Rules\<close>

lemma fail_Inr [simp]: "fail msg \<noteq> Inr x" "Inr x \<noteq> fail msg" "fail msg = Inl e \<longleftrightarrow> e = Fail msg"
  by (auto simp: fail_def)

lemma balancedI: "(\<And>st. lex (st, InCode) s = Some (st, InCode)) \<Longrightarrow> balanced s"
  by (simp add: balanced_def)

lemmas lex_end [simp] = lex.simps(1)

declare balanced_list [simp]

lemma mapR_balanced:
  "mapR f xs = Inr ys \<Longrightarrow> (\<And>x y. f x = Inr y \<Longrightarrow> balanced y) \<Longrightarrow> list_all balanced ys"
  by (induction xs arbitrary: ys) (auto simp: bindR_eq_Inr)

lemma lookup_balanced:
  "lookup_or_fail msg m v = Inr x \<Longrightarrow> list_all balanced (map snd m) \<Longrightarrow> balanced x"
  by (auto simp: lookup_or_fail_def dest: balanced_table split: option.splits)

lemma on_node_Inr: "on_node j f = Inr x \<longleftrightarrow> (\<exists>d. j = JObj d \<and> f d = Inr x)"
  by (auto simp: on_node_def split: json.splits)

lemmas res_Inr = bindR_eq_Inr on_node_Inr

text \<open>A fallible function on nodes all of whose results are balanced; the rules follow the syntax of
  the code and leave one goal per returned text, with the results of the calls as premises.\<close>

definition balR :: "string imp \<Rightarrow> bool" where
  "balR m \<longleftrightarrow> (\<forall>t. m = Inr t \<longrightarrow> balanced t)"

definition good :: "('a \<Rightarrow> string imp) \<Rightarrow> bool" where
  "good f \<longleftrightarrow> (\<forall>j. balR (f j))"

lemma balRD: "balR m \<Longrightarrow> m = Inr t \<Longrightarrow> balanced t"
  by (simp add: balR_def)

lemma goodD: "good f \<Longrightarrow> f j = Inr t \<Longrightarrow> balanced t"
  by (simp add: balR_def good_def)

lemma goodI: "(\<And>j. balR (f j)) \<Longrightarrow> good f"
  by (simp add: good_def)

lemma good_balR: "good f \<Longrightarrow> balR (f j)"
  by (simp add: good_def)

lemma good_mapR: "mapR f xs = Inr ys \<Longrightarrow> good f \<Longrightarrow> list_all balanced ys"
  by (rule mapR_balanced, assumption) (auto dest: goodD)

lemma bal_rules:
  "balR (Inl e)" "balR (fail msg)"
  "balanced t \<Longrightarrow> balR (Inr t)"
  "(\<And>x. n = Inr x \<Longrightarrow> balR (f x)) \<Longrightarrow> balR (bindR n f)"
  "(\<And>d. j = JObj d \<Longrightarrow> balR (g d)) \<Longrightarrow> balR (on_node j g)"
  "(b \<Longrightarrow> balR m) \<Longrightarrow> (\<not> b \<Longrightarrow> balR m') \<Longrightarrow> balR (if b then m else m')"
  "(opt = None \<Longrightarrow> balR m) \<Longrightarrow> (\<And>y. opt = Some y \<Longrightarrow> balR (h y)) \<Longrightarrow>
     balR (case opt of None \<Rightarrow> m | Some y \<Rightarrow> h y)"
  "(xs = [] \<Longrightarrow> balR m) \<Longrightarrow> (\<And>z zs. xs = z # zs \<Longrightarrow> balR (k z zs)) \<Longrightarrow>
     balR (case xs of [] \<Rightarrow> m | z # zs \<Rightarrow> k z zs)"
  by (auto simp: balR_def res_Inr split: option.splits list.splits)

lemma balanced_if: "(b \<Longrightarrow> balanced x) \<Longrightarrow> (\<not> b \<Longrightarrow> balanced y) \<Longrightarrow> balanced (if b then x else y)"
  by simp

section \<open>Paths and types\<close>

lemma segments_balanced: "path_from_segments xs = Inr t \<Longrightarrow> balanced t"
  by (auto simp: path_from_segments_def list_all_iff intro!: balancedI split: if_splits)

lemma path_balanced: "balR (path_from_segments xs)" "balR (path_from_name n)" "balR (path_from_node s j)"
proof -
  have *: "balR (path_from_segments xs)" for xs by (auto simp: balR_def dest: segments_balanced)
  show "balR (path_from_segments xs)" by (rule *)
  show "balR (path_from_name n)" by (simp add: path_from_name_def *)
  show "balR (path_from_node s j)"
    unfolding path_from_node_def Let_def path_from_name_def by (intro bal_rules *)
qed

lemma int_text_balanced: "balR (int_text s)"
  by (auto simp: int_text_def res_Inr balR_def)

lemma table_balanced:
  "list_all balanced (map snd named_types)" "list_all balanced (map snd unit_denominations)"
  "list_all balanced (map snd visibility_map)" "list_all balanced (map snd visibility_value_map)"
  "list_all balanced (map snd state_mutability_map)" "list_all balanced (map snd function_kind_map)"
  "list_all balanced (map snd var_mutability_map)" "list_all balanced (map snd binary_op_map)"
  "list_all balanced (map snd using_binary_map)" "list_all balanced (map snd assign_op_map)"
  "list_all balanced (map snd unary_op_map)" "list_all balanced (map snd contract_kind_map)"
proof -
  have lit: "list_all (list_all code_char) (map snd m) \<Longrightarrow> list_all balanced (map snd m)" for m :: "(string \<times> string) list"
    by (erule list.pred_mono_strong) (rule balanced_code)
  show "list_all balanced (map snd named_types)" "list_all balanced (map snd unit_denominations)"
    "list_all balanced (map snd visibility_map)" "list_all balanced (map snd visibility_value_map)"
    "list_all balanced (map snd state_mutability_map)" "list_all balanced (map snd function_kind_map)"
    "list_all balanced (map snd var_mutability_map)" "list_all balanced (map snd binary_op_map)"
    "list_all balanced (map snd using_binary_map)" "list_all balanced (map snd assign_op_map)"
    "list_all balanced (map snd unary_op_map)" "list_all balanced (map snd contract_kind_map)"
    by (rule lit, code_simp)+
qed

lemma balR_lookup: "list_all balanced (map snd m) \<Longrightarrow> balR (lookup_or_fail msg m v)"
  by (auto simp: balR_def dest: lookup_balanced)

lemma keyword_balanced:
  "balR (visibility v)" "balR (visibility_value v)" "balR (state_mutability v)" "balR (function_kind v)"
  "balR (var_mutability v)" "balR (binary_op v)" "balR (assign_op v)" "balR (contract_kind v)"
  "balR (unit_denomination v)"
  unfolding visibility_def visibility_value_def state_mutability_def function_kind_def
    var_mutability_def binary_op_def assign_op_def contract_kind_def unit_denomination_def
  by (rule balR_lookup, rule table_balanced)+

lemma type_name_balanced: "balR (type_from_name n)"
  unfolding type_from_name_def sized_type_def fixed_type_def
  by (intro bal_rules) (auto intro!: balancedI dest!: balanced_table [OF _ table_balanced(1)] int_text_balanced [THEN balRD])

lemma unary_op_balanced: "balR (unary_op op p)"
  unfolding unary_op_def
  by (intro bal_rules balR_lookup table_balanced; auto intro!: balancedI)

lemma using_operator_balanced: "balR (using_operator op n)"
  unfolding using_operator_def
  by (intro bal_rules; auto intro!: balancedI dest!: balanced_table [OF _ table_balanced(9)])

lemma location_balanced: "balR (location_of j)"
  unfolding location_of_def by (intro bal_rules; auto intro!: balancedI)

lemma parameter_type_list_balanced: "good tf \<Longrightarrow> balR (parameter_type_list tf j)"
  unfolding parameter_type_list_def
  by (intro bal_rules balanced_list; elim good_mapR) (intro goodI bal_rules; simp add: good_balR)

lemma parameter_location_list_balanced: "balR (parameter_location_list j)"
  unfolding parameter_location_list_def
  by (intro bal_rules balanced_list; elim good_mapR) (intro goodI bal_rules location_balanced)

lemma or_on_fail_balanced: "balR m \<Longrightarrow> balR f \<Longrightarrow> balR (or_on_fail m f)"
  by (auto simp: or_on_fail_def split: sum.splits ierr.splits)

lemma literal_nat_balanced: "balR (literal_number_nat j)"
  unfolding literal_number_nat_def
  by (intro bal_rules) (auto simp: int_text_balanced bal_rules split: json.splits)

lemma array_length_balanced: "balR (array_length_nat_from_node d)"
  unfolding array_length_nat_from_node_def Let_def
  by (intro bal_rules int_text_balanced)
    (auto simp: or_on_fail_balanced literal_nat_balanced bal_rules split: json.splits)

lemma type_expression_length_balanced: "balR (type_expression_length_nat_from_node j)"
  unfolding type_expression_length_nat_from_node_def
  by (intro bal_rules or_on_fail_balanced literal_nat_balanced int_text_balanced)

lemmas leaf_balanced = path_balanced keyword_balanced type_name_balanced unary_op_balanced using_operator_balanced
  location_balanced parameter_location_list_balanced array_length_balanced type_expression_length_balanced
  int_text_balanced

text \<open>A part of a text that the code computes in an inner conditional.\<close>

lemma bal_bind: "balR n \<Longrightarrow> (\<And>x. balanced x \<Longrightarrow> balR (f x)) \<Longrightarrow> balR (bindR n f)"
  by (auto simp: balR_def res_Inr)

lemma balanced_prefix: "list_all code_char p \<Longrightarrow> balanced t \<Longrightarrow> balanced (p @ t)"
  by (rule balanced_append [OF balanced_code])

lemma array_length_part:
  "balR (if jget d ''length'' = JNull then Inr ''none''
         else bindR (need_obj msg (jget d ''length'')) (\<lambda>_. bindR (array_length_nat_from_node d) (\<lambda>n. Inr (''some '' @ n))))"
  by (intro bal_rules) (auto intro!: balancedI dest!: array_length_balanced [THEN balRD])

lemma type_body_balanced:
  assumes tf: "good tf" shows "balR (type_body tf d)"
proof -
  note ds = goodD [OF tf] balRD [OF parameter_type_list_balanced [OF tf]] leaf_balanced [THEN balRD]
  have "balR (elementary_type d)"
    unfolding elementary_type_def by (intro bal_rules type_name_balanced)
  moreover have "balR (user_type d)"
    unfolding user_type_def by (intro bal_rules) (auto intro!: balancedI dest!: ds)
  moreover have "balR (mapping_type tf d)"
    unfolding mapping_type_def Let_def by (intro bal_rules) (auto intro!: balancedI dest!: ds)
  moreover have "balR (array_type tf d)"
    unfolding array_type_def
    by (rule bal_rules, rule bal_bind [OF array_length_part], rule bal_rules) (auto intro!: balancedI bal_rules dest!: ds)
  moreover have "balR (function_type tf d)"
    unfolding function_type_def Let_def by (intro bal_rules) (auto intro!: balancedI dest!: ds)
  ultimately show ?thesis
    unfolding type_body_def by (intro bal_rules)
qed

lemma type_balanced: "good (type_from_node s)"
proof (induction s)
  case (Suc s)
  then show ?case by (auto intro!: goodI bal_rules type_body_balanced)
qed (simp add: good_def balR_def)

lemma array_type_expression_balanced:
  assumes tef: "good tef" shows "balR (array_type_expression tef d)"
proof -
  have "balR (if jget d ''indexExpression'' = JNull then Inr ''none''
      else bindR (need_obj msg (jget d ''indexExpression''))
             (\<lambda>index. bindR (type_expression_length_nat_from_node index) (\<lambda>n. Inr (''some '' @ n))))" for msg
    by (intro bal_rules) (auto intro!: balancedI dest!: leaf_balanced [THEN balRD])
  then show ?thesis
    unfolding array_type_expression_def
    by (intro bal_rules(4) bal_bind) (auto intro!: balancedI bal_rules dest!: goodD [OF tef])
qed

lemma type_expression_balanced: "good (type_from_expression_node s)"
proof (induction s)
  case (Suc s)
  have "balR (type_expression_body s (type_from_expression_node s) d)" for d
    unfolding type_expression_body_def
    by (intro bal_rules array_type_expression_balanced Suc good_balR [OF type_balanced])
      (auto intro!: balancedI dest!: leaf_balanced [THEN balRD])
  then show ?case by (auto intro!: goodI bal_rules)
qed (simp add: good_def balR_def)

section \<open>Parameters\<close>

lemma name_part_balanced [simp]: "balanced (name_part j)"
  by (cases j) (auto simp: name_part_def lean_option_def intro!: balancedI split: list.splits)

lemma location_part_balanced [simp]: "balanced (location_part j)"
  unfolding location_part_def by (intro balanced_if balanced_code; simp)

lemma parameter_balanced: "good (parameter_from_node s)"
  unfolding parameter_from_node_def
  by (intro goodI bal_rules) (auto intro!: balancedI dest!: goodD [OF type_balanced])

lemma var_binding_balanced: "good (var_binding_from_node s)"
proof (rule goodI)
  fix j show "balR (var_binding_from_node s j)"
    by (cases j) (auto simp: var_binding_from_node_def good_balR [OF parameter_balanced] intro!: bal_rules balancedI)
qed

lemma parameter_list_balanced: "good (parameter_list s)"
  unfolding parameter_list_def
  by (intro goodI bal_rules balanced_list; elim good_mapR) (rule parameter_balanced)

lemma override_balanced: "good (override_specifier_from_node s)"
proof (rule goodI)
  fix j show "balR (override_specifier_from_node s j)"
  proof (cases j)
    case (JObj d)
    have *: "good (path_from_node s)" by (rule goodI) (rule path_balanced)
    show ?thesis
      unfolding override_specifier_from_node_def JObj json.case
      by (intro bal_rules) (auto intro!: balancedI dest: good_mapR [OF _ *])
  qed (auto simp: override_specifier_from_node_def intro!: bal_rules balancedI)
qed

end
