(* ===== verification/BalanceExpr.thy ===== *)
theory BalanceExpr
  imports BalanceTypes
begin

text \<open>
  The rendering functions for expressions, statements, declarations and modules return balanced text.
\<close>

section \<open>Expressions\<close>

lemma positional_balanced: "good ef \<Longrightarrow> good (positional ef)"
  unfolding positional_def by (intro goodI bal_rules) (auto intro!: balancedI dest: goodD)

lemma named_balanced:
  assumes "good ef" shows "good (named ''Arg.named'' ef)" "good (named ''CallOption.named'' ef)"
  unfolding named_def by (intro goodI bal_rules; auto intro!: balancedI dest: goodD [OF assms])+

lemma args_balanced: "good ef \<Longrightarrow> balR (args_from_nodes ef args names)"
  unfolding args_from_nodes_def
  by (intro bal_rules balanced_list; elim good_mapR) (intro positional_balanced named_balanced; assumption)+

lemma call_options_balanced: "good ef \<Longrightarrow> balR (call_options_from_nodes ef options names)"
  unfolding call_options_from_nodes_def
  by (intro bal_rules balanced_list; elim good_mapR) (intro named_balanced; assumption)

lemma tuple_item_balanced:
  assumes "good ef" shows "good (tuple_item_from_node ef)"
proof (rule goodI)
  fix j show "balR (tuple_item_from_node ef j)"
    by (cases j) (auto simp: tuple_item_from_node_def intro!: bal_rules balancedI dest: goodD [OF assms])
qed

lemma tuple_text_balanced: "good ef \<Longrightarrow> balR (tuple_text ef cs)"
  unfolding tuple_text_def
  by (intro bal_rules) (auto intro!: balancedI dest!: good_mapR dest: tuple_item_balanced)

lemma abi_decode_type_arg_balanced:
  assumes "good ef" shows "balR (abi_decode_type_arg_from_node ef j)"
  by (cases j) (auto simp: abi_decode_type_arg_from_node_def assms
      intro!: bal_rules tuple_text_balanced good_balR [OF assms])

lemma expr_identifier_balanced: "balR (expr_identifier d)"
  unfolding expr_identifier_def
  by (intro bal_rules) (auto intro!: balancedI dest!: path_balanced [THEN balRD])

lemma literal_text_balanced:
  "list_all code_char c \<Longrightarrow> balanced v \<Longrightarrow> balanced (literal_text c v)"
proof -
  have l: "list_all code_char c \<Longrightarrow> lex (st, InCode) (c @ s) = lex (st, InCode) s" for st s
    by (simp add: balanced_code)
  assume "list_all code_char c" "balanced v"
  then show ?thesis by (auto simp: literal_text_def l intro!: balancedI)
qed

lemma number_literal_balanced: "balR (number_literal d)"
proof -
  have *: "balR (case py_int_str 16 v of Inr a \<Rightarrow> bindR (int_str a) (\<lambda>n. Inr (literal_text ''address'' n)) | Inl _ \<Rightarrow> fail m)" for v m
    by (cases "py_int_str 16 v") (auto simp: int_str_def intro!: bal_rules literal_text_balanced split: if_splits)
  have u: "balR (bindR (unit_denomination x) (\<lambda>u. Inr (literal_text ''unitNumber'' (lean_string v @ '' '' @ u))))" for x v
    by (intro bal_rules literal_text_balanced) (auto intro!: balancedI dest!: keyword_balanced [THEN balRD])
  have n: "balR (Inr (literal_text ''number'' (lean_string v)))" for v
    by (intro bal_rules literal_text_balanced) simp_all
  show ?thesis
    unfolding number_literal_def
    by (rule bal_rules, rule bal_rules, rule *) (cases "jget d ''subdenomination''"; auto simp: n split: list.splits json.splits intro!: u [simplified])
qed

lemma string_literal_balanced: "balR (string_literal d)"
  unfolding string_literal_def
  by (cases "jget d ''value''") (auto intro!: bal_rules literal_text_balanced)

lemma expr_literal_balanced: "balR (expr_literal d)"
  unfolding expr_literal_def Let_def
  by (intro bal_rules literal_text_balanced number_literal_balanced string_literal_balanced) simp_all

lemma operator_call_balanced: "good ef \<Longrightarrow> balR (operator_call ef f xs)"
  unfolding operator_call_def
  by (intro bal_rules) (auto intro!: balancedI dest: args_balanced [THEN balRD])

lemma expr_tuple_balanced:
  assumes "good ef" shows "balR (expr_tuple ef d)"
proof -
  have "balR (case cs of [JObj c] \<Rightarrow> ef (JObj c) | _ \<Rightarrow> tuple_text ef cs)" for cs
    by (auto intro!: tuple_text_balanced good_balR [OF assms] assms split: list.splits json.splits)
  then show ?thesis
    unfolding expr_tuple_def
    by (intro bal_rules(1-6)) (auto intro!: balancedI dest!: good_mapR [OF _ assms])
qed

lemma expr_operators_balanced:
  assumes ef: "good ef"
  shows "balR (expr_unary tb ef d)" "balR (expr_binary tb ef d)" "balR (expr_conditional ef d)"
    "balR (expr_assignment ef d)"
  unfolding expr_unary_def expr_binary_def expr_conditional_def expr_assignment_def Let_def
  by (intro bal_rules operator_call_balanced ef;
      auto intro!: balancedI dest!: goodD [OF ef] leaf_balanced [THEN balRD])+

lemma expr_members_balanced:
  assumes ef: "good ef"
  shows "balR (expr_member s ef d)" "balR (expr_index s ef d)"
  unfolding expr_member_def expr_index_def Let_def
  by (intro bal_rules; auto intro!: balancedI dest!: goodD [OF ef] goodD [OF type_expression_balanced])+

lemma some_part_balanced: "good f \<Longrightarrow> balR (some_part msg f j)"
  unfolding some_part_def by (intro bal_rules) (auto intro!: balancedI dest: goodD)

lemma expr_slice_balanced:
  assumes ef: "good ef" shows "balR (expr_slice ef d)"
  unfolding expr_slice_def Let_def
  by (rule bal_rules, rule bal_rules, rule bal_rules, rule bal_bind [OF some_part_balanced [OF ef]],
      rule bal_bind [OF some_part_balanced [OF ef]], rule bal_bind [OF good_balR [OF ef]])
    (auto intro!: bal_rules balancedI)

lemma new_target_balanced: "balR (new_target s d)"
  unfolding new_target_def by (intro bal_rules good_balR type_balanced)

lemma call_with_options_balanced:
  assumes ef: "good ef" shows "balR (call_with_options s ef e args names)"
proof -
  have t: "balR (if b then bindR (new_target s d) (\<lambda>t. Inr (''Expr.newExpr ('' @ t @ '') []'')) else ef j)" for b d j
    by (intro bal_rules good_balR [OF ef]) (auto intro!: balancedI dest!: new_target_balanced [THEN balRD])
  show ?thesis
    unfolding call_with_options_def Let_def
    by (rule bal_rules, rule bal_rules, rule bal_bind [OF t], rule bal_bind [OF call_options_balanced [OF ef]],
        rule bal_bind [OF args_balanced [OF ef]]) (auto intro!: bal_rules balancedI)
qed

lemma payable_conversion_balanced: "good ef \<Longrightarrow> balR (payable_conversion ef args names)"
  unfolding payable_conversion_def
  by (intro bal_rules) (auto intro!: balancedI dest: goodD)

lemma abi_decode_balanced:
  assumes ef: "good ef" shows "balR (abi_decode_call ef e a b)"
proof -
  have c: "balanced f \<Longrightarrow> balanced l \<Longrightarrow> balanced (''Expr.call ('' @ f @ '') '' @ l)" for f l
    by (rule balancedI) simp
  have p: "balanced x \<Longrightarrow> balanced (''Arg.positional ('' @ x @ '')'')" for x
    by (rule balancedI) simp
  show ?thesis
    unfolding abi_decode_call_def
    by (rule bal_bind [OF good_balR [OF ef]], rule bal_bind [OF good_balR [OF ef]],
        rule bal_bind [OF abi_decode_type_arg_balanced [OF ef]], rule bal_rules, rule c, assumption,
        rule balanced_list, unfold list.pred_inject, intro conjI p list.pred_inject(1); assumption)
qed

lemma call_body_balanced:
  assumes ef: "good ef" shows "balR (call_body s ef k callee args names)"
proof -
  have t: "balR (case args of [a] \<Rightarrow> ef a | _ \<Rightarrow> fail msg)" for msg
    by (intro bal_rules good_balR [OF ef])
  show ?thesis
    unfolding call_body_def Let_def
    by (intro bal_rules(1-6) t payable_conversion_balanced call_with_options_balanced abi_decode_balanced ef)
      (auto intro!: balancedI dest!: new_target_balanced [THEN balRD] args_balanced [OF ef, THEN balRD] goodD [OF ef])
qed

lemma expr_body_balanced:
  assumes ef: "good ef" shows "balR (expr_body tb s ef d)"
proof -
  have c: "balR (expr_call s ef d)"
    unfolding expr_call_def Let_def by (intro bal_rules(4) call_body_balanced ef)
  show ?thesis
    unfolding expr_body_def
    by (intro bal_rules(1-6) c expr_identifier_balanced expr_literal_balanced expr_tuple_balanced
        expr_operators_balanced expr_members_balanced expr_slice_balanced ef)
      (auto intro!: balancedI dest!: goodD [OF type_balanced])
qed

lemma expr_balanced: "good (expr_from_node tb s)"
proof (induction s)
  case (Suc s)
  then show ?case by (auto intro!: goodI bal_rules(5) expr_body_balanced)
qed (simp add: good_def balR_def)

section \<open>Statements\<close>

lemma statement_list_balanced: "good sf \<Longrightarrow> balR (statement_list msg sf d)"
  unfolding statement_list_def
  by (intro bal_rules balanced_list; elim good_mapR; assumption)

lemma stmt_simple_balanced:
  assumes ef: "good ef"
  shows "balR (stmt_return ef d)" "balR (stmt_var_decl s ef d)"
    "list_all code_char ctor \<Longrightarrow> balR (one_expr ctor msg k ef d)"
proof -
  show "balR (stmt_return ef d)"
    unfolding stmt_return_def by (intro bal_rules) (auto intro!: balancedI dest!: goodD [OF ef])
  show "balR (stmt_var_decl s ef d)"
    unfolding stmt_var_decl_def
    by (intro bal_rules(1-6))
      (auto intro!: balancedI dest!: good_mapR [OF _ var_binding_balanced] some_part_balanced [OF ef, THEN balRD])
  assume "list_all code_char ctor"
  then have l: "lex (st, InCode) (ctor @ s) = lex (st, InCode) s" for st s
    by (simp add: balanced_code)
  show "balR (one_expr ctor msg k ef d)"
    unfolding one_expr_def by (intro bal_rules) (auto simp: l intro!: balancedI dest!: goodD [OF ef])
qed

lemma stmt_loops_balanced:
  assumes ef: "good ef" and sf: "good sf"
  shows "balR (stmt_if ef sf d)" "balR (stmt_while ef sf d)" "balR (stmt_do_while ef sf d)" "balR (stmt_for ef sf d)"
proof -
  have l: "good (\<lambda>e. bindR (loop_expression e) ef)"
    by (rule goodI, rule bal_rules, rule good_balR [OF ef])
  note ds = goodD [OF ef] goodD [OF sf] some_part_balanced [OF ef, THEN balRD] some_part_balanced [OF sf, THEN balRD]
    some_part_balanced [OF l, THEN balRD]
  show "balR (stmt_if ef sf d)"
    unfolding stmt_if_def Let_def by (intro bal_rules(1-6)) (auto intro!: balancedI dest!: ds)
  show "balR (stmt_while ef sf d)" "balR (stmt_do_while ef sf d)"
    unfolding stmt_while_def stmt_do_while_def Let_def
    by (intro bal_rules(1-6); auto intro!: balancedI dest!: goodD [OF ef] goodD [OF sf])+
  show "balR (stmt_for ef sf d)"
    unfolding stmt_for_def Let_def by (intro bal_rules(1-6)) (auto intro!: balancedI dest!: ds)
qed

lemma try_parts_balanced:
  "balR (try_clause_params_from_node s d)"
  "good sf \<Longrightarrow> balR (try_clause_body_from_node sf d)"
  unfolding try_clause_params_from_node_def try_clause_body_from_node_def
  by (intro bal_rules(1-6) good_balR parameter_list_balanced balancedI; simp)+

lemma catch_clause_balanced:
  assumes sf: "good sf" shows "good (catch_clause_from_node s sf)"
  unfolding catch_clause_from_node_def Let_def
  by (intro goodI bal_rules(1-6))
    (auto intro!: balancedI dest!: try_parts_balanced(1) [THEN balRD] try_parts_balanced(2) [OF sf, THEN balRD])

lemma stmt_try_balanced:
  assumes ef: "good ef" and sf: "good sf" shows "balR (stmt_try s ef sf d)"
proof -
  note ds = goodD [OF ef] try_parts_balanced(1) [THEN balRD] try_parts_balanced(2) [OF sf, THEN balRD]
    good_mapR [OF _ catch_clause_balanced [OF sf]]
  show ?thesis
    unfolding stmt_try_def
    by (rule bal_rules, cases "dget_or d ''clauses'' (JList [])"; simp only: json.case)
      (intro bal_rules; auto intro!: balancedI dest!: ds)+
qed

lemma stmt_body_balanced:
  assumes ef: "good ef" and sf: "good sf" shows "balR (stmt_body s ef sf d)"
  unfolding stmt_body_def
  by (intro bal_rules(1-6) stmt_simple_balanced stmt_loops_balanced stmt_try_balanced ef sf)
    (auto intro!: balancedI dest!: statement_list_balanced [OF sf, THEN balRD])

lemma stmt_balanced: "good (stmt_from_node tb s)"
proof (induction s)
  case (Suc s)
  then show ?case by (auto intro!: goodI bal_rules(5) stmt_body_balanced expr_balanced)
qed (simp add: good_def balR_def)

end
