(* ===== verification/BalanceDecl.thy ===== *)
theory BalanceDecl
  imports BalanceExpr
begin

text \<open>
  The rendering functions for declarations, contracts, source items and the module return balanced text.
\<close>

section \<open>Declarations\<close>

lemma nl_lex [simp]: "lex (st, InCode) (nl @ s) = lex (st, InCode) s"
  by (simp add: nl_def)

lemmas node_balanced = goodD [OF type_balanced] goodD [OF parameter_list_balanced] goodD [OF override_balanced]
  goodD [OF expr_balanced] goodD [OF stmt_balanced] goodD [OF parameter_balanced]
  args_balanced [OF expr_balanced, THEN balRD] keyword_balanced [THEN balRD] path_balanced [THEN balRD]

lemma modifier_invocation_balanced: "good (modifier_invocation_from_node tb s)"
  unfolding modifier_invocation_from_node_def Let_def
  by (intro goodI bal_rules(1-6)) (auto intro!: balancedI dest!: node_balanced)

lemma body_part_balanced: "balR (body_part tb s msg j)"
  unfolding body_part_def
  by (intro bal_rules(1-6)) (auto intro!: balancedI dest!: node_balanced)

lemma visibility_part_balanced: "balR (if f then Inr ''none'' else visibility v)"
  by (intro bal_rules keyword_balanced balancedI) simp

lemma function_decl_balanced: "good (function_decl_from_node tb s f)"
proof (rule goodI)
  fix j
  have n: "(if kind \<in> set unnamed_kinds then Inr (''none'', kind)
            else bindR (need_str m (jget d ''name'')) (\<lambda>n. Inr (''some '' @ lean_string n, n))) = Inr (np, en)
    \<Longrightarrow> balanced np" for kind m d np en
    by (auto simp: res_Inr intro!: balancedI split: if_splits)
  show "balR (function_decl_from_node tb s f j)"
    unfolding function_decl_from_node_def Let_def case_prod_beta
    by (rule bal_rules, rule bal_rules, rule bal_bind [OF keyword_balanced(4)], rule bal_rules(4),
        rule bal_rules, rule bal_rules, rule bal_rules, rule bal_bind [OF body_part_balanced],
        rule bal_bind [OF visibility_part_balanced], rule bal_bind [OF keyword_balanced(3)],
        rule bal_bind [OF good_balR [OF parameter_list_balanced]],
        rule bal_bind [OF good_balR [OF parameter_list_balanced]],
        rule bal_bind [OF good_balR [OF override_balanced]],
        rule bal_rules(4), rule bal_rules(3))
      (auto intro!: balancedI dest!: n [of _ _ _ "fst x" "snd x" for x, simplified] good_mapR [OF _ modifier_invocation_balanced])
qed

lemma modifier_balanced: "balR (modifier_from_node tb s d)"
  unfolding modifier_from_node_def Let_def
  by (rule bal_rules, rule bal_rules, rule bal_bind [OF body_part_balanced],
      rule bal_bind [OF good_balR [OF parameter_list_balanced]],
      rule bal_bind [OF good_balR [OF override_balanced]]) (auto intro!: bal_rules balancedI)

lemma state_var_decl_balanced: "good (state_var_decl_from_variable_node tb s init f)"
proof (rule goodI)
  fix j
  have i: "balR (if b then Inr ''none'' else bindR (need_obj m e) (\<lambda>e. bindR (expr_from_node tb s e) (\<lambda>x. Inr (''some ('' @ x @ '')''))))"
    for b m e
    by (intro bal_rules(1-6)) (auto intro!: balancedI dest!: node_balanced)
  show "balR (state_var_decl_from_variable_node tb s init f j)"
    unfolding state_var_decl_from_variable_node_def Let_def
    by (rule bal_rules, rule bal_rules, rule bal_rules, rule bal_rules, rule bal_rules, rule bal_bind [OF i],
        rule bal_bind [OF visibility_part_balanced], rule bal_bind [OF good_balR [OF type_balanced]],
        rule bal_bind [OF keyword_balanced(5)], rule bal_bind [OF good_balR [OF override_balanced]])
      (auto intro!: bal_rules balancedI)
qed

lemma event_param_balanced: "good (event_param_from_node s)"
  unfolding event_param_from_node_def
  by (intro goodI bal_rules(1-6)) (auto intro!: balancedI dest!: node_balanced)

lemma struct_field_balanced: "good (struct_field_from_node s)"
  unfolding struct_field_from_node_def Let_def
  by (intro goodI bal_rules(1-6)) (auto intro!: balancedI dest!: node_balanced)

lemma enum_case_balanced: "good enum_case"
  unfolding enum_case_def by (intro goodI bal_rules(1-6)) simp

lemma definitions_balanced:
  "balR (event_decl_from_node s d)" "balR (error_decl_from_node s d)" "balR (struct_decl_from_node s d)"
  "balR (enum_decl_from_node d)" "balR (user_value_type_decl_from_node s d)"
  unfolding event_decl_from_node_def error_decl_from_node_def struct_decl_from_node_def
    enum_decl_from_node_def user_value_type_decl_from_node_def Let_def
  by (intro bal_rules(1-6);
      auto intro!: balancedI dest!: node_balanced good_mapR [OF _ event_param_balanced]
        good_mapR [OF _ parameter_balanced] good_mapR [OF _ struct_field_balanced] good_mapR [OF _ enum_case_balanced])+

lemma base_specifier_balanced: "good (base_specifier_from_node tb s)"
  unfolding base_specifier_from_node_def Let_def
  by (intro goodI bal_rules(1-6)) (auto intro!: balancedI dest!: node_balanced)

lemma using_function_balanced: "good (using_function_from_node tb s)"
proof (rule goodI)
  fix j
  have o: "balR (case v of JStr (c # cs) \<Rightarrow> using_operator (c # cs) n | _ \<Rightarrow> Inr ''none'')" for v n
    by (cases v) (auto intro!: bal_rules using_operator_balanced balancedI split: list.splits)
  show "balR (using_function_from_node tb s j)"
    unfolding using_function_from_node_def Let_def
    by (rule bal_rules, rule bal_rules, rule bal_bind [OF o], rule bal_bind [OF path_balanced(3)])
      (auto intro!: bal_rules balancedI)
qed

lemma using_decl_balanced: "balR (using_decl_from_node tb s d)"
proof -
  have empty: "balanced ''[]''" "balanced ''{ segments := [] }''"
    by (rule balancedI; simp)+
  have l: "(case jget d ''libraryName'' of
              JObj l \<Rightarrow> bindR (path_from_node s (JObj l)) (\<lambda>p. Inr (p, ''[]''))
            | _ \<Rightarrow> (case jget d ''functionList'' of
                 JList fs \<Rightarrow> bindR (mapR (using_function_from_node tb s) fs) (\<lambda>xs.
                   Inr (''{ segments := [] }'', lean_list xs))
               | _ \<Rightarrow> fail m)) = Inr (lp, fp) \<Longrightarrow> balanced lp \<and> balanced fp" for m lp fp
    by (auto simp: res_Inr empty simp del: mapR.simps split: json.splits dest!: path_balanced(3) [THEN balRD]
        good_mapR [OF _ using_function_balanced])
  have t: "balR (if b then Inr ''none'' else bindR (need_obj m e) (\<lambda>t. bindR (type_from_node s t) (\<lambda>ty. Inr (''some ('' @ ty @ '')''))))"
    for b m e
    by (intro bal_rules(1-6)) (auto intro!: balancedI dest!: node_balanced)
  show ?thesis
    unfolding using_decl_from_node_def case_prod_beta
    by (rule bal_rules(4), rule bal_bind [OF t], rule bal_rules(3), rule balancedI)
      (auto dest!: l [of _ "fst x" "snd x" for x, simplified])
qed

lemma pragma_balanced: "balR (pragma_from_node d)"
  unfolding pragma_from_node_def
  by (cases "dget_or d ''literals'' (JList [])"; simp only: json.case)
    (intro bal_rules; auto intro!: balancedI)+

section \<open>Contracts and source items\<close>

lemma item_balanced:
  assumes "list_all code_char ctor" "balanced t" shows "balanced (item ctor t)"
proof -
  have l: "lex (st, InCode) (ctor @ s) = lex (st, InCode) s" for st s
    using assms by (simp add: balanced_code)
  show ?thesis using assms by (auto simp: item_def l intro!: balancedI)
qed

lemma state_var_balanced:
  assumes "state_var_from_node tb s d = Inr ts" shows "list_all balanced ts"
proof -
  have i: "balanced t \<Longrightarrow> balanced (state_var_item t)" for t
    by (auto simp: state_var_item_def intro!: balancedI)
  have m: "mapR (\<lambda>decl. bindR (need m (b decl)) (\<lambda>_.
          bindR (state_var_decl_from_variable_node tb s v False decl) (\<lambda>t. Inr (state_var_item t)))) ds = Inr ts
    \<Longrightarrow> list_all balanced ts" for m b v ds ts
    by (erule mapR_balanced) (auto simp: res_Inr intro!: i dest: goodD [OF state_var_decl_balanced])
  show ?thesis
    using assms unfolding state_var_from_node_def Let_def
    by (auto simp: res_Inr intro!: i dest: goodD [OF state_var_decl_balanced] m split: if_splits)
qed

lemma bind_singleton:
  "bindR n (\<lambda>t. Inr [f t]) = Inr ts \<Longrightarrow> balR n \<Longrightarrow> (\<And>t. balanced t \<Longrightarrow> balanced (f t)) \<Longrightarrow> list_all balanced ts"
  by (auto simp: res_Inr balR_def)

lemma contract_items_balanced: "contract_items tb s d = Inr ts \<Longrightarrow> list_all balanced ts"
  unfolding contract_items_def
  by (auto split: if_splits dest!: state_var_balanced
      elim!: bind_singleton intro: definitions_balanced using_decl_balanced modifier_balanced
        good_balR [OF function_decl_balanced] intro!: item_balanced)

lemma concat_balanced: "list_all (list_all balanced) xss \<Longrightarrow> list_all balanced (concat xss)"
  by (induction xss) auto

lemma contract_balanced: "balR (render_contract tb s c)"
proof -
  have "mapR (contract_items tb s) ds = Inr xss \<Longrightarrow> list_all (list_all balanced) xss" for ds xss
    by (induction ds arbitrary: xss) (auto simp: bindR_eq_Inr dest: contract_items_balanced)
  then have items: "mapR (contract_items tb s) ds = Inr xss \<Longrightarrow> balanced (lean_list (concat xss))" for ds xss
    by (intro balanced_list concat_balanced)
  show ?thesis
    unfolding render_contract_def
    by (intro bal_rules(1-6)) (auto intro!: balancedI dest!: items node_balanced good_mapR [OF _ base_specifier_balanced])
qed

lemma def_name_lex [simp]: "lex (st, InCode) (def_name i @ s) = lex (st, InCode) s" "balanced (def_name i)"
  by (auto simp: def_name_def intro!: balancedI)

lemma source_item_balanced: "balR (source_item_from_node tb s i d)"
  unfolding source_item_from_node_def
  by (intro bal_rules(1-6) pragma_balanced)
    (auto intro!: balancedI dest!: goodD [OF function_decl_balanced] goodD [OF state_var_decl_balanced]
      definitions_balanced [THEN balRD] using_decl_balanced [THEN balRD])

lemma source_items_balanced: "source_items tb s i ds = Inr ts \<Longrightarrow> list_all balanced ts"
  by (induction ds arbitrary: i ts) (auto simp: res_Inr dest: source_item_balanced [THEN balRD])

lemma contract_defs_balanced: "contract_defs tb s i cs = Inr ts \<Longrightarrow> list_all balanced ts"
proof (induction cs arbitrary: i ts)
  case (Cons c cs)
  have "balanced (''def '' @ def_name i @ '' : ContractDecl :='')" by (rule balancedI) simp
  with Cons show ?case by (auto simp: res_Inr dest: contract_balanced [THEN balRD])
qed simp

section \<open>The module\<close>

lemma namespace_balanced: "namespace_segments n = Inr xs \<Longrightarrow> list_all balanced xs"
proof -
  have "ns_char c \<Longrightarrow> code_char c" for c
    by (auto simp: ns_char_def ns_start_def Let_def cp_def)
  then have "ns_segment s \<Longrightarrow> balanced s" for s
    by (cases s) (auto simp: ns_segment_def ns_char_def list_all_iff intro!: balanced_code)
  then show "namespace_segments n = Inr xs \<Longrightarrow> list_all balanced xs"
    by (auto simp: namespace_segments_def Let_def list_all_iff split: if_splits)
qed

lemma join_lines_balanced: "list_all balanced ls \<Longrightarrow> balanced (join nl ls)"
  by (induction nl ls rule: join.induct) (auto intro!: balancedI)

lemma lines_balanced:
  "list_all balanced (header_lines b)"
  "list_all balanced items \<Longrightarrow> list_all balanced segments \<Longrightarrow> list_all balanced (footer_lines items segments)"
proof -
  show "list_all balanced (header_lines b)"
    by (simp add: header_lines_def balanced_code)
  have i: "list_all balanced items \<Longrightarrow> balanced (''  { items := '' @ lean_list items @ '' }'')" 
    by (rule balancedI) simp
  have e: "balanced n \<Longrightarrow> balanced (''end '' @ n)" for n
    by (rule balancedI) simp
  assume "list_all balanced items" "list_all balanced segments"
  then have *: "list_all balanced [''  { items := '' @ lean_list items @ '' }'']"
      "list_all balanced (map (\<lambda>n. ''end '' @ n) (rev segments))"
    using i e by (auto simp: list_all_iff simp del: append.simps)
  have "list_all balanced [''def importedSourceUnit : SourceUnit :='', [], ''def importedContractAccepted : Bool :='',
      ''  TypeCheck.Result.isOk (TypeCheck.TypecheckedInput.checkedSourceUnit importedSourceUnit)'']"
    by (simp only: list.pred_inject) (intro conjI balancedI TrueI; simp)
  with * show "list_all balanced (footer_lines items segments)"
    by (simp add: footer_lines_def del: append.simps)
qed

lemma render_module_balanced: "balR (render_module s ast source contract namespace body_only)"
proof -
  have fixed: "balanced ''def importedContract : ContractDecl :=''"
    "balanced ''def importedContracts : List ContractDecl :=''"
    "balanced (''def importedSourceName : String := '' @ lean_string source)"
    "balanced (''  '' @ def_name k)" "balanced (''  '' @ lean_list (map def_name ks))" for k ks
    by (rule balancedI; simp add: list_all_iff)+
  have ns: "list_all balanced xs \<Longrightarrow> list_all balanced (map ((@) ''namespace '') xs)" for xs
    by (induction xs) (auto intro!: balancedI)
  show ?thesis
    unfolding render_module_def Let_def
    by (intro bal_rules(1-6) join_lines_balanced)
      (simp add: fixed [simplified] ns lines_balanced namespace_balanced contract_defs_balanced source_items_balanced)
qed

end
