(* ===== verification/ImportAudit.thy ===== *)
theory ImportAudit
  imports ImportGuard
begin

text \<open>
  What the audit of the importer accepts: the counts are empty exactly when nothing has the status,
  so that the guard passes exactly on the ASTs all of whose node types, fields and values are known.
\<close>

section \<open>Keys of the counts\<close>

lemma keys_bump: "set (dkeys (fold (\<lambda>x. bump (k x)) xs d)) = set (dkeys d) \<union> k ` set xs"
  by (induction xs arbitrary: d) (auto simp: bump_def)

lemma keys_bump_in: "set (dkeys (fold (\<lambda>x. bump_in (k x) (c x)) xs d)) = set (dkeys d) \<union> k ` set xs"
  by (induction xs arbitrary: d) (auto simp: bump_in_def)

lemma keys_sorted_items [simp]: "set (dkeys (sorted_items d)) = set (dkeys d)"
  by (simp add: sorted_items_def dkeys_def)

lemma keys_sorted_nested [simp]: "set (dkeys (sorted_nested d)) = set (dkeys d)"
proof -
  have "dkeys (sorted_nested d) = dkeys (sorted_items d)"
    by (simp add: sorted_nested_def dkeys_def case_prod_beta)
  then show ?thesis by simp
qed

lemma keys_node_types: "set (dkeys (node_type_counts v)) = set (iter_node_types v)"
  using keys_bump [of "\<lambda>x. x" "iter_node_types v" "[]"] by (simp add: node_type_counts_def)

lemma keys_child_fields:
  "set (dkeys (child_field_counts v)) = (\<lambda>(p, f, c). child_field_key p f) ` set (iter_child_edges v)"
  using keys_bump_in [of "\<lambda>(p, f, c). child_field_key p f" "\<lambda>(p, f, c). c" "iter_child_edges v" "[]"]
  by (simp add: child_field_counts_def case_prod_beta')

lemma keys_scalar_fields:
  "set (dkeys (scalar_field_counts v)) = (\<lambda>(p, f, x). child_field_key p f) ` set (iter_scalar_fields v)"
  using keys_bump [of "\<lambda>(p, f, x). child_field_key p f" "iter_scalar_fields v" "[]"]
  by (simp add: scalar_field_counts_def case_prod_beta')

lemma nested_empty: "sorted_nested (fold (\<lambda>x. bump_in (k x) (c x)) xs []) = [] \<longleftrightarrow> xs = []"
proof -
  have e: "d = [] \<longleftrightarrow> set (dkeys d) = {}" for d :: "(string \<times> (string \<times> nat) list) list"
    by (simp add: dkeys_def)
  show ?thesis unfolding e [of "sorted_nested x" for x] keys_sorted_nested keys_bump_in by simp
qed

lemma by_status_empty: "by_status status st d = [] \<longleftrightarrow> (\<forall>k\<in>set (dkeys d). status k \<noteq> st)"
  by (auto simp: by_status_def dkeys_def filter_empty_conv)

section \<open>Keys without a dot before the dot\<close>

lemma part_at_dot: "CHR ''.'' \<notin> set p \<Longrightarrow> part_at ''.'' (p @ CHR ''.'' # f) = Some (p, f)"
  by (induction p) auto

lemma key_status_dotless: "CHR ''.'' \<notin> set p \<Longrightarrow> key_status status (child_field_key p f) = status p f"
  by (simp add: key_status_def child_field_key_def part_at_dot)

text \<open>The nodes of a value by recursion on it, without paths.\<close>

fun sub_nodes :: "json \<Rightarrow> node list"
  and sub_nodes_vals :: "(string \<times> json) list \<Rightarrow> node list"
  and sub_nodes_items :: "json list \<Rightarrow> node list" where
  "sub_nodes (JObj d) = d # sub_nodes_vals d"
| "sub_nodes (JList xs) = sub_nodes_items xs"
| "sub_nodes v = []"
| "sub_nodes_vals [] = []"
| "sub_nodes_vals ((k, v) # d) = sub_nodes v @ sub_nodes_vals d"
| "sub_nodes_items [] = []"
| "sub_nodes_items (x # xs) = sub_nodes x @ sub_nodes_items xs"

lemma walk_sub_nodes:
  "map snd (walk p v) = sub_nodes v"
  "map snd (walk_vals p i d) = sub_nodes_vals d"
  "map snd (walk_items p i xs) = sub_nodes_items xs"
  by (induction p v and p i d and p i xs rule: walk_walk_vals_walk_items.induct) simp_all

lemma nodes_of_sub: "nodes_of v = sub_nodes v"
  by (simp add: nodes_of_def iter_nodes_def walk_sub_nodes)

text \<open>A parent of an edge or of a scalar is the type of a node.\<close>

abbreviation types_in :: "node list \<Rightarrow> string set" where
  "types_in ns \<equiv> set (List.map_filter node_type_of ns)"

lemma map_filter_app [simp]: "List.map_filter f (xs @ ys) = List.map_filter f xs @ List.map_filter f ys"
  by (simp add: List.map_filter_def)

lemma edge_parents:
  "(p, f, c) \<in> set (edges_collect t path v) \<Longrightarrow> p = t \<or> p \<in> types_in (sub_nodes v)"
  "(p, f, c) \<in> set (edges_collect_vals t path d) \<Longrightarrow> p = t \<or> p \<in> types_in (sub_nodes_vals d)"
  "(p, f, c) \<in> set (edges_collect_items t path xs) \<Longrightarrow> p = t \<or> p \<in> types_in (sub_nodes_items xs)"
  "(p, f, c) \<in> set (edges_fields t d) \<Longrightarrow> p = t \<or> p \<in> types_in (sub_nodes_vals d)"
  by (induction t path v and t path d and t path xs and t d
      rule: edges_collect_edges_collect_vals_edges_collect_items_edges_fields.induct)
    (auto simp: List.map_filter_simps split: option.splits if_splits)

lemma walk_parents:
  "(p, f, c) \<in> set (edges_walk v) \<Longrightarrow> p \<in> types_in (sub_nodes v)"
  "(p, f, c) \<in> set (edges_walk_vals d) \<Longrightarrow> p \<in> types_in (sub_nodes_vals d)"
  "(p, f, c) \<in> set (edges_walk_items xs) \<Longrightarrow> p \<in> types_in (sub_nodes_items xs)"
  by (induction v and d and xs rule: edges_walk_edges_walk_vals_edges_walk_items.induct)
    (auto simp: List.map_filter_simps dest: edge_parents split: option.splits)

lemma iter_edge_parents: "(p, f, c) \<in> set (iter_child_edges v) \<Longrightarrow> p \<in> set (iter_node_types v)"
  by (simp add: iter_child_edges_def iter_node_types_def nodes_of_sub walk_parents)

lemma scalar_parent:
  "(p, f, x) \<in> set (scalars_collect t path v) \<Longrightarrow> p = t"
  "(p, f, x) \<in> set (scalars_collect_vals t path d) \<Longrightarrow> p = t"
  "(p, f, x) \<in> set (scalars_collect_items t path xs) \<Longrightarrow> p = t"
  by (induction t path v and t path d and t path xs
      rule: scalars_collect_scalars_collect_vals_scalars_collect_items.induct)
    (auto split: option.splits if_splits)

lemma in_types: "p \<in> types_in ns \<longleftrightarrow> (\<exists>d\<in>set ns. node_type_of d = Some p)"
  by (induction ns) (auto simp: List.map_filter_simps split: option.splits)

lemma iter_scalar_parents: "(p, f, x) \<in> set (iter_scalar_fields v) \<Longrightarrow> p \<in> set (iter_node_types v)"
  unfolding iter_node_types_def in_types
  by (auto simp: iter_scalar_fields_def node_scalars_def dest!: scalar_parent split: option.splits if_splits)

section \<open>The guard\<close>

definition known_node_type :: "string \<Rightarrow> bool" where
  "known_node_type t \<longleftrightarrow> t \<in> set SUPPORTED_NODE_TYPES \<or> t \<in> set METADATA_NODE_TYPES"

definition known_child :: "edge \<Rightarrow> bool" where
  "known_child e \<longleftrightarrow> (case e of (p, f, c) \<Rightarrow> (p, f) \<in> set SOURCE_CHILD_FIELDS \<or> (p, f) \<in> set METADATA_CHILD_FIELDS)"

definition known_scalar :: "scalar_field \<Rightarrow> bool" where
  "known_scalar e \<longleftrightarrow>
     (case e of (p, f, x) \<Rightarrow>
        scalar_field_status p f \<noteq> ''unclassified''
        \<and> (case domain_of p f of None \<Rightarrow> True | Some vals \<Rightarrow> value_in_domain vals x = Inr True))"

definition audited :: "json \<Rightarrow> bool" where
  "audited ast \<longleftrightarrow> list_all known_node_type (iter_node_types ast) \<and> list_all known_child (iter_child_edges ast)
     \<and> list_all known_scalar (iter_scalar_fields ast)"

lemma status_known:
  "known_node_type t \<longleftrightarrow> node_type_status t \<noteq> ''excluded'' \<and> node_type_status t \<noteq> ''unimplemented''"
  "child_field_status p f \<noteq> ''unclassified'' \<longleftrightarrow> (p, f) \<in> set SOURCE_CHILD_FIELDS \<or> (p, f) \<in> set METADATA_CHILD_FIELDS"
  by (simp_all only: known_node_type_def node_type_status_def child_field_status_def split: if_split) simp_all

lemma unknown_values_empty:
  "unknown_source_scalar_value_counts v = Inr [] \<longleftrightarrow>
     list_all (\<lambda>x. unknown_value x = Inr False) (iter_scalar_fields v)"
proof -
  have m: "(\<exists>xss. mapR (\<lambda>x. bindR (unknown_value x) (\<lambda>b. Inr (if b then [x] else []))) xs = Inr xss \<and> concat xss = [])
      \<longleftrightarrow> list_all (\<lambda>x. unknown_value x = Inr False) xs" for xs
  proof (induction xs)
    case (Cons x xs)
    then show ?case
      by (cases "unknown_value x"; cases "mapR (\<lambda>x. bindR (unknown_value x) (\<lambda>b. Inr (if b then [x] else []))) xs") auto
  qed simp
  have e: "sorted_nested (fold (\<lambda>(p, f, x). bump_in (child_field_key p f) (scalar_value_repr x)) xs []) = [] \<longleftrightarrow> xs = []" for xs
    using nested_empty [of "\<lambda>(p, f, x). child_field_key p f" "\<lambda>(p, f, x). scalar_value_repr x" xs]
    by (simp add: case_prod_beta')
  show ?thesis
    unfolding unknown_source_scalar_value_counts_def bindR_eq_Inr sum.inject e m ..
qed

lemma guard_empty_ok: "guard_empty msg d = Inr () \<longleftrightarrow> d = []"
  by (simp add: guard_empty_def fail_def)

lemma known_scalar_split:
  "list_all known_scalar xs \<longleftrightarrow> (\<forall>(p, f, x)\<in>set xs. scalar_field_status p f \<noteq> ''unclassified'')
     \<and> list_all (\<lambda>x. unknown_value x = Inr False) xs"
proof -
  have "known_scalar x \<longleftrightarrow> (case x of (p, f, v) \<Rightarrow> scalar_field_status p f \<noteq> ''unclassified'') \<and> unknown_value x = Inr False" for x
    by (cases x) (auto simp: known_scalar_def unknown_value_def bindR_eq_Inr split: option.splits)
  then show ?thesis by (auto simp: list_all_iff)
qed

lemma guard_audited:
  assumes dotless: "\<And>t. t \<in> set (iter_node_types ast) \<Longrightarrow> CHR ''.'' \<notin> set t"
  shows "guard_no_unsupported_nodes ast = Inr () \<longleftrightarrow> audited ast"
proof -
  have types: "by_status node_type_status ''excluded'' (node_type_counts ast) = []
      \<and> by_status node_type_status ''unimplemented'' (node_type_counts ast) = []
      \<longleftrightarrow> list_all known_node_type (iter_node_types ast)"
    by (auto simp: by_status_empty keys_node_types status_known list_all_iff)
  have child: "by_status (key_status child_field_status) ''unclassified'' (child_field_counts ast) = []
      \<longleftrightarrow> list_all known_child (iter_child_edges ast)"
  proof -
    have "key_status child_field_status (child_field_key p f) = child_field_status p f"
      if "(p, f, c) \<in> set (iter_child_edges ast)" for p f c
      using that by (intro key_status_dotless dotless iter_edge_parents)
    then show ?thesis
      by (fastforce simp: by_status_empty keys_child_fields known_child_def list_all_iff simp flip: status_known(2))
  qed
  have scalar: "by_status (key_status scalar_field_status) ''unclassified'' (scalar_field_counts ast) = []
      \<longleftrightarrow> (\<forall>(p, f, x)\<in>set (iter_scalar_fields ast). scalar_field_status p f \<noteq> ''unclassified'')"
  proof -
    have "key_status scalar_field_status (child_field_key p f) = scalar_field_status p f"
      if "(p, f, x) \<in> set (iter_scalar_fields ast)" for p f x
      using that by (intro key_status_dotless dotless iter_scalar_parents)
    then show ?thesis
      by (fastforce simp: by_status_empty keys_scalar_fields)
  qed
  have nil: "dkeys d = [] \<longleftrightarrow> d = []" for d :: "(string \<times> nat) list"
    by (simp add: dkeys_def)
  have "guard_no_unsupported_nodes ast = Inr () \<longleftrightarrow>
      (by_status node_type_status ''excluded'' (node_type_counts ast) = []
       \<and> by_status node_type_status ''unimplemented'' (node_type_counts ast) = [])
      \<and> by_status (key_status child_field_status) ''unclassified'' (child_field_counts ast) = []
      \<and> by_status (key_status scalar_field_status) ''unclassified'' (scalar_field_counts ast) = []
      \<and> unknown_source_scalar_value_counts ast = Inr []"
    unfolding guard_no_unsupported_nodes_def frontend_coverage_def Let_def bindR_eq_Inr guard_empty_ok nil
    by (cases "unknown_source_scalar_value_counts ast") (auto simp: fail_def guard_empty_ok split: if_splits)
  then show ?thesis
    unfolding types child scalar unknown_values_empty audited_def known_scalar_split by blast
qed

end
