(* ===== verification/ImportStack.thy ===== *)
theory ImportStack
  imports ImportModule
begin

text \<open>
  The stack the importer needs: a recursive function that is given more stack than the AST is high
  (two more levels for expressions, which read a type from the node they are at) does not raise
  \<open>RecursionError\<close>.
\<close>

section \<open>Height\<close>

fun height :: "json \<Rightarrow> nat"
  and height_vals :: "(string \<times> json) list \<Rightarrow> nat"
  and height_items :: "json list \<Rightarrow> nat" where
  "height (JObj d) = Suc (height_vals d)"
| "height (JList xs) = Suc (height_items xs)"
| "height v = 0"
| "height_vals [] = 0"
| "height_vals ((k, v) # d) = max (height v) (height_vals d)"
| "height_items [] = 0"
| "height_items (x # xs) = max (height x) (height_items xs)"

lemma height_item: "x \<in> set xs \<Longrightarrow> height x < height (JList xs)"
  by (induction xs) auto

lemma height_get: "height (jget d k) < height (JObj d)"
  by (induction d) (auto simp: jget_def dget_or_def less_Suc_eq_le)

lemma height_get_or: "height v = 0 \<Longrightarrow> height (dget_or d k v) < height (JObj d)"
  by (induction d) (auto simp: dget_or_def less_Suc_eq_le)

lemma height_get_list: "dget_or d k (JList []) = JList xs \<Longrightarrow> x \<in> set xs \<Longrightarrow> height x < height_vals d"
proof (induction d)
  case (Cons p d)
  then show ?case
    using height_item [of x xs] by (cases p) (auto simp: dget_or_def less_max_iff_disj split: if_splits)
qed (simp add: dget_or_def)

lemma child_obj: "need_obj msg (jget d k) = Inr x \<Longrightarrow> height x < height (JObj d)"
  using height_get [of d k] by (cases "jget d k") (auto simp: need_obj_def fail_def)

lemma child_list:
  "need_list msg (dget_or d k (JList [])) = Inr xs \<Longrightarrow> x \<in> set xs \<Longrightarrow> height x < height (JObj d)"
  using height_get_list [of d k xs x] by (auto simp: need_list_def fail_def split: json.splits)

section \<open>Results without a stack overflow\<close>

definition nor :: "'a imp \<Rightarrow> bool" where
  "nor m \<longleftrightarrow> m \<noteq> Inl (Exn RecursionError)"

text \<open>A function that is safe below a height.\<close>

definition safe :: "nat \<Rightarrow> (json \<Rightarrow> 'a imp) \<Rightarrow> bool" where
  "safe h f \<longleftrightarrow> (\<forall>j. height j < h \<longrightarrow> nor (f j))"

lemma safeD: "safe h f \<Longrightarrow> height j < h \<Longrightarrow> nor (f j)"
  by (simp add: safe_def)

lemma safeI: "(\<And>j. height j < h \<Longrightarrow> nor (f j)) \<Longrightarrow> safe h f"
  by (simp add: safe_def)

lemma safe_mono: "safe h f \<Longrightarrow> h' \<le> h \<Longrightarrow> safe h' f"
  by (auto simp: safe_def)

lemma nor_mapR: "(\<And>x. x \<in> set xs \<Longrightarrow> nor (f x)) \<Longrightarrow> nor (mapR f xs)"
proof (induction xs)
  case (Cons x xs)
  then have "nor (f x)" "nor (mapR f xs)" by auto
  then show ?case by (cases "f x"; cases "mapR f xs") (auto simp: nor_def)
qed (simp add: nor_def)

lemma nor_rules:
  "nor (fail msg)" "nor (Inr t)"
  "nor n \<Longrightarrow> (\<And>x. n = Inr x \<Longrightarrow> nor (f x)) \<Longrightarrow> nor (bindR n f)"
  "(\<And>d. j = JObj d \<Longrightarrow> nor (g d)) \<Longrightarrow> nor (on_node j g)"
  "(b \<Longrightarrow> nor m) \<Longrightarrow> (\<not> b \<Longrightarrow> nor m') \<Longrightarrow> nor (if b then m else m')"
  "(opt = None \<Longrightarrow> nor m) \<Longrightarrow> (\<And>y. opt = Some y \<Longrightarrow> nor (h y)) \<Longrightarrow>
     nor (case opt of None \<Rightarrow> m | Some y \<Rightarrow> h y)"
  "(xs = [] \<Longrightarrow> nor m) \<Longrightarrow> (\<And>z zs. xs = z # zs \<Longrightarrow> nor (k z zs)) \<Longrightarrow>
     nor (case xs of [] \<Rightarrow> m | z # zs \<Rightarrow> k z zs)"
  by (auto simp: nor_def bindR_def on_node_def fail_def split: sum.splits json.splits option.splits list.splits)

lemma nor_leaf:
  "nor (need msg b)" "nor (need_str msg v)" "nor (need_obj msg v)" "nor (need_list msg v)"
  "nor (lookup_or_fail msg m s)" "nor (visibility s)" "nor (visibility_value s)" "nor (state_mutability s)"
  "nor (function_kind s)" "nor (var_mutability s)" "nor (binary_op s)" "nor (assign_op s)"
  "nor (contract_kind s)" "nor (unit_denomination s)" "nor (unary_op s v)" "nor (using_operator s n)"
  "nor (path_from_segments xs)" "nor (path_from_name s)" "nor (path_node_name d)" "nor (own_or_path_name d)"
  "nor (location_of v)" "nor (parameters_of d)" "nor (need_declaration v)"
proof -
  show l: "nor (lookup_or_fail msg m s)" for msg m s
    by (simp add: lookup_or_fail_def nor_def fail_def split: option.split)
  show "nor (visibility s)" "nor (visibility_value s)" "nor (state_mutability s)"
    "nor (function_kind s)" "nor (var_mutability s)" "nor (binary_op s)" "nor (assign_op s)"
    "nor (contract_kind s)" "nor (unit_denomination s)" "nor (unary_op s v)"
    unfolding visibility_def visibility_value_def state_mutability_def function_kind_def var_mutability_def
      binary_op_def assign_op_def contract_kind_def unit_denomination_def unary_op_def
    by (intro nor_rules l)+
  show *: "nor (need msg b)" "nor (need_list msg v)" for msg b v
    by (auto simp: need_def need_list_def nor_def fail_def split: json.split)
  show "nor (need_str msg v)" "nor (need_obj msg v)" "nor (need_declaration v)"
    by (auto simp: need_str_def need_obj_def need_declaration_def nor_def fail_def split: json.split)
  show "nor (using_operator s n)" "nor (path_from_segments xs)" "nor (path_from_name s)" "nor (location_of v)"
    unfolding using_operator_def path_from_segments_def path_from_name_def location_of_def by (intro nor_rules)+
  show p: "nor (path_node_name d)" for d
    unfolding path_node_name_def by (intro nor_rules)
  show "nor (own_or_path_name d)" "nor (parameters_of d)"
    unfolding own_or_path_name_def parameters_of_def Let_def by (intro nor_rules p *)+
qed

lemma nor_int_text: "nor (int_text s)"
  by (auto simp: int_text_def raises_def py_int_str_def Let_def nor_def split: option.splits)

lemma nor_or_on_fail: "nor m \<Longrightarrow> nor f \<Longrightarrow> nor (or_on_fail m f)"
  by (auto simp: or_on_fail_def split: sum.splits ierr.splits)

lemma nor_lengths:
  "nor (literal_number_nat j)" "nor (array_length_nat_from_node d)" "nor (type_expression_length_nat_from_node j)"
  "nor (type_from_name s)"
proof -
  show l: "nor (literal_number_nat j)" for j
    unfolding literal_number_nat_def
    by (intro nor_rules nor_leaf) (auto intro: nor_rules nor_int_text split: json.split)
  show "nor (array_length_nat_from_node d)"
    unfolding array_length_nat_from_node_def Let_def
    by (intro nor_rules nor_int_text) (auto intro: nor_rules nor_or_on_fail l split: json.split)
  show "nor (type_expression_length_nat_from_node j)"
    unfolding type_expression_length_nat_from_node_def
    by (intro nor_rules nor_or_on_fail l nor_int_text)
  show "nor (type_from_name s)"
    unfolding type_from_name_def sized_type_def fixed_type_def by (intro nor_rules nor_int_text)
qed

lemmas nor_base = nor_leaf nor_lengths nor_int_text

section \<open>Paths and types\<close>

lemma safe_segments: "height j < s \<Longrightarrow> nor (node_path_segments s j)"
proof (induction s arbitrary: j)
  case (Suc s)
  show ?case
    unfolding node_path_segments.simps Let_def
    by (intro nor_rules nor_base Suc.IH) (use Suc.prems in \<open>auto dest!: child_obj\<close>)
qed simp

lemma safe_path: "height j \<le> s \<Longrightarrow> nor (path_from_node s j)"
  unfolding path_from_node_def Let_def
  by (intro nor_rules nor_base safe_segments) (auto dest!: child_obj)

lemma child_parameters: "parameters_of d = Inr xs \<Longrightarrow> x \<in> set xs \<Longrightarrow> height x < height (JObj d)"
  by (auto simp: parameters_of_def bindR_eq_Inr dest: child_list)

lemma child_declaration: "need_declaration p = Inr v \<Longrightarrow> p = JObj v"
  by (auto simp: need_declaration_def fail_def split: json.splits if_splits)

lemma safe_parameter_types: "safe (height j) tf \<Longrightarrow> nor (parameter_type_list tf j)"
  unfolding parameter_type_list_def
  by (intro nor_rules nor_base nor_mapR; erule safeD)
    (auto dest!: child_parameters child_declaration child_obj)

lemma nor_parameter_locations: "nor (parameter_location_list j)"
  unfolding parameter_location_list_def by (intro nor_rules nor_base nor_mapR)

lemma nor_type_body:
  assumes tf: "safe (height (JObj d)) tf" shows "nor (type_body tf d)"
proof -
  have "nor (elementary_type d)" "nor (user_type d)"
    unfolding elementary_type_def user_type_def by (intro nor_rules nor_base)+
  moreover have "nor (mapping_type tf d)" "nor (array_type tf d)"
    unfolding mapping_type_def array_type_def Let_def
    by (intro nor_rules nor_base safeD [OF tf]; erule child_obj)+
  moreover have "nor (function_type tf d)"
    unfolding function_type_def Let_def
    by (intro nor_rules nor_base nor_parameter_locations safe_parameter_types safe_mono [OF tf])
      (auto dest!: child_obj)
  ultimately show ?thesis
    unfolding type_body_def by (intro nor_rules)
qed

lemma nor_type: "height j < s \<Longrightarrow> nor (type_from_node s j)"
proof (induction s arbitrary: j)
  case (Suc s)
  then have "safe s (type_from_node s)" by (intro safeI)
  with Suc.prems show ?case
    by (auto intro!: nor_rules(4) nor_type_body elim!: safe_mono)
qed simp

lemma safe_type: "safe s (type_from_node s)"
  by (intro safeI nor_type)

lemma nor_type_expression: "height j + 1 < s \<Longrightarrow> nor (type_from_expression_node s j)"
proof (induction s arbitrary: j)
  case (Suc s)
  show ?case
    unfolding type_from_expression_node.simps type_expression_body_def array_type_expression_def
    by (intro nor_rules nor_base safe_segments nor_type Suc.IH)
      (use Suc.prems in \<open>auto dest!: child_obj\<close>)
qed simp

lemma nor_parameter: "height j \<le> s \<Longrightarrow> nor (parameter_from_node s j)"
  unfolding parameter_from_node_def
  by (intro nor_rules nor_base nor_type) (auto dest!: child_obj)

lemma nor_var_binding: "height j \<le> s \<Longrightarrow> nor (var_binding_from_node s j)"
  by (cases j) (auto simp: var_binding_from_node_def intro: nor_rules nor_parameter)

lemma nor_parameter_list: "height j \<le> s \<Longrightarrow> nor (parameter_list s j)"
  unfolding parameter_list_def
  by (intro nor_rules nor_base nor_mapR nor_parameter) (auto dest!: child_parameters)

lemma nor_override: "height j \<le> s \<Longrightarrow> nor (override_specifier_from_node s j)"
proof (cases j)
  case (JObj d)
  assume "height j \<le> s"
  then show ?thesis
    unfolding override_specifier_from_node_def JObj json.case
    by (intro nor_rules nor_base nor_mapR safe_path) (auto dest!: child_list)
qed (auto simp: override_specifier_from_node_def intro: nor_rules)

end
