(* ===== verification/ImportTotal.thy ===== *)
theory ImportTotal
  imports ImportStack
begin

text \<open>
  The stack the importer needs: expressions, statements, declarations and the module.
\<close>

section \<open>Expressions\<close>

lemma nor_matching: "nor (matching_names msg ns xs)"
  by (simp add: matching_names_def nor_def fail_def)

lemma nor_args:
  assumes "\<And>a. a \<in> set args \<Longrightarrow> nor (ef a)"
  shows "nor (args_from_nodes ef args names)" "nor (call_options_from_nodes ef args names)"
  unfolding args_from_nodes_def call_options_from_nodes_def positional_def named_def
  by (intro nor_rules nor_base nor_matching nor_mapR assms; auto dest: set_zip_rightD)+

lemma nor_tuple_item: "nor (ef j) \<Longrightarrow> nor (tuple_item_from_node ef j)"
  by (cases j) (auto simp: tuple_item_from_node_def intro: nor_rules)

lemma nor_tuple_text: "(\<And>a. a \<in> set cs \<Longrightarrow> nor (ef a)) \<Longrightarrow> nor (tuple_text ef cs)"
  unfolding tuple_text_def by (intro nor_rules nor_mapR nor_tuple_item)

lemma nor_abi_decode_type_arg:
  assumes "safe h ef" "height j < h" shows "nor (abi_decode_type_arg_from_node ef j)"
proof (cases "\<exists>d. j = JObj d \<and> plain_tuple d")
  case True
  then obtain d where d: "j = JObj d" "plain_tuple d" by blast
  have "nor (bindR (need_list msg (dget_or d ''components'' (JList []))) (tuple_text ef))" for msg
    using assms d by (intro nor_rules nor_base nor_tuple_text safeD [OF assms(1)]) (auto dest!: child_list)
  then show ?thesis by (simp add: abi_decode_type_arg_from_node_def d)
next
  case False
  then show ?thesis
    using safeD [OF assms] by (cases j) (auto simp: abi_decode_type_arg_from_node_def)
qed

lemma nor_leaves:
  "nor (expr_identifier d)" "nor (expr_literal d)"
proof -
  show "nor (expr_identifier d)"
    unfolding expr_identifier_def by (intro nor_rules nor_base)
  have a: "nor (case py_int_str 16 v of Inr a \<Rightarrow> bindR (int_str a) (\<lambda>n. Inr (f n)) | Inl _ \<Rightarrow> fail m)" for v f m
    by (simp add: nor_def fail_def int_str_def split: sum.split)
  have "nor (number_literal d)"
    unfolding number_literal_def
    by (rule nor_rules, rule nor_base, rule nor_rules, rule a)
      (auto split: json.split list.split intro!: nor_rules nor_base)
  moreover have "nor (string_literal d)"
    unfolding string_literal_def by (auto split: json.split intro!: nor_rules nor_base)
  ultimately show "nor (expr_literal d)"
    unfolding expr_literal_def Let_def by (intro nor_rules nor_base)
qed

lemma nor_user_operator: "nor (user_defined_operator_name tb d)"
  unfolding user_defined_operator_name_def by (intro nor_rules)

lemma nor_operators:
  assumes ef: "safe (height (JObj d)) ef"
  shows "nor (expr_unary tb ef d)" "nor (expr_binary tb ef d)" "nor (expr_conditional ef d)"
    "nor (expr_assignment ef d)"
  unfolding expr_unary_def expr_binary_def expr_conditional_def expr_assignment_def operator_call_def Let_def
  by (intro nor_rules nor_base nor_user_operator nor_args safeD [OF ef]; auto dest: child_obj)+

lemma nor_tuple:
  assumes ef: "safe (height (JObj d)) ef" shows "nor (expr_tuple ef d)"
proof -
  have "nor (case cs of [JObj c] \<Rightarrow> ef (JObj c) | _ \<Rightarrow> tuple_text ef cs)"
    if "need_list msg (dget_or d ''components'' (JList [])) = Inr cs" for msg cs
  proof -
    have "nor (ef c)" if "c \<in> set cs" for c
      using \<open>need_list msg _ = _\<close> that by (intro safeD [OF ef]) (rule child_list)
    then show ?thesis by (auto split: list.split json.split intro!: nor_tuple_text)
  qed
  then show ?thesis
    unfolding expr_tuple_def
    by (intro nor_rules(1-5) nor_base nor_mapR safeD [OF ef]) (auto dest: child_list)
qed

lemma nor_members:
  assumes ef: "safe (height (JObj d)) ef" and s: "height (JObj d) + 1 < s"
  shows "nor (expr_member s ef d)" "nor (expr_index s ef d)"
  unfolding expr_member_def expr_index_def Let_def
  by (intro nor_rules nor_base nor_type_expression s safeD [OF ef]; auto dest: child_obj)+

lemma nor_some_part: "(\<And>x. need_obj msg j = Inr x \<Longrightarrow> nor (f x)) \<Longrightarrow> nor (some_part msg f j)"
  unfolding some_part_def by (intro nor_rules nor_base)

lemma nor_optional: "nor (optional_node msg j)"
  by (simp add: optional_node_def nor_base)

lemma nor_slice:
  assumes ef: "safe (height (JObj d)) ef" shows "nor (expr_slice ef d)"
  unfolding expr_slice_def Let_def
  by (intro nor_rules nor_base nor_optional nor_some_part safeD [OF ef]) (auto dest: child_obj)

lemma height_peel: "height (peel j) \<le> height j"
proof (induction j rule: peel.induct)
  case (1 j)
  show ?case
  proof (cases "\<exists>d c. j = JObj d \<and> plain_tuple d \<and> jget d ''components'' = JList [JObj c]")
    case True
    then obtain d c where d: "j = JObj d" "plain_tuple d" "jget d ''components'' = JList [JObj c]" by blast
    have "height (peel (JObj c)) \<le> height (JObj c)" using 1 d by auto
    also have "\<dots> < height j" using height_get [of d "''components''"] d by simp
    finally show ?thesis using d by (simp add: peel.simps [of "JObj d"])
  next
    case False
    then have "peel j = j"
      by (subst peel.simps) (auto split: json.split list.split)
    then show ?thesis by simp
  qed
qed

lemma height_jobj: "height (JObj (jobj j)) \<le> max 1 (height j)"
  by (cases j) auto

lemma height_sub: "height (jget (jobj j) k) \<le> height j"
  using height_get [of "jobj j" k] by (cases j) (auto simp: jget_def dget_or_def)

lemma child_jobj: "need_obj msg (jget (jobj j) k) = Inr x \<Longrightarrow> height x \<le> height j"
  using height_sub [of j k] by (cases "jget (jobj j) k") (auto simp: need_obj_def fail_def)

lemma child_list_jobj:
  "need_list msg (dget_or (jobj j) k (JList [])) = Inr xs \<Longrightarrow> x \<in> set xs \<Longrightarrow> height x \<le> height j"
proof (cases j)
  case (JObj d)
  assume "need_list msg (dget_or (jobj j) k (JList [])) = Inr xs" "x \<in> set xs"
  then show ?thesis using child_list [of msg d k xs x] by (simp only: JObj jobj.simps less_imp_le)
qed (auto simp: need_list_def dget_or_def)

lemma nor_call_body:
  assumes ef: "safe h ef" and c: "height callee < h" and s: "h \<le> s"
    and args: "\<And>a. a \<in> set args \<Longrightarrow> height a < h"
  shows "nor (call_body s ef k callee args names)"
proof -
  have a: "\<And>a. a \<in> set args \<Longrightarrow> nor (ef a)" using args by (rule safeD [OF ef])
  have target: "nor (new_target s (jobj e))" if "height e < h" for e
    using that s unfolding new_target_def
    by (intro nor_rules nor_base nor_type) (auto dest!: child_jobj)
  have "nor (call_with_options s ef (jobj callee) args names)"
    unfolding call_with_options_def Let_def
    by (intro nor_rules nor_base nor_args a target safeD [OF ef])
      (use c in \<open>auto dest!: child_jobj child_list_jobj\<close>)
  moreover have "nor (payable_conversion ef args names)"
    unfolding payable_conversion_def using a by (intro nor_rules) auto
  moreover have "nor (abi_decode_call ef callee (args ! 0) (args ! 1))" if "length args = 2"
    using that args unfolding abi_decode_call_def
    by (intro nor_rules nor_abi_decode_type_arg [OF ef] safeD [OF ef] c) auto
  moreover have "nor (case args of [a] \<Rightarrow> ef a | _ \<Rightarrow> fail msg)" for msg
    using a by (intro nor_rules) auto
  ultimately show ?thesis
    unfolding call_body_def Let_def
    by (intro nor_rules(1-5) nor_args a target c safeD [OF ef]) auto
qed

lemma nor_call:
  assumes "safe (height (JObj d)) ef" "height (JObj d) \<le> s" shows "nor (expr_call s ef d)"
  unfolding expr_call_def Let_def
  by (intro nor_rules nor_base nor_call_body [OF assms(1) _ assms(2)])
    (auto dest!: child_obj child_list intro: le_less_trans [OF height_peel])

lemma nor_expr_body:
  assumes ef: "safe (height (JObj d)) ef" and s: "height (JObj d) + 1 < s"
  shows "nor (expr_body tb s ef d)"
  unfolding expr_body_def
  by (intro nor_rules(1-5) nor_leaves nor_operators nor_tuple nor_members nor_slice nor_call nor_base nor_type ef s)
    (use s in \<open>auto dest!: child_obj\<close>)

lemma nor_expr: "height j + 2 < s \<Longrightarrow> nor (expr_from_node tb s j)"
proof (induction s arbitrary: j)
  case (Suc s)
  then have "safe (height j) (expr_from_node tb s)" by (intro safeI Suc.IH) auto
  with Suc.prems show ?case by (auto intro!: nor_rules(4) nor_expr_body)
qed simp


section \<open>Statements\<close>

lemma safe_stmt_simple:
  assumes ef: "safe (height (JObj d)) ef" and s: "height (JObj d) \<le> s"
  shows "nor (stmt_return ef d)" "nor (one_expr ctor msg k ef d)" "nor (stmt_var_decl s ef d)"
proof -
  show "nor (stmt_return ef d)" "nor (one_expr ctor msg k ef d)"
    unfolding stmt_return_def one_expr_def
    by (intro nor_rules(1-5) nor_base safeD [OF ef]; auto dest: child_obj)+
  show "nor (stmt_var_decl s ef d)"
    unfolding stmt_var_decl_def
    by (intro nor_rules(1-5) nor_base nor_mapR nor_var_binding nor_some_part safeD [OF ef])
      (use s in \<open>auto dest!: child_obj child_list\<close>)
qed

lemma nor_statement_list: "safe (height (JObj d)) sf \<Longrightarrow> nor (statement_list msg sf d)"
  unfolding statement_list_def
  by (intro nor_rules nor_base nor_mapR; erule safeD) (auto dest: child_list)

lemma nor_loops:
  assumes ef: "safe (height (JObj d)) ef" and sf: "safe (height (JObj d)) sf"
  shows "nor (stmt_if ef sf d)" "nor (stmt_while ef sf d)" "nor (stmt_do_while ef sf d)" "nor (stmt_for ef sf d)"
proof -
  show "nor (stmt_if ef sf d)" "nor (stmt_while ef sf d)" "nor (stmt_do_while ef sf d)"
    unfolding stmt_if_def stmt_while_def stmt_do_while_def Let_def
    by (intro nor_rules nor_base nor_some_part safeD [OF ef] safeD [OF sf]; auto dest: child_obj)+
  have "height y < height (JObj d)" if "need_obj msg (jget d k) = Inr e" "loop_expression e = Inr y" for e y msg k
  proof -
    have "height y \<le> height e"
      using that(2) by (auto simp: loop_expression_def dest: child_jobj split: if_splits)
    with child_obj [OF that(1)] show ?thesis by simp
  qed
  moreover have "nor (loop_expression e)" for e
    unfolding loop_expression_def by (intro nor_rules nor_base)
  ultimately show "nor (stmt_for ef sf d)"
    unfolding stmt_for_def
    by (intro nor_rules nor_base nor_some_part safeD [OF ef] safeD [OF sf])
      (auto dest: child_obj)
qed

lemma nor_try_parts:
  "height (JObj d) \<le> s + 1 \<Longrightarrow> nor (try_clause_params_from_node s d)"
  "safe (height (JObj d)) sf \<Longrightarrow> nor (try_clause_body_from_node sf d)"
  unfolding try_clause_params_from_node_def try_clause_body_from_node_def
  by (intro nor_rules nor_base nor_parameter_list; auto dest!: child_obj intro: safeD)+

lemma nor_catch:
  assumes sf: "safe (height j) sf" and s: "height j \<le> s + 1"
  shows "nor (catch_clause_from_node s sf j)"
  unfolding catch_clause_from_node_def Let_def
  by (intro nor_rules nor_base nor_try_parts safe_mono [OF sf]) (use s in auto)

lemma nor_try:
  assumes ef: "safe (height (JObj d)) ef" and sf: "safe (height (JObj d)) sf" and s: "height (JObj d) \<le> s"
  shows "nor (stmt_try s ef sf d)"
proof (cases "dget_or d ''clauses'' (JList [])")
  case (JList cs)
  have c: "height x < height (JObj d)" if "x \<in> set cs" for x
    using height_get_list [OF JList that] by simp
  have o: "height (JObj (jobj x)) \<le> height (JObj d)" if "x \<in> set cs" for x
    using c [OF that] height_jobj [of x] by (simp add: max_def split: if_splits)
  show ?thesis
    unfolding stmt_try_def JList json.case
    by (intro nor_rules nor_base nor_mapR nor_catch nor_try_parts safe_mono [OF sf] safeD [OF ef])
      (use s c o in \<open>fastforce dest: child_obj\<close>)+
qed (auto simp: stmt_try_def intro!: nor_rules nor_base)

lemma nor_stmt_body:
  assumes ef: "safe (height (JObj d)) ef" and sf: "safe (height (JObj d)) sf" and s: "height (JObj d) \<le> s"
  shows "nor (stmt_body s ef sf d)"
  unfolding stmt_body_def
  by (intro nor_rules(1-5) safe_stmt_simple [OF ef s] nor_statement_list nor_loops nor_try ef sf s)

lemma nor_stmt: "height j + 2 < s \<Longrightarrow> nor (stmt_from_node tb s j)"
proof (induction s arbitrary: j)
  case (Suc s)
  then have "safe (height j) (expr_from_node tb s)" "safe (height j) (stmt_from_node tb s)"
    by (intro safeI nor_expr Suc.IH; simp)+
  with Suc.prems show ?case by (auto intro!: nor_rules(4) nor_stmt_body)
qed simp

section \<open>Declarations\<close>

text \<open>From here on the AST is at most as high as the stack allows.\<close>

lemma nor_modifier_invocation: "height j + 1 < s \<Longrightarrow> nor (modifier_invocation_from_node tb s j)"
proof -
  assume s: "height j + 1 < s"
  have l: "x \<in> set (jlist (jget d k)) \<Longrightarrow> height x < height (JObj d)" for x d k
    using height_item [of x "jlist (jget d k)"] height_get [of d k] by (cases "jget d k") auto
  show ?thesis
    unfolding modifier_invocation_from_node_def Let_def
    by (intro nor_rules nor_base nor_args safe_path nor_expr)
      (use s in \<open>auto dest!: child_obj l\<close>)
qed

lemma nor_body_part: "height v + 2 < s \<Longrightarrow> nor (body_part tb s msg v)"
  unfolding body_part_def by (intro nor_rules nor_base nor_stmt) (auto simp: need_obj_def fail_def split: json.splits)

lemma below_stack:
  assumes "height (JObj d) + 1 < s"
  shows "height (jget d k) + 2 < s" "height (jget d k) \<le> s"
    "need_obj msg (jget d k) = Inr x \<Longrightarrow> height x + 2 < s" "need_obj msg (jget d k) = Inr x \<Longrightarrow> height x \<le> s"
    "need_obj msg (jget d k) = Inr x \<Longrightarrow> height x < s"
    "need_list msg (dget_or d k (JList [])) = Inr xs \<Longrightarrow> y \<in> set xs \<Longrightarrow> height y + 2 < s"
    "need_list msg (dget_or d k (JList [])) = Inr xs \<Longrightarrow> y \<in> set xs \<Longrightarrow> height y + 1 < s"
    "need_list msg (dget_or d k (JList [])) = Inr xs \<Longrightarrow> y \<in> set xs \<Longrightarrow> height y \<le> s"
  using assms height_get [of d k] child_obj [of msg d k x] child_list [of msg d k xs y] by auto

lemma nor_function_decl:
  assumes "height j + 1 < s" shows "nor (function_decl_from_node tb s f j)"
  unfolding function_decl_from_node_def Let_def case_prod_beta
  by (intro nor_rules(1-5) nor_base nor_body_part nor_parameter_list nor_override nor_mapR nor_modifier_invocation)
    (use assms in \<open>blast intro: below_stack\<close>)+

lemma nor_modifier:
  assumes "height (JObj d) + 1 < s" shows "nor (modifier_from_node tb s d)"
  unfolding modifier_from_node_def Let_def
  by (intro nor_rules(1-5) nor_base nor_body_part nor_parameter_list nor_override)
    (use assms in \<open>blast intro: below_stack\<close>)+

lemma nor_state_var_decl:
  assumes "height j + 1 < s" "height init + 2 < s" shows "nor (state_var_decl_from_variable_node tb s init f j)"
proof -
  have i: "height (if init \<noteq> JNull then init else if b then jget d k else jget d k') + 2 < s" if "j = JObj d" for d b k k'
    using assms below_stack(1) [of d s] that by simp
  have o: "need_obj msg v = Inr x \<Longrightarrow> x = v" for msg v x
    by (cases v) (auto simp: need_obj_def fail_def)
  show ?thesis
    unfolding state_var_decl_from_variable_node_def Let_def
    by (intro nor_rules(1-5) nor_base nor_type nor_override nor_expr)
      (use assms i in \<open>blast intro: below_stack dest: o\<close>)+
qed

lemma nor_state_var:
  assumes s: "height (JObj d) + 1 < s" shows "nor (state_var_from_node tb s d)"
proof -
  have n: "height JNull + 2 < s" using s by simp
  show ?thesis
    unfolding state_var_from_node_def Let_def
    by (intro nor_rules(1-5) nor_base nor_mapR nor_state_var_decl nor_expr s n below_stack [OF s]) assumption+
qed

lemma nor_definitions:
  assumes "height (JObj d) + 1 < s"
  shows "nor (event_decl_from_node s d)" "nor (error_decl_from_node s d)" "nor (struct_decl_from_node s d)"
    "nor (enum_decl_from_node d)" "nor (user_value_type_decl_from_node s d)"
proof -
  have p: "height y + 1 < s" 
    if "need_obj m (jget d k) = Inr x" "need_list m' (dget_or (jobj x) k' (JList [])) = Inr ys" "y \<in> set ys" for m k x m' k' ys y
    using child_obj [OF that(1)] child_list_jobj [OF that(2,3)] assms by simp
  have ev: "nor (event_param_from_node s j)" if "height j + 1 < s" for j
    unfolding event_param_from_node_def using that
    by (intro nor_rules nor_base nor_type) (blast intro: below_stack)+
  have st: "nor (struct_field_from_node s j)" if "height j + 1 < s" for j
    unfolding struct_field_from_node_def Let_def using that
    by (intro nor_rules nor_base nor_type) (blast intro: below_stack)+
  have en: "nor (enum_case j)" for j
    unfolding enum_case_def by (intro nor_rules nor_base)
  have pa: "nor (parameter_from_node s j)" if "height j + 1 < s" for j
    using that by (intro nor_parameter) simp
  show "nor (event_decl_from_node s d)" "nor (error_decl_from_node s d)"
    unfolding event_decl_from_node_def error_decl_from_node_def Let_def
    by (intro nor_rules nor_base nor_mapR ev pa; blast intro: p)+
  show "nor (struct_decl_from_node s d)" "nor (enum_decl_from_node d)" "nor (user_value_type_decl_from_node s d)"
    unfolding struct_decl_from_node_def enum_decl_from_node_def user_value_type_decl_from_node_def Let_def
    by (intro nor_rules nor_base nor_mapR st en nor_type; use assms in \<open>blast intro: below_stack\<close>)+
qed

lemma nor_base_specifier:
  assumes "height j + 1 < s" shows "nor (base_specifier_from_node tb s j)"
proof -
  have "height y + 2 < s" if "need_list msg (if dget_or d k (JList []) = JNull then JList [] else dget_or d k (JList [])) = Inr xs"
      "y \<in> set xs" "j = JObj d" for msg d k xs y
    using that assms by (cases "dget_or d k (JList []) = JNull") (simp add: need_list_def, simp only: if_False below_stack(6))
  then show ?thesis
    unfolding base_specifier_from_node_def Let_def
    by (intro nor_rules nor_base safe_path nor_args nor_expr) (use assms in \<open>blast intro: below_stack\<close>)+
qed

lemma nor_using_function:
  assumes "height j + 1 < s" shows "nor (using_function_from_node tb s j)"
proof -
  have "height x \<le> s" if "need_obj msg (if b then jget d k else jget d k') = Inr x" "j = JObj d" for msg b d k k' x
    using that assms below_stack(4) [of d s] by (auto split: if_splits)
  moreover have "nor (case v of JStr (c # cs) \<Rightarrow> using_operator (c # cs) n | _ \<Rightarrow> Inr ''none'')" for v n
    by (auto split: json.split list.split intro: nor_rules nor_base)
  ultimately show ?thesis
    unfolding using_function_from_node_def Let_def
    by (intro nor_rules(1-5) nor_base safe_path) blast+
qed

lemma nor_using_decl:
  assumes "height (JObj d) + 1 < s" shows "nor (using_decl_from_node tb s d)"
proof -
  have "height l \<le> s" if "jget d k = JObj l'" "l = JObj l'" for k l l'
    using that assms below_stack(2) [of d s k] by simp
  moreover have "height f + 1 < s" if "jget d k = JList fs" "f \<in> set fs" for k f fs
    using that assms height_get [of d k] height_item [of f fs] by simp
  ultimately have "nor (case jget d ''libraryName'' of
              JObj l \<Rightarrow> bindR (path_from_node s (JObj l)) (\<lambda>p. Inr (p, ''[]''))
            | _ \<Rightarrow> (case jget d ''functionList'' of
                 JList fs \<Rightarrow> bindR (mapR (using_function_from_node tb s) fs) (\<lambda>xs.
                   Inr (''{ segments := [] }'', lean_list xs))
               | _ \<Rightarrow> fail m))" for m
    by (auto split: json.split intro!: nor_rules nor_mapR nor_using_function safe_path)
  then show ?thesis
    unfolding using_decl_from_node_def case_prod_beta
    by (intro nor_rules(1-5) nor_base nor_type) (use assms in \<open>blast intro: below_stack\<close>)+
qed

lemma nor_pragma: "nor (pragma_from_node d)"
  unfolding pragma_from_node_def by (auto split: json.split list.split intro!: nor_rules nor_base)

section \<open>The module\<close>

lemma nor_contract_items:
  assumes s: "height (JObj d) + 1 < s" shows "nor (contract_items tb s d)"
  unfolding contract_items_def
  by (intro nor_rules(1-5) nor_state_var nor_definitions [OF s] nor_using_decl nor_modifier nor_function_decl s)

lemma child_objs:
  assumes "need_list m (dget_or c k (JList [])) = Inr xs" "d \<in> set (objs xs)"
  shows "height (JObj d) < height (JObj c)"
proof -
  from assms(2) obtain x where x: "x \<in> set xs" "is_obj x" "d = jobj x" by (auto simp: objs_def)
  from x(2,3) have "x = JObj d" by (cases x) simp_all
  with child_list [OF assms(1) x(1)] show ?thesis by (simp only:)
qed

lemma nor_contract:
  assumes s: "height (JObj c) < s" shows "nor (render_contract tb s c)"
proof -
  have o: "height (JObj x) + 1 < s" if "need_list m (dget_or c k (JList [])) = Inr xs" "x \<in> set (objs xs)" for m k xs x
    using child_objs [OF that] s by simp
  have b: "height x + 1 < s" if "need_list m (dget_or c k (JList [])) = Inr xs" "x \<in> set xs" for m k xs x
    using child_list [OF that] s by simp
  show ?thesis
    unfolding render_contract_def
    by (intro nor_rules(1-5) nor_base nor_mapR nor_contract_items nor_base_specifier) (blast intro: o b)+
qed

lemma nor_source_item:
  assumes s: "height (JObj d) + 1 < s" shows "nor (source_item_from_node tb s i d)"
proof -
  have n: "height JNull + 2 < s" using s by simp
  show ?thesis
    unfolding source_item_from_node_def
    by (intro nor_rules(1-5) nor_pragma nor_function_decl nor_state_var_decl nor_definitions [OF s]
        nor_using_decl s n)
qed

lemma nor_source_items:
  "(\<And>d. d \<in> set ds \<Longrightarrow> height (JObj d) + 1 < s) \<Longrightarrow> nor (source_items tb s i ds)"
proof (induction ds arbitrary: i)
  case (Cons d ds)
  show ?case unfolding source_items.simps by (intro nor_rules nor_source_item Cons; simp)
qed (simp add: nor_rules)

lemma nor_contract_defs:
  "(\<And>c. c \<in> set cs \<Longrightarrow> height (JObj c) < s) \<Longrightarrow> nor (contract_defs tb s i cs)"
proof (induction cs arbitrary: i)
  case (Cons c cs)
  show ?case unfolding contract_defs.simps by (intro nor_rules nor_contract Cons; simp)
qed (simp add: nor_rules)

lemma nor_guard: "nor (guard_no_unsupported_nodes ast)"
proof -
  have u: "nor (unknown_value x)" for x
    by (auto simp: unknown_value_def value_in_domain_def nor_def bindR_def Let_def case_prod_beta
        split: option.splits sum.splits json.splits fval.splits)
  have "nor (unknown_source_scalar_value_counts ast)"
    unfolding unknown_source_scalar_value_counts_def by (intro nor_rules nor_mapR u)
  then show ?thesis
    unfolding guard_no_unsupported_nodes_def frontend_coverage_def guard_empty_def Let_def
    by (intro nor_rules)
qed

lemma child_contracts:
  assumes "contract_definitions ast = Inr cs" "c \<in> set cs"
  shows "height (JObj c) < height (JObj ast)"
proof (cases "dget_or ast ''nodes'' (JList [])")
  case (JList xs)
  with assms have c: "c \<in> set (objs xs)" by (auto simp: contract_definitions_def)
  have "need_list [] (dget_or ast ''nodes'' (JList [])) = Inr xs" by (simp add: need_list_def JList)
  then show ?thesis using c by (rule child_objs)
qed (use assms in \<open>auto simp: contract_definitions_def\<close>)

lemma nor_find: "nor (find_contract ast nm)" "nor (contract_definitions ast)"
proof -
  show c: "nor (contract_definitions ast)"
    by (simp add: contract_definitions_def nor_def split: json.split)
  show "nor (find_contract ast nm)"
    unfolding find_contract_def by (intro nor_rules c)
qed

lemma nor_render_module:
  assumes s: "height (JObj ast) < s" shows "nor (render_module s ast source contract namespace b)"
proof -
  have n: "nor (namespace_segments namespace)"
    unfolding namespace_segments_def Let_def by (intro nor_rules)
  have o: "height (JObj x) + 1 < s" if "need_list m (dget_or ast k (JList [])) = Inr xs" "x \<in> set (objs xs)" for m k xs x
    using child_objs [OF that] s by simp
  have c: "height (JObj c) < s" if "contract_definitions ast = Inr cs" "c \<in> set cs" for cs c
    using child_contracts [OF that] s by simp
  show ?thesis
    unfolding render_module_def Let_def
    by (intro nor_rules nor_base nor_guard nor_find n nor_contract_defs nor_source_items) (blast intro: o c)+
qed

end
