(* ===== verification/ImportProps.thy ===== *)
theory ImportProps
  imports BalanceDecl ImportAudit ImportTotal AdjWitness ObsProps
begin

text \<open>
  The properties of the importer: the text it writes is balanced, its audit accepts exactly the known
  ASTs, it needs no more stack than the AST is high, and what it reports is what the gate and the
  coverage fingerprint of the adjudicator expect.
\<close>

section \<open>The importer after the gate\<close>

lemma excluded_types:
  assumes "node_type_of d = Some t" "node_type_status t = ''excluded''"
  shows "is_inline_assembly d \<or> nt_is d ''ImportDirective''"
proof -
  have "dhas IMPORTER_EXCLUDED_NODE_TYPES t \<or> starts ''Yul'' t"
    using assms(2) unfolding node_type_status_def by (simp split: if_splits)
  then have "t = ''ImportDirective'' \<or> t = ''InlineAssembly'' \<or> starts ''Yul'' t"
    by (simp add: IMPORTER_EXCLUDED_NODE_TYPES_def)
  moreover have "jget d ''nodeType'' = JStr t"
    using assms(1) by (simp add: node_type_of_def split: json.splits)
  ultimately show ?thesis by (auto simp: is_inline_assembly_def nt_is_def nt_yul_def)
qed

lemma gated_types:
  assumes "is_pass (run_gate_on_asts srcs multi None)" "s \<in> set srcs" "t \<in> set (iter_node_types (sa_ast s))"
  shows "node_type_status t \<noteq> ''excluded''"
proof
  assume t: "node_type_status t = ''excluded''"
  from assms(3) obtain d where "d \<in> set (nodes_of (sa_ast s))" "node_type_of d = Some t"
    unfolding iter_node_types_def in_types by blast
  moreover from this obtain x where x: "x \<in> set (iter_nodes (sa_ast s))" "d = snd x" by (auto simp: nodes_of_def)
  ultimately have "is_inline_assembly (snd x) \<or> nt_is (snd x) ''ImportDirective''"
    using t excluded_types by blast
  moreover from assms(1,2) have "detect_inline_assembly X_ASM s = []" "detect_import_directive X_IMPORT s = []"
    unfolding gate_pass_live live_silent_def by blast+
  ultimately show False using x(1) unfolding asm.silent_iff import_dir.silent_iff by blast
qed

lemma guard_message:
  assumes "guard_no_unsupported_nodes ast = Inl (Fail m)" "starts ''excluded'' m"
  shows "\<exists>t\<in>set (iter_node_types ast). node_type_status t = ''excluded''"
proof (rule ccontr)
  assume "\<not> ?thesis"
  then have "by_status node_type_status ''excluded'' (node_type_counts ast) = []"
    by (auto simp: by_status_empty keys_node_types)
  moreover have "unknown_source_scalar_value_counts ast \<noteq> Inl (Fail m')" for m'
  proof -
    have u: "unknown_value x \<noteq> Inl (Fail m')" for x
    proof -
      have "value_in_domain vs v \<noteq> Inl (Fail m')" for vs v
        by (auto simp: value_in_domain_def split: json.splits fval.splits)
      then show ?thesis
        by (auto simp: unknown_value_def bindR_def case_prod_beta split: option.splits sum.splits)
    qed
    have "mapR (\<lambda>x. bindR (unknown_value x) (\<lambda>b. Inr (if b then [x] else []))) xs \<noteq> Inl (Fail m')" for xs
    proof (induction xs)
      case (Cons x xs)
      with u [of x] show ?case
        by (cases "unknown_value x"; cases "mapR (\<lambda>x. bindR (unknown_value x) (\<lambda>b. Inr (if b then [x] else []))) xs") auto
    qed simp
    then show ?thesis
      unfolding unknown_source_scalar_value_counts_def
      by (cases "mapR (\<lambda>x. bindR (unknown_value x) (\<lambda>b. Inr (if b then [x] else []))) (iter_scalar_fields ast)") auto
  qed
  ultimately show False
    using assms unfolding guard_no_unsupported_nodes_def frontend_coverage_def
    by (cases "unknown_source_scalar_value_counts ast")
      (auto simp: guard_empty_def fail_def Let_def bindR_def split: if_splits)
qed

section \<open>The words of a message\<close>

definition token :: "string \<Rightarrow> bool" where
  "token w \<longleftrightarrow> w \<noteq> [] \<and> list_all alnum_ch w \<and> lower_str w \<notin> {''and'', ''or''}"

lemma alnum_plain:
  assumes "alnum_ch c"
  shows "\<not> space_cp (cp c)" "c \<notin> set ''() ''" "c \<noteq> CHR '',''" "c \<noteq> CHR '':''"
  using assms by (auto simp: alnum_ch_def upper_ch_def space_cp_def cp_def)

lemma words_space: "space_cp (cp c) \<Longrightarrow> words (c # s) = words s"
  by (simp add: words.simps [of "c # s"] words.simps [of s])

lemma words_token:
  assumes "w \<noteq> []" "list_all alnum_ch w" "s = [] \<or> (\<exists>c r. s = c # r \<and> space_cp (cp c))"
  shows "words (w @ s) = w # words s"
proof -
  have ns: "\<forall>c\<in>set w. \<not> space_cp (cp c)" using assms(2) by (auto simp: list_all_iff alnum_plain)
  have d: "dropWhile (\<lambda>c. space_cp (cp c)) (w @ s) = w @ s"
    using assms(1) ns by (cases w) auto
  have t: "takeWhile (\<lambda>c. \<not> space_cp (cp c)) (w @ s) = w" "dropWhile (\<lambda>c. \<not> space_cp (cp c)) (w @ s) = s"
    using ns assms(3) by (auto simp: takeWhile_append dropWhile_append)
  show ?thesis
    unfolding words.simps [of "w @ s"] d Let_def t using assms(1) by simp
qed

lemma replace_comma: "replace_all '','' '' '' s = map (\<lambda>c. if c = CHR '','' then CHR '' '' else c) s"
  by (induction s) auto

lemma comma_token: "list_all alnum_ch w \<Longrightarrow> map (\<lambda>c. if c = CHR '','' then CHR '' '' else c) w = w"
  by (rule map_idI) (auto simp: list_all_iff alnum_plain)

lemma words_tokens:
  assumes "\<And>w. w \<in> set ts \<Longrightarrow> token w"
  shows "words (replace_all '','' '' '' (CHR '' '' # join '', '' ts)) = ts"
proof -
  have sp: "space_cp (cp CHR '' '')" by (simp add: cp_def space_cp_def)
  have "words (map (\<lambda>c. if c = CHR '','' then CHR '' '' else c) (join '', '' ts)) = ts"
    using assms
  proof (induction "'', ''" ts rule: join.induct)
    case 1
    then show ?case by (simp add: words.simps)
  next
    case (2 x)
    then show ?case
      using words_token [of x "[]"] by (simp add: token_def comma_token words.simps [of "[]"])
  next
    case (3 x y ys)
    let ?r = "map (\<lambda>c. if c = CHR '','' then CHR '' '' else c) (join '', '' (y # ys))"
    have "words (x @ CHR '' '' # CHR '' '' # ?r) = x # words (CHR '' '' # CHR '' '' # ?r)"
      using 3(2) [of x] sp by (intro words_token) (auto simp: token_def)
    also have "\<dots> = x # y # ys" using 3 sp by (simp add: words_space)
    finally show ?case using 3(2) [of x] by (simp add: token_def comma_token)
  qed
  then show ?thesis using sp by (simp add: replace_comma words_space)
qed

lemma present_tokens_join:
  assumes "\<And>w. w \<in> set ts \<Longrightarrow> token w"
  shows "present_tokens (CHR '' '' # join '', '' ts) = ts"
proof -
  have "map (strip_by (\<lambda>c. c \<in> set ''() '')) ts = ts"
  proof (intro map_idI strip_by_noop)
    fix w c assume "w \<in> set ts" "c \<in> set w"
    then have "alnum_ch c" using assms [of w] by (simp add: token_def list_all_iff)
    then show "c \<notin> set ''() ''" by (rule alnum_plain(2))
  qed
  moreover have "filter (\<lambda>t. t \<noteq> [] \<and> lower_str t \<notin> {''and'', ''or''}) ts = ts"
    using assms by (intro filter_True) (auto simp: token_def)
  moreover have "words (replace_all '','' '' '' (CHR '' '' # join '', '' ts)) = ts"
    using assms by (rule words_tokens)
  ultimately show ?thesis
    unfolding present_tokens_def by (simp only:)
qed

section \<open>The fingerprint of an unimplemented construct\<close>

definition unimplemented_types :: "json \<Rightarrow> string list" where
  "unimplemented_types ast =
     sort (remdups (filter (\<lambda>t. node_type_status t = ''unimplemented'') (iter_node_types ast)))"

lemma distinct_bump: "distinct (dkeys d) \<Longrightarrow> distinct (dkeys (fold (\<lambda>x. bump (k x)) xs d))"
  by (induction xs arbitrary: d) (auto simp: bump_def)

lemma distinct_sorted_items: "distinct (dkeys (sorted_items d)) = distinct (dkeys d)"
  by (simp add: sorted_items_def dkeys_def distinct_map distinct_sort)

lemma unimplemented_keys:
  "sort (dkeys (by_status node_type_status ''unimplemented'' (node_type_counts ast))) = unimplemented_types ast"
proof (rule sorted_distinct_set_unique)
  have "distinct (dkeys (node_type_counts ast))"
    using distinct_bump [of "[]" "\<lambda>x. x"] by (simp add: node_type_counts_def distinct_sorted_items)
  then show "distinct (sort (dkeys (by_status node_type_status ''unimplemented'' (node_type_counts ast))))"
    by (auto simp: by_status_def dkeys_def distinct_map intro: inj_on_subset)
  have "set (dkeys (by_status node_type_status ''unimplemented'' d)) =
      {t \<in> set (dkeys d). node_type_status t = ''unimplemented''}" for d :: "(string \<times> nat) list"
    by (force simp: by_status_def dkeys_def)
  then show "set (sort (dkeys (by_status node_type_status ''unimplemented'' (node_type_counts ast)))) =
      set (unimplemented_types ast)"
    by (auto simp: keys_node_types unimplemented_types_def)
qed (simp_all add: unimplemented_types_def)

lemma guard_unimplemented:
  assumes "list_all (\<lambda>t. node_type_status t \<noteq> ''excluded'') (iter_node_types ast)"
    and "unknown_source_scalar_value_counts ast = Inr u" "unimplemented_types ast \<noteq> []"
  shows "guard_no_unsupported_nodes ast =
    fail (''unimplemented Solidity AST nodes present: '' @ join '', '' (unimplemented_types ast))"
proof -
  let ?u = "by_status node_type_status ''unimplemented'' (node_type_counts ast)"
  have "by_status node_type_status ''excluded'' (node_type_counts ast) = []"
    using assms(1) by (auto simp: by_status_empty keys_node_types list_all_iff)
  moreover have "?u \<noteq> []"
    using assms(3) unimplemented_keys [of ast] by (metis dkeys_Nil sort_key_simps(1))
  ultimately show ?thesis
    unfolding guard_no_unsupported_nodes_def frontend_coverage_def assms(2) Let_def bindR_simps
      coverage.simps guard_empty_def
    by (simp add: unimplemented_keys fail_def)
qed

lemma strip_line:
  assumes "\<not> P (hd x)" "\<not> P (last x)" "x \<noteq> []" "P c"
  shows "strip_by P (x @ [c]) = x"
proof -
  obtain y ys where y: "x = y # ys" using assms(3) by (cases x) auto
  obtain zs z where z: "x = zs @ [z]" using assms(3) by (cases x rule: rev_cases) auto
  have "dropWhile P (x @ [c]) = x @ [c]" using assms(1) y by simp
  moreover have "dropWhile P (rev (x @ [c])) = rev x" using assms(2,4) z by simp
  ultimately show ?thesis by (simp add: strip_by_def)
qed

lemma contains_append: "contains p (a @ p @ b)"
  by (auto simp: contains_iff)

lemma stderr_message:
  fixes m :: string
  assumes "m \<noteq> []" "alnum_ch (last m)" "length m \<le> 1900"
  shows "ascii_text (ulit ''importer '' @ ulit ''exit_1'' @ ulit '': '' @ take 2000 (tstrip (ulit (''error: '' @ m @ nl))))
    = ''importer exit_1: error: '' @ m"
proof -
  have l: "last (''error: '' @ m) = last m" using assms(1) by simp
  have "tstrip (ulit (''error: '' @ m @ nl)) = strip_by space_cp (ulit (''error: '' @ m) @ [10])"
    by (simp add: tstrip_def nl_def cp_def)
  also have "\<dots> = ulit (''error: '' @ m)"
  proof (rule strip_line)
    have "last (ulit (''error: '' @ m)) = cp (last m)"
      unfolding ulit_def using l assms(1) by (simp add: last_map)
    then show "\<not> space_cp (last (ulit (''error: '' @ m)))" using alnum_plain(1) [OF assms(2)] by simp
  qed (simp_all add: space_cp_def cp_def)
  finally have "take 2000 (tstrip (ulit (''error: '' @ m @ nl))) = ulit (''error: '' @ m)"
    using assms(3) by (simp add: ulit_def)
  then show ?thesis
    unfolding ulit_simps(3) [symmetric] by (simp only: ulit_simps(3) [symmetric] ascii_text_ulit append_assoc)
      simp
qed

text \<open>What the run of the importer becomes when its audit finds unimplemented node types.\<close>

lemma unimplemented_fingerprint_message:
  assumes t: "\<And>t. t \<in> set ts \<Longrightarrow> token t" and ts: "ts \<noteq> []" "sorted ts" "distinct ts"
  shows "coverage_fingerprint (fail_closed_at ''import'' None
      (ulit (''importer exit_1: error: '' @ ''unimplemented Solidity AST nodes present: '' @ join '', '' ts)) i)
    = (''import'', ''unimplemented'', join ''+'' ts)"
proof -
  let ?a = "''importer exit_1: error: unimplemented Solidity AST nodes ''"
  let ?m = "''importer exit_1: error: '' @ ''unimplemented Solidity AST nodes present: '' @ join '', '' ts"
  have m: "?m = ?a @ ''present'' @ CHR '':'' # (CHR '' '' # join '', '' ts)" by simp
  have chars: "c \<in> set (join '', '' ts) \<Longrightarrow> alnum_ch c \<or> c = CHR '','' \<or> c = CHR '' ''" for c
    using t
  proof (induction "'', ''" ts rule: join.induct)
    case (2 x)
    then show ?case by (auto simp: token_def list_all_iff)
  next
    case (3 x y ys)
    have "c \<in> set x \<or> c = CHR '','' \<or> c = CHR '' '' \<or> c \<in> set (join '', '' (y # ys))"
      using 3(2) by auto
    then show ?case using 3(1) 3(3) by (auto simp: token_def list_all_iff)
  qed simp
  then have "CHR '':'' \<notin> set (CHR '' '' # join '', '' ts)" using alnum_plain(4) by auto
  then have r: "rpart_at ''present:'' ?m = Some (?a, CHR '' '' # join '', '' ts)"
    unfolding m using rpart_at_marker [of "''present:''" "''present''" "CHR '':''" "CHR '' '' # join '', '' ts" ?a] by simp
  have "present_tokens (CHR '' '' # join '', '' ts) = ts" using t by (rule present_tokens_join)
  then have "first_token ?m = join ''+'' ts"
    unfolding first_token_def r using ts by (simp add: sorted_sort_id distinct_remdups_id)
  moreover have "contains ''unimplemented'' ?m"
    using contains_append [of "''unimplemented''" "''importer exit_1: error: ''" "'' Solidity AST nodes present: '' @ join '', '' ts"]
    by simp
  ultimately show ?thesis
    by (simp only: coverage_fingerprint_def fail_closed_at_def lean_result.simps ascii_text_ulit Let_def if_True refl)
qed

section \<open>Concrete inputs\<close>

definition odd_source_unit :: node where
  "odd_source_unit =
     [(''nodeType'', JStr ''SourceUnit''),
      (''nodes'', JList [JObj [(''nodeType'', JStr ''Zeta'')], JObj [(''nodeType'', JStr ''Beta'')],
        JObj [(''nodeType'', JStr ''Zeta'')]])]"

section \<open>Properties\<close>

definition demo_source_unit :: node where
  "demo_source_unit =
     [(''nodeType'', JStr ''SourceUnit''),
      (''nodes'', JList
        [JObj [(''nodeType'', JStr ''PragmaDirective''), (''literals'', JList [JStr ''solidity'', JStr ''0.8''])],
         JObj [(''nodeType'', JStr ''ContractDefinition''), (''name'', JStr ''C''),
               (''contractKind'', JStr ''contract''), (''nodes'', JList
                 [JObj [(''nodeType'', JStr ''FunctionDefinition''), (''name'', JStr ''f''), (''kind'', JStr ''function''),
                    (''visibility'', JStr ''public''), (''stateMutability'', JStr ''pure''),
                    (''parameters'', JObj [(''nodeType'', JStr ''ParameterList''), (''parameters'', JList [])]),
                    (''returnParameters'', JObj [(''nodeType'', JStr ''ParameterList''), (''parameters'', JList
                       [JObj [(''nodeType'', JStr ''VariableDeclaration''), (''name'', JStr []),
                          (''typeName'', JObj [(''nodeType'', JStr ''ElementaryTypeName''), (''name'', JStr ''uint256'')])]])]),
                    (''body'', JObj [(''nodeType'', JStr ''Block''), (''statements'', JList
                       [JObj [(''nodeType'', JStr ''Return''), (''expression'',
                          JObj [(''nodeType'', JStr ''BinaryOperation''), (''operator'', JStr ''+''),
                            (''leftExpression'', JObj [(''nodeType'', JStr ''Literal''), (''kind'', JStr ''number''), (''value'', JStr ''1'')]),
                            (''rightExpression'', JObj [(''nodeType'', JStr ''Literal''), (''kind'', JStr ''number''), (''value'', JStr ''2'')])])]])])]])]])]"


text \<open>C12: The Lean text the importer writes is balanced: scanned with string literals, escapes and nested
  brackets, it ends in code at depth zero, whatever names and strings the AST carries; a name never
  closes a literal or a bracket of the surrounding term.\<close>

theorem importer_text_balanced:
  "render_module s ast source contract namespace body_only = Inr t \<Longrightarrow> balanced t"
  using render_module_balanced by (rule balRD)

theorem importer_text_balanced_witness:
  "\<exists>t. render_module 25 demo_source_unit ''C.sol'' ''C'' ''N.M'' True = Inr t \<and> t \<noteq> [] \<and> balanced t"
proof -
  have "case render_module 25 demo_source_unit ''C.sol'' ''C'' ''N.M'' True of Inr t \<Rightarrow> t \<noteq> [] | _ \<Rightarrow> False"
    by code_simp
  then obtain t where "render_module 25 demo_source_unit ''C.sol'' ''C'' ''N.M'' True = Inr t" "t \<noteq> []"
    by (auto split: sum.splits)
  then show ?thesis using importer_text_balanced by blast
qed

text \<open>C23: The audit of the importer passes exactly when every node type is supported or metadata, every
  edge to a child is classified, every scalar field is classified, and every scalar value with a
  domain is in it (node types contain no dot, the separator of the keys the code counts by).\<close>

theorem audit_exact:
  assumes "list_all (\<lambda>t. CHR ''.'' \<notin> set t) (iter_node_types ast)"
  shows "guard_no_unsupported_nodes ast = Inr () \<longleftrightarrow>
    list_all known_node_type (iter_node_types ast) \<and> list_all known_child (iter_child_edges ast)
    \<and> list_all known_scalar (iter_scalar_fields ast)"
  using guard_audited [of ast] assms by (simp add: list_all_iff audited_def)

theorem audit_exact_witness:
  "list_all (\<lambda>t. CHR ''.'' \<notin> set t) (iter_node_types (JObj demo_source_unit))
   \<and> guard_no_unsupported_nodes (JObj demo_source_unit) = Inr ()"
proof -
  have d: "list_all (\<lambda>t. CHR ''.'' \<notin> set t) (iter_node_types (JObj demo_source_unit))" by code_simp
  have "list_all known_node_type (iter_node_types (JObj demo_source_unit))"
    "list_all known_child (iter_child_edges (JObj demo_source_unit))"
    "list_all known_scalar (iter_scalar_fields (JObj demo_source_unit))" by code_simp+
  with audit_exact [OF d] d show ?thesis by blast
qed

text \<open>C24: Rendering returns with as much stack as the AST is high: none of the recursive functions of the
  importer overflows, so every run ends in the text, an \<open>ImportError\<close> or another exception.\<close>

theorem importer_stack_suffices:
  "height (JObj ast) < s \<Longrightarrow> render_module s ast source contract namespace body_only \<noteq> Inl (Exn RecursionError)"
  using nor_render_module unfolding nor_def .

theorem importer_stack_suffices_witness:
  "height (JObj demo_source_unit) < 25
   \<and> render_module 25 demo_source_unit ''C.sol'' ''D'' ''N'' False \<noteq> Inl (Exn RecursionError)"
proof -
  have h: "height (JObj demo_source_unit) < 25" by code_simp
  with importer_stack_suffices [OF h] show ?thesis by blast
qed

text \<open>C18: A submission the gate passes has no node the importer excludes: on its ASTs the importer never
  reports excluded nodes, so an exclusion it finds is one the gate has already rejected.\<close>

theorem gated_never_excluded:
  assumes "is_pass (run_gate_on_asts srcs multi None)" "src \<in> set srcs"
  shows "list_all (\<lambda>t. node_type_status t \<noteq> ''excluded'') (iter_node_types (sa_ast src))
    \<and> (\<forall>m. guard_no_unsupported_nodes (sa_ast src) \<noteq> Inl (Fail (''excluded Solidity AST nodes present: '' @ m)))"
proof -
  have types: "\<forall>t\<in>set (iter_node_types (sa_ast src)). node_type_status t \<noteq> ''excluded''"
    using gated_types [OF assms] by blast
  have "starts ''excluded'' (''excluded Solidity AST nodes present: '' @ m)" for m by simp
  then show ?thesis using types guard_message unfolding list_all_iff by blast
qed

theorem gated_never_excluded_witness:
  "is_pass (run_gate_on_asts [demo_src] True None)
   \<and> list_all (\<lambda>t. node_type_status t \<noteq> ''excluded'') (iter_node_types (sa_ast demo_src))"
  using gated_never_excluded [OF demo_gate_pass, of demo_src] demo_gate_pass by simp

text \<open>C19: Unimplemented node types reach the report by name: when the importer runs on an AST with
  unimplemented and no excluded types, the run is classified under \<open>import\<close>, \<open>unimplemented\<close> and
  the sorted names joined with \<open>+\<close>, through the message, the exit status and the parser of messages.\<close>

theorem unimplemented_types_reported:
  assumes "o_import T = main s traceback (Inr (source, ast)) contract namespace body_only"
    and "list_all (\<lambda>t. node_type_status t \<noteq> ''excluded'') (iter_node_types (JObj ast))"
    and "unknown_source_scalar_value_counts (JObj ast) = Inr u"
    and "unimplemented_types (JObj ast) = ts" "ts \<noteq> []" "list_all token ts" "length (join '', '' ts) \<le> 1800"
  shows "\<exists>sl. run_lean d T sig k = Inr sl
    \<and> coverage_fingerprint sl = (''import'', ''unimplemented'', join ''+'' ts)"
proof -
  let ?m = "''unimplemented Solidity AST nodes present: '' @ join '', '' ts"
  have "render_module s ast source contract namespace body_only = Inl (Fail ?m)"
    using guard_unimplemented [OF assms(2,3)] assms(4,5) by (simp add: render_module_def fail_def Let_def)
  then have run: "o_import T = Exit 1 [] (ulit (''error: '' @ ?m @ nl))"
    using assms(1) by (simp add: main_def)
  have tok: "\<And>t. t \<in> set ts \<Longrightarrow> token t" using assms(6) by (simp add: list_all_iff)
  have "alnum_ch (last (join '', '' ts))" using tok assms(5)
  proof (induction "'', ''" ts rule: join.induct)
    case (3 x y ys)
    then have "alnum_ch (last (join '', '' (y # ys)))" by simp
    moreover have "join '', '' (y # ys) \<noteq> []" using 3(2) [of y] by (cases ys) (auto simp: token_def)
    ultimately show ?case by simp
  qed (auto simp: token_def list_all_iff)
  moreover have "join '', '' ts \<noteq> []"
    using tok assms(5) by (cases ts; cases "tl ts") (auto simp: token_def)
  ultimately have msg: "ascii_text (ulit ''importer '' @ ulit ''exit_1'' @ ulit '': '' @ take 2000 (tstrip (ulit (''error: '' @ ?m @ nl))))
      = ''importer exit_1: error: '' @ ?m"
    using assms(7) by (intro stderr_message) simp_all
  let ?sl = "fail_closed_at ''import'' None (ulit (''importer exit_1: error: '' @ ?m)) False"
  have "show_int 1 = ''1''" by code_simp
  then have "run_lean d T sig k = Inr ?sl"
    using msg run by (simp add: run_lean_def run_solidity_lean_def run_solc_import_def stderr_of_def
        fail_closed_at_def ascii_text_ulit del: ulit_simps)
  moreover have "sorted ts" "distinct ts" using assms(4) by (auto simp: unimplemented_types_def)
  ultimately show ?thesis using unimplemented_fingerprint_message [OF tok assms(5)] by blast
qed

theorem unimplemented_types_reported_witness:
  "\<exists>sl. run_lean 10 (demo_tools (Exit 0 [] [])
       (main 100 [] (Inr (''C.sol'', odd_source_unit)) ''C'' ''N'' False) (Timeout [])) None demo_call = Inr sl
     \<and> coverage_fingerprint sl = (''import'', ''unimplemented'', ''Beta+Zeta'')"
proof -
  let ?T = "demo_tools (Exit 0 [] []) (main 100 [] (Inr (''C.sol'', odd_source_unit)) ''C'' ''N'' False) (Timeout [])"
  have imp: "o_import ?T = main 100 [] (Inr (''C.sol'', odd_source_unit)) ''C'' ''N'' False"
    by (simp add: demo_tools_def)
  have "list_all (\<lambda>t. node_type_status t \<noteq> ''excluded'') (iter_node_types (JObj odd_source_unit))" by code_simp
  moreover have "unknown_source_scalar_value_counts (JObj odd_source_unit) = Inr []" by code_simp
  moreover have "unimplemented_types (JObj odd_source_unit) = [''Beta'', ''Zeta'']" by code_simp
  moreover have "list_all token [''Beta'', ''Zeta'']" by code_simp
  ultimately show ?thesis
    using unimplemented_types_reported [OF imp, of _ "[''Beta'', ''Zeta'']" 10 None demo_call] by simp
qed

end
