(* ===== verification/HarnessCache.thy ===== *)
theory HarnessCache
  imports ImportModule
begin

text \<open>
  \<open>scripts/harness_cache.py\<close>: the content-addressed cache of the harness, a bounded dictionary in
  memory in order of use and one file per entry. SHA-256 and the JSON parser are parameters, the files
  are a dictionary from namespace and key to bytes. A missing entry is \<open>None\<close>, the value \<open>JNull\<close>.
\<close>

section \<open>Encoding\<close>

text \<open>\<open>json.dumps(value, sort_keys=True, separators=(",", ":"), ensure_ascii=False).encode()\<close>.\<close>

fun compact :: "json \<Rightarrow> string" where
  "compact JNull = ''null''"
| "compact (JBool b) = (if b then ''true'' else ''false'')"
| "compact (JInt i) = show_int i"
| "compact (JFloat v r) =
     (case v of FNan \<Rightarrow> ''NaN'' | FInf neg \<Rightarrow> if neg then ''-Infinity'' else ''Infinity'' | _ \<Rightarrow> r)"
| "compact (JStr s) = lean_string s"
| "compact (JList xs) = ''['' @ join '','' (map compact xs) @ '']''"
| "compact (JObj d) =
     ''{'' @ join '','' (map (\<lambda>(k, t). lean_string k @ '':'' @ t)
        (sort_key fst (map (\<lambda>(k, v). (k, compact v)) d))) @ ''}''"

definition encode_json :: "json \<Rightarrow> string" where
  "encode_json v = utf8_text (ulit (compact v))"

section \<open>State\<close>

definition SCHEMA :: int where
  "SCHEMA = 1"

definition MAX_ENTRY :: nat where
  "MAX_ENTRY = 32 * 1024 * 1024"

record cache_conf =
  cc_enabled :: bool
  cc_dir :: bool
  cc_sha :: "string \<Rightarrow> string"
  cc_loads :: "string \<Rightarrow> json option"

type_synonym slot = "string \<times> string"

record cache =
  ca_memory :: "(slot \<times> string) list"
  ca_bytes :: int
  ca_disk :: "(slot \<times> string) list"

definition empty_cache :: "(slot \<times> string) list \<Rightarrow> cache" where
  "empty_cache disk = \<lparr>ca_memory = [], ca_bytes = 0, ca_disk = disk\<rparr>"

definition key_for :: "cache_conf \<Rightarrow> json \<Rightarrow> string" where
  "key_for c inputs = cc_sha c (encode_json (JObj [(''schema'', JInt SCHEMA), (''inputs'', inputs)]))"

section \<open>Look-up\<close>

text \<open>\<open>_MEMORY.move_to_end(k)\<close> and \<open>_MEMORY.pop(k, None)\<close>.\<close>

definition drop_key :: "'k \<Rightarrow> ('k \<times> 'v) list \<Rightarrow> ('k \<times> 'v) list" where
  "drop_key k d = filter (\<lambda>p. fst p \<noteq> k) d"

text \<open>\<open>entry["schema"] != _SCHEMA\<close>, numbers compared by value.\<close>

definition is_schema :: "json \<Rightarrow> bool" where
  "is_schema v =
     (case v of
        JInt i \<Rightarrow> i = SCHEMA
      | JBool b \<Rightarrow> b
      | JFloat (FFin m e) r \<Rightarrow> m * 2 ^ nat e = 2 ^ nat (- e)
      | _ \<Rightarrow> False)"

text \<open>What a file holds: every failure is a missing entry.\<close>

definition read_entry :: "cache_conf \<Rightarrow> string \<Rightarrow> string \<Rightarrow> json" where
  "read_entry c key bytes =
     (if MAX_ENTRY < length bytes then JNull
      else case cc_loads c bytes of
        Some (JObj e) \<Rightarrow>
          (case (dget e ''schema'', dget e ''key'', dget e ''payload'', dget e ''sha256'') of
             (Some s, Some k, Some p, Some h) \<Rightarrow>
               if is_schema s \<and> k = JStr key \<and> h = JStr (cc_sha c (encode_json p)) then p else JNull
           | _ \<Rightarrow> JNull)
      | _ \<Rightarrow> JNull)"

definition disk_get :: "cache_conf \<Rightarrow> slot \<Rightarrow> cache \<Rightarrow> json" where
  "disk_get c x st =
     (if cc_dir c then (case dget (ca_disk st) x of Some b \<Rightarrow> read_entry c (snd x) b | None \<Rightarrow> JNull)
      else JNull)"

definition cache_get :: "cache_conf \<Rightarrow> slot \<Rightarrow> bool \<Rightarrow> cache \<Rightarrow> json imp \<times> cache" where
  "cache_get c x use_memory st =
     (if \<not> cc_enabled c then (Inr JNull, st)
      else case (if use_memory then dget (ca_memory st) x else None) of
        Some raw \<Rightarrow>
          ((case cc_loads c raw of Some v \<Rightarrow> Inr v | None \<Rightarrow> Inl (Exn JSONDecodeError)),
           st\<lparr>ca_memory := drop_key x (ca_memory st) @ [(x, raw)]\<rparr>)
      | None \<Rightarrow> (Inr (disk_get c x st), st))"

section \<open>Storing\<close>

text \<open>The loop that evicts from the front; \<open>popitem\<close> of an empty dictionary raises.\<close>

fun evict :: "(slot \<times> string) list \<Rightarrow> int \<Rightarrow> ((slot \<times> string) list \<times> int) res" where
  "evict [] b = (if int MAX_ENTRY < b then Inl KeyError else Inr ([], b))"
| "evict (p # ps) b =
     (if 64 < length (p # ps) \<or> int MAX_ENTRY < b then evict ps (b - int (length (snd p)))
      else Inr (p # ps, b))"

definition remember :: "slot \<Rightarrow> string \<Rightarrow> cache \<Rightarrow> cache res" where
  "remember x raw st =
     (let previous = (case dget (ca_memory st) x of Some r \<Rightarrow> int (length r) | None \<Rightarrow> 0) in
      bindR (evict (drop_key x (ca_memory st) @ [(x, raw)]) (ca_bytes st - previous + int (length raw)))
        (\<lambda>(m, b). Inr (st\<lparr>ca_memory := m, ca_bytes := b\<rparr>)))"

definition disk_entry :: "cache_conf \<Rightarrow> string \<Rightarrow> json \<Rightarrow> string" where
  "disk_entry c key payload =
     encode_json (JObj [(''schema'', JInt SCHEMA), (''key'', JStr key),
       (''sha256'', JStr (cc_sha c (encode_json payload))), (''payload'', payload)])"

text \<open>\<open>writable\<close>: whether the file could be written; a failure is ignored.\<close>

definition cache_put ::
  "cache_conf \<Rightarrow> bool \<Rightarrow> slot \<Rightarrow> json \<Rightarrow> bool \<Rightarrow> cache \<Rightarrow> cache res" where
  "cache_put c writable x payload use_memory st =
     (let raw = encode_json payload in
      if \<not> cc_enabled c \<or> MAX_ENTRY div 2 < length raw then Inr st
      else bindR (if use_memory then remember x raw st else Inr st) (\<lambda>st'.
        Inr (if cc_dir c \<and> writable
             then st'\<lparr>ca_disk := dput (ca_disk st') x (disk_entry c (snd x) payload)\<rparr> else st')))"

definition cached ::
  "cache_conf \<Rightarrow> bool \<Rightarrow> string \<Rightarrow> json \<Rightarrow> json imp \<Rightarrow> cache \<Rightarrow> json imp \<times> cache" where
  "cached c writable ns inputs compute st =
     (let x = (ns, key_for c inputs); (hit, st') = cache_get c x True st in
      case hit of
        Inl e \<Rightarrow> (Inl e, st')
      | Inr v \<Rightarrow>
          if v \<noteq> JNull then (Inr v, st')
          else case compute of
            Inl e \<Rightarrow> (Inl e, st')
          | Inr w \<Rightarrow>
              (case cache_put c writable x w True st' of
                 Inl e \<Rightarrow> (Inl (Exn e), st')
               | Inr st'' \<Rightarrow> (Inr w, st'')))"

section \<open>Histories\<close>

text \<open>What can happen to the cache of a process: its own look-ups and stores, and changes to the
  files by anyone.\<close>

inductive cache_step :: "cache_conf \<Rightarrow> cache \<Rightarrow> cache \<Rightarrow> bool" for c where
  lookup: "cache_step c st (snd (cache_get c x use_memory st))"
| store: "cache_put c writable x payload use_memory st = Inr st' \<Longrightarrow> cache_step c st st'"
| files: "cache_step c st (st\<lparr>ca_disk := d\<rparr>)"

inductive cache_reachable :: "cache_conf \<Rightarrow> cache \<Rightarrow> bool" for c where
  start: "cache_reachable c (empty_cache d)"
| further: "cache_reachable c st \<Longrightarrow> cache_step c st st' \<Longrightarrow> cache_reachable c st'"

inductive_cases cache_stepE: "cache_step c st st'"

end
