(* ===== verification/CacheProps.thy ===== *)
theory CacheProps
  imports HarnessCache
begin

text \<open>
  The cache stays within its bounds whatever is looked up and stored, and it is transparent: with a
  parser that reads back what is encoded and keys that identify their inputs, a cached computation
  answers what the computation answers, up to the order of keys.
\<close>

section \<open>Bounds\<close>

definition total :: "(slot \<times> string) list \<Rightarrow> nat" where
  "total m = sum_list (map (length \<circ> snd) m)"

definition cache_ok :: "cache \<Rightarrow> bool" where
  "cache_ok st \<longleftrightarrow> distinct (dkeys (ca_memory st)) \<and> length (ca_memory st) \<le> 64
     \<and> ca_bytes st = int (total (ca_memory st)) \<and> total (ca_memory st) \<le> MAX_ENTRY"

lemma total_simps [simp]:
  "total [] = 0" "total (p # m) = length (snd p) + total m" "total (m @ m') = total m + total m'"
  by (simp_all add: total_def)

lemma total_drop:
  "distinct (dkeys m) \<Longrightarrow>
    total m = total (drop_key x m) + (case dget m x of Some r \<Rightarrow> length r | None \<Rightarrow> 0)"
proof (induction m)
  case (Cons p m)
  have absent: "drop_key x m = m \<and> dget m x = None" if "x \<notin> set (dkeys m)"
    using that dget_None_keys [of m x] by (force simp: drop_key_def dkeys_def filter_id_conv)
  from Cons show ?case
    using absent by (cases p) (auto simp: drop_key_def dkeys_def split: option.splits)
qed (simp add: drop_key_def)

lemma keys_drop: "dkeys (drop_key x m) = filter (\<lambda>k. k \<noteq> x) (dkeys m)"
  by (simp add: drop_key_def dkeys_def filter_map o_def)

lemma distinct_moved: "distinct (dkeys m) \<Longrightarrow> distinct (dkeys (drop_key x m @ [(x, raw)]))"
proof -
  have "dkeys (drop_key x m @ [(x, raw)]) = filter (\<lambda>k. k \<noteq> x) (dkeys m) @ [x]"
    unfolding keys_drop [symmetric] by (simp add: dkeys_def)
  then show "distinct (dkeys m) \<Longrightarrow> ?thesis" by simp
qed

lemma drop_key_present:
  "distinct (dkeys m) \<Longrightarrow> dget m x = Some r \<Longrightarrow> Suc (length (drop_key x m)) = length m"
proof (induction m)
  case (Cons p m)
  have absent: "drop_key x m = m" if "x \<notin> set (dkeys m)"
    using that by (force simp: drop_key_def dkeys_def filter_id_conv)
  from Cons show ?case
    using absent by (cases p) (auto simp: drop_key_def dkeys_def split: if_splits)
qed simp

lemma evict_ok:
  assumes "b = int (total m)"
  shows "\<exists>m'. evict m b = Inr (m', int (total m')) \<and> length m' \<le> 64 \<and> total m' \<le> MAX_ENTRY
    \<and> (\<exists>gone. m = gone @ m')"
  using assms
proof (induction m b rule: evict.induct)
  case (2 p ps b)
  show ?case
  proof (cases "64 < length (p # ps) \<or> int MAX_ENTRY < b")
    case True
    with 2 obtain m' where "evict ps (b - int (length (snd p))) = Inr (m', int (total m'))"
      "length m' \<le> 64" "total m' \<le> MAX_ENTRY" "\<exists>gone. ps = gone @ m'" by auto
    with True show ?thesis by auto
  next
    case False
    with 2 show ?thesis by auto
  qed
qed simp

lemma remember_ok:
  assumes "cache_ok st"
  shows "\<exists>st'. remember x raw st = Inr st' \<and> cache_ok st' \<and> ca_disk st' = ca_disk st
    \<and> set (ca_memory st') \<subseteq> insert (x, raw) (set (drop_key x (ca_memory st)))"
proof -
  let ?m = "drop_key x (ca_memory st) @ [(x, raw)]"
  let ?b = "ca_bytes st - (case dget (ca_memory st) x of Some r \<Rightarrow> int (length r) | None \<Rightarrow> 0) + int (length raw)"
  have "?b = int (total ?m)"
    using assms total_drop [of "ca_memory st" x] by (auto simp: cache_ok_def split: option.splits)
  from evict_ok [OF this] obtain m' gone where m: "evict ?m ?b = Inr (m', int (total m'))"
    "length m' \<le> 64" "total m' \<le> MAX_ENTRY" "?m = gone @ m'" by blast
  have "distinct (dkeys ?m)"
    using assms by (simp add: cache_ok_def distinct_moved)
  then have "distinct (dkeys m')" unfolding m(4) by (simp add: dkeys_def)
  moreover have "set m' \<subseteq> insert (x, raw) (set (drop_key x (ca_memory st)))"
    using m(4) by (metis Un_insert_right append_Nil2 list.set(1) list.simps(15) set_append sup.cobounded2)
  ultimately show ?thesis
    using m(1-3) by (simp add: remember_def Let_def cache_ok_def)
qed

lemma put_ok:
  assumes "cache_ok st"
  shows "\<exists>st'. cache_put c writable x payload use_memory st = Inr st' \<and> cache_ok st'"
proof -
  obtain st' where "remember x (encode_json payload) st = Inr st'" "cache_ok st'"
    using remember_ok [OF assms] by blast
  with assms show ?thesis
    by (auto simp: cache_put_def Let_def) (auto simp: cache_ok_def)
qed

lemma get_ok:
  assumes "cache_ok st" shows "cache_ok (snd (cache_get c x use_memory st))"
proof (cases "cc_enabled c \<and> use_memory")
  case True
  show ?thesis
  proof (cases "dget (ca_memory st) x")
    case (Some raw)
    have "distinct (dkeys (drop_key x (ca_memory st) @ [(x, raw)]))"
      using assms by (simp add: cache_ok_def distinct_moved)
    then show ?thesis
      using assms True Some total_drop [of "ca_memory st" x] drop_key_present [of "ca_memory st" x raw]
      by (simp add: cache_get_def cache_ok_def)
  qed (use assms True in \<open>simp add: cache_get_def\<close>)
qed (use assms in \<open>auto simp: cache_get_def\<close>)

lemma step_ok: "cache_step c st st' \<Longrightarrow> cache_ok st \<Longrightarrow> cache_ok st'"
proof (induction rule: cache_step.induct)
  case (lookup st x use_memory)
  then show ?case by (rule get_ok)
next
  case (store writable x payload use_memory st st')
  then show ?case using put_ok [of st c writable x payload use_memory] by auto
next
  case (files st d)
  then show ?case by (simp add: cache_ok_def)
qed

lemma reachable_ok: "cache_reachable c st \<Longrightarrow> cache_ok st"
proof (induction rule: cache_reachable.induct)
  case (start d)
  then show ?case by (simp add: empty_cache_def cache_ok_def dkeys_def)
next
  case (further st st')
  then show ?case by (blast intro: step_ok)
qed

section \<open>Values up to the order of keys\<close>

text \<open>What the parser makes of an encoded value: the keys of its objects are sorted.\<close>

fun sorted_json :: "json \<Rightarrow> json" where
  "sorted_json (JList xs) = JList (map sorted_json xs)"
| "sorted_json (JObj d) = JObj (sort_key fst (map (\<lambda>(k, v). (k, sorted_json v)) d))"
| "sorted_json v = v"

lemma insort_key_map:
  "(\<And>x. fst (g x) = fst x) \<Longrightarrow> insort_key fst (g x) (map g xs) = map g (insort_key fst x xs)"
  by (induction xs) auto

lemma sort_key_map: "(\<And>x. fst (g x) = fst x) \<Longrightarrow> sort_key fst (map g xs) = map g (sort_key fst xs)"
  by (induction xs) (simp_all add: insort_key_map)

lemma sort_key_twice: "sort_key fst (sort_key fst xs) = sort_key fst xs"
proof -
  have "sorted (map fst ys) \<Longrightarrow> sort_key fst ys = ys" for ys :: "('a \<times> 'b) list"
    by (induction ys) (auto simp: insort_is_Cons)
  then show ?thesis by simp
qed

lemma sort_fields:
  fixes d :: "(string \<times> 'a) list" and h :: "'a \<Rightarrow> 'b" and h' :: "'b \<Rightarrow> 'c"
  shows "sort_key fst (map (\<lambda>(k, v). (k, h' v)) (sort_key fst (map (\<lambda>(k, v). (k, h v)) d)))
    = sort_key fst (map (\<lambda>(k, v). (k, h' (h v))) d)"
proof -
  let ?h' = "\<lambda>(k, v). (k :: string, h' v)" and ?h = "\<lambda>(k, v). (k :: string, h v)"
  have m: "sort_key fst (map ?h' xs) = map ?h' (sort_key fst xs)" for xs
    by (rule sort_key_map) auto
  have "sort_key fst (map ?h' (sort_key fst (map ?h d))) = map ?h' (sort_key fst (map ?h d))"
    unfolding m sort_key_twice ..
  also have "\<dots> = sort_key fst (map ?h' (map ?h d))" unfolding m ..
  also have "map ?h' (map ?h d) = map (\<lambda>(k, v). (k, h' (h v))) d" by auto
  finally show ?thesis .
qed

lemma map_fields_cong:
  "(\<And>k v. (k, v) \<in> set d \<Longrightarrow> f v = g v) \<Longrightarrow> map (\<lambda>(k, v). (k, f v)) d = map (\<lambda>(k, v). (k, g v)) d"
  by (rule map_cong) auto

lemma compact_sorted: "compact (sorted_json v) = compact v"
proof (induction v rule: sorted_json.induct)
  case (2 d)
  then have "map (\<lambda>(k, v). (k, compact (sorted_json v))) d = map (\<lambda>(k, v). (k, compact v)) d"
    by (intro map_fields_cong) blast
  then show ?case by (simp only: sorted_json.simps compact.simps sort_fields)
qed (simp_all add: o_def cong: map_cong)

lemma sorted_twice [simp]: "sorted_json (sorted_json v) = sorted_json v"
proof (induction v rule: sorted_json.induct)
  case (2 d)
  then have "map (\<lambda>(k, v). (k, sorted_json (sorted_json v))) d = map (\<lambda>(k, v). (k, sorted_json v)) d"
    by (intro map_fields_cong) blast
  then show ?case by (simp only: sorted_json.simps sort_fields)
qed (simp_all add: o_def cong: map_cong)

lemma encode_sorted [simp]: "encode_json (sorted_json v) = encode_json v"
  by (simp add: encode_json_def compact_sorted)

lemma sorted_null [simp]: "sorted_json v = JNull \<longleftrightarrow> v = JNull"
  by (cases v) auto

lemma dget_insort_key:
  fixes d :: "(string \<times> 'b) list"
  shows "dget (insort_key fst p d) k = (if fst p = k then Some (snd p) else dget d k)"
proof (induction d)
  case (Cons q d)
  then show ?case by (cases p; cases q) auto
qed (cases p, simp)

lemma dget_sort_key: "dget (sort_key fst d) k = dget (d :: (string \<times> 'b) list) k"
proof (induction d)
  case (Cons p d)
  then show ?case by (cases p) (simp add: dget_insort_key)
qed simp

lemma utf8_text_inj: "utf8_text (ulit a) = utf8_text (ulit b) \<longleftrightarrow> a = b"
proof
  assume "utf8_text (ulit a) = utf8_text (ulit b)"
  moreover have "inj (\<lambda>b :: byte. char_of (unat b) :: char)"
  proof (rule injI)
    fix a b :: byte assume "(char_of (unat a) :: char) = char_of (unat b)"
    then have "(of_char (char_of (unat a) :: char) :: nat) = of_char (char_of (unat b) :: char)" by simp
    moreover have "unat a < 256" "unat b < 256" using unsigned_less [of a] unsigned_less [of b] by simp_all
    ultimately have "unat a = unat b" by simp
    then show "a = b" by (rule unsigned_word_eqI)
  qed
  ultimately have "utf8_encode (ulit a) = utf8_encode (ulit b)"
    unfolding utf8_text_def by (simp add: inj_map_eq_map)
  moreover have "scalar_cp c" if "c \<in> set (ulit s)" for c s
  proof -
    from that obtain x where "c = cp x" by (auto simp: ulit_def)
    then show ?thesis using cp_lt [of x] by (simp add: scalar_cp_def)
  qed
  ultimately have "ulit a = ulit b" by (metis utf8_roundtrip)
  then show "a = b" by simp
qed simp

section \<open>Transparency\<close>

definition readable :: "cache_conf \<Rightarrow> json \<Rightarrow> bool" where
  "readable c v \<longleftrightarrow> cc_loads c (encode_json v) = Some (sorted_json v)"

definition entry_value :: "cache_conf \<Rightarrow> string \<Rightarrow> json \<Rightarrow> json" where
  "entry_value c key v =
     JObj [(''schema'', JInt SCHEMA), (''key'', JStr key), (''sha256'', JStr (cc_sha c (encode_json v))), (''payload'', v)]"

text \<open>The documented behaviour the cache relies on: what a stage \<open>f\<close> computes can be read back, and
  equal keys mean equal results.\<close>

definition cacheable :: "cache_conf \<Rightarrow> (string \<Rightarrow> json \<Rightarrow> json imp) \<Rightarrow> bool" where
  "cacheable c f \<longleftrightarrow>
     (\<forall>ns i v. f ns i = Inr v \<longrightarrow> readable c v \<and> readable c (entry_value c (key_for c i) v))
     \<and> (\<forall>ns i i'. key_for c i = key_for c i' \<longrightarrow> f ns i = f ns i')"

lemma cacheableD:
  "cacheable c f \<Longrightarrow> f ns i = Inr v \<Longrightarrow> readable c v"
  "cacheable c f \<Longrightarrow> f ns i = Inr v \<Longrightarrow> readable c (entry_value c (key_for c i) v)"
  unfolding cacheable_def by blast+

text \<open>Every entry, in memory or in a readable file, is a result of the stage.\<close>

definition faithful :: "cache_conf \<Rightarrow> (string \<Rightarrow> json \<Rightarrow> json imp) \<Rightarrow> cache \<Rightarrow> bool" where
  "faithful c f st \<longleftrightarrow>
     (\<forall>ns k raw. ((ns, k), raw) \<in> set (ca_memory st) \<longrightarrow>
        (\<exists>i v. k = key_for c i \<and> f ns i = Inr v \<and> raw = encode_json v))
     \<and> (\<forall>ns k b. dget (ca_disk st) (ns, k) = Some b \<longrightarrow> read_entry c k b \<noteq> JNull \<longrightarrow>
          (\<exists>i v. k = key_for c i \<and> f ns i = Inr v \<and> sorted_json (read_entry c k b) = sorted_json v))"

lemma read_own_entry:
  assumes "readable c (entry_value c key v)"
  shows "read_entry c key (disk_entry c key v) \<in> {JNull, sorted_json v}"
proof -
  have s: "sorted_json (entry_value c key v) =
      JObj [(''key'', JStr key), (''payload'', sorted_json v), (''schema'', JInt SCHEMA),
        (''sha256'', JStr (cc_sha c (encode_json v)))]"
    by (simp add: entry_value_def less_char_def) 
  have "cc_loads c (disk_entry c key v) = Some (sorted_json (entry_value c key v))"
    using assms by (simp add: readable_def entry_value_def disk_entry_def)
  then show ?thesis
    unfolding read_entry_def s by (simp add: is_schema_def)
qed


lemma faithful_mono:
  "faithful c f st \<Longrightarrow> set (ca_memory st') \<subseteq> set (ca_memory st) \<Longrightarrow> ca_disk st' = ca_disk st \<Longrightarrow> faithful c f st'"
  unfolding faithful_def by (simp only: subset_iff) blast

lemma faithful_get:
  assumes f: "cacheable c f" and st: "faithful c f st" and h: "cache_get c (ns, key_for c i) True st = (hit, st')"
  shows "faithful c f st' \<and> (hit = Inr JNull \<or> (\<exists>u v. hit = Inr u \<and> f ns i = Inr v \<and> sorted_json u = sorted_json v))"
proof (cases "cc_enabled c")
  case False
  with st h show ?thesis by (auto simp: cache_get_def)
next
  case True
  let ?x = "(ns, key_for c i)"
  have same: "f ns j = f ns i" if "key_for c i = key_for c j" for j
    using f that unfolding cacheable_def by metis
  show ?thesis
  proof (cases "dget (ca_memory st) ?x")
    case None
    with True h have h': "hit = Inr (disk_get c ?x st)" "st' = st" by (auto simp: cache_get_def)
    show ?thesis
    proof (cases "disk_get c ?x st = JNull")
      case False
      then obtain b where b: "dget (ca_disk st) ?x = Some b" "disk_get c ?x st = read_entry c (key_for c i) b"
        by (auto simp: disk_get_def split: if_splits option.splits)
      with False st obtain j v where "key_for c i = key_for c j" "f ns j = Inr v"
        "sorted_json (disk_get c ?x st) = sorted_json v"
        unfolding faithful_def by metis
      then show ?thesis using h' st same by metis
    qed (use h' st in simp)
  next
    case (Some raw)
    then have m: "(?x, raw) \<in> set (ca_memory st)" by (simp add: dget_map_of map_of_SomeD)
    with st obtain j v where v: "key_for c i = key_for c j" "f ns j = Inr v" "raw = encode_json v"
      unfolding faithful_def by blast
    with cacheableD(1) [OF f] have "cc_loads c raw = Some (sorted_json v)" unfolding readable_def by blast
    then have hit: "hit = Inr (sorted_json v)" "ca_disk st' = ca_disk st"
      "set (ca_memory st') \<subseteq> set (ca_memory st)"
      using True Some h m by (auto simp: cache_get_def drop_key_def)
    have "f ns i = Inr v" using same [OF v(1)] v(2) by (simp only:)
    with hit(1) have "\<exists>u v. hit = Inr u \<and> f ns i = Inr v \<and> sorted_json u = sorted_json v"
      by (intro exI conjI) (assumption, assumption, rule sorted_twice)
    then show ?thesis using faithful_mono [OF st hit(3,2)] by blast
  qed
qed

lemma faithful_put:
  assumes f: "cacheable c f" and v: "f ns i = Inr v" and st: "faithful c f st" and ok: "cache_ok st"
    and put: "cache_put c writable (ns, key_for c i) v True st = Inr st'"
  shows "faithful c f st'"
proof (cases "cc_enabled c \<and> length (encode_json v) \<le> MAX_ENTRY div 2")
  case False
  with put st show ?thesis by (auto simp: cache_put_def Let_def not_less split: if_splits)
next
  case True
  let ?x = "(ns, key_for c i)"
  obtain st1 where st1: "remember ?x (encode_json v) st = Inr st1" "ca_disk st1 = ca_disk st"
    "set (ca_memory st1) \<subseteq> insert (?x, encode_json v) (set (drop_key ?x (ca_memory st)))"
    using remember_ok [OF ok] by blast
  have mem: "\<exists>j w. k = key_for c j \<and> f n j = Inr w \<and> raw = encode_json w"
    if "((n, k), raw) \<in> set (ca_memory st1)" for n k raw
  proof -
    from that st1(3) have "((n, k), raw) = (?x, encode_json v) \<or> ((n, k), raw) \<in> set (ca_memory st)"
      by (auto simp: drop_key_def)
    then show ?thesis using st v unfolding faithful_def by blast
  qed
  from read_own_entry [OF cacheableD(2) [OF f v]]
  have own: "read_entry c (key_for c i) (disk_entry c (key_for c i) v) \<noteq> JNull \<Longrightarrow>
      sorted_json (read_entry c (key_for c i) (disk_entry c (key_for c i) v)) = sorted_json v" by auto
  have st': "ca_memory st' = ca_memory st1 \<and>
      (ca_disk st' = ca_disk st \<or> ca_disk st' = dput (ca_disk st) ?x (disk_entry c (key_for c i) v))"
    using put True st1(1,2) unfolding cache_put_def Let_def by (auto simp: not_less split: if_splits)
  have "\<exists>j w. k = key_for c j \<and> f n j = Inr w \<and> sorted_json (read_entry c k b) = sorted_json w"
    if "dget (ca_disk st') (n, k) = Some b" "read_entry c k b \<noteq> JNull" for n k b
  proof (cases "(n, k) = ?x \<and> b = disk_entry c (key_for c i) v")
    case True
    with own v that show ?thesis by auto
  next
    case False
    with st' that have "dget (ca_disk st) (n, k) = Some b" by (auto split: if_splits)
    with that st show ?thesis unfolding faithful_def by blast
  qed
  with mem st' show ?thesis unfolding faithful_def by simp
qed

text \<open>One cached computation.\<close>

definition same_result :: "json imp \<Rightarrow> json imp \<Rightarrow> bool" where
  "same_result r r' \<longleftrightarrow> map_sum id sorted_json r = map_sum id sorted_json r'"

lemma cached_step:
  assumes f: "cacheable c f" and st: "faithful c f st" "cache_ok st"
    and r: "cached c writable ns i (f ns i) st = (r, st')"
  shows "same_result r (f ns i) \<and> faithful c f st' \<and> cache_ok st'"
proof -
  let ?x = "(ns, key_for c i)"
  obtain hit st1 where g: "cache_get c ?x True st = (hit, st1)" by (cases "cache_get c ?x True st")
  have ok1: "cache_ok st1" using get_ok [OF st(2), of c ?x True] g by simp
  from faithful_get [OF f st(1) g] have f1: "faithful c f st1" by blast
  from faithful_get [OF f st(1) g] consider "hit = Inr JNull"
    | u v where "hit = Inr u" "u \<noteq> JNull" "f ns i = Inr v" "sorted_json u = sorted_json v" by blast
  then show ?thesis
  proof cases
    case 1
    show ?thesis
    proof (cases "f ns i")
      case (Inl e)
      with 1 g r f1 ok1 show ?thesis by (auto simp: cached_def same_result_def)
    next
      case (Inr v)
      from put_ok [OF ok1] obtain st2 where p: "cache_put c writable ?x v True st1 = Inr st2" "cache_ok st2" by blast
      with faithful_put [OF f Inr f1 ok1] have "faithful c f st2" by blast
      with p 1 g r Inr show ?thesis by (auto simp: cached_def same_result_def)
    qed
  next
    case 2
    with g r f1 ok1 show ?thesis by (auto simp: cached_def same_result_def)
  qed
qed

text \<open>A sequence of cached computations, each with or without a writable directory.\<close>

fun cached_all ::
  "cache_conf \<Rightarrow> (string \<Rightarrow> json \<Rightarrow> json imp) \<Rightarrow> (bool \<times> string \<times> json) list \<Rightarrow> cache \<Rightarrow> json imp list \<times> cache" where
  "cached_all c f [] st = ([], st)"
| "cached_all c f ((w, ns, i) # calls) st =
     (let (r, st') = cached c w ns i (f ns i) st; (rs, st'') = cached_all c f calls st' in (r # rs, st''))"

lemma cached_all_same:
  "cacheable c f \<Longrightarrow> faithful c f st \<Longrightarrow> cache_ok st \<Longrightarrow>
     list_all2 same_result (fst (cached_all c f calls st)) (map (\<lambda>(w, ns, i). f ns i) calls)
     \<and> faithful c f (snd (cached_all c f calls st))"
proof (induction c f calls st rule: cached_all.induct)
  case (2 c f w ns i calls st)
  obtain r st' where r: "cached c w ns i (f ns i) st = (r, st')" by (cases "cached c w ns i (f ns i) st")
  from cached_step [OF 2(2,3,4) r] have s: "same_result r (f ns i)" "faithful c f st'" "cache_ok st'" by auto
  from "2.IH" [OF r [symmetric] refl 2(2) s(2,3)] s(1) show ?case
    by (simp add: r case_prod_beta)
qed simp

section \<open>Properties\<close>

text \<open>C35: In every history of look-ups, stores and foreign changes to the files, the cache keeps distinct
  keys, at most 64 entries, the exact number of bytes and at most 32 MB, and a store never fails.\<close>

theorem cache_bounded:
  assumes "cache_reachable c st"
  shows "distinct (dkeys (ca_memory st)) \<and> length (ca_memory st) \<le> 64
    \<and> ca_bytes st = int (total (ca_memory st)) \<and> ca_bytes st \<le> int MAX_ENTRY
    \<and> (\<exists>st'. cache_put c writable x payload use_memory st = Inr st')"
  using reachable_ok [OF assms] put_ok [of st c writable x payload use_memory]
  by (auto simp: cache_ok_def)

definition demo_conf :: cache_conf where
  "demo_conf =
     \<lparr>cc_enabled = True, cc_dir = True, cc_sha = (\<lambda>s. ''k''),
      cc_loads = (\<lambda>s. Some (if s = ''7'' then JInt 7
        else JObj [(''key'', JStr ''k''), (''payload'', JInt 7), (''schema'', JInt 1), (''sha256'', JStr ''k'')]))\<rparr>"

definition demo_stage :: "string \<Rightarrow> json \<Rightarrow> json imp" where
  "demo_stage ns i = (if ns = ''a'' then Inr (JInt 7) else Inl (Exn OSError))"

lemma demo_encodings: "encode_json (JInt 7) = ''7''" "encode_json (JStr ''ab'') = [CHR 0x22, CHR ''a'', CHR ''b'', CHR 0x22]"
  by code_simp+

theorem cache_bounded_witness:
  "\<exists>st. cache_reachable demo_conf st \<and> length (ca_memory st) = 1 \<and> ca_bytes st \<le> int MAX_ENTRY"
proof -
  have "cache_reachable demo_conf (empty_cache [])" by (rule start)
  moreover obtain st where st: "cache_put demo_conf True (''a'', ''k'') (JInt 7) True (empty_cache []) = Inr st"
      "ca_memory st = [((''a'', ''k''), ''7'')]"
    by (simp add: cache_put_def remember_def empty_cache_def demo_conf_def demo_encodings MAX_ENTRY_def drop_key_def Let_def)
  ultimately have "cache_reachable demo_conf st" by (blast intro: further store)
  with st(2) cache_bounded [OF this] show ?thesis by force
qed


lemma demo_cacheable: "cacheable demo_conf demo_stage"
proof -
  have key: "key_for demo_conf i = ''k''" for i by (simp add: key_for_def demo_conf_def)
  have "encode_json (entry_value demo_conf ''k'' (JInt 7)) \<noteq> ''7''" by code_simp
  moreover have "sorted_json (entry_value demo_conf ''k'' (JInt 7)) =
      JObj [(''key'', JStr ''k''), (''payload'', JInt 7), (''schema'', JInt 1), (''sha256'', JStr ''k'')]" by code_simp
  moreover have "cc_loads demo_conf s = Some (if s = ''7'' then JInt 7
        else JObj [(''key'', JStr ''k''), (''payload'', JInt 7), (''schema'', JInt 1), (''sha256'', JStr ''k'')])" for s
    by (simp add: demo_conf_def)
  ultimately show ?thesis
    by (auto simp: cacheable_def key readable_def demo_stage_def demo_encodings split: if_splits)
qed


end
