(* ===== verification/ImportSolc.thy ===== *)
theory ImportSolc
  imports HarnessCache
begin

text \<open>
  \<open>scripts/solc_ast_to_lean_source.py\<close>: compiling with solc, directly or through the cache. The run of
  solc on a request and the JSON parser (a message or a value) are parameters.
\<close>

section \<open>The request\<close>

definition standard_json_input :: "string \<Rightarrow> string \<Rightarrow> json" where
  "standard_json_input name content =
     JObj [(''language'', JStr ''Solidity''),
       (''sources'', JObj [(name, JObj [(''content'', JStr content)])]),
       (''settings'', JObj [(''outputSelection'', JObj [(''*'', JObj [([], JList [JStr ''ast''])])])])]"

text \<open>\<open>\w\<close>, and \<open>re.search(r"\bword\b", s)\<close>; \<open>before\<close> is whether a word character precedes, and
  \<open>ascii_word_ch\<close> the class of a pattern of bytes.\<close>

definition word_ch :: "char \<Rightarrow> bool" where
  "word_ch c =
     (let n = cp c in
      if n < 128 then (48 \<le> n \<and> n \<le> 57) \<or> (65 \<le> n \<and> n \<le> 90) \<or> (97 \<le> n \<and> n \<le> 122) \<or> n = 95
      else n \<in> {170, 178, 179, 181, 185, 186, 188, 189, 190} \<or> (192 \<le> n \<and> n \<noteq> 215 \<and> n \<noteq> 247))"

definition ascii_word_ch :: "char \<Rightarrow> bool" where
  "ascii_word_ch c \<longleftrightarrow> cp c < 128 \<and> word_ch c"

fun has_word :: "(char \<Rightarrow> bool) \<Rightarrow> string \<Rightarrow> bool \<Rightarrow> string \<Rightarrow> bool" where
  "has_word wc w before [] = False"
| "has_word wc w before (c # s) =
     (\<not> before \<and> starts w (c # s)
        \<and> (case drop (length w) (c # s) of [] \<Rightarrow> True | d # r \<Rightarrow> \<not> wc d)
      \<or> has_word wc w (wc c) s)"

section \<open>The answer\<close>

record solc_run =
  sr_status :: int
  sr_out :: string
  sr_err :: string

text \<open>\<open>item.get("formattedMessage") or item.get("message") or str(item)\<close>, joined later.\<close>

definition diagnostic_text :: "node \<Rightarrow> string imp" where
  "diagnostic_text d =
     (let f = jget d ''formattedMessage''; v = (if truthy f then f else jget d ''message'') in
      if truthy v then (case v of JStr s \<Rightarrow> Inr s | _ \<Rightarrow> Inl (Exn TypeError))
      else Inr (py_str (JObj d)))"

text \<open>Iterating over an object or a string yields strings, which are skipped.\<close>

definition solc_errors :: "node \<Rightarrow> node list imp" where
  "solc_errors output =
     (case dget_or output ''errors'' (JList []) of
        JList xs \<Rightarrow> Inr (filter (\<lambda>d. jget d ''severity'' = JStr ''error'') (objs xs))
      | JObj _ \<Rightarrow> Inr []
      | JStr _ \<Rightarrow> Inr []
      | _ \<Rightarrow> Inl (Exn TypeError))"

definition compile_solc_request :: "(string \<Rightarrow> string + json) \<Rightarrow> solc_run \<Rightarrow> json imp" where
  "compile_solc_request loads r =
     (case loads (sr_out r) of
        Inl e \<Rightarrow> fail (''solc did not return JSON: '' @ e @ nl @ ''stdout was:'' @ nl @ sr_out r)
      | Inr v \<Rightarrow> on_node v (\<lambda>output.
          bindR (solc_errors output) (\<lambda>ds.
          bindR (mapR diagnostic_text ds) (\<lambda>texts.
            if sr_status r \<noteq> 0 \<or> texts \<noteq> [] then
              fail (let joined = join nl texts in
                    if joined \<noteq> [] then joined
                    else if sr_err r \<noteq> [] then sr_err r
                    else ''solc exited '' @ show_int (sr_status r))
            else Inr v))))"

definition ast_of_output :: "string \<Rightarrow> json \<Rightarrow> (string \<times> node) imp" where
  "ast_of_output name output = on_node output (\<lambda>d.
     let missing = ''solc output did not contain source '' @ repr_str name in
     case jget d ''sources'' of
       JObj sources \<Rightarrow>
         (case dget sources name of
            None \<Rightarrow> fail missing
          | Some src \<Rightarrow> on_node src (\<lambda>entry.
              case jget entry ''ast'' of
                JObj ast \<Rightarrow> Inr (name, ast)
              | _ \<Rightarrow> fail (''solc output for '' @ repr_str name @ '' did not contain an AST'')))
     | _ \<Rightarrow> fail missing)"

text \<open>\<open>tool\<close> is the identity of the compiler, \<open>JNull\<close> when it has none; \<open>solc\<close> answers a request.\<close>

definition solc_inputs :: "json \<Rightarrow> json \<Rightarrow> json" where
  "solc_inputs tool request = JObj [(''tool'', tool), (''request'', request)]"

definition run_solc_ast ::
  "cache_conf \<Rightarrow> bool \<Rightarrow> (string \<Rightarrow> string + json) \<Rightarrow> (json \<Rightarrow> solc_run) \<Rightarrow> json \<Rightarrow> string \<Rightarrow> string \<Rightarrow>
     cache \<Rightarrow> (string \<times> node) imp \<times> cache" where
  "run_solc_ast c writable loads solc tool name content st =
     (let request = standard_json_input name content;
          compile = compile_solc_request loads (solc request);
          (output, st') =
            (if has_word word_ch ''import'' False content \<or> tool = JNull then (compile, st)
             else cached c writable ''solc-ast'' (solc_inputs tool request) compile st)
      in (bindR output (ast_of_output name), st'))"

end
