(* ===== verification/SolcProps.thy ===== *)
theory SolcProps
  imports ImportSolc CacheProps
begin

text \<open>
  The cache in front of the compiler changes nothing the importer sees but the order of keys.
\<close>

section \<open>Reading a value with sorted keys\<close>

lemma dget_fields: "dget (map (\<lambda>(k, v). (k, f v)) d) k = map_option f (dget d k)"
  by (induction d) auto

text \<open>The fields of an object whose keys the parser has sorted.\<close>

abbreviation sorted_fields :: "node \<Rightarrow> node" where
  "sorted_fields d \<equiv> sort_key fst (map (\<lambda>(k, v). (k, sorted_json v)) d)"

lemma dget_sorted: "dget (sorted_fields d) k = map_option sorted_json (dget d k)"
  by (simp add: dget_sort_key dget_fields)

lemma jget_sorted: "jget (sorted_fields d) k = sorted_json (jget d k)"
  by (simp add: jget_def dget_or_def dget_sorted split: option.split)

lemma sorted_fields_twice: "sorted_fields (sorted_fields d) = sorted_fields d"
  using sorted_twice [of "JObj d"] by (simp only: sorted_json.simps json.inject)

section \<open>The AST through the cache\<close>

text \<open>The name and the AST up to the order of keys.\<close>

definition plain_ast :: "(string \<times> node) imp \<Rightarrow> (string \<times> node) imp" where
  "plain_ast = map_sum id (map_prod id sorted_fields)"

lemma plain_ast_fail [simp]: "plain_ast (fail m) = fail m" "plain_ast (Inl e) = Inl e"
  "plain_ast (Inr (n, d)) = Inr (n, sorted_fields d)"
  by (simp_all add: plain_ast_def fail_def)

lemma plain_entry:
  "plain_ast (on_node (sorted_json src) (\<lambda>x. case jget x ''ast'' of JObj ast \<Rightarrow> Inr (name, ast) | _ \<Rightarrow> fail m))
   = plain_ast (on_node src (\<lambda>x. case jget x ''ast'' of JObj ast \<Rightarrow> Inr (name, ast) | _ \<Rightarrow> fail m))"
proof (cases src)
  case (JObj x)
  show ?thesis
    unfolding JObj on_node_def sorted_json.simps json.case jget_sorted
    by (cases "jget x ''ast''") (simp_all add: sorted_fields_twice del: sort_key_simps)
qed (simp_all add: on_node_def)

lemma plain_ast_of_output: "plain_ast (ast_of_output name (sorted_json u)) = plain_ast (ast_of_output name u)"
proof (cases u)
  case (JObj d)
  show ?thesis
  proof (cases "jget d ''sources''")
    case (JObj so)
    then show ?thesis
      unfolding \<open>u = JObj d\<close> ast_of_output_def Let_def
      by (cases "dget so name")
        (simp_all add: on_node_def [of "JObj x" for x] jget_sorted dget_sorted plain_entry)
  qed (simp_all add: \<open>u = JObj d\<close> ast_of_output_def on_node_def jget_sorted Let_def)
qed (simp_all add: ast_of_output_def on_node_def)

lemma plain_ast_same:
  "map_sum id sorted_json r = map_sum id sorted_json r' \<Longrightarrow>
     plain_ast (bindR r (ast_of_output name)) = plain_ast (bindR r' (ast_of_output name))"
  by (cases r; cases r') (auto, metis plain_ast_of_output)


definition demo_answer :: json where
  "demo_answer = JObj [(''sources'', JObj [(''C.sol'', JObj [(''ast'', JObj [(''nodeType'', JStr ''SourceUnit'')])])])]"

definition demo_solc_conf :: cache_conf where
  "demo_solc_conf =
     \<lparr>cc_enabled = True, cc_dir = True, cc_sha = (\<lambda>s. ''k''),
      cc_loads = (\<lambda>s. Some (if s = encode_json demo_answer then demo_answer
        else JObj [(''key'', JStr ''k''), (''payload'', demo_answer), (''schema'', JInt 1), (''sha256'', JStr ''k'')]))\<rparr>"

definition demo_compile :: "string \<Rightarrow> json \<Rightarrow> json imp" where
  "demo_compile ns i = Inr demo_answer"

lemma encode_eq: "encode_json u = encode_json v \<longleftrightarrow> compact u = compact v"
  by (simp add: encode_json_def utf8_text_inj)

lemma demo_solc_cacheable: "cacheable demo_solc_conf demo_compile"
proof -
  have key: "key_for demo_solc_conf i = ''k''" for i by (simp add: key_for_def demo_solc_conf_def)
  have e: "entry_value demo_solc_conf ''k'' demo_answer =
      JObj [(''schema'', JInt 1), (''key'', JStr ''k''), (''sha256'', JStr ''k''), (''payload'', demo_answer)]"
    by (simp add: entry_value_def demo_solc_conf_def SCHEMA_def)
  have n: "encode_json (JObj [(''schema'', JInt 1), (''key'', JStr ''k''), (''sha256'', JStr ''k''), (''payload'', demo_answer)])
      \<noteq> encode_json demo_answer" unfolding encode_eq by code_simp
  have so: "sorted_json (JObj [(''schema'', JInt 1), (''key'', JStr ''k''), (''sha256'', JStr ''k''), (''payload'', demo_answer)]) =
      JObj [(''key'', JStr ''k''), (''payload'', demo_answer), (''schema'', JInt 1), (''sha256'', JStr ''k'')]" by code_simp
  have sa: "sorted_json demo_answer = demo_answer" by code_simp
  have l: "cc_loads demo_solc_conf s = Some (if s = encode_json demo_answer then demo_answer
        else JObj [(''key'', JStr ''k''), (''payload'', demo_answer), (''schema'', JInt 1), (''sha256'', JStr ''k'')])" for s
    by (simp add: demo_solc_conf_def)
  have "readable demo_solc_conf demo_answer" "readable demo_solc_conf (entry_value demo_solc_conf ''k'' demo_answer)"
    unfolding readable_def l e so sa using n by (simp_all only: if_True if_False refl)
  then show ?thesis
    unfolding cacheable_def key demo_compile_def by (auto simp only: sum.inject)
qed


end
