(* ===== verification/Runtime.thy ===== *)
theory Runtime
  imports ImportSolc Fingerprint
begin

text \<open>
  \<open>scripts/harness_runtime.py\<close>: choosing between the native runner and ordinary Lean. The working
  tree is a dictionary from paths relative to the repository to bytes; the cached reads of the source
  are plain reads of it. SHA-256, the decoding of a source file and the JSON parser are parameters. A
  name of a module is of characters below 256.
\<close>

section \<open>Processes\<close>

text \<open>How a process ends: with a status and its two logs, killed at its limit with what it had written,
  or not started at all.\<close>

datatype proc = Exited int utext utext | TimedOut utext utext | Unstarted pyexn

datatype halt = TimeoutExpired | Raised pyexn

type_synonym logs = "(string \<times> utext) list"

record proc_call =
  pc_command :: "string list"
  pc_cwd :: string
  pc_env :: "(string \<times> string) list option"
  pc_timeout :: int

text \<open>\<open>run_capture\<close>: both logs are truncated, then written by the process.\<close>

definition run_capture :: "(proc_call \<Rightarrow> logs \<Rightarrow> proc) \<Rightarrow> proc_call \<Rightarrow> string \<Rightarrow> string \<Rightarrow> logs \<Rightarrow> (halt + int) \<times> logs" where
  "run_capture run x out err fs =
     (let write = (\<lambda>o' e. dput (dput fs out o') err e) in
      case run x (write [] []) of
        Exited s o' e \<Rightarrow> (Inr s, write o' e)
      | TimedOut o' e \<Rightarrow> (Inl TimeoutExpired, write o' e)
      | Unstarted x \<Rightarrow> (Inl (Raised x), write [] []))"

section \<open>The sources of the runner\<close>

record runtime =
  rt_sha :: "string \<Rightarrow> string"
  rt_text :: "string \<Rightarrow> string option"
  rt_loads :: "string \<Rightarrow> json option"

type_synonym tree = "(string \<times> string) list"

text \<open>\<open>SolidCore(?:\.\w+)+\<close>, matched in full.\<close>

definition core_module :: "string \<Rightarrow> bool" where
  "core_module w =
     (case split_on ''.'' w of
        root # p # ps \<Rightarrow> root = ''SolidCore'' \<and> list_all (\<lambda>s. s \<noteq> [] \<and> list_all word_ch s) (p # ps)
      | _ \<Rightarrow> False)"

function drop_modifiers :: "string \<Rightarrow> string" where
  "drop_modifiers s =
     (if starts ''public '' s then drop_modifiers (drop 7 s)
      else if starts ''private '' s then drop_modifiers (drop 8 s)
      else if starts ''meta '' s then drop_modifiers (drop 5 s) else s)"
  by pat_completeness auto
termination
  by (relation "measure length") (auto simp: starts_iff)

declare drop_modifiers.simps [simp del]

text \<open>The names of one line; the tail of \<open>import +([^\n]+)\<close> is split at blanks anyway.\<close>

definition import_names :: "string \<Rightarrow> string list" where
  "import_names line =
     (let s = drop_modifiers line in
      if starts ''import '' s then filter core_module (words (drop 7 s)) else [])"

definition local_imports :: "runtime \<Rightarrow> string \<Rightarrow> string list res" where
  "local_imports rt bytes =
     (case rt_text rt bytes of
        None \<Rightarrow> Inl ValueError
      | Some t \<Rightarrow> Inr (concat (map import_names (split_on NL t))))"

definition module_path :: "string \<Rightarrow> string" where
  "module_path m = replace_all ''.'' ''/'' m @ ''.lean''"

lemma length_replace_dot [simp]: "length (replace_all ''.'' ''/'' m) = length m"
  by (induction m) (auto simp: starts_single)

text \<open>Every module that is read is a file of the tree not read before.\<close>

definition unread :: "tree \<Rightarrow> string list \<Rightarrow> string set" where
  "unread tree seen = {m. module_path m \<in> set (dkeys tree)} - set seen"

lemma finite_modules: "finite {m. module_path m \<in> set (dkeys tree)}"
proof (rule finite_subset)
  let ?n = "Max (insert 0 (length ` set (dkeys tree)))"
  show "{m. module_path m \<in> set (dkeys tree)} \<subseteq> {m. set m \<subseteq> UNIV \<and> length m \<le> ?n}"
  proof
    fix m assume "m \<in> {m. module_path m \<in> set (dkeys tree)}"
    then have "length (module_path m) \<le> ?n" by (intro Max_ge) auto
    then show "m \<in> {m. set m \<subseteq> UNIV \<and> length m \<le> ?n}" by (simp add: module_path_def)
  qed
  show "finite {m :: string. set m \<subseteq> UNIV \<and> length m \<le> ?n}"
    by (rule finite_lists_length_le) simp
qed

lemma unread_less:
  assumes "m \<notin> set seen" "dget tree (module_path m) = Some b"
  shows "card (unread tree (m # seen)) < card (unread tree seen)"
proof (rule psubset_card_mono)
  show "finite (unread tree seen)" by (simp add: unread_def finite_modules)
  have "module_path m \<in> set (dkeys tree)" using assms(2) by (metis dget_None_keys option.distinct(1))
  then show "unread tree (m # seen) \<subset> unread tree seen" using assms(1) by (auto simp: unread_def)
qed

text \<open>The worklist is a stack: the last import of a file comes first.\<close>

function collect_sources :: "runtime \<Rightarrow> tree \<Rightarrow> string list \<Rightarrow> string list \<Rightarrow> string list \<Rightarrow> string list res" where
  "collect_sources rt tree [] seen fs = Inr fs"
| "collect_sources rt tree (m # pending) seen fs =
     (if m \<in> set seen then collect_sources rt tree pending seen fs
      else case dget tree (module_path m) of
        None \<Rightarrow> Inl OSError
      | Some b \<Rightarrow> bindR (local_imports rt b) (\<lambda>ms.
          collect_sources rt tree (rev ms @ pending) (m # seen) (fs @ [module_path m])))"
  by pat_completeness auto

termination
  by (relation "measures [\<lambda>(rt, tree, pending, seen, fs). card (unread tree seen),
      \<lambda>(rt, tree, pending, seen, fs). length pending]")
    (auto simp: unread_less)

definition build_files :: "string list" where
  "build_files = [''lakefile.lean'', ''lake-manifest.json'', ''lean-toolchain'']"

text \<open>Paths are compared part by part.\<close>

definition source_files :: "runtime \<Rightarrow> tree \<Rightarrow> string list res" where
  "source_files rt tree =
     bindR (collect_sources rt tree [''SpecHuntRunner''] [] []) (\<lambda>fs.
       Inr (sort_key (split_on ''/'') (fs @ build_files)))"

section \<open>Hashes\<close>

definition read_bytes :: "tree \<Rightarrow> string \<Rightarrow> string res" where
  "read_bytes tree p = (case dget tree p of Some b \<Rightarrow> Inr b | None \<Rightarrow> Inl OSError)"

definition NUL :: string where
  "NUL = [CHR 0x00]"

definition hash_input :: "(string \<times> string) list \<Rightarrow> string" where
  "hash_input entries = concat (map (\<lambda>(p, b). utf8_text (ulit p) @ NUL @ b @ NUL) entries)"

definition source_entries :: "runtime \<Rightarrow> tree \<Rightarrow> (string \<times> string) list res" where
  "source_entries rt tree =
     bindR (source_files rt tree) (mapR (\<lambda>p. bindR (read_bytes tree p) (\<lambda>b. Inr (p, b))))"

definition source_hash :: "runtime \<Rightarrow> tree \<Rightarrow> string res" where
  "source_hash rt tree = bindR (source_entries rt tree) (\<lambda>es. Inr (rt_sha rt (hash_input es)))"

definition binary_hash :: "runtime \<Rightarrow> tree \<Rightarrow> string \<Rightarrow> string res" where
  "binary_hash rt tree p = bindR (read_bytes tree p) (\<lambda>b. Inr (rt_sha rt b))"

section \<open>Attestations\<close>

definition STAMP :: string where
  "STAMP = ''.lake/build/bin/specHuntRunner.json''"

definition RUNNER :: string where
  "RUNNER = ''.lake/build/bin/specHuntRunner''"

definition HELPER :: string where
  "HELPER = ''.lake/build/lib/lean/SolidCore/Contest/Observable.olean''"

definition read_stamp :: "runtime \<Rightarrow> tree \<Rightarrow> json res" where
  "read_stamp rt tree =
     bindR (read_bytes tree STAMP) (\<lambda>b. case rt_loads rt b of Some v \<Rightarrow> Inr v | None \<Rightarrow> Inl ValueError)"

definition stamp_field :: "json \<Rightarrow> string \<Rightarrow> json res" where
  "stamp_field stamp k = (case stamp of JObj d \<Rightarrow> jidx d k | _ \<Rightarrow> Inl TypeError)"

text \<open>\<open>stamp["sourceSha256"] == source_hash(repo) and stamp[field] == binary_hash(artifact)\<close>.\<close>

definition attested :: "runtime \<Rightarrow> tree \<Rightarrow> string \<Rightarrow> string \<Rightarrow> bool res" where
  "attested rt tree field artifact =
     bindR (read_stamp rt tree) (\<lambda>stamp.
     bindR (stamp_field stamp ''sourceSha256'') (\<lambda>s.
     bindR (source_hash rt tree) (\<lambda>h.
       if s \<noteq> JStr h then Inr False
       else bindR (stamp_field stamp field) (\<lambda>b.
            bindR (binary_hash rt tree artifact) (\<lambda>g. Inr (b = JStr g))))))"

text \<open>\<open>except (OSError, ValueError, KeyError, TypeError)\<close>.\<close>

definition or_stale :: "bool res \<Rightarrow> bool res" where
  "or_stale r =
     (case r of
        Inl e \<Rightarrow> if e \<in> {OSError, ValueError, JSONDecodeError, KeyError, TypeError} then Inr False else Inl e
      | Inr b \<Rightarrow> Inr b)"

definition helper_ready :: "runtime \<Rightarrow> tree \<Rightarrow> bool res" where
  "helper_ready rt tree = or_stale (attested rt tree ''helperSha256'' HELPER)"

text \<open>\<open>native\<close>: whether \<open>CONTEST_NATIVE\<close> is not \<open>0\<close>.\<close>

definition fallback_command :: "string \<Rightarrow> string \<Rightarrow> string list" where
  "fallback_command lake file = [lake, ''env'', ''lean'', file]"

definition lean_command :: "runtime \<Rightarrow> bool \<Rightarrow> string \<Rightarrow> tree \<Rightarrow> string \<Rightarrow> string \<Rightarrow> string list res" where
  "lean_command rt native repo tree lake file =
     (if \<not> native then Inr (fallback_command lake file)
      else bindR (or_stale (attested rt tree ''binarySha256'' RUNNER)) (\<lambda>ready.
        Inr (if ready then [lake, ''env'', repo @ ''/'' @ RUNNER, file] else fallback_command lake file)))"

text \<open>The command \<open>build\<close>: \<open>lake\<close> turns the tree into another one, or fails. \<open>None\<close> is an exit.\<close>

definition write_stamp :: "string \<Rightarrow> string \<Rightarrow> string \<Rightarrow> json" where
  "write_stamp src bin helper =
     JObj [(''sourceSha256'', JStr src), (''binarySha256'', JStr bin), (''helperSha256'', JStr helper)]"

definition build_runner :: "runtime \<Rightarrow> (tree \<Rightarrow> tree option) \<Rightarrow> tree \<Rightarrow> json option res" where
  "build_runner rt lake tree =
     bindR (source_hash rt tree) (\<lambda>before.
       case lake tree of
         None \<Rightarrow> Inl RuntimeError
       | Some built \<Rightarrow>
           bindR (source_hash rt built) (\<lambda>after.
             if after \<noteq> before then Inr None
             else bindR (source_hash rt built) (\<lambda>src.
                  bindR (binary_hash rt built RUNNER) (\<lambda>bin.
                  bindR (binary_hash rt built HELPER) (\<lambda>helper.
                    Inr (Some (write_stamp src bin helper)))))))"

section \<open>Running Lean\<close>

text \<open>\<open>with_suffix\<close> and \<open>with_name\<close> of a path with a name.\<close>

definition split_name :: "string \<Rightarrow> string \<times> string" where
  "split_name p = (case rpart_at ''/'' p of Some (d, n) \<Rightarrow> (d @ ''/'', n) | None \<Rightarrow> ([], p))"

definition with_name :: "string \<Rightarrow> string \<Rightarrow> string" where
  "with_name p n = fst (split_name p) @ n"

definition with_suffix :: "string \<Rightarrow> string \<Rightarrow> string" where
  "with_suffix p s =
     (let n = snd (split_name p) in
      with_name p ((case rpart_at ''.'' n of
                      Some (a, b) \<Rightarrow> if a \<noteq> [] \<and> b \<noteq> [] then a else n
                    | None \<Rightarrow> n) @ s))"

definition move_log :: "string \<Rightarrow> logs \<Rightarrow> logs" where
  "move_log p fs =
     (case dget fs p of
        None \<Rightarrow> fs
      | Some t \<Rightarrow> dput (drop_key p fs) (with_suffix p ''.native.log'') t)"

definition native_note :: "int \<Rightarrow> int \<Rightarrow> string \<Rightarrow> utext" where
  "native_note status remaining file =
     ulit (''{'' @ NL @ join ('','' @ NL) (map (\<lambda>(k, v). ''  '' @ dumps_str k @ '': '' @ v)
       [(''nativeExitStatus'', show_int status), (''remainingSeconds'', show_int remaining),
        (''retry'', dumps_str ''ordinary Lean''), (''source'', dumps_str file)]) @ NL @ ''}'' @ NL)"

text \<open>\<open>spent\<close> is how long a call takes on the monotonic clock, in nanoseconds.\<close>

definition second :: int where
  "second = 10 ^ 9"

record lean_tool =
  lt_runtime :: runtime
  lt_native :: bool
  lt_repo :: string
  lt_tree :: tree
  lt_lake :: string
  lt_run :: "proc_call \<Rightarrow> logs \<Rightarrow> proc"
  lt_spent :: "proc_call \<Rightarrow> logs \<Rightarrow> int"

definition lean_call_with :: "lean_tool \<Rightarrow> string list \<Rightarrow> int \<Rightarrow> proc_call" where
  "lean_call_with T command timeout = \<lparr>pc_command = command, pc_cwd = lt_repo T, pc_env = None, pc_timeout = timeout\<rparr>"

definition run_lean_capture ::
  "lean_tool \<Rightarrow> string \<Rightarrow> int \<Rightarrow> string \<Rightarrow> string \<Rightarrow> logs \<Rightarrow> (halt + int) \<times> logs" where
  "run_lean_capture T file timeout out err fs =
     (let fallback = fallback_command (lt_lake T) file in
      case lean_command (lt_runtime T) (lt_native T) (lt_repo T) (lt_tree T) (lt_lake T) file of
        Inl e \<Rightarrow> (Inl (Raised e), fs)
      | Inr command \<Rightarrow>
          (let x = lean_call_with T command timeout; (r, fs1) = run_capture (lt_run T) x out err fs;
               remaining = timeout * second - lt_spent T x fs in
           case r of
             Inl e \<Rightarrow> (Inl e, fs1)
           | Inr status \<Rightarrow>
               if command = fallback \<or> status = 0 \<or> remaining < second then (Inr status, fs1)
               else run_capture (lt_run T) (lean_call_with T fallback (remaining div second)) out err
                      (dput (move_log err (move_log out fs1)) (with_name out ''native-fallback.json'')
                        (native_note status (remaining div second) file))))"

end
