(* ===== verification/RuntimeProps.thy ===== *)
theory RuntimeProps
  imports Runtime CacheProps
begin

text \<open>
  The native runner runs only on the sources it was built from: the hash covers every file the runner
  imports, an attestation ties it to the binary, and a native failure is decided by ordinary Lean within
  what is left of the time.
\<close>

section \<open>The import closure\<close>

text \<open>The modules the runner needs.\<close>

inductive needed :: "runtime \<Rightarrow> tree \<Rightarrow> string \<Rightarrow> bool" for rt tree where
  root: "needed rt tree ''SpecHuntRunner''"
| imported: "needed rt tree m \<Longrightarrow> dget tree (module_path m) = Some b \<Longrightarrow> local_imports rt b = Inr ms
    \<Longrightarrow> m' \<in> set ms \<Longrightarrow> needed rt tree m'"

definition read_ok :: "runtime \<Rightarrow> tree \<Rightarrow> string set \<Rightarrow> string \<Rightarrow> bool" where
  "read_ok rt tree S m \<longleftrightarrow>
     (\<exists>b ms. dget tree (module_path m) = Some b \<and> local_imports rt b = Inr ms \<and> set ms \<subseteq> S)"

lemma needed_closed:
  assumes "needed rt tree m" "''SpecHuntRunner'' \<in> S" "\<forall>x \<in> S. read_ok rt tree S x"
  shows "m \<in> S"
  using assms
proof (induction rule: needed.induct)
  case (imported m b ms m')
  then obtain b' ms' where "dget tree (module_path m) = Some b'" "local_imports rt b' = Inr ms'" "set ms' \<subseteq> S"
    by (auto simp: read_ok_def)
  with imported show ?case by auto
qed simp

text \<open>Where reading the sources stops.\<close>

definition unreadable :: "runtime \<Rightarrow> tree \<Rightarrow> pyexn \<Rightarrow> string \<Rightarrow> bool" where
  "unreadable rt tree e m \<longleftrightarrow>
     (case dget tree (module_path m) of
        None \<Rightarrow> e = OSError
      | Some b \<Rightarrow> rt_text rt b = None \<and> e = ValueError)"

definition closure_inv :: "runtime \<Rightarrow> tree \<Rightarrow> string list \<Rightarrow> string list \<Rightarrow> string list \<Rightarrow> bool" where
  "closure_inv rt tree pending seen fs \<longleftrightarrow>
     (\<forall>m \<in> set seen \<union> set pending. needed rt tree m)
     \<and> (\<forall>m \<in> set seen. read_ok rt tree (set seen \<union> set pending) m)
     \<and> set fs = module_path ` set seen \<and> ''SpecHuntRunner'' \<in> set seen \<union> set pending"

lemma read_ok_mono: "read_ok rt tree S m \<Longrightarrow> S \<subseteq> S' \<Longrightarrow> read_ok rt tree S' m"
  unfolding read_ok_def by blast

lemma closure_inv_step:
  assumes inv: "closure_inv rt tree (m # pending) seen fs"
    and b: "dget tree (module_path m) = Some b" "local_imports rt b = Inr ms"
  shows "closure_inv rt tree (rev ms @ pending) (m # seen) (fs @ [module_path m])"
proof -
  let ?S = "set seen \<union> set (m # pending)" and ?S' = "set (m # seen) \<union> set (rev ms @ pending)"
  have "needed rt tree m" using inv by (simp add: closure_inv_def)
  then have "\<forall>x \<in> set ms. needed rt tree x" using needed.imported b by blast
  moreover have "read_ok rt tree ?S' m" using b by (auto simp: read_ok_def)
  moreover have "read_ok rt tree ?S' x" if "x \<in> set seen" for x
  proof -
    have "read_ok rt tree ?S x" using inv that by (simp add: closure_inv_def)
    then show ?thesis by (rule read_ok_mono) auto
  qed
  ultimately show ?thesis using inv by (auto simp: closure_inv_def)
qed

lemma collect_exact:
  assumes "closure_inv rt tree pending seen fs"
  shows "case collect_sources rt tree pending seen fs of
      Inr fs' \<Rightarrow> set fs' = module_path ` {m. needed rt tree m} \<and> module_path ` {m. needed rt tree m} \<subseteq> set (dkeys tree)
    | Inl e \<Rightarrow> \<exists>m. needed rt tree m \<and> unreadable rt tree e m"
  using assms
proof (induction rt tree pending seen fs rule: collect_sources.induct)
  case (1 rt tree seen fs)
  then have all: "\<forall>m \<in> set seen. needed rt tree m" "\<forall>m \<in> set seen. read_ok rt tree (set seen) m"
    "''SpecHuntRunner'' \<in> set seen" "set fs = module_path ` set seen" by (auto simp: closure_inv_def)
  then have "{m. needed rt tree m} = set seen" using needed_closed [of rt tree _ "set seen"] by blast
  moreover have "module_path m \<in> set (dkeys tree)" if "m \<in> set seen" for m
    using all(2) that dget_None_keys [of tree "module_path m"] by (auto simp: read_ok_def)
  ultimately show ?case using all(4) by auto
next
  case (2 rt tree m pending seen fs)
  show ?case
  proof (cases "m \<in> set seen")
    case True
    with "2.prems" have "closure_inv rt tree pending seen fs" by (auto simp: closure_inv_def insert_absorb)
    with "2.IH"(1) True show ?thesis by simp
  next
    case False
    have n: "needed rt tree m" using "2.prems" by (simp add: closure_inv_def)
    show ?thesis
    proof (cases "dget tree (module_path m)")
      case None
      with False n show ?thesis by (auto simp: unreadable_def)
    next
      case (Some b)
      show ?thesis
      proof (cases "local_imports rt b")
        case (Inl e)
        then have "unreadable rt tree e m" using Some by (auto simp: unreadable_def local_imports_def split: option.splits)
        with False Some Inl n show ?thesis by auto
      next
        case (Inr ms)
        with "2.IH"(2) [OF False Some Inr closure_inv_step [OF "2.prems" Some Inr]] False Some show ?thesis by simp
      qed
    qed
  qed
qed

text \<open>C29: The sources that are hashed are exactly the files of the modules the runner imports, directly or not,
  and the three files of the build, in the order of their paths; when that fails, a module that is needed
  has no file or cannot be decoded.\<close>

theorem source_closure_exact:
  "case source_files rt tree of
     Inr fs \<Rightarrow>
       set fs = module_path ` {m. needed rt tree m} \<union> set build_files
       \<and> module_path ` {m. needed rt tree m} \<subseteq> set (dkeys tree) \<and> sorted (map (split_on ''/'') fs)
   | Inl e \<Rightarrow> \<exists>m. needed rt tree m \<and> unreadable rt tree e m"
proof -
  have "closure_inv rt tree [''SpecHuntRunner''] [] []" by (simp add: closure_inv_def needed.root)
  from collect_exact [OF this] show ?thesis
    by (cases "collect_sources rt tree [''SpecHuntRunner''] [] []") (auto simp: source_files_def)
qed

section \<open>Attestation\<close>

text \<open>Paths and contents without NUL, as sources of text are.\<close>

definition without_nul :: "(string \<times> string) list \<Rightarrow> bool" where
  "without_nul es \<longleftrightarrow> (\<forall>(p, b) \<in> set es. CHR 0x00 \<notin> set p \<and> CHR 0x00 \<notin> set b)"

lemma nul_split:
  assumes "a @ NUL @ r = a' @ NUL @ r'" "CHR 0x00 \<notin> set a" "CHR 0x00 \<notin> set a'"
  shows "a = a' \<and> r = r'"
  using assms
proof (induction a arbitrary: a')
  case Nil
  then show ?case by (cases a') (auto simp: NUL_def)
next
  case (Cons c a)
  then show ?case by (cases a') (auto simp: NUL_def)
qed

lemma utf8_no_nul:
  assumes "CHR 0x00 \<notin> set p" shows "CHR 0x00 \<notin> set (utf8_text (ulit p))"
proof
  assume "CHR 0x00 \<in> set (utf8_text (ulit p))"
  then obtain b where b: "b \<in> set (utf8_encode (ulit p))" "char_of (unat b) = (CHR 0x00 :: char)"
    by (auto simp: utf8_text_def)
  then have "of_char (char_of (unat b) :: char) = (0 :: nat)" by simp
  then have "unat b = 0" using unat_byte_lt [of b] by simp
  from b(1) obtain c where c: "c \<in> set p" "b \<in> set (utf8_enc1 (cp c))"
    by (auto simp: utf8_encode_def ulit_def)
  have "cp c \<noteq> 0"
  proof
    assume "cp c = 0"
    then have "cp c = cp (CHR 0x00)" by (simp add: cp_def)
    with c(1) assms show False by (simp only: cp_inj)
  qed
  with cp_lt [of c] have "cp c div 64 < 4" "0 < cp c" by auto
  moreover have "utf8_enc1 (cp c) =
      map word_of_nat (if cp c < 128 then [cp c] else [192 + cp c div 64, 128 + cp c mod 64])"
    using cp_lt [of c] by (simp add: utf8_enc1_def)
  with c(2) obtain n where n: "n \<in> set (if cp c < 128 then [cp c] else [192 + cp c div 64, 128 + cp c mod 64])"
    "b = word_of_nat n" by (auto simp only: set_map)
  ultimately have "0 < n" "n < 256" using cp_lt [of c] by (auto split: if_splits)
  with n(2) \<open>unat b = 0\<close> unat_word_of_nat_byte [of n] show False by simp
qed

lemma hash_input_inj:
  assumes "hash_input es = hash_input es'" "without_nul es" "without_nul es'"
  shows "es = es'"
  using assms
proof (induction es arbitrary: es')
  case Nil
  then show ?case by (cases es') (auto simp: hash_input_def NUL_def)
next
  case (Cons x es)
  obtain p b where x: "x = (p, b)" by (cases x)
  show ?case
  proof (cases es')
    case Nil
    with Cons.prems(1) show ?thesis by (auto simp: hash_input_def NUL_def x)
  next
    case (Cons y es0)
    obtain p' b' where y: "y = (p', b')" by (cases y)
    have no: "CHR 0x00 \<notin> set p" "CHR 0x00 \<notin> set b" "CHR 0x00 \<notin> set p'" "CHR 0x00 \<notin> set b'"
      "without_nul es" "without_nul es0"
      using \<open>without_nul (x # es)\<close> \<open>without_nul es'\<close> by (auto simp: without_nul_def x y Cons)
    have "utf8_text (ulit p) @ NUL @ (b @ NUL @ hash_input es) = utf8_text (ulit p') @ NUL @ (b' @ NUL @ hash_input es0)"
      using \<open>hash_input (x # es) = hash_input es'\<close> by (simp add: hash_input_def x y Cons)
    from nul_split [OF this utf8_no_nul [OF no(1)] utf8_no_nul [OF no(3)]]
    have 1: "utf8_text (ulit p) = utf8_text (ulit p')" "b @ NUL @ hash_input es = b' @ NUL @ hash_input es0" by auto
    from nul_split [OF 1(2) no(2,4)] have "b = b'" "hash_input es = hash_input es0" by auto
    with Cons.IH no(5,6) 1(1) show ?thesis by (auto simp: x y Cons utf8_text_inj)
  qed
qed

text \<open>What is hashed of some trees.\<close>

definition hashed :: "runtime \<Rightarrow> tree set \<Rightarrow> string set" where
  "hashed rt ts = {x. \<exists>t \<in> ts. (\<exists>es. source_entries rt t = Inr es \<and> x = hash_input es) \<or> dget t RUNNER = Some x}"

lemma attested_hashes:
  assumes "attested rt t ''binarySha256'' RUNNER = Inr True" "read_stamp rt t = Inr (write_stamp src bin helper)"
  shows "source_hash rt t = Inr src \<and> binary_hash rt t RUNNER = Inr bin"
  using assms
  by (auto simp: attested_def bindR_eq_Inr stamp_field_def write_stamp_def jidx_def split: if_splits)

lemma build_stamp:
  assumes "build_runner rt lake t0 = Inr (Some stamp)"
  shows "\<exists>t1 src bin helper. lake t0 = Some t1 \<and> stamp = write_stamp src bin helper
    \<and> source_hash rt t0 = Inr src \<and> source_hash rt t1 = Inr src \<and> binary_hash rt t1 RUNNER = Inr bin"
  using assms by (auto simp: build_runner_def bindR_eq_Inr split: option.splits if_splits)

text \<open>C27: When the native runner is selected under a stamp that a build of the runner wrote, the sources it
  runs for are the sources it was built from, file by file, and its binary is the one the build made: a
  stale binary never decides. SHA-256 has no collision among what is hashed, and sources hold no NUL.\<close>

theorem native_runner_attested:
  assumes "build_runner rt lake t0 = Inr (Some stamp)" "lake t0 = Some t1"
    and "read_stamp rt t2 = Inr stamp"
    and "lean_command rt native repo t2 l file = Inr command" "command \<noteq> fallback_command l file"
    and "inj_on (rt_sha rt) (hashed rt {t0, t1, t2})"
    and "\<forall>t \<in> {t0, t2}. \<forall>es. source_entries rt t = Inr es \<longrightarrow> without_nul es"
  shows "source_entries rt t2 = source_entries rt t0 \<and> dget t2 RUNNER = dget t1 RUNNER"
proof -
  obtain src bin helper where s: "stamp = write_stamp src bin helper" "source_hash rt t0 = Inr src"
    "binary_hash rt t1 RUNNER = Inr bin"
    using build_stamp [OF assms(1)] assms(2) by auto
  from assms(4,5) have "attested rt t2 ''binarySha256'' RUNNER = Inr True"
    by (auto simp: lean_command_def bindR_eq_Inr or_stale_def split: if_splits sum.splits)
  from attested_hashes [OF this] assms(3) s(1) have h: "source_hash rt t2 = Inr src" "binary_hash rt t2 RUNNER = Inr bin"
    by auto
  obtain es0 es2 where es: "source_entries rt t0 = Inr es0" "source_entries rt t2 = Inr es2"
    "rt_sha rt (hash_input es2) = rt_sha rt (hash_input es0)"
    using s(2) h(1) by (auto simp: source_hash_def bindR_eq_Inr)
  have "hash_input es2 \<in> hashed rt {t0, t1, t2}" "hash_input es0 \<in> hashed rt {t0, t1, t2}"
    unfolding hashed_def using es(1,2) by blast+
  with es(3) have "hash_input es2 = hash_input es0" by (rule inj_onD [OF assms(6)])
  moreover have "without_nul es2" "without_nul es0" using es(1,2) assms(7) by blast+
  ultimately have "es2 = es0" by (rule hash_input_inj)
  moreover obtain b1 b2 where b: "dget t1 RUNNER = Some b1" "dget t2 RUNNER = Some b2" "rt_sha rt b2 = rt_sha rt b1"
    using s(3) h(2) by (auto simp: binary_hash_def read_bytes_def bindR_eq_Inr split: option.splits)
  have "b2 \<in> hashed rt {t0, t1, t2}" "b1 \<in> hashed rt {t0, t1, t2}" unfolding hashed_def using b(1,2) by blast+
  with b(3) have "b2 = b1" by (rule inj_onD [OF assms(6)])
  ultimately show ?thesis using es b by simp
qed

text \<open>The input of the hash does not tell a NUL of a file from the end of it.\<close>

lemma hash_ambiguous:
  "hash_input [(''a'', [CHR 0x00] @ ''b'' @ [CHR 0x00])] = hash_input [(''a'', []), (''b'', [])]"
  by code_simp

definition demo_runtime :: runtime where
  "demo_runtime =
     \<lparr>rt_sha = id, rt_text = Some,
      rt_loads = (\<lambda>s. Some (write_stamp
        (hash_input [(''SpecHuntRunner.lean'', []), (''lake-manifest.json'', ''m''), (''lakefile.lean'', ''f''), (''lean-toolchain'', ''t'')])
        ''bin'' ''h''))\<rparr>"

definition demo_tree :: "tree \<Rightarrow> tree" where
  "demo_tree extra =
     [(''SpecHuntRunner.lean'', []), (''lakefile.lean'', ''f''), (''lake-manifest.json'', ''m''), (''lean-toolchain'', ''t''),
      (STAMP, ''s''), (RUNNER, ''bin''), (HELPER, ''h'')] @ extra"

lemma demo_entries:
  "source_entries demo_runtime (demo_tree extra) =
     Inr [(''SpecHuntRunner.lean'', []), (''lake-manifest.json'', ''m''), (''lakefile.lean'', ''f''), (''lean-toolchain'', ''t'')]"
    (is "_ = Inr ?es")
proof -
  have "module_path ''SpecHuntRunner'' = ''SpecHuntRunner.lean''" by code_simp
  moreover have "local_imports demo_runtime [] = Inr []"
    by (simp add: local_imports_def demo_runtime_def split_on.simps import_names_def drop_modifiers.simps NL_def)
  moreover have "dget (demo_tree extra) ''SpecHuntRunner.lean'' = Some []" by (simp add: demo_tree_def)
  moreover have "sort_key (split_on ''/'') (''SpecHuntRunner.lean'' # build_files) = map fst ?es"
    by (simp add: build_files_def split_on.simps less_char_def)
  ultimately have "source_files demo_runtime (demo_tree extra) = Inr (map fst ?es)"
    by (simp add: source_files_def)
  then show ?thesis by (simp add: source_entries_def read_bytes_def demo_tree_def)
qed

lemma demo_facts:
  fixes r :: tree
  defines "es \<equiv> [(''SpecHuntRunner.lean'', []), (''lake-manifest.json'', ''m''), (''lakefile.lean'', ''f''), (''lean-toolchain'', ''t'')]"
  shows "source_hash demo_runtime (demo_tree r) = Inr (hash_input es)"
    "binary_hash demo_runtime (demo_tree r) RUNNER = Inr ''bin''" "binary_hash demo_runtime (demo_tree r) HELPER = Inr ''h''"
    "read_stamp demo_runtime (demo_tree r) = Inr (write_stamp (hash_input es) ''bin'' ''h'')"
    "lean_command demo_runtime True ''r'' (demo_tree r) ''lake'' ''f'' = Inr [''lake'', ''env'', ''r/'' @ RUNNER, ''f'']"
proof -
  let ?st = "write_stamp (hash_input es) ''bin'' ''h''"
  have files: "dget (demo_tree r) STAMP = Some ''s''" "dget (demo_tree r) RUNNER = Some ''bin''"
    "dget (demo_tree r) HELPER = Some ''h''"
    by (simp_all add: demo_tree_def STAMP_def RUNNER_def HELPER_def)
  have p: "rt_sha demo_runtime = id" "rt_loads demo_runtime s = Some ?st" for s by (simp_all add: demo_runtime_def es_def)
  show sh: "source_hash demo_runtime (demo_tree r) = Inr (hash_input es)"
    by (simp add: source_hash_def p demo_entries es_def)
  show bh: "binary_hash demo_runtime (demo_tree r) RUNNER = Inr ''bin''"
    "binary_hash demo_runtime (demo_tree r) HELPER = Inr ''h''"
    by (simp_all add: binary_hash_def read_bytes_def files p)
  show st: "read_stamp demo_runtime (demo_tree r) = Inr ?st"
    by (simp add: read_stamp_def read_bytes_def files p)
  have "attested demo_runtime (demo_tree r) ''binarySha256'' RUNNER = Inr True"
    by (simp add: attested_def st stamp_field_def write_stamp_def jidx_def sh bh)
  then show "lean_command demo_runtime True ''r'' (demo_tree r) ''lake'' ''f'' = Inr [''lake'', ''env'', ''r/'' @ RUNNER, ''f'']"
    by (simp add: lean_command_def or_stale_def)
qed

theorem native_runner_attested_witness:
  "\<exists>stamp. build_runner demo_runtime Some (demo_tree []) = Inr (Some stamp)
    \<and> lean_command demo_runtime True ''r'' (demo_tree [(''x'', ''y'')]) ''lake'' ''f''
        = Inr [''lake'', ''env'', ''r/'' @ RUNNER, ''f'']
    \<and> source_entries demo_runtime (demo_tree [(''x'', ''y'')]) = source_entries demo_runtime (demo_tree [])"
proof -
  let ?t0 = "demo_tree []" and ?t2 = "demo_tree [(''x'', ''y'')]"
  let ?es = "[(''SpecHuntRunner.lean'', []), (''lake-manifest.json'', ''m''), (''lakefile.lean'', ''f''), (''lean-toolchain'', ''t'')]"
  have build: "build_runner demo_runtime Some ?t0 = Inr (Some (write_stamp (hash_input ?es) ''bin'' ''h''))"
    by (simp add: build_runner_def demo_facts(1-3))
  have ne: "[''lake'', ''env'', ''r/'' @ RUNNER, ''f''] \<noteq> fallback_command ''lake'' ''f''" by (simp add: fallback_command_def)
  have "inj_on (rt_sha demo_runtime) (hashed demo_runtime {?t0, ?t0, ?t2})" by (simp add: demo_runtime_def)
  moreover have "\<forall>t \<in> {?t0, ?t2}. \<forall>es. source_entries demo_runtime t = Inr es \<longrightarrow> without_nul es"
    by (simp add: demo_entries without_nul_def)
  ultimately have "source_entries demo_runtime ?t2 = source_entries demo_runtime ?t0"
    using native_runner_attested [OF build refl demo_facts(4,5) ne] by blast
  with build demo_facts(5) show ?thesis by blast
qed

section \<open>Retrying\<close>

lemma rpart_char: "m \<notin> set y \<Longrightarrow> rpart_at [m] (x @ m # y) = Some (x, y)"
proof (induction x)
  case Nil
  then have "\<not> contains [m] y" by (auto simp: contains_iff)
  then show ?case by (simp add: rpart_at_None [symmetric])
qed simp

lemma log_names:
  "with_suffix (d @ ''/lean.stdout.log'') ''.native.log'' = d @ ''/lean.stdout.native.log''"
  "with_suffix (d @ ''/lean.stderr.log'') ''.native.log'' = d @ ''/lean.stderr.native.log''"
  "with_name (d @ ''/lean.stdout.log'') n = d @ ''/'' @ n"
proof -
  have s: "split_name (d @ ''/lean.stdout.log'') = (d @ ''/'', ''lean.stdout.log'')"
    "split_name (d @ ''/lean.stderr.log'') = (d @ ''/'', ''lean.stderr.log'')"
    using rpart_char [of "CHR ''/''" "''lean.stdout.log''" d] rpart_char [of "CHR ''/''" "''lean.stderr.log''" d]
    by (simp_all add: split_name_def)
  have r: "rpart_at ''.'' ''lean.stdout.log'' = Some (''lean.stdout'', ''log'')"
    "rpart_at ''.'' ''lean.stderr.log'' = Some (''lean.stderr'', ''log'')" by code_simp+
  show "with_suffix (d @ ''/lean.stdout.log'') ''.native.log'' = d @ ''/lean.stdout.native.log''"
    "with_suffix (d @ ''/lean.stderr.log'') ''.native.log'' = d @ ''/lean.stderr.native.log''"
    "with_name (d @ ''/lean.stdout.log'') n = d @ ''/'' @ n"
    by (simp_all add: with_suffix_def with_name_def s r)
qed

lemma dget_drop_key: "dget (drop_key k d) k' = (if k' = k then None else dget d k')"
  by (induction d) (auto simp: drop_key_def)

lemma run_capture_frame:
  "run_capture run x out err fs = (r, fs') \<Longrightarrow> p \<noteq> out \<Longrightarrow> p \<noteq> err \<Longrightarrow> dget fs' p = dget fs p"
  by (auto simp: run_capture_def Let_def split: proc.splits)

text \<open>C28: A native run that fails with at least a second left decides nothing: the result is that of ordinary Lean
  on the same file, started with at least a second and ending within the time of the whole, and both logs of
  the native run and a note of the retry are kept.\<close>

theorem native_failure_retried:
  fixes T :: lean_tool
  defines "fallback \<equiv> fallback_command (lt_lake T)"
  assumes "lean_command (lt_runtime T) (lt_native T) (lt_repo T) (lt_tree T) (lt_lake T) file = Inr command"
    and "command \<noteq> fallback file"
    and "run_capture (lt_run T) (lean_call_with T command timeout) (d @ ''/lean.stdout.log'') (d @ ''/lean.stderr.log'') fs
      = (Inr status, fs1)" "status \<noteq> 0"
    and "0 \<le> lt_spent T (lean_call_with T command timeout) fs"
      "lt_spent T (lean_call_with T command timeout) fs + second \<le> timeout * second"
  shows "\<exists>t fs2 fs3 r.
    run_capture (lt_run T) (lean_call_with T (fallback file) t) (d @ ''/lean.stdout.log'') (d @ ''/lean.stderr.log'') fs2 = (r, fs3)
    \<and> run_lean_capture T file timeout (d @ ''/lean.stdout.log'') (d @ ''/lean.stderr.log'') fs = (r, fs3)
    \<and> 1 \<le> t \<and> lt_spent T (lean_call_with T command timeout) fs + t * second \<le> timeout * second
    \<and> dget fs3 (d @ ''/lean.stdout.native.log'') = dget fs1 (d @ ''/lean.stdout.log'')
    \<and> dget fs3 (d @ ''/lean.stderr.native.log'') = dget fs1 (d @ ''/lean.stderr.log'')
    \<and> dget fs3 (d @ ''/native-fallback.json'') = Some (native_note status t file)"
proof -
  let ?out = "d @ ''/lean.stdout.log''" and ?err = "d @ ''/lean.stderr.log''"
  let ?left = "timeout * second - lt_spent T (lean_call_with T command timeout) fs"
  let ?t = "?left div second"
  let ?fs2 = "dput (move_log ?err (move_log ?out fs1)) (with_name ?out ''native-fallback.json'') (native_note status ?t file)"
  obtain r fs3 where run: "run_capture (lt_run T) (lean_call_with T (fallback file) ?t) ?out ?err ?fs2 = (r, fs3)"
    by fastforce
  have sec: "0 < second" by (simp add: second_def)
  have t1: "1 \<le> ?t"
  proof -
    have "second div second \<le> ?t" using assms(7) sec by (intro zdiv_mono1) simp_all
    then show ?thesis using sec by simp
  qed
  have "?t * second = ?left - ?left mod second" by (rule minus_mod_eq_div_mult [symmetric])
  then have t2: "lt_spent T (lean_call_with T command timeout) fs + ?t * second \<le> timeout * second"
    using pos_mod_sign [OF sec, of ?left] by simp
  obtain o' e where logs: "dget fs1 ?out = Some o'" "dget fs1 ?err = Some e"
    using assms(4) by (auto simp: run_capture_def Let_def split: proc.splits)
  have "\<not> ?left < second" using assms(7) by simp
  then have "run_lean_capture T file timeout ?out ?err fs = (r, fs3)"
    using assms(2-5) run unfolding run_lean_capture_def Let_def fallback_def by (simp del: div_mult_mod_eq)
  moreover have "dget fs3 p = dget ?fs2 p" if "p \<noteq> ?out" "p \<noteq> ?err" for p
    using run_capture_frame [OF run] that by blast
  moreover have "dget ?fs2 (d @ ''/lean.stdout.native.log'') = Some o'" "dget ?fs2 (d @ ''/lean.stderr.native.log'') = Some e"
    "dget ?fs2 (d @ ''/native-fallback.json'') = Some (native_note status ?t file)"
    using logs by (simp_all add: log_names move_log_def dget_drop_key)
  ultimately have "dget fs3 (d @ ''/lean.stdout.native.log'') = dget fs1 ?out"
    "dget fs3 (d @ ''/lean.stderr.native.log'') = dget fs1 ?err"
    "dget fs3 (d @ ''/native-fallback.json'') = Some (native_note status ?t file)"
    "run_lean_capture T file timeout ?out ?err fs = (r, fs3)"
    using logs by simp_all
  with run t1 t2 show ?thesis by blast
qed

definition demo_native_tool :: lean_tool where
  "demo_native_tool =
     \<lparr>lt_runtime = demo_runtime, lt_native = True, lt_repo = ''r'', lt_tree = demo_tree [], lt_lake = ''lake'',
      lt_run = (\<lambda>x fs. if pc_command x = [''lake'', ''env'', ''lean'', ''f''] then Exited 0 [55] [] else Exited 134 [] [33]),
      lt_spent = (\<lambda>x fs. 2 * second)\<rparr>"

theorem native_failure_retried_witness:
  "\<exists>fs. run_lean_capture demo_native_tool ''f'' 9 ''t/lean.stdout.log'' ''t/lean.stderr.log'' [] = (Inr 0, fs)
    \<and> dget fs ''t/lean.stderr.native.log'' = Some [33]"
proof -
  let ?T = demo_native_tool and ?c = "[''lake'', ''env'', ''r/'' @ RUNNER, ''f'']"
  have c: "lean_command (lt_runtime ?T) (lt_native ?T) (lt_repo ?T) (lt_tree ?T) (lt_lake ?T) ''f'' = Inr ?c"
    by (simp add: demo_native_tool_def demo_facts(5))
  have ne: "?c \<noteq> fallback_command (lt_lake ?T) ''f''" by (simp add: fallback_command_def)
  have "?c \<noteq> [''lake'', ''env'', ''lean'', ''f'']" by simp
  then obtain fs1 where run: "run_capture (lt_run ?T) (lean_call_with ?T ?c 9) (''t'' @ ''/lean.stdout.log'') (''t'' @ ''/lean.stderr.log'') [] = (Inr 134, fs1)"
    and e: "dget fs1 ''t/lean.stderr.log'' = Some [33]"
    by (simp add: run_capture_def lean_call_with_def demo_native_tool_def)
  have sp: "lt_spent ?T (lean_call_with ?T ?c 9) [] = 2 * second" "0 < second"
    by (simp_all add: demo_native_tool_def second_def)
  have "(134 :: int) \<noteq> 0" "0 \<le> lt_spent ?T (lean_call_with ?T ?c 9) []"
    "lt_spent ?T (lean_call_with ?T ?c 9) [] + second \<le> 9 * second" using sp by simp_all
  from native_failure_retried [OF c ne run this] obtain t fs2 fs3 r where
    2: "run_capture (lt_run ?T) (lean_call_with ?T (fallback_command (lt_lake ?T) ''f'') t) (''t'' @ ''/lean.stdout.log'') (''t'' @ ''/lean.stderr.log'') fs2 = (r, fs3)"
    and 3: "run_lean_capture ?T ''f'' 9 (''t'' @ ''/lean.stdout.log'') (''t'' @ ''/lean.stderr.log'') [] = (r, fs3)"
      "dget fs3 (''t'' @ ''/lean.stderr.native.log'') = dget fs1 (''t'' @ ''/lean.stderr.log'')" by blast
  from 2 have "r = Inr 0"
    by (simp add: run_capture_def lean_call_with_def demo_native_tool_def fallback_command_def)
  with 3 e show ?thesis by simp
qed

end
