(* ===== verification/Compare.thy ===== *)
theory Compare
  imports Runtime
begin

text \<open>
  \<open>scripts/run_forge_interpreter_harness.py\<close>: the comparison of Forge, solc and Lean on the cases of a
  manifest. The state is the files below the output directory, the cache and what has been printed;
  processes, files of the repository and the identity of the compiler are parameters. A status is its
  text, but for the mismatch, which carries the two lists it prints.
\<close>

section \<open>State\<close>

record hstate =
  hs_files :: logs
  hs_cache :: cache
  hs_printed :: "utext list"

type_synonym 'a hrun = "hstate \<Rightarrow> 'a res \<times> hstate"

definition retH :: "'a \<Rightarrow> 'a hrun" where
  "retH x s = (Inr x, s)"

definition liftH :: "'a res \<Rightarrow> 'a hrun" where
  "liftH r s = (r, s)"

definition bindH :: "'a hrun \<Rightarrow> ('a \<Rightarrow> 'b hrun) \<Rightarrow> 'b hrun" where
  "bindH m f s = (case m s of (Inl e, s') \<Rightarrow> (Inl e, s') | (Inr x, s') \<Rightarrow> f x s')"

definition say :: "utext \<Rightarrow> unit hrun" where
  "say l s = (Inr (), s\<lparr>hs_printed := hs_printed s @ [l]\<rparr>)"

definition write_text :: "string \<Rightarrow> utext \<Rightarrow> unit hrun" where
  "write_text p t s = (Inr (), s\<lparr>hs_files := dput (hs_files s) p t\<rparr>)"

definition file_text :: "string \<Rightarrow> utext option hrun" where
  "file_text p s = (Inr (dget (hs_files s) p), s)"

datatype status = St string | Mismatch "utext list" "utext list"

record compare_tool =
  ct_lean :: lean_tool
  ct_environ :: "(string \<times> string) list"
  ct_read :: "string \<Rightarrow> string res"
  ct_cache :: cache_conf
  ct_writable :: bool
  ct_identity :: "string \<Rightarrow> json"
  ct_python :: string

type_synonym vars = "(string \<times> string) list"

definition var :: "vars \<Rightarrow> string \<Rightarrow> string" where
  "var vs k = dget_or vs k []"

definition in_case :: "vars \<Rightarrow> string \<Rightarrow> string" where
  "in_case vs n = var vs ''case_tmp'' @ ''/'' @ n"

text \<open>\<open>None\<close> is a timeout; other exceptions are passed on.\<close>

definition settle :: "(halt + int) \<Rightarrow> int option res" where
  "settle r =
     (case r of Inr n \<Rightarrow> Inr (Some n) | Inl TimeoutExpired \<Rightarrow> Inr None | Inl (Raised e) \<Rightarrow> Inl e)"

definition runH ::
  "compare_tool \<Rightarrow> string list \<Rightarrow> string \<Rightarrow> (string \<times> string) list option \<Rightarrow> int \<Rightarrow> string \<Rightarrow> string \<Rightarrow> int option hrun" where
  "runH T command cwd env timeout out err s =
     (let (r, fs) = run_capture (lt_run (ct_lean T))
            \<lparr>pc_command = command, pc_cwd = cwd, pc_env = env, pc_timeout = timeout\<rparr> out err (hs_files s)
      in (settle r, s\<lparr>hs_files := fs\<rparr>))"

section \<open>Manifest and variables\<close>

text \<open>The failures are messages.\<close>

definition load_manifest :: "json \<Rightarrow> string + json list" where
  "load_manifest v =
     (case v of
        JObj m \<Rightarrow>
          (case jget m ''cases'' of
             JList cases \<Rightarrow> Inr cases | _ \<Rightarrow> Inl ''manifest must contain a `cases` array'')
      | _ \<Rightarrow> Inl ''manifest root must be a JSON object'')"

text \<open>\<open>override or os.environ.get(name.upper()) or name\<close>, searched on the path unless it has a slash.\<close>

definition resolve_executable ::
  "(string \<Rightarrow> string option) \<Rightarrow> (string \<times> string) list \<Rightarrow> string \<Rightarrow> string \<Rightarrow> string option \<Rightarrow> string" where
  "resolve_executable which environ name upper override =
     (let given = (\<lambda>x r. case x of Some s \<Rightarrow> if s = [] then r else s | None \<Rightarrow> r);
          candidate = given override (given (dget environ upper) name) in
      if CHR ''/'' \<in> set candidate then candidate else given (which candidate) candidate)"

definition expand :: "string \<Rightarrow> vars \<Rightarrow> string" where
  "expand txt vs = fold (\<lambda>(n, v) t. replace_all (''{'' @ n @ ''}'') v t) vs txt"

definition expand_args :: "json list \<Rightarrow> vars \<Rightarrow> string list" where
  "expand_args xs vs = map (\<lambda>x. expand (py_str x) vs) xs"

text \<open>\<open>repo / p\<close> unless \<open>p\<close> is absolute.\<close>

definition below_repo :: "compare_tool \<Rightarrow> string \<Rightarrow> string" where
  "below_repo T p = (if starts ''/'' p then p else lt_repo (ct_lean T) @ ''/'' @ p)"

section \<open>Reading the output of Forge\<close>

text \<open>\<open>\x1b\[[0-9;]*m\<close> removed.\<close>

definition ansi_at :: "utext \<Rightarrow> utext option" where
  "ansi_at s =
     (if starts [27, 91] s then
        (let r = dropWhile (\<lambda>n. digit_cp n \<or> n = 59) (drop 2 s) in
         if starts [109] r then Some (drop 1 r) else None)
      else None)"

lemma ansi_at_shorter: "ansi_at s = Some r \<Longrightarrow> length r < length s"
proof -
  assume a: "ansi_at s = Some r"
  then have "s \<noteq> []" "r = drop 1 (dropWhile (\<lambda>n. digit_cp n \<or> n = 59) (drop 2 s))"
    by (auto simp: ansi_at_def Let_def split: if_splits)
  moreover have "length (dropWhile (\<lambda>n. digit_cp n \<or> n = 59) (drop 2 s)) \<le> length (drop 2 s)"
    by (rule length_dropWhile_le)
  ultimately show ?thesis by (cases s) auto
qed

function strip_ansi :: "utext \<Rightarrow> utext" where
  "strip_ansi [] = []"
| "strip_ansi (c # s) = (case ansi_at (c # s) of Some r \<Rightarrow> strip_ansi r | None \<Rightarrow> c # strip_ansi s)"
  by pat_completeness auto
termination
  by (relation "measure length") (auto dest: ansi_at_shorter)

text \<open>Patterns without choice points: a literal, blanks, a number, an optional character.\<close>

datatype pat = Lit utext | Sp | Num | Opt nat

fun match_pat :: "pat list \<Rightarrow> utext \<Rightarrow> utext list option" where
  "match_pat [] s = Some []"
| "match_pat (Lit l # ps) s = (if starts l s then match_pat ps (drop (length l) s) else None)"
| "match_pat (Sp # ps) s =
     (if s \<noteq> [] \<and> space_cp (hd s) then match_pat ps (dropWhile space_cp s) else None)"
| "match_pat (Num # ps) s =
     (if s \<noteq> [] \<and> digit_cp (hd s)
      then map_option (\<lambda>gs. takeWhile digit_cp s # gs) (match_pat ps (dropWhile digit_cp s)) else None)"
| "match_pat (Opt c # ps) s = match_pat ps (if starts [c] s then drop 1 s else s)"

text \<open>\<open>.*\<close> takes as much as it can: the last position where the rest matches.\<close>

fun match_last :: "pat list \<Rightarrow> utext \<Rightarrow> utext list option" where
  "match_last ps [] = match_pat ps []"
| "match_last ps (c # s) = (case match_last ps s of Some gs \<Rightarrow> Some gs | None \<Rightarrow> match_pat ps (c # s))"

definition summary_head :: "pat list" where
  "summary_head = [Lit (ulit ''Ran''), Sp, Num, Sp, Lit (ulit ''test suite'')]"

definition summary_tail :: "pat list" where
  "summary_tail =
     [Lit (ulit '':''), Sp, Num, Sp, Lit (ulit ''test''), Opt (cp CHR ''s''), Sp, Lit (ulit ''passed,''), Sp, Num, Sp,
      Lit (ulit ''failed,''), Sp, Num, Sp, Lit (ulit ''skipped'')]"

definition summary_line :: "utext \<Rightarrow> utext option" where
  "summary_line l =
     (if match_pat summary_head l = None then None
      else case match_last summary_tail l of
        Some [p, f, k] \<Rightarrow>
          Some (ulit ''SUMMARY passed='' @ p @ ulit '' failed='' @ f @ ulit '' skipped='' @ k)
      | _ \<Rightarrow> None)"

text \<open>\<open>re.sub("\\s+\\(gas:\\s*\\d+\\)$", "", name)\<close>.\<close>

definition gas_at :: "utext \<Rightarrow> bool" where
  "gas_at s \<longleftrightarrow>
     s \<noteq> [] \<and> space_cp (hd s) \<and>
     (let r = dropWhile space_cp s; n = dropWhile space_cp (drop 5 r) in
      starts (ulit ''(gas:'') r \<and> n \<noteq> [] \<and> digit_cp (hd n) \<and> dropWhile digit_cp n = ulit '')'')"

fun drop_gas :: "utext \<Rightarrow> utext" where
  "drop_gas [] = []"
| "drop_gas (c # s) = (if gas_at (c # s) then [] else c # drop_gas s)"

definition test_line :: "utext \<Rightarrow> utext option" where
  "test_line l =
     (let outcome = take 4 (drop 1 l); r = drop 6 l; name = dropWhile space_cp r in
      if starts (ulit ''['') l \<and> outcome \<in> {ulit ''PASS'', ulit ''FAIL'', ulit ''SKIP''}
         \<and> starts (ulit '']'') (drop 5 l) \<and> r \<noteq> [] \<and> space_cp (hd r) \<and> name \<noteq> []
      then Some (outcome @ ulit '' '' @ drop_gas name) else None)"

definition forge_line :: "utext \<Rightarrow> utext option" where
  "forge_line raw =
     (let l = tstrip (strip_ansi raw) in
      case test_line l of Some t \<Rightarrow> Some t | None \<Rightarrow> summary_line l)"

definition log_lines :: "utext option \<Rightarrow> utext list" where
  "log_lines log = (case log of Some t \<Rightarrow> splitlines t | None \<Rightarrow> [])"

definition normalized_forge_results :: "utext option \<Rightarrow> utext option \<Rightarrow> utext list" where
  "normalized_forge_results out err =
     (let ls = List.map_filter forge_line (log_lines out @ log_lines err) in
      if ls = [] then [ulit ''NO_FORGE_TEST_RESULTS_FOUND''] else ls)"

definition trstrip :: "utext \<Rightarrow> utext" where
  "trstrip s = rev (dropWhile space_cp (rev s))"

definition listed_line :: "utext \<Rightarrow> bool" where
  "listed_line raw \<longleftrightarrow>
     (let l = trstrip (strip_ansi raw) in
      4 < length l \<and> list_all space_cp (take 4 l) \<and> \<not> space_cp (l ! 4))"

definition count_forge_listed_tests :: "utext option \<Rightarrow> utext option \<Rightarrow> nat" where
  "count_forge_listed_tests out err = length (filter listed_line (log_lines out @ log_lines err))"

definition forge_list_args :: "string list \<Rightarrow> string list option" where
  "forge_list_args args =
     (if args = [] \<or> hd args \<noteq> ''test'' then None
      else let filtered = filter (\<lambda>a. a \<notin> {''-q'', ''--quiet''}) args in
        Some (if ''--list'' \<notin> set filtered \<and> ''-l'' \<notin> set filtered then filtered @ [''--list''] else filtered))"

section \<open>Forge\<close>

definition default_forge_args :: "node \<Rightarrow> vars \<Rightarrow> string list res" where
  "default_forge_args forge vs =
     (case jget forge ''root'' of
        JStr root \<Rightarrow>
          Inr (map (\<lambda>t. expand t vs)
            ([''test'', ''--root'', ''{repo}/'' @ root, ''--use'', ''{solc}'', ''--no-auto-detect'', ''--offline'',
              ''--force'', ''--out'', ''{case_tmp}/forge-out'', ''--cache-path'', ''{case_tmp}/forge-cache'']
             @ (case jget forge ''match_contract'' of JStr c \<Rightarrow> [''--match-contract'', c] | _ \<Rightarrow> [])
             @ (case jget forge ''match_test'' of JStr t \<Rightarrow> [''--match-test'', t] | _ \<Rightarrow> [])
             @ (if truthy (dget_or forge ''quiet'' (JBool True)) then [''-q''] else [])))
      | _ \<Rightarrow> Inl ValueError)"

text \<open>\<open>None\<close>: \<open>forge.args\<close> is no list.\<close>

definition forge_args :: "node \<Rightarrow> vars \<Rightarrow> string list option res" where
  "forge_args forge vs =
     (case jget forge ''args'' of
        JNull \<Rightarrow> bindR (default_forge_args forge vs) (\<lambda>args. Inr (Some args))
      | JList xs \<Rightarrow> Inr (Some (expand_args xs vs))
      | _ \<Rightarrow> Inr None)"

definition forge_env :: "compare_tool \<Rightarrow> node \<Rightarrow> vars \<Rightarrow> (string \<times> string) list" where
  "forge_env T forge vs =
     (case dget_or forge ''env'' (JObj []) of
        JObj extra \<Rightarrow> fold (\<lambda>(k, v) env. dput env k (expand (py_str v) vs)) extra (ct_environ T)
      | _ \<Rightarrow> ct_environ T)"

definition after_secs :: "string \<Rightarrow> int \<Rightarrow> status" where
  "after_secs what timeout = St (what @ ''timeout_after_'' @ show_int timeout @ ''s'')"

definition command_text :: "string \<Rightarrow> string list \<Rightarrow> utext" where
  "command_text label command = ulit (label @ join '' '' command)"

text \<open>The discovery run: a status it fails with, or the number of tests, \<open>None\<close> when it is not done.\<close>

definition discover ::
  "compare_tool \<Rightarrow> string list option \<Rightarrow> string \<Rightarrow> (string \<times> string) list \<Rightarrow> vars \<Rightarrow> int \<Rightarrow> (status + nat option) hrun" where
  "discover T list_args cwd env vs timeout =
     (case list_args of
        None \<Rightarrow> retH (Inr None)
      | Some args \<Rightarrow>
          (let command = var vs ''forge'' # args;
               out = in_case vs ''forge.list.stdout.log''; err = in_case vs ''forge.list.stderr.log'' in
           bindH (say (command_text ''  forge_list_cmd='' command)) (\<lambda>_.
           bindH (runH T command cwd (Some env) timeout out err) (\<lambda>r.
             case r of
               None \<Rightarrow> retH (Inl (after_secs ''list_'' timeout))
             | Some n \<Rightarrow>
                 if n \<noteq> 0 then retH (Inl (St (''list_exit_'' @ show_int n)))
                 else bindH (file_text out) (\<lambda>o'. bindH (file_text err) (\<lambda>e.
                   let listed = count_forge_listed_tests o' e in
                   bindH (write_text (in_case vs ''forge.list.results'')
                       (ulit (''DISCOVERED tests='' @ show_nat listed @ NL))) (\<lambda>_.
                     retH (if listed = 0 then Inl (St ''no_tests_discovered'') else Inr (Some listed)))))))))"

definition discovered :: "nat \<Rightarrow> utext" where
  "discovered n = ulit (''DISCOVERED tests='' @ show_nat n)"

definition forge_results :: "nat option \<Rightarrow> utext list \<Rightarrow> utext list" where
  "forge_results listed results =
     (case listed of
        None \<Rightarrow> results
      | Some n \<Rightarrow>
          if results = [ulit ''NO_FORGE_TEST_RESULTS_FOUND'']
          then [discovered n, ulit ''QUIET_FORGE_RESULTS_SUPPRESSED''] else discovered n # results)"

definition run_forge :: "compare_tool \<Rightarrow> node \<Rightarrow> vars \<Rightarrow> int \<Rightarrow> (bool \<times> status) hrun" where
  "run_forge T c vs timeout =
     (case jget c ''forge'' of
        JNull \<Rightarrow> retH (True, St ''skipped'')
      | JObj forge \<Rightarrow>
          bindH (liftH (forge_args forge vs)) (\<lambda>args_or.
            case args_or of
              None \<Rightarrow> retH (False, St ''invalid forge.args'')
            | Some args \<Rightarrow>
                (case dget_or forge ''cwd'' (JStr ''.'') of
                   JStr cwd_raw \<Rightarrow>
                     (let cwd = below_repo T (expand cwd_raw vs); env = forge_env T forge vs in
                      bindH (discover T (forge_list_args args) cwd env vs timeout) (\<lambda>d.
                        case d of
                          Inl st \<Rightarrow> retH (False, st)
                        | Inr listed \<Rightarrow>
                            (let command = var vs ''forge'' # args;
                                 out = in_case vs ''forge.stdout.log''; err = in_case vs ''forge.stderr.log'' in
                             bindH (say (command_text ''  forge_cmd='' command)) (\<lambda>_.
                             bindH (runH T command cwd (Some env) timeout out err) (\<lambda>r.
                               case r of
                                 None \<Rightarrow> retH (False, after_secs [] timeout)
                               | Some n \<Rightarrow>
                                   bindH (file_text out) (\<lambda>o'. bindH (file_text err) (\<lambda>e.
                                   bindH (write_text (in_case vs ''forge.results'')
                                     (join [10] (forge_results listed (normalized_forge_results o' e)) @ [10])) (\<lambda>_.
                                     retH (if n \<noteq> 0 then (False, St (''exit_'' @ show_int n)) else (True, St ''ok''))))))))))
                 | _ \<Rightarrow> retH (False, St ''invalid forge.cwd'')))
      | _ \<Rightarrow> retH (False, St ''invalid forge case''))"

end
