(* ===== verification/CompareRun.thy ===== *)
theory CompareRun
  imports Compare
begin

text \<open>
  \<open>scripts/run_forge_interpreter_harness.py\<close>, the sources solc must reject, the importer, Lean, a case
  and the sequential run of a manifest. The text of the importer is of characters below 256.
\<close>

section \<open>Sources solc must reject\<close>

definition reject_entry :: "json \<Rightarrow> (string \<times> string) option" where
  "reject_entry x =
     (case x of
        JStr s \<Rightarrow> Some (s, ''Error:'')
      | JObj d \<Rightarrow>
          (case (jget d ''source'', dget_or d ''contains'' (JStr ''Error:'')) of
             (JStr s, JStr e) \<Rightarrow> Some (s, e)
           | _ \<Rightarrow> None)
      | _ \<Rightarrow> None)"

text \<open>\<open>path.relative_to(repo)\<close>.\<close>

definition relative_to :: "string \<Rightarrow> string \<Rightarrow> string res" where
  "relative_to repo p =
     (if p = repo then Inr ''.''
      else if starts (repo @ ''/'') p then Inr (drop (length repo + 1) p) else Inl ValueError)"

definition or_empty :: "utext option \<Rightarrow> utext" where
  "or_empty t = (case t of Some x \<Rightarrow> x | None \<Rightarrow> [])"

fun solc_rejects_from ::
  "compare_tool \<Rightarrow> vars \<Rightarrow> int \<Rightarrow> nat \<Rightarrow> utext list \<Rightarrow> json list \<Rightarrow> (bool \<times> status) hrun" where
  "solc_rejects_from T vs timeout i results [] =
     bindH (write_text (in_case vs ''solc-reject.results'') (join [10] results @ [10])) (\<lambda>_. retH (True, St ''ok''))"
| "solc_rejects_from T vs timeout i results (x # items) =
     (case reject_entry x of
        None \<Rightarrow> retH (False, St (''invalid_entry_'' @ show_nat i))
      | Some (source, expected) \<Rightarrow>
          (let p = below_repo T (expand source vs);
               out = in_case vs (''solc-reject-'' @ show_nat i @ ''.stdout.log'');
               err = in_case vs (''solc-reject-'' @ show_nat i @ ''.stderr.log'');
               command = [var vs ''solc'', ''--bin'', p] in
           bindH (say (command_text ''  solc_reject_cmd='' command)) (\<lambda>_.
           bindH (runH T command (lt_repo (ct_lean T)) None timeout out err) (\<lambda>r.
             case r of
               None \<Rightarrow> retH (False, St (''timeout_'' @ show_nat i @ ''_after_'' @ show_int timeout @ ''s''))
             | Some n \<Rightarrow>
                 bindH (file_text out) (\<lambda>o'. bindH (file_text err) (\<lambda>e.
                   if n = 0 then retH (False, St (''unexpected_accept_'' @ show_nat i))
                   else if \<not> contains (ulit expected) (or_empty o' @ or_empty e)
                     then retH (False, St (''missing_diagnostic_'' @ show_nat i @ ''_'' @ expected))
                   else bindH (liftH (relative_to (lt_repo (ct_lean T)) p)) (\<lambda>rel.
                     solc_rejects_from T vs timeout (Suc i) (results @ [ulit (''REJECT '' @ rel)]) items)))))))"

definition run_solc_rejects :: "compare_tool \<Rightarrow> node \<Rightarrow> vars \<Rightarrow> int \<Rightarrow> (bool \<times> status) hrun" where
  "run_solc_rejects T c vs timeout =
     (case jget c ''solc_rejects'' of
        JNull \<Rightarrow> retH (True, St ''skipped'')
      | JList items \<Rightarrow> solc_rejects_from T vs timeout 0 [] items
      | _ \<Rightarrow> retH (False, St ''invalid''))"

section \<open>The importer\<close>

definition IMPORTER :: string where
  "IMPORTER = ''scripts/solc_ast_to_lean_source.py''"

definition import_inputs :: "compare_tool \<Rightarrow> json \<Rightarrow> string \<Rightarrow> string \<Rightarrow> string \<Rightarrow> string \<Rightarrow> string \<Rightarrow> json" where
  "import_inputs T tool importer p source contract namespace =
     JObj [(''tool'', tool), (''importer'', JStr (cc_sha (ct_cache T) importer)), (''sourcePath'', JStr p),
       (''source'', JStr (cc_sha (ct_cache T) source)), (''contract'', JStr contract),
       (''namespace'', JStr namespace), (''bodyOnly'', JBool True)]"

text \<open>The key of an import, \<open>None\<close> when its result is not cached.\<close>

definition import_key ::
  "compare_tool \<Rightarrow> vars \<Rightarrow> string \<Rightarrow> string \<Rightarrow> string \<Rightarrow> string option res" where
  "import_key T vs p contract namespace =
     bindR (ct_read T p) (\<lambda>source.
       let tool = (if has_word ascii_word_ch ''import'' False source then JNull
                   else ct_identity T (var vs ''solc'')) in
       if tool = JNull then Inr None
       else bindR (ct_read T (lt_repo (ct_lean T) @ ''/'' @ IMPORTER)) (\<lambda>importer.
         Inr (Some (key_for (ct_cache T) (import_inputs T tool importer p source contract namespace)))))"

definition cached_source :: "json \<Rightarrow> string option" where
  "cached_source v = (case v of JObj d \<Rightarrow> (case jget d ''source'' of JStr s \<Rightarrow> Some s | _ \<Rightarrow> None) | _ \<Rightarrow> None)"

definition cache_lookupH :: "compare_tool \<Rightarrow> string option \<Rightarrow> json hrun" where
  "cache_lookupH T key s =
     (case key of
        None \<Rightarrow> (Inr JNull, s)
      | Some k \<Rightarrow>
          (let (r, st) = cache_get (ct_cache T) (''solc-import'', k) True (hs_cache s) in
           (case r of Inr v \<Rightarrow> Inr v | Inl e \<Rightarrow> Inl JSONDecodeError, s\<lparr>hs_cache := st\<rparr>)))"

definition cache_storeH :: "compare_tool \<Rightarrow> string option \<Rightarrow> utext \<Rightarrow> unit hrun" where
  "cache_storeH T key generated s =
     (case key of
        None \<Rightarrow> (Inr (), s)
      | Some k \<Rightarrow>
          (case cache_put (ct_cache T) (ct_writable T) (''solc-import'', k)
                  (JObj [(''source'', JStr (ascii_text generated))]) True (hs_cache s) of
             Inl e \<Rightarrow> (Inl e, s)
           | Inr st \<Rightarrow> (Inr (), s\<lparr>hs_cache := st\<rparr>)))"

definition import_command :: "compare_tool \<Rightarrow> vars \<Rightarrow> string \<Rightarrow> string \<Rightarrow> string \<Rightarrow> string list" where
  "import_command T vs p contract namespace =
     [ct_python T, lt_repo (ct_lean T) @ ''/'' @ IMPORTER, p, ''--contract'', contract, ''--solc'', var vs ''solc'',
      ''--namespace'', namespace, ''--body-only'']"

text \<open>The import of one contract: whether it ended well, its status, the Lean text.\<close>

definition import_contract ::
  "compare_tool \<Rightarrow> vars \<Rightarrow> int \<Rightarrow> string \<Rightarrow> string \<Rightarrow> string \<Rightarrow> (bool \<times> string \<times> utext) hrun" where
  "import_contract T vs timeout p contract namespace =
     (let out = in_case vs ''solc-ast.stdout.lean''; err = in_case vs ''solc-ast.stderr.log'';
          command = import_command T vs p contract namespace in
      bindH (liftH (import_key T vs p contract namespace)) (\<lambda>key.
      bindH (cache_lookupH T key) (\<lambda>hit.
        case cached_source hit of
          Some src \<Rightarrow>
            bindH (write_text out (ulit src)) (\<lambda>_. bindH (write_text err []) (\<lambda>_. retH (True, ''ok'', ulit src)))
        | None \<Rightarrow>
            bindH (say (command_text ''  solc_ast_cmd='' command)) (\<lambda>_.
            bindH (runH T command (lt_repo (ct_lean T)) None timeout out err) (\<lambda>r.
              case r of
                None \<Rightarrow> retH (False, ''timeout_after_'' @ show_int timeout @ ''s'', [])
              | Some n \<Rightarrow>
                  if n \<noteq> 0 then retH (False, ''exit_'' @ show_int n, [])
                  else bindH (file_text out) (\<lambda>o'.
                       bindH (cache_storeH T key (or_empty o')) (\<lambda>_. retH (True, ''ok'', or_empty o'))))))))"

definition import_case :: "compare_tool \<Rightarrow> node \<Rightarrow> vars \<Rightarrow> int \<Rightarrow> (bool \<times> string \<times> utext) hrun" where
  "import_case T c vs timeout =
     (case jget c ''solc_import'' of
        JNull \<Rightarrow> retH (True, ''skipped'', [])
      | JObj d \<Rightarrow>
          (case (jget d ''source'', jget d ''contract'') of
             (JStr source, JStr contract) \<Rightarrow>
               (case dget_or d ''namespace'' (JStr ''SolidCore.Solidity.SolcAstImport.Generated'') of
                  JStr namespace \<Rightarrow>
                    import_contract T vs timeout (below_repo T (expand source vs)) contract namespace
                | _ \<Rightarrow> retH (False, ''invalid_namespace'', []))
           | _ \<Rightarrow> retH (False, ''missing_source_or_contract'', []))
      | _ \<Rightarrow> retH (False, ''invalid'', []))"

section \<open>Lean\<close>

record eval_item =
  ei_label :: string
  ei_expr :: string
  ei_expect :: string

fun eval_items :: "json list \<Rightarrow> string + eval_item list" where
  "eval_items [] = Inr []"
| "eval_items (JObj d # xs) =
     (case (jget d ''expr'', jget d ''expect'') of
        (JStr expr, JStr expect) \<Rightarrow>
          bindR (eval_items xs) (\<lambda>es.
            Inr (\<lparr>ei_label = py_str (dget_or d ''label'' (JStr expr)), ei_expr = expr, ei_expect = expect\<rparr> # es))
      | _ \<Rightarrow> Inl ''lean eval needs expr and expect strings'')"
| "eval_items (_ # xs) = Inl ''invalid lean eval''"

definition lean_imports :: "node \<Rightarrow> json list option" where
  "lean_imports lean =
     (case jget lean ''import'' of
        JStr s \<Rightarrow> Some [JStr s]
      | _ \<Rightarrow> (case dget_or lean ''imports'' (JList []) of JList xs \<Rightarrow> Some xs | _ \<Rightarrow> None))"

definition lean_lines :: "json list \<Rightarrow> utext \<Rightarrow> eval_item list \<Rightarrow> utext list" where
  "lean_lines imports generated items =
     map (\<lambda>i. ulit (''import '' @ py_str i)) imports @ [ulit ''set_option maxHeartbeats 8000000'']
     @ (if generated = [] then [] else [[], generated]) @ map (\<lambda>i. ulit (''#eval '' @ ei_expr i)) items"

definition printed_values :: "utext \<Rightarrow> utext list" where
  "printed_values log = filter (\<lambda>l. l \<noteq> []) (map tstrip (splitlines log))"

definition actual_tail :: "'b list \<Rightarrow> utext list \<Rightarrow> utext list" where
  "actual_tail expected actual = (if expected = [] then [] else last_chars (length expected) actual)"

definition lean_results :: "eval_item list \<Rightarrow> utext list \<Rightarrow> utext" where
  "lean_results items tail =
     join [10] (map (\<lambda>(i, v). ulit (ei_label i @ '': '') @ v) (zip items tail)) @ (if items = [] then [] else [10])"

definition runL :: "compare_tool \<Rightarrow> string \<Rightarrow> int \<Rightarrow> string \<Rightarrow> string \<Rightarrow> int option hrun" where
  "runL T file timeout out err s =
     (let (r, fs) = run_lean_capture (ct_lean T) file timeout out err (hs_files s)
      in (settle r, s\<lparr>hs_files := fs\<rparr>))"

definition evaluate :: "compare_tool \<Rightarrow> vars \<Rightarrow> int \<Rightarrow> json list \<Rightarrow> utext \<Rightarrow> eval_item list \<Rightarrow> (bool \<times> status) hrun" where
  "evaluate T vs timeout imports generated items =
     (let file = in_case vs ''interpreter.lean'';
          out = in_case vs ''lean.stdout.log''; err = in_case vs ''lean.stderr.log'';
          L = ct_lean T; expected = map (\<lambda>i. ulit (ei_expect i)) items in
      bindH (write_text file (join [10] (lean_lines imports generated items) @ [10])) (\<lambda>_.
      bindH (liftH (lean_command (lt_runtime L) (lt_native L) (lt_repo L) (lt_tree L) (lt_lake L) file)) (\<lambda>command.
      bindH (say (command_text ''  lean_cmd='' command)) (\<lambda>_.
      bindH (runL T file timeout out err) (\<lambda>r.
        case r of
          None \<Rightarrow> retH (False, after_secs [] timeout)
        | Some n \<Rightarrow>
            if n \<noteq> 0 then retH (False, St (''exit_'' @ show_int n))
            else bindH (file_text out) (\<lambda>o'.
                 let tail = actual_tail items (printed_values (or_empty o')) in
                 bindH (write_text (in_case vs ''lean.results'') (lean_results items tail)) (\<lambda>_.
                   retH (if tail \<noteq> expected then (False, Mismatch expected tail) else (True, St ''ok'')))))))))"

definition run_lean_case :: "compare_tool \<Rightarrow> node \<Rightarrow> vars \<Rightarrow> int \<Rightarrow> (bool \<times> status) hrun" where
  "run_lean_case T c vs timeout =
     (case jget c ''lean'' of
        JNull \<Rightarrow> retH (True, St ''skipped'')
      | JObj lean \<Rightarrow>
          (case lean_imports lean of
             None \<Rightarrow> retH (False, St ''invalid lean.imports'')
           | Some imports \<Rightarrow>
               (case dget_or lean ''evals'' (JList []) of
                  JList evals \<Rightarrow>
                    bindH (import_case T c vs timeout) (\<lambda>(ok, st, generated).
                      if \<not> ok then retH (False, St (''solc_ast_'' @ st))
                      else case eval_items evals of
                        Inl m \<Rightarrow> retH (False, St m)
                      | Inr items \<Rightarrow> evaluate T vs timeout imports generated items)
                | _ \<Rightarrow> retH (False, St ''invalid lean.evals'')))
      | _ \<Rightarrow> retH (False, St ''invalid lean case''))"

end
