(* ===== verification/CompareMain.thy ===== *)
theory CompareMain
  imports CompareRun
begin

text \<open>
  \<open>scripts/run_forge_interpreter_harness.py\<close>: one case and \<open>main\<close>, with the cases run one after the other.
  The options are the parsed command line, and the manifest is what reading it gives.
\<close>

section \<open>A case\<close>

record options =
  op_only :: "string list"
  op_skip_forge :: bool
  op_skip_lean :: bool
  op_timeout :: int
  op_keep_tmp :: bool
  op_forge :: string
  op_solc :: string
  op_outdir :: string

record failure =
  fl_name :: string
  fl_tmp :: string
  fl_solc :: status
  fl_forge :: status
  fl_lean :: status

record case_result =
  cr_name :: string
  cr_ran :: nat
  cr_output :: utext
  cr_failure :: "failure option"

text \<open>\<open>re.sub("[^A-Za-z0-9_.-]+", "_", name)\<close>; the flag says that the previous character was replaced.\<close>

definition file_ch :: "char \<Rightarrow> bool" where
  "file_ch c \<longleftrightarrow> alnum_ch c \<or> c \<in> {CHR ''_'', CHR ''.'', CHR ''-''}"

fun file_name :: "bool \<Rightarrow> string \<Rightarrow> string" where
  "file_name before [] = []"
| "file_name before (c # s) =
     (if file_ch c then c # file_name False s
      else (if before then [] else ''_'') @ file_name True s)"

definition case_dir :: "options \<Rightarrow> string \<Rightarrow> string" where
  "case_dir ops name =
     (let f = file_name False name in if f = [] then op_outdir ops else op_outdir ops @ ''/'' @ f)"

text \<open>A character from 256 on is taken to be printable.\<close>

definition repr_text :: "utext \<Rightarrow> utext" where
  "repr_text s =
     (let q = (if 39 \<in> set s \<and> 34 \<notin> set s then 34 else 39) in
      [q] @ concat (map (\<lambda>n. if n < 256 then ulit (repr_char (char_of q) (char_of n)) else [n]) s) @ [q])"

definition repr_texts :: "utext list \<Rightarrow> utext" where
  "repr_texts ts = ulit ''['' @ join (ulit '', '') (map repr_text ts) @ ulit '']''"

fun status_text :: "status \<Rightarrow> utext" where
  "status_text (St s) = ulit s"
| "status_text (Mismatch expected actual) =
     ulit ''expected_'' @ repr_texts expected @ ulit ''_got_'' @ repr_texts actual"

definition status_line :: "string \<Rightarrow> string \<Rightarrow> status \<Rightarrow> status \<Rightarrow> status \<Rightarrow> utext" where
  "status_line label name solc forge lean =
     ulit (label @ name @ '' solc_rejects='') @ status_text solc @ ulit '' forge='' @ status_text forge
     @ ulit '' lean='' @ status_text lean"

text \<open>\<open>isinstance(x, int)\<close>, where a truth value is a number.\<close>

definition int_value_of :: "json \<Rightarrow> int option" where
  "int_value_of v = (case v of JInt i \<Rightarrow> Some i | JBool b \<Rightarrow> Some (if b then 1 else 0) | _ \<Rightarrow> None)"

definition case_vars :: "compare_tool \<Rightarrow> options \<Rightarrow> string \<Rightarrow> vars" where
  "case_vars T ops name =
     [(''repo'', lt_repo (ct_lean T)), (''outdir'', op_outdir ops), (''case_tmp'', case_dir ops name),
      (''forge'', op_forge ops), (''solc'', op_solc ops), (''lake'', lt_lake (ct_lean T)), (''case'', name)]"

definition failed_with :: "string \<Rightarrow> string \<Rightarrow> string \<Rightarrow> failure" where
  "failed_with name tmp st = \<lparr>fl_name = name, fl_tmp = tmp, fl_solc = St st, fl_forge = St st, fl_lean = St st\<rparr>"

text \<open>The three lanes of a case, in order; a lane that is switched off is skipped.\<close>

definition run_lanes ::
  "compare_tool \<Rightarrow> options \<Rightarrow> node \<Rightarrow> vars \<Rightarrow> int \<Rightarrow> ((bool \<times> status) \<times> (bool \<times> status) \<times> (bool \<times> status)) hrun" where
  "run_lanes T ops c vs timeout =
     bindH (run_solc_rejects T c vs timeout) (\<lambda>solc.
     bindH (if op_skip_forge ops then retH (True, St ''skipped'') else run_forge T c vs timeout) (\<lambda>forge.
     bindH (if op_skip_lean ops then retH (True, St ''skipped'') else run_lean_case T c vs timeout) (\<lambda>lean.
       retH (solc, forge, lean))))"

definition printed_text :: "utext list \<Rightarrow> utext" where
  "printed_text ls = concat (map (\<lambda>l. l @ [10]) ls)"

definition run_named :: "compare_tool \<Rightarrow> options \<Rightarrow> string \<Rightarrow> node \<Rightarrow> case_result hrun" where
  "run_named T ops name c =
     (case int_value_of (dget_or c ''timeout'' (JInt (op_timeout ops))) of
        Some timeout \<Rightarrow>
          if timeout \<le> 0 then
            retH \<lparr>cr_name = name, cr_ran = 1, cr_output = [],
              cr_failure = Some (failed_with name (case_dir ops name) ''invalid_timeout'')\<rparr>
          else
            bindH (say (ulit (''case='' @ name))) (\<lambda>_.
            bindH (run_lanes T ops c (case_vars T ops name) timeout) (\<lambda>((so, ss), (fo, fs), (lo, ls)).
            bindH (say (status_line ''case_result='' name ss fs ls)) (\<lambda>_ s.
              (Inr \<lparr>cr_name = name, cr_ran = 1, cr_output = printed_text (hs_printed s),
                 cr_failure = (if so \<and> fo \<and> lo then None
                   else Some \<lparr>fl_name = name, fl_tmp = case_dir ops name, fl_solc = ss, fl_forge = fs, fl_lean = ls\<rparr>)\<rparr>, s))))
      | None \<Rightarrow>
          retH \<lparr>cr_name = name, cr_ran = 1, cr_output = [],
            cr_failure = Some (failed_with name (case_dir ops name) ''invalid_timeout'')\<rparr>)"

text \<open>What a case prints goes to a buffer of its own.\<close>

definition buffered :: "'a hrun \<Rightarrow> 'a hrun" where
  "buffered m s =
     (let (r, s') = m (s\<lparr>hs_printed := []\<rparr>) in (r, s'\<lparr>hs_printed := hs_printed s\<rparr>))"

definition run_case :: "compare_tool \<Rightarrow> options \<Rightarrow> json \<Rightarrow> case_result hrun" where
  "run_case T ops v =
     (case v of
        JObj c \<Rightarrow>
          (case jget c ''name'' of
             JStr name \<Rightarrow>
               if op_only ops \<noteq> [] \<and> name \<notin> set (op_only ops)
               then retH \<lparr>cr_name = name, cr_ran = 0, cr_output = [], cr_failure = None\<rparr>
               else buffered (run_named T ops name c)
           | _ \<Rightarrow> retH \<lparr>cr_name = ''<invalid>'', cr_ran = 0, cr_output = [],
               cr_failure = Some (failed_with ''<invalid>'' (op_outdir ops @ ''/invalid_case'') ''invalid_case'')\<rparr>)
      | _ \<Rightarrow> retH \<lparr>cr_name = ''<invalid>'', cr_ran = 0, cr_output = [],
          cr_failure = Some (failed_with ''<invalid>'' (op_outdir ops @ ''/invalid_case'') ''invalid_case'')\<rparr>)"

fun run_cases :: "compare_tool \<Rightarrow> options \<Rightarrow> json list \<Rightarrow> case_result list hrun" where
  "run_cases T ops [] = retH []"
| "run_cases T ops (v # vs) =
     bindH (run_case T ops v) (\<lambda>r. bindH (run_cases T ops vs) (\<lambda>rs. retH (r # rs)))"

section \<open>The report\<close>

definition failure_log_names :: "string list" where
  "failure_log_names =
     [''forge.list.results'', ''forge.results'', ''forge.list.stdout.log'', ''forge.list.stderr.log'', ''lean.results'',
      ''forge.stdout.log'', ''forge.stderr.log'', ''solc-ast.stdout.lean'', ''solc-ast.stderr.log'',
      ''lean.stdout.log'', ''lean.stderr.log'']"

definition log_block :: "logs \<Rightarrow> string \<Rightarrow> utext list" where
  "log_block fs p =
     (case dget fs p of
        Some (c # t) \<Rightarrow> [ulit (''--- '' @ p @ '' ---''), trstrip (c # t)]
      | _ \<Rightarrow> [])"

definition is_reject_log :: "string \<Rightarrow> string \<Rightarrow> bool" where
  "is_reject_log tmp p \<longleftrightarrow>
     starts (tmp @ ''/solc-reject-'') p \<and> ends ''.stderr.log'' (drop (length tmp + 14) p)
     \<and> CHR ''/'' \<notin> set (drop (length tmp + 1) p)"

definition print_failure_logs :: "logs \<Rightarrow> string \<Rightarrow> utext list" where
  "print_failure_logs fs tmp =
     concat (map (\<lambda>n. log_block fs (tmp @ ''/'' @ n)) failure_log_names)
     @ concat (map (log_block fs) (sort (filter (is_reject_log tmp) (dkeys fs))))"

definition failures_of :: "case_result list \<Rightarrow> failure list" where
  "failures_of rs = List.map_filter cr_failure rs"

text \<open>The exit status, what is printed, and whether the output directory is kept.\<close>

record outcome_report =
  or_code :: int
  or_text :: utext
  or_kept :: bool

definition report_results :: "options \<Rightarrow> logs \<Rightarrow> case_result list \<Rightarrow> outcome_report" where
  "report_results ops fs rs =
     (let head = concat (map cr_output rs); ran = sum_list (map cr_ran rs); failed = failures_of rs;
          cases = ulit (''cases='' @ show_nat ran); tmp = ulit (''tmp='' @ op_outdir ops) in
      if failed \<noteq> [] then
        \<lparr>or_code = 1,
         or_text = head @ printed_text ([ulit ''forge_interpreter_compare=fail'', ulit ''status=1'', cases, tmp]
           @ concat (map (\<lambda>f. status_line ''failure='' (fl_name f) (fl_solc f) (fl_forge f) (fl_lean f)
               # print_failure_logs fs (fl_tmp f)) failed)),
         or_kept = True\<rparr>
      else
        \<lparr>or_code = 0,
         or_text = head @ printed_text [ulit ''forge_interpreter_compare=pass'', ulit ''status=0'', cases,
           ulit ''paired_cases_passed=yes'', if op_keep_tmp ops then tmp else ulit ''logs_kept=no''],
         or_kept = op_keep_tmp ops\<rparr>)"

text \<open>An exception of a case leaves \<open>main\<close>; the output directory is then removed unless it is to be kept.\<close>

definition compare_main ::
  "compare_tool \<Rightarrow> options \<Rightarrow> string + json \<Rightarrow> cache \<Rightarrow> (pyexn \<times> bool) + outcome_report" where
  "compare_main T ops manifest st =
     (case bindR manifest load_manifest of
        Inl m \<Rightarrow>
          Inr \<lparr>or_code = 2,
            or_text = printed_text [ulit ''forge_interpreter_compare=fail'', ulit (''error='' @ m)], or_kept = False\<rparr>
      | Inr cases \<Rightarrow>
          (case run_cases T ops cases \<lparr>hs_files = [], hs_cache = st, hs_printed = []\<rparr> of
             (Inl e, s) \<Rightarrow> Inl (e, op_keep_tmp ops)
           | (Inr rs, s) \<Rightarrow> Inr (report_results ops (hs_files s) rs)))"

end
