(* ===== verification/CompareProps.thy ===== *)
theory CompareProps
  imports CompareMain CacheProps
begin

text \<open>
  What a passing comparison says of the processes that ran: for every selected case the tests of Forge
  were found and passed, solc rejected what it must with the diagnostics expected, and the last lines Lean
  printed are the values expected.
\<close>

section \<open>Running\<close>

lemma bindH_Inr:
  "bindH m f s = (Inr y, s') \<longleftrightarrow> (\<exists>x t. m s = (Inr x, t) \<and> f x t = (Inr y, s'))"
  by (auto simp: bindH_def split: prod.split sum.split)

lemma step_Inr [simp]:
  "retH x s = (Inr y, s') \<longleftrightarrow> y = x \<and> s' = s"
  "liftH r s = (Inr y, s') \<longleftrightarrow> r = Inr y \<and> s' = s"
  "say l s = (Inr u, s') \<longleftrightarrow> s' = s\<lparr>hs_printed := hs_printed s @ [l]\<rparr>"
  "write_text p t s = (Inr u, s') \<longleftrightarrow> s' = s\<lparr>hs_files := dput (hs_files s) p t\<rparr>"
  "file_text p s = (Inr z, s') \<longleftrightarrow> z = dget (hs_files s) p \<and> s' = s"
  by (auto simp: retH_def liftH_def say_def write_text_def file_text_def)

text \<open>A lane passes only through the branches that do not fail.\<close>

lemma passes_through [simp]:
  "(case r of None \<Rightarrow> retH (False, u) | Some n \<Rightarrow> f n) s = (Inr (True, y), s') \<longleftrightarrow>
     (\<exists>n. r = Some n \<and> f n s = (Inr (True, y), s'))"
  "(case d of Inl e \<Rightarrow> retH (False, g e) | Inr x \<Rightarrow> h x) s = (Inr (True, y), s') \<longleftrightarrow>
     (\<exists>x. d = Inr x \<and> h x s = (Inr (True, y), s'))"
  "(if b then retH (False, u) else m) s = (Inr (True, y), s') \<longleftrightarrow> \<not> b \<and> m s = (Inr (True, y), s')"
  by (simp_all split: option.split sum.split)

text \<open>A process has run to its end, with these logs.\<close>

definition ended :: "compare_tool \<Rightarrow> string list \<Rightarrow> int \<Rightarrow> utext \<Rightarrow> utext \<Rightarrow> bool" where
  "ended T command n out err \<longleftrightarrow> (\<exists>x fs. pc_command x = command \<and> lt_run (ct_lean T) x fs = Exited n out err)"

lemma run_capture_Inr:
  assumes "run_capture run x out err fs = (Inr n, fs')" "out \<noteq> err"
  shows "\<exists>o' e fs0. run x fs0 = Exited n o' e \<and> dget fs' out = Some o' \<and> dget fs' err = Some e"
  using assms by (auto simp: run_capture_def Let_def split: proc.splits)

lemma runH_Some:
  assumes "runH T command cwd env timeout out err s = (Inr (Some n), s')" "out \<noteq> err"
  shows "\<exists>o' e. ended T command n o' e \<and> dget (hs_files s') out = Some o' \<and> dget (hs_files s') err = Some e"
proof -
  let ?x = "\<lparr>pc_command = command, pc_cwd = cwd, pc_env = env, pc_timeout = timeout\<rparr>"
  obtain r fs where r: "run_capture (lt_run (ct_lean T)) ?x out err (hs_files s) = (r, fs)" by fastforce
  with assms(1) have "r = Inr n" "hs_files s' = fs"
    by (auto simp: runH_def settle_def split: sum.splits halt.splits)
  with run_capture_Inr [OF r [unfolded \<open>r = Inr n\<close>] assms(2)] show ?thesis
    unfolding ended_def by (metis proc_call.select_convs(1))
qed

lemma in_case_inj [simp]: "in_case vs a = in_case vs b \<longleftrightarrow> a = b"
  by (simp add: in_case_def)

text \<open>\<open>run_lean_capture\<close> gives the status and the log of one of its two runs.\<close>

definition lean_commands :: "lean_tool \<Rightarrow> string \<Rightarrow> string list set" where
  "lean_commands L file =
     {fallback_command (lt_lake L) file, [lt_lake L, ''env'', lt_repo L @ ''/'' @ RUNNER, file]}"

lemma lean_command_in:
  "lean_command rt native repo tree lake file = Inr c \<Longrightarrow>
     c \<in> {fallback_command lake file, [lake, ''env'', repo @ ''/'' @ RUNNER, file]}"
  by (auto simp: lean_command_def bindR_eq_Inr split: if_splits)

lemma runL_Some:
  assumes "runL T file timeout out err s = (Inr (Some n), s')" "out \<noteq> err"
  shows "\<exists>c \<in> lean_commands (ct_lean T) file. \<exists>o' e. ended T c n o' e \<and> dget (hs_files s') out = Some o'"
proof -
  let ?L = "ct_lean T"
  obtain r fs where r: "run_lean_capture ?L file timeout out err (hs_files s) = (r, fs)" by fastforce
  with assms(1) have n: "r = Inr n" "hs_files s' = fs"
    by (auto simp: runL_def settle_def split: sum.splits halt.splits)
  from r n(1) obtain c where
    c: "lean_command (lt_runtime ?L) (lt_native ?L) (lt_repo ?L) (lt_tree ?L) (lt_lake ?L) file = Inr c"
    by (cases "lean_command (lt_runtime ?L) (lt_native ?L) (lt_repo ?L) (lt_tree ?L) (lt_lake ?L) file")
      (auto simp: run_lean_capture_def)
  obtain q fs1 where q: "run_capture (lt_run ?L) (lean_call_with ?L c timeout) out err (hs_files s) = (q, fs1)"
    by fastforce
  have "\<exists>d t fs0. d \<in> {c, fallback_command (lt_lake ?L) file}
      \<and> run_capture (lt_run ?L) (lean_call_with ?L d t) out err fs0 = (Inr n, fs)"
  proof (cases "\<exists>z. q = Inr z \<and> (c = fallback_command (lt_lake ?L) file \<or> z = 0
      \<or> timeout * second - lt_spent ?L (lean_call_with ?L c timeout) (hs_files s) < second)")
    case True
    with r n(1) c q have "q = Inr n" "fs1 = fs" by (auto simp: run_lean_capture_def Let_def)
    with q show ?thesis by blast
  next
    case False
    with r n(1) c q show ?thesis
      by (cases q) (auto simp: run_lean_capture_def Let_def)
  qed
  then obtain d t fs0 where d: "d \<in> {c, fallback_command (lt_lake ?L) file}"
    "run_capture (lt_run ?L) (lean_call_with ?L d t) out err fs0 = (Inr n, fs)" by blast
  from d(1) lean_command_in [OF c] have "d \<in> lean_commands ?L file" by (auto simp: lean_commands_def)
  with d(2) run_capture_Inr [OF _ assms(2)] n(2) show ?thesis
    unfolding ended_def by (fastforce simp: lean_call_with_def)
qed

section \<open>The lanes\<close>

definition rejects_passed :: "compare_tool \<Rightarrow> vars \<Rightarrow> node \<Rightarrow> bool" where
  "rejects_passed T vs c \<longleftrightarrow>
     jget c ''solc_rejects'' = JNull \<or>
     (\<exists>items. jget c ''solc_rejects'' = JList items \<and>
        (\<forall>x \<in> set items. \<exists>source expected n o' e. reject_entry x = Some (source, expected)
           \<and> ended T [var vs ''solc'', ''--bin'', below_repo T (expand source vs)] n o' e
           \<and> n \<noteq> 0 \<and> contains (ulit expected) (o' @ e)))"

lemma rejects_from:
  assumes "solc_rejects_from T vs timeout i rs items s = (Inr (True, st), s')" "x \<in> set items"
  shows "\<exists>source expected n o' e. reject_entry x = Some (source, expected)
    \<and> ended T [var vs ''solc'', ''--bin'', below_repo T (expand source vs)] n o' e
    \<and> n \<noteq> 0 \<and> contains (ulit expected) (o' @ e)"
  using assms
proof (induction items arbitrary: i rs s)
  case (Cons y items)
  let ?out = "in_case vs (''solc-reject-'' @ show_nat i @ ''.stdout.log'')"
    and ?err = "in_case vs (''solc-reject-'' @ show_nat i @ ''.stderr.log'')"
  from Cons.prems obtain source expected where y: "reject_entry y = Some (source, expected)"
    by (auto split: option.splits)
  let ?c = "[var vs ''solc'', ''--bin'', below_repo T (expand source vs)]"
  from Cons.prems(1) y obtain n t t' rel where
    r: "runH T ?c (lt_repo (ct_lean T)) None timeout ?out ?err t = (Inr (Some n), t')" and n: "n \<noteq> 0"
    and e: "contains (ulit expected) (or_empty (dget (hs_files t') ?out) @ or_empty (dget (hs_files t') ?err))"
    and go: "solc_rejects_from T vs timeout (Suc i) (rs @ [ulit (''REJECT '' @ rel)]) items t' = (Inr (True, st), s')"
    by (auto simp: bindH_Inr Let_def split: option.splits if_splits)
  from runH_Some [OF r] e obtain o' e' where "ended T ?c n o' e'" "contains (ulit expected) (o' @ e')"
    by (auto simp: or_empty_def)
  with Cons.IH [OF go] Cons.prems(2) y n show ?case by (cases "x = y") (simp, blast, simp)
qed simp

lemma rejects_lane:
  "run_solc_rejects T c vs timeout s = (Inr (True, st), s') \<Longrightarrow> rejects_passed T vs c"
  using rejects_from [of T vs timeout 0 "[]" _ s st s']
  unfolding run_solc_rejects_def rejects_passed_def by (auto split: json.splits)

definition forge_passed :: "compare_tool \<Rightarrow> vars \<Rightarrow> node \<Rightarrow> bool" where
  "forge_passed T vs c \<longleftrightarrow>
     jget c ''forge'' = JNull \<or>
     (\<exists>forge args o' e. jget c ''forge'' = JObj forge \<and> forge_args forge vs = Inr (Some args)
        \<and> ended T (var vs ''forge'' # args) 0 o' e
        \<and> (\<forall>list_args. forge_list_args args = Some list_args \<longrightarrow>
             (\<exists>lo le. ended T (var vs ''forge'' # list_args) 0 lo le \<and> 0 < count_forge_listed_tests (Some lo) (Some le))))"

lemma discover_found:
  assumes "discover T (Some la) cwd env vs timeout s = (Inr (Inr listed), s')"
  shows "\<exists>lo le. ended T (var vs ''forge'' # la) 0 lo le \<and> 0 < count_forge_listed_tests (Some lo) (Some le)"
proof -
  let ?out = "in_case vs ''forge.list.stdout.log''" and ?err = "in_case vs ''forge.list.stderr.log''"
  from assms obtain t t' where
    r: "runH T (var vs ''forge'' # la) cwd (Some env) timeout ?out ?err t = (Inr (Some 0), t')"
    and n: "count_forge_listed_tests (dget (hs_files t') ?out) (dget (hs_files t') ?err) \<noteq> 0"
    by (auto simp: discover_def bindH_Inr Let_def split: option.splits if_splits)
  from runH_Some [OF r] n show ?thesis by fastforce
qed

lemma forge_lane:
  assumes "run_forge T c vs timeout s = (Inr (True, st), s')"
  shows "forge_passed T vs c"
proof (cases "jget c ''forge''")
  case (JObj forge)
  with assms obtain args where args: "forge_args forge vs = Inr (Some args)"
    by (auto simp: run_forge_def bindH_Inr split: option.splits)
  let ?out = "in_case vs ''forge.stdout.log''" and ?err = "in_case vs ''forge.stderr.log''"
  from assms JObj args obtain raw where raw: "dget_or forge ''cwd'' (JStr ''.'') = JStr raw"
    by (auto simp: run_forge_def bindH_Inr split: json.splits)
  let ?cwd = "below_repo T (expand raw vs)" and ?env = "forge_env T forge vs"
  from assms JObj args raw obtain listed t0 t t' where
    d: "discover T (forge_list_args args) ?cwd ?env vs timeout s = (Inr (Inr listed), t0)"
    and r: "runH T (var vs ''forge'' # args) ?cwd (Some ?env) timeout ?out ?err t = (Inr (Some 0), t')"
    by (auto simp: run_forge_def bindH_Inr Let_def split: if_splits)
  from runH_Some [OF r] obtain o' e where "ended T (var vs ''forge'' # args) 0 o' e" by auto
  with JObj args d show ?thesis
    unfolding forge_passed_def by (auto dest: discover_found)
qed (use assms in \<open>auto simp: run_forge_def forge_passed_def\<close>)

definition lean_passed :: "compare_tool \<Rightarrow> vars \<Rightarrow> node \<Rightarrow> bool" where
  "lean_passed T vs c \<longleftrightarrow>
     jget c ''lean'' = JNull \<or>
     (\<exists>lean evals items. jget c ''lean'' = JObj lean \<and> dget_or lean ''evals'' (JList []) = JList evals
        \<and> eval_items evals = Inr items
        \<and> (\<exists>command \<in> lean_commands (ct_lean T) (in_case vs ''interpreter.lean''). \<exists>o' e. ended T command 0 o' e
             \<and> (\<exists>before. items = [] \<or> printed_values o' = before @ map (\<lambda>i. ulit (ei_expect i)) items)))"

lemma last_chars_suffix: "last_chars n xs = ys \<Longrightarrow> \<exists>b. xs = b @ ys"
  by (metis append_take_drop_id last_chars_def)

lemma evaluate_passed:
  assumes "evaluate T vs timeout imps generated items s = (Inr (True, st), s')"
  shows "\<exists>command \<in> lean_commands (ct_lean T) (in_case vs ''interpreter.lean''). \<exists>o' e. ended T command 0 o' e
    \<and> (\<exists>before. items = [] \<or> printed_values o' = before @ map (\<lambda>i. ulit (ei_expect i)) items)"
proof -
  let ?file = "in_case vs ''interpreter.lean''"
  let ?out = "in_case vs ''lean.stdout.log''" and ?err = "in_case vs ''lean.stderr.log''"
  from assms obtain t t' where r: "runL T ?file timeout ?out ?err t = (Inr (Some 0), t')"
    and v: "actual_tail items (printed_values (or_empty (dget (hs_files t') ?out))) = map (\<lambda>i. ulit (ei_expect i)) items"
    by (auto simp: evaluate_def bindH_Inr Let_def split: option.splits if_splits)
  from runL_Some [OF r] obtain c o' e where "c \<in> lean_commands (ct_lean T) ?file" "ended T c 0 o' e"
    "dget (hs_files t') ?out = Some o'" by auto
  moreover from v this(3) last_chars_suffix [of "length items" "printed_values o'"]
  have "\<exists>before. items = [] \<or> printed_values o' = before @ map (\<lambda>i. ulit (ei_expect i)) items"
    by (cases items) (simp_all add: actual_tail_def or_empty_def)
  ultimately show ?thesis by blast
qed

lemma lean_lane:
  assumes "run_lean_case T c vs timeout s = (Inr (True, st), s')"
  shows "lean_passed T vs c"
proof (cases "jget c ''lean''")
  case (JObj lean)
  with assms obtain evals imps where e: "lean_imports lean = Some imps"
    "dget_or lean ''evals'' (JList []) = JList evals"
    by (cases "lean_imports lean"; cases "dget_or lean ''evals'' (JList [])") (auto simp: run_lean_case_def)
  with assms JObj obtain items generated t where i: "eval_items evals = Inr items"
    "evaluate T vs timeout imps generated items t = (Inr (True, st), s')"
    by (auto simp: run_lean_case_def bindH_Inr)
  from evaluate_passed [OF i(2)] i(1) e(2) JObj show ?thesis unfolding lean_passed_def by blast
qed (use assms in \<open>auto simp: run_lean_case_def lean_passed_def\<close>)

section \<open>The comparison\<close>

definition selected :: "options \<Rightarrow> string \<Rightarrow> bool" where
  "selected ops name \<longleftrightarrow> op_only ops = [] \<or> name \<in> set (op_only ops)"

definition case_passed :: "compare_tool \<Rightarrow> options \<Rightarrow> json \<Rightarrow> bool" where
  "case_passed T ops v \<longleftrightarrow>
     (\<exists>c name. v = JObj c \<and> jget c ''name'' = JStr name \<and>
        (selected ops name \<longrightarrow>
           rejects_passed T (case_vars T ops name) c
           \<and> (op_skip_forge ops \<or> forge_passed T (case_vars T ops name) c)
           \<and> (op_skip_lean ops \<or> lean_passed T (case_vars T ops name) c)))"

lemma lanes_passed:
  assumes "run_lanes T ops c vs timeout s = (Inr ((True, a), (True, b), (True, d)), s')"
  shows "rejects_passed T vs c \<and> (op_skip_forge ops \<or> forge_passed T vs c) \<and> (op_skip_lean ops \<or> lean_passed T vs c)"
  using assms
  by (auto simp: run_lanes_def bindH_Inr dest!: rejects_lane forge_lane lean_lane split: if_splits)

lemma named_passed:
  assumes "run_named T ops name c s = (Inr r, s')" "cr_failure r = None"
  shows "rejects_passed T (case_vars T ops name) c
    \<and> (op_skip_forge ops \<or> forge_passed T (case_vars T ops name) c)
    \<and> (op_skip_lean ops \<or> lean_passed T (case_vars T ops name) c)"
proof -
  from assms obtain timeout where "int_value_of (dget_or c ''timeout'' (JInt (op_timeout ops))) = Some timeout"
    "\<not> timeout \<le> 0" by (auto simp: run_named_def split: option.splits if_splits)
  with assms obtain a b d t t' where "run_lanes T ops c (case_vars T ops name) timeout t = (Inr ((True, a), (True, b), (True, d)), t')"
    by (auto simp: run_named_def bindH_Inr split: if_splits)
  then show ?thesis by (rule lanes_passed)
qed

lemma case_sound:
  assumes "run_case T ops v s = (Inr r, s')" "cr_failure r = None"
  shows "case_passed T ops v"
proof -
  from assms obtain c name where c: "v = JObj c" "jget c ''name'' = JStr name"
    by (cases v; cases "jget (case v of JObj c \<Rightarrow> c) ''name''") (auto simp: run_case_def failed_with_def)
  have "rejects_passed T (case_vars T ops name) c
    \<and> (op_skip_forge ops \<or> forge_passed T (case_vars T ops name) c)
    \<and> (op_skip_lean ops \<or> lean_passed T (case_vars T ops name) c)" if "selected ops name"
  proof -
    from that have "\<not> (op_only ops \<noteq> [] \<and> name \<notin> set (op_only ops))" by (auto simp: selected_def)
    with assms(1) c obtain t where "run_named T ops name c (s\<lparr>hs_printed := []\<rparr>) = (Inr r, t)"
      by (auto simp: run_case_def buffered_def split: prod.splits)
    from named_passed [OF this assms(2)] show ?thesis .
  qed
  with c show ?thesis unfolding case_passed_def by blast
qed

lemma cases_each:
  assumes "run_cases T ops vs s = (Inr rs, s')" "\<forall>r \<in> set rs. cr_failure r = None" "v \<in> set vs"
  shows "case_passed T ops v"
  using assms
proof (induction vs arbitrary: s rs)
  case (Cons u vs)
  then obtain r rs0 t where "run_case T ops u s = (Inr r, t)" "run_cases T ops vs t = (Inr rs0, s')" "rs = r # rs0"
    by (auto simp: bindH_Inr)
  with Cons case_sound show ?case by fastforce
qed simp

lemma report_code: "or_code (report_results ops fs rs) = 0 \<longleftrightarrow> (\<forall>r \<in> set rs. cr_failure r = None)"
  by (induction rs) (auto simp: report_results_def failures_of_def List.map_filter_def Let_def)

text \<open>C15: When the comparison exits with status 0 the manifest is well formed and every selected case really
  passed: solc ran and rejected every source it must, with the diagnostics expected, Forge found at least
  one test and ended with status 0, and Lean, native or not, ended with status 0 and printed the expected
  values as its last lines.\<close>

theorem comparison_sound:
  assumes "compare_main T ops manifest st = Inr out" "or_code out = 0"
  shows "\<exists>v cases. manifest = Inr v \<and> load_manifest v = Inr cases \<and> (\<forall>c \<in> set cases. case_passed T ops c)"
proof -
  from assms obtain v cases where v: "manifest = Inr v" "load_manifest v = Inr cases"
    by (cases manifest; cases "load_manifest (projr manifest)") (auto simp: compare_main_def)
  let ?s = "\<lparr>hs_files = [], hs_cache = st, hs_printed = []\<rparr>"
  from assms(1) v obtain rs s where "run_cases T ops cases ?s = (Inr rs, s)"
    "out = report_results ops (hs_files s) rs"
    by (cases "run_cases T ops cases ?s"; cases "fst (run_cases T ops cases ?s)") (auto simp: compare_main_def)
  with assms(2) report_code cases_each v show ?thesis by blast
qed

definition demo_run :: "proc_call \<Rightarrow> logs \<Rightarrow> proc" where
  "demo_run x fs =
     (if pc_command x = [''forge'', ''test'', ''--list''] then Exited 0 (ulit (''    t'' @ NL)) []
      else if hd (pc_command x) = ''solc'' then Exited 1 [] (ulit ''Error: no'')
      else if hd (pc_command x) = ''lake'' then Exited 0 (ulit (''7'' @ NL @ '' 8'' @ NL)) []
      else Exited 0 [] [])"

definition demo_lean_tool :: lean_tool where
  "demo_lean_tool =
     \<lparr>lt_runtime = \<lparr>rt_sha = id, rt_text = Some, rt_loads = (\<lambda>s. None)\<rparr>, lt_native = False, lt_repo = ''r'', lt_tree = [],
      lt_lake = ''lake'', lt_run = demo_run, lt_spent = (\<lambda>x fs. 0)\<rparr>"

definition demo_compare_tool :: compare_tool where
  "demo_compare_tool =
     \<lparr>ct_lean = demo_lean_tool, ct_environ = [], ct_read = (\<lambda>p. Inl OSError), ct_cache = demo_conf, ct_writable = False,
      ct_identity = (\<lambda>s. JNull), ct_python = ''python''\<rparr>"

definition demo_options :: options where
  "demo_options =
     \<lparr>op_only = [], op_skip_forge = False, op_skip_lean = False, op_timeout = 9, op_keep_tmp = False,
      op_forge = ''forge'', op_solc = ''solc'', op_outdir = ''o''\<rparr>"

definition demo_fields :: node where
  "demo_fields =
     [(''name'', JStr ''a''), (''solc_rejects'', JList [JStr ''b.sol'']),
      (''forge'', JObj [(''args'', JList [JStr ''test''])]),
      (''lean'', JObj [(''evals'', JList [JObj [(''expr'', JStr ''f 1''), (''expect'', JStr ''8'')]])])]"

lemmas demo_simps =
  demo_compare_tool_def demo_lean_tool_def demo_options_def bindH_def retH_def liftH_def say_def write_text_def file_text_def
  runH_def run_capture_def settle_def Let_def

lemma demo_vars:
  "case_vars demo_compare_tool demo_options ''a'' =
     [(''repo'', ''r''), (''outdir'', ''o''), (''case_tmp'', ''o/a''), (''forge'', ''forge''), (''solc'', ''solc''),
      (''lake'', ''lake''), (''case'', ''a'')]"
  by code_simp

lemma demo_fields_get:
  "jget demo_fields ''name'' = JStr ''a''" "jget demo_fields ''solc_rejects'' = JList [JStr ''b.sol'']"
  "jget demo_fields ''forge'' = JObj [(''args'', JList [JStr ''test''])]"
  "jget demo_fields ''lean'' = JObj [(''evals'', JList [JObj [(''expr'', JStr ''f 1''), (''expect'', JStr ''8'')]])]"
  "jget demo_fields ''solc_import'' = JNull" "dget_or demo_fields ''timeout'' v = v"
  by (simp_all add: demo_fields_def jget_def dget_or_def)

lemma demo_opts:
  "op_only demo_options = []" "\<not> op_skip_forge demo_options" "\<not> op_skip_lean demo_options" "op_timeout demo_options = 9"
  by (simp_all add: demo_options_def)

abbreviation demo_case_vars :: vars where
  "demo_case_vars \<equiv> case_vars demo_compare_tool demo_options ''a''"

lemma demo_rejects:
  "\<exists>s'. run_solc_rejects demo_compare_tool demo_fields demo_case_vars 9 s = (Inr (True, St ''ok''), s')"
proof -
  have "contains (ulit ''Error:'') (ulit ''Error: no'')" by code_simp
  moreover have "below_repo demo_compare_tool (expand ''b.sol'' demo_case_vars) = ''r/b.sol''" by code_simp
  moreover have "var demo_case_vars ''solc'' = ''solc''" by code_simp
  ultimately show ?thesis
    by (simp add: run_solc_rejects_def reject_entry_def demo_run_def demo_fields_get or_empty_def relative_to_def demo_simps)
qed

lemma demo_forge:
  "\<exists>s'. run_forge demo_compare_tool demo_fields demo_case_vars 9 s = (Inr (True, St ''ok''), s')"
proof -
  have "count_forge_listed_tests (Some (ulit (''    t'' @ NL))) (Some []) = 1"
    by (simp add: count_forge_listed_tests_def log_lines_def splitlines_def line_end_def listed_line_def ansi_at_def
       trstrip_def space_cp_def NL_def cp_def Let_def)
  moreover have "forge_args [(''args'', JList [JStr ''test''])] demo_case_vars = Inr (Some [''test''])"
    "forge_list_args [''test''] = Some [''test'', ''--list'']" "var demo_case_vars ''forge'' = ''forge''" by code_simp+
  moreover have "dget_or [(''args'', JList [JStr ''test''])] ''cwd'' (JStr ''.'') = JStr ''.''"
    by (simp add: dget_or_def)
  ultimately show ?thesis
    by (simp add: run_forge_def discover_def demo_run_def demo_fields_get demo_simps)
qed

lemma demo_lean:
  "\<exists>s'. run_lean_case demo_compare_tool demo_fields demo_case_vars 9 s = (Inr (True, St ''ok''), s')"
proof -
  let ?items = "[\<lparr>ei_label = ''f 1'', ei_expr = ''f 1'', ei_expect = ''8''\<rparr>]"
  have "eval_items [JObj [(''expr'', JStr ''f 1''), (''expect'', JStr ''8'')]] = Inr ?items" by code_simp
  moreover have "actual_tail ?items (printed_values (ulit (''7'' @ NL @ '' 8'' @ NL))) = [ulit ''8'']" by code_simp
  moreover have "lean_imports [(''evals'', v)] = Some []" "dget_or [(''evals'', v)] ''evals'' w = v" for v w
    by (simp_all add: lean_imports_def jget_def dget_or_def)
  ultimately show ?thesis
    by (simp add: run_lean_case_def import_case_def evaluate_def runL_def run_lean_capture_def lean_command_def
       fallback_command_def lean_call_with_def demo_run_def demo_fields_get or_empty_def demo_simps)
qed

theorem comparison_sound_witness:
  "\<exists>out. compare_main demo_compare_tool demo_options (Inr (JObj [(''cases'', JList [JObj demo_fields])])) (empty_cache []) = Inr out
    \<and> or_code out = 0 \<and> case_passed demo_compare_tool demo_options (JObj demo_fields)"
proof -
  let ?m = "Inr (JObj [(''cases'', JList [JObj demo_fields])])"
  let ?s = "\<lparr>hs_files = [], hs_cache = empty_cache [], hs_printed = []\<rparr>"
  have "\<exists>s'. run_lanes demo_compare_tool demo_options demo_fields demo_case_vars 9 s
      = (Inr ((True, St ''ok''), (True, St ''ok''), (True, St ''ok'')), s')" for s
  proof -
    obtain s1 where 1: "run_solc_rejects demo_compare_tool demo_fields demo_case_vars 9 s = (Inr (True, St ''ok''), s1)"
      using demo_rejects by blast
    obtain s2 where 2: "run_forge demo_compare_tool demo_fields demo_case_vars 9 s1 = (Inr (True, St ''ok''), s2)"
      using demo_forge by blast
    obtain s3 where 3: "run_lean_case demo_compare_tool demo_fields demo_case_vars 9 s2 = (Inr (True, St ''ok''), s3)"
      using demo_lean by blast
    show ?thesis by (simp add: run_lanes_def bindH_def retH_def 1 2 3 demo_opts)
  qed
  then obtain t where "run_lanes demo_compare_tool demo_options demo_fields demo_case_vars 9
      (?s\<lparr>hs_printed := [ulit (''case='' @ ''a'')]\<rparr>) = (Inr ((True, St ''ok''), (True, St ''ok''), (True, St ''ok'')), t)" by blast
  then obtain r s' where r: "run_case demo_compare_tool demo_options (JObj demo_fields) ?s = (Inr r, s')" "cr_failure r = None"
    by (simp add: run_case_def buffered_def run_named_def demo_fields_get int_value_of_def bindH_def say_def retH_def demo_opts)
  then obtain out where out: "compare_main demo_compare_tool demo_options ?m (empty_cache []) = Inr out" "or_code out = 0"
    by (simp add: compare_main_def load_manifest_def jget_def dget_or_def bindH_def retH_def report_code)
  from comparison_sound [OF out] out show ?thesis by (auto simp: load_manifest_def jget_def dget_or_def)
qed

end
