(* ===== verification/ComparePool.thy ===== *)
theory ComparePool
  imports CompareMain
begin

text \<open>
  \<open>scripts/run_forge_interpreter_harness.py\<close> with \<open>--jobs\<close>: the workers of the pool take the cases in order,
  print through the router into a buffer of their thread and deliver results by position. A step is one
  call of the router or of the pool; the schedule is arbitrary.
\<close>

section \<open>The router\<close>

record router =
  ro_real :: utext
  ro_local :: "nat \<Rightarrow> utext option"

definition set_buffer :: "nat \<Rightarrow> router \<Rightarrow> router" where
  "set_buffer t r = r\<lparr>ro_local := (ro_local r)(t \<mapsto> [])\<rparr>"

definition clear_buffer :: "nat \<Rightarrow> router \<Rightarrow> router" where
  "clear_buffer t r = r\<lparr>ro_local := (ro_local r)(t := None)\<rparr>"

definition router_write :: "nat \<Rightarrow> utext \<Rightarrow> router \<Rightarrow> router" where
  "router_write t w r =
     (case ro_local r t of
        Some buf \<Rightarrow> r\<lparr>ro_local := (ro_local r)(t \<mapsto> buf @ w)\<rparr>
      | None \<Rightarrow> r\<lparr>ro_real := ro_real r @ w\<rparr>)"

section \<open>The pool\<close>

text \<open>A case as its worker runs it: whether it has a buffer (a case that is not selected, or has no name,
  returns before), what it writes piece by piece, and its result without the output.\<close>

record task =
  tk_buffered :: bool
  tk_writes :: "utext list"
  tk_result :: case_result

record pool =
  po_queue :: "(nat \<times> task) list"
  po_running :: "nat \<Rightarrow> (nat \<times> task) option"
  po_router :: router
  po_results :: "nat \<Rightarrow> case_result option"

definition pool_start :: "task list \<Rightarrow> utext \<Rightarrow> pool" where
  "pool_start tasks out =
     \<lparr>po_queue = List.enumerate 0 tasks, po_running = (\<lambda>t. None),
      po_router = \<lparr>ro_real = out, ro_local = (\<lambda>t. None)\<rparr>, po_results = (\<lambda>i. None)\<rparr>"

text \<open>\<open>buf.getvalue()\<close> enters the result before the buffer is cleared.\<close>

definition delivered :: "task \<Rightarrow> utext option \<Rightarrow> case_result" where
  "delivered k buf =
     (tk_result k)\<lparr>cr_output := (if tk_buffered k then (case buf of Some b \<Rightarrow> b | None \<Rightarrow> []) else [])\<rparr>"

inductive pool_step :: "nat \<Rightarrow> pool \<Rightarrow> pool \<Rightarrow> bool" for jobs where
  take: "t < jobs \<Longrightarrow> po_running p t = None \<Longrightarrow> po_queue p = (i, k) # q \<Longrightarrow>
    pool_step jobs p (p\<lparr>po_queue := q, po_running := (po_running p)(t \<mapsto> (i, k)),
      po_router := (if tk_buffered k then set_buffer t (po_router p) else po_router p)\<rparr>)"
| print: "po_running p t = Some (i, k) \<Longrightarrow> tk_writes k = w # ws \<Longrightarrow>
    pool_step jobs p (p\<lparr>po_running := (po_running p)(t \<mapsto> (i, k\<lparr>tk_writes := ws\<rparr>)),
      po_router := router_write t w (po_router p)\<rparr>)"
| finish: "po_running p t = Some (i, k) \<Longrightarrow> tk_writes k = [] \<Longrightarrow>
    pool_step jobs p (p\<lparr>po_running := (po_running p)(t := None),
      po_results := (po_results p)(i \<mapsto> delivered k (ro_local (po_router p) t)),
      po_router := (if tk_buffered k then clear_buffer t (po_router p) else po_router p)\<rparr>)"

inductive_cases pool_stepE: "pool_step jobs p p'"

text \<open>A schedule of \<open>n\<close> steps.\<close>

inductive pool_run :: "nat \<Rightarrow> nat \<Rightarrow> pool \<Rightarrow> pool \<Rightarrow> bool" for jobs where
  stay: "pool_run jobs 0 p p"
| go: "pool_run jobs n p p' \<Longrightarrow> pool_step jobs p' p'' \<Longrightarrow> pool_run jobs (Suc n) p p''"

text \<open>A task stands for the result of a case.\<close>

definition stands_for :: "task \<Rightarrow> case_result \<Rightarrow> bool" where
  "stands_for k r \<longleftrightarrow>
     tk_result k = r\<lparr>cr_output := []\<rparr> \<and> concat (tk_writes k) = cr_output r
     \<and> (\<not> tk_buffered k \<longrightarrow> tk_writes k = [])"

definition pool_work :: "task list \<Rightarrow> nat" where
  "pool_work tasks = sum_list (map (\<lambda>k. length (tk_writes k) + 2) tasks)"

end
