(* ===== verification/PoolProps.thy ===== *)
theory PoolProps
  imports ComparePool
begin

text \<open>
  The pool delivers the same results under every schedule: what a worker prints reaches only the buffer of
  its case, and a schedule that has not delivered everything can go on, for exactly as many steps as there
  is work.
\<close>

section \<open>Work left\<close>

definition left_of :: "(nat \<times> task) option \<Rightarrow> nat" where
  "left_of r = (case r of Some (i, k) \<Rightarrow> Suc (length (tk_writes k)) | None \<Rightarrow> 0)"

definition work_left :: "nat \<Rightarrow> pool \<Rightarrow> nat" where
  "work_left jobs p = pool_work (map snd (po_queue p)) + (\<Sum>t<jobs. left_of (po_running p t))"

lemma left_of_simps [simp]:
  "left_of None = 0" "left_of (Some (i, k)) = Suc (length (tk_writes k))"
  by (simp_all add: left_of_def)

lemma pool_work_simps [simp]:
  "pool_work [] = 0" "pool_work (k # ks) = length (tk_writes k) + 2 + pool_work ks"
  by (simp_all add: pool_work_def)

lemma left_upd:
  fixes jobs :: nat
  assumes "t < jobs"
  shows "(\<Sum>u<jobs. left_of ((f(t := x)) u)) + left_of (f t) = (\<Sum>u<jobs. left_of (f u)) + left_of x"
proof -
  let ?rest = "\<Sum>u\<in>{..<jobs} - {t}. left_of (f u)"
  have "(\<Sum>u<jobs. left_of ((f(t := x)) u)) = left_of x + (\<Sum>u\<in>{..<jobs} - {t}. left_of ((f(t := x)) u))"
    by (subst sum.remove [of _ t]) (use assms in simp_all)
  moreover have "(\<Sum>u\<in>{..<jobs} - {t}. left_of ((f(t := x)) u)) = ?rest"
    by (rule sum.cong) simp_all
  moreover have "(\<Sum>u<jobs. left_of (f u)) = left_of (f t) + ?rest"
    by (rule sum.remove) (use assms in simp_all)
  ultimately show ?thesis by simp
qed

section \<open>The invariant\<close>

text \<open>What the worker \<open>t\<close> has of the results \<open>rs\<close>: the case \<open>i\<close>, the part of its output printed so far.\<close>

definition worker_ok :: "case_result list \<Rightarrow> nat \<Rightarrow> (nat \<times> task) option \<Rightarrow> utext option \<Rightarrow> bool" where
  "worker_ok rs m run buf \<longleftrightarrow>
     (case run of
        None \<Rightarrow> buf = None
      | Some (i, k) \<Rightarrow>
          i < m \<and> tk_result k = (rs ! i)\<lparr>cr_output := []\<rparr>
          \<and> (if tk_buffered k
             then (\<exists>b. buf = Some b \<and> b @ concat (tk_writes k) = cr_output (rs ! i))
             else buf = None \<and> tk_writes k = [] \<and> cr_output (rs ! i) = []))"

lemma worker_ok_simps [simp]:
  "worker_ok rs m None buf \<longleftrightarrow> buf = None"
  "worker_ok rs m (Some (i, k)) buf \<longleftrightarrow>
     i < m \<and> tk_result k = (rs ! i)\<lparr>cr_output := []\<rparr>
     \<and> (if tk_buffered k
        then (\<exists>b. buf = Some b \<and> b @ concat (tk_writes k) = cr_output (rs ! i))
        else buf = None \<and> tk_writes k = [] \<and> cr_output (rs ! i) = [])"
  by (simp_all add: worker_ok_def)

lemma router_simps [simp]:
  "ro_local (set_buffer t r) = (ro_local r)(t \<mapsto> [])" "ro_real (set_buffer t r) = ro_real r"
  "ro_local (clear_buffer t r) = (ro_local r)(t := None)" "ro_real (clear_buffer t r) = ro_real r"
  "ro_local r t = Some b \<Longrightarrow> router_write t w r = r\<lparr>ro_local := (ro_local r)(t \<mapsto> b @ w)\<rparr>"
  by (simp_all add: set_buffer_def clear_buffer_def router_write_def)

definition pool_ok :: "nat \<Rightarrow> task list \<Rightarrow> case_result list \<Rightarrow> utext \<Rightarrow> pool \<Rightarrow> bool" where
  "pool_ok jobs tasks rs out p \<longleftrightarrow>
     (\<exists>m \<le> length tasks. po_queue p = drop m (List.enumerate 0 tasks)
       \<and> (\<forall>t. worker_ok rs m (po_running p t) (ro_local (po_router p) t))
       \<and> (\<forall>i r. po_results p i = Some r \<longrightarrow> i < m \<and> r = rs ! i)
       \<and> (\<forall>i<m. po_results p i = None \<longrightarrow> (\<exists>t k. po_running p t = Some (i, k))))
     \<and> (\<forall>t. jobs \<le> t \<longrightarrow> po_running p t = None) \<and> ro_real (po_router p) = out"

lemma start_ok: "pool_ok jobs tasks rs out (pool_start tasks out)"
  unfolding pool_ok_def pool_start_def by (auto simp: worker_ok_def intro!: exI [of _ 0])

lemma drop_enumerate:
  assumes "drop m (List.enumerate 0 ks) = (i, k) # q" "m \<le> length ks"
  shows "i = m" "m < length ks" "k = ks ! m" "q = drop (Suc m) (List.enumerate 0 ks)"
proof -
  have "m < length (List.enumerate 0 ks)" using assms by (metis drop_all list.distinct(1) not_le)
  then have m: "m < length ks" and d: "drop m (List.enumerate 0 ks) = List.enumerate 0 ks ! m # drop (Suc m) (List.enumerate 0 ks)"
    by (simp_all add: Cons_nth_drop_Suc)
  then show "i = m" "m < length ks" "k = ks ! m" "q = drop (Suc m) (List.enumerate 0 ks)"
    using assms(1) by (simp_all add: nth_enumerate_eq)
qed

lemma stands_forD:
  assumes "list_all2 stands_for tasks rs" "i < length tasks"
  shows "tk_result (tasks ! i) = (rs ! i)\<lparr>cr_output := []\<rparr>" "concat (tk_writes (tasks ! i)) = cr_output (rs ! i)"
    "tk_buffered (tasks ! i) \<or> tk_writes (tasks ! i) = []"
  using list_all2_nthD [OF assms] by (auto simp: stands_for_def)

lemma pool_step_ok:
  assumes step: "pool_step jobs p p'" and ok: "pool_ok jobs tasks rs out p" and rs: "list_all2 stands_for tasks rs"
  shows "pool_ok jobs tasks rs out p'"
proof -
  from ok obtain m where m: "m \<le> length tasks" "po_queue p = drop m (List.enumerate 0 tasks)"
    and w: "\<And>t. worker_ok rs m (po_running p t) (ro_local (po_router p) t)"
    and res: "\<And>i r. po_results p i = Some r \<Longrightarrow> i < m \<and> r = rs ! i"
    and all: "\<And>i. i < m \<Longrightarrow> po_results p i = None \<Longrightarrow> \<exists>t k. po_running p t = Some (i, k)"
    and idle: "\<And>t. jobs \<le> t \<Longrightarrow> po_running p t = None" and out: "ro_real (po_router p) = out"
    unfolding pool_ok_def by blast
  from step show ?thesis
  proof cases
    case (take t i k q)
    note e = drop_enumerate [OF _ m(1), of i k q, folded m(2), OF take(4)]
    note s = stands_forD [OF rs e(2)]
    have mono: "worker_ok rs (Suc m) r b" if "worker_ok rs m r b" for r b
      using that by (cases r) (auto simp: less_Suc_eq split: if_splits)
    have "ro_local (po_router p) t = None" using w [of t] take(3) by simp
    with s have new: "worker_ok rs (Suc m) (Some (i, k)) (if tk_buffered k then Some [] else None)"
      unfolding e by auto
    have "worker_ok rs (Suc m) (po_running p' u) (ro_local (po_router p') u)" for u
      using new mono [OF w [of u]] \<open>ro_local (po_router p) t = None\<close>
      unfolding take(1) by (cases "u = t") (auto simp del: worker_ok_simps split: if_splits)
    moreover have "\<exists>t k. po_running p' t = Some (j, k)" if "j < Suc m" "po_results p' j = None" for j
    proof (cases "j = m")
      case True
      then show ?thesis using e(1) unfolding take(1) by auto
    next
      case False
      with that all [of j] obtain u l where "po_running p u = Some (j, l)" unfolding take(1) by auto
      moreover from this take(3) have "u \<noteq> t" by auto
      ultimately show ?thesis unfolding take(1) by auto
    qed
    ultimately show ?thesis
      unfolding pool_ok_def using e(2,4) res idle out take(2)
      by (intro conjI exI [of _ "Suc m"]) (auto simp: take(1) less_Suc_eq)
  next
    case (print t i k x ws)
    from w [of t] print(2,3) have k: "i < m" "tk_result k = (rs ! i)\<lparr>cr_output := []\<rparr>" "tk_buffered k"
      by (auto split: if_splits)
    with w [of t] print(2,3) obtain b where b: "ro_local (po_router p) t = Some b"
      "b @ x @ concat ws = cr_output (rs ! i)" by auto
    have "worker_ok rs m (po_running p' u) (ro_local (po_router p') u)" for u
      using k b w [of u] unfolding print(1)
      by (cases "u = t") auto
    moreover have "\<exists>t k. po_running p' t = Some (j, k)" if "j < m" "po_results p' j = None" for j
    proof -
      from that all [of j] obtain u l where "po_running p u = Some (j, l)" unfolding print(1) by auto
      then show ?thesis using print(2) unfolding print(1) by (cases "u = t") auto
    qed
    ultimately show ?thesis
      unfolding pool_ok_def using m res idle out b(1) print(2)
      by (intro conjI exI [of _ m]) (auto simp: print(1))
  next
    case (finish t i k)
    from w [of t] finish(2,3) have k: "i < m" "delivered k (ro_local (po_router p) t) = rs ! i"
      by (auto simp: delivered_def split: if_splits)
    have "worker_ok rs m (po_running p' u) (ro_local (po_router p') u)" for u
    proof (cases "u = t")
      case True
      with w [of t] finish(2) show ?thesis unfolding finish(1) by (auto split: if_splits)
    next
      case False
      with w [of u] show ?thesis unfolding finish(1) by (simp del: worker_ok_simps)
    qed
    moreover have "\<exists>t k. po_running p' t = Some (j, k)" if "j < m" "po_results p' j = None" for j
    proof -
      from that all [of j] obtain u l where "po_running p u = Some (j, l)" "j \<noteq> i"
        unfolding finish(1) by (auto split: if_splits)
      moreover from this finish(2) have "u \<noteq> t" by auto
      ultimately show ?thesis unfolding finish(1) by auto
    qed
    ultimately show ?thesis
      unfolding pool_ok_def using m res idle out k
      by (intro conjI exI [of _ m]) (auto simp: finish(1) split: if_splits)
  qed
qed

lemma step_work:
  assumes step: "pool_step jobs p p'" and idle: "\<And>t. jobs \<le> t \<Longrightarrow> po_running p t = None"
  shows "work_left jobs p = Suc (work_left jobs p')"
  using step
proof cases
  case (take t i k q)
  with left_upd [of t jobs "po_running p" "Some (i, k)"] show ?thesis by (simp add: work_left_def)
next
  case (print t i k x ws)
  then have "t < jobs" using idle by (metis not_le option.distinct(1))
  with print left_upd [of t jobs "po_running p" "Some (i, k\<lparr>tk_writes := ws\<rparr>)"] show ?thesis
    by (simp add: work_left_def)
next
  case (finish t i k)
  then have "t < jobs" using idle by (metis not_le option.distinct(1))
  with finish left_upd [of t jobs "po_running p" None] show ?thesis by (simp add: work_left_def)
qed

lemma run_ok:
  assumes "pool_run jobs n p p'" "p = pool_start tasks out" "list_all2 stands_for tasks rs"
  shows "pool_ok jobs tasks rs out p' \<and> n + work_left jobs p' = pool_work tasks"
  using assms
proof (induction rule: pool_run.induct)
  case (stay p)
  then show ?case using start_ok by (simp add: work_left_def pool_start_def)
next
  case (go n p p' p'')
  then have ok: "pool_ok jobs tasks rs out p'" "n + work_left jobs p' = pool_work tasks" by auto
  then have "work_left jobs p' = Suc (work_left jobs p'')"
    using step_work [OF go.hyps(2)] by (simp add: pool_ok_def)
  with ok go pool_step_ok show ?case by fastforce
qed

text \<open>A pool that has work left can go on.\<close>

lemma progress:
  assumes "0 < jobs" "0 < work_left jobs p"
  shows "\<exists>p'. pool_step jobs p p'"
proof (cases "\<exists>t i k. po_running p t = Some (i, k)")
  case True
  then obtain t i k where "po_running p t = Some (i, k)" by blast
  then show ?thesis
    by (cases "tk_writes k") (blast intro: pool_step.intros)+
next
  case False
  then have none: "po_running p t = None" for t by (cases "po_running p t") auto
  with assms(2) have "po_queue p \<noteq> []" by (auto simp: work_left_def)
  then obtain i k q where "po_queue p = (i, k) # q" by (metis list.exhaust surj_pair)
  with none [of 0] assms(1) show ?thesis by (blast intro: pool_step.take)
qed

lemma no_work_done:
  assumes ok: "pool_ok jobs tasks rs out p" and w: "work_left jobs p = 0" and rs: "list_all2 stands_for tasks rs"
  shows "map (po_results p) [0..<length rs] = map Some rs" "\<not> pool_step jobs p p'"
proof -
  from w have q: "po_queue p = []" by (cases "po_queue p") (auto simp: work_left_def)
  have run: "po_running p t = None" for t
  proof (cases "t < jobs")
    case True
    from w have "(\<Sum>t<jobs. left_of (po_running p t)) = 0" by (simp add: work_left_def)
    with True have "left_of (po_running p t) = 0" by simp
    then show ?thesis by (cases "po_running p t") (auto simp: left_of_def)
  qed (use ok in \<open>simp add: pool_ok_def\<close>)
  from ok obtain m where m0: "po_queue p = drop m (List.enumerate 0 tasks)"
    and m: "\<And>i r. po_results p i = Some r \<Longrightarrow> r = rs ! i"
      "\<And>i. i < m \<Longrightarrow> po_results p i = None \<Longrightarrow> \<exists>t k. po_running p t = Some (i, k)"
    unfolding pool_ok_def by blast
  from m0 q have "length tasks \<le> m" by simp
  have "po_results p i = Some (rs ! i)" if "i < length tasks" for i
    using m(1,2) [of i] \<open>length tasks \<le> m\<close> that run by (cases "po_results p i") auto
  then show "map (po_results p) [0..<length rs] = map Some rs"
    using list_all2_lengthD [OF rs] by (intro nth_equalityI) auto
  show "\<not> pool_step jobs p p'"
    using q run by (auto elim: pool_stepE)
qed

text \<open>C16: Whatever the schedule, all results are delivered: a run of the pool has at most as many steps as there
  is work, it can go on as long as it has had fewer, and once it has had them the results are those of the
  cases, in the order of the manifest, as a sequential run gives them.\<close>

theorem every_case_reported:
  assumes "0 < jobs" "list_all2 stands_for tasks rs" "pool_run jobs n (pool_start tasks out) p"
  shows "n \<le> pool_work tasks
    \<and> (n < pool_work tasks \<longrightarrow> (\<exists>p'. pool_step jobs p p'))
    \<and> (n = pool_work tasks \<longrightarrow>
        map (po_results p) [0..<length rs] = map Some rs \<and> ro_real (po_router p) = out \<and> (\<nexists>p'. pool_step jobs p p'))"
proof -
  from run_ok [OF assms(3) refl assms(2)]
  have ok: "pool_ok jobs tasks rs out p" and n: "n + work_left jobs p = pool_work tasks" by auto
  have "\<exists>p'. pool_step jobs p p'" if "n < pool_work tasks"
    using progress [OF assms(1), of p] n that by simp
  moreover have "map (po_results p) [0..<length rs] = map Some rs \<and> ro_real (po_router p) = out \<and> (\<nexists>p'. pool_step jobs p p')"
    if "n = pool_work tasks"
    using no_work_done [OF ok _ assms(2)] n that ok by (auto simp: pool_ok_def)
  ultimately show ?thesis using n by auto
qed

definition demo_result :: "string \<Rightarrow> case_result" where
  "demo_result name = \<lparr>cr_name = name, cr_ran = 1, cr_output = ulit name @ [10], cr_failure = None\<rparr>"

definition demo_task :: "string \<Rightarrow> task" where
  "demo_task name =
     \<lparr>tk_buffered = True, tk_writes = [ulit name, [10]], tk_result = (demo_result name)\<lparr>cr_output := []\<rparr>\<rparr>"

theorem every_case_reported_witness:
  "\<exists>p. pool_run 2 8 (pool_start [demo_task ''a'', demo_task ''b''] []) p
    \<and> map (po_results p) [0..<2] = [Some (demo_result ''a''), Some (demo_result ''b'')] \<and> ro_real (po_router p) = []"
proof -
  let ?ks = "[demo_task ''a'', demo_task ''b'']" and ?rs = "[demo_result ''a'', demo_result ''b'']"
  have s: "list_all2 stands_for ?ks ?rs" by (simp add: stands_for_def demo_task_def demo_result_def)
  have w: "pool_work ?ks = 8" by (simp add: demo_task_def)
  have "\<exists>p. pool_run 2 n (pool_start ?ks []) p" if "n \<le> 8" for n
    using that
  proof (induction n)
    case (Suc n)
    then obtain p where p: "pool_run 2 n (pool_start ?ks []) p" by auto
    from every_case_reported [OF _ s p] Suc.prems w obtain p' where "pool_step 2 p p'" by auto
    with p show ?case by (blast intro: pool_run.go)
  qed (blast intro: pool_run.stay)
  then obtain p where p: "pool_run 2 8 (pool_start ?ks []) p" by blast
  from every_case_reported [OF _ s p] w have "map (po_results p) [0..<length ?rs] = map Some ?rs" "ro_real (po_router p) = []"
    by simp_all
  with p show ?thesis by (auto simp: numeral_2_eq_2)
qed

text \<open>C17: In every state a schedule reaches nothing a worker has printed is on the real output, and the buffer of
  every worker is a prefix of the output of the case it runs, whatever the others print.\<close>

theorem buffers_isolated:
  assumes "list_all2 stands_for tasks rs" "pool_run jobs n (pool_start tasks out) p"
  shows "ro_real (po_router p) = out
    \<and> (\<forall>t i k b. po_running p t = Some (i, k) \<longrightarrow> ro_local (po_router p) t = Some b \<longrightarrow>
        (\<exists>rest. cr_output (rs ! i) = b @ rest))
    \<and> (\<forall>t. po_running p t = None \<longrightarrow> ro_local (po_router p) t = None)"
proof -
  from run_ok [OF assms(2) refl assms(1)] have ok: "pool_ok jobs tasks rs out p" by simp
  then obtain m where w: "\<And>t. worker_ok rs m (po_running p t) (ro_local (po_router p) t)"
    unfolding pool_ok_def by blast
  have "\<exists>rest. cr_output (rs ! i) = b @ rest"
    if "po_running p t = Some (i, k)" "ro_local (po_router p) t = Some b" for t i k b
    using w [of t] that by (auto split: if_splits) metis
  moreover have "ro_local (po_router p) t = None" if "po_running p t = None" for t
    using w [of t] that by simp
  ultimately show ?thesis using ok by (auto simp: pool_ok_def)
qed

theorem buffers_isolated_witness:
  "\<exists>p. pool_run 2 1 (pool_start [demo_task ''a'', demo_task ''b''] [88]) p \<and> po_running p 1 = Some (0, demo_task ''a'')
    \<and> ro_real (po_router p) = [88] \<and> ro_local (po_router p) 0 = None"
proof -
  let ?ks = "[demo_task ''a'', demo_task ''b'']" and ?rs = "[demo_result ''a'', demo_result ''b'']"
  have s: "list_all2 stands_for ?ks ?rs" by (simp add: stands_for_def demo_task_def demo_result_def)
  have st: "po_running (pool_start ?ks [88]) = (\<lambda>t. None)" "po_queue (pool_start ?ks [88]) = [(0, demo_task ''a''), (1, demo_task ''b'')]"
    by (simp_all add: pool_start_def)
  obtain p where p: "pool_step 2 (pool_start ?ks [88]) p" "po_running p = [1 \<mapsto> (0, demo_task ''a'')]"
    using pool_step.take [of 1 2 "pool_start ?ks [88]"] st by fastforce
  then have "pool_run 2 1 (pool_start ?ks [88]) p" using pool_run.go [OF pool_run.stay] by simp
  with buffers_isolated [OF s this] p(2) show ?thesis by auto
qed

end
