(* ===== verification/FrontendAudit.thy ===== *)
theory FrontendAudit
  imports CompareRun
begin

text \<open>
  \<open>scripts/audit_solc_ast_frontend.py\<close>: the audit of the importer's tables against the sources of a
  manifest. What solc makes of a source is a parameter; \<open>s\<close> is the stack of the importer.
\<close>

section \<open>Counts\<close>

type_synonym counts = "(string \<times> nat) list"
type_synonym nested_counts = "(string \<times> counts) list"

definition add_counts :: "counts \<Rightarrow> counts \<Rightarrow> counts" where
  "add_counts target source = fold (\<lambda>(k, n) d. dput d k (dget_or d k 0 + n)) source target"

definition add_child_field_counts :: "nested_counts \<Rightarrow> nested_counts \<Rightarrow> nested_counts" where
  "add_child_field_counts target source =
     fold (\<lambda>(f, cs) d. dput d f (add_counts (dget_or d f []) cs)) source target"

section \<open>Cases\<close>

definition DEFAULT_NAMESPACE :: string where
  "DEFAULT_NAMESPACE = ''SolidCore.Solidity.SolcAstImport.Generated''"

definition case_source_path :: "string \<Rightarrow> node \<Rightarrow> string option" where
  "case_source_path repo c =
     (case jget c ''solc_import'' of
        JObj d \<Rightarrow>
          (case jget d ''source'' of
             JStr p \<Rightarrow> Some (if starts ''/'' p then p else repo @ ''/'' @ p)
           | _ \<Rightarrow> None)
      | _ \<Rightarrow> None)"

definition case_contract :: "node \<Rightarrow> string option" where
  "case_contract c =
     (case jget c ''solc_import'' of
        JObj d \<Rightarrow> (case jget d ''contract'' of JStr s \<Rightarrow> Some s | _ \<Rightarrow> None)
      | _ \<Rightarrow> None)"

definition case_namespace :: "node \<Rightarrow> string" where
  "case_namespace c =
     (case jget c ''solc_import'' of
        JObj d \<Rightarrow> (case jget d ''namespace'' of JStr s \<Rightarrow> s | _ \<Rightarrow> DEFAULT_NAMESPACE)
      | _ \<Rightarrow> DEFAULT_NAMESPACE)"

section \<open>The audit\<close>

record case_audit =
  au_name :: json
  au_source :: string
  au_rendered :: bool
  au_error :: string
  au_coverage :: coverage

record audit_state =
  as_total :: coverage
  as_cases :: "case_audit list"

definition empty_coverage :: coverage where
  "empty_coverage =
     \<lparr>cov_node_types = [], cov_supported = [], cov_metadata = [], cov_excluded = [], cov_unimplemented = [],
      cov_child_fields = [], cov_source_child_fields = [], cov_metadata_child_fields = [],
      cov_unclassified_child_fields = [], cov_scalar_fields = [], cov_source_scalar_fields = [],
      cov_analysis_scalar_fields = [], cov_metadata_scalar_fields = [], cov_unclassified_scalar_fields = [],
      cov_source_scalar_values = [], cov_unknown_source_scalar_values = []\<rparr>"

text \<open>The aggregate by status is made of the totals at the end.\<close>

definition add_coverage :: "coverage \<Rightarrow> coverage \<Rightarrow> coverage" where
  "add_coverage t c =
     t\<lparr>cov_node_types := add_counts (cov_node_types t) (cov_node_types c),
       cov_child_fields := add_child_field_counts (cov_child_fields t) (cov_child_fields c),
       cov_source_child_fields := add_child_field_counts (cov_source_child_fields t) (cov_source_child_fields c),
       cov_metadata_child_fields := add_child_field_counts (cov_metadata_child_fields t) (cov_metadata_child_fields c),
       cov_unclassified_child_fields :=
         add_child_field_counts (cov_unclassified_child_fields t) (cov_unclassified_child_fields c),
       cov_scalar_fields := add_counts (cov_scalar_fields t) (cov_scalar_fields c),
       cov_source_scalar_fields := add_counts (cov_source_scalar_fields t) (cov_source_scalar_fields c),
       cov_analysis_scalar_fields := add_counts (cov_analysis_scalar_fields t) (cov_analysis_scalar_fields c),
       cov_metadata_scalar_fields := add_counts (cov_metadata_scalar_fields t) (cov_metadata_scalar_fields c),
       cov_unclassified_scalar_fields := add_counts (cov_unclassified_scalar_fields t) (cov_unclassified_scalar_fields c),
       cov_source_scalar_values := add_child_field_counts (cov_source_scalar_values t) (cov_source_scalar_values c),
       cov_unknown_source_scalar_values :=
         add_child_field_counts (cov_unknown_source_scalar_values t) (cov_unknown_source_scalar_values c)\<rparr>"

text \<open>Whether a case renders, and the message when it does not; only an \<open>ImportError\<close> is caught.\<close>

definition render_case :: "nat \<Rightarrow> node \<Rightarrow> string \<Rightarrow> node \<Rightarrow> (bool \<times> string) imp" where
  "render_case s c name ast =
     (case case_contract c of
        None \<Rightarrow> Inr (False, ''missing solc_import.contract'')
      | Some contract \<Rightarrow>
          (case render_module s ast name contract (case_namespace c) True of
             Inr t \<Rightarrow> Inr (True, [])
           | Inl (Fail m) \<Rightarrow> Inr (False, m)
           | Inl (Exn e) \<Rightarrow> Inl (Exn e)))"

definition lift_exn :: "'a res \<Rightarrow> 'a imp" where
  "lift_exn r = map_sum Exn id r"

definition audit_case ::
  "nat \<Rightarrow> (string \<Rightarrow> (string \<times> node) imp) \<Rightarrow> string \<Rightarrow> json \<Rightarrow> audit_state \<Rightarrow> audit_state imp" where
  "audit_case s solc repo v st =
     (case v of
        JObj c \<Rightarrow>
          (case case_source_path repo c of
             None \<Rightarrow> Inr st
           | Some p \<Rightarrow>
               bindR (solc p) (\<lambda>(name, ast).
               bindR (frontend_coverage (JObj ast)) (\<lambda>cov.
               bindR (render_case s c name ast) (\<lambda>(rendered, err).
               bindR (lift_exn (relative_to repo p)) (\<lambda>rel.
                 Inr \<lparr>as_total = add_coverage (as_total st) cov,
                      as_cases = as_cases st @
                        [\<lparr>au_name = jget c ''name'', au_source = rel, au_rendered = rendered, au_error = err,
                          au_coverage = cov\<rparr>]\<rparr>)))))
      | _ \<Rightarrow> Inr st)"

fun audit_cases ::
  "nat \<Rightarrow> (string \<Rightarrow> (string \<times> node) imp) \<Rightarrow> string \<Rightarrow> json list \<Rightarrow> audit_state \<Rightarrow> audit_state imp" where
  "audit_cases s solc repo [] st = Inr st"
| "audit_cases s solc repo (v # vs) st =
     bindR (audit_case s solc repo v st) (\<lambda>st'. audit_cases s solc repo vs st')"

section \<open>What is seen of what is classified\<close>

text \<open>\<open>sorted(set(classified) - set(seen))\<close>.\<close>

definition unseen :: "string list \<Rightarrow> string list \<Rightarrow> string list" where
  "unseen classified seen = sort (remdups (filter (\<lambda>x. x \<notin> set seen) classified))"

definition field_keys :: "(string \<times> string) list \<Rightarrow> string list" where
  "field_keys fs = sort (map (\<lambda>(p, f). child_field_key p f) fs)"

definition value_domains :: "(string \<times> string list) list" where
  "value_domains =
     map (\<lambda>((p, f), vals). (child_field_key p f, sort (remdups (map scalar_value_repr vals))))
       (sort_key (\<lambda>((p, f), vals). [p, f]) SOURCE_SCALAR_VALUE_DOMAINS)"

definition unseen_values :: "nested_counts \<Rightarrow> (string \<times> string list) list" where
  "unseen_values seen =
     filter (\<lambda>(f, vs). vs \<noteq> []) (map (\<lambda>(f, vs). (f, unseen vs (dkeys (dget_or seen f [])))) value_domains)"

definition render_failures :: "case_audit list \<Rightarrow> case_audit list" where
  "render_failures cs = filter (\<lambda>c. au_error c \<noteq> []) cs"

definition aggregate :: "string \<Rightarrow> counts \<Rightarrow> counts" where
  "aggregate st d = by_status node_type_status st (sorted_items d)"

definition unseen_types :: "string list \<Rightarrow> string \<Rightarrow> counts \<Rightarrow> string list" where
  "unseen_types classified st d = unseen classified (dkeys (aggregate st d))"

text \<open>The status: 0 when nothing is unclassified, unseen or not rendered.\<close>

definition audit_status :: "audit_state \<Rightarrow> nat" where
  "audit_status st =
     (let t = as_total st; nt = cov_node_types t in
      if aggregate ''excluded'' nt = [] \<and> aggregate ''unimplemented'' nt = []
         \<and> unseen_types SUPPORTED_NODE_TYPES ''supported'' nt = []
         \<and> unseen_types METADATA_NODE_TYPES ''metadata'' nt = []
         \<and> cov_unclassified_child_fields t = []
         \<and> unseen (field_keys SOURCE_CHILD_FIELDS) (dkeys (cov_source_child_fields t)) = []
         \<and> unseen (field_keys METADATA_CHILD_FIELDS) (dkeys (cov_metadata_child_fields t)) = []
         \<and> cov_unclassified_scalar_fields t = []
         \<and> unseen (field_keys SOURCE_SCALAR_FIELDS) (dkeys (cov_source_scalar_fields t)) = []
         \<and> cov_unknown_source_scalar_values t = [] \<and> unseen_values (cov_source_scalar_values t) = []
         \<and> render_failures (as_cases st) = []
      then 0 else 1)"

section \<open>The report\<close>

definition counts_json :: "counts \<Rightarrow> json" where
  "counts_json d = JObj (map (\<lambda>(k, n). (k, JInt (int n))) (sorted_items d))"

definition nested_json :: "nested_counts \<Rightarrow> json" where
  "nested_json d = JObj (map (\<lambda>(k, c). (k, counts_json c)) (sorted_items d))"

definition strings_json :: "string list \<Rightarrow> json" where
  "strings_json xs = JList (map JStr xs)"

definition case_json :: "case_audit \<Rightarrow> json" where
  "case_json c =
     (let v = au_coverage c in
      JObj [(''name'', au_name c), (''source'', JStr (au_source c)), (''rendered'', JBool (au_rendered c)),
        (''renderError'', JStr (au_error c)), (''metadata'', counts_json (cov_metadata v)),
        (''excluded'', counts_json (cov_excluded v)), (''unimplemented'', counts_json (cov_unimplemented v)),
        (''unclassifiedChildFields'', nested_json (cov_unclassified_child_fields v)),
        (''unclassifiedScalarFields'', counts_json (cov_unclassified_scalar_fields v)),
        (''unknownSourceScalarValues'', nested_json (cov_unknown_source_scalar_values v))])"

definition failure_json :: "case_audit \<Rightarrow> json" where
  "failure_json c =
     JObj [(''name'', JStr (py_str (au_name c))), (''source'', JStr (au_source c)), (''error'', JStr (au_error c))]"

definition report_json :: "audit_state \<Rightarrow> json" where
  "report_json st =
     (let t = as_total st; nt = cov_node_types t; cs = as_cases st in
      JObj [(''sources'', JInt (int (length cs))), (''nodeTypes'', counts_json nt),
        (''classifiedSupportedNodeTypes'', strings_json (sort SUPPORTED_NODE_TYPES)),
        (''classifiedMetadataNodeTypes'', strings_json (sort METADATA_NODE_TYPES)),
        (''supported'', counts_json (aggregate ''supported'' nt)), (''metadata'', counts_json (aggregate ''metadata'' nt)),
        (''excluded'', counts_json (aggregate ''excluded'' nt)),
        (''unimplemented'', counts_json (aggregate ''unimplemented'' nt)),
        (''unseenSupportedNodeTypes'', strings_json (unseen_types SUPPORTED_NODE_TYPES ''supported'' nt)),
        (''unseenMetadataNodeTypes'', strings_json (unseen_types METADATA_NODE_TYPES ''metadata'' nt)),
        (''classifiedSourceChildFields'', strings_json (field_keys SOURCE_CHILD_FIELDS)),
        (''classifiedMetadataChildFields'', strings_json (field_keys METADATA_CHILD_FIELDS)),
        (''childFields'', nested_json (cov_child_fields t)), (''sourceChildFields'', nested_json (cov_source_child_fields t)),
        (''metadataChildFields'', nested_json (cov_metadata_child_fields t)),
        (''unclassifiedChildFields'', nested_json (cov_unclassified_child_fields t)),
        (''unseenSourceChildFields'', strings_json (unseen (field_keys SOURCE_CHILD_FIELDS) (dkeys (cov_source_child_fields t)))),
        (''unseenMetadataChildFields'', strings_json (unseen (field_keys METADATA_CHILD_FIELDS) (dkeys (cov_metadata_child_fields t)))),
        (''classifiedSourceScalarFields'', strings_json (field_keys SOURCE_SCALAR_FIELDS)),
        (''scalarFields'', counts_json (cov_scalar_fields t)), (''sourceScalarFields'', counts_json (cov_source_scalar_fields t)),
        (''analysisScalarFields'', counts_json (cov_analysis_scalar_fields t)),
        (''metadataScalarFields'', counts_json (cov_metadata_scalar_fields t)),
        (''unclassifiedScalarFields'', counts_json (cov_unclassified_scalar_fields t)),
        (''unseenSourceScalarFields'', strings_json (unseen (field_keys SOURCE_SCALAR_FIELDS) (dkeys (cov_source_scalar_fields t)))),
        (''sourceScalarValueDomains'', JObj (map (\<lambda>(f, vs). (f, strings_json vs)) value_domains)),
        (''sourceScalarValues'', nested_json (cov_source_scalar_values t)),
        (''unseenSourceScalarValues'', JObj (map (\<lambda>(f, vs). (f, strings_json vs)) (sorted_items (unseen_values (cov_source_scalar_values t))))),
        (''unknownSourceScalarValues'', nested_json (cov_unknown_source_scalar_values t)),
        (''renderedSources'', JInt (int (length (filter au_rendered cs)))),
        (''renderFailures'', JList (map failure_json (render_failures cs))),
        (''cases'', JList (map case_json cs))])"

definition load_audit_manifest :: "json \<Rightarrow> json list imp" where
  "load_audit_manifest v =
     (case v of
        JObj m \<Rightarrow> (case jget m ''cases'' of JList cases \<Rightarrow> Inr cases | _ \<Rightarrow> Inl (Exn ValueError))
      | _ \<Rightarrow> Inl (Exn ValueError))"

definition audit_manifest ::
  "nat \<Rightarrow> (string \<Rightarrow> (string \<times> node) imp) \<Rightarrow> string \<Rightarrow> json \<Rightarrow> (audit_state \<times> nat) imp" where
  "audit_manifest s solc repo manifest =
     bindR (load_audit_manifest manifest) (\<lambda>cases.
     bindR (audit_cases s solc repo cases \<lparr>as_total = empty_coverage, as_cases = []\<rparr>) (\<lambda>st.
       Inr (st, audit_status st)))"

section \<open>Printing\<close>

definition count_lines :: "audit_state \<Rightarrow> (string \<times> nat) list" where
  "count_lines st =
     (let t = as_total st; nt = cov_node_types t; cs = as_cases st in
      [(''sources'', length cs), (''node_types'', length nt), (''supported_node_types'', length (aggregate ''supported'' nt)),
       (''classified_supported_node_types'', length SUPPORTED_NODE_TYPES),
       (''unseen_supported_node_types'', length (unseen_types SUPPORTED_NODE_TYPES ''supported'' nt)),
       (''metadata_node_types'', length (aggregate ''metadata'' nt)),
       (''classified_metadata_node_types'', length METADATA_NODE_TYPES),
       (''unseen_metadata_node_types'', length (unseen_types METADATA_NODE_TYPES ''metadata'' nt)),
       (''excluded_node_types'', length (aggregate ''excluded'' nt)),
       (''unimplemented_node_types'', length (aggregate ''unimplemented'' nt)),
       (''child_fields'', length (cov_child_fields t)), (''source_child_fields'', length (cov_source_child_fields t)),
       (''classified_source_child_fields'', length SOURCE_CHILD_FIELDS),
       (''unseen_source_child_fields'', length (unseen (field_keys SOURCE_CHILD_FIELDS) (dkeys (cov_source_child_fields t)))),
       (''metadata_child_fields'', length (cov_metadata_child_fields t)),
       (''classified_metadata_child_fields'', length METADATA_CHILD_FIELDS),
       (''unseen_metadata_child_fields'', length (unseen (field_keys METADATA_CHILD_FIELDS) (dkeys (cov_metadata_child_fields t)))),
       (''unclassified_child_fields'', length (cov_unclassified_child_fields t)),
       (''scalar_fields'', length (cov_scalar_fields t)), (''source_scalar_fields'', length (cov_source_scalar_fields t)),
       (''classified_source_scalar_fields'', length SOURCE_SCALAR_FIELDS),
       (''unseen_source_scalar_fields'', length (unseen (field_keys SOURCE_SCALAR_FIELDS) (dkeys (cov_source_scalar_fields t)))),
       (''analysis_scalar_fields'', length (cov_analysis_scalar_fields t)),
       (''metadata_scalar_fields'', length (cov_metadata_scalar_fields t)),
       (''unclassified_scalar_fields'', length (cov_unclassified_scalar_fields t)),
       (''source_scalar_value_fields'', length (cov_source_scalar_values t)),
       (''unknown_source_scalar_value_fields'', length (cov_unknown_source_scalar_values t)),
       (''source_scalar_value_domain_fields'', length value_domains),
       (''unseen_source_scalar_value_fields'', length (unseen_values (cov_source_scalar_values t))),
       (''rendered_sources'', length (filter au_rendered cs)), (''render_failures'', length (render_failures cs))])"

text \<open>A line of names is printed when there is one.\<close>

definition names_line :: "string \<Rightarrow> string list \<Rightarrow> string list" where
  "names_line label xs = (if xs = [] then [] else [label @ ''='' @ join '','' xs])"

definition name_lines :: "audit_state \<Rightarrow> string list" where
  "name_lines st =
     (let t = as_total st; nt = cov_node_types t; uv = unseen_values (cov_source_scalar_values t);
          keys = (\<lambda>d. sort (dkeys d)); nkeys = (\<lambda>d. sort (dkeys d)) in
      names_line ''metadata'' (keys (aggregate ''metadata'' nt))
      @ names_line ''excluded'' (keys (aggregate ''excluded'' nt))
      @ names_line ''unimplemented'' (keys (aggregate ''unimplemented'' nt))
      @ names_line ''unseen_supported_node_types'' (unseen_types SUPPORTED_NODE_TYPES ''supported'' nt)
      @ names_line ''unseen_metadata_node_types'' (unseen_types METADATA_NODE_TYPES ''metadata'' nt)
      @ names_line ''unclassified_child_fields'' (nkeys (cov_unclassified_child_fields t))
      @ names_line ''unclassified_scalar_fields'' (keys (cov_unclassified_scalar_fields t))
      @ names_line ''unknown_source_scalar_values'' (nkeys (cov_unknown_source_scalar_values t))
      @ names_line ''unseen_source_scalar_value_fields'' (sort (dkeys uv))
      @ map (\<lambda>(f, vs). ''unseen_source_scalar_values.'' @ f @ ''='' @ join '','' vs) (sorted_items uv)
      @ names_line ''unseen_source_scalar_fields'' (unseen (field_keys SOURCE_SCALAR_FIELDS) (dkeys (cov_source_scalar_fields t)))
      @ names_line ''unseen_source_child_fields'' (unseen (field_keys SOURCE_CHILD_FIELDS) (dkeys (cov_source_child_fields t)))
      @ names_line ''unseen_metadata_child_fields'' (unseen (field_keys METADATA_CHILD_FIELDS) (dkeys (cov_metadata_child_fields t)))
      @ names_line ''render_failures'' (map (\<lambda>c. py_str (au_name c)) (render_failures (as_cases st))))"

definition audit_lines :: "audit_state \<Rightarrow> nat \<Rightarrow> string list" where
  "audit_lines st status =
     [''solc_ast_frontend_audit='' @ (if status = 0 then ''pass'' else ''fail'')]
     @ map (\<lambda>(l, n). l @ ''='' @ show_nat n) (count_lines st) @ name_lines st"

text \<open>\<open>json.dumps(value, indent=2, sort_keys=True)\<close> at a depth.\<close>

definition pad :: "nat \<Rightarrow> string" where
  "pad n = NL @ replicate (2 * n) (CHR '' '')"

fun dumps_indent :: "nat \<Rightarrow> json \<Rightarrow> string" where
  "dumps_indent n (JList xs) =
     (if xs = [] then ''[]''
      else ''['' @ join '','' (map (\<lambda>v. pad (Suc n) @ dumps_indent (Suc n) v) xs) @ pad n @ '']'')"
| "dumps_indent n (JObj d) =
     (if d = [] then ''{}''
      else ''{'' @ join '','' (map snd (sort_key fst
          (map (\<lambda>(k, v). (k, pad (Suc n) @ dumps_str k @ '': '' @ dumps_indent (Suc n) v)) d))) @ pad n @ ''}'')"
| "dumps_indent n v = dumps v"

text \<open>\<open>main\<close>: \<open>message\<close> is the text of an exception and \<open>traceback\<close> what an uncaught one prints.\<close>

definition audit_main ::
  "nat \<Rightarrow> (string \<Rightarrow> (string \<times> node) imp) \<Rightarrow> (pyexn \<Rightarrow> string) \<Rightarrow> (pyexn \<Rightarrow> utext) \<Rightarrow> string \<Rightarrow> bool \<Rightarrow> json imp \<Rightarrow> capture" where
  "audit_main s solc message traceback repo as_json manifest =
     (let error = (\<lambda>m. Exit 1 [] (ulit (''error: '' @ m @ NL))) in
      case bindR manifest (audit_manifest s solc repo) of
        Inl (Fail m) \<Rightarrow> error m
      | Inl (Exn e) \<Rightarrow>
          if e \<in> {OSError, ValueError, JSONDecodeError} then error (message e) else Exit 1 [] (traceback e)
      | Inr (st, status) \<Rightarrow>
          Exit (int status)
            (ulit (if as_json then dumps_indent 0 (report_json st) @ NL
                   else concat (map (\<lambda>l. l @ NL) (audit_lines st status)))) [])"

end
