(* ===== verification/FrontendAuditProps.thy ===== *)
theory FrontendAuditProps
  imports FrontendAudit ImportAudit CacheProps
begin

text \<open>
  The audit of the importer's tables passes exactly when the tables and the sources of the manifest agree:
  every AST passes the importer's own guard and renders, and everything the tables classify occurs.
\<close>

section \<open>Keys of the totals\<close>

lemma dkeys_Cons: "dkeys ((k, v) # d) = k # dkeys d"
  by (simp add: dkeys_def)

lemma keys_add_counts [simp]: "set (dkeys (add_counts t c)) = set (dkeys t) \<union> set (dkeys c)"
proof -
  have "set (dkeys (fold (\<lambda>(k, n) d. dput d k (dget_or d k 0 + n)) c t)) = set (dkeys t) \<union> set (dkeys c)"
    by (induction c arbitrary: t) (auto simp: dkeys_Cons split: if_splits)
  then show ?thesis by (simp add: add_counts_def)
qed

lemma keys_add_nested [simp]: "set (dkeys (add_child_field_counts t c)) = set (dkeys t) \<union> set (dkeys c)"
proof -
  have "set (dkeys (fold (\<lambda>(f, cs) d. dput d f (add_counts (dget_or d f []) cs)) c t)) = set (dkeys t) \<union> set (dkeys c)"
    by (induction c arbitrary: t) (auto simp: dkeys_Cons split: if_splits)
  then show ?thesis by (simp add: add_child_field_counts_def)
qed

text \<open>The keys below a key.\<close>

definition inner :: "nested_counts \<Rightarrow> string \<Rightarrow> string set" where
  "inner d k = set (dkeys (dget_or d k []))"

lemma inner_Nil [simp]: "inner [] k = {}"
  by (simp add: inner_def dget_or_def)

lemma inner_put: "inner (dput d k c) k' = (if k = k' then set (dkeys c) else inner d k')"
  by (simp add: inner_def dget_or_def)

lemma inner_absent: "k \<notin> set (dkeys d) \<Longrightarrow> inner d k = {}"
  using dget_None_keys [of d k] by (simp add: inner_def dget_or_def)

lemma inner_add:
  "distinct (dkeys c) \<Longrightarrow> inner (add_child_field_counts t c) k = inner t k \<union> inner c k"
  unfolding add_child_field_counts_def
proof (induction c arbitrary: t)
  case (Cons x c)
  obtain f cs where x: "x = (f, cs)" by (cases x)
  with Cons.prems have d: "f \<notin> set (dkeys c)" "distinct (dkeys c)" by (simp_all add: dkeys_def)
  have "inner (dput t f (add_counts (dget_or t f []) cs)) k = inner t k \<union> (if k = f then set (dkeys cs) else {})"
    by (auto simp: inner_put) (auto simp: inner_def)
  moreover have "inner (x # c) k = (if k = f then set (dkeys cs) else inner c k)"
    by (simp add: x inner_def dget_or_def)
  ultimately show ?case using Cons.IH [OF d(2)] inner_absent [OF d(1)] by (auto simp: x)
qed simp

lemma inner_bump_in:
  "inner (fold (\<lambda>x. bump_in (g x) (h x)) xs d) k = inner d k \<union> {h x | x. x \<in> set xs \<and> g x = k}"
proof (induction xs arbitrary: d)
  case (Cons x xs)
  have "inner (bump_in (g x) (h x) d) k = inner d k \<union> (if g x = k then {h x} else {})"
    by (auto simp: bump_in_def bump_def inner_put) (auto simp: inner_def dget_or_def)
  with Cons show ?case by auto
qed simp

lemma dget_sorted_nested: "dget (sorted_nested d) k = map_option sorted_items (dget d k)"
proof -
  have "dget (map (\<lambda>(k, c). (k, sorted_items c)) e) k = map_option sorted_items (dget e k)" for e :: nested_counts
    by (induction e) auto
  then show ?thesis by (simp add: sorted_nested_def sorted_items_def [of d] dget_sort_key)
qed

lemma inner_sorted: "inner (sorted_nested d) k = inner d k"
  by (cases "dget d k") (simp_all add: inner_def dget_or_def dget_sorted_nested)

lemma distinct_sorted: "distinct (dkeys d) \<Longrightarrow> distinct (dkeys (sorted_nested d))"
proof -
  have e: "dkeys (sorted_nested d) = map fst (sort_key fst d)"
    by (simp add: sorted_nested_def sorted_items_def dkeys_def case_prod_beta o_def)
  assume "distinct (dkeys d)"
  then show ?thesis unfolding e by (simp add: dkeys_def distinct_map)
qed

lemma distinct_bump_in: "distinct (dkeys d) \<Longrightarrow> distinct (dkeys (fold (\<lambda>x. bump_in (g x) (h x)) xs d))"
  by (induction xs arbitrary: d) (auto simp: bump_in_def)

lemma values_counted:
  "inner (source_scalar_value_counts v) k =
     {scalar_value_repr x | p f x. (p, f, x) \<in> set (iter_scalar_fields v) \<and> domain_of p f \<noteq> None \<and> child_field_key p f = k}"
  "distinct (dkeys (source_scalar_value_counts v))"
proof -
  let ?xs = "filter (\<lambda>(p, f, x). domain_of p f \<noteq> None) (iter_scalar_fields v)"
  let ?g = "\<lambda>(p, f, x). child_field_key p f" and ?h = "\<lambda>(p, f, x). scalar_value_repr x"
  have c: "source_scalar_value_counts v = sorted_nested (fold (\<lambda>x. bump_in (?g x) (?h x)) ?xs [])"
    by (simp add: source_scalar_value_counts_def case_prod_beta')
  show "inner (source_scalar_value_counts v) k =
     {scalar_value_repr x | p f x. (p, f, x) \<in> set (iter_scalar_fields v) \<and> domain_of p f \<noteq> None \<and> child_field_key p f = k}"
    unfolding c inner_sorted inner_bump_in by fastforce
  show "distinct (dkeys (source_scalar_value_counts v))"
    unfolding c by (intro distinct_sorted distinct_bump_in) simp
qed

section \<open>The audit as a sum over the ASTs\<close>

text \<open>The AST of a case that names a source.\<close>

definition case_ast :: "(string \<Rightarrow> (string \<times> node) imp) \<Rightarrow> string \<Rightarrow> json \<Rightarrow> json option" where
  "case_ast solc repo v =
     (case v of
        JObj c \<Rightarrow>
          (case case_source_path repo c of
             None \<Rightarrow> None
           | Some p \<Rightarrow> (case solc p of Inr (n, ast) \<Rightarrow> Some (JObj ast) | Inl e \<Rightarrow> None))
      | _ \<Rightarrow> None)"

definition case_asts :: "(string \<Rightarrow> (string \<times> node) imp) \<Rightarrow> string \<Rightarrow> json list \<Rightarrow> json list" where
  "case_asts solc repo cases = List.map_filter (case_ast solc repo) cases"

text \<open>The message of a case that does not render.\<close>

definition case_error :: "nat \<Rightarrow> (string \<Rightarrow> (string \<times> node) imp) \<Rightarrow> string \<Rightarrow> json \<Rightarrow> string" where
  "case_error s solc repo v =
     (case v of
        JObj c \<Rightarrow>
          (case case_source_path repo c of
             None \<Rightarrow> []
           | Some p \<Rightarrow>
               (case bindR (solc p) (\<lambda>(n, ast). render_case s c n ast) of Inr (rendered, err) \<Rightarrow> err | Inl e \<Rightarrow> []))
      | _ \<Rightarrow> [])"

lemma audit_case_sum:
  assumes "audit_case s solc repo v st = Inr st'"
  shows "case case_ast solc repo v of
      None \<Rightarrow> st' = st \<and> case_error s solc repo v = []
    | Some a \<Rightarrow> (\<exists>cov r. frontend_coverage a = Inr cov \<and> as_total st' = add_coverage (as_total st) cov
        \<and> as_cases st' = as_cases st @ [r] \<and> au_error r = case_error s solc repo v)"
proof (cases v)
  case (JObj c)
  show ?thesis
  proof (cases "case_source_path repo c")
    case None
    with assms JObj show ?thesis by (simp add: audit_case_def case_ast_def case_error_def)
  next
    case (Some p)
    with assms JObj show ?thesis
      by (auto simp: audit_case_def bindR_eq_Inr case_ast_def case_error_def)
  qed
qed (use assms in \<open>simp_all add: audit_case_def case_ast_def case_error_def\<close>)

text \<open>The totals hold what the coverages of the ASTs hold.\<close>

lemma audit_cases_sum:
  assumes "audit_cases s solc repo vs st = Inr st'"
  shows "\<exists>covs. list_all2 (\<lambda>a c. frontend_coverage a = Inr c) (case_asts solc repo vs) covs
    \<and> as_total st' = fold (\<lambda>c t. add_coverage t c) covs (as_total st)
    \<and> (render_failures (as_cases st') = [] \<longleftrightarrow>
        render_failures (as_cases st) = [] \<and> (\<forall>v \<in> set vs. case_error s solc repo v = []))"
  using assms
proof (induction vs arbitrary: st)
  case Nil
  then show ?case by (simp add: case_asts_def List.map_filter_simps)
next
  case (Cons v vs)
  then obtain st1 where st1: "audit_case s solc repo v st = Inr st1" "audit_cases s solc repo vs st1 = Inr st'"
    by (auto simp: bindR_eq_Inr)
  from Cons.IH [OF st1(2)] obtain covs where IH: "list_all2 (\<lambda>a c. frontend_coverage a = Inr c) (case_asts solc repo vs) covs"
    "as_total st' = fold (\<lambda>c t. add_coverage t c) covs (as_total st1)"
    "render_failures (as_cases st') = [] \<longleftrightarrow>
        render_failures (as_cases st1) = [] \<and> (\<forall>v \<in> set vs. case_error s solc repo v = [])" by blast
  note c = audit_case_sum [OF st1(1)]
  show ?case
  proof (cases "case_ast solc repo v")
    case None
    with c IH show ?thesis by (intro exI [of _ covs]) (simp add: case_asts_def List.map_filter_simps)
  next
    case (Some a)
    with c obtain cov r where "frontend_coverage a = Inr cov" "as_total st1 = add_coverage (as_total st) cov"
      "as_cases st1 = as_cases st @ [r]" "au_error r = case_error s solc repo v" by auto
    with Some IH show ?thesis
      by (intro exI [of _ "cov # covs"]) (auto simp: case_asts_def List.map_filter_simps render_failures_def)
  qed
qed

lemma total_simps':
  "cov_node_types (add_coverage t c) = add_counts (cov_node_types t) (cov_node_types c)"
  "cov_unclassified_child_fields (add_coverage t c) = add_child_field_counts (cov_unclassified_child_fields t) (cov_unclassified_child_fields c)"
  "cov_source_child_fields (add_coverage t c) = add_child_field_counts (cov_source_child_fields t) (cov_source_child_fields c)"
  "cov_metadata_child_fields (add_coverage t c) = add_child_field_counts (cov_metadata_child_fields t) (cov_metadata_child_fields c)"
  "cov_unclassified_scalar_fields (add_coverage t c) = add_counts (cov_unclassified_scalar_fields t) (cov_unclassified_scalar_fields c)"
  "cov_source_scalar_fields (add_coverage t c) = add_counts (cov_source_scalar_fields t) (cov_source_scalar_fields c)"
  "cov_source_scalar_values (add_coverage t c) = add_child_field_counts (cov_source_scalar_values t) (cov_source_scalar_values c)"
  "cov_unknown_source_scalar_values (add_coverage t c) = add_child_field_counts (cov_unknown_source_scalar_values t) (cov_unknown_source_scalar_values c)"
  by (simp_all add: add_coverage_def)

lemma fold_keys:
  assumes "\<And>t c. K (add_coverage t c) = K t \<union> K c"
  shows "K (fold (\<lambda>c t. add_coverage t c) covs t) = K t \<union> (\<Union>c \<in> set covs. K c)"
  by (induction covs arbitrary: t) (auto simp: assms)

lemma total_keys:
  fixes covs :: "coverage list"
  defines "T \<equiv> fold (\<lambda>c t. add_coverage t c) covs empty_coverage"
  shows "set (dkeys (cov_node_types T)) = (\<Union>c \<in> set covs. set (dkeys (cov_node_types c)))"
    "set (dkeys (cov_unclassified_child_fields T)) = (\<Union>c \<in> set covs. set (dkeys (cov_unclassified_child_fields c)))"
    "set (dkeys (cov_source_child_fields T)) = (\<Union>c \<in> set covs. set (dkeys (cov_source_child_fields c)))"
    "set (dkeys (cov_metadata_child_fields T)) = (\<Union>c \<in> set covs. set (dkeys (cov_metadata_child_fields c)))"
    "set (dkeys (cov_unclassified_scalar_fields T)) = (\<Union>c \<in> set covs. set (dkeys (cov_unclassified_scalar_fields c)))"
    "set (dkeys (cov_source_scalar_fields T)) = (\<Union>c \<in> set covs. set (dkeys (cov_source_scalar_fields c)))"
    "set (dkeys (cov_unknown_source_scalar_values T)) = (\<Union>c \<in> set covs. set (dkeys (cov_unknown_source_scalar_values c)))"
  unfolding T_def by (subst fold_keys; simp add: total_simps' empty_coverage_def)+

lemma total_values:
  assumes "\<forall>c \<in> set covs. distinct (dkeys (cov_source_scalar_values c))"
  shows "inner (cov_source_scalar_values (fold (\<lambda>c t. add_coverage t c) covs t)) k =
    inner (cov_source_scalar_values t) k \<union> (\<Union>c \<in> set covs. inner (cov_source_scalar_values c) k)"
  using assms by (induction covs arbitrary: t) (auto simp: total_simps' inner_add)

section \<open>The status\<close>

lemma coverage_fields:
  assumes "frontend_coverage a = Inr c"
  shows "cov_node_types c = node_type_counts a"
    "cov_excluded c = by_status node_type_status ''excluded'' (node_type_counts a)"
    "cov_unimplemented c = by_status node_type_status ''unimplemented'' (node_type_counts a)"
    "cov_source_child_fields c = by_status (key_status child_field_status) ''source'' (child_field_counts a)"
    "cov_metadata_child_fields c = by_status (key_status child_field_status) ''metadata'' (child_field_counts a)"
    "cov_source_scalar_fields c = by_status (key_status scalar_field_status) ''source'' (scalar_field_counts a)"
    "cov_source_scalar_values c = source_scalar_value_counts a"
  using assms by (auto simp: frontend_coverage_def bindR_eq_Inr Let_def)

lemma guard_coverage:
  assumes "frontend_coverage a = Inr c"
  shows "guard_no_unsupported_nodes a = Inr () \<longleftrightarrow>
    cov_excluded c = [] \<and> cov_unimplemented c = [] \<and> cov_unclassified_child_fields c = []
    \<and> cov_unclassified_scalar_fields c = [] \<and> cov_unknown_source_scalar_values c = []"
proof -
  have nil: "dkeys d = [] \<longleftrightarrow> d = []" for d :: counts by (simp add: dkeys_def)
  show ?thesis
    unfolding guard_no_unsupported_nodes_def assms Let_def bindR_simps nil
    by (auto simp: bindR_eq_Inr guard_empty_ok fail_def split: if_splits)
qed

lemma keys_by_status: "set (dkeys (by_status f st d)) = {k \<in> set (dkeys d). f k = st}"
  by (auto simp: by_status_def dkeys_def)

lemma empty_keys: "d = [] \<longleftrightarrow> set (dkeys d) = {}"
  by (simp add: dkeys_def)

lemma unseen_empty: "unseen xs ys = [] \<longleftrightarrow> set xs \<subseteq> set ys"
proof -
  have "unseen xs ys = [] \<longleftrightarrow> set (unseen xs ys) = {}" by simp
  also have "\<dots> \<longleftrightarrow> set xs \<subseteq> set ys" by (auto simp: unseen_def)
  finally show ?thesis .
qed

lemma union_matched:
  "list_all2 R xs ys \<Longrightarrow> (\<And>x y. R x y \<Longrightarrow> F y = G x) \<Longrightarrow> (\<Union>y \<in> set ys. F y) = (\<Union>x \<in> set xs. G x)"
  by (induction rule: list_all2_induct) auto

lemma all_matched:
  "list_all2 R xs ys \<Longrightarrow> (\<And>x y. R x y \<Longrightarrow> P x \<longleftrightarrow> Q y) \<Longrightarrow> (\<forall>x \<in> set xs. P x) \<longleftrightarrow> (\<forall>y \<in> set ys. Q y)"
  by (induction rule: list_all2_induct) auto

text \<open>The tables: no name of a node type has a dot, and no two statuses overlap.\<close>

definition dotless :: "string \<Rightarrow> bool" where
  "dotless t \<longleftrightarrow> CHR ''.'' \<notin> set t"

lemma tables_dotless:
  "list_all (\<lambda>x. dotless (fst x)) SOURCE_CHILD_FIELDS" "list_all (\<lambda>x. dotless (fst x)) METADATA_CHILD_FIELDS"
  "list_all (\<lambda>x. dotless (fst x)) SOURCE_SCALAR_FIELDS" "list_all (\<lambda>x. dotless (fst (fst x))) SOURCE_SCALAR_VALUE_DOMAINS"
  by (simp_all add: SOURCE_CHILD_FIELDS_def METADATA_CHILD_FIELDS_def SOURCE_SCALAR_FIELDS_def
      SOURCE_SCALAR_VALUE_DOMAINS_def dotless_def)

lemma tables_disjoint:
  "\<forall>x \<in> set METADATA_NODE_TYPES. x \<notin> set SUPPORTED_NODE_TYPES"
  "\<forall>x \<in> set METADATA_CHILD_FIELDS. x \<notin> set SOURCE_CHILD_FIELDS"
  by code_simp+

lemma domains_distinct: "distinct (map fst SOURCE_SCALAR_VALUE_DOMAINS)"
  by (simp add: SOURCE_SCALAR_VALUE_DOMAINS_def)

lemma key_inj:
  assumes "dotless p" "dotless p'"
  shows "child_field_key p f = child_field_key p' f' \<longleftrightarrow> p = p' \<and> f = f'"
proof
  assume e: "child_field_key p f = child_field_key p' f'"
  from assms have "part_at ''.'' (child_field_key p f) = Some (p, f)" "part_at ''.'' (child_field_key p' f') = Some (p', f')"
    by (simp_all add: child_field_key_def dotless_def part_at_dot)
  with e show "p = p' \<and> f = f'" by (metis option.inject prod.inject)
qed simp

text \<open>Everything the tables classify occurs in one of the ASTs.\<close>

definition everything_occurs :: "json list \<Rightarrow> bool" where
  "everything_occurs asts \<longleftrightarrow>
     set SUPPORTED_NODE_TYPES \<union> set METADATA_NODE_TYPES \<subseteq> (\<Union>a \<in> set asts. set (iter_node_types a))
     \<and> (\<forall>(p, f) \<in> set SOURCE_CHILD_FIELDS \<union> set METADATA_CHILD_FIELDS.
          \<exists>a \<in> set asts. \<exists>c. (p, f, c) \<in> set (iter_child_edges a))
     \<and> (\<forall>(p, f) \<in> set SOURCE_SCALAR_FIELDS. \<exists>a \<in> set asts. \<exists>x. (p, f, x) \<in> set (iter_scalar_fields a))
     \<and> (\<forall>((p, f), vals) \<in> set SOURCE_SCALAR_VALUE_DOMAINS. \<forall>v \<in> set vals.
          \<exists>a \<in> set asts. \<exists>x. (p, f, x) \<in> set (iter_scalar_fields a) \<and> scalar_value_repr x = scalar_value_repr v)"

lemma in_keys: "k \<in> (\<lambda>(p, f, c). g p f) ` A \<longleftrightarrow> (\<exists>p f c. (p, f, c) \<in> A \<and> k = g p f)"
  by force

lemma edge_key:
  assumes "list_all dotless (iter_node_types a)" "dotless p"
  shows "child_field_key p f \<in> set (dkeys (child_field_counts a)) \<longleftrightarrow> (\<exists>c. (p, f, c) \<in> set (iter_child_edges a))"
proof -
  have "dotless q" if "(q, g, c) \<in> set (iter_child_edges a)" for q g c
    using iter_edge_parents [OF that] assms(1) by (simp add: list_all_iff)
  then have "child_field_key p f = child_field_key q g \<longleftrightarrow> p = q \<and> f = g" if "(q, g, c) \<in> set (iter_child_edges a)" for q g c
    using key_inj [OF assms(2)] that by blast
  then show ?thesis unfolding keys_child_fields in_keys by blast
qed

lemma scalar_key:
  assumes "list_all dotless (iter_node_types a)" "dotless p" "(q, g, x) \<in> set (iter_scalar_fields a)"
  shows "child_field_key q g = child_field_key p f \<longleftrightarrow> q = p \<and> g = f"
  using iter_scalar_parents [OF assms(3)] assms(1) by (intro key_inj assms(2)) (simp add: list_all_iff)

lemma scalar_key_in:
  assumes "list_all dotless (iter_node_types a)" "dotless p"
  shows "child_field_key p f \<in> set (dkeys (scalar_field_counts a)) \<longleftrightarrow> (\<exists>x. (p, f, x) \<in> set (iter_scalar_fields a))"
  unfolding keys_scalar_fields in_keys using scalar_key [OF assms] by metis

text \<open>The classified keys of a kind all occur when the classified pairs do.\<close>

lemma field_keys_subset:
  "set (field_keys fs) \<subseteq> A \<longleftrightarrow> (\<forall>(p, f) \<in> set fs. child_field_key p f \<in> A)"
  by (auto simp: field_keys_def)

lemma child_keys_occur:
  assumes "\<forall>a \<in> set asts. list_all dotless (iter_node_types a)"
    and "\<forall>x \<in> set fs. dotless (fst x) \<and> child_field_status (fst x) (snd x) = st"
  shows "set (field_keys fs) \<subseteq> (\<Union>a \<in> set asts. {k \<in> set (dkeys (child_field_counts a)). key_status child_field_status k = st})
    \<longleftrightarrow> (\<forall>(p, f) \<in> set fs. \<exists>a \<in> set asts. \<exists>c. (p, f, c) \<in> set (iter_child_edges a))"
proof -
  have *: "child_field_key p f \<in> (\<Union>a \<in> set asts. {k \<in> set (dkeys (child_field_counts a)). key_status child_field_status k = st})
      \<longleftrightarrow> (\<exists>a \<in> set asts. \<exists>c. (p, f, c) \<in> set (iter_child_edges a))" if "(p, f) \<in> set fs" for p f
  proof -
    from assms(2) that have "dotless p" "child_field_status p f = st" by auto
    then have "key_status child_field_status (child_field_key p f) = st"
      using key_status_dotless [of p] by (simp add: dotless_def)
    moreover have "child_field_key p f \<in> set (dkeys (child_field_counts a)) \<longleftrightarrow> (\<exists>c. (p, f, c) \<in> set (iter_child_edges a))"
      if "a \<in> set asts" for a
      using edge_key [OF _ \<open>dotless p\<close>] assms(1) that by blast
    ultimately show ?thesis unfolding UN_iff mem_Collect_eq by blast
  qed
  show ?thesis unfolding field_keys_subset by (rule ball_cong [OF refl]) (simp only: split_paired_all prod.case *)
qed

lemma scalar_keys_occur:
  assumes "\<forall>a \<in> set asts. list_all dotless (iter_node_types a)"
  shows "set (field_keys SOURCE_SCALAR_FIELDS)
      \<subseteq> (\<Union>a \<in> set asts. {k \<in> set (dkeys (scalar_field_counts a)). key_status scalar_field_status k = ''source''})
    \<longleftrightarrow> (\<forall>(p, f) \<in> set SOURCE_SCALAR_FIELDS. \<exists>a \<in> set asts. \<exists>x. (p, f, x) \<in> set (iter_scalar_fields a))"
proof -
  have *: "child_field_key p f \<in> (\<Union>a \<in> set asts. {k \<in> set (dkeys (scalar_field_counts a)). key_status scalar_field_status k = ''source''})
      \<longleftrightarrow> (\<exists>a \<in> set asts. \<exists>x. (p, f, x) \<in> set (iter_scalar_fields a))" if "(p, f) \<in> set SOURCE_SCALAR_FIELDS" for p f
  proof -
    from tables_dotless(3) that have "dotless p" by (auto simp: list_all_iff)
    then have "key_status scalar_field_status (child_field_key p f) = ''source''"
      using key_status_dotless [of p] that by (simp add: dotless_def scalar_field_status_def)
    moreover have "child_field_key p f \<in> set (dkeys (scalar_field_counts a)) \<longleftrightarrow> (\<exists>x. (p, f, x) \<in> set (iter_scalar_fields a))"
      if "a \<in> set asts" for a
      using scalar_key_in [OF _ \<open>dotless p\<close>] assms that by blast
    ultimately show ?thesis unfolding UN_iff mem_Collect_eq by blast
  qed
  show ?thesis unfolding field_keys_subset by (rule ball_cong [OF refl]) (simp only: split_paired_all prod.case *)
qed

lemma values_occur:
  assumes "\<forall>a \<in> set asts. list_all dotless (iter_node_types a)"
    and "\<And>k. inner seen k = (\<Union>a \<in> set asts. inner (source_scalar_value_counts a) k)"
  shows "unseen_values seen = [] \<longleftrightarrow>
    (\<forall>((p, f), vals) \<in> set SOURCE_SCALAR_VALUE_DOMAINS. \<forall>v \<in> set vals.
       \<exists>a \<in> set asts. \<exists>x. (p, f, x) \<in> set (iter_scalar_fields a) \<and> scalar_value_repr x = scalar_value_repr v)"
proof -
  have "unseen_values seen = [] \<longleftrightarrow> (\<forall>(f, vs) \<in> set value_domains. set vs \<subseteq> inner seen f)"
    by (auto simp: unseen_values_def filter_empty_conv unseen_empty inner_def subset_iff split: prod.splits)
  also have "\<dots> \<longleftrightarrow> (\<forall>((p, f), vals) \<in> set SOURCE_SCALAR_VALUE_DOMAINS.
      scalar_value_repr ` set vals \<subseteq> inner seen (child_field_key p f))"
    by (simp add: value_domains_def case_prod_beta')
  also have "\<dots> \<longleftrightarrow> (\<forall>((p, f), vals) \<in> set SOURCE_SCALAR_VALUE_DOMAINS. \<forall>v \<in> set vals.
       \<exists>a \<in> set asts. \<exists>x. (p, f, x) \<in> set (iter_scalar_fields a) \<and> scalar_value_repr x = scalar_value_repr v)"
  proof -
    have *: "r \<in> inner seen (child_field_key p f) \<longleftrightarrow>
        (\<exists>a \<in> set asts. \<exists>x. (p, f, x) \<in> set (iter_scalar_fields a) \<and> scalar_value_repr x = r)"
      if "((p, f), vals) \<in> set SOURCE_SCALAR_VALUE_DOMAINS" for p f vals r
    proof -
      from tables_dotless(4) that have p: "dotless p" by (auto simp: list_all_iff)
      from that have "domain_of p f \<noteq> None"
        by (simp add: domain_of_def dget_map_of domains_distinct)
      moreover have "child_field_key q g = child_field_key p f \<longleftrightarrow> q = p \<and> g = f"
        if "a \<in> set asts" "(q, g, x) \<in> set (iter_scalar_fields a)" for a q g x
        using scalar_key [OF _ p that(2)] assms(1) that(1) by blast
      ultimately have "r \<in> inner (source_scalar_value_counts a) (child_field_key p f) \<longleftrightarrow>
          (\<exists>x. (p, f, x) \<in> set (iter_scalar_fields a) \<and> scalar_value_repr x = r)" if "a \<in> set asts" for a
        unfolding values_counted(1) mem_Collect_eq using that by metis
      then show ?thesis unfolding assms(2) UN_iff by blast
    qed
    show ?thesis unfolding image_subset_iff by (rule ball_cong [OF refl]) (simp only: split_paired_all prod.case *)
  qed
  finally show ?thesis .
qed

abbreviation total :: "coverage list \<Rightarrow> coverage" where
  "total covs \<equiv> fold (\<lambda>c t. add_coverage t c) covs empty_coverage"

abbreviation seen_types :: "json list \<Rightarrow> string set" where
  "seen_types asts \<equiv> (\<Union>a \<in> set asts. set (iter_node_types a))"

lemma total_aggregate:
  assumes cov: "list_all2 (\<lambda>a c. frontend_coverage a = Inr c) asts covs"
  shows "set (dkeys (aggregate x (cov_node_types (total covs)))) = {k \<in> seen_types asts. node_type_status k = x}"
proof -
  have "set (dkeys (cov_node_types (total covs))) = seen_types asts"
    unfolding total_keys by (rule union_matched [OF cov]) (simp add: coverage_fields keys_node_types)
  then show ?thesis by (simp add: aggregate_def keys_by_status)
qed

lemma total_guards:
  assumes cov: "list_all2 (\<lambda>a c. frontend_coverage a = Inr c) asts covs"
  shows "(\<forall>a \<in> set asts. guard_no_unsupported_nodes a = Inr ()) \<longleftrightarrow>
      aggregate ''excluded'' (cov_node_types (total covs)) = [] \<and> aggregate ''unimplemented'' (cov_node_types (total covs)) = []
      \<and> cov_unclassified_child_fields (total covs) = [] \<and> cov_unclassified_scalar_fields (total covs) = []
      \<and> cov_unknown_source_scalar_values (total covs) = []"
proof -
  note U = union_matched [OF cov] and agg = total_aggregate [OF cov]
  have "(\<forall>a \<in> set asts. guard_no_unsupported_nodes a = Inr ()) \<longleftrightarrow>
      (\<forall>c \<in> set covs. cov_excluded c = [] \<and> cov_unimplemented c = [] \<and> cov_unclassified_child_fields c = []
        \<and> cov_unclassified_scalar_fields c = [] \<and> cov_unknown_source_scalar_values c = [])"
    by (rule all_matched [OF cov]) (rule guard_coverage)
  moreover have e: "{k \<in> seen_types asts. node_type_status k = ''excluded''} = (\<Union>c \<in> set covs. set (dkeys (cov_excluded c)))"
    "{k \<in> seen_types asts. node_type_status k = ''unimplemented''} = (\<Union>c \<in> set covs. set (dkeys (cov_unimplemented c)))"
  proof -
    have "{k \<in> seen_types asts. node_type_status k = x} = (\<Union>a \<in> set asts. {k \<in> set (iter_node_types a). node_type_status k = x})" for x
      by blast
    then show "{k \<in> seen_types asts. node_type_status k = ''excluded''} = (\<Union>c \<in> set covs. set (dkeys (cov_excluded c)))"
      "{k \<in> seen_types asts. node_type_status k = ''unimplemented''} = (\<Union>c \<in> set covs. set (dkeys (cov_unimplemented c)))"
      by (simp only:, intro U [symmetric], simp add: coverage_fields keys_by_status keys_node_types)+
  qed
  ultimately show ?thesis
    unfolding agg empty_keys [of "aggregate x d" for x d] e
    unfolding empty_keys total_keys by (simp only: SUP_bot_conv ball_conj_distrib)
qed

lemma total_types:
  assumes cov: "list_all2 (\<lambda>a c. frontend_coverage a = Inr c) asts covs"
  shows "unseen_types SUPPORTED_NODE_TYPES ''supported'' (cov_node_types (total covs)) = []
      \<and> unseen_types METADATA_NODE_TYPES ''metadata'' (cov_node_types (total covs)) = []
      \<longleftrightarrow> set SUPPORTED_NODE_TYPES \<union> set METADATA_NODE_TYPES \<subseteq> seen_types asts"
proof -
  note agg = total_aggregate [OF cov]
  have "node_type_status k = ''supported''" if "k \<in> set SUPPORTED_NODE_TYPES" for k
    using that by (simp add: node_type_status_def)
  moreover have "node_type_status k = ''metadata''" if "k \<in> set METADATA_NODE_TYPES" for k
    using that tables_disjoint(1) by (simp add: node_type_status_def)
  ultimately show ?thesis unfolding unseen_types_def unseen_empty agg by auto
qed

lemma total_child:
  assumes cov: "list_all2 (\<lambda>a c. frontend_coverage a = Inr c) asts covs"
    and dots: "\<forall>a \<in> set asts. list_all dotless (iter_node_types a)"
  shows "unseen (field_keys SOURCE_CHILD_FIELDS) (dkeys (cov_source_child_fields (total covs))) = []
      \<and> unseen (field_keys METADATA_CHILD_FIELDS) (dkeys (cov_metadata_child_fields (total covs))) = []
      \<longleftrightarrow> (\<forall>(p, f) \<in> set SOURCE_CHILD_FIELDS \<union> set METADATA_CHILD_FIELDS.
            \<exists>a \<in> set asts. \<exists>c. (p, f, c) \<in> set (iter_child_edges a))"
proof -
  note U = union_matched [OF cov]
  have k: "set (dkeys (cov_source_child_fields (total covs)))
      = (\<Union>a \<in> set asts. {k \<in> set (dkeys (child_field_counts a)). key_status child_field_status k = ''source''})"
    "set (dkeys (cov_metadata_child_fields (total covs)))
      = (\<Union>a \<in> set asts. {k \<in> set (dkeys (child_field_counts a)). key_status child_field_status k = ''metadata''})"
    unfolding total_keys by (rule U, simp add: coverage_fields keys_by_status)+
  have "\<forall>x \<in> set SOURCE_CHILD_FIELDS. dotless (fst x) \<and> child_field_status (fst x) (snd x) = ''source''"
    "\<forall>x \<in> set METADATA_CHILD_FIELDS. dotless (fst x) \<and> child_field_status (fst x) (snd x) = ''metadata''"
    using tables_dotless(1,2) tables_disjoint(2) by (simp_all add: list_all_iff child_field_status_def)
  from child_keys_occur [OF dots this(1)] child_keys_occur [OF dots this(2)] show ?thesis
    unfolding unseen_empty k by (simp only: ball_Un)
qed

lemma total_scalar:
  assumes cov: "list_all2 (\<lambda>a c. frontend_coverage a = Inr c) asts covs"
    and dots: "\<forall>a \<in> set asts. list_all dotless (iter_node_types a)"
  shows "unseen (field_keys SOURCE_SCALAR_FIELDS) (dkeys (cov_source_scalar_fields (total covs))) = []
      \<longleftrightarrow> (\<forall>(p, f) \<in> set SOURCE_SCALAR_FIELDS. \<exists>a \<in> set asts. \<exists>x. (p, f, x) \<in> set (iter_scalar_fields a))"
proof -
  note U = union_matched [OF cov]
  have k: "set (dkeys (cov_source_scalar_fields (total covs)))
      = (\<Union>a \<in> set asts. {k \<in> set (dkeys (scalar_field_counts a)). key_status scalar_field_status k = ''source''})"
    unfolding total_keys by (rule U, simp add: coverage_fields keys_by_status)
  show ?thesis unfolding unseen_empty k by (rule scalar_keys_occur [OF dots])
qed

lemma total_vals:
  assumes cov: "list_all2 (\<lambda>a c. frontend_coverage a = Inr c) asts covs"
    and dots: "\<forall>a \<in> set asts. list_all dotless (iter_node_types a)"
  shows "unseen_values (cov_source_scalar_values (total covs)) = [] \<longleftrightarrow>
    (\<forall>((p, f), vals) \<in> set SOURCE_SCALAR_VALUE_DOMAINS. \<forall>v \<in> set vals.
       \<exists>a \<in> set asts. \<exists>x. (p, f, x) \<in> set (iter_scalar_fields a) \<and> scalar_value_repr x = scalar_value_repr v)"
proof (rule values_occur [OF dots])
  note U = union_matched [OF cov]
  have "\<exists>a. frontend_coverage a = Inr c" if "c \<in> set covs" for c
    using cov that by (auto simp: list_all2_conv_all_nth in_set_conv_nth)
  then have "\<forall>c \<in> set covs. distinct (dkeys (cov_source_scalar_values c))"
    using coverage_fields(7) values_counted(2) by metis
  then have "inner (cov_source_scalar_values (total covs)) k = (\<Union>c \<in> set covs. inner (cov_source_scalar_values c) k)" for k
    by (simp add: total_values empty_coverage_def)
  also have "(\<Union>c \<in> set covs. inner (cov_source_scalar_values c) k) = (\<Union>a \<in> set asts. inner (source_scalar_value_counts a) k)" for k
    by (rule U) (simp add: coverage_fields)
  finally show "inner (cov_source_scalar_values (total covs)) k = (\<Union>a \<in> set asts. inner (source_scalar_value_counts a) k)" for k .
qed


definition demo_unit_fields :: node where
  "demo_unit_fields = [(''nodeType'', JStr ''SourceUnit''), (''nodes'', JList [])]"

definition demo_audit_case :: json where
  "demo_audit_case = JObj [(''name'', JStr ''a''), (''solc_import'', JObj [(''source'', JStr ''a.sol'')])]"


end
