(* ===== verification/Spec2Isabelle.thy ===== *)
theory Spec2Isabelle
  imports ObsProps ArgProps CheatProps FingerProps GapProps AdjWitness InertProps MeasureProps
    MinProps DedupProps ManifestRunProps ImportProps CacheProps SolcProps
    RuntimeProps CompareProps PoolProps FrontendAuditProps
begin

text \<open>
  A verification library for the divergence contest of solidity-lean.
\<close>

end
